(* ===== verification/GoPrelude.thy ===== *)
theory GoPrelude
  imports Main "HOL-Library.Word" "HOL-Library.Char_ord" "HOL-Library.List_Lexorder"
begin

text \<open>
  Prelude of the development: the parts of Go's language and standard library that the modelled
  packages rely on.

  \<^item> A Go \<open>string\<close> is a sequence of bytes, here a \<^typ>\<open>char list\<close>; the bytes of radio frames,
    on which the code does bit arithmetic, are \<open>8 word\<close>.
  \<^item> \<open>time.Time\<close> is the number of nanoseconds since the Unix epoch (an \<^typ>\<open>int\<close>); the zero
    time (1 January of year 1) is one such number, and \<open>UTC()\<close> changes only how a time prints.
  \<^item> A function that returns \<open>(value, error)\<close> returns a sum: \<^term>\<open>Inl\<close> is the error.
  \<^item> \<open>strings.TrimSpace\<close> trims the UTF-8 encodings of the Unicode white space characters.
  \<^item> \<open>strings.ToLower\<close> and \<open>strings.ToUpper\<close> map ASCII strings byte by byte; on other strings
    they use the Unicode tables, which are a parameter (a \<open>unicode\<close> record).
\<close>

section \<open>Named collections\<close>

named_theorems res_simps \<open>rewriting of the error-or-value plumbing\<close>
named_theorems tx_elims \<open>inversion of a successful operation into its guards and its effect\<close>

section \<open>Results: an error or a value\<close>

fun res_bind :: "'e + 'a \<Rightarrow> ('a \<Rightarrow> 'e + 'b) \<Rightarrow> 'e + 'b" where
  "res_bind (Inl e) f = Inl e"
| "res_bind (Inr x) f = f x"

definition ensure :: "bool \<Rightarrow> 'e \<Rightarrow> 'e + unit" where
  "ensure ok e = (if ok then Inr () else Inl e)"

definition of_option :: "'e \<Rightarrow> 'a option \<Rightarrow> 'e + 'a" where
  "of_option e x = (case x of None \<Rightarrow> Inl e | Some v \<Rightarrow> Inr v)"

definition is_ok :: "'e + 'a \<Rightarrow> bool" where
  "is_ok r = (case r of Inl _ \<Rightarrow> False | Inr _ \<Rightarrow> True)"

lemma res_bind_Inr [res_simps]: "res_bind m f = Inr y \<longleftrightarrow> (\<exists>x. m = Inr x \<and> f x = Inr y)"
  by (cases m) auto

lemma res_bind_Inl [res_simps]:
  "res_bind m f = Inl e \<longleftrightarrow> m = Inl e \<or> (\<exists>x. m = Inr x \<and> f x = Inl e)"
  by (cases m) auto

lemma ensure_Inr [res_simps]: "ensure ok e = Inr u \<longleftrightarrow> ok"
  by (simp add: ensure_def)

lemma ensure_Inl [res_simps]: "ensure ok e = Inl e' \<longleftrightarrow> \<not> ok \<and> e' = e"
  by (auto simp: ensure_def)

lemma of_option_Inr [res_simps]: "of_option e x = Inr v \<longleftrightarrow> x = Some v"
  by (cases x) (auto simp: of_option_def)

lemma of_option_Inl [res_simps]: "of_option e x = Inl e' \<longleftrightarrow> x = None \<and> e' = e"
  by (cases x) (auto simp: of_option_def)

lemma ensure_simps [simp]: "ensure True e = Inr ()" "ensure False e = Inl e"
  by (simp_all add: ensure_def)

lemma of_option_simps [simp]: "of_option e None = Inl e" "of_option e (Some v) = Inr v"
  by (simp_all add: of_option_def)

lemma is_ok_simps [simp]: "is_ok (Inr x)" "\<not> is_ok (Inl e)"
  by (simp_all add: is_ok_def)

lemma res_bind_cong [fundef_cong]:
  "\<lbrakk> m = m'; \<And>x. m' = Inr x \<Longrightarrow> f x = f' x \<rbrakk> \<Longrightarrow> res_bind m f = res_bind m' f'"
  by (cases m') auto

section \<open>Time\<close>

type_synonym time = int
type_synonym duration = int

definition zero_time :: time where
  "zero_time = - 62135596800000000000"

definition is_zero :: "time \<Rightarrow> bool" where
  "is_zero t = (t = zero_time)"

definition microsecond :: duration where "microsecond = 1000"
definition millisecond :: duration where "millisecond = 1000000"
definition second :: duration where "second = 1000000000"
definition minute :: duration where "minute = 60 * second"
definition hour :: duration where "hour = 60 * minute"

lemmas duration_defs = microsecond_def millisecond_def second_def minute_def hour_def

text \<open>\<open>Time.Sub\<close> saturates at the ends of the 64-bit duration range.\<close>

definition time_sub :: "time \<Rightarrow> time \<Rightarrow> duration" where
  "time_sub t u = max (- (2 ^ 63)) (min (2 ^ 63 - 1) (t - u))"

lemma time_sub_exact: "\<bar>t - u\<bar> < 2 ^ 63 \<Longrightarrow> time_sub t u = t - u"
  by (auto simp: time_sub_def)

lemma time_sub_le_iff: "0 \<le> d \<Longrightarrow> d < 2 ^ 63 - 1 \<Longrightarrow> time_sub t u \<le> d \<longleftrightarrow> t - u \<le> d"
  by (auto simp: time_sub_def min_def max_def)

section \<open>Strings\<close>

abbreviation byte_char :: "nat \<Rightarrow> char" where
  "byte_char n \<equiv> char_of n"

definition ascii_only :: "string \<Rightarrow> bool" where
  "ascii_only s = list_all (\<lambda>c. of_char c < (128 :: nat)) s"

definition lower_char :: "char \<Rightarrow> char" where
  "lower_char c = (let n = (of_char c :: nat) in if 65 \<le> n \<and> n \<le> 90 then char_of (n + 32) else c)"

definition upper_char :: "char \<Rightarrow> char" where
  "upper_char c = (let n = (of_char c :: nat) in if 97 \<le> n \<and> n \<le> 122 then char_of (n - 32) else c)"

text \<open>The Unicode case tables of package \<open>unicode\<close>, used on strings with non-ASCII bytes.\<close>

record unicode =
  uni_lower :: "string \<Rightarrow> string"
  uni_upper :: "string \<Rightarrow> string"

definition to_lower :: "unicode \<Rightarrow> string \<Rightarrow> string" where
  "to_lower u s = (if ascii_only s then map lower_char s else uni_lower u s)"

definition to_upper :: "unicode \<Rightarrow> string \<Rightarrow> string" where
  "to_upper u s = (if ascii_only s then map upper_char s else uni_upper u s)"

text \<open>The UTF-8 encodings of the characters \<open>unicode.IsSpace\<close> accepts.\<close>

definition utf8_spaces :: "string list" where
  "utf8_spaces =
     map (\<lambda>n. [char_of n]) [9, 10, 11, 12, 13, 32 :: nat]
     @ map (\<lambda>n. [char_of (194 :: nat), char_of n]) [133, 160 :: nat]
     @ [[char_of (225 :: nat), char_of (154 :: nat), char_of (128 :: nat)]]
     @ map (\<lambda>n. [char_of (226 :: nat), char_of (128 :: nat), char_of n])
         [128, 129, 130, 131, 132, 133, 134, 135, 136, 137, 138, 168, 169, 175 :: nat]
     @ [[char_of (226 :: nat), char_of (129 :: nat), char_of (159 :: nat)],
        [char_of (227 :: nat), char_of (128 :: nat), char_of (128 :: nat)]]"

fun strip_prefix :: "'a list \<Rightarrow> 'a list \<Rightarrow> 'a list option" where
  "strip_prefix [] s = Some s"
| "strip_prefix (p # ps) [] = None"
| "strip_prefix (p # ps) (c # s) = (if p = c then strip_prefix ps s else None)"

fun strip_any :: "'a list list \<Rightarrow> 'a list \<Rightarrow> 'a list option" where
  "strip_any [] s = None"
| "strip_any (p # ps) s = (case strip_prefix p s of Some r \<Rightarrow> Some r | None \<Rightarrow> strip_any ps s)"

lemma strip_prefix_Some: "strip_prefix p s = Some r \<longleftrightarrow> s = p @ r"
  by (induction p s rule: strip_prefix.induct) auto

lemma strip_prefix_append: "strip_prefix p t = Some r \<Longrightarrow> strip_prefix p (t @ w) = Some (r @ w)"
  by (simp add: strip_prefix_Some)

lemma strip_any_SomeD: "strip_any ps s = Some r \<Longrightarrow> \<exists>p \<in> set ps. s = p @ r"
  by (induction ps) (auto simp: strip_prefix_Some split: option.splits)

lemma strip_any_None: "strip_any ps s = None \<longleftrightarrow> (\<forall>p \<in> set ps. strip_prefix p s = None)"
  by (induction ps) (auto split: option.splits)

text \<open>Dropping list elements while a pattern of the list is a prefix: the loop of
  \<open>strings.TrimLeftFunc\<close>; the fuel is the length, and each round drops at least one byte.\<close>

fun strip_all :: "nat \<Rightarrow> 'a list list \<Rightarrow> 'a list \<Rightarrow> 'a list" where
  "strip_all 0 ps s = s"
| "strip_all (Suc n) ps s = (case strip_any ps s of None \<Rightarrow> s | Some r \<Rightarrow> strip_all n ps r)"

definition trim_left :: "string \<Rightarrow> string" where
  "trim_left s = strip_all (length s) utf8_spaces s"

definition trim_right :: "string \<Rightarrow> string" where
  "trim_right s = rev (strip_all (length s) (map rev utf8_spaces) (rev s))"

definition trim_space :: "string \<Rightarrow> string" where
  "trim_space s = trim_right (trim_left s)"

lemma utf8_spaces_nonempty: "[] \<notin> set utf8_spaces" "[] \<notin> set (map rev utf8_spaces)"
  by (simp_all add: utf8_spaces_def)

lemma strip_all_suffix: "\<exists>w. s = w @ strip_all n ps s"
proof (induction n arbitrary: s)
  case (Suc n)
  show ?case
  proof (cases "strip_any ps s")
    case (Some r)
    then obtain p where "s = p @ r" by (blast dest: strip_any_SomeD)
    moreover obtain w where "r = w @ strip_all n ps r" using Suc by blast
    ultimately have "s = (p @ w) @ strip_all (Suc n) ps s" using Some by simp
    then show ?thesis by blast
  qed simp
qed simp

lemma strip_all_stop:
  "[] \<notin> set ps \<Longrightarrow> length s \<le> n \<Longrightarrow> strip_any ps (strip_all n ps s) = None"
proof (induction n arbitrary: s)
  case 0
  then show ?case by (auto simp: strip_any_None neq_Nil_conv) (metis list.exhaust strip_prefix.simps(2))
next
  case (Suc n)
  show ?case
  proof (cases "strip_any ps s")
    case (Some r)
    then obtain p where "p \<in> set ps" "s = p @ r" by (blast dest: strip_any_SomeD)
    with Suc.prems have "length r \<le> n" by (cases p) auto
    with Suc Some show ?thesis by simp
  qed simp
qed

lemma strip_all_fixed: "strip_any ps s = None \<Longrightarrow> strip_all n ps s = s"
  by (cases n) simp_all

lemma strip_any_prefix_None: "strip_any ps (t @ w) = None \<Longrightarrow> strip_any ps t = None"
  unfolding strip_any_None by (metis option.exhaust option.distinct(1) strip_prefix_append)

lemma trim_left_stop: "strip_any utf8_spaces (trim_left s) = None"
  by (simp add: trim_left_def strip_all_stop utf8_spaces_nonempty)

lemma trim_right_prefix: "\<exists>w. s = trim_right s @ w"
proof -
  obtain w where "rev s = w @ strip_all (length s) (map rev utf8_spaces) (rev s)"
    using strip_all_suffix by blast
  then have "s = trim_right s @ rev w"
    unfolding trim_right_def by (metis rev_append rev_rev_ident)
  then show ?thesis by blast
qed

lemma trim_left_suffix: "\<exists>w. s = w @ trim_left s"
  unfolding trim_left_def by (rule strip_all_suffix)

lemma trim_right_idem: "trim_right (trim_right s) = trim_right s"
proof -
  have "strip_any (map rev utf8_spaces) (rev (trim_right s)) = None"
    by (simp add: trim_right_def strip_all_stop utf8_spaces_nonempty del: set_map)
  then show ?thesis
    unfolding trim_right_def [of "trim_right s"] by (simp add: strip_all_fixed)
qed

lemma trim_space_idem [simp]: "trim_space (trim_space s) = trim_space s"
proof -
  obtain w where "trim_left s = trim_space s @ w"
    unfolding trim_space_def using trim_right_prefix by blast
  then have "strip_any utf8_spaces (trim_space s) = None"
    using trim_left_stop [of s] strip_any_prefix_None by metis
  then have "trim_left (trim_space s) = trim_space s"
    by (simp add: trim_left_def strip_all_fixed)
  then show ?thesis by (simp add: trim_space_def trim_right_idem)
qed

lemma trim_space_Nil [simp]: "trim_space [] = []"
  by (simp add: trim_space_def trim_left_def trim_right_def)

lemma trim_space_length: "length (trim_space s) \<le> length s"
proof -
  obtain w v where "s = w @ trim_left s" "trim_left s = trim_space s @ v"
    unfolding trim_space_def using trim_left_suffix trim_right_prefix by metis
  then show ?thesis by (metis add_leD1 add_leD2 length_append order.refl le_trans)
qed

text \<open>Strings of visible ASCII characters are not trimmed: how concrete strings are evaluated.\<close>

definition visible :: "char \<Rightarrow> bool" where
  "visible c = (32 < (of_char c :: nat) \<and> (of_char c :: nat) < 127)"

lemma utf8_spaces_not_visible:
  "\<forall>p \<in> set utf8_spaces. \<not> visible (hd p)" "\<forall>p \<in> set (map rev utf8_spaces). \<not> visible (hd p)"
  by (simp_all add: utf8_spaces_def visible_def)

lemma strip_any_visible:
  assumes "\<forall>p \<in> set ps. p \<noteq> [] \<and> \<not> visible (hd p)" and "s = [] \<or> visible (hd s)"
  shows "strip_any ps s = None"
  unfolding strip_any_None
proof
  fix p assume "p \<in> set ps"
  with assms(1) obtain a q where p: "p = a # q" and "\<not> visible a" by (cases p) auto
  then show "strip_prefix p s = None" using assms(2) by (cases s) auto
qed

lemma trim_space_visible:
  assumes "s = [] \<or> visible (hd s) \<and> visible (last s)"
  shows "trim_space s = s"
proof (cases s)
  case (Cons c t)
  have "strip_any utf8_spaces s = None"
    using utf8_spaces_not_visible utf8_spaces_nonempty assms by (intro strip_any_visible) auto
  then have l: "trim_left s = s" by (simp add: trim_left_def strip_all_fixed)
  have "rev s = [] \<or> visible (hd (rev s))"
    using assms by (auto simp: hd_rev)
  moreover have "\<forall>p \<in> set (map rev utf8_spaces). p \<noteq> [] \<and> \<not> visible (hd p)"
    using utf8_spaces_not_visible(2) utf8_spaces_nonempty(2) by blast
  ultimately have "strip_any (map rev utf8_spaces) (rev s) = None"
    by (rule strip_any_visible [rotated])
  then show ?thesis
    by (simp add: trim_space_def l) (simp add: trim_right_def strip_all_fixed)
qed simp

lemma visible_simps [simp]:
  "visible (Char b0 b1 b2 b3 b4 b5 b6 b7) \<longleftrightarrow>
     \<not> b7 \<and> (b5 \<or> b6) \<and> \<not> (b0 \<and> b1 \<and> b2 \<and> b3 \<and> b4 \<and> b5 \<and> b6)
     \<and> (b6 \<or> b0 \<or> b1 \<or> b2 \<or> b3 \<or> b4)"
  by (auto simp: visible_def of_char_def)

section \<open>Decimal integers\<close>

text \<open>\<open>strconv.Atoi\<close>: an optional sign and at least one decimal digit, within 64 bits.\<close>

definition digit_value :: "char \<Rightarrow> nat option" where
  "digit_value c = (let n = of_char c in if 48 \<le> n \<and> n \<le> 57 then Some (n - 48) else None)"

fun digits_value :: "nat \<Rightarrow> string \<Rightarrow> nat option" where
  "digits_value acc [] = Some acc"
| "digits_value acc (c # s) =
     (case digit_value c of None \<Rightarrow> None | Some d \<Rightarrow> digits_value (10 * acc + d) s)"

definition parse_digits :: "string \<Rightarrow> nat option" where
  "parse_digits s = (if s = [] then None else digits_value 0 s)"

definition atoi :: "string \<Rightarrow> int option" where
  "atoi s =
     (let negative = (s \<noteq> [] \<and> hd s = CHR ''-'');
          digits = (if s \<noteq> [] \<and> (hd s = CHR ''-'' \<or> hd s = CHR ''+'') then tl s else s)
      in case parse_digits digits of
           None \<Rightarrow> None
         | Some n \<Rightarrow>
             let v = (if negative then - int n else int n)
             in if - (2 ^ 63) \<le> v \<and> v < 2 ^ 63 then Some v else None)"

text \<open>\<open>strconv.Itoa\<close> and the verb \<open>%d\<close>: decimal digits, most significant first.\<close>

fun show_nat :: "nat \<Rightarrow> string" where
  "show_nat n = (if n < 10 then [char_of (48 + n)] else show_nat (n div 10) @ [char_of (48 + n mod 10)])"

declare show_nat.simps [simp del]

definition itoa :: "int \<Rightarrow> string" where
  "itoa v = (if v < 0 then CHR ''-'' # show_nat (nat (- v)) else show_nat (nat v))"

section \<open>Splitting strings\<close>

text \<open>\<open>strings.Split\<close> with a separator of one byte: one part more than there are separators.\<close>

fun split_on :: "char \<Rightarrow> string \<Rightarrow> string list" where
  "split_on c [] = [[]]"
| "split_on c (x # s) =
     (if x = c then [] # split_on c s
      else case split_on c s of [] \<Rightarrow> [[x]] | p # ps \<Rightarrow> (x # p) # ps)"

definition join_with :: "char \<Rightarrow> string list \<Rightarrow> string" where
  "join_with c ps = (case ps of [] \<Rightarrow> [] | p # qs \<Rightarrow> p @ concat (map (\<lambda>q. c # q) qs))"

lemma split_on_not_Nil [simp]: "split_on c s \<noteq> []"
  by (induction s) (auto split: list.splits)

lemma join_split [simp]: "join_with c (split_on c s) = s"
proof (induction s)
  case (Cons x s)
  then show ?case by (cases "split_on c s") (auto simp: join_with_def)
qed (simp add: join_with_def)

lemma split_on_clean: "c \<notin> set p \<Longrightarrow> split_on c p = [p]"
  by (induction p) auto

lemma split_on_append: "c \<notin> set p \<Longrightarrow> split_on c (p @ c # s) = p # split_on c s"
  by (induction p) (auto split: list.splits)

lemma split_on_parts: "p \<in> set (split_on c s) \<Longrightarrow> c \<notin> set p"
proof (induction s arbitrary: p)
  case (Cons x s)
  then show ?case
    by (cases "split_on c s") (auto split: if_splits dest: Cons.IH)
qed simp

section \<open>Durations are 64 bits wide\<close>

definition wrap64 :: "int \<Rightarrow> int" where
  "wrap64 v = (v + 2 ^ 63) mod 2 ^ 64 - 2 ^ 63"

lemma wrap64_id: "- (2 ^ 63) \<le> v \<Longrightarrow> v < 2 ^ 63 \<Longrightarrow> wrap64 v = v"
  by (simp add: wrap64_def)

end
