(* ===== verification/BigEndian.thy ===== *)
theory BigEndian
  imports GoPrelude
begin

text \<open>
  The big-endian encoding of unsigned integers (\<open>binary.BigEndian.PutUint64\<close> and \<open>Uint64\<close>) as
  byte strings, and why the outbox uses it: byte order of the encodings is numeric order.
\<close>

fun be_digits :: "nat \<Rightarrow> nat \<Rightarrow> string" where
  "be_digits 0 v = []"
| "be_digits (Suc n) v = char_of (v div 256 ^ n mod 256) # be_digits n v"

fun be_value :: "nat \<Rightarrow> string \<Rightarrow> nat" where
  "be_value acc [] = acc"
| "be_value acc (c # s) = be_value (acc * 256 + of_char c) s"

definition be64 :: "64 word \<Rightarrow> string" where
  "be64 w = be_digits 8 (unat w)"

definition read_be64 :: "string \<Rightarrow> 64 word" where
  "read_be64 s = word_of_nat (be_value 0 (take 8 s))"

lemma length_be_digits [simp]: "length (be_digits n v) = n"
  by (induction n) auto

lemma length_be64 [simp]: "length (be64 w) = 8"
  by (simp add: be64_def)

lemma be_digits_mod: "be_digits n (v mod 256 ^ m) = be_digits n v" if "n \<le> m"
  using that
proof (induction n)
  case (Suc n)
  have "v mod 256 ^ m div 256 ^ n mod 256 = v div 256 ^ n mod 256"
  proof -
    from Suc.prems obtain d where m: "m = n + Suc d"
      by (metis Suc_le_eq add_Suc_right less_iff_Suc_add)
    have "v mod 256 ^ m = 256 ^ n * (v div 256 ^ n mod 256 ^ Suc d) + v mod 256 ^ n"
      unfolding m power_add by (rule mod_mult2_eq)
    then have "v mod 256 ^ m div 256 ^ n = v div 256 ^ n mod 256 ^ Suc d"
      by simp
    moreover have "(256 :: nat) dvd 256 ^ Suc d" by simp
    ultimately show ?thesis by (simp only: mod_mod_cancel)
  qed
  with Suc show ?case by simp
qed simp

lemma char_of_less_iff:
  "p < 256 \<Longrightarrow> q < 256 \<Longrightarrow> (char_of p < (char_of q :: char)) \<longleftrightarrow> p < (q :: nat)"
  by (simp add: less_char_def)

lemma char_of_eq_small: "p < 256 \<Longrightarrow> q < 256 \<Longrightarrow> (char_of p = (char_of q :: char)) \<longleftrightarrow> p = (q :: nat)"
  by (metis mod_less of_char_of)

lemma be_digits_less:
  assumes "a < 256 ^ n" "b < 256 ^ n"
  shows "be_digits n a @ x < be_digits n b @ y \<longleftrightarrow> a < b \<or> a = b \<and> x < y"
  using assms
proof (induction n arbitrary: a b)
  case (Suc n)
  define p q r s where "p = a div 256 ^ n" "q = b div 256 ^ n" "r = a mod 256 ^ n" "s = b mod 256 ^ n"
  have ab: "a = 256 ^ n * p + r" "b = 256 ^ n * q + s" "r < 256 ^ n" "s < 256 ^ n"
    by (simp_all add: p_q_r_s_def)
  have small: "p < 256" "q < 256"
    using Suc.prems by (simp_all add: p_q_r_s_def less_mult_imp_div_less mult.commute)
  have digits: "be_digits n a = be_digits n r" "be_digits n b = be_digits n s"
    by (simp_all add: p_q_r_s_def be_digits_mod)
  have IH: "be_digits n r @ x < be_digits n s @ y \<longleftrightarrow> r < s \<or> r = s \<and> x < y"
    using Suc.IH [OF ab(3,4)] .
  have less: "p < q \<Longrightarrow> a < b" and greater: "q < p \<Longrightarrow> b < a"
  proof -
    have lift: "u < v \<Longrightarrow> t < 256 ^ n \<Longrightarrow> 256 ^ n * u + t < 256 ^ n * v" for u v t :: nat
      by (metis Suc_leI add.commute add_less_cancel_left mult_Suc_right mult_le_mono2 order.strict_trans2)
    show "p < q \<Longrightarrow> a < b" using lift [of p q r] ab by linarith
    show "q < p \<Longrightarrow> b < a" using lift [of q p s] ab by linarith
  qed
  have "be_digits (Suc n) a @ x < be_digits (Suc n) b @ y \<longleftrightarrow> p < q \<or> p = q \<and> (r < s \<or> r = s \<and> x < y)"
    using small by (simp add: digits IH char_of_less_iff char_of_eq_small flip: p_q_r_s_def)
  also have "\<dots> \<longleftrightarrow> a < b \<or> a = b \<and> x < y"
    using less greater ab by (cases p q rule: linorder_cases) auto
  finally show ?case .
qed simp

lemma unat_64: "unat (w :: 64 word) < 256 ^ 8"
proof -
  have "unat w < 2 ^ LENGTH(64)" by (rule unsigned_less)
  then show ?thesis by simp
qed

lemma be64_less: "be64 a @ x < be64 b @ y \<longleftrightarrow> a < b \<or> a = b \<and> x < y"
  using be_digits_less [of "unat a" 8 "unat b" x y] unat_64 [of a] unat_64 [of b]
  by (simp add: be64_def word_less_nat_alt word_unat_eq_iff)

lemma be_value_append: "be_value acc (s @ t) = be_value (be_value acc s) t"
  by (induction s arbitrary: acc) auto

lemma be_value_digits: "be_value acc (be_digits n v) = acc * 256 ^ n + v mod 256 ^ n"
proof (induction n arbitrary: acc)
  case (Suc n)
  have "v mod 256 ^ Suc n = v div 256 ^ n mod 256 * 256 ^ n + v mod 256 ^ n"
    by (simp add: mod_mult2_eq mult.commute [of 256])
  then show ?case by (simp add: Suc algebra_simps)
qed simp

lemma read_be64_be64 [simp]: "read_be64 (be64 w @ s) = w"
proof -
  show ?thesis
    using unat_64 [of w] by (simp add: read_be64_def be64_def be_value_digits)
qed

lemma be64_inject [simp]: "be64 a @ x = be64 b @ y \<longleftrightarrow> a = b \<and> x = y"
  by (metis append_eq_append_conv length_be64 read_be64_be64)

end
