(* ===== verification/Bolt.thy ===== *)
theory Bolt
  imports GoPrelude "HOL-Library.RBT"
begin

text \<open>
  The interface of the embedded key-value store (package \<open>go.etcd.io/bbolt\<close>, which is not part of
  the repository). A bucket type is a parameter: a \<open>bucket_ops\<close> record of the operations that
  \<open>internal/outbox/store.go\<close> calls. What the code relies on is the locale \<open>bolt_bucket\<close>, the
  documented behaviour of a bucket: a map from byte strings to values whose iteration
  (\<open>ForEach\<close>, \<open>Cursor.First\<close>/\<open>Next\<close>) is in byte order; \<open>Put\<close> may refuse a key (empty or too long)
  and otherwise replaces the value; \<open>Delete\<close> of a missing key does nothing.

  \<open>bsweep\<close> is the sequence of entries that a cursor loop visits when it deletes, on the way, the
  entries that satisfy the predicate. The documentation of bbolt leaves open whether such a loop
  visits every entry, so the contract only says that it visits existing entries, each at most once.

  The contract is interpreted on two executable buckets: the red-black trees of the library, and a
  write log (newest write first), which the concrete examples use.
\<close>

section \<open>Weights of finite maps\<close>

definition weight_sum :: "('v \<Rightarrow> int) \<Rightarrow> ('k \<rightharpoonup> 'v) \<Rightarrow> int" where
  "weight_sum f m = (\<Sum>k \<in> dom m. f (the (m k)))"

definition opt_weight :: "('v \<Rightarrow> int) \<Rightarrow> 'v option \<Rightarrow> int" where
  "opt_weight f x = (case x of None \<Rightarrow> 0 | Some v \<Rightarrow> f v)"

lemma opt_weight_simps [simp]: "opt_weight f None = 0" "opt_weight f (Some v) = f v"
  by (simp_all add: opt_weight_def)

lemma weight_sum_empty [simp]: "weight_sum f Map.empty = 0"
  by (simp add: weight_sum_def)

lemma weight_sum_split:
  assumes "finite (dom m)"
  shows "weight_sum f m = (\<Sum>k' \<in> dom m - {k}. f (the (m k'))) + opt_weight f (m k)"
proof (cases "m k")
  case None
  then have "dom m - {k} = dom m" by auto
  with None show ?thesis by (simp add: weight_sum_def)
next
  case (Some v)
  then have "k \<in> dom m" by auto
  with Some sum.remove [OF assms this, of "\<lambda>k. f (the (m k))"] show ?thesis
    by (simp add: weight_sum_def)
qed

lemma weight_sum_upd [simp]:
  assumes "finite (dom m)"
  shows "weight_sum f (m(k \<mapsto> v)) = weight_sum f m - opt_weight f (m k) + f v"
proof -
  have "(\<Sum>k' \<in> dom (m(k \<mapsto> v)) - {k}. f (the ((m(k \<mapsto> v)) k')))
      = (\<Sum>k' \<in> dom m - {k}. f (the (m k')))"
    by (rule sum.cong) auto
  with weight_sum_split [OF assms, of f k] weight_sum_split [of "m(k \<mapsto> v)" f k] assms
  show ?thesis by simp
qed

lemma weight_sum_del [simp]:
  assumes "finite (dom m)"
  shows "weight_sum f (m(k := None)) = weight_sum f m - opt_weight f (m k)"
proof -
  have "(\<Sum>k' \<in> dom (m(k := None)) - {k}. f (the ((m(k := None)) k')))
      = (\<Sum>k' \<in> dom m - {k}. f (the (m k')))"
    by (rule sum.cong) auto
  with weight_sum_split [OF assms, of f k] weight_sum_split [of "m(k := None)" f k] assms
  show ?thesis by simp
qed

lemma weight_sum_map_of:
  "distinct (map fst xs) \<Longrightarrow> sum_list (map (\<lambda>kv. f (snd kv)) xs) = weight_sum f (map_of xs)"
proof (induction xs)
  case (Cons kv xs)
  obtain k v where kv: "kv = (k, v)" by fastforce
  with Cons.prems have "map_of xs k = None" by (simp add: map_of_eq_None_iff)
  then have "weight_sum f (map_of (kv # xs)) = weight_sum f (map_of xs) + f v"
    by (simp add: kv finite_dom_map_of del: fun_upd_apply)
  with Cons kv show ?case by (simp add: fun_upd_def)
qed simp

lemma weight_sum_one: "finite (dom m) \<Longrightarrow> weight_sum (\<lambda>_. 1) m = int (card (dom m))"
  by (simp add: weight_sum_def)

lemma weight_sum_nonneg: "(\<And>v. 0 \<le> f v) \<Longrightarrow> 0 \<le> weight_sum f m"
  by (simp add: weight_sum_def sum_nonneg)

lemma weight_sum_ge: "finite (dom m) \<Longrightarrow> (\<And>v. 0 \<le> f v) \<Longrightarrow> m k = Some v \<Longrightarrow> f v \<le> weight_sum f m"
  unfolding weight_sum_def by (rule order.trans [OF _ member_le_sum [of k]]) auto

section \<open>Buckets\<close>

type_synonym key = string

record ('b, 'v) bucket_ops =
  bget :: "'b \<Rightarrow> key \<Rightarrow> 'v option"
  bput :: "key \<Rightarrow> 'v \<Rightarrow> 'b \<Rightarrow> 'b option"
  bdel :: "key \<Rightarrow> 'b \<Rightarrow> 'b"
  bentries :: "'b \<Rightarrow> (key \<times> 'v) list"
  bnew :: "'b"
  bsweep :: "('v \<Rightarrow> bool) \<Rightarrow> 'b \<Rightarrow> (key \<times> 'v) list"

locale bolt_bucket =
  fixes B :: "('b, 'v) bucket_ops"
  assumes entries_ascending: "sorted_wrt (<) (map fst (bentries B b))"
    and get_entries: "bget B b = map_of (bentries B b)"
    and put_get: "bput B k v b = Some b' \<Longrightarrow> bget B b' = (bget B b)(k \<mapsto> v)"
    and del_get: "bget B (bdel B k b) = (bget B b)(k := None)"
    and new_get: "bget B (bnew B) = Map.empty"
    and sweep_entries: "set (bsweep B P b) \<subseteq> set (bentries B b)"
    and sweep_distinct: "distinct (map fst (bsweep B P b))"
begin

lemma entries_distinct: "distinct (map fst (bentries B b))"
  using entries_ascending [of b] by (simp add: strict_sorted_iff)

lemma bucket_finite [simp]: "finite (dom (bget B b))"
  by (simp add: get_entries finite_dom_map_of)

lemma entries_get: "(k, v) \<in> set (bentries B b) \<longleftrightarrow> bget B b k = Some v"
  by (simp add: get_entries entries_distinct)

lemma entries_sum: "sum_list (map (\<lambda>kv. f (snd kv)) (bentries B b)) = weight_sum f (bget B b)"
  by (simp add: get_entries weight_sum_map_of entries_distinct)

lemma entries_length: "int (length (bentries B b)) = weight_sum (\<lambda>_. 1) (bget B b)"
proof -
  have "int (length (bentries B b)) = sum_list (map (\<lambda>kv. 1) (bentries B b))"
    by (simp add: sum_list_triv)
  then show ?thesis using entries_sum [of "\<lambda>_. 1" b] by simp
qed

lemma first_entry:
  assumes "bentries B b = (k, v) # rest"
  shows "bget B b k = Some v" and "bget B b k' = Some v' \<Longrightarrow> k \<le> k'"
proof -
  show "bget B b k = Some v" by (simp add: get_entries assms)
  assume "bget B b k' = Some v'"
  then have "(k', v') \<in> set ((k, v) # rest)" by (simp add: entries_get flip: assms)
  then show "k \<le> k'" using entries_ascending [of b] by (auto simp: assms)
qed

lemma no_entries: "bentries B b = [] \<longleftrightarrow> bget B b = Map.empty"
  by (simp add: get_entries)

lemma sweep_get: "(k, v) \<in> set (bsweep B P b) \<Longrightarrow> bget B b k = Some v"
  using sweep_entries entries_get by blast

lemmas bucket_gets = put_get del_get new_get

end

section \<open>Red-black trees are buckets\<close>

definition key_ok :: "key \<Rightarrow> bool" where
  "key_ok k = (k \<noteq> [] \<and> length k \<le> 32768)"

definition rbt_bucket :: "((key, 'v) rbt, 'v) bucket_ops" where
  "rbt_bucket = \<lparr>
     bget = RBT.lookup,
     bput = (\<lambda>k v b. if key_ok k then Some (RBT.insert k v b) else None),
     bdel = RBT.delete,
     bentries = RBT.entries,
     bnew = RBT.empty,
     bsweep = (\<lambda>P. RBT.entries)\<rparr>"

lemma strict_sorted_keys: "sorted_wrt (<) (map fst (RBT.entries t))"
  by (simp add: strict_sorted_iff RBT.distinct_entries RBT.sorted_entries)

interpretation rbt: bolt_bucket rbt_bucket
  by unfold_locales
    (auto simp: rbt_bucket_def RBT.map_of_entries RBT.distinct_entries strict_sorted_keys
      split: if_splits)

section \<open>Write logs are buckets\<close>

type_synonym 'v write_log = "(key \<times> 'v) list"

definition log_entries :: "'v write_log \<Rightarrow> (key \<times> 'v) list" where
  "log_entries b = map (\<lambda>k. (k, the (map_of b k))) (sort (remdups (map fst b)))"

definition log_bucket :: "('v write_log, 'v) bucket_ops" where
  "log_bucket = \<lparr>
     bget = map_of,
     bput = (\<lambda>k v b. if key_ok k then Some ((k, v) # b) else None),
     bdel = (\<lambda>k b. filter (\<lambda>kv. fst kv \<noteq> k) b),
     bentries = log_entries,
     bnew = [],
     bsweep = (\<lambda>P. log_entries)\<rparr>"

lemma fst_log_entries: "map fst (log_entries b) = sort (remdups (map fst b))"
  by (simp add: log_entries_def comp_def)

lemma map_of_log_entries: "map_of (log_entries b) = map_of b"
proof
  fix k
  show "map_of (log_entries b) k = map_of b k"
  proof (cases "map_of b k")
    case None
    then have "k \<notin> set (map fst (log_entries b))"
      unfolding fst_log_entries by (simp add: map_of_eq_None_iff)
    then have "map_of (log_entries b) k = None" by (simp add: map_of_eq_None_iff)
    with None show ?thesis by simp
  next
    case (Some v)
    then have "(k, v) \<in> set (log_entries b)"
      by (force simp: log_entries_def dest: map_of_SomeD)
    moreover have "distinct (map fst (log_entries b))" by (simp add: fst_log_entries)
    ultimately show ?thesis using Some by simp
  qed
qed

lemma map_of_filter_key: "map_of (filter (\<lambda>kv. fst kv \<noteq> k) b) = (map_of b)(k := None)"
  by (induction b) (auto simp: fun_eq_iff)

interpretation logb: bolt_bucket log_bucket
  by unfold_locales
    (auto simp: log_bucket_def map_of_log_entries map_of_filter_key fst_log_entries strict_sorted_iff
      split: if_splits)

lemmas log_bucket_simps [simp] =
  bucket_ops.simps(1-6) [where ?more = "()"]

end
