(* ===== verification/OutboxTypes.thy ===== *)
theory OutboxTypes
  imports GoPrelude BigEndian Bolt
begin

text \<open>
  The data of the durable delivery outbox (\<open>internal/outbox/types.go\<close> and the tables of
  \<open>internal/outbox/store.go\<close>): the delivery record, the dispatch pause, the installation rotation
  journal, the reconciled binding, the errors, the database and the open store.

  A value of the buckets \<open>deliveries\<close> and \<open>quarantine\<close> is the JSON text of a record. It is modelled by
  a cell: what \<open>json.Unmarshal\<close> makes of it (\<^term>\<open>None\<close> when it fails) and its number of bytes. The
  environment says how many bytes \<open>json.Marshal\<close> produces (\<^term>\<open>None\<close>: it fails, as for a time whose
  year has more than four digits) and how it rewrites text (invalid UTF-8 is replaced); it also holds
  the bucket operations of bbolt.
\<close>

section \<open>Records of types.go\<close>

datatype state = StatePending | StateInflight | StateQuarantined | StateOther string

record delivery =
  dl_id :: string
  dl_envelope :: string
  dl_sha256 :: string
  dl_idempotency :: string
  dl_owner :: string
  dl_agent :: string
  dl_installation :: string
  dl_cred_gen :: "64 word"
  dl_bind_gen :: "64 word"
  dl_endpoint :: string
  dl_state :: state
  dl_seq :: "64 word"
  dl_enqueued :: time
  dl_next :: time
  dl_attempts :: int
  dl_status_code :: int
  dl_error_code :: string
  dl_error :: string
  dl_request_id :: string
  dl_quarantined_at :: time
  dl_quarantine_reason :: string

datatype pause_kind = PauseCollision | PauseCredential | PauseBinding | PauseOther string

record dispatch_pause =
  dp_kind :: pause_kind
  dp_reason :: string
  dp_id :: string
  dp_at :: time
  dp_cred_gen :: "64 word"
  dp_bind_gen :: "64 word"
  dp_status_code :: int
  dp_error_code :: string
  dp_request_id :: string

datatype rotation_phase =
  PhaseIntent | PhaseOldQuarantined | PhaseStateRotated | PhaseCompleted | PhaseOther string

record rotation =
  ir_old :: string
  ir_new :: string
  ir_reason :: string
  ir_phase :: rotation_phase
  ir_started :: time
  ir_updated :: time
  ir_quarantined :: int

record attempt_failure =
  af_status :: int
  af_code :: string
  af_message :: string
  af_request :: string

record binding =
  bi_owner :: string
  bi_agent :: string
  bi_installation :: string
  bi_cred_gen :: "64 word"
  bi_bind_gen :: "64 word"

record reconciled_binding =
  rb_owner :: string
  rb_agent :: string
  rb_installation :: string

record reconcile_result =
  rr_kept :: int
  rr_rebind :: int
  rr_reset :: int

datatype outbox_error =
    DeliveryExists | DeliveryNotFound | PauseMismatch | OutboxFull | UnknownSchema
  | PruneFailed outbox_error | OutboxClosed | PathRequired | IdEnvelopeRequired
  | DecodeDelivery | DecodePause | DecodeRotation | MarshalFailed | PutFailed | CountersUnderflow
  | NotPending string | PauseKindRequired | UnknownPauseKind string | RotationIdsRequired
  | RotationMissing | RotationPhase rotation_phase | ReceiverRequired | BindingRequired
  | InvalidDurableState string | CommitFailed | MkdirFailed | OpenFailed | PreserveFailed
  | StageFull | EngineClosed

section \<open>Tables\<close>

record cell =
  cl_record :: "delivery option"
  cl_len :: nat

abbreviation cell_len :: "cell \<Rightarrow> int" where
  "cell_len c \<equiv> int (cl_len c)"

text \<open>A typed value of the bucket \<open>meta\<close>: missing (or empty), not decodable, or stored.\<close>

datatype 'a slot = Absent | Corrupt | Stored 'a

record ('b, 'd) env =
  cells :: "('b, cell) bucket_ops"
  ids :: "('d, key) bucket_ops"
  json_size :: "delivery \<Rightarrow> nat option"
  json_pause_ok :: "dispatch_pause \<Rightarrow> bool"
  json_rotation_ok :: "rotation \<Rightarrow> bool"
  json_text :: "string \<Rightarrow> string"

text \<open>What the code relies on: the two bucket types are buckets, JSON text is not empty, and text that
  went through JSON once is not changed by going through it again.\<close>

definition env_ok :: "('b, 'd) env \<Rightarrow> bool" where
  "env_ok e \<longleftrightarrow> bolt_bucket (cells e) \<and> bolt_bucket (ids e) \<and>
     (\<forall>d n. json_size e d = Some n \<longrightarrow> 0 < n) \<and>
     (\<forall>s. json_text e (json_text e s) = json_text e s)"

record ('b, 'd) db =
  db_deliveries :: 'b
  db_sequence :: "64 word"
  db_due :: 'd
  db_quarantine :: 'b
  db_count :: int
  db_used :: int
  db_schema :: "string option"
  db_pause :: "dispatch_pause slot"
  db_rotation :: "rotation slot"
  db_marker :: "reconciled_binding slot"

record config =
  cf_path :: string
  cf_max_events :: int
  cf_max_bytes :: int
  cf_retention :: duration

record ('b, 'd) store =
  st_db :: "('b, 'd) db option"
  st_cfg :: config
  st_recovered :: bool
  st_recovery_code :: string
  st_maintenance_code :: string
  st_maintenance_error :: "outbox_error option"

text \<open>What one call of an operation meets: the clock of the store's configuration, and for each of
  its write transactions, in order, whether bbolt can commit it.\<close>

record io =
  io_now :: time
  io_commit :: "nat \<Rightarrow> bool"

section \<open>Text that goes through JSON\<close>

definition scrub_delivery :: "(string \<Rightarrow> string) \<Rightarrow> delivery \<Rightarrow> delivery" where
  "scrub_delivery tv d = d\<lparr>
     dl_id := tv (dl_id d), dl_sha256 := tv (dl_sha256 d), dl_idempotency := tv (dl_idempotency d),
     dl_owner := tv (dl_owner d), dl_agent := tv (dl_agent d),
     dl_installation := tv (dl_installation d), dl_endpoint := tv (dl_endpoint d),
     dl_error_code := tv (dl_error_code d), dl_error := tv (dl_error d),
     dl_request_id := tv (dl_request_id d), dl_quarantine_reason := tv (dl_quarantine_reason d)\<rparr>"

definition scrub_pause :: "(string \<Rightarrow> string) \<Rightarrow> dispatch_pause \<Rightarrow> dispatch_pause" where
  "scrub_pause tv p = p\<lparr>
     dp_reason := tv (dp_reason p), dp_id := tv (dp_id p),
     dp_error_code := tv (dp_error_code p), dp_request_id := tv (dp_request_id p)\<rparr>"

definition scrub_rotation :: "(string \<Rightarrow> string) \<Rightarrow> rotation \<Rightarrow> rotation" where
  "scrub_rotation tv r = r\<lparr>
     ir_old := tv (ir_old r), ir_new := tv (ir_new r), ir_reason := tv (ir_reason r)\<rparr>"

definition scrub_marker :: "(string \<Rightarrow> string) \<Rightarrow> reconciled_binding \<Rightarrow> reconciled_binding" where
  "scrub_marker tv m = \<lparr>
     rb_owner = tv (rb_owner m), rb_agent = tv (rb_agent m),
     rb_installation = tv (rb_installation m)\<rparr>"

lemma scrub_delivery_sel [simp]:
  "dl_id (scrub_delivery tv d) = tv (dl_id d)"
  "dl_envelope (scrub_delivery tv d) = dl_envelope d"
  "dl_owner (scrub_delivery tv d) = tv (dl_owner d)"
  "dl_agent (scrub_delivery tv d) = tv (dl_agent d)"
  "dl_installation (scrub_delivery tv d) = tv (dl_installation d)"
  "dl_state (scrub_delivery tv d) = dl_state d"
  "dl_seq (scrub_delivery tv d) = dl_seq d"
  "dl_next (scrub_delivery tv d) = dl_next d"
  "dl_enqueued (scrub_delivery tv d) = dl_enqueued d"
  "dl_attempts (scrub_delivery tv d) = dl_attempts d"
  "dl_sha256 (scrub_delivery tv d) = tv (dl_sha256 d)"
  "dl_idempotency (scrub_delivery tv d) = tv (dl_idempotency d)"
  "dl_endpoint (scrub_delivery tv d) = tv (dl_endpoint d)"
  "dl_cred_gen (scrub_delivery tv d) = dl_cred_gen d"
  "dl_bind_gen (scrub_delivery tv d) = dl_bind_gen d"
  "dl_quarantined_at (scrub_delivery tv d) = dl_quarantined_at d"
  by (simp_all add: scrub_delivery_def)

section \<open>Concrete environments for evaluation\<close>

text \<open>Every record is 100 bytes of JSON and one byte for each byte of its envelope.\<close>

definition log_env :: "(cell write_log, key write_log) env" where
  "log_env = \<lparr>cells = log_bucket, ids = log_bucket,
     json_size = (\<lambda>d. Some (100 + length (dl_envelope d))),
     json_pause_ok = (\<lambda>_. True), json_rotation_ok = (\<lambda>_. True), json_text = id\<rparr>"

lemma log_env_ok: "env_ok log_env"
  by (simp add: env_ok_def log_env_def logb.bolt_bucket_axioms)

end
