(* ===== verification/OutboxTx.thy ===== *)
theory OutboxTx
  imports OutboxTypes
begin

text \<open>
  The transaction bodies of \<open>internal/outbox/store.go\<close>: every function that the code hands to
  \<open>db.Update\<close> or \<open>db.View\<close>, as a function from the database to an error or a result and the
  database it leaves. The order of the steps, the guards and the early returns are the code's.
\<close>

type_synonym ('b, 'd, 'a) tx = "('b, 'd) db \<Rightarrow> outbox_error + 'a \<times> ('b, 'd) db"

section \<open>Keys, cells and counters\<close>

definition due_key :: "time \<Rightarrow> 64 word \<Rightarrow> string \<Rightarrow> key" where
  "due_key at sequence did = be64 (word_of_int at) @ be64 sequence @ did"

definition due_timestamp :: "key \<Rightarrow> time" where
  "due_timestamp k = (if length k < 8 then zero_time else sint (read_be64 k))"

abbreviation due_key_of :: "delivery \<Rightarrow> key" where
  "due_key_of d \<equiv> due_key (dl_next d) (dl_seq d) (dl_id d)"

definition decode_delivery :: "cell option \<Rightarrow> outbox_error + delivery" where
  "decode_delivery raw = (case raw of
     None \<Rightarrow> Inl DeliveryNotFound
   | Some c \<Rightarrow>
       if cl_len c = 0 then Inl DeliveryNotFound
       else (case cl_record c of None \<Rightarrow> Inl DecodeDelivery | Some d \<Rightarrow> Inr d))"

definition encode_delivery :: "('b, 'd) env \<Rightarrow> delivery \<Rightarrow> outbox_error + cell" where
  "encode_delivery e d = (case json_size e d of
     None \<Rightarrow> Inl MarshalFailed
   | Some n \<Rightarrow> Inr \<lparr>cl_record = Some (scrub_delivery (json_text e) d), cl_len = n\<rparr>)"

definition write_counters :: "int \<Rightarrow> int \<Rightarrow> ('b, 'd) db \<Rightarrow> outbox_error + ('b, 'd) db" where
  "write_counters count used db =
     (if count < 0 \<or> used < 0 then Inl CountersUnderflow
      else Inr (db\<lparr>db_count := count, db_used := used\<rparr>))"

definition rebuild_counters :: "('b, 'd) env \<Rightarrow> ('b, 'd) db \<Rightarrow> outbox_error + ('b, 'd) db" where
  "rebuild_counters e db =
     (let raws = map snd (bentries (cells e) (db_deliveries db))
                 @ map snd (bentries (cells e) (db_quarantine db))
      in write_counters (int (length raws)) (sum_list (map cell_len raws)) db)"

definition put_delivery ::
  "('b, 'd) env \<Rightarrow> key \<Rightarrow> cell \<Rightarrow> ('b, 'd) db \<Rightarrow> outbox_error + ('b, 'd) db" where
  "put_delivery e k c db = res_bind (of_option PutFailed (bput (cells e) k c (db_deliveries db)))
     (\<lambda>b. Inr (db\<lparr>db_deliveries := b\<rparr>))"

definition put_quarantine ::
  "('b, 'd) env \<Rightarrow> key \<Rightarrow> cell \<Rightarrow> ('b, 'd) db \<Rightarrow> outbox_error + ('b, 'd) db" where
  "put_quarantine e k c db = res_bind (of_option PutFailed (bput (cells e) k c (db_quarantine db)))
     (\<lambda>b. Inr (db\<lparr>db_quarantine := b\<rparr>))"

definition put_due ::
  "('b, 'd) env \<Rightarrow> key \<Rightarrow> key \<Rightarrow> ('b, 'd) db \<Rightarrow> outbox_error + ('b, 'd) db" where
  "put_due e k did db = res_bind (of_option PutFailed (bput (ids e) k did (db_due db)))
     (\<lambda>b. Inr (db\<lparr>db_due := b\<rparr>))"

definition del_delivery :: "('b, 'd) env \<Rightarrow> key \<Rightarrow> ('b, 'd) db \<Rightarrow> ('b, 'd) db" where
  "del_delivery e k db = db\<lparr>db_deliveries := bdel (cells e) k (db_deliveries db)\<rparr>"

definition del_quarantine :: "('b, 'd) env \<Rightarrow> key \<Rightarrow> ('b, 'd) db \<Rightarrow> ('b, 'd) db" where
  "del_quarantine e k db = db\<lparr>db_quarantine := bdel (cells e) k (db_quarantine db)\<rparr>"

definition del_due :: "('b, 'd) env \<Rightarrow> key \<Rightarrow> ('b, 'd) db \<Rightarrow> ('b, 'd) db" where
  "del_due e k db = db\<lparr>db_due := bdel (ids e) k (db_due db)\<rparr>"

abbreviation get_delivery :: "('b, 'd) env \<Rightarrow> ('b, 'd) db \<Rightarrow> key \<rightharpoonup> cell" where
  "get_delivery e db \<equiv> bget (cells e) (db_deliveries db)"

abbreviation get_quarantine :: "('b, 'd) env \<Rightarrow> ('b, 'd) db \<Rightarrow> key \<rightharpoonup> cell" where
  "get_quarantine e db \<equiv> bget (cells e) (db_quarantine db)"

abbreviation get_due :: "('b, 'd) env \<Rightarrow> ('b, 'd) db \<Rightarrow> key \<rightharpoonup> key" where
  "get_due e db \<equiv> bget (ids e) (db_due db)"

section \<open>The reconciled binding marker\<close>

definition reconciled_binding_from :: "binding \<Rightarrow> reconciled_binding" where
  "reconciled_binding_from b = \<lparr>
     rb_owner = trim_space (bi_owner b), rb_agent = trim_space (bi_agent b),
     rb_installation = trim_space (bi_installation b)\<rparr>"

definition binding_already_reconciled :: "('b, 'd) db \<Rightarrow> binding \<Rightarrow> bool" where
  "binding_already_reconciled db b = (case db_marker db of
     Absent \<Rightarrow> False
   | Corrupt \<Rightarrow> False
   | Stored m \<Rightarrow> m = reconciled_binding_from b)"

definition invalidate_reconciled_binding :: "delivery \<Rightarrow> ('b, 'd) db \<Rightarrow> ('b, 'd) db" where
  "invalidate_reconciled_binding d db = (case db_marker db of
     Absent \<Rightarrow> db
   | Corrupt \<Rightarrow> db\<lparr>db_marker := Absent\<rparr>
   | Stored m \<Rightarrow>
       if rb_owner m \<noteq> trim_space (dl_owner d) \<or> rb_agent m \<noteq> trim_space (dl_agent d)
          \<or> rb_installation m \<noteq> trim_space (dl_installation d)
       then db\<lparr>db_marker := Absent\<rparr> else db)"

section \<open>Enqueue\<close>

text \<open>The closure of \<open>Enqueue\<close> overwrites fields of the captured input before it encodes it.\<close>

definition enqueue_prepare :: "time \<Rightarrow> 64 word \<Rightarrow> delivery \<Rightarrow> delivery" where
  "enqueue_prepare now sequence input =
     (let input = input\<lparr>dl_state := StatePending, dl_seq := sequence\<rparr>;
          input = (if is_zero (dl_enqueued input) then input\<lparr>dl_enqueued := now\<rparr> else input)
      in if is_zero (dl_next input) then input\<lparr>dl_next := dl_enqueued input\<rparr> else input)"

definition enqueue_tx ::
  "('b, 'd) env \<Rightarrow> config \<Rightarrow> time \<Rightarrow> delivery \<Rightarrow> ('b, 'd, unit) tx" where
  "enqueue_tx e cfg now input db =
     (let key = dl_id input in
      if get_delivery e db key \<noteq> None \<or> get_quarantine e db key \<noteq> None then Inl DeliveryExists
      else
        let sequence = db_sequence db + 1;
            db = db\<lparr>db_sequence := sequence\<rparr>;
            input = enqueue_prepare now sequence input
        in res_bind (encode_delivery e input) (\<lambda>encoded.
           if db_count db + 1 > cf_max_events cfg \<or> db_used db + cell_len encoded > cf_max_bytes cfg
           then Inl OutboxFull
           else res_bind (put_delivery e key encoded (invalidate_reconciled_binding input db)) (\<lambda>db'.
                res_bind (put_due e (due_key (dl_next input) sequence (dl_id input)) key db') (\<lambda>db'.
                res_bind (write_counters (db_count db + 1) (db_used db + cell_len encoded) db') (\<lambda>db'.
                Inr ((), db'))))))"

section \<open>Reading\<close>

definition next_due_tx :: "('b, 'd) env \<Rightarrow> time \<Rightarrow> ('b, 'd) db \<Rightarrow> outbox_error + delivery option" where
  "next_due_tx e now db = (case bentries (ids e) (db_due db) of
     [] \<Rightarrow> Inr None
   | (key, delivery_id) # _ \<Rightarrow>
       if due_timestamp key > now then Inr None
       else res_bind (decode_delivery (get_delivery e db delivery_id)) (\<lambda>record. Inr (Some record)))"

definition get_tx :: "('b, 'd) env \<Rightarrow> string \<Rightarrow> ('b, 'd) db \<Rightarrow> outbox_error + delivery" where
  "get_tx e did db = (case get_delivery e db did of
     Some raw \<Rightarrow> decode_delivery (Some raw)
   | None \<Rightarrow> (case get_quarantine e db did of
       Some raw \<Rightarrow> decode_delivery (Some raw)
     | None \<Rightarrow> Inl DeliveryNotFound))"

definition read_slot :: "outbox_error \<Rightarrow> 'a slot \<Rightarrow> outbox_error + 'a option" where
  "read_slot err s = (case s of Absent \<Rightarrow> Inr None | Corrupt \<Rightarrow> Inl err | Stored v \<Rightarrow> Inr (Some v))"

definition dispatch_pause_tx :: "('b, 'd) db \<Rightarrow> outbox_error + dispatch_pause option" where
  "dispatch_pause_tx db = read_slot DecodePause (db_pause db)"

definition installation_rotation_tx :: "('b, 'd) db \<Rightarrow> outbox_error + rotation option" where
  "installation_rotation_tx db = read_slot DecodeRotation (db_rotation db)"

record stats =
  ss_pending :: int
  ss_quarantined :: int
  ss_total :: int
  ss_used :: int
  ss_recovered :: bool
  ss_recovery_code :: string
  ss_maintenance_code :: string
  ss_maintenance_error :: "outbox_error option"
  ss_pause :: "dispatch_pause option"

definition stats_tx :: "('b, 'd) env \<Rightarrow> stats \<Rightarrow> ('b, 'd) db \<Rightarrow> outbox_error + stats" where
  "stats_tx e result db = res_bind (dispatch_pause_tx db) (\<lambda>pause.
     let quarantined = int (length (bentries (cells e) (db_quarantine db)))
     in Inr (result\<lparr>ss_pause := pause, ss_total := db_count db, ss_used := db_used db,
          ss_quarantined := quarantined, ss_pending := db_count db - quarantined\<rparr>))"

section \<open>Updating one delivery\<close>

definition replace_due ::
  "('b, 'd) env \<Rightarrow> bool \<Rightarrow> string \<Rightarrow> key \<Rightarrow> delivery \<Rightarrow> ('b, 'd) db \<Rightarrow> outbox_error + ('b, 'd) db" where
  "replace_due e make_due did old_due_key record db =
     (let db = del_due e old_due_key db
      in if make_due then put_due e (due_key_of record) did db else Inr db)"

definition update_delivery_tx ::
  "('b, 'd) env \<Rightarrow> config \<Rightarrow> string \<Rightarrow> (delivery \<Rightarrow> outbox_error + delivery) \<Rightarrow> bool
   \<Rightarrow> ('b, 'd, unit) tx" where
  "update_delivery_tx e cfg did mutate make_due db =
     (case get_delivery e db did of
        None \<Rightarrow> Inl DeliveryNotFound
      | Some raw \<Rightarrow>
          res_bind (decode_delivery (Some raw)) (\<lambda>record.
          let old_due_key = due_key_of record in
          res_bind (mutate record) (\<lambda>record.
          res_bind (encode_delivery e record) (\<lambda>encoded.
          let used = db_used db - cell_len raw + cell_len encoded in
          if used > cf_max_bytes cfg then Inl OutboxFull
          else
            res_bind (replace_due e make_due did old_due_key record db) (\<lambda>db'.
            res_bind (put_delivery e did encoded db') (\<lambda>db'.
            res_bind (write_counters (db_count db) used db') (\<lambda>db'. Inr ((), db'))))))))"

definition mark_inflight_mutate :: "string \<Rightarrow> delivery \<Rightarrow> outbox_error + delivery" where
  "mark_inflight_mutate did record =
     (if dl_state record \<noteq> StatePending then Inl (NotPending did)
      else Inr (record\<lparr>dl_state := StateInflight\<rparr>))"

definition record_failure :: "attempt_failure \<Rightarrow> delivery \<Rightarrow> delivery" where
  "record_failure f record = record\<lparr>
     dl_status_code := af_status f,
     dl_error_code := trim_space (af_code f),
     dl_error := trim_space (af_message f),
     dl_request_id := trim_space (af_request f)\<rparr>"

definition retry_mutate :: "time \<Rightarrow> attempt_failure \<Rightarrow> delivery \<Rightarrow> outbox_error + delivery" where
  "retry_mutate next_attempt f record = Inr (record_failure f (record\<lparr>
     dl_state := StatePending, dl_attempts := dl_attempts record + 1, dl_next := next_attempt\<rparr>))"

section \<open>Dispatch pauses\<close>

definition pause_delivery_tx ::
  "('b, 'd) env \<Rightarrow> config \<Rightarrow> time \<Rightarrow> string \<Rightarrow> dispatch_pause \<Rightarrow> attempt_failure
   \<Rightarrow> ('b, 'd, unit) tx" where
  "pause_delivery_tx e cfg now did pause f db =
     (case get_delivery e db did of
        None \<Rightarrow> Inl DeliveryNotFound
      | Some raw \<Rightarrow>
          res_bind (decode_delivery (Some raw)) (\<lambda>record.
          let old_due_key = due_key_of record;
              record = record_failure f (record\<lparr>
                dl_state := StatePending, dl_attempts := dl_attempts record + 1\<rparr>)
          in
          res_bind (encode_delivery e record) (\<lambda>encoded.
          let pause = pause\<lparr>dp_id := did, dp_at := (if is_zero (dp_at pause) then now else dp_at pause)\<rparr>
          in if \<not> json_pause_ok e pause then Inl MarshalFailed
          else
            let used = db_used db - cell_len raw + cell_len encoded in
            if used > cf_max_bytes cfg then Inl OutboxFull
            else
              res_bind (replace_due e True did old_due_key record db) (\<lambda>db'.
              res_bind (put_delivery e did encoded db') (\<lambda>db'.
              res_bind (write_counters (db_count db) used
                (db'\<lparr>db_pause := Stored (scrub_pause (json_text e) pause)\<rparr>)) (\<lambda>db'.
              Inr ((), db')))))))"

definition pause_resolved :: "binding \<Rightarrow> dispatch_pause \<Rightarrow> outbox_error + bool" where
  "pause_resolved b pause = (case dp_kind pause of
     PauseCredential \<Rightarrow> Inr (bi_cred_gen b > dp_cred_gen pause \<or> bi_bind_gen b > dp_bind_gen pause)
   | PauseBinding \<Rightarrow> Inr (bi_bind_gen b > dp_bind_gen pause)
   | PauseCollision \<Rightarrow> Inr False
   | PauseOther k \<Rightarrow> Inl (UnknownPauseKind k))"

definition clear_resolved_pause_tx :: "binding \<Rightarrow> ('b, 'd, bool) tx" where
  "clear_resolved_pause_tx b db = (case db_pause db of
     Absent \<Rightarrow> Inr (False, db)
   | Corrupt \<Rightarrow> Inl DecodePause
   | Stored pause \<Rightarrow> res_bind (pause_resolved b pause) (\<lambda>cleared.
       Inr (cleared, if cleared then db\<lparr>db_pause := Absent\<rparr> else db)))"

section \<open>Quarantine\<close>

text \<open>Moving one decoded delivery to the quarantine: the tail that \<open>Quarantine\<close> and
  \<open>ResolveDeliveryCollision\<close> share.\<close>

definition quarantine_one ::
  "('b, 'd) env \<Rightarrow> config \<Rightarrow> string \<Rightarrow> cell \<Rightarrow> delivery \<Rightarrow> (delivery \<Rightarrow> delivery)
   \<Rightarrow> ('b, 'd) db \<Rightarrow> outbox_error + ('b, 'd) db" where
  "quarantine_one e cfg did raw record mark db =
     (let db = del_due e (due_key_of record) db in
      res_bind (encode_delivery e (mark record)) (\<lambda>encoded.
      let used = db_used db - cell_len raw + cell_len encoded in
      if used > cf_max_bytes cfg then Inl OutboxFull
      else res_bind (put_quarantine e did encoded db) (\<lambda>db.
           write_counters (db_count db) used (del_delivery e did db))))"

definition mark_quarantined :: "time \<Rightarrow> string \<Rightarrow> delivery \<Rightarrow> delivery" where
  "mark_quarantined now reason record = record\<lparr>
     dl_state := StateQuarantined, dl_quarantined_at := now, dl_quarantine_reason := reason\<rparr>"

definition quarantine_tx ::
  "('b, 'd) env \<Rightarrow> config \<Rightarrow> time \<Rightarrow> string \<Rightarrow> string \<Rightarrow> attempt_failure \<Rightarrow> ('b, 'd, unit) tx" where
  "quarantine_tx e cfg now did reason f db =
     (case get_delivery e db did of
        None \<Rightarrow> Inl DeliveryNotFound
      | Some raw \<Rightarrow>
          res_bind (decode_delivery (Some raw)) (\<lambda>record.
          res_bind (quarantine_one e cfg did raw record
             (\<lambda>d. record_failure f (mark_quarantined now (trim_space reason) d)) db) (\<lambda>db'.
          Inr ((), db'))))"

definition resolve_collision_tx ::
  "('b, 'd) env \<Rightarrow> config \<Rightarrow> time \<Rightarrow> string \<Rightarrow> ('b, 'd, unit) tx" where
  "resolve_collision_tx e cfg now did db = (case db_pause db of
     Absent \<Rightarrow> Inl PauseMismatch
   | Corrupt \<Rightarrow> Inl DecodePause
   | Stored pause \<Rightarrow>
       if dp_kind pause \<noteq> PauseCollision \<or> dp_id pause \<noteq> did then Inl PauseMismatch
       else (case get_delivery e db did of
         None \<Rightarrow> Inl DeliveryNotFound
       | Some raw \<Rightarrow>
           res_bind (decode_delivery (Some raw)) (\<lambda>record.
           res_bind (quarantine_one e cfg did raw record
             (mark_quarantined now ''delivery_id_collision_operator_resolved'') db) (\<lambda>db'.
           Inr ((), db'\<lparr>db_pause := Absent\<rparr>)))))"

text \<open>\<open>ForEach\<close> over the deliveries: the first value that does not decode ends it.\<close>

fun decode_all :: "(key \<times> cell) list \<Rightarrow> outbox_error + (key \<times> cell \<times> delivery) list" where
  "decode_all [] = Inr []"
| "decode_all ((k, raw) # rest) =
     res_bind (decode_delivery (Some raw)) (\<lambda>record.
     res_bind (decode_all rest) (\<lambda>items. Inr ((k, raw, record) # items)))"

text \<open>The loop that moves the matched deliveries to the quarantine, threading the bytes used; the
  counters are written after it.\<close>

fun quarantine_loop ::
  "('b, 'd) env \<Rightarrow> config \<Rightarrow> (delivery \<Rightarrow> delivery) \<Rightarrow> (key \<times> cell \<times> delivery) list
   \<Rightarrow> int \<Rightarrow> ('b, 'd) db \<Rightarrow> outbox_error + int \<times> ('b, 'd) db" where
  "quarantine_loop e cfg mark [] used db = Inr (used, db)"
| "quarantine_loop e cfg mark ((k, raw, record) # items) used db =
     (let db = del_due e (due_key_of record) db in
      res_bind (encode_delivery e (mark record)) (\<lambda>encoded.
      let used = used - cell_len raw + cell_len encoded in
      if used > cf_max_bytes cfg then Inl OutboxFull
      else res_bind (put_quarantine e k encoded db) (\<lambda>db.
           quarantine_loop e cfg mark items used (del_delivery e k db))))"

definition receiver_mark :: "time \<Rightarrow> string \<Rightarrow> attempt_failure \<Rightarrow> delivery \<Rightarrow> delivery" where
  "receiver_mark now reason f record = (mark_quarantined now (trim_space reason) record)\<lparr>
     dl_status_code := af_status f,
     dl_error_code := trim_space (af_code f),
     dl_error := trim_space (af_message f)\<rparr>"

definition quarantine_by_receiver_tx ::
  "('b, 'd) env \<Rightarrow> config \<Rightarrow> time \<Rightarrow> string \<Rightarrow> string \<Rightarrow> attempt_failure \<Rightarrow> ('b, 'd, int) tx" where
  "quarantine_by_receiver_tx e cfg now agent reason f db =
     res_bind (decode_all (bentries (cells e) (db_deliveries db))) (\<lambda>items.
     let matches = filter (\<lambda>(_, _, record). dl_agent record = agent) items in
     res_bind (quarantine_loop e cfg (receiver_mark now reason f) matches (db_used db) db)
       (\<lambda>(used, db').
     res_bind (write_counters (db_count db) used db') (\<lambda>db'. Inr (int (length matches), db'))))"

section \<open>Reconciling the binding\<close>

definition reconcile_reason :: "binding \<Rightarrow> delivery \<Rightarrow> string" where
  "reconcile_reason b record =
     (if dl_installation record \<noteq> bi_installation b then ''installation_reset''
      else if dl_owner record \<noteq> bi_owner b \<or> dl_agent record \<noteq> bi_agent b
        then ''credential_rebind_required''
      else [])"

definition reconcile_mark :: "time \<Rightarrow> binding \<Rightarrow> delivery \<Rightarrow> delivery" where
  "reconcile_mark now b record = (mark_quarantined now (reconcile_reason b record) record)\<lparr>
     dl_error_code := ''OUTBOX_BINDING_CHANGED'',
     dl_error := ''pending normalized delivery binding no longer matches active receiver credentials''\<rparr>"

definition reconcile_binding_tx ::
  "('b, 'd) env \<Rightarrow> config \<Rightarrow> time \<Rightarrow> binding \<Rightarrow> ('b, 'd, reconcile_result) tx" where
  "reconcile_binding_tx e cfg now b db =
     (if binding_already_reconciled db b
      then Inr (\<lparr>rr_kept = 0, rr_rebind = 0, rr_reset = 0\<rparr>, db)
      else
        res_bind (decode_all (bentries (cells e) (db_deliveries db))) (\<lambda>items.
        let matches = filter (\<lambda>(_, _, record). reconcile_reason b record \<noteq> []) items;
            resets = filter (\<lambda>(_, _, record). reconcile_reason b record = ''installation_reset'') matches
        in
        res_bind (quarantine_loop e cfg (reconcile_mark now b) matches (db_used db) db)
          (\<lambda>(used, db').
        res_bind (write_counters (db_count db) used db') (\<lambda>db'.
        Inr (\<lparr>rr_kept = int (length items) - int (length matches),
               rr_rebind = int (length matches) - int (length resets),
               rr_reset = int (length resets)\<rparr>,
             db'\<lparr>db_marker := Stored (scrub_marker (json_text e) (reconciled_binding_from b))\<rparr>)))))"

section \<open>The installation rotation journal\<close>

definition begin_rotation_tx ::
  "('b, 'd) env \<Rightarrow> time \<Rightarrow> rotation \<Rightarrow> ('b, 'd, rotation) tx" where
  "begin_rotation_tx e now r db =
     (let start = (let r = r\<lparr>ir_phase := PhaseIntent, ir_started := now, ir_updated := now,
                             ir_quarantined := 0\<rparr>
                   in if json_rotation_ok e r
                      then Inr (r, db\<lparr>db_rotation := Stored (scrub_rotation (json_text e) r)\<rparr>)
                      else Inl MarshalFailed)
      in case db_rotation db of
           Absent \<Rightarrow> start
         | Corrupt \<Rightarrow> Inl DecodeRotation
         | Stored r' \<Rightarrow> if ir_phase r' \<noteq> PhaseCompleted then Inr (r', db) else start)"

definition rotation_mark :: "time \<Rightarrow> delivery \<Rightarrow> delivery" where
  "rotation_mark now record = (mark_quarantined now ''installation_rotated'' record)\<lparr>
     dl_error_code := ''INSTALLATION_ROTATED'',
     dl_error := ''pending normalized delivery belongs to a rotated receiver installation''\<rparr>"

definition clear_pause_of :: "string list \<Rightarrow> ('b, 'd) db \<Rightarrow> outbox_error + ('b, 'd) db" where
  "clear_pause_of moved db = (case db_pause db of
     Absent \<Rightarrow> Inr db
   | Corrupt \<Rightarrow> Inl DecodePause
   | Stored pause \<Rightarrow> Inr (if dp_id pause \<in> set moved then db\<lparr>db_pause := Absent\<rparr> else db))"

definition quarantine_rotation_tx ::
  "('b, 'd) env \<Rightarrow> config \<Rightarrow> time \<Rightarrow> ('b, 'd, rotation) tx" where
  "quarantine_rotation_tx e cfg now db = (case db_rotation db of
     Absent \<Rightarrow> Inl RotationMissing
   | Corrupt \<Rightarrow> Inl DecodeRotation
   | Stored r \<Rightarrow>
       if ir_phase r \<noteq> PhaseIntent then Inr (r, db)
       else
         res_bind (decode_all (bentries (cells e) (db_deliveries db))) (\<lambda>items.
         let matches = filter (\<lambda>(_, _, record). dl_installation record = ir_old r) items in
         res_bind (quarantine_loop e cfg (rotation_mark now) matches (db_used db) db)
           (\<lambda>(used, db').
         res_bind (clear_pause_of (map (\<lambda>(_, _, record). dl_id record) matches) db') (\<lambda>db'.
         let r = r\<lparr>ir_phase := PhaseOldQuarantined, ir_quarantined := int (length matches),
                   ir_updated := now\<rparr>
         in if \<not> json_rotation_ok e r then Inl MarshalFailed
            else res_bind (write_counters (db_count db) used
                   (db'\<lparr>db_rotation := Stored (scrub_rotation (json_text e) r)\<rparr>)) (\<lambda>db'.
                 Inr (r, db'))))))"

definition advance_rotation_tx ::
  "('b, 'd) env \<Rightarrow> time \<Rightarrow> rotation_phase \<Rightarrow> rotation_phase \<Rightarrow> ('b, 'd, rotation) tx" where
  "advance_rotation_tx e now expected next_phase db = (case db_rotation db of
     Absent \<Rightarrow> Inl RotationMissing
   | Corrupt \<Rightarrow> Inl DecodeRotation
   | Stored r \<Rightarrow>
       if ir_phase r = next_phase then Inr (r, db)
       else if ir_phase r \<noteq> expected then Inl (RotationPhase (ir_phase r))
       else
         let r = r\<lparr>ir_phase := next_phase, ir_updated := now\<rparr>
         in if json_rotation_ok e r
            then Inr (r, db\<lparr>db_rotation := Stored (scrub_rotation (json_text e) r)\<rparr>)
            else Inl MarshalFailed)"

section \<open>Deleting and pruning\<close>

definition delete_tx :: "('b, 'd) env \<Rightarrow> string \<Rightarrow> ('b, 'd, unit) tx" where
  "delete_tx e did db = (case get_delivery e db did of
     Some raw \<Rightarrow>
       res_bind (decode_delivery (Some raw)) (\<lambda>record.
       res_bind (write_counters (db_count db - 1) (db_used db - cell_len raw)
         (del_delivery e did (del_due e (due_key_of record) db))) (\<lambda>db'. Inr ((), db')))
   | None \<Rightarrow> (case get_quarantine e db did of
       Some raw \<Rightarrow>
         res_bind (write_counters (db_count db - 1) (db_used db - cell_len raw)
           (del_quarantine e did db)) (\<lambda>db'. Inr ((), db'))
     | None \<Rightarrow> Inl DeliveryNotFound))"

definition prune_expired :: "time \<Rightarrow> delivery \<Rightarrow> bool" where
  "prune_expired cutoff d = (\<not> (is_zero (dl_quarantined_at d) \<or> dl_quarantined_at d > cutoff))"

definition cell_expired :: "time \<Rightarrow> cell \<Rightarrow> bool" where
  "cell_expired cutoff raw = (case decode_delivery (Some raw) of
     Inl _ \<Rightarrow> False | Inr d \<Rightarrow> prune_expired cutoff d)"

fun prune_loop ::
  "('b, 'd) env \<Rightarrow> time \<Rightarrow> (key \<times> cell) list \<Rightarrow> int \<times> int \<times> int \<Rightarrow> ('b, 'd) db
   \<Rightarrow> outbox_error + (int \<times> int \<times> int) \<times> ('b, 'd) db" where
  "prune_loop e cutoff [] acc db = Inr (acc, db)"
| "prune_loop e cutoff ((k, raw) # rest) (removed, count, used) db =
     res_bind (decode_delivery (Some raw)) (\<lambda>record.
     if \<not> prune_expired cutoff record then prune_loop e cutoff rest (removed, count, used) db
     else prune_loop e cutoff rest (removed + 1, count - 1, used - cell_len raw)
            (del_quarantine e k db))"

text \<open>The entries the cursor visits while the loop deletes the expired ones are \<^const>\<open>bsweep\<close>.\<close>

definition prune_quarantine_tx ::
  "('b, 'd) env \<Rightarrow> time \<Rightarrow> duration \<Rightarrow> ('b, 'd, int) tx" where
  "prune_quarantine_tx e now retention db =
     (let cutoff = now - retention in
      res_bind (prune_loop e cutoff (bsweep (cells e) (cell_expired cutoff) (db_quarantine db))
        (0, db_count db, db_used db) db) (\<lambda>((removed, count, used), db').
      res_bind (write_counters count used db') (\<lambda>db'. Inr (removed, db'))))"

section \<open>Opening\<close>

definition schema_version :: int where "schema_version = 1"

definition empty_db :: "('b, 'd) env \<Rightarrow> ('b, 'd) db" where
  "empty_db e = \<lparr>db_deliveries = bnew (cells e), db_sequence = 0, db_due = bnew (ids e),
     db_quarantine = bnew (cells e), db_count = 0, db_used = 0, db_schema = None,
     db_pause = Absent, db_rotation = Absent, db_marker = Absent\<rparr>"

definition initialize_tx :: "('b, 'd) env \<Rightarrow> ('b, 'd, unit) tx" where
  "initialize_tx e db =
     res_bind (case db_schema db of
         Some stored \<Rightarrow>
           if atoi stored \<noteq> Some schema_version then Inl UnknownSchema else Inr db
       | None \<Rightarrow> Inr (db\<lparr>db_schema := Some ''1''\<rparr>)) (\<lambda>db.
     res_bind (rebuild_counters e db) (\<lambda>db. Inr ((), db)))"

fun reset_loop ::
  "('b, 'd) env \<Rightarrow> time \<Rightarrow> (key \<times> cell \<times> delivery) list \<Rightarrow> ('b, 'd) db
   \<Rightarrow> outbox_error + ('b, 'd) db" where
  "reset_loop e now [] db = Inr db"
| "reset_loop e now ((k, raw, record) # items) db =
     (let record = (if dl_state record = StateInflight
                    then record\<lparr>dl_state := StatePending, dl_next := now\<rparr> else record)
      in if dl_state record \<noteq> StatePending then Inl (InvalidDurableState (dl_id record))
      else
        res_bind (encode_delivery e record) (\<lambda>encoded.
        res_bind (put_delivery e k encoded db) (\<lambda>db.
        res_bind (put_due e (due_key_of record) k db) (\<lambda>db.
        reset_loop e now items db))))"

definition reset_inflight_tx :: "('b, 'd) env \<Rightarrow> time \<Rightarrow> ('b, 'd, unit) tx" where
  "reset_inflight_tx e now db =
     res_bind (decode_all (bentries (cells e) (db_deliveries db))) (\<lambda>items.
     res_bind (reset_loop e now items (db\<lparr>db_due := bnew (ids e)\<rparr>)) (\<lambda>db.
     res_bind (rebuild_counters e db) (\<lambda>db. Inr ((), db))))"

end
