(* ===== verification/OutboxInv.thy ===== *)
theory OutboxInv
  imports OutboxTx
begin

text \<open>
  The well-formedness of the outbox database, and that every transaction keeps it. A database is seen
  as three maps: deliveries, quarantine and due index. The due index and the two counters are derived
  data: the index holds exactly the due keys of the pending deliveries, the counters the number and
  the total length of the stored values. Each lemma of the middle section is one way in which the
  code changes the three maps together; the lemmas on transactions reduce to them.
\<close>

section \<open>Well-formed maps\<close>

definition clean :: "(string \<Rightarrow> string) \<Rightarrow> delivery \<Rightarrow> bool" where
  "clean tv d \<longleftrightarrow> scrub_delivery tv d = d"

definition holds :: "cell \<Rightarrow> delivery \<Rightarrow> bool" where
  "holds c d \<longleftrightarrow> cl_record c = Some d \<and> 0 < cl_len c"

definition live_state :: "state \<Rightarrow> bool" where
  "live_state st \<longleftrightarrow> st = StatePending \<or> st = StateInflight"

definition entry_ok :: "(string \<Rightarrow> string) \<Rightarrow> (state \<Rightarrow> bool) \<Rightarrow> key \<Rightarrow> cell \<Rightarrow> bool" where
  "entry_ok tv P k c \<longleftrightarrow> (\<exists>d. holds c d \<and> dl_id d = k \<and> P (dl_state d) \<and> clean tv d)"

definition pending_at :: "(key \<rightharpoonup> cell) \<Rightarrow> key \<Rightarrow> delivery \<Rightarrow> bool" where
  "pending_at M k d \<longleftrightarrow> (\<exists>c. M k = Some c \<and> holds c d \<and> dl_state d = StatePending)"

definition index_ok :: "(key \<rightharpoonup> cell) \<Rightarrow> (key \<rightharpoonup> key) \<Rightarrow> bool" where
  "index_ok M D \<longleftrightarrow> (\<forall>dk k. D dk = Some k \<longleftrightarrow> (\<exists>d. pending_at M k d \<and> dk = due_key_of d))"

definition entries_ok :: "(string \<Rightarrow> string) \<Rightarrow> (key \<rightharpoonup> cell) \<Rightarrow> (key \<rightharpoonup> cell) \<Rightarrow> bool" where
  "entries_ok tv M Q \<longleftrightarrow>
     (\<forall>k c. M k = Some c \<longrightarrow> entry_ok tv live_state k c) \<and>
     (\<forall>k c. Q k = Some c \<longrightarrow> entry_ok tv (\<lambda>st. st = StateQuarantined) k c) \<and>
     dom M \<inter> dom Q = {}"

definition counters_ok :: "(key \<rightharpoonup> cell) \<Rightarrow> (key \<rightharpoonup> cell) \<Rightarrow> int \<Rightarrow> int \<Rightarrow> bool" where
  "counters_ok M Q count used \<longleftrightarrow>
     count = weight_sum (\<lambda>_. 1) M + weight_sum (\<lambda>_. 1) Q \<and>
     used = weight_sum cell_len M + weight_sum cell_len Q"

definition wf_db :: "('b, 'd) env \<Rightarrow> ('b, 'd) db \<Rightarrow> bool" where
  "wf_db e db \<longleftrightarrow>
     entries_ok (json_text e) (get_delivery e db) (get_quarantine e db) \<and>
     index_ok (get_delivery e db) (get_due e db) \<and>
     counters_ok (get_delivery e db) (get_quarantine e db) (db_count db) (db_used db)"

section \<open>Cells\<close>

lemma decode_delivery_Some: "decode_delivery (Some c) = Inr d \<longleftrightarrow> holds c d"
  by (auto simp: decode_delivery_def holds_def split: option.splits)

lemma decode_delivery_None [simp]: "decode_delivery None = Inl DeliveryNotFound"
  by (simp add: decode_delivery_def)

lemma holds_unique: "holds c d \<Longrightarrow> holds c d' \<Longrightarrow> d' = d"
  by (simp add: holds_def)

lemma due_key_inject [simp]:
  "due_key t q i = due_key t' q' i' \<longleftrightarrow> word_of_int t = (word_of_int t' :: 64 word) \<and> q = q' \<and> i = i'"
  by (simp add: due_key_def)

lemma entry_okE:
  assumes "entry_ok tv P k c"
  obtains d where "holds c d" "dl_id d = k" "P (dl_state d)" "clean tv d"
  using assms by (auto simp: entry_ok_def)

lemma entries_okD:
  assumes "entries_ok tv M Q" "M k = Some c" "holds c d"
  shows "dl_id d = k" "live_state (dl_state d)" "clean tv d" "Q k = None"
proof -
  have "entry_ok tv live_state k c" and dom: "dom M \<inter> dom Q = {}"
    using assms(1,2) unfolding entries_ok_def by blast+
  then show "dl_id d = k" "live_state (dl_state d)" "clean tv d"
    using holds_unique [OF assms(3)] by (auto elim!: entry_okE)
  show "Q k = None" using dom assms(2) by blast
qed

lemma index_at:
  assumes "index_ok M D" "entries_ok tv M Q" "D dk = Some k"
  obtains c d where "M k = Some c" "holds c d" "dl_state d = StatePending" "dk = due_key_of d" "dl_id d = k"
  using assms entries_okD(1) unfolding index_ok_def pending_at_def by blast

section \<open>The ways the maps change\<close>

lemma entries_ok_insert:
  assumes "entries_ok tv M Q" "Q k = None" "entry_ok tv live_state k c"
  shows "entries_ok tv (M(k \<mapsto> c)) Q"
  using assms by (auto simp: entries_ok_def)

lemma entries_ok_move:
  assumes "entries_ok tv M Q" "entry_ok tv (\<lambda>st. st = StateQuarantined) k c"
  shows "entries_ok tv (M(k := None)) (Q(k \<mapsto> c))"
  using assms by (auto simp: entries_ok_def)

lemma entries_ok_remove:
  assumes "entries_ok tv M Q"
  shows "entries_ok tv (M(k := None)) Q" and "entries_ok tv M (Q(k := None))"
  using assms by (auto simp: entries_ok_def)

text \<open>Taking the due key of the record of \<open>k\<close> out of the index removes exactly the entry of \<open>k\<close>.\<close>

lemma index_without:
  assumes "index_ok M D" "entries_ok tv M Q" "M k = Some c" "holds c d"
  shows "(D(due_key_of d := None)) dk = Some i \<longleftrightarrow> i \<noteq> k \<and> (\<exists>d'. pending_at M i d' \<and> dk = due_key_of d')"
proof
  assume *: "(D(due_key_of d := None)) dk = Some i"
  then have D: "D dk = Some i" and neq: "dk \<noteq> due_key_of d" by (auto split: if_splits)
  from D assms(1) obtain d' where d': "pending_at M i d'" "dk = due_key_of d'"
    by (auto simp: index_ok_def)
  have "i \<noteq> k" using d' neq assms(3,4) by (auto simp: pending_at_def dest: holds_unique)
  with d' show "i \<noteq> k \<and> (\<exists>d'. pending_at M i d' \<and> dk = due_key_of d')" by blast
next
  assume "i \<noteq> k \<and> (\<exists>d'. pending_at M i d' \<and> dk = due_key_of d')"
  then obtain d' where d': "i \<noteq> k" "pending_at M i d'" "dk = due_key_of d'" by blast
  then have "dl_id d' = i" "dl_id d = k"
    using assms by (auto simp: pending_at_def dest: entries_okD)
  then have "dk \<noteq> due_key_of d" using d' by auto
  moreover have "D dk = Some i" using d' assms(1) by (auto simp: index_ok_def)
  ultimately show "(D(due_key_of d := None)) dk = Some i" by simp
qed

lemma index_ok_remove:
  assumes "index_ok M D" "entries_ok tv M Q" "M k = Some c" "holds c d"
  shows "index_ok (M(k := None)) (D(due_key_of d := None))"
  unfolding index_ok_def index_without [OF assms] by (auto simp: pending_at_def)

lemma index_ok_idle:
  assumes "index_ok M D" "entries_ok tv M Q" "M k = Some c" "holds c d"
    and "holds c' d'" "dl_state d' \<noteq> StatePending"
  shows "index_ok (M(k \<mapsto> c')) (D(due_key_of d := None))"
  unfolding index_ok_def index_without [OF assms(1-4)]
  using assms(5,6) by (auto simp: pending_at_def dest: holds_unique)

text \<open>An index that lacks the keys of a set: what the index is in the middle of a change.\<close>

definition index_except :: "key set \<Rightarrow> (key \<rightharpoonup> cell) \<Rightarrow> (key \<rightharpoonup> key) \<Rightarrow> bool" where
  "index_except K M D \<longleftrightarrow>
     (\<forall>dk i. D dk = Some i \<longleftrightarrow> i \<notin> K \<and> (\<exists>d. pending_at M i d \<and> dk = due_key_of d))"

lemma index_except_empty: "index_except {} M D \<longleftrightarrow> index_ok M D"
  by (simp add: index_except_def index_ok_def)

lemma index_except_add:
  assumes ix: "index_except (insert k K) M D" and "k \<notin> K"
    and did: "\<And>i d. pending_at M i d \<Longrightarrow> dl_id d = i"
    and "holds c' d'" "dl_state d' = StatePending" "dl_id d' = k"
  shows "index_except K (M(k \<mapsto> c')) (D(due_key_of d' \<mapsto> k))"
  unfolding index_except_def
proof (intro allI)
  fix dk i
  have ix: "D dk = Some i \<longleftrightarrow> i \<noteq> k \<and> i \<notin> K \<and> (\<exists>d. pending_at M i d \<and> dk = due_key_of d)"
    using ix by (auto simp: index_except_def)
  show "(D(due_key_of d' \<mapsto> k)) dk = Some i \<longleftrightarrow>
      i \<notin> K \<and> (\<exists>d. pending_at (M(k \<mapsto> c')) i d \<and> dk = due_key_of d)"
  proof (cases "i = k")
    case True
    have "pending_at (M(k \<mapsto> c')) k d \<longleftrightarrow> d = d'" for d
      using assms(4,5) by (auto simp: pending_at_def dest: holds_unique)
    then show ?thesis using True ix \<open>k \<notin> K\<close> by (auto split: if_splits)
  next
    case False
    then have "pending_at (M(k \<mapsto> c')) i d \<longleftrightarrow> pending_at M i d" for d
      by (simp add: pending_at_def)
    moreover have "pending_at M i d \<Longrightarrow> due_key_of d \<noteq> due_key_of d'" for d
      using did [of i d] assms(6) False by auto
    ultimately show ?thesis using False ix by (auto split: if_splits)
  qed
qed

lemma pending_at_id: "entries_ok tv M Q \<Longrightarrow> pending_at M i d \<Longrightarrow> dl_id d = i"
  by (auto simp: pending_at_def dest: entries_okD)

lemma index_ok_requeue:
  assumes "index_ok M D" "entries_ok tv M Q" "M k = Some c" "holds c d"
    and "holds c' d'" "dl_state d' = StatePending" "dl_id d' = k"
  shows "index_ok (M(k \<mapsto> c')) (D(due_key_of d := None, due_key_of d' \<mapsto> k))"
proof -
  have "index_except {k} M (D(due_key_of d := None))"
    unfolding index_except_def using index_without [OF assms(1-4)] by simp
  from index_except_add [OF this _ pending_at_id [OF assms(2)] assms(5-7)]
  show ?thesis by (simp add: index_except_empty)
qed

lemma index_ok_insert:
  assumes "index_ok M D" "entries_ok tv M Q" "M k = None"
    and "holds c' d'" "dl_state d' = StatePending" "dl_id d' = k"
  shows "index_ok (M(k \<mapsto> c')) (D(due_key_of d' \<mapsto> k))"
proof -
  have "pending_at M i d \<Longrightarrow> i \<noteq> k" for i d using assms(3) by (auto simp: pending_at_def)
  then have "index_except {k} M D"
    using assms(1) by (auto simp: index_except_def index_ok_def)
  from index_except_add [OF this _ pending_at_id [OF assms(2)] assms(4-6)]
  show ?thesis by (simp add: index_except_empty)
qed

lemma counters_ok_nonneg: "counters_ok M Q count used \<Longrightarrow> 0 \<le> count \<and> 0 \<le> used"
  by (simp add: counters_ok_def weight_sum_nonneg)

section \<open>The store environment\<close>

locale outbox_env =
  fixes e :: "('b, 'd) env"
  assumes env: "env_ok e"
begin

lemma cells_bucket: "bolt_bucket (cells e)"
  using env by (simp add: env_ok_def)

lemma ids_bucket: "bolt_bucket (ids e)"
  using env by (simp add: env_ok_def)

lemma scrub_clean: "clean (json_text e) (scrub_delivery (json_text e) d)"
  using env by (simp add: clean_def scrub_delivery_def env_ok_def)

lemma encode_holds:
  assumes "encode_delivery e d = Inr c"
  shows "holds c (scrub_delivery (json_text e) d)"
  using assms env by (auto simp: encode_delivery_def holds_def env_ok_def split: option.splits)

end

sublocale outbox_env \<subseteq> cell: bolt_bucket "cells e"
  by (rule cells_bucket)

sublocale outbox_env \<subseteq> idx: bolt_bucket "ids e"
  by (rule ids_bucket)

interpretation log_outbox: outbox_env log_env
  by unfold_locales (rule log_env_ok)

definition live :: "('b, 'd) env \<Rightarrow> ('b, 'd) db \<Rightarrow> string \<rightharpoonup> delivery" where
  "live e db k = Option.bind (get_delivery e db k) cl_record"

definition held :: "('b, 'd) env \<Rightarrow> ('b, 'd) db \<Rightarrow> string \<rightharpoonup> delivery" where
  "held e db k = Option.bind (get_quarantine e db k) cl_record"

context outbox_env
begin

lemma put_deliveryE:
  assumes "put_delivery e k c db = Inr db'"
  obtains b where "db' = db\<lparr>db_deliveries := b\<rparr>" "bget (cells e) b = (get_delivery e db)(k \<mapsto> c)"
  using assms cell.put_get by (auto simp: put_delivery_def res_simps)

lemma put_quarantineE:
  assumes "put_quarantine e k c db = Inr db'"
  obtains b where "db' = db\<lparr>db_quarantine := b\<rparr>" "bget (cells e) b = (get_quarantine e db)(k \<mapsto> c)"
  using assms cell.put_get by (auto simp: put_quarantine_def res_simps)

lemma put_dueE:
  assumes "put_due e k i db = Inr db'"
  obtains b where "db' = db\<lparr>db_due := b\<rparr>" "bget (ids e) b = (get_due e db)(k \<mapsto> i)"
  using assms idx.put_get by (auto simp: put_due_def res_simps)

lemma write_countersE:
  assumes "write_counters c u db = Inr db'"
  obtains "0 \<le> c" "0 \<le> u" "db' = db\<lparr>db_count := c, db_used := u\<rparr>"
  using assms by (auto simp: write_counters_def split: if_splits)

lemma live_at: "get_delivery e db k = Some c \<Longrightarrow> holds c d \<Longrightarrow> live e db k = Some d"
  by (simp add: live_def holds_def)

end

section \<open>Changing one record in place\<close>

definition same_meta :: "('b, 'd) db \<Rightarrow> ('b, 'd) db \<Rightarrow> bool" where
  "same_meta db db' \<longleftrightarrow> db_sequence db' = db_sequence db \<and> db_schema db' = db_schema db \<and>
     db_pause db' = db_pause db \<and> db_rotation db' = db_rotation db \<and> db_marker db' = db_marker db"

context outbox_env
begin


lemma wf_parts:
  assumes "wf_db e db"
  shows "entries_ok (json_text e) (get_delivery e db) (get_quarantine e db)"
    and "index_ok (get_delivery e db) (get_due e db)"
    and "counters_ok (get_delivery e db) (get_quarantine e db) (db_count db) (db_used db)"
  using assms by (simp_all add: wf_db_def)

lemma encode_entry:
  assumes "encode_delivery e d = Inr c"
  shows "entry_ok (json_text e) P k c \<longleftrightarrow> json_text e (dl_id d) = k \<and> P (dl_state d)"
proof -
  note h = encode_holds [OF assms]
  have "entry_ok (json_text e) P k c \<longleftrightarrow>
      dl_id (scrub_delivery (json_text e) d) = k \<and> P (dl_state (scrub_delivery (json_text e) d))"
    using h scrub_clean [of d] by (auto simp: entry_ok_def dest: holds_unique)
  then show ?thesis by simp
qed

lemma clean_id: "clean tv d \<Longrightarrow> tv (dl_id d) = dl_id d"
  by (metis clean_def scrub_delivery_sel(1))

lemma replace_dueE:
  assumes "replace_due e mk k old d db = Inr db'"
  obtains b where "db' = db\<lparr>db_due := b\<rparr>"
    "bget (ids e) b = (if mk then (get_due e db)(old := None, due_key_of d \<mapsto> k)
                       else (get_due e db)(old := None))"
  using assms by (auto simp: replace_due_def Let_def del_due_def idx.del_get
      elim!: put_dueE split: if_splits)

lemma update_cell:
  assumes wf: "wf_db e db" and raw: "get_delivery e db k = Some raw" and old: "holds raw d"
    and enc: "encode_delivery e d' = Inr c" and did: "dl_id d' = dl_id d"
    and st: "dl_state d' = (if mk then StatePending else StateInflight)"
    and due: "replace_due e mk k (due_key_of d) d' db = Inr db1"
    and put: "put_delivery e k c db1 = Inr db2"
    and cnt: "write_counters (db_count db) (db_used db - cell_len raw + cell_len c) db2 = Inr db'"
  shows "wf_db e db' \<and> live e db' = (live e db)(k \<mapsto> scrub_delivery (json_text e) d') \<and>
    held e db' = held e db \<and> same_meta db db' \<and> db_count db' = db_count db \<and>
    db_used db' = db_used db - cell_len raw + cell_len c"
proof -
  let ?d = "scrub_delivery (json_text e) d'"
  note w = wf_parts [OF wf]
  from due obtain b1 where b1: "db1 = db\<lparr>db_due := b1\<rparr>"
    "bget (ids e) b1 = (if mk then (get_due e db)(due_key_of d := None, due_key_of d' \<mapsto> k)
                        else (get_due e db)(due_key_of d := None))" by (rule replace_dueE)
  from put obtain b2 where b2: "db2 = db1\<lparr>db_deliveries := b2\<rparr>"
    "bget (cells e) b2 = (get_delivery e db)(k \<mapsto> c)" by (rule put_deliveryE) (simp add: b1)
  note d = entries_okD [OF w(1) raw old]
  have tv: "json_text e (dl_id d') = k" using d did clean_id by metis
  have c: "holds c ?d" using enc by (rule encode_holds)
  from cnt obtain db': "db' = db2\<lparr>db_count := db_count db,
      db_used := db_used db - cell_len raw + cell_len c\<rparr>" by (rule write_countersE)
  have M: "get_delivery e db' = (get_delivery e db)(k \<mapsto> c)"
    and Q: "get_quarantine e db' = get_quarantine e db" by (simp_all add: db' b1 b2)
  have "entries_ok (json_text e) (get_delivery e db') (get_quarantine e db')"
    unfolding M Q using w(1) d(4)
    by (rule entries_ok_insert) (use tv st in \<open>simp add: encode_entry [OF enc] live_state_def\<close>)
  moreover have "index_ok (get_delivery e db') (get_due e db')"
  proof (cases mk)
    case True
    have "due_key_of d' = due_key_of ?d" using tv d did by simp
    then show ?thesis
      using index_ok_requeue [OF w(2,1) raw old c] True st tv by (simp add: M db' b1 b2)
  next
    case False
    then show ?thesis
      using index_ok_idle [OF w(2,1) raw old c] st by (simp add: M) (simp add: db' b1 b2)
  qed
  moreover have "counters_ok (get_delivery e db') (get_quarantine e db') (db_count db') (db_used db')"
    using w(3) raw unfolding M Q by (simp add: counters_ok_def) (simp add: db')
  ultimately show ?thesis
    using c by (auto simp: wf_db_def same_meta_def live_def held_def M Q fun_eq_iff holds_def)
      (simp_all add: db' b1 b2)
qed

end

section \<open>Moving records to the quarantine\<close>

definition wf_core :: "('b, 'd) env \<Rightarrow> ('b, 'd) db \<Rightarrow> bool" where
  "wf_core e db \<longleftrightarrow>
     entries_ok (json_text e) (get_delivery e db) (get_quarantine e db) \<and>
     index_ok (get_delivery e db) (get_due e db)"

definition record_count :: "('b, 'd) env \<Rightarrow> ('b, 'd) db \<Rightarrow> int" where
  "record_count e db = weight_sum (\<lambda>_. 1) (get_delivery e db) + weight_sum (\<lambda>_. 1) (get_quarantine e db)"

definition record_bytes :: "('b, 'd) env \<Rightarrow> ('b, 'd) db \<Rightarrow> int" where
  "record_bytes e db = weight_sum cell_len (get_delivery e db) + weight_sum cell_len (get_quarantine e db)"

lemma wf_db_core:
  "wf_db e db \<longleftrightarrow> wf_core e db \<and> db_count db = record_count e db \<and> db_used db = record_bytes e db"
  by (auto simp: wf_db_def wf_core_def record_count_def record_bytes_def counters_ok_def)

definition same_fields :: "('b, 'd) db \<Rightarrow> ('b, 'd) db \<Rightarrow> bool" where
  "same_fields db db' \<longleftrightarrow> same_meta db db' \<and> db_count db' = db_count db \<and> db_used db' = db_used db"

lemma same_fields_trans: "same_fields a b \<Longrightarrow> same_fields b c \<Longrightarrow> same_fields a c"
  by (simp add: same_fields_def same_meta_def)

definition move_marked :: "('b, 'd) env \<Rightarrow> (delivery \<Rightarrow> delivery) \<Rightarrow> delivery \<Rightarrow> delivery" where
  "move_marked e mark d = scrub_delivery (json_text e) (mark d)"

lemma decode_all_spec:
  "decode_all xs = Inr items \<longleftrightarrow>
     map (\<lambda>(k, raw, r). (k, raw)) items = xs \<and> (\<forall>k raw r. (k, raw, r) \<in> set items \<longrightarrow> holds raw r)"
proof (induction xs arbitrary: items)
  case (Cons x xs)
  obtain k raw where x: "x = (k, raw)" by fastforce
  show ?case
  proof (cases items)
    case (Cons item items')
    then show ?thesis using Cons.IH [of items']
      by (cases item) (auto simp: x res_simps decode_delivery_Some)
  qed (auto simp: x res_simps)
qed auto

context outbox_env
begin

lemma move_cell:
  assumes wf: "wf_core e db" and raw: "get_delivery e db k = Some raw" and old: "holds raw d"
    and enc: "encode_delivery e (mark d) = Inr c" and did: "dl_id (mark d) = dl_id d"
    and st: "dl_state (mark d) = StateQuarantined"
    and put: "put_quarantine e k c (del_due e (due_key_of d) db) = Inr db1"
  defines "db' \<equiv> del_delivery e k db1"
  shows "wf_core e db' \<and> live e db' = (live e db)(k := None) \<and>
    held e db' = (held e db)(k \<mapsto> move_marked e mark d) \<and> same_fields db db' \<and>
    get_delivery e db' = (get_delivery e db)(k := None) \<and>
    record_count e db' = record_count e db \<and>
    record_bytes e db' = record_bytes e db - cell_len raw + cell_len c"
proof -
  from wf have ent: "entries_ok (json_text e) (get_delivery e db) (get_quarantine e db)"
    and ix: "index_ok (get_delivery e db) (get_due e db)" by (simp_all add: wf_core_def)
  note d = entries_okD [OF ent raw old]
  from put obtain b where b: "db1 = (del_due e (due_key_of d) db)\<lparr>db_quarantine := b\<rparr>"
    "bget (cells e) b = (get_quarantine e db)(k \<mapsto> c)" by (rule put_quarantineE) (simp add: del_due_def)
  have M: "get_delivery e db' = (get_delivery e db)(k := None)"
    by (simp add: db'_def del_delivery_def b(1) cell.del_get) (simp add: del_due_def)
  have Q: "get_quarantine e db' = (get_quarantine e db)(k \<mapsto> c)"
    by (simp add: db'_def del_delivery_def b)
  have D: "get_due e db' = (get_due e db)(due_key_of d := None)"
    by (simp add: db'_def del_delivery_def b(1) del_due_def idx.del_get)
  have tv: "json_text e (dl_id (mark d)) = k" using d did clean_id by metis
  have "wf_core e db'"
    unfolding wf_core_def M Q D
    using entries_ok_move [OF ent, of k c] index_ok_remove [OF ix ent raw old] tv st
    by (simp add: encode_entry [OF enc])
  moreover have "live e db' = (live e db)(k := None)"
    by (simp add: live_def M fun_eq_iff)
  moreover have "held e db' = (held e db)(k \<mapsto> move_marked e mark d)"
    using encode_holds [OF enc] by (simp add: held_def Q fun_eq_iff holds_def move_marked_def)
  moreover have "same_fields db db'"
    by (simp add: same_fields_def same_meta_def db'_def del_delivery_def b(1) del_due_def)
  moreover have "record_count e db' = record_count e db"
    and "record_bytes e db' = record_bytes e db - cell_len raw + cell_len c"
    using raw d(4) unfolding record_count_def record_bytes_def M Q by simp_all
  ultimately show ?thesis using M by blast
qed

lemma quarantine_loop_effect:
  assumes "wf_core e db" and "quarantine_loop e cfg mark items used db = Inr (used', db')"
    and "\<forall>k raw r. (k, raw, r) \<in> set items \<longrightarrow> get_delivery e db k = Some raw \<and> holds raw r"
    and "distinct (map fst items)"
    and mark: "\<And>d. dl_id (mark d) = dl_id d \<and> dl_state (mark d) = StateQuarantined"
  shows "wf_core e db' \<and> same_fields db db' \<and>
    live e db' = (\<lambda>k. if k \<in> fst ` set items then None else live e db k) \<and>
    held e db' = (\<lambda>k. if k \<in> fst ` set items then map_option (move_marked e mark) (live e db k)
                     else held e db k) \<and>
    record_count e db' = record_count e db \<and>
    used' - record_bytes e db' = used - record_bytes e db \<and>
    (used' = used \<or> used' \<le> cf_max_bytes cfg)"
  using assms(1-4)
proof (induction items arbitrary: used db)
  case Nil
  then show ?case by (simp add: same_fields_def same_meta_def)
next
  case (Cons item items)
  obtain k raw r where item: "item = (k, raw, r)" by (cases item)
  from Cons.prems(2) obtain c db1 where
    enc: "encode_delivery e (mark r) = Inr c"
    and put: "put_quarantine e k c (del_due e (due_key_of r) db) = Inr db1"
    and bound: "used - cell_len raw + cell_len c \<le> cf_max_bytes cfg"
    and rest: "quarantine_loop e cfg mark items (used - cell_len raw + cell_len c)
                 (del_delivery e k db1) = Inr (used', db')"
    by (auto simp: item Let_def res_simps split: if_splits)
  have raw: "get_delivery e db k = Some raw" "holds raw r" using Cons.prems(3) by (auto simp: item)
  note step = move_cell [where mark = mark, OF Cons.prems(1) raw enc _ _ put]
  have step: "wf_core e (del_delivery e k db1) \<and> live e (del_delivery e k db1) = (live e db)(k := None) \<and>
    held e (del_delivery e k db1) = (held e db)(k \<mapsto> move_marked e mark r) \<and>
    same_fields db (del_delivery e k db1) \<and>
    get_delivery e (del_delivery e k db1) = (get_delivery e db)(k := None) \<and>
    record_count e (del_delivery e k db1) = record_count e db \<and>
    record_bytes e (del_delivery e k db1) = record_bytes e db - cell_len raw + cell_len c"
    by (rule step) (simp_all add: mark)
  have "k \<notin> fst ` set items" "distinct (map fst items)" using Cons.prems(4) by (simp_all add: item)
  moreover have "\<forall>k' raw r. (k', raw, r) \<in> set items \<longrightarrow>
      get_delivery e (del_delivery e k db1) k' = Some raw \<and> holds raw r"
    using Cons.prems(3) step \<open>k \<notin> fst ` set items\<close> by (force simp: item)
  ultimately have IH: "wf_core e db' \<and> same_fields (del_delivery e k db1) db' \<and>
    live e db' = (\<lambda>i. if i \<in> fst ` set items then None else live e (del_delivery e k db1) i) \<and>
    held e db' = (\<lambda>i. if i \<in> fst ` set items
       then map_option (move_marked e mark) (live e (del_delivery e k db1) i)
       else held e (del_delivery e k db1) i) \<and>
    record_count e db' = record_count e (del_delivery e k db1) \<and>
    used' - record_bytes e db' = used - cell_len raw + cell_len c - record_bytes e (del_delivery e k db1) \<and>
    (used' = used - cell_len raw + cell_len c \<or> used' \<le> cf_max_bytes cfg)"
    using Cons.IH [OF _ rest] step by blast
  have "live e db k = Some r" using raw by (rule live_at)
  then show ?case
    using IH step same_fields_trans [of db "del_delivery e k db1" db'] bound \<open>k \<notin> fst ` set items\<close>
    by (auto simp: item fun_eq_iff)
qed

end

definition keep_if :: "(delivery \<Rightarrow> bool) \<Rightarrow> (string \<rightharpoonup> delivery) \<Rightarrow> string \<rightharpoonup> delivery" where
  "keep_if P L k = (case L k of None \<Rightarrow> None | Some d \<Rightarrow> if P d then Some d else None)"

definition take_over ::
  "(delivery \<Rightarrow> delivery) \<Rightarrow> (delivery \<Rightarrow> bool) \<Rightarrow> (string \<rightharpoonup> delivery) \<Rightarrow> (string \<rightharpoonup> delivery)
   \<Rightarrow> string \<rightharpoonup> delivery" where
  "take_over mark P L H k = (case L k of
     None \<Rightarrow> H k | Some d \<Rightarrow> if P d then Some (mark d) else H k)"

context outbox_env
begin

lemma live_Some:
  assumes "wf_core e db"
  shows "live e db k = Some d \<longleftrightarrow> (\<exists>raw. get_delivery e db k = Some raw \<and> holds raw d)"
  using assms unfolding wf_core_def entries_ok_def entry_ok_def live_def holds_def
  by (fastforce simp: bind_eq_Some_conv)

lemma decode_live:
  assumes wf: "wf_core e db" and dec: "decode_all (bentries (cells e) (db_deliveries db)) = Inr items"
  shows "(k, raw, r) \<in> set items \<longleftrightarrow> get_delivery e db k = Some raw \<and> holds raw r"
    and "distinct (map fst items)"
proof -
  from dec have m: "map (\<lambda>(k, raw, r). (k, raw)) items = bentries (cells e) (db_deliveries db)"
    and h: "\<And>k raw r. (k, raw, r) \<in> set items \<Longrightarrow> holds raw r"
    by (auto simp: decode_all_spec)
  have "map fst items = map fst (map (\<lambda>(k, raw, r). (k, raw)) items)" by auto
  then show "distinct (map fst items)" by (simp only: m cell.entries_distinct)
  have "(\<exists>r. (k, raw, r) \<in> set items) \<longleftrightarrow> (k, raw) \<in> set (map (\<lambda>(k, raw, r). (k, raw)) items)" by force
  then show "(k, raw, r) \<in> set items \<longleftrightarrow> get_delivery e db k = Some raw \<and> holds raw r"
    unfolding m cell.entries_get using h holds_unique by metis
qed

lemma quarantine_matches_effect:
  assumes wf: "wf_db e db" and dec: "decode_all (bentries (cells e) (db_deliveries db)) = Inr items"
    and run: "quarantine_loop e cfg mark (filter (\<lambda>(_, _, r). P r) items) (db_used db) db = Inr (used, db1)"
    and cnt: "write_counters (db_count db) used db1 = Inr db'"
    and mark: "\<And>d. dl_id (mark d) = dl_id d \<and> dl_state (mark d) = StateQuarantined"
  shows "wf_db e db' \<and> same_meta db db' \<and> db_count db' = db_count db \<and>
    (db_used db' = db_used db \<or> db_used db' \<le> cf_max_bytes cfg) \<and>
    live e db' = keep_if (\<lambda>d. \<not> P d) (live e db) \<and>
    held e db' = take_over (move_marked e mark) P (live e db) (held e db)"
proof -
  let ?ms = "filter (\<lambda>(_, _, r). P r) items"
  from wf have core: "wf_core e db" and c: "db_count db = record_count e db" "db_used db = record_bytes e db"
    by (simp_all add: wf_db_core)
  note items = decode_live [OF core dec]
  have dist: "distinct (map fst ?ms)"
    using items(2) by (rule distinct_map_filter)
  have sub: "\<forall>k raw r. (k, raw, r) \<in> set ?ms \<longrightarrow> get_delivery e db k = Some raw \<and> holds raw r"
    by (simp add: items(1))
  have eff: "wf_core e db1 \<and> same_fields db db1 \<and>
    live e db1 = (\<lambda>k. if k \<in> fst ` set ?ms then None else live e db k) \<and>
    held e db1 = (\<lambda>k. if k \<in> fst ` set ?ms then map_option (move_marked e mark) (live e db k)
                     else held e db k) \<and>
    record_count e db1 = record_count e db \<and>
    used - record_bytes e db1 = db_used db - record_bytes e db \<and>
    (used = db_used db \<or> used \<le> cf_max_bytes cfg)"
    by (rule quarantine_loop_effect [OF core run sub dist mark])
  have keys: "k \<in> fst ` set ?ms \<longleftrightarrow> (\<exists>d. live e db k = Some d \<and> P d)" for k
    unfolding live_Some [OF core] by (force simp: items(1))
  from cnt have db': "db' = db1\<lparr>db_count := db_count db, db_used := used\<rparr>" by (rule write_countersE)
  show ?thesis
    using eff c unfolding keys
    by (auto simp: wf_db_core wf_core_def record_count_def record_bytes_def db'
        same_fields_def same_meta_def fun_eq_iff keep_if_def take_over_def live_def held_def split: option.splits)
qed

end

end
