(* ===== verification/OutboxEffects.thy ===== *)
theory OutboxEffects
  imports OutboxInv
begin

text \<open>
  The effect of every transaction of the outbox on a well-formed database, in terms of what the
  database means: the map of live deliveries, the map of held (quarantined) ones, the two counters
  and the \<open>meta\<close> values. Each lemma says that a successful transaction leaves a well-formed database
  and which maps it leaves; the due index does not occur in them, since it is derived data.
\<close>

section \<open>Updates of the meta bucket\<close>

lemma wf_meta [simp]:
  "wf_db e (db\<lparr>db_pause := p\<rparr>) = wf_db e db" "wf_db e (db\<lparr>db_rotation := r\<rparr>) = wf_db e db"
  "wf_db e (db\<lparr>db_marker := m\<rparr>) = wf_db e db" "wf_db e (db\<lparr>db_schema := v\<rparr>) = wf_db e db"
  "wf_db e (db\<lparr>db_sequence := q\<rparr>) = wf_db e db"
  by (simp_all add: wf_db_def)

lemma live_meta [simp]:
  "live e (db\<lparr>db_pause := p\<rparr>) = live e db" "live e (db\<lparr>db_rotation := r\<rparr>) = live e db"
  "live e (db\<lparr>db_marker := m\<rparr>) = live e db" "live e (db\<lparr>db_schema := v\<rparr>) = live e db"
  "live e (db\<lparr>db_sequence := q\<rparr>) = live e db"
  by (simp_all add: live_def fun_eq_iff)

lemma held_meta [simp]:
  "held e (db\<lparr>db_pause := p\<rparr>) = held e db" "held e (db\<lparr>db_rotation := r\<rparr>) = held e db"
  "held e (db\<lparr>db_marker := m\<rparr>) = held e db" "held e (db\<lparr>db_schema := v\<rparr>) = held e db"
  "held e (db\<lparr>db_sequence := q\<rparr>) = held e db"
  by (simp_all add: held_def fun_eq_iff)

lemma same_metaD:
  assumes "same_meta db db'"
  shows "db_sequence db' = db_sequence db" "db_schema db' = db_schema db" "db_pause db' = db_pause db"
    "db_rotation db' = db_rotation db" "db_marker db' = db_marker db"
  using assms by (simp_all add: same_meta_def)

section \<open>One record\<close>

context outbox_env
begin

lemma update_delivery_effect:
  assumes wf: "wf_db e db"
    and run: "update_delivery_tx e cfg k mutate mk db = Inr (u, db')"
    and mut: "\<And>d d'. mutate d = Inr d' \<Longrightarrow> dl_id d' = dl_id d \<and>
                 dl_state d' = (if mk then StatePending else StateInflight)"
  obtains d d' where "live e db k = Some d" "mutate d = Inr d'" "wf_db e db'"
    "live e db' = (live e db)(k \<mapsto> scrub_delivery (json_text e) d')" "held e db' = held e db"
    "same_meta db db'" "db_count db' = db_count db" "db_used db' \<le> cf_max_bytes cfg"
proof -
  from run obtain raw d d' c db1 db2 where
    raw: "get_delivery e db k = Some raw" and d: "holds raw d"
    and m: "mutate d = Inr d'" and enc: "encode_delivery e d' = Inr c"
    and bound: "db_used db - cell_len raw + cell_len c \<le> cf_max_bytes cfg"
    and due: "replace_due e mk k (due_key_of d) d' db = Inr db1"
    and put: "put_delivery e k c db1 = Inr db2"
    and cnt: "write_counters (db_count db) (db_used db - cell_len raw + cell_len c) db2 = Inr db'"
    by (auto simp: update_delivery_tx_def res_simps decode_delivery_Some Let_def
        split: option.splits if_splits)
  show thesis
    using update_cell [OF wf raw d enc _ _ due put cnt] mut [OF m] bound that [OF live_at [OF raw d] m]
    by simp
qed

lemma pause_delivery_effect:
  assumes wf: "wf_db e db"
    and run: "pause_delivery_tx e cfg now k pause f db = Inr (u, db')"
  obtains d where "live e db k = Some d" "wf_db e db'"
    "live e db' = (live e db)(k \<mapsto> scrub_delivery (json_text e)
       (record_failure f (d\<lparr>dl_state := StatePending, dl_attempts := dl_attempts d + 1\<rparr>)))"
    "held e db' = held e db" "db_sequence db' = db_sequence db" "db_rotation db' = db_rotation db"
    "db_marker db' = db_marker db" "db_schema db' = db_schema db"
    "db_pause db' = Stored (scrub_pause (json_text e)
       (pause\<lparr>dp_id := k, dp_at := if is_zero (dp_at pause) then now else dp_at pause\<rparr>))"
    "db_count db' = db_count db" "db_used db' \<le> cf_max_bytes cfg"
proof -
  let ?pause = "pause\<lparr>dp_id := k, dp_at := if is_zero (dp_at pause) then now else dp_at pause\<rparr>"
  let ?mark = "\<lambda>d. record_failure f (d\<lparr>dl_state := StatePending, dl_attempts := dl_attempts d + 1\<rparr>)"
  from run obtain raw d c db1 db2 where
    raw: "get_delivery e db k = Some raw" and d: "holds raw d"
    and enc: "encode_delivery e (?mark d) = Inr c"
    and bound: "db_used db - cell_len raw + cell_len c \<le> cf_max_bytes cfg"
    and due: "replace_due e True k (due_key_of d) (?mark d) db = Inr db1"
    and put: "put_delivery e k c db1 = Inr db2"
    and cnt: "write_counters (db_count db) (db_used db - cell_len raw + cell_len c)
               (db2\<lparr>db_pause := Stored (scrub_pause (json_text e) ?pause)\<rparr>) = Inr db'"
    by (auto simp: pause_delivery_tx_def res_simps decode_delivery_Some Let_def
        split: option.splits if_splits)
  define db3 where "db3 = db2\<lparr>db_count := db_count db, db_used := db_used db - cell_len raw + cell_len c\<rparr>"
  from cnt have pos: "0 \<le> db_count db" "0 \<le> db_used db - cell_len raw + cell_len c"
    and db': "db' = db3\<lparr>db_pause := Stored (scrub_pause (json_text e) ?pause)\<rparr>"
    by (auto elim!: write_countersE simp: db3_def)
  then have cnt3: "write_counters (db_count db) (db_used db - cell_len raw + cell_len c) db2 = Inr db3"
    by (simp add: write_counters_def db3_def)
  have "wf_db e db3 \<and> live e db3 = (live e db)(k \<mapsto> scrub_delivery (json_text e) (?mark d)) \<and>
    held e db3 = held e db \<and> same_meta db db3 \<and> db_count db3 = db_count db \<and>
    db_used db3 = db_used db - cell_len raw + cell_len c"
    by (rule update_cell [OF wf raw d enc _ _ due put cnt3]) (simp_all add: record_failure_def)
  then show thesis
    using that [OF live_at [OF raw d]] bound by (simp add: db' same_meta_def)
qed

lemma enqueue_effect:
  assumes wf: "wf_db e db" and run: "enqueue_tx e cfg now input db = Inr (u, db')"
    and utf: "json_text e (dl_id input) = dl_id input"
  defines "d \<equiv> enqueue_prepare now (db_sequence db + 1) input"
  shows "live e db (dl_id input) = None \<and> held e db (dl_id input) = None \<and> wf_db e db' \<and>
    live e db' = (live e db)(dl_id input \<mapsto> scrub_delivery (json_text e) d) \<and>
    held e db' = held e db \<and> db_sequence db' = db_sequence db + 1 \<and>
    db_pause db' = db_pause db \<and> db_rotation db' = db_rotation db \<and> db_schema db' = db_schema db \<and>
    db_marker db' = db_marker (invalidate_reconciled_binding d db) \<and>
    db_count db' = db_count db + 1 \<and> db_count db' \<le> cf_max_events cfg \<and>
    db_used db' \<le> cf_max_bytes cfg"
proof -
  let ?k = "dl_id input" and ?db = "invalidate_reconciled_binding d (db\<lparr>db_sequence := db_sequence db + 1\<rparr>)"
  have d: "dl_id d = ?k" "dl_state d = StatePending" "dl_seq d = db_sequence db + 1"
    by (simp_all add: d_def enqueue_prepare_def Let_def)
  from run obtain c db1 db2 where
    fresh: "get_delivery e db ?k = None" "get_quarantine e db ?k = None"
    and enc: "encode_delivery e d = Inr c"
    and bound: "db_count db + 1 \<le> cf_max_events cfg" "db_used db + cell_len c \<le> cf_max_bytes cfg"
    and put: "put_delivery e ?k c ?db = Inr db1"
    and due: "put_due e (due_key_of d) ?k db1 = Inr db2"
    and cnt: "write_counters (db_count db + 1) (db_used db + cell_len c) db2 = Inr db'"
    using d by (auto simp: enqueue_tx_def res_simps Let_def d_def split: if_splits)
  note w = wf_parts [OF wf]
  have inv: "db_deliveries ?db = db_deliveries db" "db_quarantine ?db = db_quarantine db"
    "db_due ?db = db_due db" "db_sequence ?db = db_sequence db + 1" "db_pause ?db = db_pause db"
    "db_rotation ?db = db_rotation db" "db_schema ?db = db_schema db"
    "db_marker ?db = db_marker (invalidate_reconciled_binding d db)"
    by (simp_all add: invalidate_reconciled_binding_def split: slot.splits)
  from put obtain b1 where b1: "db1 = ?db\<lparr>db_deliveries := b1\<rparr>"
    "bget (cells e) b1 = (get_delivery e db)(?k \<mapsto> c)" by (rule put_deliveryE) (simp add: inv)
  from due obtain b2 where b2: "db2 = db1\<lparr>db_due := b2\<rparr>"
    "bget (ids e) b2 = (get_due e db)(due_key_of d \<mapsto> ?k)" by (rule put_dueE) (simp add: inv b1)
  from cnt have db': "db' = db2\<lparr>db_count := db_count db + 1, db_used := db_used db + cell_len c\<rparr>"
    by (rule write_countersE)
  have M: "get_delivery e db' = (get_delivery e db)(?k \<mapsto> c)"
    and Q: "get_quarantine e db' = get_quarantine e db"
    and D: "get_due e db' = (get_due e db)(due_key_of d \<mapsto> ?k)"
    by (simp_all add: db' b1 b2 inv)
  note c = encode_holds [OF enc]
  have "entries_ok (json_text e) (get_delivery e db') (get_quarantine e db')"
    unfolding M Q using w(1) fresh(2)
    by (rule entries_ok_insert) (simp add: encode_entry [OF enc] d utf live_state_def)
  moreover have "index_ok (get_delivery e db') (get_due e db')"
    using index_ok_insert [OF w(2,1) fresh(1) c] by (simp add: M D d utf)
  moreover have "counters_ok (get_delivery e db') (get_quarantine e db') (db_count db') (db_used db')"
    using w(3) fresh unfolding M Q by (simp add: counters_ok_def) (simp add: db')
  ultimately have "wf_db e db'" by (simp add: wf_db_def)
  moreover have "live e db' = (live e db)(?k \<mapsto> scrub_delivery (json_text e) d)"
    and "held e db' = held e db" and "live e db ?k = None" and "held e db ?k = None"
    using c fresh by (auto simp: live_def held_def M Q fun_eq_iff holds_def)
  ultimately show ?thesis using bound by (simp add: db' b1 b2 inv)
qed

end

section \<open>Moving records\<close>

context outbox_env
begin

lemma quarantine_one_effect:
  assumes wf: "wf_db e db" and raw: "get_delivery e db k = Some raw" and d: "holds raw d"
    and run: "quarantine_one e cfg k raw d mark db = Inr db'"
    and mark: "dl_id (mark d) = dl_id d" "dl_state (mark d) = StateQuarantined"
  shows "wf_db e db' \<and> live e db' = (live e db)(k := None) \<and>
    held e db' = (held e db)(k \<mapsto> move_marked e mark d) \<and> same_meta db db' \<and>
    db_count db' = db_count db \<and> db_used db' \<le> cf_max_bytes cfg"
proof -
  from run obtain c db1 where
    enc: "encode_delivery e (mark d) = Inr c"
    and bound: "db_used db - cell_len raw + cell_len c \<le> cf_max_bytes cfg"
    and put: "put_quarantine e k c (del_due e (due_key_of d) db) = Inr db1"
    and cnt: "write_counters (db_count db1) (db_used db - cell_len raw + cell_len c)
                (del_delivery e k db1) = Inr db'"
    by (auto simp: quarantine_one_def del_due_def Let_def res_simps split: if_splits)
  from put have "db_count db1 = db_count db" by (rule put_quarantineE) (simp add: del_due_def)
  note cnt = cnt [unfolded this]
  from wf have core: "wf_core e db" and c: "db_count db = record_count e db" "db_used db = record_bytes e db"
    by (simp_all add: wf_db_core)
  from cnt have db': "db' = (del_delivery e k db1)\<lparr>db_count := db_count db,
      db_used := db_used db - cell_len raw + cell_len c\<rparr>" by (rule write_countersE)
  show ?thesis
    using move_cell [where mark = mark, OF core raw d enc mark put] c bound unfolding db'
    by (auto simp: wf_db_core wf_core_def record_count_def record_bytes_def live_def held_def
        same_fields_def same_meta_def fun_eq_iff)
qed

lemma quarantine_effect:
  assumes wf: "wf_db e db" and run: "quarantine_tx e cfg now k reason f db = Inr (u, db')"
  obtains d where "live e db k = Some d" "wf_db e db'" "live e db' = (live e db)(k := None)"
    "held e db' = (held e db)(k \<mapsto> move_marked e
       (\<lambda>d. record_failure f (mark_quarantined now (trim_space reason) d)) d)"
    "same_meta db db'" "db_count db' = db_count db" "db_used db' \<le> cf_max_bytes cfg"
proof -
  let ?mark = "\<lambda>d. record_failure f (mark_quarantined now (trim_space reason) d)"
  from run obtain raw d where raw: "get_delivery e db k = Some raw" "holds raw d"
    and one: "quarantine_one e cfg k raw d ?mark db = Inr db'"
    by (auto simp: quarantine_tx_def res_simps decode_delivery_Some split: option.splits)
  have "dl_id (?mark d) = dl_id d" "dl_state (?mark d) = StateQuarantined"
    by (simp_all add: record_failure_def mark_quarantined_def)
  from quarantine_one_effect [where mark = ?mark, OF wf raw one this] show thesis
    using that live_at [OF raw] by blast
qed

lemma resolve_collision_effect:
  assumes wf: "wf_db e db" and run: "resolve_collision_tx e cfg now k db = Inr (u, db')"
  obtains d p where "live e db k = Some d" "wf_db e db'" "live e db' = (live e db)(k := None)"
    "db_pause db = Stored p" "dp_kind p = PauseCollision" "dp_id p = k" "db_pause db' = Absent"
    "held e db' = (held e db)(k \<mapsto> move_marked e
       (mark_quarantined now ''delivery_id_collision_operator_resolved'') d)"
    "db_sequence db' = db_sequence db" "db_schema db' = db_schema db"
    "db_rotation db' = db_rotation db" "db_marker db' = db_marker db"
    "db_count db' = db_count db" "db_used db' \<le> cf_max_bytes cfg"
proof -
  let ?mark = "mark_quarantined now ''delivery_id_collision_operator_resolved''"
  from run obtain p raw d db1 where raw: "get_delivery e db k = Some raw" "holds raw d"
    and p: "db_pause db = Stored p" "dp_kind p = PauseCollision" "dp_id p = k"
    and one: "quarantine_one e cfg k raw d ?mark db = Inr db1" and db': "db' = db1\<lparr>db_pause := Absent\<rparr>"
    by (auto simp: resolve_collision_tx_def res_simps decode_delivery_Some
        split: option.splits slot.splits if_splits)
  have "dl_id (?mark d) = dl_id d" "dl_state (?mark d) = StateQuarantined"
    by (simp_all add: mark_quarantined_def)
  from quarantine_one_effect [where mark = ?mark, OF wf raw one this] show thesis
    using that [OF live_at [OF raw] _ _ p] by (simp add: db' same_meta_def)
qed

lemma by_receiver_effect:
  assumes wf: "wf_db e db" and run: "quarantine_by_receiver_tx e cfg now agent reason f db = Inr (n, db')"
  shows "wf_db e db' \<and> same_meta db db' \<and> db_count db' = db_count db \<and>
    (db_used db' = db_used db \<or> db_used db' \<le> cf_max_bytes cfg) \<and>
    live e db' = keep_if (\<lambda>d. dl_agent d \<noteq> agent) (live e db) \<and>
    held e db' = take_over (move_marked e (receiver_mark now reason f)) (\<lambda>d. dl_agent d = agent)
      (live e db) (held e db)"
proof -
  from run obtain items used db1 where
    dec: "decode_all (bentries (cells e) (db_deliveries db)) = Inr items"
    and loop: "quarantine_loop e cfg (receiver_mark now reason f)
        (filter (\<lambda>(_, _, r). dl_agent r = agent) items) (db_used db) db = Inr (used, db1)"
    and cnt: "write_counters (db_count db) used db1 = Inr db'"
    by (auto simp: quarantine_by_receiver_tx_def res_simps Let_def)
  show ?thesis
    by (rule quarantine_matches_effect [OF wf dec loop cnt])
      (simp add: receiver_mark_def mark_quarantined_def)
qed

lemma reconcile_effect:
  assumes wf: "wf_db e db" and run: "reconcile_binding_tx e cfg now b db = Inr (r, db')"
    and todo: "\<not> binding_already_reconciled db b"
  shows "wf_db e db' \<and> db_count db' = db_count db \<and>
    (db_used db' = db_used db \<or> db_used db' \<le> cf_max_bytes cfg) \<and>
    live e db' = keep_if (\<lambda>d. reconcile_reason b d = []) (live e db) \<and>
    held e db' = take_over (move_marked e (reconcile_mark now b)) (\<lambda>d. reconcile_reason b d \<noteq> [])
      (live e db) (held e db) \<and>
    db_sequence db' = db_sequence db \<and> db_schema db' = db_schema db \<and> db_pause db' = db_pause db \<and>
    db_rotation db' = db_rotation db \<and>
    db_marker db' = Stored (scrub_marker (json_text e) (reconciled_binding_from b))"
proof -
  from run todo obtain items used db1 db2 where
    dec: "decode_all (bentries (cells e) (db_deliveries db)) = Inr items"
    and loop: "quarantine_loop e cfg (reconcile_mark now b)
        (filter (\<lambda>(_, _, r). reconcile_reason b r \<noteq> []) items) (db_used db) db = Inr (used, db1)"
    and cnt: "write_counters (db_count db) used db1 = Inr db2"
    and db': "db' = db2\<lparr>db_marker := Stored (scrub_marker (json_text e) (reconciled_binding_from b))\<rparr>"
    by (auto simp: reconcile_binding_tx_def res_simps Let_def)
  have "wf_db e db2 \<and> same_meta db db2 \<and> db_count db2 = db_count db \<and>
    (db_used db2 = db_used db \<or> db_used db2 \<le> cf_max_bytes cfg) \<and>
    live e db2 = keep_if (\<lambda>d. \<not> reconcile_reason b d \<noteq> []) (live e db) \<and>
    held e db2 = take_over (move_marked e (reconcile_mark now b)) (\<lambda>d. reconcile_reason b d \<noteq> [])
      (live e db) (held e db)"
    by (rule quarantine_matches_effect [OF wf dec loop cnt])
      (simp add: reconcile_mark_def mark_quarantined_def)
  then show ?thesis by (simp add: db' same_meta_def)
qed

lemma clear_pause_ofE:
  assumes "clear_pause_of moved db = Inr db'"
  obtains "db' = db" | p where "db_pause db = Stored p" "dp_id p \<in> set moved" "db' = db\<lparr>db_pause := Absent\<rparr>"
  using assms by (auto simp: clear_pause_of_def split: slot.splits if_splits)

lemma quarantine_rotation_effect:
  assumes wf: "wf_db e db" and run: "quarantine_rotation_tx e cfg now db = Inr (r', db')"
    and journal: "db_rotation db = Stored r" "ir_phase r = PhaseIntent"
  shows "wf_db e db' \<and> db_count db' = db_count db \<and>
    (db_used db' = db_used db \<or> db_used db' \<le> cf_max_bytes cfg) \<and>
    live e db' = keep_if (\<lambda>d. dl_installation d \<noteq> ir_old r) (live e db) \<and>
    held e db' = take_over (move_marked e (rotation_mark now)) (\<lambda>d. dl_installation d = ir_old r)
      (live e db) (held e db) \<and>
    db_sequence db' = db_sequence db \<and> db_schema db' = db_schema db \<and> db_marker db' = db_marker db \<and>
    (db_pause db' = db_pause db \<or> db_pause db' = Absent) \<and>
    db_rotation db' = Stored (scrub_rotation (json_text e) r') \<and> ir_phase r' = PhaseOldQuarantined \<and>
    ir_old r' = ir_old r \<and> ir_new r' = ir_new r"
proof -
  from run journal obtain items used db1 db2 where
    dec: "decode_all (bentries (cells e) (db_deliveries db)) = Inr items"
    and loop: "quarantine_loop e cfg (rotation_mark now)
        (filter (\<lambda>(_, _, d). dl_installation d = ir_old r) items) (db_used db) db = Inr (used, db1)"
    and clr: "clear_pause_of (map (\<lambda>(_, _, d). dl_id d)
        (filter (\<lambda>(_, _, d). dl_installation d = ir_old r) items)) db1 = Inr db2"
    and r': "ir_phase r' = PhaseOldQuarantined" "ir_old r' = ir_old r" "ir_new r' = ir_new r"
    and cnt: "write_counters (db_count db) used
        (db2\<lparr>db_rotation := Stored (scrub_rotation (json_text e) r')\<rparr>) = Inr db'"
    by (auto simp: quarantine_rotation_tx_def res_simps Let_def split: if_splits)
  from cnt have pos: "0 \<le> db_count db" "0 \<le> used"
    and db': "db' = db2\<lparr>db_rotation := Stored (scrub_rotation (json_text e) r'),
        db_count := db_count db, db_used := used\<rparr>" by (auto elim!: write_countersE)
  define db3 where "db3 = db1\<lparr>db_count := db_count db, db_used := used\<rparr>"
  have "write_counters (db_count db) used db1 = Inr db3"
    using pos by (simp add: write_counters_def db3_def)
  then have eff: "wf_db e db3 \<and> same_meta db db3 \<and> db_count db3 = db_count db \<and>
    (db_used db3 = db_used db \<or> db_used db3 \<le> cf_max_bytes cfg) \<and>
    live e db3 = keep_if (\<lambda>d. \<not> dl_installation d = ir_old r) (live e db) \<and>
    held e db3 = take_over (move_marked e (rotation_mark now)) (\<lambda>d. dl_installation d = ir_old r)
      (live e db) (held e db)"
    by (rule quarantine_matches_effect [OF wf dec loop])
      (simp add: rotation_mark_def mark_quarantined_def)
  from clr show ?thesis
  proof (cases rule: clear_pause_ofE)
    case 1
    have "db' = db3\<lparr>db_rotation := Stored (scrub_rotation (json_text e) r')\<rparr>"
      by (simp add: db' db3_def 1)
    with eff r' show ?thesis by (simp add: same_meta_def)
  next
    case 2
    have "db' = db3\<lparr>db_pause := Absent, db_rotation := Stored (scrub_rotation (json_text e) r')\<rparr>"
      by (simp add: db' db3_def 2)
    with eff r' show ?thesis by (simp add: same_meta_def)
  qed
qed

end

section \<open>Deleting and pruning\<close>

definition drop_keys :: "key set \<Rightarrow> (string \<rightharpoonup> delivery) \<Rightarrow> string \<rightharpoonup> delivery" where
  "drop_keys S H k = (if k \<in> S then None else H k)"

context outbox_env
begin

lemma held_Some:
  assumes "wf_core e db"
  shows "held e db k = Some d \<longleftrightarrow> (\<exists>raw. get_quarantine e db k = Some raw \<and> holds raw d)"
  using assms unfolding wf_core_def entries_ok_def entry_ok_def held_def holds_def
  by (fastforce simp: bind_eq_Some_conv)

lemma delete_effect:
  assumes wf: "wf_db e db" and run: "delete_tx e k db = Inr (u, db')"
  shows "(live e db k \<noteq> None \<or> held e db k \<noteq> None) \<and> wf_db e db' \<and> same_meta db db' \<and>
    live e db' = (live e db)(k := None) \<and> held e db' = (held e db)(k := None) \<and>
    db_count db' = db_count db - 1 \<and> db_used db' \<le> db_used db"
proof (cases "get_delivery e db k")
  case (Some raw)
  with run obtain d where d: "holds raw d"
    and cnt: "write_counters (db_count db - 1) (db_used db - cell_len raw)
         (del_delivery e k (del_due e (due_key_of d) db)) = Inr db'"
    by (auto simp: delete_tx_def res_simps decode_delivery_Some)
  note w = wf_parts [OF wf]
  from cnt have db': "db' = (del_delivery e k (del_due e (due_key_of d) db))
      \<lparr>db_count := db_count db - 1, db_used := db_used db - cell_len raw\<rparr>" by (rule write_countersE)
  have M: "get_delivery e db' = (get_delivery e db)(k := None)"
    and Q: "get_quarantine e db' = get_quarantine e db"
    and D: "get_due e db' = (get_due e db)(due_key_of d := None)"
    by (simp_all add: db' del_delivery_def del_due_def cell.del_get idx.del_get)
  have fresh: "get_quarantine e db k = None" by (rule entries_okD(4) [OF w(1) Some d])
  have "wf_db e db'"
    unfolding wf_db_def M Q D
    using entries_ok_remove(1) [OF w(1)] index_ok_remove [OF w(2,1) Some d] w(3) Some
    by (simp add: counters_ok_def) (simp add: db')
  moreover have "same_meta db db'"
    by (simp add: same_meta_def db' del_delivery_def del_due_def)
  ultimately show ?thesis
    using live_at [OF Some d] fresh
    by (auto simp: live_def held_def M Q fun_eq_iff) (simp_all add: db')
next
  case None
  with run obtain raw where raw: "get_quarantine e db k = Some raw"
    and cnt: "write_counters (db_count db - 1) (db_used db - cell_len raw)
         (del_quarantine e k db) = Inr db'"
    by (auto simp: delete_tx_def res_simps split: option.splits)
  note w = wf_parts [OF wf]
  from cnt have db': "db' = (del_quarantine e k db)
      \<lparr>db_count := db_count db - 1, db_used := db_used db - cell_len raw\<rparr>" by (rule write_countersE)
  have M: "get_delivery e db' = get_delivery e db"
    and Q: "get_quarantine e db' = (get_quarantine e db)(k := None)"
    and D: "get_due e db' = get_due e db"
    by (simp_all add: db' del_quarantine_def cell.del_get)
  have "wf_db e db'"
    unfolding wf_db_def M Q D
    using entries_ok_remove(2) [OF w(1)] w(2,3) raw
    by (simp add: counters_ok_def) (simp add: db')
  moreover have "same_meta db db'" by (simp add: same_meta_def db' del_quarantine_def)
  moreover have "entry_ok (json_text e) (\<lambda>st. st = StateQuarantined) k raw"
    using w(1) raw by (simp add: entries_ok_def)
  then have "held e db k \<noteq> None" using raw by (auto simp: held_def entry_ok_def holds_def)
  ultimately show ?thesis
    using None by (auto simp: live_def held_def M Q fun_eq_iff) (simp_all add: db')
qed

lemma drop_held_effect:
  assumes wf: "wf_core e db" and raw: "get_quarantine e db k = Some raw"
  shows "wf_core e (del_quarantine e k db) \<and> same_fields db (del_quarantine e k db) \<and>
    live e (del_quarantine e k db) = live e db \<and>
    held e (del_quarantine e k db) = (held e db)(k := None) \<and>
    get_quarantine e (del_quarantine e k db) = (get_quarantine e db)(k := None) \<and>
    record_count e (del_quarantine e k db) = record_count e db - 1 \<and>
    record_bytes e (del_quarantine e k db) = record_bytes e db - cell_len raw"
proof -
  have Q: "get_quarantine e (del_quarantine e k db) = (get_quarantine e db)(k := None)"
    by (simp add: del_quarantine_def cell.del_get)
  have M: "get_delivery e (del_quarantine e k db) = get_delivery e db"
    and D: "get_due e (del_quarantine e k db) = get_due e db"
    by (simp_all add: del_quarantine_def)
  show ?thesis
    using wf raw entries_ok_remove(2) [of "json_text e" "get_delivery e db" "get_quarantine e db" k]
    by (simp add: wf_core_def record_count_def record_bytes_def Q M D live_def held_def fun_eq_iff)
      (simp add: same_fields_def same_meta_def del_quarantine_def)
qed

lemma prune_loop_effect:
  assumes "wf_core e db" and "prune_loop e cutoff items (removed, count, used) db = Inr ((n, c, u), db')"
    and "\<forall>k raw. (k, raw) \<in> set items \<longrightarrow> get_quarantine e db k = Some raw"
    and "distinct (map fst items)"
  shows "\<exists>S. wf_core e db' \<and> same_fields db db' \<and> live e db' = live e db \<and>
    held e db' = drop_keys S (held e db) \<and>
    (\<forall>k \<in> S. \<exists>d. held e db k = Some d \<and> prune_expired cutoff d) \<and>
    (\<forall>k \<in> fst ` set items - S. \<forall>d. held e db k = Some d \<longrightarrow> \<not> prune_expired cutoff d) \<and>
    c - record_count e db' = count - record_count e db \<and> c \<le> count \<and> n - removed = count - c \<and>
    u - record_bytes e db' = used - record_bytes e db \<and> u \<le> used"
  using assms
proof (induction items arbitrary: removed count used db)
  case Nil
  then show ?case
    by (intro exI [of _ "{}"]) (auto simp: drop_keys_def fun_eq_iff same_fields_def same_meta_def)
next
  case (Cons item items)
  obtain k raw where item: "item = (k, raw)" by fastforce
  have raw: "get_quarantine e db k = Some raw" and fresh: "k \<notin> fst ` set items"
    and dist: "distinct (map fst items)"
    using Cons.prems(3,4) by (auto simp: item)
  from Cons.prems(2) obtain d where d: "holds raw d"
    and rest: "(if \<not> prune_expired cutoff d then prune_loop e cutoff items (removed, count, used) db
       else prune_loop e cutoff items (removed + 1, count - 1, used - cell_len raw)
         (del_quarantine e k db)) = Inr ((n, c, u), db')"
    by (auto simp: item res_simps decode_delivery_Some simp del: prune_loop.simps(1))
  have h: "held e db k = Some d" using held_Some [OF Cons.prems(1)] raw d by blast
  show ?case
  proof (cases "prune_expired cutoff d")
    case False
    have run: "prune_loop e cutoff items (removed, count, used) db = Inr ((n, c, u), db')"
      using rest False by simp
    have sub: "\<forall>k raw. (k, raw) \<in> set items \<longrightarrow> get_quarantine e db k = Some raw"
      using Cons.prems(3) by (auto simp: item)
    from Cons.IH [OF Cons.prems(1) run sub dist]
    obtain S where S: "wf_core e db' \<and> same_fields db db' \<and> live e db' = live e db \<and>
      held e db' = drop_keys S (held e db) \<and>
      (\<forall>k \<in> S. \<exists>d. held e db k = Some d \<and> prune_expired cutoff d) \<and>
      (\<forall>k \<in> fst ` set items - S. \<forall>d. held e db k = Some d \<longrightarrow> \<not> prune_expired cutoff d) \<and>
      c - record_count e db' = count - record_count e db \<and> c \<le> count \<and> n - removed = count - c \<and>
      u - record_bytes e db' = used - record_bytes e db \<and> u \<le> used" by blast
    then show ?thesis using h False by (intro exI [of _ S]) (auto simp: item)
  next
    case True
    note one = drop_held_effect [OF Cons.prems(1) raw]
    have sub: "\<forall>k' raw. (k', raw) \<in> set items \<longrightarrow> get_quarantine e (del_quarantine e k db) k' = Some raw"
      using Cons.prems(3) one fresh by (force simp: item)
    have run: "prune_loop e cutoff items (removed + 1, count - 1, used - cell_len raw)
         (del_quarantine e k db) = Inr ((n, c, u), db')" using rest True by simp
    have eqs: "live e (del_quarantine e k db) = live e db"
      "held e (del_quarantine e k db) = (held e db)(k := None)"
      "record_count e (del_quarantine e k db) = record_count e db - 1"
      "record_bytes e (del_quarantine e k db) = record_bytes e db - cell_len raw"
      using one by simp_all
    from Cons.IH [OF conjunct1 [OF one] run sub dist, unfolded eqs]
    obtain S where S: "wf_core e db' \<and> same_fields (del_quarantine e k db) db' \<and> live e db' = live e db \<and>
      held e db' = drop_keys S ((held e db)(k := None)) \<and>
      (\<forall>i \<in> S. \<exists>d. ((held e db)(k := None)) i = Some d \<and> prune_expired cutoff d) \<and>
      (\<forall>i \<in> fst ` set items - S. \<forall>d. ((held e db)(k := None)) i = Some d \<longrightarrow> \<not> prune_expired cutoff d) \<and>
      c - record_count e db' = count - 1 - (record_count e db - 1) \<and> c \<le> count - 1 \<and>
      n - (removed + 1) = count - 1 - c \<and>
      u - record_bytes e db' = used - cell_len raw - (record_bytes e db - cell_len raw) \<and>
      u \<le> used - cell_len raw" by blast
    have sf: "same_fields db db'" using S one same_fields_trans by blast
    have exp: "\<forall>i \<in> insert k S. \<exists>d. held e db i = Some d \<and> prune_expired cutoff d"
      using S h True by (metis fun_upd_apply insert_iff option.distinct(1))
    have rem: "\<forall>i \<in> fst ` set (item # items) - insert k S. \<forall>d. held e db i = Some d \<longrightarrow> \<not> prune_expired cutoff d"
    proof (intro ballI allI impI)
      fix i d assume i: "i \<in> fst ` set (item # items) - insert k S" "held e db i = Some d"
      then have "i \<in> fst ` set items - S" "((held e db)(k := None)) i = Some d" by (auto simp: item)
      then show "\<not> prune_expired cutoff d" using S by blast
    qed
    have hd: "held e db' = drop_keys (insert k S) (held e db)"
      using S by (auto simp: drop_keys_def fun_eq_iff)
    show ?thesis
      using S by (intro exI [of _ "insert k S"] conjI sf exp rem hd) auto
  qed
qed

lemma prune_effect:
  assumes wf: "wf_db e db" and run: "prune_quarantine_tx e now retention db = Inr (n, db')"
  obtains S where "wf_db e db'" "same_meta db db'" "live e db' = live e db"
    "held e db' = drop_keys S (held e db)"
    "\<And>k. k \<in> S \<Longrightarrow> \<exists>d. held e db k = Some d \<and> prune_expired (now - retention) d"
    "n = db_count db - db_count db'" "db_count db' \<le> db_count db" "db_used db' \<le> db_used db"
proof -
  let ?items = "bsweep (cells e) (cell_expired (now - retention)) (db_quarantine db)"
  from run obtain c u db1 where
    loop: "prune_loop e (now - retention) ?items (0, db_count db, db_used db) db = Inr ((n, c, u), db1)"
    and cnt: "write_counters c u db1 = Inr db'"
    by (auto simp: prune_quarantine_tx_def Let_def res_simps)
  from cnt have db': "db' = db1\<lparr>db_count := c, db_used := u\<rparr>" by (rule write_countersE)
  from wf have core: "wf_core e db" and k: "db_count db = record_count e db" "db_used db = record_bytes e db"
    by (simp_all add: wf_db_core)
  have sub: "\<forall>k raw. (k, raw) \<in> set ?items \<longrightarrow> get_quarantine e db k = Some raw"
    using cell.sweep_get by blast
  obtain S where S: "wf_core e db1" "same_fields db db1" "live e db1 = live e db"
    "held e db1 = drop_keys S (held e db)"
    "\<forall>k \<in> S. \<exists>d. held e db k = Some d \<and> prune_expired (now - retention) d"
    "c - record_count e db1 = db_count db - record_count e db" "c \<le> db_count db" "n - 0 = db_count db - c"
    "u - record_bytes e db1 = db_used db - record_bytes e db" "u \<le> db_used db"
    using prune_loop_effect [OF core loop sub cell.sweep_distinct] by blast
  show thesis
  proof (rule that [of S])
    show "wf_db e db'"
      using S k by (auto simp: wf_db_core db' wf_core_def record_count_def record_bytes_def)
    show "same_meta db db'" using S by (simp add: same_fields_def same_meta_def db')
    show "live e db' = live e db" using S by (simp add: live_def fun_eq_iff db')
    show "held e db' = drop_keys S (held e db)"
      unfolding S(4) [symmetric] by (simp add: held_def fun_eq_iff db')
  qed (use S in \<open>auto simp: db'\<close>)
qed

end

section \<open>Opening\<close>

definition wake :: "time \<Rightarrow> delivery \<Rightarrow> delivery" where
  "wake now d = (if dl_state d = StateInflight then d\<lparr>dl_state := StatePending, dl_next := now\<rparr> else d)"

lemma wake_sel [simp]:
  "dl_id (wake now d) = dl_id d" "dl_seq (wake now d) = dl_seq d"
  by (simp_all add: wake_def)

text \<open>A database that \<open>initialize\<close> and \<open>resetInflight\<close> accept: its records are sound, but the index
  and the counters may hold anything.\<close>

definition openable :: "('b, 'd) env \<Rightarrow> ('b, 'd) db \<Rightarrow> bool" where
  "openable e db \<longleftrightarrow> entries_ok (json_text e) (get_delivery e db) (get_quarantine e db)"

lemma wf_openable: "wf_db e db \<Longrightarrow> openable e db"
  by (simp add: wf_db_def openable_def)

context outbox_env
begin

lemma rebuild_counters_eq: "rebuild_counters e db = write_counters (record_count e db) (record_bytes e db) db"
  by (simp add: rebuild_counters_def Let_def record_count_def record_bytes_def
      cell.entries_length o_def flip: cell.entries_sum)

lemma rebuild_counters_effect:
  assumes "rebuild_counters e db = Inr db'"
  shows "db' = db\<lparr>db_count := record_count e db, db_used := record_bytes e db\<rparr>"
  using assms unfolding rebuild_counters_eq by (rule write_countersE)

lemma rebuild_counters_ok: "\<exists>db'. rebuild_counters e db = Inr db'"
proof -
  have "0 \<le> record_count e db" "0 \<le> record_bytes e db"
    by (simp_all add: record_count_def record_bytes_def weight_sum_nonneg)
  then show ?thesis by (simp add: rebuild_counters_eq write_counters_def)
qed

lemma live_cell:
  assumes "openable e db" "live e db k = Some d"
  obtains raw where "get_delivery e db k = Some raw" "holds raw d"
proof -
  from assms(2) obtain raw where raw: "get_delivery e db k = Some raw" "cl_record raw = Some d"
    by (auto simp: live_def bind_eq_Some_conv)
  with assms(1) have "entry_ok (json_text e) live_state k raw" by (simp add: openable_def entries_ok_def)
  then have "holds raw d" using raw(2) by (auto simp: entry_ok_def holds_def)
  with raw(1) show thesis by (rule that)
qed

lemma initialize_effect:
  assumes "initialize_tx e db = Inr (u, db')"
  shows "db_deliveries db' = db_deliveries db" "db_quarantine db' = db_quarantine db"
    "db_due db' = db_due db" "db_sequence db' = db_sequence db" "db_pause db' = db_pause db"
    "db_rotation db' = db_rotation db" "db_marker db' = db_marker db"
    "\<exists>v. db_schema db' = Some v \<and> atoi v = Some schema_version"
proof -
  from assms obtain db1 where
    db1: "(case db_schema db of
         Some stored \<Rightarrow> if atoi stored \<noteq> Some schema_version then Inl UnknownSchema else Inr db
       | None \<Rightarrow> Inr (db\<lparr>db_schema := Some ''1''\<rparr>)) = Inr db1"
    and r: "rebuild_counters e db1 = Inr db'"
    unfolding initialize_tx_def by (auto simp: res_simps)
  note db' = rebuild_counters_effect [OF r]
  have "atoi ''1'' = Some schema_version"
    by (simp add: atoi_def parse_digits_def digit_value_def schema_version_def of_char_def)
  then have "\<exists>v. db_schema db1 = Some v \<and> atoi v = Some schema_version"
    using db1 by (auto split: option.splits if_splits)
  then show "\<exists>v. db_schema db' = Some v \<and> atoi v = Some schema_version" by (simp add: db')
  show "db_deliveries db' = db_deliveries db" "db_quarantine db' = db_quarantine db"
    "db_due db' = db_due db" "db_sequence db' = db_sequence db" "db_pause db' = db_pause db"
    "db_rotation db' = db_rotation db" "db_marker db' = db_marker db"
    using db1 by (auto simp: db' split: option.splits if_splits)
qed

lemma reset_loop_effect:
  assumes "entries_ok (json_text e) (get_delivery e db) (get_quarantine e db)"
    and "index_except (fst ` set items) (get_delivery e db) (get_due e db)"
    and "reset_loop e now items db = Inr db'"
    and "\<forall>k raw r. (k, raw, r) \<in> set items \<longrightarrow> get_delivery e db k = Some raw \<and> holds raw r"
    and "distinct (map fst items)"
  shows "wf_core e db' \<and> same_fields db db' \<and> held e db' = held e db \<and>
    live e db' = (\<lambda>k. if k \<in> fst ` set items
      then map_option (\<lambda>d. scrub_delivery (json_text e) (wake now d)) (live e db k) else live e db k) \<and>
    (\<forall>k raw r. (k, raw, r) \<in> set items \<longrightarrow> dl_state (wake now r) = StatePending)"
  using assms
proof (induction items arbitrary: db)
  case Nil
  then show ?case
    by (auto simp: wf_core_def index_except_empty same_fields_def same_meta_def fun_eq_iff)
next
  case (Cons item items)
  obtain k raw r where item: "item = (k, raw, r)" by (cases item)
  let ?d = "wake now r" and ?tv = "json_text e"
  from Cons.prems(3) obtain c db1 db2 where
    pending: "dl_state ?d = StatePending" and enc: "encode_delivery e ?d = Inr c"
    and put: "put_delivery e k c db = Inr db1" and due: "put_due e (due_key_of ?d) k db1 = Inr db2"
    and rest: "reset_loop e now items db2 = Inr db'"
    by (auto simp: item Let_def res_simps wake_def split: if_splits)
  have raw: "get_delivery e db k = Some raw" "holds raw r" using Cons.prems(4) by (auto simp: item)
  note r = entries_okD [OF Cons.prems(1) raw]
  from put obtain b1 where b1: "db1 = db\<lparr>db_deliveries := b1\<rparr>"
    "bget (cells e) b1 = (get_delivery e db)(k \<mapsto> c)" by (rule put_deliveryE)
  from due obtain b2 where b2: "db2 = db1\<lparr>db_due := b2\<rparr>"
    "bget (ids e) b2 = (get_due e db)(due_key_of ?d \<mapsto> k)" by (rule put_dueE) (simp add: b1)
  have M: "get_delivery e db2 = (get_delivery e db)(k \<mapsto> c)"
    and Q: "get_quarantine e db2 = get_quarantine e db"
    and D: "get_due e db2 = (get_due e db)(due_key_of ?d \<mapsto> k)" by (simp_all add: b1 b2)
  have tv: "?tv k = k" using r clean_id by metis
  have fresh: "k \<notin> fst ` set items" "distinct (map fst items)" using Cons.prems(5) by (simp_all add: item)
  have ent: "entries_ok ?tv (get_delivery e db2) (get_quarantine e db2)"
    unfolding M Q using Cons.prems(1) r(4)
    by (rule entries_ok_insert) (simp add: encode_entry [OF enc] r tv pending live_state_def)
  have c: "holds c (scrub_delivery ?tv ?d)" by (rule encode_holds [OF enc])
  have ix0: "index_except (insert k (fst ` set items)) (get_delivery e db) (get_due e db)"
    using Cons.prems(2) by (simp add: item)
  have "index_except (fst ` set items) ((get_delivery e db)(k \<mapsto> c))
      ((get_due e db)(due_key_of (scrub_delivery ?tv ?d) \<mapsto> k))"
    by (rule index_except_add [OF ix0 fresh(1) pending_at_id [OF Cons.prems(1)] c])
      (simp_all add: pending r tv)
  then have ix: "index_except (fst ` set items) (get_delivery e db2) (get_due e db2)"
    by (simp add: M D r tv)
  have sub: "\<forall>k' raw r. (k', raw, r) \<in> set items \<longrightarrow> get_delivery e db2 k' = Some raw \<and> holds raw r"
    using Cons.prems(4) fresh(1) by (force simp: item M)
  have IH: "wf_core e db' \<and> same_fields db2 db' \<and> held e db' = held e db2 \<and>
    live e db' = (\<lambda>k. if k \<in> fst ` set items
      then map_option (\<lambda>d. scrub_delivery ?tv (wake now d)) (live e db2 k) else live e db2 k) \<and>
    (\<forall>k raw r. (k, raw, r) \<in> set items \<longrightarrow> dl_state (wake now r) = StatePending)"
    by (rule Cons.IH [OF ent ix rest sub fresh(2)])
  have "live e db2 = (live e db)(k \<mapsto> scrub_delivery ?tv ?d)" "held e db2 = held e db"
    using c by (simp_all add: live_def held_def M Q fun_eq_iff holds_def)
  moreover have "live e db k = Some r" using raw by (rule live_at)
  moreover have "same_fields db db2" by (simp add: same_fields_def same_meta_def b1 b2)
  ultimately show ?case
    using IH fresh(1) pending same_fields_trans by (auto simp: item fun_eq_iff)
qed

lemma reset_inflight_effect:
  assumes ok: "openable e db" and run: "reset_inflight_tx e now db = Inr (u, db')"
  shows "wf_db e db' \<and> same_meta db db' \<and> held e db' = held e db \<and>
    live e db' = (\<lambda>k. map_option (\<lambda>d. scrub_delivery (json_text e) (wake now d)) (live e db k)) \<and>
    (\<forall>k d. live e db' k = Some d \<longrightarrow> dl_state d = StatePending)"
proof -
  let ?db = "db\<lparr>db_due := bnew (ids e)\<rparr>"
  from run obtain items db1 where
    dec: "decode_all (bentries (cells e) (db_deliveries db)) = Inr items"
    and loop: "reset_loop e now items ?db = Inr db1" and cnt: "rebuild_counters e db1 = Inr db'"
    by (auto simp: reset_inflight_tx_def res_simps)
  from dec have m: "map (\<lambda>(k, raw, r). (k, raw)) items = bentries (cells e) (db_deliveries db)"
    and h: "\<And>k raw r. (k, raw, r) \<in> set items \<Longrightarrow> holds raw r"
    by (auto simp: decode_all_spec)
  have fst_items: "map fst items = map fst (bentries (cells e) (db_deliveries db))"
    unfolding m [symmetric] by auto
  have dist: "distinct (map fst items)" by (simp only: fst_items cell.entries_distinct)
  have sub: "\<forall>k raw r. (k, raw, r) \<in> set items \<longrightarrow> get_delivery e ?db k = Some raw \<and> holds raw r"
  proof (intro allI impI)
    fix k raw r assume in_items: "(k, raw, r) \<in> set items"
    then have "(k, raw) \<in> set (map (\<lambda>(k, raw, r). (k, raw)) items)" by (simp add: rev_image_eqI)
    then show "get_delivery e ?db k = Some raw \<and> holds raw r"
      unfolding m cell.entries_get using h in_items by simp
  qed
  have keys: "k \<in> fst ` set items \<longleftrightarrow> get_delivery e db k \<noteq> None" for k
  proof -
    have "fst ` set items = set (map fst items)" by simp
    also have "\<dots> = fst ` set (bentries (cells e) (db_deliveries db))" unfolding fst_items by simp
    also have "k \<in> \<dots> \<longleftrightarrow> (\<exists>raw. (k, raw) \<in> set (bentries (cells e) (db_deliveries db)))"
      by (simp add: image_iff Bex_def)
    finally show ?thesis by (simp add: cell.entries_get)
  qed
  have ent: "entries_ok (json_text e) (get_delivery e ?db) (get_quarantine e ?db)"
    using ok by (simp add: openable_def)
  have "pending_at (get_delivery e db) k d \<Longrightarrow> k \<in> fst ` set items" for k d
    unfolding keys by (auto simp: pending_at_def)
  then have ix: "index_except (fst ` set items) (get_delivery e ?db) (get_due e ?db)"
    by (auto simp: index_except_def idx.new_get)
  have eff: "wf_core e db1 \<and> same_fields ?db db1 \<and> held e db1 = held e ?db \<and>
    live e db1 = (\<lambda>k. if k \<in> fst ` set items
      then map_option (\<lambda>d. scrub_delivery (json_text e) (wake now d)) (live e ?db k) else live e ?db k) \<and>
    (\<forall>k raw r. (k, raw, r) \<in> set items \<longrightarrow> dl_state (wake now r) = StatePending)"
    by (rule reset_loop_effect [OF ent ix loop sub dist])
  have same: "live e ?db = live e db" "held e ?db = held e db" by (simp_all add: live_def held_def fun_eq_iff)
  have db': "db' = db1\<lparr>db_count := record_count e db1, db_used := record_bytes e db1\<rparr>"
    by (rule rebuild_counters_effect [OF cnt])
  have live': "live e db' = (\<lambda>k. map_option (\<lambda>d. scrub_delivery (json_text e) (wake now d)) (live e db k))"
  proof
    fix k
    have "live e db' k = live e db1 k" by (simp add: live_def db')
    then show "live e db' k = map_option (\<lambda>d. scrub_delivery (json_text e) (wake now d)) (live e db k)"
      using eff keys [of k] by (auto simp: same live_def)
  qed
  moreover have "dl_state d = StatePending" if "live e db' k = Some d" for k d
  proof -
    from that obtain d0 where d0: "live e db k = Some d0" "d = scrub_delivery (json_text e) (wake now d0)"
      by (auto simp: live')
    obtain raw where raw: "get_delivery e db k = Some raw" "holds raw d0"
      using ok d0(1) by (rule live_cell)
    then have "(k, raw) \<in> set (map (\<lambda>(k, raw, r). (k, raw)) items)"
      unfolding m cell.entries_get by simp
    then obtain r where "(k, raw, r) \<in> set items" by auto
    then have "(k, raw, d0) \<in> set items" using h raw(2) holds_unique by blast
    then show ?thesis using eff d0(2) by auto
  qed
  moreover have "wf_db e db'" using eff
    by (simp add: wf_db_core wf_core_def record_count_def record_bytes_def db')
  moreover have "held e db' = held e db" using eff by (simp add: same held_def fun_eq_iff db')
  moreover have "same_meta db db'" using eff by (simp add: same_fields_def same_meta_def db')
  ultimately show ?thesis by blast
qed

end

end
