(* ===== verification/OutboxStore.thy ===== *)
theory OutboxStore
  imports OutboxTx
begin

text \<open>
  The exported operations of \<open>Store\<close> in \<open>internal/outbox/store.go\<close>: each runs the transactions of
  theory OutboxTx through \<open>update\<close> or \<open>view\<close>, and \<open>Open\<close> builds a store from whatever the file
  holds. A write transaction whose body returns an error, or that bbolt cannot commit, leaves the
  database as it was.
\<close>

section \<open>update and view\<close>

definition run_update ::
  "io \<Rightarrow> nat \<Rightarrow> ('b, 'd) store \<Rightarrow> ('b, 'd, 'a) tx \<Rightarrow> (outbox_error + 'a) \<times> ('b, 'd) store" where
  "run_update io n s tx = (case st_db s of
     None \<Rightarrow> (Inl OutboxClosed, s)
   | Some db \<Rightarrow> (case tx db of
       Inl err \<Rightarrow> (Inl err, s)
     | Inr (v, db') \<Rightarrow>
         if io_commit io n then (Inr v, s\<lparr>st_db := Some db'\<rparr>) else (Inl CommitFailed, s)))"

definition run_view :: "('b, 'd) store \<Rightarrow> (('b, 'd) db \<Rightarrow> outbox_error + 'a) \<Rightarrow> outbox_error + 'a" where
  "run_view s f = (case st_db s of None \<Rightarrow> Inl OutboxClosed | Some db \<Rightarrow> f db)"

section \<open>Operations\<close>

definition prune_quarantine ::
  "('b, 'd) env \<Rightarrow> io \<Rightarrow> nat \<Rightarrow> time \<Rightarrow> ('b, 'd) store \<Rightarrow> (outbox_error + int) \<times> ('b, 'd) store" where
  "prune_quarantine e io n now s =
     (let (r, s) = run_update io n s (prune_quarantine_tx e now (cf_retention (st_cfg s)))
      in (r, case r of
        Inl err \<Rightarrow> s\<lparr>st_maintenance_code := ''outbox_prune_failed'', st_maintenance_error := Some err\<rparr>
      | Inr _ \<Rightarrow> s\<lparr>st_maintenance_code := [], st_maintenance_error := None\<rparr>))"

text \<open>When the first transaction finds the store full, expired quarantine is pruned and the same
  closure runs again, on the input its first run has filled in.\<close>

definition enqueue ::
  "('b, 'd) env \<Rightarrow> io \<Rightarrow> delivery \<Rightarrow> ('b, 'd) store \<Rightarrow> (outbox_error + unit) \<times> ('b, 'd) store" where
  "enqueue e io input s =
     (if trim_space (dl_id input) = [] \<or> dl_envelope input = [] then (Inl IdEnvelopeRequired, s)
      else
        let now = io_now io;
            (r, s1) = run_update io 0 s (enqueue_tx e (st_cfg s) now input)
        in if r \<noteq> Inl OutboxFull then (r, s1)
        else (case prune_quarantine e io 1 now s1 of
            (Inl err, s2) \<Rightarrow> (Inl (PruneFailed err), s2)
          | (Inr _, s2) \<Rightarrow>
              let first = (case st_db s of None \<Rightarrow> 0 | Some db \<Rightarrow> db_sequence db) + 1
              in run_update io 2 s2 (enqueue_tx e (st_cfg s2) now (enqueue_prepare now first input))))"

definition next_due ::
  "('b, 'd) env \<Rightarrow> time \<Rightarrow> ('b, 'd) store \<Rightarrow> outbox_error + delivery option" where
  "next_due e now s = run_view s (next_due_tx e now)"

definition get_record :: "('b, 'd) env \<Rightarrow> string \<Rightarrow> ('b, 'd) store \<Rightarrow> outbox_error + delivery" where
  "get_record e did s = run_view s (get_tx e did)"

definition stored_pause :: "('b, 'd) store \<Rightarrow> outbox_error + dispatch_pause option" where
  "stored_pause s = run_view s dispatch_pause_tx"

definition stored_rotation :: "('b, 'd) store \<Rightarrow> outbox_error + rotation option" where
  "stored_rotation s = run_view s installation_rotation_tx"

definition store_stats :: "('b, 'd) env \<Rightarrow> ('b, 'd) store \<Rightarrow> outbox_error + stats" where
  "store_stats e s = run_view s (stats_tx e \<lparr>ss_pending = 0, ss_quarantined = 0, ss_total = 0,
     ss_used = 0, ss_recovered = st_recovered s, ss_recovery_code = st_recovery_code s,
     ss_maintenance_code = st_maintenance_code s, ss_maintenance_error = st_maintenance_error s,
     ss_pause = None\<rparr>)"

definition mark_inflight ::
  "('b, 'd) env \<Rightarrow> io \<Rightarrow> string \<Rightarrow> ('b, 'd) store \<Rightarrow> (outbox_error + unit) \<times> ('b, 'd) store" where
  "mark_inflight e io did s =
     run_update io 0 s (update_delivery_tx e (st_cfg s) did (mark_inflight_mutate did) False)"

definition retry ::
  "('b, 'd) env \<Rightarrow> io \<Rightarrow> string \<Rightarrow> time \<Rightarrow> attempt_failure \<Rightarrow> ('b, 'd) store
   \<Rightarrow> (outbox_error + unit) \<times> ('b, 'd) store" where
  "retry e io did next_attempt f s =
     run_update io 0 s (update_delivery_tx e (st_cfg s) did (retry_mutate next_attempt f) True)"

definition pause_delivery ::
  "('b, 'd) env \<Rightarrow> io \<Rightarrow> string \<Rightarrow> dispatch_pause \<Rightarrow> attempt_failure \<Rightarrow> ('b, 'd) store
   \<Rightarrow> (outbox_error + unit) \<times> ('b, 'd) store" where
  "pause_delivery e io did pause f s =
     (if dp_kind pause = PauseOther [] then (Inl PauseKindRequired, s)
      else run_update io 0 s (pause_delivery_tx e (st_cfg s) (io_now io) did pause f))"

definition clear_resolved_pause ::
  "io \<Rightarrow> binding \<Rightarrow> ('b, 'd) store \<Rightarrow> (outbox_error + bool) \<times> ('b, 'd) store" where
  "clear_resolved_pause io b s = run_update io 0 s (clear_resolved_pause_tx b)"

definition resolve_delivery_collision ::
  "('b, 'd) env \<Rightarrow> io \<Rightarrow> string \<Rightarrow> ('b, 'd) store \<Rightarrow> (outbox_error + unit) \<times> ('b, 'd) store" where
  "resolve_delivery_collision e io did s =
     run_update io 0 s (resolve_collision_tx e (st_cfg s) (io_now io) did)"

definition begin_rotation ::
  "('b, 'd) env \<Rightarrow> io \<Rightarrow> rotation \<Rightarrow> ('b, 'd) store \<Rightarrow> (outbox_error + rotation) \<times> ('b, 'd) store" where
  "begin_rotation e io r s =
     (let r = r\<lparr>ir_old := trim_space (ir_old r), ir_new := trim_space (ir_new r),
                ir_reason := trim_space (ir_reason r)\<rparr>
      in if ir_old r = [] \<or> ir_new r = [] \<or> ir_old r = ir_new r then (Inl RotationIdsRequired, s)
      else run_update io 0 s (begin_rotation_tx e (io_now io) r))"

definition quarantine_rotation ::
  "('b, 'd) env \<Rightarrow> io \<Rightarrow> ('b, 'd) store \<Rightarrow> (outbox_error + rotation) \<times> ('b, 'd) store" where
  "quarantine_rotation e io s =
     run_update io 0 s (quarantine_rotation_tx e (st_cfg s) (io_now io))"

definition advance_rotation ::
  "('b, 'd) env \<Rightarrow> io \<Rightarrow> rotation_phase \<Rightarrow> rotation_phase \<Rightarrow> ('b, 'd) store
   \<Rightarrow> (outbox_error + rotation) \<times> ('b, 'd) store" where
  "advance_rotation e io expected next_phase s =
     run_update io 0 s (advance_rotation_tx e (io_now io) expected next_phase)"

definition quarantine_delivery ::
  "('b, 'd) env \<Rightarrow> io \<Rightarrow> string \<Rightarrow> string \<Rightarrow> attempt_failure \<Rightarrow> ('b, 'd) store
   \<Rightarrow> (outbox_error + unit) \<times> ('b, 'd) store" where
  "quarantine_delivery e io did reason f s =
     run_update io 0 s (quarantine_tx e (st_cfg s) (io_now io) did reason f)"

definition quarantine_by_receiver ::
  "('b, 'd) env \<Rightarrow> io \<Rightarrow> string \<Rightarrow> string \<Rightarrow> attempt_failure \<Rightarrow> ('b, 'd) store
   \<Rightarrow> (outbox_error + int) \<times> ('b, 'd) store" where
  "quarantine_by_receiver e io agent reason f s =
     (let agent = trim_space agent
      in if agent = [] then (Inl ReceiverRequired, s)
      else run_update io 0 s (quarantine_by_receiver_tx e (st_cfg s) (io_now io) agent reason f))"

definition trim_binding :: "binding \<Rightarrow> binding" where
  "trim_binding b = b\<lparr>bi_owner := trim_space (bi_owner b), bi_agent := trim_space (bi_agent b),
     bi_installation := trim_space (bi_installation b)\<rparr>"

definition reconcile_binding ::
  "('b, 'd) env \<Rightarrow> io \<Rightarrow> binding \<Rightarrow> ('b, 'd) store
   \<Rightarrow> (outbox_error + reconcile_result) \<times> ('b, 'd) store" where
  "reconcile_binding e io b s =
     (let b = trim_binding b
      in if bi_owner b = [] \<or> bi_agent b = [] \<or> bi_installation b = [] then (Inl BindingRequired, s)
      else if run_view s (\<lambda>db. Inr (binding_already_reconciled db b)) = Inr True
      then (Inr \<lparr>rr_kept = 0, rr_rebind = 0, rr_reset = 0\<rparr>, s)
      else run_update io 0 s (reconcile_binding_tx e (st_cfg s) (io_now io) b))"

definition delete_record ::
  "('b, 'd) env \<Rightarrow> io \<Rightarrow> string \<Rightarrow> ('b, 'd) store \<Rightarrow> (outbox_error + unit) \<times> ('b, 'd) store" where
  "delete_record e io did s = run_update io 0 s (delete_tx e did)"

definition close_store :: "('b, 'd) store \<Rightarrow> ('b, 'd) store" where
  "close_store s = s\<lparr>st_db := None\<rparr>"

section \<open>Open\<close>

text \<open>What bbolt finds at the configured path: no file, a file it refuses to open (with an error
  that the code may or may not take for corruption), a file that opens but fails the integrity
  check, or a sound database.\<close>

datatype ('b, 'd) db_file = NoFile | BadFile bool | UnsoundFile | SoundFile "('b, 'd) db"

record open_io =
  oi_mkdir :: bool
  oi_create :: bool
  oi_preserve :: bool
  oi_reset_now :: time
  oi_prune_now :: time
  oi_commit :: "nat \<Rightarrow> bool"

definition with_defaults :: "config \<Rightarrow> config" where
  "with_defaults cfg = cfg\<lparr>
     cf_max_events := (if cf_max_events cfg \<le> 0 then 10000 else cf_max_events cfg),
     cf_max_bytes := (if cf_max_bytes cfg \<le> 0 then 64 * 1024 * 1024 else cf_max_bytes cfg),
     cf_retention := (if cf_retention cfg \<le> 0 then 30 * 24 * hour else cf_retention cfg)\<rparr>"

definition finish_open ::
  "('b, 'd) env \<Rightarrow> open_io \<Rightarrow> ('b, 'd) store \<Rightarrow> outbox_error + ('b, 'd) store" where
  "finish_open e oi s =
     (let io = \<lparr>io_now = oi_reset_now oi, io_commit = oi_commit oi\<rparr>
      in case run_update io 0 s (initialize_tx e) of
        (Inl err, _) \<Rightarrow> Inl err
      | (Inr _, s) \<Rightarrow> (case run_update io 1 s (reset_inflight_tx e (oi_reset_now oi)) of
          (Inl err, _) \<Rightarrow> Inl err
        | (Inr _, s) \<Rightarrow> Inr (snd (prune_quarantine e io 2 (oi_prune_now oi) s))))"

definition new_store :: "config \<Rightarrow> ('b, 'd) db \<Rightarrow> ('b, 'd) store" where
  "new_store cfg db = \<lparr>st_db = Some db, st_cfg = cfg, st_recovered = False, st_recovery_code = [],
     st_maintenance_code = [], st_maintenance_error = None\<rparr>"

definition recover_corrupt ::
  "('b, 'd) env \<Rightarrow> open_io \<Rightarrow> config \<Rightarrow> outbox_error + ('b, 'd) store" where
  "recover_corrupt e oi cfg =
     (if \<not> oi_preserve oi then Inl PreserveFailed
      else if \<not> oi_create oi then Inl OpenFailed
      else finish_open e oi ((new_store cfg (empty_db e))\<lparr>
             st_recovered := True, st_recovery_code := ''outbox_recovered_from_corruption''\<rparr>))"

definition open_store ::
  "('b, 'd) env \<Rightarrow> open_io \<Rightarrow> config \<Rightarrow> ('b, 'd) db_file \<Rightarrow> outbox_error + ('b, 'd) store" where
  "open_store e oi cfg0 file =
     (let cfg = with_defaults cfg0
      in if trim_space (cf_path cfg) = [] then Inl PathRequired
      else if \<not> oi_mkdir oi then Inl MkdirFailed
      else (case file of
          NoFile \<Rightarrow> if oi_create oi then finish_open e oi (new_store cfg (empty_db e)) else Inl OpenFailed
        | BadFile recoverable \<Rightarrow> if recoverable then recover_corrupt e oi cfg else Inl OpenFailed
        | UnsoundFile \<Rightarrow> recover_corrupt e oi cfg
        | SoundFile db \<Rightarrow> finish_open e oi (new_store cfg db)))"

end
