(* ===== verification/OutboxSystem.thy ===== *)
theory OutboxSystem
  imports OutboxEffects OutboxStore
begin

text \<open>
  The outbox as a system: every call of an exported operation of \<open>Store\<close>, with any clock and any
  pattern of failing commits, and every restart of the process from what was last committed. The
  states that such a run can reach are \<open>reachable\<close>; the invariants are proved by induction on it,
  each reduced to the single write transactions (\<open>db_step\<close>).
\<close>

section \<open>Operations as values\<close>

datatype store_op =
    OpEnqueue delivery
  | OpMarkInflight string
  | OpRetry string time attempt_failure
  | OpPause string dispatch_pause attempt_failure
  | OpClearPause binding
  | OpResolve string
  | OpBeginRotation rotation
  | OpQuarantineRotation
  | OpAdvanceRotation rotation_phase rotation_phase
  | OpQuarantine string string attempt_failure
  | OpByReceiver string string attempt_failure
  | OpReconcile binding
  | OpDelete string
  | OpPrune time

text \<open>The store a call leaves, whatever it returns.\<close>

fun perform :: "('b, 'd) env \<Rightarrow> io \<Rightarrow> store_op \<Rightarrow> ('b, 'd) store \<Rightarrow> ('b, 'd) store" where
  "perform e io (OpEnqueue d) s = snd (enqueue e io d s)"
| "perform e io (OpMarkInflight k) s = snd (mark_inflight e io k s)"
| "perform e io (OpRetry k t f) s = snd (retry e io k t f s)"
| "perform e io (OpPause k p f) s = snd (pause_delivery e io k p f s)"
| "perform e io (OpClearPause b) s = snd (clear_resolved_pause io b s)"
| "perform e io (OpResolve k) s = snd (resolve_delivery_collision e io k s)"
| "perform e io (OpBeginRotation r) s = snd (begin_rotation e io r s)"
| "perform e io OpQuarantineRotation s = snd (quarantine_rotation e io s)"
| "perform e io (OpAdvanceRotation p q) s = snd (advance_rotation e io p q s)"
| "perform e io (OpQuarantine k r f) s = snd (quarantine_delivery e io k r f s)"
| "perform e io (OpByReceiver a r f) s = snd (quarantine_by_receiver e io a r f s)"
| "perform e io (OpReconcile b) s = snd (reconcile_binding e io b s)"
| "perform e io (OpDelete k) s = snd (delete_record e io k s)"
| "perform e io (OpPrune t) s = snd (prune_quarantine e io 0 t s)"

text \<open>The text of a call that JSON does not rewrite: identifiers that are valid UTF-8.\<close>

fun op_clean :: "('b, 'd) env \<Rightarrow> store_op \<Rightarrow> bool" where
  "op_clean e (OpEnqueue d) \<longleftrightarrow> json_text e (dl_id d) = dl_id d \<and> json_text e (dl_owner d) = dl_owner d \<and>
     json_text e (dl_agent d) = dl_agent d \<and> json_text e (dl_installation d) = dl_installation d"
| "op_clean e (OpReconcile b) \<longleftrightarrow>
     scrub_marker (json_text e) (reconciled_binding_from b) = reconciled_binding_from b"
| "op_clean e _ \<longleftrightarrow> True"

section \<open>Write transactions\<close>

inductive db_step ::
  "('b, 'd) env \<Rightarrow> config \<Rightarrow> ('b, 'd) db \<Rightarrow> store_op \<Rightarrow> ('b, 'd) db \<Rightarrow> bool" for e cfg where
  step_enqueue: "enqueue_tx e cfg now d db = Inr (u, db') \<Longrightarrow> db_step e cfg db (OpEnqueue d) db'"
| step_mark: "update_delivery_tx e cfg k (mark_inflight_mutate k) False db = Inr (u, db')
    \<Longrightarrow> db_step e cfg db (OpMarkInflight k) db'"
| step_retry: "update_delivery_tx e cfg k (retry_mutate t f) True db = Inr (u, db')
    \<Longrightarrow> db_step e cfg db (OpRetry k t f) db'"
| step_pause: "pause_delivery_tx e cfg now k p f db = Inr (u, db')
    \<Longrightarrow> db_step e cfg db (OpPause k p f) db'"
| step_clear: "clear_resolved_pause_tx b db = Inr (c, db') \<Longrightarrow> db_step e cfg db (OpClearPause b) db'"
| step_resolve: "resolve_collision_tx e cfg now k db = Inr (u, db')
    \<Longrightarrow> db_step e cfg db (OpResolve k) db'"
| step_begin: "begin_rotation_tx e now (r\<lparr>ir_old := trim_space (ir_old r),
      ir_new := trim_space (ir_new r), ir_reason := trim_space (ir_reason r)\<rparr>) db = Inr (r', db')
    \<Longrightarrow> db_step e cfg db (OpBeginRotation r) db'"
| step_quarantine_rotation: "quarantine_rotation_tx e cfg now db = Inr (r', db')
    \<Longrightarrow> db_step e cfg db OpQuarantineRotation db'"
| step_advance: "advance_rotation_tx e now p q db = Inr (r', db')
    \<Longrightarrow> db_step e cfg db (OpAdvanceRotation p q) db'"
| step_quarantine: "quarantine_tx e cfg now k r f db = Inr (u, db')
    \<Longrightarrow> db_step e cfg db (OpQuarantine k r f) db'"
| step_by_receiver: "quarantine_by_receiver_tx e cfg now (trim_space a) r f db = Inr (n, db')
    \<Longrightarrow> db_step e cfg db (OpByReceiver a r f) db'"
| step_reconcile: "reconcile_binding_tx e cfg now (trim_binding b) db = Inr (rr, db')
    \<Longrightarrow> db_step e cfg db (OpReconcile b) db'"
| step_delete: "delete_tx e k db = Inr (u, db') \<Longrightarrow> db_step e cfg db (OpDelete k) db'"
| step_prune: "prune_quarantine_tx e t (cf_retention cfg) db = Inr (n, db')
    \<Longrightarrow> db_step e cfg db (OpPrune t) db'"

text \<open>A call commits nothing, one transaction of its own kind, or (when an enqueue finds the store
  full) a pruning that may be followed by the enqueue of the input as filled in.\<close>

fun op_refines :: "time \<Rightarrow> store_op \<Rightarrow> store_op \<Rightarrow> bool" where
  "op_refines now (OpEnqueue d) (OpEnqueue d') \<longleftrightarrow>
     d' = d \<or> (\<exists>q. d' = enqueue_prepare now q d)"
| "op_refines now (OpEnqueue d) (OpPrune t) \<longleftrightarrow> t = now"
| "op_refines now op op' \<longleftrightarrow> op' = op"

lemma op_refines_refl [simp]: "op_refines now op op"
  by (cases op) auto

lemma op_clean_refines:
  assumes "op_refines now op op'" "op_clean e op"
  shows "op_clean e op'"
  using assms by (cases op; cases op') (auto simp: enqueue_prepare_def Let_def)

lemma run_update_cases:
  obtains (fail) err where "run_update io n s tx = (Inl err, s)"
  | (commit) db v db' where "st_db s = Some db" "tx db = Inr (v, db')"
      "run_update io n s tx = (Inr v, s\<lparr>st_db := Some db'\<rparr>)"
proof (cases "st_db s")
  case None
  then show thesis using fail by (simp add: run_update_def)
next
  case (Some db)
  show thesis
  proof (cases "tx db")
    case (Inl err)
    with Some show thesis using fail by (simp add: run_update_def)
  next
    case (Inr r)
    then obtain v db' where "tx db = Inr (v, db')" by (cases r) simp
    with Some show thesis using fail commit by (cases "io_commit io n") (simp_all add: run_update_def)
  qed
qed

lemma prune_quarantine_cases:
  obtains (kept) err s' where "prune_quarantine e io n t s = (Inl err, s')" "st_db s' = st_db s"
      "st_cfg s' = st_cfg s"
  | (pruned) db v db' s' where "st_db s = Some db"
      "prune_quarantine_tx e t (cf_retention (st_cfg s)) db = Inr (v, db')"
      "prune_quarantine e io n t s = (Inr v, s')" "st_db s' = Some db'" "st_cfg s' = st_cfg s"
proof (cases rule: run_update_cases [of io n s "prune_quarantine_tx e t (cf_retention (st_cfg s))"])
  case (fail err)
  then show thesis using kept by (simp add: prune_quarantine_def)
next
  case (commit db v db')
  then show thesis using pruned by (simp add: prune_quarantine_def)
qed

text \<open>One write transaction of a call.\<close>

definition op_step ::
  "('b, 'd) env \<Rightarrow> config \<Rightarrow> time \<Rightarrow> store_op \<Rightarrow> ('b, 'd) db \<Rightarrow> ('b, 'd) db \<Rightarrow> bool" where
  "op_step e cfg now op db db' \<longleftrightarrow> (\<exists>op'. op_refines now op op' \<and> db_step e cfg db op' db')"

lemma run_update_step:
  assumes "\<And>v db'. \<lbrakk>st_db s = Some db; tx db = Inr (v, db')\<rbrakk> \<Longrightarrow> op_step e cfg now op db db'"
    and "st_db s = Some db" "st_db (snd (run_update io n s tx)) = Some db'"
  shows "(op_step e cfg now op)\<^sup>*\<^sup>* db db'"
  by (rule run_update_cases [of io n s tx]) (use assms in \<open>auto intro: r_into_rtranclp\<close>)

lemma perform_enqueue_steps:
  assumes db: "st_db s = Some db" and db': "st_db (snd (enqueue e io d s)) = Some db'"
  shows "(op_step e (st_cfg s) (io_now io) (OpEnqueue d))\<^sup>*\<^sup>* db db'"
proof (cases "trim_space (dl_id d) = [] \<or> dl_envelope d = []")
  case True
  then show ?thesis using db db' by (simp add: enqueue_def)
next
  case False
  let ?r1 = "run_update io 0 s (enqueue_tx e (st_cfg s) (io_now io) d)"
  show ?thesis
  proof (cases "fst ?r1 = Inl OutboxFull")
    case False
    then have "snd (enqueue e io d s) = snd ?r1"
      using \<open>\<not> (trim_space (dl_id d) = [] \<or> dl_envelope d = [])\<close>
      by (cases ?r1) (simp add: enqueue_def Let_def)
    then have "st_db (snd ?r1) = Some db'" using db' by simp
    then show ?thesis
      by (rule run_update_step [OF _ db, rotated])
        (auto simp: op_step_def intro!: exI [of _ "OpEnqueue d"] intro: step_enqueue)
  next
    case True
    then have r1: "?r1 = (Inl OutboxFull, s)"
      by (cases rule: run_update_cases [of io 0 s "enqueue_tx e (st_cfg s) (io_now io) d"]) auto
    let ?d = "enqueue_prepare (io_now io) (db_sequence db + 1) d"
    show ?thesis
    proof (cases rule: prune_quarantine_cases [of e io 1 "io_now io" s])
      case (kept err s')
      then show ?thesis using db db' r1 False by (simp add: enqueue_def)
    next
      case (pruned db0 v db1 s')
      have "db_step e (st_cfg s) db (OpPrune (io_now io)) db1"
        using pruned(1,2) db by (auto intro: step_prune)
      then have p: "op_step e (st_cfg s) (io_now io) (OpEnqueue d) db db1"
        unfolding op_step_def by (intro exI [of _ "OpPrune (io_now io)"]) simp
      have st: "snd (enqueue e io d s) = snd (run_update io 2 s' (enqueue_tx e (st_cfg s') (io_now io) ?d))"
        using r1 pruned(3) False db by (simp add: enqueue_def Let_def)
      have "(op_step e (st_cfg s') (io_now io) (OpEnqueue d))\<^sup>*\<^sup>* db1 db'"
      proof (rule run_update_step [OF _ pruned(4) db' [unfolded st]])
        fix v db2 assume "enqueue_tx e (st_cfg s') (io_now io) ?d db1 = Inr (v, db2)"
        then have "db_step e (st_cfg s') db1 (OpEnqueue ?d) db2" by (rule step_enqueue)
        then show "op_step e (st_cfg s') (io_now io) (OpEnqueue d) db1 db2"
          unfolding op_step_def by (intro exI [of _ "OpEnqueue ?d"]) auto
      qed
      with p show ?thesis unfolding pruned(5) by (rule converse_rtranclp_into_rtranclp)
    qed
  qed
qed

lemma perform_steps:
  assumes db: "st_db s = Some db" and db': "st_db (perform e io op s) = Some db'"
  shows "(op_step e (st_cfg s) (io_now io) op)\<^sup>*\<^sup>* db db'"
proof -
  have own: "db_step e (st_cfg s) db op db1 \<Longrightarrow> op_step e (st_cfg s) (io_now io) op db db1" for op db1
    unfolding op_step_def using op_refines_refl by blast
  note run = run_update_step [OF own db, rotated]
  show ?thesis
  proof (cases op)
    case (OpEnqueue d)
    then show ?thesis using perform_enqueue_steps [OF db] db' by simp
  next
    case (OpPrune t)
    then show ?thesis
      using db db' own by (cases rule: prune_quarantine_cases [of e io 0 t s]) (auto intro: step_prune)
  next
    case (OpReconcile b)
    then show ?thesis using db db'
      by (auto simp: reconcile_binding_def Let_def intro!: run intro: step_reconcile split: if_splits)
  next
    case (OpPause k p f)
    then show ?thesis using db db'
      by (auto simp: pause_delivery_def intro!: run intro: step_pause split: if_splits)
  next
    case (OpBeginRotation r)
    then show ?thesis using db db'
      by (auto simp: begin_rotation_def Let_def intro!: run intro: step_begin split: if_splits)
  next
    case (OpByReceiver a r f)
    then show ?thesis using db db'
      by (auto simp: quarantine_by_receiver_def Let_def intro!: run intro: step_by_receiver
          split: if_splits)
  qed (use db' in \<open>auto intro!: run simp: mark_inflight_def retry_def clear_resolved_pause_def
      resolve_delivery_collision_def quarantine_rotation_def advance_rotation_def
      quarantine_delivery_def delete_record_def
      intro: db_step.intros\<close>)
qed

section \<open>Reachable states\<close>

text \<open>A store starts from no file, from a file that is set aside as damaged, or from a sound file of
  a former run; it makes calls; and its process restarts on what the database holds.\<close>

inductive reachable :: "('b, 'd) env \<Rightarrow> ('b, 'd) store \<Rightarrow> bool" for e where
  fresh: "open_store e oi cfg file = Inr s \<Longrightarrow> file = NoFile \<or> file = UnsoundFile \<or> file = BadFile r
    \<Longrightarrow> reachable e s"
| call: "reachable e s \<Longrightarrow> op_clean e op \<Longrightarrow> reachable e (perform e io op s)"
| closed: "reachable e s \<Longrightarrow> reachable e (close_store s)"
| restart: "reachable e s \<Longrightarrow> st_db s = Some db \<Longrightarrow> open_store e oi cfg (SoundFile db) = Inr s'
    \<Longrightarrow> reachable e s'"

text \<open>What opening does: \<open>initialize\<close>, then \<open>resetInflight\<close>, then at most one pruning.\<close>

lemma finish_open_steps:
  assumes "finish_open e oi s = Inr s'" and "st_db s = Some db"
  obtains u1 u2 db1 db2 db3 where "initialize_tx e db = Inr (u1, db1)"
    "reset_inflight_tx e (oi_reset_now oi) db1 = Inr (u2, db2)"
    "db3 = db2 \<or> (\<exists>n. prune_quarantine_tx e (oi_prune_now oi) (cf_retention (st_cfg s)) db2 = Inr (n, db3))"
    "st_db s' = Some db3" "st_cfg s' = st_cfg s"
proof -
  let ?io = "\<lparr>io_now = oi_reset_now oi, io_commit = oi_commit oi\<rparr>"
  obtain u1 db1 where 1: "initialize_tx e db = Inr (u1, db1)"
    "run_update ?io 0 s (initialize_tx e) = (Inr u1, s\<lparr>st_db := Some db1\<rparr>)"
    using assms by (cases rule: run_update_cases [of ?io 0 s "initialize_tx e"])
      (auto simp: finish_open_def)
  let ?s = "s\<lparr>st_db := Some db1\<rparr>"
  obtain u2 db2 where 2: "reset_inflight_tx e (oi_reset_now oi) db1 = Inr (u2, db2)"
    "run_update ?io 1 ?s (reset_inflight_tx e (oi_reset_now oi)) = (Inr u2, s\<lparr>st_db := Some db2\<rparr>)"
    using assms 1 by (cases rule: run_update_cases [of ?io 1 ?s "reset_inflight_tx e (oi_reset_now oi)"])
      (auto simp: finish_open_def)
  have s': "s' = snd (prune_quarantine e ?io 2 (oi_prune_now oi) (s\<lparr>st_db := Some db2\<rparr>))"
    using assms 1 2 by (simp add: finish_open_def)
  show thesis
    by (cases rule: prune_quarantine_cases [of e ?io 2 "oi_prune_now oi" "s\<lparr>st_db := Some db2\<rparr>"])
      (use that [OF 1(1) 2(1)] s' in auto)
qed

lemma perform_closed:
  assumes "st_db s = None"
  shows "st_db (perform e io op s) = None"
proof -
  have "run_update io n s tx = (Inl OutboxClosed, s)" for n and tx :: "('a, 'b, 'c) tx"
    using assms by (simp add: run_update_def)
  with assms show ?thesis
    by (cases op) (auto simp: enqueue_def mark_inflight_def retry_def clear_resolved_pause_def
      resolve_delivery_collision_def quarantine_rotation_def advance_rotation_def run_update_def
      quarantine_delivery_def delete_record_def pause_delivery_def begin_rotation_def Let_def
      quarantine_by_receiver_def reconcile_binding_def prune_quarantine_def)
qed

section \<open>Every transaction keeps the database well-formed\<close>

context outbox_env
begin

lemma mark_inflight_mutate_ok:
  "mark_inflight_mutate k d = Inr d' \<Longrightarrow> dl_id d' = dl_id d \<and> dl_state d' = (if False then StatePending else StateInflight)"
  by (auto simp: mark_inflight_mutate_def split: if_splits)

lemma retry_mutate_ok:
  "retry_mutate t f d = Inr d' \<Longrightarrow> dl_id d' = dl_id d \<and> dl_state d' = (if True then StatePending else StateInflight)"
  by (auto simp: retry_mutate_def record_failure_def)

lemma clear_effect:
  "clear_resolved_pause_tx b db = Inr (c, db') \<Longrightarrow>
     db' = db \<and> \<not> c \<or> (\<exists>p. db_pause db = Stored p \<and> pause_resolved b p = Inr True \<and> c \<and> db' = db\<lparr>db_pause := Absent\<rparr>)"
  by (auto simp: clear_resolved_pause_tx_def res_simps split: slot.splits if_splits)

lemma begin_rotation_effect:
  "begin_rotation_tx e now r db = Inr (r', db') \<Longrightarrow> db' = db \<or> (\<exists>j. db' = db\<lparr>db_rotation := Stored j\<rparr>)"
  by (auto simp: begin_rotation_tx_def Let_def split: slot.splits if_splits)

lemma advance_rotation_effect:
  "advance_rotation_tx e now p q db = Inr (r', db') \<Longrightarrow> db' = db \<or> (\<exists>j. db' = db\<lparr>db_rotation := Stored j\<rparr>)"
  by (auto simp: advance_rotation_tx_def Let_def split: slot.splits if_splits)

lemma quarantine_rotation_cases:
  assumes "quarantine_rotation_tx e cfg now db = Inr (r', db')"
  obtains (idle) "db' = db" "db_rotation db = Stored r'" "ir_phase r' \<noteq> PhaseIntent"
  | (moved) r where "db_rotation db = Stored r" "ir_phase r = PhaseIntent"
  using assms by (auto simp: quarantine_rotation_tx_def split: slot.splits if_splits)

lemma reconcile_cases:
  assumes "reconcile_binding_tx e cfg now b db = Inr (r', db')"
  obtains (idle) "db' = db" "binding_already_reconciled db b"
  | (moved) "\<not> binding_already_reconciled db b"
  using assms by (auto simp: reconcile_binding_tx_def split: if_splits)

lemma wf_step:
  assumes wf: "wf_db e db" and ok: "op_clean e op" and step: "db_step e cfg db op db'"
  shows "wf_db e db'"
  using step
proof cases
  case (step_enqueue now d u)
  then show ?thesis using enqueue_effect [OF wf step_enqueue(2)] ok by simp
next
  case (step_mark k u)
  then show ?thesis by (elim update_delivery_effect [OF wf _ mark_inflight_mutate_ok])
next
  case (step_retry k t f u)
  then show ?thesis by (elim update_delivery_effect [OF wf _ retry_mutate_ok])
next
  case (step_pause now k p f u)
  then show ?thesis by (elim pause_delivery_effect [OF wf])
next
  case (step_clear b c)
  then show ?thesis using wf clear_effect by fastforce
next
  case (step_resolve now k u)
  then show ?thesis by (elim resolve_collision_effect [OF wf])
next
  case (step_begin now r r')
  then show ?thesis using wf begin_rotation_effect by fastforce
next
  case (step_quarantine_rotation now r')
  then show ?thesis
    using wf quarantine_rotation_effect [OF wf step_quarantine_rotation(2)]
    by (cases rule: quarantine_rotation_cases [OF step_quarantine_rotation(2)]) auto
next
  case (step_advance now p q r')
  then show ?thesis using wf advance_rotation_effect by fastforce
next
  case (step_quarantine now k r f u)
  then show ?thesis by (elim quarantine_effect [OF wf])
next
  case (step_by_receiver now a r f n)
  then show ?thesis using by_receiver_effect [OF wf] by blast
next
  case (step_reconcile now b rr)
  then show ?thesis
    using wf reconcile_effect [OF wf step_reconcile(2)]
    by (cases rule: reconcile_cases [OF step_reconcile(2)]) auto
next
  case (step_delete k u)
  then show ?thesis using delete_effect [OF wf] by blast
next
  case (step_prune t n)
  then show ?thesis by (elim prune_effect [OF wf])
qed

lemma empty_wf: "wf_db e (empty_db e)"
  by (simp add: wf_db_def empty_db_def cell.new_get idx.new_get entries_ok_def index_ok_def
      counters_ok_def pending_at_def)

text \<open>Induction over the databases of reachable stores: an invariant of the opened databases that
  every transaction on a well-formed database keeps.\<close>

lemma reachable_db_induct:
  assumes reach: "reachable e s" and db: "st_db s = Some db"
    and opens: "\<And>now u1 u2 db0 db1 db2. \<lbrakk>wf_db e db0; db0 = empty_db e \<or> P db0; initialize_tx e db0 = Inr (u1, db1);
      reset_inflight_tx e now db1 = Inr (u2, db2)\<rbrakk> \<Longrightarrow> P db2"
    and steps: "\<And>cfg op db db'. \<lbrakk>wf_db e db; P db; op_clean e op; db_step e cfg db op db'\<rbrakk> \<Longrightarrow> P db'"
  shows "wf_db e db \<and> P db"
proof -
  have open_P: "wf_db e db3 \<and> P db3"
    if h: "finish_open e oi s = Inr s'" "st_db s = Some db0" "wf_db e db0" "db0 = empty_db e \<or> P db0" "st_db s' = Some db3"
    for oi s s' db0 db3
  proof -
    obtain u1 u2 db1 db2 where o: "initialize_tx e db0 = Inr (u1, db1)"
      "reset_inflight_tx e (oi_reset_now oi) db1 = Inr (u2, db2)"
      "db3 = db2 \<or> (\<exists>n. prune_quarantine_tx e (oi_prune_now oi) (cf_retention (st_cfg s)) db2 = Inr (n, db3))"
      by (rule finish_open_steps [OF h(1,2)]) (use h(5) in auto)
    have "openable e db1"
      using wf_openable [OF h(3)] initialize_effect [OF o(1)] by (simp add: openable_def)
    then have wf2: "wf_db e db2" using reset_inflight_effect [OF _ o(2)] by blast
    have P2: "P db2" by (rule opens [OF h(3,4) o(1,2)])
    show ?thesis
      using o(3) wf2 P2 steps [OF wf2 P2, of "OpPrune (oi_prune_now oi)"]
        wf_step [OF wf2, of "OpPrune (oi_prune_now oi)"] step_prune by fastforce
  qed
  show ?thesis using reach db
  proof (induction arbitrary: db)
    case (fresh oi cfg fl s r)
    then show ?case
      using open_P [OF _ _ empty_wf]
      by (auto simp: open_store_def Let_def recover_corrupt_def new_store_def split: if_splits)
  next
    case (call s op io)
    then obtain db0 where db0: "st_db s = Some db0"
      using perform_closed [of s e io op] call.prems by (cases "st_db s") auto
    have "wf_db e db0 \<and> P db0" by (rule call.IH [OF db0])
    with perform_steps [OF db0 call.prems] show ?case
    proof (induction rule: rtranclp_induct)
      case (step db1 db2)
      then show ?case using wf_step steps op_clean_refines call.hyps(2) unfolding op_step_def by blast
    qed
  next
    case (closed s)
    then show ?case by (simp add: close_store_def)
  next
    case (restart s db0 oi cfg s')
    then show ?case using open_P
      by (auto simp: open_store_def Let_def new_store_def split: if_splits)
  qed
qed

end

end
