(* ===== verification/OutboxRecords.thy ===== *)
theory OutboxRecords
  imports OutboxSystem
begin

text \<open>
  What the outbox never does to a record: the identity of a delivery (its bytes, hash, idempotency
  key, owner, binding and queue position) is fixed by \<open>Enqueue\<close>; a quarantined record does not change;
  only \<open>Delete\<close>, and pruning after the retention time, take a record away.
\<close>

section \<open>Identity of a delivery\<close>

definition identity ::
  "delivery \<Rightarrow> string \<times> string \<times> string \<times> string \<times> string \<times> string \<times> string
     \<times> 64 word \<times> 64 word \<times> string \<times> 64 word \<times> time" where
  "identity d = (dl_id d, dl_envelope d, dl_sha256 d, dl_idempotency d, dl_owner d, dl_agent d,
     dl_installation d, dl_cred_gen d, dl_bind_gen d, dl_endpoint d, dl_seq d, dl_enqueued d)"

lemma clean_fields:
  assumes "clean tv d"
  shows "tv (dl_id d) = dl_id d" "tv (dl_sha256 d) = dl_sha256 d"
    "tv (dl_idempotency d) = dl_idempotency d" "tv (dl_owner d) = dl_owner d"
    "tv (dl_agent d) = dl_agent d" "tv (dl_installation d) = dl_installation d"
    "tv (dl_endpoint d) = dl_endpoint d"
  using assms unfolding clean_def by (metis scrub_delivery_sel)+

lemma identity_scrub:
  assumes "clean tv d" "identity d' = identity d"
  shows "identity (scrub_delivery tv d') = identity d"
  using assms(2) clean_fields [OF assms(1)] by (simp add: identity_def)

lemma identity_mutate [simp]:
  "mark_inflight_mutate k d = Inr d' \<Longrightarrow> identity d' = identity d"
  "retry_mutate t f d = Inr d' \<Longrightarrow> identity d' = identity d"
  "identity (record_failure f d) = identity d"
  "identity (d\<lparr>dl_state := st, dl_attempts := n\<rparr>) = identity d"
  "identity (mark_quarantined now r d) = identity d"
  "identity (receiver_mark now r f d) = identity d"
  "identity (reconcile_mark now b d) = identity d"
  "identity (rotation_mark now d) = identity d"
  "identity (wake now d) = identity d"
  by (auto simp: mark_inflight_mutate_def retry_mutate_def record_failure_def identity_def
      mark_quarantined_def receiver_mark_def reconcile_mark_def rotation_mark_def wake_def
      split: if_splits)

section \<open>Which operations move and remove records\<close>

fun moves :: "store_op \<Rightarrow> bool" where
  "moves (OpResolve _) \<longleftrightarrow> True"
| "moves OpQuarantineRotation \<longleftrightarrow> True"
| "moves (OpQuarantine _ _ _) \<longleftrightarrow> True"
| "moves (OpByReceiver _ _ _) \<longleftrightarrow> True"
| "moves (OpReconcile _) \<longleftrightarrow> True"
| "moves _ \<longleftrightarrow> False"

fun prunes_at :: "time \<Rightarrow> store_op \<Rightarrow> time \<Rightarrow> bool" where
  "prunes_at now (OpPrune t) t' \<longleftrightarrow> t' = t"
| "prunes_at now (OpEnqueue _) t' \<longleftrightarrow> t' = now"
| "prunes_at now _ t' \<longleftrightarrow> False"

definition keeps_live ::
  "('b, 'd) env \<Rightarrow> store_op \<Rightarrow> ('b, 'd) db \<Rightarrow> ('b, 'd) db \<Rightarrow> bool" where
  "keeps_live e op db db' \<longleftrightarrow> (\<forall>k d. live e db k = Some d \<longrightarrow> op \<noteq> OpDelete k \<longrightarrow>
     (\<exists>d'. identity d' = identity d \<and>
        (live e db' k = Some d' \<or> moves op \<and> held e db' k = Some d')))"

definition keeps_held ::
  "('b, 'd) env \<Rightarrow> duration \<Rightarrow> time \<Rightarrow> store_op \<Rightarrow> ('b, 'd) db \<Rightarrow> ('b, 'd) db \<Rightarrow> bool" where
  "keeps_held e retention now op db db' \<longleftrightarrow> (\<forall>k d. held e db k = Some d \<longrightarrow> op \<noteq> OpDelete k \<longrightarrow>
     held e db' k = Some d \<or> (\<exists>t. prunes_at now op t \<and> prune_expired (t - retention) d))"

lemma keeps_refl: "keeps_live e op db db" "keeps_held e r now op db db"
  by (auto simp: keeps_live_def keeps_held_def)

lemma not_moves_and_prunes: "moves op \<Longrightarrow> \<not> prunes_at now op t"
  by (cases op) auto

lemma keeps_trans:
  assumes "keeps_live e op a b \<and> keeps_held e r now op a b"
    and "keeps_live e op b c \<and> keeps_held e r now op b c"
  shows "keeps_live e op a c \<and> keeps_held e r now op a c"
proof
  show "keeps_held e r now op a c" using assms unfolding keeps_held_def by blast
  show "keeps_live e op a c"
    unfolding keeps_live_def
  proof (intro allI impI)
    fix k d assume k: "live e a k = Some d" "op \<noteq> OpDelete k"
    with assms(1) obtain d1 where d1: "identity d1 = identity d"
      and at: "live e b k = Some d1 \<or> moves op \<and> held e b k = Some d1"
      unfolding keeps_live_def by blast
    from at show "\<exists>d'. identity d' = identity d \<and> (live e c k = Some d' \<or> moves op \<and> held e c k = Some d')"
    proof
      assume "live e b k = Some d1"
      then show ?thesis using assms(2) k(2) d1 unfolding keeps_live_def by metis
    next
      assume "moves op \<and> held e b k = Some d1"
      then have "held e c k = Some d1"
        using assms(2) k(2) not_moves_and_prunes unfolding keeps_held_def by blast
      with \<open>moves op \<and> _\<close> d1 show ?thesis by blast
    qed
  qed
qed

lemma prunes_at_refines: "op_refines now op op' \<Longrightarrow> prunes_at now op' t \<Longrightarrow> prunes_at now op t"
  by (cases op; cases op') auto

lemma moves_refines: "op_refines now op op' \<Longrightarrow> moves op' \<Longrightarrow> moves op"
  by (cases op; cases op') auto

lemma delete_refines: "op_refines now op op' \<Longrightarrow> op' = OpDelete k \<Longrightarrow> op = OpDelete k"
  by (cases op) auto

section \<open>Every transaction keeps the records\<close>

lemma keeps_meta:
  assumes "live e db' = live e db" "held e db' = held e db"
  shows "keeps_live e op db db' \<and> keeps_held e r now op db db'"
  using assms by (auto simp: keeps_live_def keeps_held_def)

context outbox_env
begin

lemma live_clean: "wf_db e db \<Longrightarrow> live e db k = Some d \<Longrightarrow> clean (json_text e) d"
  by (metis live_cell wf_openable wf_parts(1) entries_okD(3))

lemma live_not_held: "wf_db e db \<Longrightarrow> live e db k = Some d \<Longrightarrow> held e db k = None"
proof -
  assume wf: "wf_db e db" and "live e db k = Some d"
  then obtain raw where "get_delivery e db k = Some raw" "holds raw d"
    using live_cell wf_openable by metis
  then have "get_quarantine e db k = None" using entries_okD(4) wf_parts(1) [OF wf] by blast
  then show ?thesis by (simp add: held_def)
qed

lemma keeps_put:
  assumes wf: "wf_db e db" and at: "live e db k = Some d" and id: "identity d' = identity d"
    and live': "live e db' = (live e db)(k \<mapsto> scrub_delivery (json_text e) d')"
    and held': "held e db' = held e db"
  shows "keeps_live e op db db' \<and> keeps_held e r now op db db'"
  using identity_scrub [OF live_clean [OF wf at] id] at
  by (auto simp: keeps_live_def keeps_held_def live' held')

lemma keeps_move:
  assumes wf: "wf_db e db" and at: "live e db k = Some d" and id: "identity (mark d) = identity d"
    and live': "live e db' = (live e db)(k := None)"
    and held': "held e db' = (held e db)(k \<mapsto> move_marked e mark d)" and "moves op"
  shows "keeps_live e op db db' \<and> keeps_held e r now op db db'"
  using identity_scrub [OF live_clean [OF wf at] id] at live_not_held [OF wf at] \<open>moves op\<close>
  by (auto simp: keeps_live_def keeps_held_def live' held' move_marked_def)

lemma keeps_move_all:
  assumes wf: "wf_db e db" and id: "\<And>d. identity (mark d) = identity d"
    and live': "live e db' = keep_if (\<lambda>d. \<not> P d) (live e db)"
    and held': "held e db' = take_over (move_marked e mark) P (live e db) (held e db)" and "moves op"
  shows "keeps_live e op db db' \<and> keeps_held e r now op db db'"
proof -
  have "identity (move_marked e mark d) = identity d" if "live e db k = Some d" for k d
    unfolding move_marked_def by (rule identity_scrub [OF live_clean [OF wf that] id])
  then have "keeps_live e op db db'"
    using \<open>moves op\<close> by (auto simp: keeps_live_def live' held' keep_if_def take_over_def)
  moreover have "keeps_held e r now op db db'"
    using live_not_held [OF wf]
    by (fastforce simp: keeps_held_def held' take_over_def split: option.splits)
  ultimately show ?thesis by blast
qed

lemma update_keeps:
  assumes wf: "wf_db e db" and run: "update_delivery_tx e cfg k mutate mk db = Inr (u, db')"
    and "\<And>d d'. mutate d = Inr d' \<Longrightarrow> dl_id d' = dl_id d \<and>
           dl_state d' = (if mk then StatePending else StateInflight)"
    and "\<And>d d'. mutate d = Inr d' \<Longrightarrow> identity d' = identity d"
  shows "keeps_live e op db db' \<and> keeps_held e r now op db db'"
  by (rule update_delivery_effect [OF wf run assms(3)]) (assumption, metis keeps_put [OF wf] assms(4))

lemma keeps_step:
  assumes wf: "wf_db e db" and ok: "op_clean e op" and step: "db_step e cfg db op db'"
  shows "keeps_live e op db db' \<and> keeps_held e (cf_retention cfg) now op db db'"
  using step
proof cases
  case (step_enqueue now d u)
  then have "op_clean e (OpEnqueue d)" using ok by simp
  then show ?thesis using enqueue_effect [OF wf step_enqueue(2)]
    by (auto simp: keeps_live_def keeps_held_def)
next
  case (step_mark k u)
  from update_keeps [OF wf step_mark(2) mark_inflight_mutate_ok identity_mutate(1)] show ?thesis .
next
  case (step_retry k t f u)
  from update_keeps [OF wf step_retry(2) retry_mutate_ok identity_mutate(2)] show ?thesis .
next
  case (step_pause now k p f u)
  show ?thesis
    by (rule pause_delivery_effect [OF wf step_pause(2)]) (rule keeps_put [OF wf]; (simp)?)
next
  case (step_clear b c)
  then show ?thesis by (intro keeps_meta) (auto dest: clear_effect)
next
  case (step_resolve now k u)
  show ?thesis
    by (rule resolve_collision_effect [OF wf step_resolve(2)])
      (rule keeps_move [OF wf]; (simp add: step_resolve(1))?)
next
  case (step_begin now r r')
  then show ?thesis by (intro keeps_meta) (auto dest: begin_rotation_effect)
next
  case (step_quarantine_rotation now r')
  from step_quarantine_rotation(2) show ?thesis
  proof (cases rule: quarantine_rotation_cases)
    case (moved r)
    from quarantine_rotation_effect [OF wf step_quarantine_rotation(2) moved] show ?thesis
      by (intro keeps_move_all [OF wf, of "rotation_mark now" _ "\<lambda>d. dl_installation d = ir_old r"])
        (simp_all add: step_quarantine_rotation(1))
  qed (simp add: keeps_refl)
next
  case (step_advance now p q r')
  then show ?thesis by (intro keeps_meta) (auto dest: advance_rotation_effect)
next
  case (step_quarantine now k r f u)
  show ?thesis
    by (rule quarantine_effect [OF wf step_quarantine(2)])
      (rule keeps_move [OF wf]; (simp add: step_quarantine(1))?)
next
  case (step_by_receiver now a r f n)
  from by_receiver_effect [OF wf step_by_receiver(2)] show ?thesis
    by (intro keeps_move_all [OF wf, of "receiver_mark now r f" _ "\<lambda>d. dl_agent d = trim_space a"])
      (simp_all add: step_by_receiver(1))
next
  case (step_reconcile now b rr)
  from step_reconcile(2) show ?thesis
  proof (cases rule: reconcile_cases)
    case moved
    from reconcile_effect [OF wf step_reconcile(2) moved] show ?thesis
      by (intro keeps_move_all [OF wf, of "reconcile_mark now (trim_binding b)" _
            "\<lambda>d. reconcile_reason (trim_binding b) d \<noteq> []"]) (simp_all add: step_reconcile(1))
  qed (simp add: keeps_refl)
next
  case (step_delete k u)
  then show ?thesis using delete_effect [OF wf step_delete(2)]
    by (auto simp: keeps_live_def keeps_held_def)
next
  case (step_prune t n)
  show ?thesis
    by (rule prune_effect [OF wf step_prune(2)])
      (fastforce simp: keeps_live_def keeps_held_def drop_keys_def step_prune(1))
qed

text \<open>A relation between databases that every transaction of a call establishes holds across the
  whole call, if it is reflexive and transitive.\<close>

lemma perform_relates:
  assumes wf: "wf_db e db" and ok: "op_clean e op"
    and db: "st_db s = Some db" and db': "st_db (perform e io op s) = Some db'"
    and step: "\<And>op' a b. \<lbrakk>wf_db e a; op_refines (io_now io) op op'; op_clean e op'; db_step e (st_cfg s) a op' b\<rbrakk>
      \<Longrightarrow> R a b"
    and refl: "\<And>a. R a a" and trans: "\<And>a b c. R a b \<Longrightarrow> R b c \<Longrightarrow> R a c"
  shows "wf_db e db' \<and> R db db'"
  using perform_steps [OF db db']
proof (induction rule: rtranclp_induct)
  case base
  show ?case using wf refl by blast
next
  case (step a b)
  then obtain op' where op': "op_refines (io_now io) op op'" "db_step e (st_cfg s) a op' b"
    unfolding op_step_def by blast
  have clean': "op_clean e op'" by (rule op_clean_refines [OF op'(1) ok])
  have "wf_db e b" using wf_step [OF _ clean' op'(2)] step.IH by blast
  moreover have "R a b" using assms(5) op' clean' step.IH by blast
  ultimately show ?case using trans step.IH by blast
qed

lemma perform_keeps:
  assumes wf: "wf_db e db" and ok: "op_clean e op"
    and db: "st_db s = Some db" and db': "st_db (perform e io op s) = Some db'"
  shows "keeps_live e op db db' \<and> keeps_held e (cf_retention (st_cfg s)) (io_now io) op db db'"
proof -
  have "wf_db e db' \<and> (keeps_live e op db db' \<and> keeps_held e (cf_retention (st_cfg s)) (io_now io) op db db')"
  proof (rule perform_relates [OF assms])
    fix op' a b
    assume a: "wf_db e a" "op_refines (io_now io) op op'" "op_clean e op'" "db_step e (st_cfg s) a op' b"
    have "keeps_live e op' a b \<and> keeps_held e (cf_retention (st_cfg s)) (io_now io) op' a b"
      by (rule keeps_step [OF a(1,3,4)])
    then show "keeps_live e op a b \<and> keeps_held e (cf_retention (st_cfg s)) (io_now io) op a b"
      using moves_refines [OF a(2)] prunes_at_refines [OF a(2)] delete_refines [OF a(2)]
      unfolding keeps_live_def keeps_held_def by metis
  qed (use keeps_refl keeps_trans in blast)+
  then show ?thesis by blast
qed

end

end
