(* ===== verification/OutboxBinding.thy ===== *)
theory OutboxBinding
  imports OutboxRecords
begin

text \<open>
  Three things the dispatcher relies on. The reconciled-binding marker is a promise about every live
  delivery, so that skipping a reconciliation because of it is sound. A dispatch pause goes away only
  in the ways the code intends. The storage bounds hold after every call that does not fail.
\<close>

section \<open>The reconciled-binding marker\<close>

definition marker_matches :: "reconciled_binding \<Rightarrow> delivery \<Rightarrow> bool" where
  "marker_matches m d \<longleftrightarrow> rb_owner m = trim_space (dl_owner d) \<and> rb_agent m = trim_space (dl_agent d)
     \<and> rb_installation m = trim_space (dl_installation d)"

definition marker_ok :: "('b, 'd) env \<Rightarrow> ('b, 'd) db \<Rightarrow> bool" where
  "marker_ok e db \<longleftrightarrow>
     (\<forall>m k d. db_marker db = Stored m \<longrightarrow> live e db k = Some d \<longrightarrow> marker_matches m d)"

lemma marker_matches_identity: "identity d' = identity d \<Longrightarrow> marker_matches m d' = marker_matches m d"
  by (simp add: marker_matches_def identity_def)

lemma marker_ok_sub:
  assumes "marker_ok e db" "db_marker db' = db_marker db"
    and "\<And>k d. live e db' k = Some d \<Longrightarrow> \<exists>k' d'. live e db k' = Some d' \<and> identity d = identity d'"
  shows "marker_ok e db'"
  using assms marker_matches_identity unfolding marker_ok_def by metis

lemma marker_ok_fewer:
  assumes "marker_ok e db" "db_marker db' = db_marker db" "\<And>k d. live e db' k = Some d \<Longrightarrow> live e db k = Some d"
  shows "marker_ok e db'"
  using assms unfolding marker_ok_def by metis

lemma invalidate_marker:
  "db_marker (invalidate_reconciled_binding d db) = Stored m \<longleftrightarrow>
     db_marker db = Stored m \<and> marker_matches m d"
  by (auto simp: invalidate_reconciled_binding_def marker_matches_def split: slot.splits)

context outbox_env
begin

lemma marker_put:
  assumes wf: "wf_db e db" and mk: "marker_ok e db" and at: "live e db k = Some d"
    and id: "identity d' = identity d"
    and live': "live e db' = (live e db)(k \<mapsto> scrub_delivery (json_text e) d')"
    and same: "db_marker db' = db_marker db"
  shows "marker_ok e db'"
  using mk same
proof (rule marker_ok_sub)
  fix i x assume "live e db' i = Some x"
  then show "\<exists>k' d'. live e db k' = Some d' \<and> identity x = identity d'"
    using identity_scrub [OF live_clean [OF wf at] id] at by (auto simp: live' split: if_splits)
qed

lemma marker_update:
  assumes wf: "wf_db e db" and mk: "marker_ok e db"
    and run: "update_delivery_tx e cfg k mutate mkdue db = Inr (u, db')"
    and "\<And>d d'. mutate d = Inr d' \<Longrightarrow> dl_id d' = dl_id d \<and>
           dl_state d' = (if mkdue then StatePending else StateInflight)"
    and "\<And>d d'. mutate d = Inr d' \<Longrightarrow> identity d' = identity d"
  shows "marker_ok e db'"
  by (rule update_delivery_effect [OF wf run assms(4)])
    (assumption, metis marker_put [OF wf mk] assms(5) same_metaD(5))

lemma marker_step:
  assumes wf: "wf_db e db" and mk: "marker_ok e db" and ok: "op_clean e op" and step: "db_step e cfg db op db'"
  shows "marker_ok e db'"
  using step
proof cases
  case (step_enqueue now d u)
  let ?d = "enqueue_prepare now (db_sequence db + 1) d"
  from enqueue_effect [OF wf step_enqueue(2)] ok step_enqueue(1)
  have live': "live e db' = (live e db)(dl_id d \<mapsto> scrub_delivery (json_text e) ?d)"
    and mk': "db_marker db' = db_marker (invalidate_reconciled_binding ?d db)" by auto
  have "marker_matches m (scrub_delivery (json_text e) ?d) \<longleftrightarrow> marker_matches m ?d" for m
    using ok step_enqueue(1) by (simp add: marker_matches_def enqueue_prepare_def Let_def)
  then show ?thesis
    using mk by (auto simp: marker_ok_def live' mk' invalidate_marker split: if_splits)
next
  case (step_mark k u)
  from marker_update [OF wf mk step_mark(2) mark_inflight_mutate_ok identity_mutate(1)] show ?thesis .
next
  case (step_retry k t f u)
  from marker_update [OF wf mk step_retry(2) retry_mutate_ok identity_mutate(2)] show ?thesis .
next
  case (step_pause now k p f u)
  show ?thesis
    by (rule pause_delivery_effect [OF wf step_pause(2)]) (rule marker_put [OF wf mk]; (simp)?)
next
  case (step_clear b c)
  then show ?thesis using mk by (auto simp: marker_ok_def dest!: clear_effect)
next
  case (step_resolve now k u)
  show ?thesis
    by (rule resolve_collision_effect [OF wf step_resolve(2)])
      (rule marker_ok_fewer [OF mk]; simp split: if_splits)
next
  case (step_begin now r r')
  then show ?thesis using mk by (auto simp: marker_ok_def dest!: begin_rotation_effect)
next
  case (step_quarantine_rotation now r')
  from step_quarantine_rotation(2) show ?thesis
  proof (cases rule: quarantine_rotation_cases)
    case (moved r)
    from quarantine_rotation_effect [OF wf step_quarantine_rotation(2) moved] show ?thesis
      by (intro marker_ok_fewer [OF mk]) (auto simp: keep_if_def split: option.splits if_splits)
  qed (simp add: mk)
next
  case (step_advance now p q r')
  then show ?thesis using mk by (auto simp: marker_ok_def dest!: advance_rotation_effect)
next
  case (step_quarantine now k r f u)
  show ?thesis
    by (rule quarantine_effect [OF wf step_quarantine(2)])
      (rule marker_ok_fewer [OF mk]; simp add: same_meta_def split: if_splits)
next
  case (step_by_receiver now a r f n)
  from by_receiver_effect [OF wf step_by_receiver(2)] show ?thesis
    by (intro marker_ok_fewer [OF mk])
      (auto simp: keep_if_def same_meta_def split: option.splits if_splits)
next
  case (step_reconcile now b rr)
  from step_reconcile(2) show ?thesis
  proof (cases rule: reconcile_cases)
    case moved
    let ?b = "trim_binding b"
    from reconcile_effect [OF wf step_reconcile(2) moved]
    have live': "live e db' = keep_if (\<lambda>d. reconcile_reason ?b d = []) (live e db)"
      and mk': "db_marker db' = Stored (scrub_marker (json_text e) (reconciled_binding_from ?b))" by auto
    have "reconciled_binding_from ?b = reconciled_binding_from b"
      by (simp add: reconciled_binding_from_def trim_binding_def)
    then have "db_marker db' = Stored (reconciled_binding_from b)"
      using mk' ok step_reconcile(1) by simp
    then show ?thesis
      by (auto simp: marker_ok_def live' keep_if_def marker_matches_def reconcile_reason_def
          reconciled_binding_from_def trim_binding_def split: option.splits if_splits)
  qed (simp add: mk)
next
  case (step_delete k u)
  from delete_effect [OF wf step_delete(2)] show ?thesis
    by (intro marker_ok_fewer [OF mk]) (auto simp: same_meta_def split: if_splits)
next
  case (step_prune t n)
  show ?thesis
    by (rule prune_effect [OF wf step_prune(2)]) (rule marker_ok_fewer [OF mk]; simp add: same_meta_def)
qed

lemma marker_opening:
  assumes wf: "wf_db e db0" and old: "db0 = empty_db e \<or> marker_ok e db0"
    and init: "initialize_tx e db0 = Inr (u1, db1)" and res: "reset_inflight_tx e now db1 = Inr (u2, db2)"
  shows "marker_ok e db2"
proof -
  note i = initialize_effect [OF init]
  have mk: "marker_ok e db0"
    using old by (auto simp: marker_ok_def empty_db_def)
  have live1: "live e db1 = live e db0" by (simp add: live_def i fun_eq_iff)
  have op: "openable e db1" using wf_openable [OF wf] by (simp add: openable_def i)
  from reset_inflight_effect [OF op res]
  have live2: "live e db2 = (\<lambda>k. map_option (\<lambda>d. scrub_delivery (json_text e) (wake now d)) (live e db0 k))"
    and mk2: "db_marker db2 = db_marker db0" by (auto simp: live1 same_meta_def i)
  show ?thesis
    using mk mk2
  proof (rule marker_ok_sub)
    fix k d assume "live e db2 k = Some d"
    then obtain d0 where d0: "live e db0 k = Some d0" "d = scrub_delivery (json_text e) (wake now d0)"
      by (auto simp: live2)
    then show "\<exists>k' d'. live e db0 k' = Some d' \<and> identity d = identity d'"
      using identity_scrub [OF live_clean [OF wf d0(1)], of "wake now d0"] by auto
  qed
qed

lemma reachable_marker:
  assumes "reachable e s" "st_db s = Some db"
  shows "wf_db e db \<and> marker_ok e db"
  using assms by (rule reachable_db_induct) (use marker_opening marker_step in blast)+

end

section \<open>Dispatch pauses\<close>

text \<open>The operations that may replace or remove a pause \<open>p\<close> (the rotation clears a pause whose
  delivery it moves; a new pause replaces an old one).\<close>

fun may_lift :: "dispatch_pause \<Rightarrow> store_op \<Rightarrow> bool" where
  "may_lift p (OpPause _ _ _) \<longleftrightarrow> True"
| "may_lift p (OpResolve k) \<longleftrightarrow> dp_kind p = PauseCollision \<and> k = dp_id p"
| "may_lift p (OpClearPause b) \<longleftrightarrow>
     dp_kind p = PauseCredential \<and> (dp_cred_gen p < bi_cred_gen b \<or> dp_bind_gen p < bi_bind_gen b)
     \<or> dp_kind p = PauseBinding \<and> dp_bind_gen p < bi_bind_gen b"
| "may_lift p OpQuarantineRotation \<longleftrightarrow> True"
| "may_lift p _ \<longleftrightarrow> False"

lemma pause_resolved_True:
  "pause_resolved b p = Inr True \<Longrightarrow> may_lift p (OpClearPause b)"
  by (auto simp: pause_resolved_def split: pause_kind.splits)

lemma may_lift_refines: "op_refines now op op' \<Longrightarrow> may_lift p op' \<Longrightarrow> may_lift p op"
  by (cases op; cases op') auto

context outbox_env
begin

lemma pause_step:
  assumes wf: "wf_db e db" and ok: "op_clean e op" and step: "db_step e cfg db op db'"
    and p: "db_pause db = Stored p" "\<not> may_lift p op"
  shows "db_pause db' = Stored p"
  using step
proof cases
  case (step_enqueue now d u)
  then show ?thesis using enqueue_effect [OF wf step_enqueue(2)] ok p by auto
next
  case (step_mark k u)
  show ?thesis
    by (rule update_delivery_effect [OF wf step_mark(2) mark_inflight_mutate_ok])
      (use p in \<open>auto simp: same_meta_def\<close>)
next
  case (step_retry k t f u)
  show ?thesis
    by (rule update_delivery_effect [OF wf step_retry(2) retry_mutate_ok])
      (use p in \<open>auto simp: same_meta_def\<close>)
next
  case (step_clear b c)
  then show ?thesis using p pause_resolved_True by (fastforce dest: clear_effect)
next
  case (step_resolve now k u)
  show ?thesis
    by (rule resolve_collision_effect [OF wf step_resolve(2)]) (use p step_resolve(1) in auto)
next
  case (step_begin now r r')
  then show ?thesis using p by (auto dest: begin_rotation_effect)
next
  case (step_advance now x y r')
  then show ?thesis using p by (auto dest: advance_rotation_effect)
next
  case (step_quarantine now k r f u)
  show ?thesis
    by (rule quarantine_effect [OF wf step_quarantine(2)]) (use p in \<open>simp add: same_meta_def\<close>)
next
  case (step_by_receiver now a r f n)
  then show ?thesis using by_receiver_effect [OF wf step_by_receiver(2)] p by (simp add: same_meta_def)
next
  case (step_reconcile now b rr)
  from step_reconcile(2) show ?thesis
  proof (cases rule: reconcile_cases)
    case moved
    from reconcile_effect [OF wf step_reconcile(2) moved] p show ?thesis by simp
  qed (simp add: p)
next
  case (step_delete k u)
  then show ?thesis using delete_effect [OF wf step_delete(2)] p by (simp add: same_meta_def)
next
  case (step_prune t n)
  show ?thesis
    by (rule prune_effect [OF wf step_prune(2)]) (use p in \<open>simp add: same_meta_def\<close>)
qed (use p in auto)

lemma perform_pause:
  assumes wf: "wf_db e db" and ok: "op_clean e op"
    and db: "st_db s = Some db" and db': "st_db (perform e io op s) = Some db'"
    and p: "db_pause db = Stored p" "\<not> may_lift p op"
  shows "db_pause db' = Stored p"
proof -
  have "wf_db e db' \<and> (db_pause db = Stored p \<longrightarrow> db_pause db' = Stored p)"
    by (rule perform_relates [OF wf ok db db']) (use pause_step may_lift_refines p(2) in blast)+
  with p(1) show ?thesis by blast
qed

end

section \<open>Storage bounds\<close>

definition within_bounds :: "config \<Rightarrow> ('b, 'd) db \<Rightarrow> ('b, 'd) db \<Rightarrow> bool" where
  "within_bounds cfg db db' \<longleftrightarrow>
     (db_count db' \<le> db_count db \<or> db_count db' \<le> cf_max_events cfg) \<and>
     (db_used db' \<le> db_used db \<or> db_used db' \<le> cf_max_bytes cfg)"

context outbox_env
begin

lemma bounds_step:
  assumes wf: "wf_db e db" and ok: "op_clean e op" and step: "db_step e cfg db op db'"
  shows "within_bounds cfg db db'"
  using step
proof cases
  case (step_enqueue now d u)
  then show ?thesis using enqueue_effect [OF wf step_enqueue(2)] ok by (simp add: within_bounds_def)
next
  case (step_mark k u)
  show ?thesis
    by (rule update_delivery_effect [OF wf step_mark(2) mark_inflight_mutate_ok])
      (auto simp: within_bounds_def)
next
  case (step_retry k t f u)
  show ?thesis
    by (rule update_delivery_effect [OF wf step_retry(2) retry_mutate_ok]) (auto simp: within_bounds_def)
next
  case (step_pause now k p f u)
  show ?thesis by (rule pause_delivery_effect [OF wf step_pause(2)]) (simp add: within_bounds_def)
next
  case (step_clear b c)
  then show ?thesis by (auto simp: within_bounds_def dest: clear_effect)
next
  case (step_resolve now k u)
  show ?thesis by (rule resolve_collision_effect [OF wf step_resolve(2)]) (simp add: within_bounds_def)
next
  case (step_begin now r r')
  then show ?thesis by (auto simp: within_bounds_def dest: begin_rotation_effect)
next
  case (step_quarantine_rotation now r')
  from step_quarantine_rotation(2) show ?thesis
  proof (cases rule: quarantine_rotation_cases)
    case (moved r)
    from quarantine_rotation_effect [OF wf step_quarantine_rotation(2) moved] show ?thesis
      by (auto simp: within_bounds_def)
  qed (simp add: within_bounds_def)
next
  case (step_advance now p q r')
  then show ?thesis by (auto simp: within_bounds_def dest: advance_rotation_effect)
next
  case (step_quarantine now k r f u)
  show ?thesis by (rule quarantine_effect [OF wf step_quarantine(2)]) (simp add: within_bounds_def)
next
  case (step_by_receiver now a r f n)
  then show ?thesis using by_receiver_effect [OF wf step_by_receiver(2)] by (auto simp: within_bounds_def)
next
  case (step_reconcile now b rr)
  from step_reconcile(2) show ?thesis
  proof (cases rule: reconcile_cases)
    case moved
    from reconcile_effect [OF wf step_reconcile(2) moved] show ?thesis by (auto simp: within_bounds_def)
  qed (simp add: within_bounds_def)
next
  case (step_delete k u)
  then show ?thesis using delete_effect [OF wf step_delete(2)] by (simp add: within_bounds_def)
next
  case (step_prune t n)
  show ?thesis by (rule prune_effect [OF wf step_prune(2)]) (simp add: within_bounds_def)
qed

lemma perform_bounds:
  assumes wf: "wf_db e db" and ok: "op_clean e op"
    and db: "st_db s = Some db" and db': "st_db (perform e io op s) = Some db'"
  shows "within_bounds (st_cfg s) db db'"
proof -
  have "wf_db e db' \<and> within_bounds (st_cfg s) db db'"
    by (rule perform_relates [OF wf ok db db'])
      (use bounds_step in \<open>auto simp: within_bounds_def\<close>)
  then show ?thesis by blast
qed

end

end
