(* ===== verification/Dispatch.thy ===== *)
theory Dispatch
  imports OutboxBinding
begin

text \<open>
  The dispatcher (\<open>internal/receiverevents/dispatch.go\<close>): one call of \<open>DispatchOnce\<close> takes the next
  due delivery from the outbox, posts it and records the outcome. The cloud client is a parameter, a
  function from the delivery to an acknowledgement or an error. The calls go to the outbox engine,
  whose writer runs them one at a time; between two of them other goroutines may run operations of
  their own, and the engine may be closed. A \<open>schedule\<close> says which, and what each call meets.
\<close>

section \<open>Errors of the cloud client\<close>

record api_error =
  ae_status :: int
  ae_code :: string
  ae_message :: string
  ae_retryable :: bool
  ae_retry_after :: duration
  ae_request_id :: string

datatype send_error = SendApi api_error | SendOther string

definition error_text :: "send_error \<Rightarrow> string" where
  "error_text err = (case err of
     SendOther m \<Rightarrow> m
   | SendApi a \<Rightarrow>
       if ae_message a = [] then ''cloud api error status='' @ itoa (ae_status a)
       else ''cloud api error status='' @ itoa (ae_status a) @ '': '' @ ae_message a)"

definition failure_from_error :: "send_error \<Rightarrow> attempt_failure" where
  "failure_from_error err = (case err of
     SendOther m \<Rightarrow> \<lparr>af_status = 0, af_code = [], af_message = error_text err, af_request = []\<rparr>
   | SendApi a \<Rightarrow> \<lparr>af_status = ae_status a, af_code = ae_code a, af_message = error_text err,
       af_request = ae_request_id a\<rparr>)"

section \<open>Classification\<close>

datatype action = ActNone | ActRetry | ActQuarantine | ActPause | ActRequirePairing | ActStop

record disposition =
  ds_action :: action
  ds_reason :: string
  ds_retry_after :: duration
  ds_quarantine :: bool
  ds_pairing :: bool
  ds_pause_kind :: pause_kind

definition no_disposition :: disposition where
  "no_disposition = \<lparr>ds_action = ActNone, ds_reason = [], ds_retry_after = 0, ds_quarantine = False,
     ds_pairing = False, ds_pause_kind = PauseOther []\<rparr>"

definition is_binding_code :: "string \<Rightarrow> bool" where
  "is_binding_code code \<longleftrightarrow> code \<in> {''RECEIVER_BINDING_MISMATCH'', ''RECEIVER_BINDING_REQUIRED'',
     ''RECEIVER_INSTALLATION_UNAVAILABLE'', ''RECEIVER_REVOKED'', ''RECEIVER_REPLACED'',
     ''RECEIVER_DISABLED''}"

definition normalized_reason :: "unicode \<Rightarrow> string \<Rightarrow> int \<Rightarrow> string" where
  "normalized_reason u code status =
     (if code \<noteq> [] then to_lower u code else ''http_'' @ itoa status)"

definition classify :: "unicode \<Rightarrow> send_error \<Rightarrow> disposition" where
  "classify u err = (case err of
     SendOther m \<Rightarrow> no_disposition\<lparr>ds_action := ActRetry, ds_reason := ''delivery_error''\<rparr>
   | SendApi a \<Rightarrow>
       (let code = to_upper u (trim_space (ae_code a));
            base = no_disposition\<lparr>ds_reason := normalized_reason u code (ae_status a),
                                  ds_retry_after := ae_retry_after a\<rparr>
        in if ae_retryable a \<or> ae_status a = 429 then base\<lparr>ds_action := ActRetry\<rparr>
           else if ae_status a = 401
             then base\<lparr>ds_action := ActRequirePairing, ds_pairing := True, ds_pause_kind := PauseCredential\<rparr>
           else if ae_status a = 409 \<and> code = ''DELIVERY_ID_COLLISION''
             then base\<lparr>ds_action := ActStop, ds_pause_kind := PauseCollision\<rparr>
           else if ae_status a = 403 \<and> is_binding_code code
             then base\<lparr>ds_action := ActPause, ds_pairing := True, ds_pause_kind := PauseBinding\<rparr>
           else if ae_status a = 403
             then base\<lparr>ds_action := ActPause, ds_pairing := True, ds_pause_kind := PauseCredential\<rparr>
           else if 400 \<le> ae_status a \<and> ae_status a < 500
             then base\<lparr>ds_action := ActQuarantine, ds_quarantine := True\<rparr>
           else base\<lparr>ds_action := ActRetry\<rparr>))"

definition retry_delay :: "int \<Rightarrow> duration" where
  "retry_delay attempts =
     (let attempts = (if attempts < 0 then 0 else attempts);
          attempts = (if attempts > 5 then 5 else attempts);
          delay = 2 * 2 ^ nat attempts * second
      in if delay > 2 * minute then 2 * minute else delay)"

section \<open>One dispatch\<close>

record 'a ack =
  ak_duplicate :: bool
  ak_payload :: 'a

record 'a dispatch_result =
  dr_id :: string
  dr_attempted :: bool
  dr_acknowledged :: bool
  dr_duplicate :: bool
  dr_disposition :: disposition
  dr_quarantined :: int
  dr_reconciled :: reconcile_result
  dr_payload :: "'a option"

definition no_reconcile :: reconcile_result where
  "no_reconcile = \<lparr>rr_kept = 0, rr_rebind = 0, rr_reset = 0\<rparr>"

definition no_result :: "'a dispatch_result" where
  "no_result = \<lparr>dr_id = [], dr_attempted = False, dr_acknowledged = False, dr_duplicate = False,
     dr_disposition = no_disposition, dr_quarantined = 0, dr_reconciled = no_reconcile,
     dr_payload = None\<rparr>"

datatype dispatch_error = NotConfigured | OutboxFailed outbox_error | RemoveFailed outbox_error

text \<open>Before the \<open>n\<close>-th call to the engine: the operations of other goroutines that the writer runs,
  how the engine takes the call, and what the call meets. \<open>write\<close> returns \<open>ErrEngineClosed\<close> without
  running the operation when the engine is closed, and may do so after running it when the writer
  finishes before the caller has read the result.\<close>

datatype admission = Admitted | Refused | ReplyLost

record schedule =
  sc_others :: "nat \<Rightarrow> (io \<times> store_op) list"
  sc_admit :: "nat \<Rightarrow> admission"
  sc_io :: "nat \<Rightarrow> io"

definition run_others ::
  "('b, 'd) env \<Rightarrow> (io \<times> store_op) list \<Rightarrow> ('b, 'd) store \<Rightarrow> ('b, 'd) store" where
  "run_others e ops s = fold (\<lambda>(io, op). perform e io op) ops s"

definition engine_write ::
  "('b, 'd) env \<Rightarrow> schedule \<Rightarrow> nat \<Rightarrow> (io \<Rightarrow> ('b, 'd) store \<Rightarrow> (outbox_error + 'a) \<times> ('b, 'd) store)
   \<Rightarrow> ('b, 'd) store \<Rightarrow> (outbox_error + 'a) \<times> ('b, 'd) store" where
  "engine_write e sc n f s =
     (let s = run_others e (sc_others sc n) s
      in case sc_admit sc n of
           Admitted \<Rightarrow> f (sc_io sc n) s
         | Refused \<Rightarrow> (Inl EngineClosed, s)
         | ReplyLost \<Rightarrow> (Inl EngineClosed, snd (f (sc_io sc n) s)))"

definition engine_read ::
  "('b, 'd) env \<Rightarrow> schedule \<Rightarrow> nat \<Rightarrow> ('b, 'd) store \<Rightarrow> ('b, 'd) store" where
  "engine_read e sc n s = run_others e (sc_others sc n) s"

definition paused_result :: "dispatch_pause \<Rightarrow> 'a dispatch_result" where
  "paused_result p = no_result\<lparr>dr_id := dp_id p, dr_disposition := no_disposition\<lparr>
     ds_action := (if dp_kind p = PauseCollision then ActStop else ActPause),
     ds_reason := dp_reason p, ds_pause_kind := dp_kind p,
     ds_pairing := (dp_kind p \<noteq> PauseCollision)\<rparr>\<rparr>"

definition dispatch_pause_for ::
  "disposition \<Rightarrow> string \<Rightarrow> time \<Rightarrow> binding \<Rightarrow> attempt_failure \<Rightarrow> dispatch_pause" where
  "dispatch_pause_for ds did now b f = \<lparr>dp_kind = ds_pause_kind ds, dp_reason = ds_reason ds,
     dp_id = did, dp_at = now, dp_cred_gen = bi_cred_gen b, dp_bind_gen = bi_bind_gen b,
     dp_status_code = af_status f, dp_error_code = af_code f, dp_request_id = af_request f\<rparr>"

text \<open>The outcome of a failed post, and of a successful one.\<close>

definition settle_failure ::
  "unicode \<Rightarrow> ('b, 'd) env \<Rightarrow> schedule \<Rightarrow> binding \<Rightarrow> time \<Rightarrow> delivery \<Rightarrow> send_error
   \<Rightarrow> 'a dispatch_result \<Rightarrow> ('b, 'd) store
   \<Rightarrow> 'a dispatch_result \<times> dispatch_error option \<times> ('b, 'd) store" where
  "settle_failure u e sc b now d err result s =
     (let ds = classify u err; f = failure_from_error err; result = result\<lparr>dr_disposition := ds\<rparr>
      in if ds_action ds = ActPause \<or> ds_action ds = ActRequirePairing \<or> ds_action ds = ActStop
         then (case engine_write e sc 5 (\<lambda>io. pause_delivery e io (dl_id d)
                  (dispatch_pause_for ds (dl_id d) now b f) f) s of
             (Inl x, s) \<Rightarrow> (result, Some (OutboxFailed x), s)
           | (Inr _, s) \<Rightarrow> (result, None, s))
         else if ds_quarantine ds
         then (case engine_write e sc 5 (\<lambda>io. quarantine_delivery e io (dl_id d) (ds_reason ds) f) s of
             (Inl x, s) \<Rightarrow> (result, Some (OutboxFailed x), s)
           | (Inr _, s) \<Rightarrow> (result\<lparr>dr_quarantined := 1\<rparr>, None, s))
         else
           (let delay = (if ds_retry_after ds \<le> 0 then retry_delay (dl_attempts d) else ds_retry_after ds)
            in case engine_write e sc 5 (\<lambda>io. retry e io (dl_id d) (now + delay) f) s of
                 (Inl x, s) \<Rightarrow> (result, Some (OutboxFailed x), s)
               | (Inr _, s) \<Rightarrow> (result, None, s)))"

definition settle_success ::
  "('b, 'd) env \<Rightarrow> schedule \<Rightarrow> delivery \<Rightarrow> 'a ack \<Rightarrow> 'a dispatch_result \<Rightarrow> ('b, 'd) store
   \<Rightarrow> 'a dispatch_result \<times> dispatch_error option \<times> ('b, 'd) store" where
  "settle_success e sc d ack result s =
     (case engine_write e sc 5 (\<lambda>io. delete_record e io (dl_id d)) s of
        (Inl x, s) \<Rightarrow> (result, Some (RemoveFailed x), s)
      | (Inr _, s) \<Rightarrow> (result\<lparr>dr_acknowledged := True, dr_duplicate := ak_duplicate ack,
                              dr_payload := Some (ak_payload ack)\<rparr>, None, s))"

record ('b, 'd, 'a) dispatched =
  di_result :: "'a dispatch_result"
  di_error :: "dispatch_error option"
  di_posted :: "delivery option"
  di_store :: "('b, 'd) store"

definition dispatched ::
  "delivery option \<Rightarrow> 'a dispatch_result \<times> dispatch_error option \<times> ('b, 'd) store
   \<Rightarrow> ('b, 'd, 'a) dispatched" where
  "dispatched posted r = \<lparr>di_result = fst r, di_error = fst (snd r), di_posted = posted,
     di_store = snd (snd r)\<rparr>"

definition dispatch_once ::
  "unicode \<Rightarrow> ('b, 'd) env \<Rightarrow> schedule \<Rightarrow> (delivery \<Rightarrow> send_error + 'a ack) \<Rightarrow> binding \<Rightarrow> time
   \<Rightarrow> ('b, 'd) store \<Rightarrow> ('b, 'd, 'a) dispatched" where
  "dispatch_once u e sc post b now s =
     (case engine_write e sc 0 (\<lambda>io. clear_resolved_pause io b) s of
        (Inl x, s) \<Rightarrow> dispatched None (no_result, Some (OutboxFailed x), s)
      | (Inr _, s) \<Rightarrow>
     let s = engine_read e sc 1 s in
     (case stored_pause s of
        Inl x \<Rightarrow> dispatched None (no_result, Some (OutboxFailed x), s)
      | Inr (Some p) \<Rightarrow> dispatched None (paused_result p, None, s)
      | Inr None \<Rightarrow>
     (case engine_write e sc 2 (\<lambda>io. reconcile_binding e io b) s of
        (Inl x, s) \<Rightarrow> dispatched None (no_result, Some (OutboxFailed x), s)
      | (Inr reconciled, s) \<Rightarrow>
     let s = engine_read e sc 3 s in
     (case next_due e now s of
        Inl x \<Rightarrow> dispatched None (no_result\<lparr>dr_reconciled := reconciled\<rparr>, Some (OutboxFailed x), s)
      | Inr None \<Rightarrow> dispatched None (no_result\<lparr>dr_reconciled := reconciled\<rparr>, None, s)
      | Inr (Some d) \<Rightarrow>
     let result = no_result\<lparr>dr_id := dl_id d, dr_attempted := True, dr_reconciled := reconciled\<rparr> in
     (case engine_write e sc 4 (\<lambda>io. mark_inflight e io (dl_id d)) s of
        (Inl x, s) \<Rightarrow> dispatched None (result, Some (OutboxFailed x), s)
      | (Inr _, s) \<Rightarrow>
     dispatched (Some d)
       (case post d of
          Inr ack \<Rightarrow> settle_success e sc d ack result s
        | Inl err \<Rightarrow> settle_failure u e sc b now d err result s))))))"

end
