(* ===== verification/OutboxOrder.thy ===== *)
theory OutboxOrder
  imports OutboxSystem
begin

text \<open>
  The order in which the outbox hands out deliveries. The key of the due index is the due time and
  the sequence number in big-endian bytes and then the delivery id, so that byte order, the order of
  a bbolt cursor, is due time first and queue position second, for every time between 1970 and 2262.
\<close>

definition time_ok :: "time \<Rightarrow> bool" where
  "time_ok t \<longleftrightarrow> 0 \<le> t \<and> t < 2 ^ 63"

lemma uint_time: "time_ok t \<Longrightarrow> uint (word_of_int t :: 64 word) = t"
  by (simp add: time_ok_def uint_word_of_int)

lemma sint_time: "time_ok t \<Longrightarrow> sint (word_of_int t :: 64 word) = t"
  by (simp add: time_ok_def signed_of_int signed_take_bit_int_eq_self)

lemma time_word_less:
  "time_ok t \<Longrightarrow> time_ok t' \<Longrightarrow> (word_of_int t :: 64 word) < word_of_int t' \<longleftrightarrow> t < t'"
  by (simp add: word_less_def uint_time)

lemma time_word_eq:
  "time_ok t \<Longrightarrow> time_ok t' \<Longrightarrow> (word_of_int t :: 64 word) = word_of_int t' \<longleftrightarrow> t = t'"
  by (metis uint_time)

lemma due_key_less:
  assumes "time_ok t" "time_ok t'"
  shows "due_key t q i < due_key t' q' i' \<longleftrightarrow> t < t' \<or> t = t' \<and> (q < q' \<or> q = q' \<and> i < i')"
  using assms by (simp add: due_key_def be64_less time_word_less time_word_eq)

lemma due_timestamp_key: "time_ok t \<Longrightarrow> due_timestamp (due_key t q i) = t"
  by (simp add: due_timestamp_def due_key_def sint_time)

definition due_before :: "delivery \<Rightarrow> delivery \<Rightarrow> bool" where
  "due_before d d' \<longleftrightarrow> dl_next d < dl_next d' \<or> dl_next d = dl_next d' \<and> dl_seq d \<le> dl_seq d'"

context outbox_env
begin

lemma pending_live:
  assumes "wf_db e db"
  shows "pending_at (get_delivery e db) k d \<longleftrightarrow> live e db k = Some d \<and> dl_state d = StatePending"
proof -
  have core: "wf_core e db" using assms by (simp add: wf_db_core)
  show ?thesis unfolding pending_at_def live_Some [OF core] by auto
qed

lemma due_index_live:
  assumes "wf_db e db"
  shows "get_due e db dk = Some k \<longleftrightarrow>
    (\<exists>d. live e db k = Some d \<and> dl_state d = StatePending \<and> dk = due_key_of d)"
  using wf_parts(2) [OF assms] unfolding index_ok_def pending_live [OF assms] by auto

lemma next_due_spec:
  assumes wf: "wf_db e db"
    and times: "\<And>k d. live e db k = Some d \<Longrightarrow> dl_state d = StatePending \<Longrightarrow> time_ok (dl_next d)"
  shows "\<exists>r. next_due_tx e now db = Inr r \<and> (case r of
      None \<Rightarrow> \<forall>k d. live e db k = Some d \<and> dl_state d = StatePending \<longrightarrow> now < dl_next d
    | Some d \<Rightarrow> live e db (dl_id d) = Some d \<and> dl_state d = StatePending \<and> dl_next d \<le> now \<and>
        (\<forall>k d'. live e db k = Some d' \<and> dl_state d' = StatePending \<longrightarrow> due_before d d'))"
proof (cases "bentries (ids e) (db_due db)")
  case Nil
  then have "get_due e db = Map.empty" by (simp add: idx.no_entries)
  then have "\<not> (live e db k = Some d \<and> dl_state d = StatePending)" for k d
    using due_index_live [OF wf] by fastforce
  then show ?thesis using Nil by (auto simp: next_due_tx_def)
next
  case (Cons entry rest)
  obtain key k where entry: "entry = (key, k)" by fastforce
  note first = idx.first_entry [OF Cons [unfolded entry]]
  from first(1) obtain d where d: "live e db k = Some d" "dl_state d = StatePending" "key = due_key_of d"
    using due_index_live [OF wf] by auto
  note t = times [OF d(1,2)]
  obtain raw where raw: "get_delivery e db k = Some raw" "holds raw d"
    using live_cell [OF wf_openable [OF wf] d(1)] .
  have id: "dl_id d = k" by (rule entries_okD(1) [OF wf_parts(1) [OF wf] raw])
  have before: "due_before d d'" if "live e db k' = Some d'" "dl_state d' = StatePending" for k' d'
  proof -
    have "get_due e db (due_key_of d') = Some k'" using due_index_live [OF wf] that by auto
    then have "key \<le> due_key_of d'" by (rule first(2))
    then have "\<not> due_key_of d' < due_key_of d" using d(3) by simp
    then show ?thesis
      unfolding due_key_less [OF times [OF that] t] due_before_def by auto
  qed
  have stamp: "due_timestamp key = dl_next d" using d(3) t by (simp add: due_timestamp_key)
  have dec: "decode_delivery (get_delivery e db k) = Inr d" using raw by (simp add: decode_delivery_Some)
  show ?thesis
  proof (cases "dl_next d > now")
    case True
    then have "next_due_tx e now db = Inr None"
      by (simp add: next_due_tx_def Cons entry stamp)
    moreover have "now < dl_next d'" if "live e db k' = Some d'" "dl_state d' = StatePending" for k' d'
      using before [OF that] True by (auto simp: due_before_def)
    ultimately show ?thesis by auto
  next
    case False
    then have "next_due_tx e now db = Inr (Some d)"
      by (simp add: next_due_tx_def Cons entry stamp dec)
    with False show ?thesis using d id before by auto
  qed
qed

end

end
