(* ===== verification/OutboxRestart.thy ===== *)
theory OutboxRestart
  imports OutboxRecords
begin

text \<open>
  What a restart does: the database of a reachable store carries the schema version the code writes,
  so that opening it only fails where marshalling, a put or a commit fails; afterwards every live
  delivery is pending, those that were in flight are due at the time of the restart, and nothing but
  expired quarantine is gone.
\<close>

definition schema_ok :: "('b, 'd) db \<Rightarrow> bool" where
  "schema_ok db \<longleftrightarrow> (\<exists>v. db_schema db = Some v \<and> atoi v = Some schema_version)"

definition restarted ::
  "('b, 'd) env \<Rightarrow> time \<Rightarrow> time \<Rightarrow> ('b, 'd) db \<Rightarrow> ('b, 'd) db \<Rightarrow> bool" where
  "restarted e now cutoff db db' \<longleftrightarrow>
     live e db' = (\<lambda>k. map_option (wake now) (live e db k)) \<and>
     (\<forall>k d. live e db' k = Some d \<longrightarrow> dl_state d = StatePending) \<and>
     (\<forall>k d. held e db k = Some d \<longrightarrow> held e db' k = Some d \<or> prune_expired cutoff d) \<and>
     db_pause db' = db_pause db \<and> db_rotation db' = db_rotation db \<and> db_marker db' = db_marker db"

text \<open>The values that opening a database writes are accepted: records marshal, keys are put.\<close>

definition accepts :: "('b, 'd) env \<Rightarrow> time \<Rightarrow> ('b, 'd) db \<Rightarrow> bool" where
  "accepts e now db \<longleftrightarrow> (\<forall>k d. live e db k = Some d \<longrightarrow>
     json_size e (wake now d) \<noteq> None \<and> (\<forall>c b. bput (cells e) k c b \<noteq> None) \<and>
     (\<forall>b. bput (ids e) (due_key_of (wake now d)) k b \<noteq> None))"

context outbox_env
begin

lemma schema_step: "wf_db e db \<Longrightarrow> op_clean e op \<Longrightarrow> db_step e cfg db op db' \<Longrightarrow> db_schema db' = db_schema db"
proof -
  assume wf: "wf_db e db" and ok: "op_clean e op" and "db_step e cfg db op db'"
  from this(3) show ?thesis
  proof cases
    case (step_enqueue now d u)
    then show ?thesis using enqueue_effect [OF wf step_enqueue(2)] ok by simp
  next
    case (step_mark k u)
    show ?thesis
      by (rule update_delivery_effect [OF wf step_mark(2) mark_inflight_mutate_ok])
        (auto simp: same_meta_def)
  next
    case (step_retry k t f u)
    show ?thesis
      by (rule update_delivery_effect [OF wf step_retry(2) retry_mutate_ok]) (auto simp: same_meta_def)
  next
    case (step_pause now k p f u)
    show ?thesis by (rule pause_delivery_effect [OF wf step_pause(2)])
  next
    case (step_clear b c)
    then show ?thesis by (auto dest: clear_effect)
  next
    case (step_resolve now k u)
    show ?thesis by (rule resolve_collision_effect [OF wf step_resolve(2)])
  next
    case (step_begin now r r')
    then show ?thesis by (auto dest: begin_rotation_effect)
  next
    case (step_quarantine_rotation now r')
    from step_quarantine_rotation(2) show ?thesis
    proof (cases rule: quarantine_rotation_cases)
      case (moved r)
      from quarantine_rotation_effect [OF wf step_quarantine_rotation(2) moved] show ?thesis by simp
    qed simp
  next
    case (step_advance now p q r')
    then show ?thesis by (auto dest: advance_rotation_effect)
  next
    case (step_quarantine now k r f u)
    show ?thesis by (rule quarantine_effect [OF wf step_quarantine(2)]) (simp add: same_meta_def)
  next
    case (step_by_receiver now a r f n)
    then show ?thesis using by_receiver_effect [OF wf step_by_receiver(2)] by (simp add: same_meta_def)
  next
    case (step_reconcile now b rr)
    from step_reconcile(2) show ?thesis
    proof (cases rule: reconcile_cases)
      case moved
      from reconcile_effect [OF wf step_reconcile(2) moved] show ?thesis by simp
    qed simp
  next
    case (step_delete k u)
    then show ?thesis using delete_effect [OF wf step_delete(2)] by (simp add: same_meta_def)
  next
    case (step_prune t n)
    show ?thesis by (rule prune_effect [OF wf step_prune(2)]) (simp add: same_meta_def)
  qed
qed

lemma reachable_schema:
  assumes "reachable e s" "st_db s = Some db"
  shows "wf_db e db \<and> schema_ok db"
  using assms
proof (rule reachable_db_induct)
  fix now u1 u2 db0 db1 db2
  assume wf: "wf_db e db0" and i: "initialize_tx e db0 = Inr (u1, db1)"
    and r: "reset_inflight_tx e now db1 = Inr (u2, db2)"
  have "openable e db1" using wf_openable [OF wf] initialize_effect [OF i] by (simp add: openable_def)
  from reset_inflight_effect [OF this r] have "db_schema db2 = db_schema db1" by (simp add: same_meta_def)
  then show "schema_ok db2" using initialize_effect(8) [OF i] by (simp add: schema_ok_def)
qed (use schema_step in \<open>simp add: schema_ok_def\<close>)

lemma open_sound_effect:
  assumes wf: "wf_db e db" and run: "open_store e oi cfg (SoundFile db) = Inr s'"
  shows "\<exists>db'. st_db s' = Some db' \<and> wf_db e db' \<and>
    restarted e (oi_reset_now oi) (oi_prune_now oi - cf_retention (with_defaults cfg)) db db'"
proof -
  from run have fin: "finish_open e oi (new_store (with_defaults cfg) db) = Inr s'"
    by (auto simp: open_store_def Let_def split: if_splits)
  let ?now = "oi_reset_now oi" and ?tv = "json_text e"
  obtain u1 u2 db1 db2 db3 where i: "initialize_tx e db = Inr (u1, db1)"
    and r: "reset_inflight_tx e ?now db1 = Inr (u2, db2)"
    and p: "db3 = db2 \<or> (\<exists>n. prune_quarantine_tx e (oi_prune_now oi)
        (cf_retention (with_defaults cfg)) db2 = Inr (n, db3))"
    and s': "st_db s' = Some db3"
    by (rule finish_open_steps [OF fin]) (auto simp: new_store_def)
  note ie = initialize_effect [OF i]
  have same: "live e db1 = live e db" "held e db1 = held e db"
    by (simp_all add: live_def held_def ie fun_eq_iff)
  have "openable e db1" using wf_openable [OF wf] by (simp add: openable_def ie)
  from reset_inflight_effect [OF this r] have wf2: "wf_db e db2" and held2: "held e db2 = held e db"
    and live2: "live e db2 = (\<lambda>k. map_option (\<lambda>d. scrub_delivery ?tv (wake ?now d)) (live e db k))"
    and pend: "\<And>k d. live e db2 k = Some d \<Longrightarrow> dl_state d = StatePending"
    and meta: "db_pause db2 = db_pause db" "db_rotation db2 = db_rotation db" "db_marker db2 = db_marker db"
    by (simp_all add: same same_meta_def ie)
  have wake_clean: "scrub_delivery ?tv (wake ?now d) = wake ?now d" if "live e db k = Some d" for k d
    using live_clean [OF wf that] by (cases d) (auto simp: wake_def clean_def scrub_delivery_def)
  have live2: "live e db2 = (\<lambda>k. map_option (wake ?now) (live e db k))"
    unfolding live2 using wake_clean by (auto simp: fun_eq_iff map_option_case split: option.splits)
  from p show ?thesis
  proof
    assume "db3 = db2"
    then show ?thesis using s' wf2 live2 pend held2 meta by (auto simp: restarted_def)
  next
    assume "\<exists>n. prune_quarantine_tx e (oi_prune_now oi) (cf_retention (with_defaults cfg)) db2 = Inr (n, db3)"
    then obtain n where "prune_quarantine_tx e (oi_prune_now oi)
      (cf_retention (with_defaults cfg)) db2 = Inr (n, db3)" ..
    from prune_effect [OF wf2 this] obtain S where S: "wf_db e db3" "same_meta db2 db3"
      "live e db3 = live e db2" "held e db3 = drop_keys S (held e db2)"
      "\<And>k. k \<in> S \<Longrightarrow> \<exists>d. held e db2 k = Some d \<and>
         prune_expired (oi_prune_now oi - cf_retention (with_defaults cfg)) d" by metis
    have "held e db3 k = Some d \<or> prune_expired (oi_prune_now oi - cf_retention (with_defaults cfg)) d"
      if "held e db k = Some d" for k d
      using S(4) S(5) [of k] that by (auto simp: drop_keys_def held2)
    then show ?thesis using s' S(1,2,3) live2 pend meta by (auto simp: restarted_def same_meta_def)
  qed
qed

lemma reset_loop_accepts:
  assumes "\<And>k raw r. (k, raw, r) \<in> set items \<Longrightarrow> dl_state (wake now r) = StatePending \<and>
    json_size e (wake now r) \<noteq> None \<and> (\<forall>c b. bput (cells e) k c b \<noteq> None) \<and>
    (\<forall>b. bput (ids e) (due_key_of (wake now r)) k b \<noteq> None)"
  shows "\<exists>db'. reset_loop e now items db = Inr db'"
  using assms
proof (induction items arbitrary: db)
  case (Cons item items)
  obtain k raw r where item: "item = (k, raw, r)" by (cases item)
  let ?d = "wake now r"
  have h: "dl_state ?d = StatePending" "json_size e ?d \<noteq> None" "\<forall>c b. bput (cells e) k c b \<noteq> None"
    "\<forall>b. bput (ids e) (due_key_of ?d) k b \<noteq> None" using Cons.prems [of k raw r] by (simp_all add: item)
  from h(2) obtain c where c: "encode_delivery e ?d = Inr c" by (auto simp: encode_delivery_def)
  from h(3) obtain b where b: "bput (cells e) k c (db_deliveries db) = Some b" by blast
  let ?db = "db\<lparr>db_deliveries := b\<rparr>"
  from h(4) obtain b' where b': "bput (ids e) (due_key_of ?d) k (db_due ?db) = Some b'" by blast
  have "\<exists>db'. reset_loop e now items (?db\<lparr>db_due := b'\<rparr>) = Inr db'"
  proof (rule Cons.IH)
    fix k raw r assume "(k, raw, r) \<in> set items"
    then show "dl_state (wake now r) = StatePending \<and> json_size e (wake now r) \<noteq> None \<and>
      (\<forall>c b. bput (cells e) k c b \<noteq> None) \<and> (\<forall>b. bput (ids e) (due_key_of (wake now r)) k b \<noteq> None)"
      by (intro Cons.prems [of k raw r]) simp
  qed
  then show ?case
    using h(1) c b b' by (simp add: item put_delivery_def put_due_def Let_def flip: wake_def)
qed simp

lemma open_sound_succeeds:
  assumes wf: "wf_db e db" and sch: "schema_ok db" and acc: "accepts e (oi_reset_now oi) db"
    and path: "trim_space (cf_path cfg) \<noteq> []" and mkdir: "oi_mkdir oi" and com: "\<And>n. oi_commit oi n"
  shows "\<exists>s'. open_store e oi cfg (SoundFile db) = Inr s'"
proof -
  let ?io = "\<lparr>io_now = oi_reset_now oi, io_commit = oi_commit oi\<rparr>" and ?now = "oi_reset_now oi"
  let ?s = "new_store (with_defaults cfg) db"
  obtain db1 where i: "initialize_tx e db = Inr ((), db1)"
    using sch rebuild_counters_ok [of db] by (auto simp: initialize_tx_def schema_ok_def)
  note ie = initialize_effect [OF i]
  have live1: "live e db1 = live e db" by (simp add: live_def ie fun_eq_iff)
  have wf1: "entries_ok (json_text e) (get_delivery e db1) (get_quarantine e db1)"
    using wf_parts(1) [OF wf] by (simp add: ie)
  have "\<exists>items. decode_all (bentries (cells e) (db_deliveries db1)) = Inr items"
  proof -
    have "\<exists>items. decode_all xs = Inr items" if "\<forall>k c. (k, c) \<in> set xs \<longrightarrow> (\<exists>d. holds c d)" for xs
      using that
    proof (induction xs)
      case (Cons x xs)
      obtain k c where x: "x = (k, c)" by fastforce
      with Cons.prems obtain d where "holds c d" by auto
      then have "decode_delivery (Some c) = Inr d" by (simp add: decode_delivery_Some)
      with Cons x show ?case by auto
    qed simp
    moreover have "\<exists>d. holds c d" if "(k, c) \<in> set (bentries (cells e) (db_deliveries db1))" for k c
      using that wf1 unfolding cell.entries_get entries_ok_def entry_ok_def by blast
    ultimately show ?thesis by blast
  qed
  then obtain items where items: "decode_all (bentries (cells e) (db_deliveries db1)) = Inr items" ..
  have "\<exists>db2. reset_loop e ?now items (db1\<lparr>db_due := bnew (ids e)\<rparr>) = Inr db2"
  proof (rule reset_loop_accepts)
    fix k raw r assume that: "(k, raw, r) \<in> set items"
    have m: "map (\<lambda>(k, raw, r). (k, raw)) items = bentries (cells e) (db_deliveries db1)"
      and h: "holds raw r" using items that by (auto simp: decode_all_spec)
    have "(k, raw) \<in> set (map (\<lambda>(k, raw, r). (k, raw)) items)" using that by (simp add: rev_image_eqI)
    then have raw: "get_delivery e db1 k = Some raw" unfolding m cell.entries_get .
    then have "live e db k = Some r" using live_at [OF _ h] live1 by metis
    moreover have "live_state (dl_state r)" using entries_okD(2) [OF wf1 raw h] .
    ultimately show "dl_state (wake ?now r) = StatePending \<and> json_size e (wake ?now r) \<noteq> None \<and>
      (\<forall>c b. bput (cells e) k c b \<noteq> None) \<and> (\<forall>b. bput (ids e) (due_key_of (wake ?now r)) k b \<noteq> None)"
      using acc unfolding accepts_def by (auto simp: live_state_def wake_def split: if_splits)
  qed
  then obtain db2 where "reset_loop e ?now items (db1\<lparr>db_due := bnew (ids e)\<rparr>) = Inr db2" ..
  then obtain db3 where r: "reset_inflight_tx e ?now db1 = Inr ((), db3)"
    using items rebuild_counters_ok [of db2] by (auto simp: reset_inflight_tx_def)
  show ?thesis
    using path mkdir com i r
    by (simp add: open_store_def Let_def with_defaults_def finish_open_def new_store_def run_update_def)
qed

end

end
