(* ===== verification/OutboxProps.thy ===== *)
theory OutboxProps
  imports OutboxOrder OutboxBinding OutboxRestart
begin

text \<open>
  The properties of the outbox, for every reachable store of every environment, and a concrete run
  (a store with a bound of three records over write-log buckets) on which they are evaluated.
\<close>

section \<open>A concrete run\<close>

definition demo_config :: config where
  "demo_config = \<lparr>cf_path = ''o'', cf_max_events = 3, cf_max_bytes = 1000, cf_retention = hour\<rparr>"

definition demo_open :: "time \<Rightarrow> open_io" where
  "demo_open t = \<lparr>oi_mkdir = True, oi_create = True, oi_preserve = True, oi_reset_now = t,
     oi_prune_now = t, oi_commit = (\<lambda>_. True)\<rparr>"

definition demo_io :: "time \<Rightarrow> io" where
  "demo_io t = \<lparr>io_now = t, io_commit = (\<lambda>_. True)\<rparr>"

definition demo_delivery :: "string \<Rightarrow> time \<Rightarrow> delivery" where
  "demo_delivery k t = \<lparr>dl_id = k, dl_envelope = ''{}'', dl_sha256 = [], dl_idempotency = [],
     dl_owner = ''u'', dl_agent = ''a'', dl_installation = ''i'', dl_cred_gen = 1, dl_bind_gen = 1,
     dl_endpoint = [], dl_state = StateOther [], dl_seq = 0, dl_enqueued = zero_time, dl_next = t,
     dl_attempts = 0, dl_status_code = 0, dl_error_code = [], dl_error = [], dl_request_id = [],
     dl_quarantined_at = zero_time, dl_quarantine_reason = []\<rparr>"

definition demo_failure :: attempt_failure where
  "demo_failure = \<lparr>af_status = 409, af_code = [], af_message = [], af_request = []\<rparr>"

definition demo_pause :: dispatch_pause where
  "demo_pause = \<lparr>dp_kind = PauseCollision, dp_reason = [], dp_id = [], dp_at = zero_time,
     dp_cred_gen = 1, dp_bind_gen = 1, dp_status_code = 409, dp_error_code = [], dp_request_id = []\<rparr>"

definition demo_binding :: "string \<Rightarrow> binding" where
  "demo_binding a = \<lparr>bi_owner = ''u'', bi_agent = a, bi_installation = ''i'', bi_cred_gen = 1,
     bi_bind_gen = 1\<rparr>"

type_synonym demo_db = "(cell write_log, key write_log) db"

definition demo_db0 :: demo_db where
  "demo_db0 = (empty_db log_env)\<lparr>db_schema := Some ''1''\<rparr>"

definition demo_rec :: "string \<Rightarrow> 64 word \<Rightarrow> time \<Rightarrow> time \<Rightarrow> delivery" where
  "demo_rec k q t n = (demo_delivery k n)\<lparr>dl_state := StatePending, dl_seq := q, dl_enqueued := t\<rparr>"

definition demo_cell :: "delivery \<Rightarrow> cell" where
  "demo_cell d = \<lparr>cl_record = Some d, cl_len = 100 + length (dl_envelope d)\<rparr>"

text \<open>After enqueueing \<open>x\<close> (due at once) at time 20, then marking it in flight, then pausing on it.\<close>

definition demo_db1 :: demo_db where
  "demo_db1 = demo_db0\<lparr>db_deliveries := [(''x'', demo_cell (demo_rec ''x'' 1 20 20))],
     db_sequence := 1, db_due := [(due_key 20 1 ''x'', ''x'')], db_count := 1, db_used := 102\<rparr>"

definition demo_db2 :: demo_db where
  "demo_db2 = demo_db0\<lparr>db_deliveries := [(''x'', demo_cell ((demo_rec ''x'' 1 20 20)\<lparr>dl_state := StateInflight\<rparr>)),
       (''x'', demo_cell (demo_rec ''x'' 1 20 20))],
     db_sequence := 1, db_due := [], db_count := 1, db_used := 102\<rparr>"

abbreviation demo_store :: "demo_db \<Rightarrow> (cell write_log, key write_log) store" where
  "demo_store db \<equiv> new_store demo_config db"

lemma trim_visible_char: "visible c \<Longrightarrow> trim_space [c] = [c]"
  by (rule trim_space_visible) simp

lemmas demo_data = demo_config_def demo_open_def demo_io_def demo_delivery_def demo_rec_def
  demo_cell_def demo_failure_def demo_pause_def demo_binding_def
lemmas demo_env = log_env_def log_bucket_def log_entries_def key_ok_def
lemmas tx_steps = run_update_def write_counters_def put_delivery_def put_due_def put_quarantine_def
  del_due_def del_delivery_def replace_due_def encode_delivery_def scrub_delivery_def decode_delivery_def

lemma demo_opens: "open_store log_env (demo_open 10) demo_config NoFile = Inr (demo_store demo_db0)"
  by (simp add: open_store_def finish_open_def new_store_def run_update_def initialize_tx_def
      reset_inflight_tx_def rebuild_counters_def write_counters_def prune_quarantine_def
      prune_quarantine_tx_def empty_db_def with_defaults_def demo_db0_def demo_data demo_env
      trim_visible_char duration_defs)

lemma demo_reach0: "reachable log_env (demo_store demo_db0)"
  by (rule reachable.fresh [OF demo_opens]) simp

lemma demo_enqueue:
  "enqueue log_env (demo_io 20) (demo_delivery ''x'' zero_time) (demo_store demo_db0)
     = (Inr (), demo_store demo_db1)"
  by (simp add: enqueue_def enqueue_tx_def enqueue_prepare_def invalidate_reconciled_binding_def
      is_zero_def new_store_def demo_db0_def demo_db1_def empty_db_def demo_data demo_env tx_steps
      trim_visible_char Let_def due_key_def)

lemma demo_reach1: "reachable log_env (demo_store demo_db1)"
proof -
  have "reachable log_env (perform log_env (demo_io 20) (OpEnqueue (demo_delivery ''x'' zero_time)) (demo_store demo_db0))"
    by (rule reachable.call [OF demo_reach0]) (simp add: log_env_def)
  then show ?thesis by (simp add: demo_enqueue)
qed

lemma demo_mark: "mark_inflight log_env (demo_io 21) ''x'' (demo_store demo_db1) = (Inr (), demo_store demo_db2)"
  by (simp add: mark_inflight_def update_delivery_tx_def mark_inflight_mutate_def new_store_def
      demo_db0_def demo_db1_def demo_db2_def empty_db_def demo_data demo_env tx_steps Let_def)

lemma demo_reach2: "reachable log_env (demo_store demo_db2)"
proof -
  have "reachable log_env (perform log_env (demo_io 21) (OpMarkInflight ''x'') (demo_store demo_db1))"
    by (rule reachable.call [OF demo_reach1]) simp
  then show ?thesis by (simp add: demo_mark)
qed

lemma demo_store_db: "st_db (demo_store db) = Some db" "st_cfg (demo_store db) = demo_config"
  by (simp_all add: new_store_def)

lemma demo_live:
  "live log_env demo_db1 = [''x'' \<mapsto> demo_rec ''x'' 1 20 20]"
  "live log_env demo_db2 = [''x'' \<mapsto> (demo_rec ''x'' 1 20 20)\<lparr>dl_state := StateInflight\<rparr>]"
  "held log_env demo_db1 = Map.empty" "held log_env demo_db2 = Map.empty"
  by (auto simp: live_def held_def demo_db0_def demo_db1_def demo_db2_def empty_db_def demo_env
      demo_cell_def fun_eq_iff)

lemma outbox_env_of: "env_ok e \<Longrightarrow> outbox_env e"
  by (rule outbox_env.intro)

lemma reachable_wf: "env_ok e \<Longrightarrow> reachable e s \<Longrightarrow> st_db s = Some db \<Longrightarrow> wf_db e db"
  using outbox_env.reachable_schema [OF outbox_env_of] by blast

context outbox_env
begin

lemma live_record:
  assumes "wf_db e db" "live e db k = Some d"
  shows "dl_id d = k \<and> (dl_state d = StatePending \<or> dl_state d = StateInflight)"
proof -
  obtain raw where "get_delivery e db k = Some raw" "holds raw d"
    using live_cell [OF wf_openable] assms by metis
  from entries_okD [OF wf_parts(1) [OF assms(1)] this] show ?thesis by (simp add: live_state_def)
qed

lemma held_record:
  assumes "wf_db e db" "held e db k = Some d"
  shows "dl_id d = k \<and> dl_state d = StateQuarantined"
proof -
  have "wf_core e db" using assms(1) by (simp add: wf_db_core)
  from assms(2) obtain raw where raw: "get_quarantine e db k = Some raw" "holds raw d"
    using held_Some [OF \<open>wf_core e db\<close>] by blast
  with assms(1) have "entry_ok (json_text e) (\<lambda>st. st = StateQuarantined) k raw"
    by (simp add: wf_db_def entries_ok_def)
  then show ?thesis using raw(2) by (auto simp: entry_ok_def dest: holds_unique)
qed

lemma stored_domains:
  assumes "wf_db e db"
  shows "dom (live e db) = dom (get_delivery e db)" "dom (held e db) = dom (get_quarantine e db)"
proof -
  have core: "wf_core e db" using assms by (simp add: wf_db_core)
  have "\<exists>d. holds c d" if "get_delivery e db k = Some c" for k c
    using assms that unfolding wf_db_def entries_ok_def entry_ok_def by blast
  then show "dom (live e db) = dom (get_delivery e db)"
    using live_Some [OF core] by (auto simp: dom_def)
  have "\<exists>d. holds c d" if "get_quarantine e db k = Some c" for k c
    using assms that unfolding wf_db_def entries_ok_def entry_ok_def by blast
  then show "dom (held e db) = dom (get_quarantine e db)"
    using held_Some [OF core] by (auto simp: dom_def)
qed

lemma wf_count:
  assumes "wf_db e db"
  shows "db_count db = int (card (dom (live e db)) + card (dom (held e db)))"
  using wf_parts(3) [OF assms] by (simp add: stored_domains [OF assms] counters_ok_def weight_sum_one)

lemma wf_used:
  assumes "wf_db e db"
  shows "db_used db = weight_sum cell_len (get_delivery e db) + weight_sum cell_len (get_quarantine e db)"
  using wf_parts(3) [OF assms] by (simp add: counters_ok_def)

lemma get_record_live:
  assumes "wf_db e db" "live e db k = Some d" "st_db s = Some db"
  shows "get_record e k s = Inr d"
proof -
  obtain raw where "get_delivery e db k = Some raw" "holds raw d"
    using live_cell [OF wf_openable] assms by metis
  then show ?thesis
    using assms(3) by (simp add: get_record_def run_view_def get_tx_def decode_delivery_Some)
qed

end

section \<open>Properties\<close>

text \<open>
  C1. In every reachable outbox the records, the due index and the counters agree: a live record is
  stored under its own id and is pending or in flight, a held one is quarantined, no id is both; the
  due index has exactly one entry for each pending delivery, under its due key; the counters are the
  number of records and the sum of their lengths.
\<close>
theorem outbox_reachable_wf:
  assumes "env_ok e" "reachable e s" "st_db s = Some db"
  shows "(\<forall>k d. live e db k = Some d \<longrightarrow> dl_id d = k \<and> (dl_state d = StatePending \<or> dl_state d = StateInflight))
    \<and> (\<forall>k d. held e db k = Some d \<longrightarrow> dl_id d = k \<and> dl_state d = StateQuarantined)
    \<and> (\<forall>k d. live e db k = Some d \<longrightarrow> held e db k = None)
    \<and> (\<forall>dk k. get_due e db dk = Some k \<longleftrightarrow>
         (\<exists>d. live e db k = Some d \<and> dl_state d = StatePending \<and> dk = due_key_of d))
    \<and> db_count db = int (card (dom (live e db)) + card (dom (held e db)))
    \<and> db_used db = weight_sum cell_len (get_delivery e db) + weight_sum cell_len (get_quarantine e db)"
proof -
  note env = outbox_env_of [OF assms(1)]
  have wf: "wf_db e db" using reachable_wf [OF assms] .
  show ?thesis
    using outbox_env.live_record [OF env wf] outbox_env.held_record [OF env wf]
      outbox_env.live_not_held [OF env wf] outbox_env.due_index_live [OF env wf]
      outbox_env.wf_count [OF env wf] outbox_env.wf_used [OF env wf]
    by (intro conjI allI impI) blast+
qed

theorem outbox_reachable_wf_witness:
  "db_count demo_db1 = 1 \<and> db_used demo_db1 = 102 \<and>
   (\<forall>dk. get_due log_env demo_db1 dk = Some ''x'' \<longleftrightarrow> dk = due_key 20 1 ''x'')"
proof -
  from outbox_reachable_wf [OF log_env_ok demo_reach1 demo_store_db(1)] show ?thesis
    by (simp add: demo_live) (simp add: demo_db1_def demo_rec_def demo_delivery_def)
qed

text \<open>
  C2. No call loses or rewrites a delivery. Whatever a call does, and wherever its commits fail, a
  live record stays stored with the same identity (bytes, hash, key, binding, position), moved to the
  quarantine only by the operations meant to; a held record stays exactly as it is. The exceptions
  are \<open>Delete\<close> of that id and pruning of a quarantine entry past the retention time.
\<close>
theorem outbox_nothing_lost:
  assumes "env_ok e" "reachable e s" "op_clean e op"
    and "st_db s = Some db" "st_db (perform e io op s) = Some db'" "op \<noteq> OpDelete k"
  shows "(\<forall>d. live e db k = Some d \<longrightarrow> (\<exists>d'. identity d' = identity d \<and>
        (live e db' k = Some d' \<or> moves op \<and> held e db' k = Some d')))
    \<and> (\<forall>d. held e db k = Some d \<longrightarrow> held e db' k = Some d \<or>
        (\<exists>t. prunes_at (io_now io) op t \<and> prune_expired (t - cf_retention (st_cfg s)) d))"
  using outbox_env.perform_keeps [OF outbox_env_of [OF assms(1)] reachable_wf [OF assms(1,2,4)] assms(3-5)]
    assms(6) unfolding keeps_live_def keeps_held_def by blast

theorem outbox_nothing_lost_witness:
  "\<exists>d'. identity d' = identity (demo_rec ''x'' 1 20 20) \<and> live log_env demo_db2 ''x'' = Some d'"
proof -
  have run: "st_db (perform log_env (demo_io 21) (OpMarkInflight ''x'') (demo_store demo_db1)) = Some demo_db2"
    by (simp add: demo_mark demo_store_db)
  from outbox_nothing_lost [OF log_env_ok demo_reach1 _ demo_store_db(1) run, of "''x''"] show ?thesis
    by (auto simp: demo_live)
qed

text \<open>
  C3. \<open>NextDue\<close> never fails on a reachable store, and hands out the right delivery: the stored pending
  delivery that is due and comes first by due time and then queue position, or nothing when no
  pending delivery is due (for due times between 1970 and 2262).
\<close>
theorem outbox_next_due:
  assumes "env_ok e" "reachable e s" "st_db s = Some db"
    and "\<forall>k d. live e db k = Some d \<and> dl_state d = StatePending \<longrightarrow> time_ok (dl_next d)"
  shows "\<exists>r. next_due e now s = Inr r \<and> (case r of
      None \<Rightarrow> \<forall>k d. live e db k = Some d \<and> dl_state d = StatePending \<longrightarrow> now < dl_next d
    | Some d \<Rightarrow> live e db (dl_id d) = Some d \<and> dl_state d = StatePending \<and> dl_next d \<le> now \<and>
        (\<forall>k d'. live e db k = Some d' \<and> dl_state d' = StatePending \<longrightarrow> due_before d d'))"
  using outbox_env.next_due_spec [OF outbox_env_of [OF assms(1)] reachable_wf [OF assms(1-3)], of now]
    assms(3,4) by (simp add: next_due_def run_view_def)

theorem outbox_next_due_witness:
  "next_due log_env 19 (demo_store demo_db1) = Inr None \<and>
   (\<exists>d. next_due log_env 25 (demo_store demo_db1) = Inr (Some d) \<and> dl_id d = ''x'')"
proof -
  have times: "\<forall>k d. live log_env demo_db1 k = Some d \<and> dl_state d = StatePending \<longrightarrow> time_ok (dl_next d)"
    by (auto simp: demo_live demo_rec_def demo_delivery_def time_ok_def split: if_splits)
  note due = outbox_next_due [OF log_env_ok demo_reach1 demo_store_db(1) times]
  have at: "live log_env demo_db1 ''x'' = Some (demo_rec ''x'' 1 20 20)"
    and only: "\<And>k d. live log_env demo_db1 k = Some d \<Longrightarrow> d = demo_rec ''x'' 1 20 20"
    by (auto simp: demo_live split: if_splits)
  have r: "dl_next (demo_rec ''x'' 1 20 20) = 20" "dl_state (demo_rec ''x'' 1 20 20) = StatePending"
    "dl_id (demo_rec ''x'' 1 20 20) = ''x''" by (simp_all add: demo_rec_def demo_delivery_def)
  have "next_due log_env 19 (demo_store demo_db1) = Inr None"
  proof (rule exE [OF due [where now = 19]])
    fix r' assume r': "next_due log_env 19 (demo_store demo_db1) = Inr r' \<and> (case r' of
        None \<Rightarrow> \<forall>k d. live log_env demo_db1 k = Some d \<and> dl_state d = StatePending \<longrightarrow> 19 < dl_next d
      | Some d \<Rightarrow> live log_env demo_db1 (dl_id d) = Some d \<and> dl_state d = StatePending \<and> dl_next d \<le> 19 \<and>
          (\<forall>k d'. live log_env demo_db1 k = Some d' \<and> dl_state d' = StatePending \<longrightarrow> due_before d d'))"
    show ?thesis
    proof (cases r')
      case None
      with r' at r show ?thesis by simp
    next
      case (Some d)
      with r' only [of "dl_id d" d] r show ?thesis by simp
    qed
  qed
  moreover have "\<exists>d. next_due log_env 25 (demo_store demo_db1) = Inr (Some d) \<and> dl_id d = ''x''"
  proof (rule exE [OF due [where now = 25]])
    fix r' assume r': "next_due log_env 25 (demo_store demo_db1) = Inr r' \<and> (case r' of
        None \<Rightarrow> \<forall>k d. live log_env demo_db1 k = Some d \<and> dl_state d = StatePending \<longrightarrow> 25 < dl_next d
      | Some d \<Rightarrow> live log_env demo_db1 (dl_id d) = Some d \<and> dl_state d = StatePending \<and> dl_next d \<le> 25 \<and>
          (\<forall>k d'. live log_env demo_db1 k = Some d' \<and> dl_state d' = StatePending \<longrightarrow> due_before d d'))"
    show ?thesis
    proof (cases r')
      case None
      with r' at r show ?thesis by fastforce
    next
      case (Some d)
      with r' only [of "dl_id d" d] r show ?thesis by simp
    qed
  qed
  ultimately show ?thesis by blast
qed

text \<open>
  C4. A restart recovers: opening the file of a reachable store succeeds when the directory exists,
  the records are accepted and the commits succeed, and then every live delivery is kept and pending,
  the ones in flight due at the time of the restart, the quarantine is kept but for expired entries,
  and the pause, the rotation journal and the reconciled binding survive.
\<close>
theorem outbox_restart_recovers:
  assumes "env_ok e" "reachable e s" "st_db s = Some db" "accepts e (oi_reset_now oi) db"
    and "trim_space (cf_path cfg) \<noteq> []" "oi_mkdir oi" "\<And>n. oi_commit oi n"
  shows "\<exists>s' db'. open_store e oi cfg (SoundFile db) = Inr s' \<and> st_db s' = Some db' \<and>
    restarted e (oi_reset_now oi) (oi_prune_now oi - cf_retention (with_defaults cfg)) db db'"
proof -
  note env = outbox_env_of [OF assms(1)]
  have ok: "wf_db e db" "schema_ok db" using outbox_env.reachable_schema [OF env assms(2,3)] by simp_all
  from outbox_env.open_sound_succeeds [OF env ok assms(4-7)]
  obtain s' where "open_store e oi cfg (SoundFile db) = Inr s'" by blast
  with outbox_env.open_sound_effect [OF env ok(1) this] show ?thesis by blast
qed

theorem outbox_restart_recovers_witness:
  "\<exists>s' db'. open_store log_env (demo_open 50) demo_config (SoundFile demo_db2) = Inr s' \<and> st_db s' = Some db' \<and>
     live log_env db' ''x'' = Some (demo_rec ''x'' 1 20 50)"
proof -
  have acc: "accepts log_env (oi_reset_now (demo_open 50)) demo_db2"
    unfolding accepts_def demo_live
    by (auto simp: log_env_def log_bucket_def key_ok_def due_key_def demo_rec_def demo_delivery_def
        split: if_splits)
  have "\<exists>s' db'. open_store log_env (demo_open 50) demo_config (SoundFile demo_db2) = Inr s' \<and> st_db s' = Some db' \<and>
    restarted log_env (oi_reset_now (demo_open 50))
      (oi_prune_now (demo_open 50) - cf_retention (with_defaults demo_config)) demo_db2 db'"
    by (rule outbox_restart_recovers [OF log_env_ok demo_reach2 demo_store_db(1) acc])
      (simp_all add: demo_config_def demo_open_def trim_visible_char)
  then show ?thesis
    by (auto simp: restarted_def demo_live wake_def demo_open_def demo_rec_def demo_delivery_def)
qed

lemma reconcile_binding_success:
  assumes "env_ok e" "reachable e s" "st_db s = Some db" "op_clean e (OpReconcile b)"
    and "reconcile_binding e io b s = (Inr r, s')" "st_db s' = Some db'"
  shows "db_marker db' = Stored (reconciled_binding_from b) \<and> wf_db e db' \<and> marker_ok e db'"
proof -
  have env: "outbox_env e" by (rule outbox_env_of [OF assms(1)])
  have "reachable e s'"
    using reachable.call [OF assms(2,4), of io] assms(5) by simp
  from outbox_env.reachable_marker [OF env this assms(6)] have m: "wf_db e db'" "marker_ok e db'" by simp_all
  have same: "reconciled_binding_from (trim_binding b) = reconciled_binding_from b"
    by (simp add: reconciled_binding_from_def trim_binding_def)
  have already: "binding_already_reconciled d (trim_binding b) \<Longrightarrow> db_marker d = Stored (reconciled_binding_from b)" for d
    by (auto simp: binding_already_reconciled_def same split: slot.splits)
  have "db_marker db' = Stored (reconciled_binding_from b)"
  proof (cases "run_view s (\<lambda>db. Inr (binding_already_reconciled db (trim_binding b))) = Inr True")
    case True
    then have "s' = s" "binding_already_reconciled db (trim_binding b)"
      using assms(3,5) by (auto simp: reconcile_binding_def run_view_def Let_def split: if_splits)
    then show ?thesis using already assms(3,6) by simp
  next
    case False
    then have run: "run_update io 0 s (reconcile_binding_tx e (st_cfg s) (io_now io) (trim_binding b)) = (Inr r, s')"
      using assms(5) by (auto simp: reconcile_binding_def Let_def split: if_splits)
    then have tx: "reconcile_binding_tx e (st_cfg s) (io_now io) (trim_binding b) db = Inr (r, db')"
      using assms(3,6) by (auto simp: run_update_def split: sum.splits if_splits prod.splits)
    have "\<not> binding_already_reconciled db (trim_binding b)"
      using False assms(3) by (simp add: run_view_def)
    from outbox_env.reconcile_effect [OF env reachable_wf [OF assms(1-3)] tx this]
    show ?thesis using assms(4) by (simp add: same)
  qed
  with m show ?thesis by blast
qed

lemma enqueue_success:
  assumes "env_ok e" "reachable e s" "st_db s = Some db" "op_clean e (OpEnqueue d)"
    and "enqueue e io d s = (Inr (), s')"
  shows "\<exists>db' q. st_db s' = Some db' \<and> wf_db e db' \<and> live e db (dl_id d) = None \<and>
    live e db' = (live e db)(dl_id d \<mapsto> scrub_delivery (json_text e) (enqueue_prepare (io_now io) q d)) \<and>
    db_count db' \<le> cf_max_events (st_cfg s) \<and> db_used db' \<le> cf_max_bytes (st_cfg s)"
proof -
  have env: "outbox_env e" by (rule outbox_env_of [OF assms(1)])
  have wf: "wf_db e db" by (rule reachable_wf [OF assms(1-3)])
  have utf: "json_text e (dl_id d) = dl_id d" using assms(4) by simp
  have again: "enqueue_prepare t q' (enqueue_prepare t q x) = enqueue_prepare t q' x" for t q q' x
    by (simp add: enqueue_prepare_def Let_def)
  let ?tx = "\<lambda>s x. enqueue_tx e (st_cfg s) (io_now io) x"
  have ids: "dl_id (enqueue_prepare t q x) = dl_id x" for t q x by (simp add: enqueue_prepare_def Let_def)
  show ?thesis
  proof (cases "fst (run_update io 0 s (?tx s d)) = Inl OutboxFull")
    case False
    then have "run_update io 0 s (?tx s d) = (Inr (), s')"
      using assms(5) by (cases "run_update io 0 s (?tx s d)") (auto simp: enqueue_def Let_def split: if_splits)
    then obtain db' where db': "st_db s' = Some db'" "?tx s d db = Inr ((), db')"
      using assms(3) by (auto simp: run_update_def split: sum.splits if_splits prod.splits)
    from outbox_env.enqueue_effect [OF env wf db'(2) utf] db'(1) show ?thesis by blast
  next
    case True
    then have r1: "run_update io 0 s (?tx s d) = (Inl OutboxFull, s)"
      by (cases rule: run_update_cases [of io 0 s "?tx s d"]) auto
    obtain n s1 where p: "prune_quarantine e io 1 (io_now io) s = (Inr n, s1)"
      using assms(5) r1
      by (cases "prune_quarantine e io 1 (io_now io) s"; cases "fst (prune_quarantine e io 1 (io_now io) s)")
        (auto simp: enqueue_def Let_def split: if_splits)
    obtain db1 where db1: "prune_quarantine_tx e (io_now io) (cf_retention (st_cfg s)) db = Inr (n, db1)"
      "st_db s1 = Some db1" "st_cfg s1 = st_cfg s"
      using p assms(3) by (cases rule: prune_quarantine_cases [of e io 1 "io_now io" s]) auto
    let ?d = "enqueue_prepare (io_now io) (db_sequence db + 1) d"
    have "run_update io 2 s1 (?tx s1 ?d) = (Inr (), s')"
      using assms(3,5) r1 p by (auto simp: enqueue_def Let_def split: if_splits)
    then obtain db' where db': "st_db s' = Some db'" "?tx s1 ?d db1 = Inr ((), db')"
      using db1(2) by (auto simp: run_update_def split: sum.splits if_splits prod.splits)
    from outbox_env.prune_effect [OF env wf db1(1)]
    have p1: "wf_db e db1" "live e db1 = live e db" by blast+
    from outbox_env.enqueue_effect [OF env p1(1) db'(2)] utf
    show ?thesis using db'(1) by (auto simp: ids again p1 db1(3))
  qed
qed

text \<open>
  C5. After \<open>ReconcileBinding\<close> returns without error, by whichever path (the marker already says the
  binding is reconciled, or the deliveries were compared), every live delivery belongs to exactly that
  owner, receiver agent and installation, up to surrounding white space: no delivery of another
  principal can be sent with the credentials of this one.
\<close>
theorem outbox_reconcile_safe:
  assumes "env_ok e" "reachable e s" "st_db s = Some db" "op_clean e (OpReconcile b)"
    and "reconcile_binding e io b s = (Inr r, s')" "st_db s' = Some db'" "live e db' k = Some d"
  shows "trim_space (dl_owner d) = trim_space (bi_owner b) \<and>
    trim_space (dl_agent d) = trim_space (bi_agent b) \<and>
    trim_space (dl_installation d) = trim_space (bi_installation b)"
  using reconcile_binding_success [OF assms(1-6)] assms(7)
  by (auto simp: marker_ok_def marker_matches_def reconciled_binding_from_def)

definition demo_db3 :: demo_db where
  "demo_db3 = demo_db1\<lparr>db_marker := Stored \<lparr>rb_owner = ''u'', rb_agent = ''a'', rb_installation = ''i''\<rparr>\<rparr>"

lemma demo_reconcile:
  "reconcile_binding log_env (demo_io 22) (demo_binding ''a'') (demo_store demo_db1)
     = (Inr \<lparr>rr_kept = 1, rr_rebind = 0, rr_reset = 0\<rparr>, demo_store demo_db3)"
  by (simp add: reconcile_binding_def trim_binding_def reconcile_binding_tx_def run_view_def
      binding_already_reconciled_def reconciled_binding_from_def reconcile_reason_def scrub_marker_def
      new_store_def demo_db3_def demo_db1_def demo_db0_def empty_db_def demo_data demo_env tx_steps
      trim_visible_char Let_def)

theorem outbox_reconcile_safe_witness:
  "trim_space (dl_agent (demo_rec ''x'' 1 20 20)) = trim_space (bi_agent (demo_binding ''a''))"
proof -
  have ok: "op_clean log_env (OpReconcile (demo_binding ''a''))" by (simp add: log_env_def scrub_marker_def)
  have "live log_env demo_db3 ''x'' = Some (demo_rec ''x'' 1 20 20)"
    using demo_live(1) by (simp add: live_def demo_db3_def)
  from outbox_reconcile_safe [OF log_env_ok demo_reach1 demo_store_db(1) ok demo_reconcile demo_store_db(1) this]
  show ?thesis by blast
qed

text \<open>
  C6. A dispatch pause stays until the thing that resolves it happens: a collision is lifted only by
  the operator resolving that delivery id, a rejected credential only by a newer credential or binding
  generation, a rejected binding only by a newer binding generation (apart from a newer pause, and
  the rotation of the installation).
\<close>
theorem outbox_pause_stays:
  assumes "env_ok e" "reachable e s" "op_clean e op"
    and "st_db s = Some db" "st_db (perform e io op s) = Some db'"
    and "db_pause db = Stored p" "\<not> may_lift p op"
  shows "db_pause db' = Stored p \<and> stored_pause (perform e io op s) = Inr (Some p)"
  using outbox_env.perform_pause [OF outbox_env_of [OF assms(1)] reachable_wf [OF assms(1,2,4)] assms(3-7)]
    assms(5) by (simp add: stored_pause_def run_view_def dispatch_pause_tx_def read_slot_def)

definition demo_db4 :: demo_db where
  "demo_db4 = demo_db0\<lparr>db_deliveries := [(''x'', demo_cell ((demo_rec ''x'' 1 20 20)\<lparr>
         dl_attempts := 1, dl_status_code := 409\<rparr>)), (''x'', demo_cell (demo_rec ''x'' 1 20 20))],
     db_sequence := 1, db_due := [(due_key 20 1 ''x'', ''x'')], db_count := 1, db_used := 102,
     db_pause := Stored (demo_pause\<lparr>dp_id := ''x'', dp_at := 23\<rparr>)\<rparr>"

lemma due_key_length: "length (due_key t q i) = 16 + length i" "due_key t q i \<noteq> []"
  by (simp_all add: due_key_def) (metis length_0_conv length_be64 zero_neq_numeral)

lemma demo_pauses:
  "pause_delivery log_env (demo_io 23) ''x'' demo_pause demo_failure (demo_store demo_db1)
     = (Inr (), demo_store demo_db4)"
  by (simp add: pause_delivery_def pause_delivery_tx_def record_failure_def is_zero_def scrub_pause_def
      new_store_def demo_db4_def demo_db1_def demo_db0_def empty_db_def demo_data demo_env tx_steps
      Let_def due_key_length)

lemma demo_reach4: "reachable log_env (demo_store demo_db4)"
proof -
  have "reachable log_env (perform log_env (demo_io 23) (OpPause ''x'' demo_pause demo_failure) (demo_store demo_db1))"
    by (rule reachable.call [OF demo_reach1]) simp
  then show ?thesis by (simp add: demo_pauses)
qed

theorem outbox_pause_stays_witness:
  "stored_pause (perform log_env (demo_io 24) (OpClearPause ((demo_binding ''a'')\<lparr>bi_cred_gen := 9\<rparr>))
     (demo_store demo_db4)) = Inr (Some (demo_pause\<lparr>dp_id := ''x'', dp_at := 23\<rparr>))"
proof -
  let ?op = "OpClearPause ((demo_binding ''a'')\<lparr>bi_cred_gen := 9\<rparr>)"
  let ?p = "demo_pause\<lparr>dp_id := ''x'', dp_at := 23\<rparr>"
  have p: "db_pause demo_db4 = Stored ?p" and lift: "\<not> may_lift ?p ?op"
    by (simp_all add: demo_db4_def demo_pause_def)
  have run: "st_db (perform log_env (demo_io 24) ?op (demo_store demo_db4)) = Some demo_db4"
    by (simp add: clear_resolved_pause_def clear_resolved_pause_tx_def run_update_def pause_resolved_def
        new_store_def demo_db4_def demo_pause_def demo_io_def)
  from outbox_pause_stays [OF log_env_ok demo_reach4 _ demo_store_db(1) run p lift] show ?thesis
    by simp
qed

text \<open>
  C7. The storage bounds hold: an accepted enqueue leaves at most the configured number of records and
  bytes, and no call makes either total grow beyond its bound (a total that is above it already, say after a
  restart under a smaller configuration, does not grow).
\<close>
theorem outbox_storage_bounded:
  assumes "env_ok e" "reachable e s" "op_clean e op"
    and "st_db s = Some db" "st_db (perform e io op s) = Some db'"
  shows "db_count db' \<le> max (db_count db) (cf_max_events (st_cfg s)) \<and>
    db_used db' \<le> max (db_used db) (cf_max_bytes (st_cfg s)) \<and>
    (\<forall>d. op = OpEnqueue d \<longrightarrow> fst (enqueue e io d s) = Inr () \<longrightarrow>
       db_count db' \<le> cf_max_events (st_cfg s) \<and> db_used db' \<le> cf_max_bytes (st_cfg s))"
proof (intro conjI allI impI)
  note b = outbox_env.perform_bounds [OF outbox_env_of [OF assms(1)] reachable_wf [OF assms(1,2,4)] assms(3-5)]
  show "db_count db' \<le> max (db_count db) (cf_max_events (st_cfg s))"
    and "db_used db' \<le> max (db_used db) (cf_max_bytes (st_cfg s))"
    using b by (auto simp: within_bounds_def)
  fix d assume d: "op = OpEnqueue d" and ok: "fst (enqueue e io d s) = Inr ()"
  then have "enqueue e io d s = (Inr (), perform e io op s)" by (simp add: prod_eq_iff)
  from enqueue_success [OF assms(1,2,4) _ this] d assms(3,5)
  show "db_count db' \<le> cf_max_events (st_cfg s)" "db_used db' \<le> cf_max_bytes (st_cfg s)" by auto
qed

theorem outbox_storage_bounded_witness:
  "db_count demo_db1 \<le> 3 \<and> db_used demo_db1 \<le> 1000"
proof -
  have run: "st_db (perform log_env (demo_io 20) (OpEnqueue (demo_delivery ''x'' zero_time)) (demo_store demo_db0))
      = Some demo_db1" by (simp add: demo_enqueue demo_store_db)
  have ok: "op_clean log_env (OpEnqueue (demo_delivery ''x'' zero_time))" by (simp add: log_env_def)
  from outbox_storage_bounded [OF log_env_ok demo_reach0 ok demo_store_db(1) run] show ?thesis
    by (simp add: demo_enqueue demo_store_db) (simp add: demo_config_def)
qed

text \<open>
  What is enqueued can be read back: after a successful \<open>Enqueue\<close>, \<open>Get\<close> returns the input with
  its state, queue position and times filled in, under an id that was free, and every other live
  delivery is as before.
\<close>
lemma outbox_enqueue_get:
  assumes "env_ok e" "reachable e s" "st_db s = Some db" "op_clean e (OpEnqueue d)"
    and "enqueue e io d s = (Inr (), s')"
  shows "\<exists>db' q. st_db s' = Some db' \<and> live e db (dl_id d) = None \<and>
    get_record e (dl_id d) s' = Inr (scrub_delivery (json_text e) (enqueue_prepare (io_now io) q d)) \<and>
    (\<forall>k. k \<noteq> dl_id d \<longrightarrow> live e db' k = live e db k)"
  using enqueue_success [OF assms] outbox_env.get_record_live [OF outbox_env_of [OF assms(1)]]
  by (metis fun_upd_other fun_upd_same)

lemma outbox_enqueue_get_witness:
  "\<exists>q. get_record log_env ''x'' (demo_store demo_db1)
     = Inr (scrub_delivery id (enqueue_prepare 20 q (demo_delivery ''x'' zero_time)))"
proof -
  have ok: "op_clean log_env (OpEnqueue (demo_delivery ''x'' zero_time))" by (simp add: log_env_def)
  have x: "dl_id (demo_delivery ''x'' zero_time) = ''x''" "io_now (demo_io 20) = 20" "json_text log_env = id"
    by (simp_all add: demo_data log_env_def)
  from outbox_enqueue_get [OF log_env_ok demo_reach0 demo_store_db(1) ok demo_enqueue, unfolded x]
  show ?thesis by blast
qed

end
