(* ===== verification/OutboxOrigin.thy ===== *)
theory OutboxOrigin
  imports OutboxBinding
begin

text \<open>
  Where live deliveries come from: only \<open>Enqueue\<close> brings one, every other call leaves the live records it
  keeps with their identity. And which calls write the rotation journal. These are the facts about the
  calls of other goroutines that a caller between two of its own calls relies on.
\<close>

section \<open>Deliveries an operation brings\<close>

definition belongs :: "delivery \<Rightarrow> string \<times> string \<times> string" where
  "belongs d = (dl_owner d, dl_agent d, dl_installation d)"

fun brings :: "store_op \<Rightarrow> string \<Rightarrow> delivery \<Rightarrow> bool" where
  "brings (OpEnqueue x) k d \<longleftrightarrow> dl_id x = k \<and> belongs x = belongs d"
| "brings _ k d \<longleftrightarrow> False"

definition stems :: "('b, 'd) env \<Rightarrow> store_op \<Rightarrow> ('b, 'd) db \<Rightarrow> ('b, 'd) db \<Rightarrow> bool" where
  "stems e op db db' \<longleftrightarrow> (\<forall>k d. live e db' k = Some d \<longrightarrow>
     (\<exists>d0. live e db k = Some d0 \<and> identity d = identity d0) \<or> brings op k d)"

fun writes_journal :: "store_op \<Rightarrow> bool" where
  "writes_journal (OpBeginRotation r) \<longleftrightarrow> True"
| "writes_journal OpQuarantineRotation \<longleftrightarrow> True"
| "writes_journal (OpAdvanceRotation p q) \<longleftrightarrow> True"
| "writes_journal _ \<longleftrightarrow> False"

lemma identity_belongs: "identity d = identity d' \<Longrightarrow> belongs d = belongs d'"
  by (simp add: identity_def belongs_def)

lemma stems_refl: "stems e op db db"
  by (auto simp: stems_def)

lemma stems_trans: "stems e op a b \<Longrightarrow> stems e op b c \<Longrightarrow> stems e op a c"
  unfolding stems_def by (cases op) (simp; metis identity_belongs)+

lemma stems_same: "live e db' = live e db \<Longrightarrow> stems e op db db'"
  by (auto simp: stems_def)

lemma prepared_belongs [simp]: "dl_id (enqueue_prepare now q d) = dl_id d" "belongs (enqueue_prepare now q d) = belongs d"
  by (simp_all add: enqueue_prepare_def belongs_def Let_def)

lemma brings_refines: "op_refines now op op' \<Longrightarrow> brings op' k d \<Longrightarrow> brings op k d"
  by (cases op; cases op') auto

lemma stems_refines: "op_refines now op op' \<Longrightarrow> stems e op' a b \<Longrightarrow> stems e op a b"
  using brings_refines unfolding stems_def by blast

lemma writes_refines: "op_refines now op op' \<Longrightarrow> writes_journal op' \<Longrightarrow> writes_journal op"
  by (cases op; cases op') auto

section \<open>Every transaction\<close>

context outbox_env
begin

lemma stems_put:
  assumes wf: "wf_db e db" and at: "live e db k = Some d" and id: "identity d' = identity d"
    and live': "live e db' = (live e db)(k \<mapsto> scrub_delivery (json_text e) d')"
  shows "stems e op db db'"
  using identity_scrub [OF live_clean [OF wf at] id] at by (auto simp: stems_def live')

lemma stems_fewer: "live e db' = keep_if P (live e db) \<or> live e db' = (live e db)(k := None) \<Longrightarrow> stems e op db db'"
  by (auto simp: stems_def keep_if_def split: if_splits option.splits)

lemma stems_update:
  assumes wf: "wf_db e db" and run: "update_delivery_tx e cfg k mutate mk db = Inr (u, db')"
    and "\<And>d d'. mutate d = Inr d' \<Longrightarrow> dl_id d' = dl_id d \<and>
           dl_state d' = (if mk then StatePending else StateInflight)"
    and "\<And>d d'. mutate d = Inr d' \<Longrightarrow> identity d' = identity d"
  shows "stems e op db db' \<and> db_rotation db' = db_rotation db"
  by (rule update_delivery_effect [OF wf run assms(3)])
    (assumption, metis stems_put [OF wf] assms(4) same_meta_def)

lemma origin_step:
  assumes wf: "wf_db e db" and ok: "op_clean e op" and step: "db_step e cfg db op db'"
  shows "stems e op db db' \<and> (\<not> writes_journal op \<longrightarrow> db_rotation db' = db_rotation db)"
  using step
proof cases
  case (step_enqueue now d u)
  have "op_clean e (OpEnqueue d)" using ok step_enqueue(1) by simp
  then have "belongs d = belongs (scrub_delivery (json_text e) (enqueue_prepare now (db_sequence db + 1) d))"
    using prepared_belongs [of now "db_sequence db + 1" d] by (simp add: belongs_def del: prepared_belongs)
  then show ?thesis
    using enqueue_effect [OF wf step_enqueue(2)] ok step_enqueue(1) by (auto simp: stems_def)
next
  case (step_mark k u)
  have "stems e op db db' \<and> db_rotation db' = db_rotation db"
    by (rule stems_update [OF wf step_mark(2) mark_inflight_mutate_ok identity_mutate(1)])
  then show ?thesis by blast
next
  case (step_retry k t f u)
  have "stems e op db db' \<and> db_rotation db' = db_rotation db"
    by (rule stems_update [OF wf step_retry(2) retry_mutate_ok identity_mutate(2)])
  then show ?thesis by blast
next
  case (step_pause now k p f u)
  show ?thesis
    by (rule pause_delivery_effect [OF wf step_pause(2)]) (intro conjI stems_put [OF wf]; (simp)?)
next
  case (step_clear b c)
  then show ?thesis by (auto dest!: clear_effect intro!: stems_same simp: live_def)
next
  case (step_resolve now k u)
  show ?thesis by (rule resolve_collision_effect [OF wf step_resolve(2)]) (use stems_fewer in blast)
next
  case (step_begin now r r')
  then show ?thesis by (auto dest!: begin_rotation_effect intro!: stems_same simp: live_def)
next
  case (step_quarantine_rotation now r')
  from step_quarantine_rotation(2) show ?thesis
  proof (cases rule: quarantine_rotation_cases)
    case (moved r)
    from quarantine_rotation_effect [OF wf step_quarantine_rotation(2) moved] show ?thesis
      using stems_fewer step_quarantine_rotation(1) by (metis writes_journal.simps(2))
  qed (simp add: stems_refl)
next
  case (step_advance now p q r')
  then show ?thesis by (auto dest!: advance_rotation_effect intro!: stems_same simp: live_def)
next
  case (step_quarantine now k r f u)
  show ?thesis
    by (rule quarantine_effect [OF wf step_quarantine(2)]) (use stems_fewer in \<open>unfold same_meta_def, blast\<close>)
next
  case (step_by_receiver now a r f n)
  from by_receiver_effect [OF wf step_by_receiver(2)] show ?thesis using stems_fewer unfolding same_meta_def by blast
next
  case (step_reconcile now b rr)
  from step_reconcile(2) show ?thesis
  proof (cases rule: reconcile_cases)
    case moved
    from reconcile_effect [OF wf step_reconcile(2) moved] show ?thesis using stems_fewer by blast
  qed (simp add: stems_refl)
next
  case (step_delete k u)
  then show ?thesis using delete_effect [OF wf step_delete(2)] stems_fewer unfolding same_meta_def by blast
next
  case (step_prune t n)
  show ?thesis by (rule prune_effect [OF wf step_prune(2)]) (auto intro: stems_same simp: same_meta_def)
qed

lemma perform_origin:
  assumes "wf_db e db" "op_clean e op" "st_db s = Some db" "st_db (perform e io op s) = Some db'"
  shows "stems e op db db' \<and> (\<not> writes_journal op \<longrightarrow> db_rotation db' = db_rotation db)"
proof -
  have "wf_db e db' \<and> (stems e op db db' \<and> (\<not> writes_journal op \<longrightarrow> db_rotation db' = db_rotation db))"
  proof (rule perform_relates [OF assms])
    fix op' a b
    assume "wf_db e a" and r: "op_refines (io_now io) op op'" and "op_clean e op'" "db_step e (st_cfg s) a op' b"
    then have "stems e op' a b \<and> (\<not> writes_journal op' \<longrightarrow> db_rotation b = db_rotation a)" by (intro origin_step)
    then show "stems e op a b \<and> (\<not> writes_journal op \<longrightarrow> db_rotation b = db_rotation a)"
      using stems_refines [OF r] writes_refines [OF r] by blast
  next
    fix a b c
    assume "stems e op a b \<and> (\<not> writes_journal op \<longrightarrow> db_rotation b = db_rotation a)"
      "stems e op b c \<and> (\<not> writes_journal op \<longrightarrow> db_rotation c = db_rotation b)"
    then show "stems e op a c \<and> (\<not> writes_journal op \<longrightarrow> db_rotation c = db_rotation a)"
      using stems_trans by metis
  qed (simp add: stems_refl)
  then show ?thesis by blast
qed

end

section \<open>Open stores stay open\<close>

lemma update_stays_open: "st_db s \<noteq> None \<Longrightarrow> st_db (snd (run_update io n s tx)) \<noteq> None"
  by (cases rule: run_update_cases [of io n s tx]) auto

lemma prune_open: "st_db s \<noteq> None \<Longrightarrow> st_db (snd (prune_quarantine e io n t s)) \<noteq> None"
  by (cases rule: prune_quarantine_cases [of e io n t s]) auto

lemma enqueue_open: "st_db s \<noteq> None \<Longrightarrow> st_db (snd (enqueue e io d s)) \<noteq> None"
proof -
  assume s: "st_db s \<noteq> None"
  obtain r s1 where r: "run_update io 0 s (enqueue_tx e (st_cfg s) (io_now io) d) = (r, s1)" by fastforce
  obtain p s2 where p: "prune_quarantine e io 1 (io_now io) s1 = (p, s2)" by fastforce
  have "st_db s1 \<noteq> None" using update_stays_open [OF s, of io 0 "enqueue_tx e (st_cfg s) (io_now io) d"] r by simp
  moreover from this have "st_db s2 \<noteq> None" using prune_open [of s1 e io 1 "io_now io"] p by simp
  ultimately show ?thesis
    using s r p by (cases p) (simp_all add: enqueue_def Let_def update_stays_open del: not_None_eq)
qed

lemma perform_open: "st_db s \<noteq> None \<Longrightarrow> st_db (perform e io op s) \<noteq> None"
  by (cases op)
    (simp_all add: enqueue_open prune_open mark_inflight_def retry_def clear_resolved_pause_def
      resolve_delivery_collision_def quarantine_rotation_def advance_rotation_def update_stays_open
      quarantine_delivery_def delete_record_def pause_delivery_def begin_rotation_def Let_def
      quarantine_by_receiver_def reconcile_binding_def del: not_None_eq)

end
