(* ===== verification/DispatchProps.thy ===== *)
theory DispatchProps
  imports Dispatch OutboxProps OutboxOrigin
begin

text \<open>
  What a dispatch guarantees: it posts at most one delivery, never under a pause nor for another
  principal than the one whose credentials it uses; it removes a delivery only after the cloud has
  acknowledged it; and a failed post ends in exactly one of a pause, a quarantine entry or a retry.
\<close>

section \<open>A call to the engine\<close>

definition schedule_clean :: "('b, 'd) env \<Rightarrow> schedule \<Rightarrow> bool" where
  "schedule_clean e sc \<longleftrightarrow> (\<forall>n io op. (io, op) \<in> set (sc_others sc n) \<longrightarrow> op_clean e op)"

lemma run_others_reachable:
  assumes "reachable e s" "\<forall>io op. (io, op) \<in> set ops \<longrightarrow> op_clean e op"
  shows "reachable e (run_others e ops s)"
  using assms
proof (induction ops arbitrary: s)
  case (Cons x ops)
  obtain io op where x: "x = (io, op)" by fastforce
  have "reachable e (perform e io op s)"
    using Cons.prems by (intro reachable.call) (auto simp: x)
  with Cons.IH [OF this] Cons.prems(2) show ?case by (simp add: run_others_def x)
qed (simp add: run_others_def)

lemma run_others_append: "run_others e (xs @ ys) s = run_others e ys (run_others e xs s)"
  by (simp add: run_others_def)

lemma run_others_one: "run_others e [(io, op)] s = perform e io op s"
  by (simp add: run_others_def)

lemma engine_write_cases:
  assumes "engine_write e sc n f s = (r, s')"
  obtains (closed) "r = Inl EngineClosed" "s' = run_others e (sc_others sc n) s"
  | (ran) "snd (f (sc_io sc n) (run_others e (sc_others sc n) s)) = s'"
  using assms by (cases "sc_admit sc n") (simp_all add: engine_write_def Let_def)

lemma engine_write_Inr:
  assumes "engine_write e sc n f s = (Inr v, s')"
  shows "f (sc_io sc n) (run_others e (sc_others sc n) s) = (Inr v, s')"
  using assms by (cases "sc_admit sc n") (simp_all add: engine_write_def Let_def)

lemma dispatch_posted:
  assumes "di_posted (dispatch_once u e sc post b now s) = Some d"
  obtains c s1 rc s2 s3 where
    "clear_resolved_pause (sc_io sc 0) b (run_others e (sc_others sc 0) s) = (Inr c, s1)"
    "stored_pause (run_others e (sc_others sc 1) s1) = Inr None"
    "reconcile_binding e (sc_io sc 2) b (run_others e (sc_others sc 2) (run_others e (sc_others sc 1) s1)) = (Inr rc, s2)"
    "next_due e now (run_others e (sc_others sc 3) s2) = Inr (Some d)"
    "mark_inflight e (sc_io sc 4) (dl_id d) (run_others e (sc_others sc 4) (run_others e (sc_others sc 3) s2)) = (Inr (), s3)"
    "dispatch_once u e sc post b now s = dispatched (Some d) (case post d of
       Inr ack \<Rightarrow> settle_success e sc d ack
         (no_result\<lparr>dr_id := dl_id d, dr_attempted := True, dr_reconciled := rc\<rparr>) s3
     | Inl err \<Rightarrow> settle_failure u e sc b now d err
         (no_result\<lparr>dr_id := dl_id d, dr_attempted := True, dr_reconciled := rc\<rparr>) s3)"
proof -
  obtain r0 s1 where w0: "engine_write e sc 0 (\<lambda>io. clear_resolved_pause io b) s = (r0, s1)" by fastforce
  obtain c where r0: "r0 = Inr c" using assms w0 by (cases r0) (simp_all add: dispatch_once_def dispatched_def)
  let ?s1 = "engine_read e sc 1 s1"
  have p: "stored_pause ?s1 = Inr None"
    using assms w0 r0
    by (cases "stored_pause ?s1"; cases "projr (stored_pause ?s1)")
      (simp_all add: dispatch_once_def dispatched_def Let_def)
  obtain r2 s2 where w2: "engine_write e sc 2 (\<lambda>io. reconcile_binding e io b) ?s1 = (r2, s2)" by fastforce
  obtain rc where r2: "r2 = Inr rc" using assms w0 r0 p w2
    by (cases r2) (simp_all add: dispatch_once_def dispatched_def Let_def)
  let ?s2 = "engine_read e sc 3 s2"
  obtain d' where n: "next_due e now ?s2 = Inr (Some d')"
    using assms w0 r0 p w2 r2
    by (cases "next_due e now ?s2"; cases "projr (next_due e now ?s2)")
      (simp_all add: dispatch_once_def dispatched_def Let_def)
  obtain r4 s3 where w4: "engine_write e sc 4 (\<lambda>io. mark_inflight e io (dl_id d')) ?s2 = (r4, s3)" by fastforce
  obtain x where r4: "r4 = Inr x" using assms w0 r0 p w2 r2 n w4
    by (cases r4) (simp_all add: dispatch_once_def dispatched_def Let_def)
  have d': "d' = d" using assms w0 r0 p w2 r2 n w4 r4
    by (simp add: dispatch_once_def dispatched_def Let_def)
  show thesis
    using that engine_write_Inr [OF w0 [unfolded r0]] p engine_write_Inr [OF w2 [unfolded r2]] n
      engine_write_Inr [OF w4 [unfolded r4]] w0 r0 w2 r2 w4 r4
    by (simp add: engine_read_def d' dispatch_once_def Let_def)
qed

section \<open>The calls of others\<close>

lemma run_others_closed: "st_db s = None \<Longrightarrow> st_db (run_others e ops s) = None"
proof (induction ops arbitrary: s)
  case (Cons y ys)
  then show ?case using perform_closed [of s e "fst y" "snd y"]
    by (cases y) (simp add: run_others_def)
qed (simp add: run_others_def)

text \<open>What the calls of others leave: their live deliveries were live before or were enqueued by one of them.\<close>

lemma others_origin:
  assumes "env_ok e" "reachable e s" "st_db s = Some db"
    and "\<forall>io op. (io, op) \<in> set ops \<longrightarrow> op_clean e op" "st_db (run_others e ops s) = Some db'"
  shows "(\<forall>k d. live e db' k = Some d \<longrightarrow> (\<exists>d0. live e db k = Some d0 \<and> belongs d = belongs d0) \<or>
      (\<exists>io x. (io, OpEnqueue x) \<in> set ops \<and> dl_id x = k \<and> belongs x = belongs d)) \<and>
    ((\<forall>io op. (io, op) \<in> set ops \<longrightarrow> \<not> writes_journal op) \<longrightarrow> db_rotation db' = db_rotation db)"
  using assms(2-5)
proof (induction ops arbitrary: s db)
  case (Cons y ops)
  obtain io op where y: "y = (io, op)" by fastforce
  let ?s = "perform e io op s"
  have ok: "op_clean e op" using Cons.prems(3) by (auto simp: y)
  have run: "run_others e (y # ops) s = run_others e ops ?s" by (simp add: run_others_def y)
  obtain db1 where db1: "st_db ?s = Some db1" using perform_open [of s e io op] Cons.prems(2) by auto
  have o: "stems e op db db1" "\<not> writes_journal op \<longrightarrow> db_rotation db1 = db_rotation db"
    using outbox_env.perform_origin [OF outbox_env_of [OF assms(1)] reachable_wf [OF assms(1) Cons.prems(1,2)] ok
        Cons.prems(2) db1] by simp_all
  have IH: "(\<forall>k d. live e db' k = Some d \<longrightarrow> (\<exists>d0. live e db1 k = Some d0 \<and> belongs d = belongs d0) \<or>
      (\<exists>io x. (io, OpEnqueue x) \<in> set ops \<and> dl_id x = k \<and> belongs x = belongs d))"
    "(\<forall>io op. (io, op) \<in> set ops \<longrightarrow> \<not> writes_journal op) \<longrightarrow> db_rotation db' = db_rotation db1"
    using Cons.IH [OF reachable.call [OF Cons.prems(1) ok] db1] Cons.prems(3,4) unfolding run by auto
  have brought: "brings op k d \<Longrightarrow> \<exists>x. op = OpEnqueue x \<and> dl_id x = k \<and> belongs x = belongs d" for k d
    by (cases op) auto
  have first: "(\<exists>d0. live e db k = Some d0 \<and> belongs d1 = belongs d0) \<or>
      (\<exists>x. (io, OpEnqueue x) \<in> set (y # ops) \<and> dl_id x = k \<and> belongs x = belongs d1)" if "live e db1 k = Some d1" for k d1
  proof -
    have "(\<exists>d0. live e db k = Some d0 \<and> identity d1 = identity d0) \<or> brings op k d1"
      using o(1) that unfolding stems_def by blast
    then show ?thesis
    proof
      assume "brings op k d1"
      from brought [OF this] show ?thesis unfolding y by auto
    qed (auto dest: identity_belongs)
  qed
  have "(\<exists>d0. live e db k = Some d0 \<and> belongs d = belongs d0) \<or>
      (\<exists>io x. (io, OpEnqueue x) \<in> set (y # ops) \<and> dl_id x = k \<and> belongs x = belongs d)" if after: "live e db' k = Some d" for k d
  proof -
    consider d0 where "live e db1 k = Some d0" "belongs d = belongs d0"
      | io x where "(io, OpEnqueue x) \<in> set ops" "dl_id x = k" "belongs x = belongs d" using IH(1) after by blast
    then show ?thesis
    proof cases
      case 1
      then show ?thesis using first [OF 1(1)] by metis
    next
      case 2
      then show ?thesis by auto
    qed
  qed
  moreover have "(\<forall>io op. (io, op) \<in> set (y # ops) \<longrightarrow> \<not> writes_journal op) \<longrightarrow> db_rotation db' = db_rotation db"
    using IH(2) o(2) unfolding y by auto
  ultimately show ?case by blast
qed (auto simp: run_others_def)

lemma run_others_open: "st_db s \<noteq> None \<Longrightarrow> st_db (run_others e ops s) \<noteq> None"
proof (induction ops arbitrary: s)
  case (Cons y ops)
  show ?case using Cons.IH [OF perform_open [OF Cons.prems, of e "fst y" "snd y"]]
    by (cases y) (simp add: run_others_def del: not_None_eq)
qed (simp add: run_others_def)

lemma reachable_run:
  assumes "reachable e s" "schedule_clean e sc"
  shows "reachable e (run_others e (sc_others sc n) s)"
  using assms by (intro run_others_reachable) (auto simp: schedule_clean_def)

lemma next_due_live:
  assumes "env_ok e" "reachable e s" "st_db s = Some db" "next_due e now s = Inr (Some d)"
  shows "live e db (dl_id d) = Some d"
proof -
  have env: "outbox_env e" by (rule outbox_env_of [OF assms(1)])
  have wf: "wf_db e db" by (rule reachable_wf [OF assms(1-3)])
  from assms(3,4) obtain key k rest where
    "bentries (ids e) (db_due db) = (key, k) # rest" and dec: "decode_delivery (get_delivery e db k) = Inr d"
    by (auto simp: next_due_def run_view_def next_due_tx_def res_simps split: list.splits if_splits)
  from dec obtain c where c: "get_delivery e db k = Some c" "holds c d"
    by (cases "get_delivery e db k") (auto simp: decode_delivery_Some)
  have "live e db k = Some d" by (rule outbox_env.live_at [OF env c])
  moreover from outbox_env.live_record [OF env wf this] have "dl_id d = k" by blast
  ultimately show ?thesis by simp
qed

text \<open>
  C8. A dispatch sends a delivery with the credentials of another principal only in one case. Whatever the
  other goroutines do, and whatever fails: a delivery that is posted belongs to the owner, receiver agent
  and installation of the binding the dispatch was called with (up to surrounding white space), or another
  goroutine enqueued it, for the principal it names, between the reconciliation and the choice.
\<close>
theorem dispatch_posts_own_delivery:
  assumes "env_ok e" "reachable e s" "schedule_clean e sc" "op_clean e (OpReconcile b)"
    and "di_posted (dispatch_once u e sc post b now s) = Some d"
  shows "trim_space (dl_owner d) = trim_space (bi_owner b) \<and>
      trim_space (dl_agent d) = trim_space (bi_agent b) \<and>
      trim_space (dl_installation d) = trim_space (bi_installation b)
    \<or> (\<exists>io x. (io, OpEnqueue x) \<in> set (sc_others sc 3) \<and> dl_id x = dl_id d \<and>
      dl_owner x = dl_owner d \<and> dl_agent x = dl_agent d \<and> dl_installation x = dl_installation d)"
proof -
  have env: "outbox_env e" by (rule outbox_env_of [OF assms(1)])
  from assms(5) obtain c s1 rc s2 where
    c: "clear_resolved_pause (sc_io sc 0) b (run_others e (sc_others sc 0) s) = (Inr c, s1)"
    and rec: "reconcile_binding e (sc_io sc 2) b (run_others e (sc_others sc 2) (run_others e (sc_others sc 1) s1)) = (Inr rc, s2)"
    and nd: "next_due e now (run_others e (sc_others sc 3) s2) = Inr (Some d)"
    by (rule dispatch_posted) blast
  have r1: "reachable e s1"
    using reachable.call [OF reachable_run [OF assms(2,3), of 0], of "OpClearPause b" "sc_io sc 0"] c by simp
  let ?s = "run_others e (sc_others sc 2) (run_others e (sc_others sc 1) s1)"
  have rs: "reachable e ?s" by (intro reachable_run r1 assms(3))
  have r2: "reachable e s2" using reachable.call [OF rs assms(4), of "sc_io sc 2"] rec by simp
  let ?s3 = "run_others e (sc_others sc 3) s2"
  have r3: "reachable e ?s3" by (rule reachable_run [OF r2 assms(3)])
  obtain db3 where db3: "st_db ?s3 = Some db3" using nd by (auto simp: next_due_def run_view_def split: option.splits)
  have "st_db s2 \<noteq> None" using db3 by (metis (no_types) option.distinct(1) run_others_closed)
  then obtain db2 where db2: "st_db s2 = Some db2" by blast
  have "st_db ?s \<noteq> None" using rec db2 by (metis perform_closed option.distinct(1) perform.simps(12) snd_conv)
  then obtain db where db: "st_db ?s = Some db" by blast
  have "db_marker db2 = Stored (reconciled_binding_from b)" "marker_ok e db2"
    using reconcile_binding_success [OF assms(1) rs db assms(4) rec db2] by blast+
  then have own: "trim_space (dl_owner d0) = trim_space (bi_owner b) \<and>
      trim_space (dl_agent d0) = trim_space (bi_agent b) \<and>
      trim_space (dl_installation d0) = trim_space (bi_installation b)" if "live e db2 k = Some d0" for k d0
    using that by (auto simp: marker_ok_def marker_matches_def reconciled_binding_from_def)
  have "live e db3 (dl_id d) = Some d" by (rule next_due_live [OF assms(1) r3 db3 nd])
  then have "(\<exists>d0. live e db2 (dl_id d) = Some d0 \<and> belongs d = belongs d0) \<or>
      (\<exists>io x. (io, OpEnqueue x) \<in> set (sc_others sc 3) \<and> dl_id x = dl_id d \<and> belongs x = belongs d)"
    using others_origin [OF assms(1) r2 db2 _ db3] assms(3) unfolding schedule_clean_def by blast
  then show ?thesis using own by (auto simp: belongs_def)
qed

section \<open>A concrete dispatch\<close>

definition demo_quiet :: schedule where
  "demo_quiet = \<lparr>sc_others = (\<lambda>_. []), sc_admit = (\<lambda>_. Admitted), sc_io = (\<lambda>_. demo_io 22)\<rparr>"

definition demo_unicode :: unicode where
  "demo_unicode = \<lparr>uni_lower = id, uni_upper = id\<rparr>"

definition demo_ack :: "delivery \<Rightarrow> send_error + unit ack" where
  "demo_ack d = Inr \<lparr>ak_duplicate = False, ak_payload = ()\<rparr>"

definition demo_reject :: "int \<Rightarrow> delivery \<Rightarrow> send_error + unit ack" where
  "demo_reject code d = Inl (SendApi \<lparr>ae_status = code, ae_code = [], ae_message = ''m'',
     ae_retryable = False, ae_retry_after = 0, ae_request_id = []\<rparr>)"

lemma run_quiet [simp]: "engine_write e demo_quiet n f s = f (demo_io 22) s" "engine_read e demo_quiet n s = s"
  by (simp_all add: engine_write_def engine_read_def run_others_def demo_quiet_def Let_def)

definition demo_db5 :: demo_db where
  "demo_db5 = demo_db2\<lparr>db_marker := Stored \<lparr>rb_owner = ''u'', rb_agent = ''a'', rb_installation = ''i''\<rparr>\<rparr>"

lemma demo_dispatch_steps:
  "clear_resolved_pause (demo_io 22) (demo_binding ''a'') (demo_store demo_db1) = (Inr False, demo_store demo_db1)"
  "stored_pause (demo_store demo_db1) = Inr None"
  "next_due log_env 25 (demo_store demo_db3) = Inr (Some (demo_rec ''x'' 1 20 20))"
  "mark_inflight log_env (demo_io 22) ''x'' (demo_store demo_db3) = (Inr (), demo_store demo_db5)"
proof -
  have t: "due_timestamp (due_key 20 1 ''x'') = 20" by (rule due_timestamp_key) (simp add: time_ok_def)
  show "clear_resolved_pause (demo_io 22) (demo_binding ''a'') (demo_store demo_db1) = (Inr False, demo_store demo_db1)"
    by (simp add: clear_resolved_pause_def clear_resolved_pause_tx_def run_update_def new_store_def
        demo_db1_def demo_db0_def empty_db_def demo_io_def)
  show "stored_pause (demo_store demo_db1) = Inr None"
    by (simp add: stored_pause_def dispatch_pause_tx_def read_slot_def run_view_def new_store_def
        demo_db1_def demo_db0_def empty_db_def)
  show "next_due log_env 25 (demo_store demo_db3) = Inr (Some (demo_rec ''x'' 1 20 20))"
    by (simp add: next_due_def next_due_tx_def run_view_def new_store_def demo_db3_def demo_db1_def
        demo_db0_def empty_db_def demo_env t decode_delivery_def demo_cell_def)
  show "mark_inflight log_env (demo_io 22) ''x'' (demo_store demo_db3) = (Inr (), demo_store demo_db5)"
    by (simp add: mark_inflight_def update_delivery_tx_def mark_inflight_mutate_def new_store_def
      demo_db0_def demo_db1_def demo_db2_def demo_db3_def demo_db5_def empty_db_def demo_data demo_env
      tx_steps Let_def)
qed

lemma demo_dispatch:
  "dispatch_once demo_unicode log_env demo_quiet post (demo_binding ''a'') 25 (demo_store demo_db1)
   = dispatched (Some (demo_rec ''x'' 1 20 20)) (case post (demo_rec ''x'' 1 20 20) of
       Inr ack \<Rightarrow> settle_success log_env demo_quiet (demo_rec ''x'' 1 20 20) ack
         (no_result\<lparr>dr_id := ''x'', dr_attempted := True,
            dr_reconciled := \<lparr>rr_kept = 1, rr_rebind = 0, rr_reset = 0\<rparr>\<rparr>) (demo_store demo_db5)
     | Inl err \<Rightarrow> settle_failure demo_unicode log_env demo_quiet (demo_binding ''a'') 25 (demo_rec ''x'' 1 20 20) err
         (no_result\<lparr>dr_id := ''x'', dr_attempted := True,
            dr_reconciled := \<lparr>rr_kept = 1, rr_rebind = 0, rr_reset = 0\<rparr>\<rparr>) (demo_store demo_db5))"
proof -
  have "dl_id (demo_rec ''x'' 1 20 20) = ''x''" by (simp add: demo_rec_def demo_delivery_def)
  then show ?thesis by (simp add: dispatch_once_def demo_dispatch_steps demo_reconcile Let_def)
qed

lemma demo_quiet_clean: "schedule_clean log_env demo_quiet"
  by (simp add: schedule_clean_def demo_quiet_def)

theorem dispatch_posts_own_delivery_witness:
  "trim_space (dl_agent (demo_rec ''x'' 1 20 20)) = trim_space (bi_agent (demo_binding ''a''))"
proof -
  have ok: "op_clean log_env (OpReconcile (demo_binding ''a''))" by (simp add: log_env_def scrub_marker_def)
  have "di_posted (dispatch_once demo_unicode log_env demo_quiet demo_ack (demo_binding ''a'') 25
      (demo_store demo_db1)) = Some (demo_rec ''x'' 1 20 20)"
    by (simp only: demo_dispatch dispatched_def dispatched.simps)
  from dispatch_posts_own_delivery [OF log_env_ok demo_reach1 demo_quiet_clean ok this]
  show ?thesis by (simp add: demo_quiet_def)
qed

section \<open>The operations of a dispatch\<close>

lemma engine_write_ops:
  assumes "engine_write e sc n f s = (r, s')" and "\<And>io t. snd (f io t) = perform e io op t"
  shows "\<exists>own. s' = run_others e (sc_others sc n @ own) s \<and> (own = [] \<or> own = [(sc_io sc n, op)]) \<and>
    (\<forall>v. r = Inr v \<longrightarrow> own = [(sc_io sc n, op)])"
  using assms(1)
proof (cases rule: engine_write_cases)
  case closed
  then show ?thesis by (intro exI [of _ "[]"]) simp
next
  case ran
  then have "s' = perform e (sc_io sc n) op (run_others e (sc_others sc n) s)"
    using assms(2) by metis
  then show ?thesis by (intro exI [of _ "[(sc_io sc n, op)]"]) (simp add: run_others_append run_others_one)
qed

text \<open>The store a dispatch leaves is the one that some sequence of operations leaves: those of the
  other goroutines, and its own, of which a deletion is one only after an acknowledged post.\<close>

definition dispatch_ops ::
  "schedule \<Rightarrow> binding \<Rightarrow> (delivery \<Rightarrow> send_error + 'a ack) \<Rightarrow> ('b, 'd, 'a) dispatched \<Rightarrow> (io \<times> store_op) \<Rightarrow> bool" where
  "dispatch_ops sc b post r x \<longleftrightarrow> (\<exists>n. x \<in> set (sc_others sc n)) \<or>
     (case snd x of
        OpClearPause b' \<Rightarrow> b' = b
      | OpReconcile b' \<Rightarrow> b' = b
      | OpMarkInflight k \<Rightarrow> True
      | OpPause k p f \<Rightarrow> True | OpQuarantine k rs f \<Rightarrow> True | OpRetry k t f \<Rightarrow> True
      | OpDelete k \<Rightarrow> (\<exists>d ack. di_posted r = Some d \<and> k = dl_id d \<and> post d = Inr ack)
      | _ \<Rightarrow> False)"

definition reach_by ::
  "('b, 'd) env \<Rightarrow> (io \<times> store_op \<Rightarrow> bool) \<Rightarrow> ('b, 'd) store \<Rightarrow> ('b, 'd) store \<Rightarrow> bool" where
  "reach_by e P s s' \<longleftrightarrow> (\<exists>ops. s' = run_others e ops s \<and> (\<forall>x \<in> set ops. P x))"

lemma reach_by_trans: "reach_by e P a b \<Longrightarrow> reach_by e P b c \<Longrightarrow> reach_by e P a c"
  unfolding reach_by_def by (metis UnE run_others_append set_append)

lemma reach_by_others: "(\<And>x. x \<in> set ops \<Longrightarrow> P x) \<Longrightarrow> reach_by e P s (run_others e ops s)"
  unfolding reach_by_def by blast

lemma reach_by_write:
  assumes "engine_write e sc n f s = (r, s')" and "\<And>io t. snd (f io t) = perform e io op t"
    and "\<And>x. x \<in> set (sc_others sc n) \<Longrightarrow> P x" and "\<And>io. P (io, op)"
  shows "reach_by e P s s'"
  using engine_write_ops [OF assms(1,2)] assms(3,4) unfolding reach_by_def by fastforce

lemma settle_success_reach:
  assumes "settle_success e sc d ack result s = (r, err, s')"
    and "\<And>n x. x \<in> set (sc_others sc n) \<Longrightarrow> P x" "\<And>io. P (io, OpDelete (dl_id d))"
  shows "reach_by e P s s'"
proof -
  obtain x s1 where w: "engine_write e sc 5 (\<lambda>io. delete_record e io (dl_id d)) s = (x, s1)" by fastforce
  then have "s' = s1" using assms(1) by (auto simp: settle_success_def split: sum.splits)
  then show ?thesis using reach_by_write [OF w, of "OpDelete (dl_id d)" P] assms(2,3) by simp
qed

lemma settle_failure_reach:
  assumes "settle_failure u e sc b now d er result s = (r, err, s')"
    and "\<And>n x. x \<in> set (sc_others sc n) \<Longrightarrow> P x" "\<And>io k p f. P (io, OpPause k p f)"
      "\<And>io k q f. P (io, OpQuarantine k q f)" "\<And>io k t f. P (io, OpRetry k t f)"
  shows "reach_by e P s s'"
proof -
  let ?ds = "classify u er" and ?f = "failure_from_error er"
  let ?delay = "if ds_retry_after ?ds \<le> 0 then retry_delay (dl_attempts d) else ds_retry_after ?ds"
  obtain x1 s1 where w1: "engine_write e sc 5 (\<lambda>io. pause_delivery e io (dl_id d)
      (dispatch_pause_for ?ds (dl_id d) now b ?f) ?f) s = (x1, s1)" by fastforce
  obtain x2 s2 where w2: "engine_write e sc 5 (\<lambda>io. quarantine_delivery e io (dl_id d) (ds_reason ?ds) ?f) s
      = (x2, s2)" by fastforce
  obtain x3 s3 where w3: "engine_write e sc 5 (\<lambda>io. retry e io (dl_id d) (now + ?delay) ?f) s = (x3, s3)"
    by fastforce
  have "s' = s1 \<or> s' = s2 \<or> s' = s3"
    using assms(1) w1 w2 w3 by (auto simp: settle_failure_def Let_def split: sum.splits if_splits)
  moreover have "reach_by e P s s1" by (rule reach_by_write [OF w1, of "OpPause _ _ _"]) (use assms in simp_all)
  moreover have "reach_by e P s s2" by (rule reach_by_write [OF w2, of "OpQuarantine _ _ _"]) (use assms in simp_all)
  moreover have "reach_by e P s s3" by (rule reach_by_write [OF w3, of "OpRetry _ _ _"]) (use assms in simp_all)
  ultimately show ?thesis by blast
qed

lemma dispatch_reach:
  fixes post :: "delivery \<Rightarrow> send_error + 'a ack"
  assumes r_def: "r = dispatch_once u e sc post b now s"
  shows "reach_by e (dispatch_ops sc b post r) s (di_store r)"
proof -
  let ?P = "dispatch_ops sc b post r"
  have others: "\<And>n x. x \<in> set (sc_others sc n) \<Longrightarrow> ?P x" by (auto simp: dispatch_ops_def)
  obtain r0 s1 where w0: "engine_write e sc 0 (\<lambda>io. clear_resolved_pause io b) s = (r0, s1)" by fastforce
  have 1: "reach_by e ?P s s1"
    by (rule reach_by_write [OF w0, of "OpClearPause b"]) (use others in \<open>simp_all add: dispatch_ops_def\<close>)
  let ?s1 = "engine_read e sc 1 s1"
  have 2: "reach_by e ?P s ?s1"
    using reach_by_trans [OF 1 reach_by_others [of "sc_others sc 1"]] others by (simp add: engine_read_def)
  obtain r2 s2 where w2: "engine_write e sc 2 (\<lambda>io. reconcile_binding e io b) ?s1 = (r2, s2)" by fastforce
  have 3: "reach_by e ?P s s2"
    by (rule reach_by_trans [OF 2], rule reach_by_write [OF w2, of "OpReconcile b"])
      (use others in \<open>simp_all add: dispatch_ops_def\<close>)
  let ?s2 = "engine_read e sc 3 s2"
  have 4: "reach_by e ?P s ?s2"
    using reach_by_trans [OF 3 reach_by_others [of "sc_others sc 3"]] others by (simp add: engine_read_def)
  show ?thesis
  proof (cases "di_posted r")
    case (Some d)
    then obtain rc s3 where m: "engine_write e sc 4 (\<lambda>io. mark_inflight e io (dl_id d)) ?s2 = (Inr (), s3)"
      and r: "r = dispatched (Some d) (case post d of
         Inr ack \<Rightarrow> settle_success e sc d ack
           (no_result\<lparr>dr_id := dl_id d, dr_attempted := True, dr_reconciled := rc\<rparr>) s3
       | Inl err \<Rightarrow> settle_failure u e sc b now d err
           (no_result\<lparr>dr_id := dl_id d, dr_attempted := True, dr_reconciled := rc\<rparr>) s3)"
      using w0 w2 unfolding r_def dispatch_once_def
      by (auto simp: Let_def dispatched_def split: sum.splits option.splits prod.splits)
    have 5: "reach_by e ?P s s3"
      by (rule reach_by_trans [OF 4], rule reach_by_write [OF m, of "OpMarkInflight (dl_id d)"])
        (use others in \<open>simp_all add: dispatch_ops_def\<close>)
    show ?thesis
    proof (cases "post d")
      case (Inr ack)
      obtain x y s4 where st: "settle_success e sc d ack
          (no_result\<lparr>dr_id := dl_id d, dr_attempted := True, dr_reconciled := rc\<rparr>) s3 = (x, y, s4)"
        by (metis prod.exhaust)
      have del: "?P (io, OpDelete (dl_id d))" for io using Some Inr by (auto simp: dispatch_ops_def)
      have "reach_by e ?P s3 s4" by (rule settle_success_reach [where P = ?P, OF st others del])
      with 5 have "reach_by e ?P s s4" by (rule reach_by_trans)
      moreover have "di_store r = s4" using r Inr st by (simp add: dispatched_def)
      ultimately show ?thesis by simp
    next
      case (Inl err)
      obtain x y s4 where st: "settle_failure u e sc b now d err
          ((no_result :: 'a dispatch_result)\<lparr>dr_id := dl_id d, dr_attempted := True, dr_reconciled := rc\<rparr>) s3 = (x, y, s4)"
        by (metis prod.exhaust)
      have "reach_by e ?P s3 s4"
        by (rule settle_failure_reach [where P = ?P, OF st others]) (simp_all add: dispatch_ops_def)
      with 5 have "reach_by e ?P s s4" by (rule reach_by_trans)
      moreover have "di_store r = s4" using r Inl st by (simp add: dispatched_def)
      ultimately show ?thesis by simp
    qed
  next
    case None
    note defs = r_def dispatch_once_def dispatched_def Let_def w0
    show ?thesis
    proof (cases "\<exists>c rc d. r0 = Inr c \<and> stored_pause ?s1 = Inr None \<and> r2 = Inr rc \<and> next_due e now ?s2 = Inr (Some d)")
      case True
      then obtain c rc d where t: "r0 = Inr c" "stored_pause ?s1 = Inr None" "r2 = Inr rc"
        "next_due e now ?s2 = Inr (Some d)" by blast
      obtain r4 s3 where m: "engine_write e sc 4 (\<lambda>io. mark_inflight e io (dl_id d)) ?s2 = (r4, s3)" by fastforce
      have "reach_by e ?P ?s2 s3"
        by (rule reach_by_write [OF m, of "OpMarkInflight (dl_id d)"])
          (use others in \<open>simp_all add: dispatch_ops_def\<close>)
      with 4 have "reach_by e ?P s s3" by (rule reach_by_trans)
      moreover have "di_store r = s3"
        using None t w2 m by (cases r4) (simp_all add: defs)
      ultimately show ?thesis by simp
    next
      case False
      then have "di_store r \<in> {s1, ?s1, s2, ?s2}"
        using w2 by (auto simp: defs split: sum.splits option.splits)
      then show ?thesis using 1 2 3 4 by auto
    qed
  qed
qed

section \<open>Records across a sequence of operations\<close>

definition stored_as :: "('b, 'd) env \<Rightarrow> ('b, 'd) db \<Rightarrow> string \<Rightarrow> delivery \<Rightarrow> bool" where
  "stored_as e db k d \<longleftrightarrow> (live e db k = Some d \<or> held e db k = Some d)"

text \<open>An operation that takes away a record with the identity of \<open>d\<close>: its deletion, or a pruning after
  the retention time of a record of that identity.\<close>

definition takes_away :: "duration \<Rightarrow> string \<Rightarrow> delivery \<Rightarrow> io \<times> store_op \<Rightarrow> bool" where
  "takes_away retention k d x \<longleftrightarrow> snd x = OpDelete k \<or>
     (\<exists>t d'. prunes_at (io_now (fst x)) (snd x) t \<and> identity d' = identity d \<and> prune_expired (t - retention) d')"

lemma run_update_cfg: "st_cfg (snd (run_update io n s tx)) = st_cfg s"
  by (cases rule: run_update_cases [of io n s tx]) auto

lemma prune_quarantine_cfg: "st_cfg (snd (prune_quarantine e io n t s)) = st_cfg s"
  by (cases rule: prune_quarantine_cases [of e io n t s]) auto

lemma enqueue_cfg: "st_cfg (snd (enqueue e io d s)) = st_cfg s"
proof -
  let ?r = "run_update io 0 s (enqueue_tx e (st_cfg s) (io_now io) d)"
  obtain r s1 where r: "?r = (r, s1)" by fastforce
  obtain p s2 where p: "prune_quarantine e io 1 (io_now io) s1 = (p, s2)" by fastforce
  have "st_cfg s1 = st_cfg s" "st_cfg s2 = st_cfg s1"
    using run_update_cfg [of io 0 s "enqueue_tx e (st_cfg s) (io_now io) d"] r
      prune_quarantine_cfg [of e io 1 "io_now io" s1] p by simp_all
  then show ?thesis
    using r p by (cases p) (simp_all add: enqueue_def Let_def run_update_cfg)
qed

lemma perform_cfg: "st_cfg (perform e io op s) = st_cfg s"
  by (cases op)
    (simp_all add: enqueue_cfg prune_quarantine_cfg mark_inflight_def retry_def clear_resolved_pause_def
      resolve_delivery_collision_def quarantine_rotation_def advance_rotation_def run_update_cfg
      quarantine_delivery_def delete_record_def pause_delivery_def begin_rotation_def Let_def
      quarantine_by_receiver_def reconcile_binding_def)

lemma others_keep:
  assumes "env_ok e" "reachable e s" "\<forall>io op. (io, op) \<in> set ops \<longrightarrow> op_clean e op"
    and "st_db s = Some db" "st_db (run_others e ops s) = Some db'" "stored_as e db k d"
  shows "(\<exists>d'. identity d' = identity d \<and> stored_as e db' k d') \<or>
    (\<exists>x \<in> set ops. takes_away (cf_retention (st_cfg s)) k d x)"
  using assms(2-6)
proof (induction ops arbitrary: s db d)
  case Nil
  then show ?case by (auto simp: run_others_def)
next
  case (Cons x ops)
  obtain io op where x: "x = (io, op)" by fastforce
  let ?s = "perform e io op s"
  have ok: "op_clean e op" using Cons.prems(2) by (auto simp: x)
  have run: "run_others e (x # ops) s = run_others e ops ?s" by (simp add: run_others_def x)
  have r: "reachable e ?s" by (rule reachable.call [OF Cons.prems(1) ok])
  obtain db1 where db1: "st_db ?s = Some db1"
    using Cons.prems(4) run_others_closed [of ?s e ops] unfolding run by (cases "st_db ?s") auto
  show ?case
  proof (cases "takes_away (cf_retention (st_cfg s)) k d x")
    case False
    have keep: "keeps_live e op db db1 \<and> keeps_held e (cf_retention (st_cfg s)) (io_now io) op db db1"
      by (rule outbox_env.perform_keeps [OF outbox_env_of [OF assms(1)]
            reachable_wf [OF assms(1) Cons.prems(1,3)] ok Cons.prems(3) db1])
    have "op \<noteq> OpDelete k" "\<not> (\<exists>t. prunes_at (io_now io) op t \<and> prune_expired (t - cf_retention (st_cfg s)) d)"
      using False by (auto simp: takes_away_def x)
    then obtain d1 where d1: "identity d1 = identity d" "stored_as e db1 k d1"
      using keep Cons.prems(5) unfolding keeps_live_def keeps_held_def stored_as_def by metis
    have "(\<exists>d'. identity d' = identity d1 \<and> stored_as e db' k d') \<or>
        (\<exists>x \<in> set ops. takes_away (cf_retention (st_cfg ?s)) k d1 x)"
      using Cons.IH [OF r _ db1 _ d1(2)] Cons.prems(2,4) unfolding run by auto
    then show ?thesis using d1(1) by (auto simp: perform_cfg takes_away_def)
  qed auto
qed

lemma dispatch_keeps:
  assumes "env_ok e" "reachable e s" "schedule_clean e sc" "op_clean e (OpReconcile b)"
    and "r = dispatch_once u e sc post b now s"
    and "st_db s = Some db" "st_db (di_store r) = Some db'" "stored_as e db k d"
  shows "(\<exists>d'. identity d' = identity d \<and> stored_as e db' k d')
    \<or> (\<exists>p ack. di_posted r = Some p \<and> dl_id p = k \<and> post p = Inr ack)
    \<or> (\<exists>n x. x \<in> set (sc_others sc n) \<and> takes_away (cf_retention (st_cfg s)) k d x)"
proof -
  obtain ops where ops: "di_store r = run_others e ops s" "\<forall>x \<in> set ops. dispatch_ops sc b post r x"
    using dispatch_reach [OF assms(5)] unfolding reach_by_def by blast
  have "op_clean e op" if "(io, op) \<in> set ops" for io op
    using ops(2) that assms(3,4) unfolding dispatch_ops_def schedule_clean_def by (cases op) fastforce+
  then have clean: "\<forall>io op. (io, op) \<in> set ops \<longrightarrow> op_clean e op" by blast
  have db': "st_db (run_others e ops s) = Some db'" using ops(1) assms(7) by simp
  from others_keep [OF assms(1,2) clean assms(6) db' assms(8)] show ?thesis
  proof
    assume "\<exists>x \<in> set ops. takes_away (cf_retention (st_cfg s)) k d x"
    then obtain x where x: "x \<in> set ops" "takes_away (cf_retention (st_cfg s)) k d x" by blast
    then have "dispatch_ops sc b post r x" using ops(2) by blast
    then have "(\<exists>n. x \<in> set (sc_others sc n)) \<or> (\<exists>p ack. di_posted r = Some p \<and> dl_id p = k \<and> post p = Inr ack)"
      using x(2) unfolding dispatch_ops_def takes_away_def by (cases "snd x") auto
    with x(2) show ?thesis by blast
  qed blast
qed

text \<open>
  C9. A dispatch loses nothing: whatever the post returns and whatever fails, a record that was
  stored is still stored afterwards with the same identity (live or in quarantine), unless the cloud
  acknowledged exactly that delivery, or another goroutine deleted it or pruned it after its retention.
\<close>
theorem dispatch_never_loses:
  assumes "env_ok e" "reachable e s" "schedule_clean e sc" "op_clean e (OpReconcile b)"
    and "r = dispatch_once u e sc post b now s"
    and "st_db s = Some db" "st_db (di_store r) = Some db'" "stored_as e db k d"
  shows "(\<exists>d'. identity d' = identity d \<and> stored_as e db' k d')
    \<or> (\<exists>p ack. di_posted r = Some p \<and> dl_id p = k \<and> post p = Inr ack)
    \<or> (\<exists>n x. x \<in> set (sc_others sc n) \<and> takes_away (cf_retention (st_cfg s)) k d x)"
  by (rule dispatch_keeps [OF assms])

lemma clear_effect_pause:
  assumes "clear_resolved_pause_tx b db = Inr (c, db')" "db_pause db = Stored p"
  shows "db' = db \<or> may_lift p (OpClearPause b)"
proof -
  have "db' = db \<or> pause_resolved b p = Inr True"
    using assms by (auto simp: clear_resolved_pause_tx_def res_simps split: if_splits)
  then show ?thesis using pause_resolved_True by blast
qed

text \<open>
  A stored pause stops dispatching: unless the binding of this call resolves it, or another
  goroutine lifts it first, nothing is posted, nothing is changed by the dispatch itself, and the
  result names the pause (an operator's decision for a collision, pairing for the others).
\<close>
lemma dispatch_respects_pause:
  assumes "env_ok e" "reachable e s" "st_db s = Some db" "db_pause db = Stored p"
    and "sc_others sc 0 = []" "sc_others sc 1 = []" "\<not> may_lift p (OpClearPause b)"
  shows "di_posted (dispatch_once u e sc post b now s) = None \<and>
    st_db (di_store (dispatch_once u e sc post b now s)) = Some db \<and>
    (di_error (dispatch_once u e sc post b now s) = None \<longrightarrow>
       di_result (dispatch_once u e sc post b now s) = paused_result p)"
proof -
  obtain r s1 where w: "engine_write e sc 0 (\<lambda>io. clear_resolved_pause io b) s = (r, s1)" by fastforce
  have "st_db s1 = Some db"
    using w
  proof (cases rule: engine_write_cases)
    case closed
    then show ?thesis using assms(3,5) by (simp add: run_others_def)
  next
    case ran
    then have s1: "s1 = perform e (sc_io sc 0) (OpClearPause b) s"
      using assms(5) by (simp add: run_others_def)
    have "clear_resolved_pause_tx b db = Inr (c, db') \<Longrightarrow> db' = db" for c db'
      using clear_effect_pause [of b db c db'] assms(4,7) by auto
    then show ?thesis
      using assms(3) unfolding s1
      by (cases rule: run_update_cases [of "sc_io sc 0" 0 s "clear_resolved_pause_tx b"])
        (auto simp: clear_resolved_pause_def)
  qed
  moreover have "engine_read e sc 1 s1 = s1" using assms(6) by (simp add: engine_read_def run_others_def)
  ultimately show ?thesis
    using w assms(4)
    by (cases r) (simp_all add: dispatch_once_def dispatched_def stored_pause_def run_view_def
        dispatch_pause_tx_def read_slot_def)
qed

section \<open>The outcome of a failed post\<close>

lemma run_update_Inr:
  assumes "run_update io n s tx = (Inr v, s')" "st_db s = Some db"
  obtains db' where "tx db = Inr (v, db')" "st_db s' = Some db'"
  using assms by (cases rule: run_update_cases [of io n s tx]) auto

definition pauses :: "disposition \<Rightarrow> bool" where
  "pauses ds \<longleftrightarrow> ds_action ds = ActPause \<or> ds_action ds = ActRequirePairing \<or> ds_action ds = ActStop"

definition backoff :: "disposition \<Rightarrow> delivery \<Rightarrow> duration" where
  "backoff ds d = (if ds_retry_after ds \<le> 0 then retry_delay (dl_attempts d) else ds_retry_after ds)"

lemma retry_delay_bounds: "2 * second \<le> retry_delay n" "retry_delay n \<le> 64 * second"
proof -
  define m where "m = (if n < 0 then 0 else if n > 5 then 5 else n)"
  have "nat m \<in> {0, 1, 2, 3, 4, 5}" by (auto simp: m_def)
  moreover have "retry_delay n = (let delay = 2 * 2 ^ nat m * second in if delay > 2 * minute then 2 * minute else delay)"
    by (simp add: retry_delay_def m_def Let_def)
  ultimately show "2 * second \<le> retry_delay n" "retry_delay n \<le> 64 * second"
    by (auto simp: duration_defs)
qed

lemma backoff_pos: "0 < backoff ds d"
  using retry_delay_bounds(1) [of "dl_attempts d"] by (auto simp: backoff_def duration_defs)

lemma classify_pause_kind: "pauses (classify u err) \<Longrightarrow> ds_pause_kind (classify u err) \<noteq> PauseOther []"
  by (auto simp: classify_def pauses_def no_disposition_def Let_def split: send_error.splits if_splits)

context outbox_env
begin

lemma settle_pause:
  assumes wf: "wf_db e db" and db: "st_db s = Some db"
    and run: "pause_delivery e io k (dispatch_pause_for ds k now b f) f s = (Inr v, s')"
  shows "\<exists>db' p d d'. live e db k = Some d \<and> st_db s' = Some db' \<and> db_pause db' = Stored p \<and> dp_kind p = ds_pause_kind ds \<and>
    dp_id p = k \<and> dp_cred_gen p = bi_cred_gen b \<and> dp_bind_gen p = bi_bind_gen b \<and>
    live e db' k = Some d' \<and> identity d' = identity d \<and> dl_state d' = StatePending"
proof -
  let ?p = "dispatch_pause_for ds k now b f"
  have "run_update io 0 s (pause_delivery_tx e (st_cfg s) (io_now io) k ?p f) = (Inr v, s')"
    using run by (auto simp: pause_delivery_def split: if_splits)
  then obtain db' where tx: "pause_delivery_tx e (st_cfg s) (io_now io) k ?p f db = Inr (v, db')"
    and db': "st_db s' = Some db'" using db by (rule run_update_Inr)
  from pause_delivery_effect [OF wf tx] obtain d where at: "live e db k = Some d"
    and live': "live e db' = (live e db)(k \<mapsto> scrub_delivery (json_text e)
       (record_failure f (d\<lparr>dl_state := StatePending, dl_attempts := dl_attempts d + 1\<rparr>)))"
    and p: "db_pause db' = Stored (scrub_pause (json_text e)
       (?p\<lparr>dp_id := k, dp_at := if is_zero (dp_at ?p) then io_now io else dp_at ?p\<rparr>))" by blast
  have k: "json_text e k = k" using live_clean [OF wf at] clean_fields(1) live_record [OF wf at] by metis
  have "identity (scrub_delivery (json_text e)
       (record_failure f (d\<lparr>dl_state := StatePending, dl_attempts := dl_attempts d + 1\<rparr>))) = identity d"
    by (rule identity_scrub [OF live_clean [OF wf at]]) simp
  then show ?thesis
    using db' live' p k at
    by (simp add: scrub_pause_def dispatch_pause_for_def record_failure_def)
qed

lemma settle_quarantine:
  assumes wf: "wf_db e db" and db: "st_db s = Some db"
    and run: "quarantine_delivery e io k reason f s = (Inr v, s')"
  shows "\<exists>db' d d'. live e db k = Some d \<and> st_db s' = Some db' \<and> held e db' k = Some d' \<and> identity d' = identity d"
proof -
  obtain db' where tx: "quarantine_tx e (st_cfg s) (io_now io) k reason f db = Inr (v, db')"
    and db': "st_db s' = Some db'"
    using run db unfolding quarantine_delivery_def by (rule run_update_Inr)
  from quarantine_effect [OF wf tx] obtain d where at: "live e db k = Some d"
    and held': "held e db' = (held e db)(k \<mapsto> move_marked e
       (\<lambda>d. record_failure f (mark_quarantined (io_now io) (trim_space reason) d)) d)" by blast
  have "identity (move_marked e
       (\<lambda>d. record_failure f (mark_quarantined (io_now io) (trim_space reason) d)) d) = identity d"
    unfolding move_marked_def by (rule identity_scrub [OF live_clean [OF wf at]]) simp
  then show ?thesis using db' held' at by simp
qed

lemma settle_retry:
  assumes wf: "wf_db e db" and db: "st_db s = Some db"
    and run: "retry e io k t f s = (Inr v, s')"
  shows "\<exists>db' d d'. live e db k = Some d \<and> st_db s' = Some db' \<and> live e db' k = Some d' \<and> identity d' = identity d \<and>
    dl_state d' = StatePending \<and> dl_next d' = t \<and> dl_attempts d' = dl_attempts d + 1"
proof -
  obtain db' where tx: "update_delivery_tx e (st_cfg s) k (retry_mutate t f) True db = Inr (v, db')"
    and db': "st_db s' = Some db'"
    using run db unfolding retry_def by (rule run_update_Inr)
  show ?thesis
  proof (rule update_delivery_effect [OF wf tx retry_mutate_ok])
    fix d d1 assume m: "retry_mutate t f d = Inr d1" and at: "live e db k = Some d"
      and live': "live e db' = (live e db)(k \<mapsto> scrub_delivery (json_text e) d1)"
    have "identity (scrub_delivery (json_text e) d1) = identity d"
      using identity_scrub [OF live_clean [OF wf at]] identity_mutate(2) [OF m] by simp
    then show ?thesis using db' live' m at by (auto simp: retry_mutate_def record_failure_def)
  qed
qed

lemma mark_inflight_live:
  assumes wf: "wf_db e db" and db: "st_db s = Some db" and at: "live e db k = Some d"
    and run: "mark_inflight e io k s = (Inr v, s')"
  shows "\<exists>db' d'. st_db s' = Some db' \<and> wf_db e db' \<and> live e db' k = Some d' \<and> identity d' = identity d \<and>
    dl_attempts d' = dl_attempts d"
proof -
  obtain db' where tx: "update_delivery_tx e (st_cfg s) k (mark_inflight_mutate k) False db = Inr (v, db')"
    and db': "st_db s' = Some db'"
    using run db unfolding mark_inflight_def by (rule run_update_Inr)
  show ?thesis
  proof (rule update_delivery_effect [OF wf tx mark_inflight_mutate_ok])
    fix d0 d1 assume m: "mark_inflight_mutate k d0 = Inr d1" and d0: "live e db k = Some d0" and "wf_db e db'"
      and live': "live e db' = (live e db)(k \<mapsto> scrub_delivery (json_text e) d1)"
    have "d0 = d" using d0 at by simp
    then have "identity (scrub_delivery (json_text e) d1) = identity d"
      using identity_scrub [OF live_clean [OF wf at]] identity_mutate(1) [OF m] by simp
    then show ?thesis using db' live' m \<open>d0 = d\<close> \<open>wf_db e db'\<close>
      by (auto simp: mark_inflight_mutate_def split: if_splits)
  qed
qed

end

definition settled_as ::
  "('b, 'd) env \<Rightarrow> binding \<Rightarrow> time \<Rightarrow> delivery \<Rightarrow> disposition \<Rightarrow> ('b, 'd) db \<Rightarrow> ('b, 'd) store \<Rightarrow> bool" where
  "settled_as e b now d ds db st \<longleftrightarrow> (\<exists>d0 db' d'. live e db (dl_id d) = Some d0 \<and> st_db st = Some db' \<and>
    identity d' = identity d0 \<and>
    (if pauses ds then live e db' (dl_id d) = Some d' \<and> dl_state d' = StatePending \<and>
       (\<exists>p. db_pause db' = Stored p \<and> dp_kind p = ds_pause_kind ds \<and> dp_id p = dl_id d \<and>
            dp_cred_gen p = bi_cred_gen b \<and> dp_bind_gen p = bi_bind_gen b)
     else if ds_quarantine ds then held e db' (dl_id d) = Some d'
     else live e db' (dl_id d) = Some d' \<and> dl_state d' = StatePending \<and>
       dl_next d' = now + backoff ds d \<and> dl_attempts d' = dl_attempts d0 + 1))"

lemma settled_failure:
  assumes env: "outbox_env e" and db: "st_db (run_others e (sc_others sc 5) s) = Some db" "wf_db e db"
    and run: "settle_failure u e sc b now d err result s = (result', None, s')"
  shows "settled_as e b now d (classify u err) db s'"
proof -
  define ds where "ds = classify u err"
  let ?f = "failure_from_error err"
  let ?s = "run_others e (sc_others sc 5) s"
  show ?thesis
  proof (cases "pauses ds")
    case True
    let ?w = "engine_write e sc 5 (\<lambda>io. pause_delivery e io (dl_id d) (dispatch_pause_for ds (dl_id d) now b ?f) ?f) s"
    obtain v where w: "?w = (Inr v, s')"
      using run True unfolding pauses_def ds_def
      by (cases "fst ?w"; cases ?w) (auto simp: settle_failure_def Let_def ds_def split: sum.splits prod.splits)
    from outbox_env.settle_pause [OF env db(2,1) engine_write_Inr [OF w]] show ?thesis
      using True unfolding settled_as_def ds_def by auto
  next
    case False
    note np = False
    show ?thesis
    proof (cases "ds_quarantine ds")
      case True
      let ?w = "engine_write e sc 5 (\<lambda>io. quarantine_delivery e io (dl_id d) (ds_reason ds) ?f) s"
      obtain v where w: "?w = (Inr v, s')"
        using run np True unfolding pauses_def ds_def
        by (cases "fst ?w"; cases ?w) (auto simp: settle_failure_def Let_def ds_def split: sum.splits prod.splits)
      from outbox_env.settle_quarantine [OF env db(2,1) engine_write_Inr [OF w]] show ?thesis
        using np True unfolding settled_as_def ds_def by auto
    next
      case False
      let ?w = "engine_write e sc 5 (\<lambda>io. retry e io (dl_id d) (now + backoff ds d) ?f) s"
      obtain v where w: "?w = (Inr v, s')"
        using run np False unfolding pauses_def ds_def
        by (cases "fst ?w"; cases ?w)
          (auto simp: settle_failure_def backoff_def Let_def ds_def split: sum.splits prod.splits)
      from outbox_env.settle_retry [OF env db(2,1) engine_write_Inr [OF w]] show ?thesis
        using np False unfolding settled_as_def ds_def by auto
    qed
  qed
qed

lemma run_others_cfg: "st_cfg (run_others e ops s) = st_cfg s"
  by (induction ops arbitrary: s) (auto simp: run_others_def perform_cfg)

text \<open>From the choice of a delivery to its settlement.\<close>

lemma meanwhile:
  assumes "env_ok e" "schedule_clean e sc" "reachable e s" "st_db s = Some db" "live e db k = Some d"
    and mk: "mark_inflight e (sc_io sc 4) k (run_others e (sc_others sc 4) s) = (Inr (), s3)"
  shows "\<exists>db5. st_db (run_others e (sc_others sc 5) s3) = Some db5 \<and> wf_db e db5 \<and>
    (\<forall>d5. live e db5 k = Some d5 \<longrightarrow>
      (identity d5 = identity d \<or> (\<exists>x \<in> set (sc_others sc 4) \<union> set (sc_others sc 5).
          takes_away (cf_retention (st_cfg s)) k d x)) \<and>
      (sc_others sc 4 = [] \<and> sc_others sc 5 = [] \<longrightarrow> dl_attempts d5 = dl_attempts d))"
proof -
  note env = outbox_env_of [OF assms(1)]
  let ?ops = "sc_others sc 4 @ [(sc_io sc 4, OpMarkInflight k)] @ sc_others sc 5"
  let ?t = "run_others e ?ops s"
  have s3: "s3 = perform e (sc_io sc 4) (OpMarkInflight k) (run_others e (sc_others sc 4) s)" using mk by simp
  have t: "?t = run_others e (sc_others sc 5) s3" by (simp only: run_others_append run_others_one s3)
  have clean: "\<forall>io op. (io, op) \<in> set ?ops \<longrightarrow> op_clean e op" using assms(2) by (auto simp: schedule_clean_def)
  obtain db5 where db5: "st_db ?t = Some db5" using run_others_open [of s e ?ops] assms(4) by auto
  have wf5: "wf_db e db5" by (rule reachable_wf [OF assms(1) run_others_reachable [OF assms(3) clean] db5])
  have "identity d5 = identity d \<or> (\<exists>x \<in> set (sc_others sc 4) \<union> set (sc_others sc 5).
      takes_away (cf_retention (st_cfg s)) k d x)" if d5: "live e db5 k = Some d5" for d5
  proof -
    have "stored_as e db k d" using assms(5) by (simp add: stored_as_def)
    from others_keep [OF assms(1,3) clean assms(4) db5 this] show ?thesis
    proof
      assume "\<exists>d'. identity d' = identity d \<and> stored_as e db5 k d'"
      then show ?thesis using d5 outbox_env.live_not_held [OF env wf5 d5] by (auto simp: stored_as_def)
    qed (auto simp: takes_away_def)
  qed
  moreover have "dl_attempts d5 = dl_attempts d"
    if "sc_others sc 4 = [] \<and> sc_others sc 5 = []" "live e db5 k = Some d5" for d5
  proof -
    have "mark_inflight e (sc_io sc 4) k s = (Inr (), s3)" "st_db s3 = Some db5"
      using mk db5 that(1) unfolding t by (simp_all add: run_others_def)
    from outbox_env.mark_inflight_live [OF env reachable_wf [OF assms(1,3,4)] assms(4,5) this(1)] this(2) that(2)
    show ?thesis by auto
  qed
  ultimately show ?thesis using db5 wf5 unfolding t by blast
qed

text \<open>
  C10. A failed post is settled in exactly one way, chosen by the classification of the error, whatever the
  other goroutines do before, during and after the post: a pausing error leaves the delivery pending under
  a stored pause of the right kind and with the generations of this binding; an unrecoverable one puts it
  in quarantine; any other makes it pending again, due strictly later: after the delay the server asked
  for, or else after a backoff of 2 to 64 seconds, and with one attempt more than before if nobody else
  was at work during the post. The delivery keeps its identity, unless another goroutine took it away
  in the meantime. When the settlement itself fails, the dispatch returns the error of the outbox.
\<close>
theorem dispatch_settles_failure:
  assumes "env_ok e" "reachable e s" "schedule_clean e sc" "op_clean e (OpReconcile b)"
    and "r = dispatch_once u e sc post b now s" "di_posted r = Some d" "post d = Inl err" "ds = classify u err"
  shows "case di_error r of
      Some x \<Rightarrow> \<exists>y. x = OutboxFailed y
    | None \<Rightarrow> \<exists>db' d'. st_db (di_store r) = Some db' \<and>
    (identity d' = identity d \<or>
      (\<exists>x \<in> set (sc_others sc 4) \<union> set (sc_others sc 5). takes_away (cf_retention (st_cfg s)) (dl_id d) d x)) \<and>
    (if pauses ds then live e db' (dl_id d) = Some d' \<and> dl_state d' = StatePending \<and>
       (\<exists>p. db_pause db' = Stored p \<and> dp_kind p = ds_pause_kind ds \<and> dp_id p = dl_id d \<and>
            dp_cred_gen p = bi_cred_gen b \<and> dp_bind_gen p = bi_bind_gen b)
     else if ds_quarantine ds then held e db' (dl_id d) = Some d'
     else live e db' (dl_id d) = Some d' \<and> dl_state d' = StatePending \<and> now < dl_next d' \<and>
       (if 0 < ds_retry_after ds then dl_next d' = now + ds_retry_after ds
        else now + 2 * second \<le> dl_next d' \<and> dl_next d' \<le> now + 64 * second) \<and>
       (sc_others sc 4 = [] \<and> sc_others sc 5 = [] \<longrightarrow> dl_attempts d' = dl_attempts d + 1))"
proof -
  have env: "outbox_env e" by (rule outbox_env_of [OF assms(1)])
  from assms(6) [unfolded assms(5)] obtain c s1 rc s2 s3 where
    c: "clear_resolved_pause (sc_io sc 0) b (run_others e (sc_others sc 0) s) = (Inr c, s1)"
    and rec: "reconcile_binding e (sc_io sc 2) b (run_others e (sc_others sc 2) (run_others e (sc_others sc 1) s1)) = (Inr rc, s2)"
    and nd: "next_due e now (run_others e (sc_others sc 3) s2) = Inr (Some d)"
    and mk: "mark_inflight e (sc_io sc 4) (dl_id d) (run_others e (sc_others sc 4) (run_others e (sc_others sc 3) s2)) = (Inr (), s3)"
    and r: "r = dispatched (Some d) (settle_failure u e sc b now d err
         (no_result\<lparr>dr_id := dl_id d, dr_attempted := True, dr_reconciled := rc\<rparr>) s3)"
    by (rule dispatch_posted) (simp add: assms(5,7))
  have r1: "reachable e s1"
    using reachable.call [OF reachable_run [OF assms(2,3), of 0], of "OpClearPause b" "sc_io sc 0"] c by simp
  have r2: "reachable e s2"
    using reachable.call [OF reachable_run [OF reachable_run [OF r1 assms(3), of 1] assms(3), of 2] assms(4), of "sc_io sc 2"]
      rec by simp
  let ?s = "run_others e (sc_others sc 3) s2"
  have rs: "reachable e ?s" by (rule reachable_run [OF r2 assms(3)])
  obtain db where db: "st_db ?s = Some db" using nd by (auto simp: next_due_def run_view_def split: option.splits)
  have at: "live e db (dl_id d) = Some d" by (rule next_due_live [OF assms(1) rs db nd])
  have cfg: "st_cfg ?s = st_cfg s"
    using c rec by (metis perform.simps(5,12) perform_cfg run_others_cfg snd_conv)
  obtain db5 where db5: "st_db (run_others e (sc_others sc 5) s3) = Some db5" "wf_db e db5"
    and d5: "\<And>d5. live e db5 (dl_id d) = Some d5 \<Longrightarrow>
      (identity d5 = identity d \<or> (\<exists>x \<in> set (sc_others sc 4) \<union> set (sc_others sc 5).
          takes_away (cf_retention (st_cfg s)) (dl_id d) d x)) \<and>
      (sc_others sc 4 = [] \<and> sc_others sc 5 = [] \<longrightarrow> dl_attempts d5 = dl_attempts d)"
    using meanwhile [OF assms(1,3) rs db at mk] unfolding cfg by blast
  obtain x where x: "r = dispatched (Some d) x" "x = settle_failure u e sc b now d err
      (no_result\<lparr>dr_id := dl_id d, dr_attempted := True, dr_reconciled := rc\<rparr>) s3" using r by blast
  obtain res er s' where st: "x = (res, er, s')" by (cases x) auto
  have r': "di_error r = er" "di_store r = s'" by (simp_all add: x(1) st dispatched_def)
  show ?thesis
  proof (cases er)
    case (Some z)
    then have "\<exists>y. z = OutboxFailed y"
      using st [unfolded x(2)] by (auto simp: settle_failure_def Let_def split: sum.splits if_splits prod.splits)
    then show ?thesis using Some r' by simp
  next
    case None
    have "settled_as e b now d ds db5 s'"
      unfolding assms(8) by (rule settled_failure [OF env db5 st [unfolded x(2) None]])
    then obtain d0 db' d' where at5: "live e db5 (dl_id d) = Some d0" and db': "st_db s' = Some db'"
      and id: "identity d' = identity d0" and out: "if pauses ds then live e db' (dl_id d) = Some d' \<and> dl_state d' = StatePending \<and>
       (\<exists>p. db_pause db' = Stored p \<and> dp_kind p = ds_pause_kind ds \<and> dp_id p = dl_id d \<and>
            dp_cred_gen p = bi_cred_gen b \<and> dp_bind_gen p = bi_bind_gen b)
     else if ds_quarantine ds then held e db' (dl_id d) = Some d'
     else live e db' (dl_id d) = Some d' \<and> dl_state d' = StatePending \<and>
       dl_next d' = now + backoff ds d \<and> dl_attempts d' = dl_attempts d0 + 1"
      unfolding settled_as_def by blast
    show ?thesis
      unfolding r' None option.case
      by (intro exI [of _ db'] exI [of _ d'])
        (use d5 [OF at5] db' id out backoff_pos [of ds d] retry_delay_bounds [of "dl_attempts d"]
          in \<open>auto simp: backoff_def split: if_splits\<close>)
  qed
qed

section \<open>The concrete dispatch, when the post fails\<close>

definition demo_lost :: "delivery \<Rightarrow> send_error + unit ack" where
  "demo_lost d = Inl (SendOther ''m'')"

definition demo_db6 :: demo_db where
  "demo_db6 = demo_db5\<lparr>db_deliveries := (''x'', demo_cell ((demo_rec ''x'' 1 20 (25 + 2 * second))\<lparr>
         dl_attempts := 1, dl_error := ''m''\<rparr>)) # db_deliveries demo_db5,
     db_due := [(due_key (25 + 2 * second) 1 ''x'', ''x'')]\<rparr>"

lemma demo_retry_delay: "retry_delay 0 = 2 * second"
  by (simp add: retry_delay_def duration_defs)

lemma demo_rec_sel: "dl_id (demo_rec k q t n) = k" "dl_attempts (demo_rec k q t n) = 0"
  by (simp_all add: demo_rec_def demo_delivery_def)

lemma demo_lost_dispatch:
  "dispatch_once demo_unicode log_env demo_quiet demo_lost (demo_binding ''a'') 25 (demo_store demo_db1)
   = dispatched (Some (demo_rec ''x'' 1 20 20))
       (no_result\<lparr>dr_id := ''x'', dr_attempted := True, dr_reconciled := \<lparr>rr_kept = 1, rr_rebind = 0, rr_reset = 0\<rparr>,
          dr_disposition := no_disposition\<lparr>ds_action := ActRetry, ds_reason := ''delivery_error''\<rparr>\<rparr>,
        None, demo_store demo_db6)"
proof -
  have "retry log_env (demo_io 22) ''x'' (25 + 2 * second)
      (failure_from_error (SendOther ''m'')) (demo_store demo_db5) = (Inr (), demo_store demo_db6)"
    by (simp add: retry_def update_delivery_tx_def retry_mutate_def record_failure_def
        failure_from_error_def error_text_def new_store_def demo_db6_def demo_db5_def demo_db2_def
        demo_db0_def empty_db_def demo_data demo_env tx_steps Let_def due_key_length trim_visible_char)
  then show ?thesis
    by (simp add: demo_dispatch demo_lost_def settle_failure_def classify_def no_disposition_def Let_def
        demo_rec_sel demo_retry_delay)
qed

theorem dispatch_never_loses_witness:
  "\<exists>d'. identity d' = identity (demo_rec ''x'' 1 20 20) \<and> stored_as log_env demo_db6 ''x'' d'"
proof -
  have ok: "op_clean log_env (OpReconcile (demo_binding ''a''))" by (simp add: log_env_def scrub_marker_def)
  have st: "st_db (di_store (dispatch_once demo_unicode log_env demo_quiet demo_lost (demo_binding ''a'') 25
      (demo_store demo_db1))) = Some demo_db6"
    by (simp add: demo_lost_dispatch dispatched_def demo_store_db)
  have at: "stored_as log_env demo_db1 ''x'' (demo_rec ''x'' 1 20 20)" by (simp add: stored_as_def demo_live)
  from dispatch_never_loses [OF log_env_ok demo_reach1 demo_quiet_clean ok refl demo_store_db(1) st at]
  show ?thesis by (auto simp: demo_lost_def demo_quiet_def)
qed

theorem dispatch_respects_pause_witness:
  "di_posted (dispatch_once demo_unicode log_env demo_quiet demo_ack (demo_binding ''a'') 25
     (demo_store demo_db4)) = None"
proof -
  have p: "db_pause demo_db4 = Stored (demo_pause\<lparr>dp_id := ''x'', dp_at := 23\<rparr>)"
    and lift: "\<not> may_lift (demo_pause\<lparr>dp_id := ''x'', dp_at := 23\<rparr>) (OpClearPause (demo_binding ''a''))"
    by (simp_all add: demo_db4_def demo_pause_def)
  have "sc_others demo_quiet n = []" for n by (simp add: demo_quiet_def)
  from dispatch_respects_pause [OF log_env_ok demo_reach4 demo_store_db(1) p this this lift]
  show ?thesis by blast
qed

theorem dispatch_settles_failure_witness:
  "\<exists>d'. live log_env demo_db6 ''x'' = Some d' \<and> dl_state d' = StatePending \<and>
     25 + 2 * second \<le> dl_next d' \<and> dl_next d' \<le> 25 + 64 * second"
proof -
  have ok: "op_clean log_env (OpReconcile (demo_binding ''a''))" by (simp add: log_env_def scrub_marker_def)
  let ?r = "dispatch_once demo_unicode log_env demo_quiet demo_lost (demo_binding ''a'') 25 (demo_store demo_db1)"
  have r: "di_posted ?r = Some (demo_rec ''x'' 1 20 20)" "di_error ?r = None" "di_store ?r = demo_store demo_db6"
    by (simp_all add: demo_lost_dispatch dispatched_def)
  have post: "demo_lost (demo_rec ''x'' 1 20 20) = Inl (SendOther ''m'')" by (simp add: demo_lost_def)
  from dispatch_settles_failure [OF log_env_ok demo_reach1 demo_quiet_clean ok refl r(1) post refl]
  show ?thesis
    by (auto simp: r(2,3) demo_store_db demo_rec_sel classify_def pauses_def no_disposition_def)
qed

end
