(* ===== verification/Engine.thy ===== *)
theory Engine
  imports OutboxProps
begin

text \<open>
  The writer of the outbox (\<open>internal/outbox/engine.go\<close>): producers stage deliveries in a bounded
  channel, one goroutine takes them out and enqueues them, runs the write operations of other callers
  and prunes on a timer, and reports the result of each staged delivery on a second bounded channel.

  The goroutine and its callers interleave at the steps of \<open>engine_step\<close>: each is one channel
  operation or one call of the store, in the order of \<open>run\<close>. \<open>Close\<close> refuses further work and closes
  the stage; the goroutine drains it and then closes \<open>results\<close> and \<open>done\<close>.
\<close>

record engine_config =
  ec_max_events :: int
  ec_max_bytes :: int

definition engine_defaults :: "engine_config \<Rightarrow> engine_config" where
  "engine_defaults cfg = cfg\<lparr>
     ec_max_events := (if ec_max_events cfg \<le> 0 then 256 else ec_max_events cfg),
     ec_max_bytes := (if ec_max_bytes cfg \<le> 0 then 2 * 1024 * 1024 else ec_max_bytes cfg)\<rparr>"

text \<open>Where the goroutine is: at the \<open>select\<close>, between taking a staged delivery and giving back its
  bytes, about to send a result, or finished.\<close>

datatype writer =
    Selecting
  | Enqueued "delivery \<times> int" "outbox_error + unit"
  | Sending string "outbox_error + unit"
  | Finished

record ('b, 'd) engine =
  en_cfg :: engine_config
  en_accepting :: bool
  en_stage :: "(delivery \<times> int) list"
  en_stage_bytes :: int
  en_results :: "(string \<times> (outbox_error + unit)) list"
  en_writer :: writer
  en_store :: "('b, 'd) store"
  en_staged :: "delivery list"
  en_reported :: "(string \<times> (outbox_error + unit)) list"

text \<open>\<^const>\<open>en_staged\<close> and \<^const>\<open>en_reported\<close> record the deliveries that were accepted and the results
  that were sent, in order; the code does not keep them.\<close>

definition new_engine :: "engine_config \<Rightarrow> ('b, 'd) store \<Rightarrow> ('b, 'd) engine" where
  "new_engine cfg s = \<lparr>en_cfg = engine_defaults cfg, en_accepting = True, en_stage = [],
     en_stage_bytes = 0, en_results = [], en_writer = Selecting, en_store = s, en_staged = [],
     en_reported = []\<rparr>"

section \<open>The operations of callers\<close>

definition try_stage ::
  "('b, 'd) env \<Rightarrow> delivery \<Rightarrow> ('b, 'd) engine \<Rightarrow> (outbox_error + unit) \<times> ('b, 'd) engine" where
  "try_stage e d en = (case json_size e d of
     None \<Rightarrow> (Inl MarshalFailed, en)
   | Some len \<Rightarrow>
       let n = int len in
       if \<not> en_accepting en then (Inl EngineClosed, en)
       else if int (length (en_stage en)) \<ge> ec_max_events (en_cfg en)
               \<or> en_stage_bytes en + n > ec_max_bytes (en_cfg en) then (Inl StageFull, en)
       else (Inr (), en\<lparr>en_stage := en_stage en @ [(d, n)],
                        en_stage_bytes := en_stage_bytes en + n,
                        en_staged := en_staged en @ [d]\<rparr>))"

definition close_engine :: "('b, 'd) engine \<Rightarrow> ('b, 'd) engine" where
  "close_engine en = en\<lparr>en_accepting := False\<rparr>"

section \<open>Steps\<close>

text \<open>The stage is closed exactly when the engine no longer accepts. A result is sent when the channel
  has room; a reader takes the oldest one.\<close>

inductive engine_step :: "('b, 'd) env \<Rightarrow> ('b, 'd) engine \<Rightarrow> ('b, 'd) engine \<Rightarrow> bool" for e where
  stage: "try_stage e d en = (r, en') \<Longrightarrow> engine_step e en en'"
| take_staged: "en_writer en = Selecting \<Longrightarrow> en_stage en = (d, n) # rest \<Longrightarrow>
    enqueue e io d (en_store en) = (r, s') \<Longrightarrow>
    engine_step e en (en\<lparr>en_stage := rest, en_store := s', en_writer := Enqueued (d, n) r\<rparr>)"
| give_back: "en_writer en = Enqueued (d, n) r \<Longrightarrow>
    engine_step e en (en\<lparr>en_stage_bytes := en_stage_bytes en - n, en_writer := Sending (dl_id d) r\<rparr>)"
| send_result: "en_writer en = Sending k r \<Longrightarrow> int (length (en_results en)) < ec_max_events (en_cfg en) \<Longrightarrow>
    engine_step e en (en\<lparr>en_results := en_results en @ [(k, r)], en_reported := en_reported en @ [(k, r)],
      en_writer := Selecting\<rparr>)"
| read_result: "en_results en = x # rest \<Longrightarrow> engine_step e en (en\<lparr>en_results := rest\<rparr>)"
| run_operation: "en_writer en = Selecting \<Longrightarrow>
    engine_step e en (en\<lparr>en_store := perform e io op (en_store en)\<rparr>)"
| finish: "en_writer en = Selecting \<Longrightarrow> \<not> en_accepting en \<Longrightarrow> en_stage en = [] \<Longrightarrow>
    engine_step e en (en\<lparr>en_writer := Finished\<rparr>)"
| close: "engine_step e en (close_engine en)"

inductive_cases engine_stepE: "engine_step e en en'"

section \<open>The invariant\<close>

fun in_hand :: "writer \<Rightarrow> string list" where
  "in_hand (Enqueued (d, n) r) = [dl_id d]"
| "in_hand (Sending k r) = [k]"
| "in_hand _ = []"

fun held_bytes :: "writer \<Rightarrow> int" where
  "held_bytes (Enqueued (d, n) r) = n"
| "held_bytes _ = 0"

definition engine_ok :: "('b, 'd) env \<Rightarrow> ('b, 'd) engine \<Rightarrow> bool" where
  "engine_ok e en \<longleftrightarrow>
     int (length (en_stage en)) \<le> ec_max_events (en_cfg en) \<and>
     int (length (en_results en)) \<le> ec_max_events (en_cfg en) \<and>
     en_stage_bytes en = sum_list (map snd (en_stage en)) + held_bytes (en_writer en) \<and>
     en_stage_bytes en \<le> ec_max_bytes (en_cfg en) \<and>
     0 < ec_max_events (en_cfg en) \<and>
     (\<forall>(d, n) \<in> set (en_stage en). json_size e d = Some (nat n) \<and> 0 \<le> n) \<and>
     0 \<le> held_bytes (en_writer en) \<and>
     map dl_id (en_staged en)
       = map fst (en_reported en) @ in_hand (en_writer en) @ map (dl_id \<circ> fst) (en_stage en) \<and>
     (en_writer en = Finished \<longrightarrow> \<not> en_accepting en \<and> en_stage en = [])"

lemma new_engine_ok: "engine_ok e (new_engine cfg s)"
  by (simp add: engine_ok_def new_engine_def engine_defaults_def)

lemma engine_step_ok:
  assumes "engine_step e en en'" "engine_ok e en"
  shows "engine_ok e en'"
  using assms
proof cases
  case (stage d r)
  then show ?thesis
    using assms(2) by (auto simp: try_stage_def engine_ok_def Let_def split: option.splits if_splits)
qed (use assms(2) in \<open>auto simp: engine_ok_def close_engine_def\<close>)

inductive engine_run :: "('b, 'd) env \<Rightarrow> ('b, 'd) engine \<Rightarrow> ('b, 'd) engine \<Rightarrow> bool" for e where
  run_refl: "engine_run e en en"
| run_step: "engine_run e en en1 \<Longrightarrow> engine_step e en1 en2 \<Longrightarrow> engine_run e en en2"

lemma engine_run_ok: "engine_run e en en' \<Longrightarrow> engine_ok e en \<Longrightarrow> engine_ok e en'"
  by (induction rule: engine_run.induct) (auto intro: engine_step_ok)

section \<open>Draining\<close>

lemma engine_step_cfg: "engine_step e en en' \<Longrightarrow> en_cfg en' = en_cfg en"
  by (induction rule: engine_step.induct)
    (auto simp: try_stage_def close_engine_def Let_def split: option.splits if_splits)

lemma engine_run_cfg: "engine_run e en en' \<Longrightarrow> en_cfg en' = en_cfg en"
  by (induction rule: engine_run.induct) (auto dest: engine_step_cfg)

lemma engine_run_trans: "engine_run e b c \<Longrightarrow> engine_run e a b \<Longrightarrow> engine_run e a c"
  by (induction rule: engine_run.induct) (auto intro: engine_run.intros)

lemma engine_run_one: "engine_step e a b \<Longrightarrow> engine_run e a b"
  using run_refl run_step by blast

definition quiet_after :: "('b, 'd) engine \<Rightarrow> ('b, 'd) engine \<Rightarrow> bool" where
  "quiet_after en en' \<longleftrightarrow> en_staged en' = en_staged en \<and> en_accepting en' = en_accepting en \<and>
     en_cfg en' = en_cfg en"

text \<open>Reading a result makes room for the one being sent.\<close>

lemma send_possible:
  assumes ok: "engine_ok e en" and w: "en_writer en = Sending k r"
  shows "\<exists>en'. engine_run e en en' \<and> en_writer en' = Selecting \<and> quiet_after en en' \<and>
    en_stage en' = en_stage en"
proof (cases "en_results en")
  case Nil
  have "int (length (en_results en)) < ec_max_events (en_cfg en)" using ok Nil by (simp add: engine_ok_def)
  from engine_run_one [OF send_result [OF w this]] show ?thesis
    by (intro exI [of _ "en\<lparr>en_results := en_results en @ [(k, r)],
      en_reported := en_reported en @ [(k, r)], en_writer := Selecting\<rparr>"]) (simp add: quiet_after_def)
next
  case (Cons x rest)
  let ?en = "en\<lparr>en_results := rest\<rparr>"
  have 1: "engine_run e en ?en" by (rule engine_run_one [OF read_result [OF Cons]])
  have "en_writer ?en = Sending k r" using w by simp
  moreover have "int (length (en_results ?en)) < ec_max_events (en_cfg ?en)"
    using ok Cons by (simp add: engine_ok_def)
  ultimately have 2: "engine_run e en (?en\<lparr>en_results := en_results ?en @ [(k, r)],
      en_reported := en_reported ?en @ [(k, r)], en_writer := Selecting\<rparr>)"
    by (rule run_step [OF 1 send_result])
  then show ?thesis
    by (intro exI [of _ "?en\<lparr>en_results := en_results ?en @ [(k, r)],
      en_reported := en_reported ?en @ [(k, r)], en_writer := Selecting\<rparr>"]) (simp add: quiet_after_def)
qed

lemma hand_possible:
  assumes ok: "engine_ok e en" and nf: "en_writer en \<noteq> Finished"
  shows "\<exists>en'. engine_run e en en' \<and> en_writer en' = Selecting \<and> quiet_after en en' \<and>
    en_stage en' = en_stage en"
proof (cases "en_writer en")
  case Selecting
  then show ?thesis using run_refl by (auto simp: quiet_after_def)
next
  case (Enqueued x r)
  obtain d n where x: "x = (d, n)" by fastforce
  let ?en = "en\<lparr>en_stage_bytes := en_stage_bytes en - n, en_writer := Sending (dl_id d) r\<rparr>"
  have s: "engine_step e en ?en" using Enqueued x by (intro give_back) simp
  have "engine_ok e ?en" by (rule engine_step_ok [OF s ok])
  from send_possible [OF this, of "dl_id d" r] obtain en' where
    "engine_run e ?en en'" "en_writer en' = Selecting" "quiet_after ?en en'" "en_stage en' = en_stage ?en" by auto
  then show ?thesis
    using engine_run_trans [OF _ engine_run_one [OF s]] by (auto simp: quiet_after_def)
next
  case (Sending k r)
  then show ?thesis by (rule send_possible [OF ok])
next
  case Finished
  with nf show ?thesis by simp
qed

lemma drain_possible:
  assumes "engine_ok e en" "en_writer en \<noteq> Finished" "\<not> en_accepting en"
  shows "\<exists>en'. engine_run e en en' \<and> en_writer en' = Finished \<and> quiet_after en en'"
  using assms
proof (induction "length (en_stage en)" arbitrary: en rule: less_induct)
  case less
  obtain en1 where 1: "engine_run e en en1" "en_writer en1 = Selecting" "quiet_after en en1"
    "en_stage en1 = en_stage en" using hand_possible [OF less.prems(1,2)] by blast
  have ok1: "engine_ok e en1" by (rule engine_run_ok [OF 1(1) less.prems(1)])
  have acc1: "\<not> en_accepting en1" using 1(3) less.prems(3) by (simp add: quiet_after_def)
  show ?case
  proof (cases "en_stage en1")
    case Nil
    have "engine_run e en (en1\<lparr>en_writer := Finished\<rparr>)"
      by (rule run_step [OF 1(1) finish [OF 1(2) acc1 Nil]])
    then show ?thesis using 1(3) by (auto simp: quiet_after_def)
  next
    case (Cons x rest)
    obtain d n where x: "x = (d, n)" by fastforce
    obtain r s' where r: "enqueue e undefined d (en_store en1) = (r, s')" by fastforce
    let ?en = "en1\<lparr>en_stage := rest, en_store := s', en_writer := Enqueued (d, n) r\<rparr>"
    have s: "engine_step e en1 ?en" using take_staged [OF 1(2) _ r] Cons x by blast
    have "engine_ok e ?en" by (rule engine_step_ok [OF s ok1])
    moreover have "length (en_stage ?en) < length (en_stage en)" using Cons 1(4) by simp
    ultimately obtain en' where "engine_run e ?en en'" "en_writer en' = Finished" "quiet_after ?en en'"
      using less.hyps [of ?en] acc1 by auto
    then show ?thesis
      using engine_run_trans [OF _ run_step [OF 1(1) s]] 1(3) by (auto simp: quiet_after_def)
  qed
qed

section \<open>Properties\<close>

text \<open>
  C11. In every interleaving of producers, the writer and readers, the stage and the result channel
  stay within their bounds, the byte account is exactly the staged bytes and those in hand, and the
  accepted deliveries are, in order, those reported, the one in hand and those still staged: each is
  reported exactly once, in the order of acceptance, and all of them by the time the writer is done.
\<close>
theorem engine_accounts:
  assumes "engine_run e (new_engine cfg s) en"
  shows "int (length (en_stage en)) \<le> ec_max_events (engine_defaults cfg) \<and>
    int (length (en_results en)) \<le> ec_max_events (engine_defaults cfg) \<and>
    en_stage_bytes en = sum_list (map snd (en_stage en)) + held_bytes (en_writer en) \<and>
    en_stage_bytes en \<le> ec_max_bytes (engine_defaults cfg) \<and>
    map dl_id (en_staged en)
      = map fst (en_reported en) @ in_hand (en_writer en) @ map (dl_id \<circ> fst) (en_stage en) \<and>
    (en_writer en = Finished \<longrightarrow> map fst (en_reported en) = map dl_id (en_staged en) \<and> en_stage_bytes en = 0)"
proof -
  have "en_cfg en = engine_defaults cfg"
    using engine_run_cfg [OF assms] by (simp add: new_engine_def)
  with engine_run_ok [OF assms new_engine_ok] show ?thesis by (auto simp: engine_ok_def)
qed

theorem engine_accounts_witness:
  "map dl_id (en_staged (snd (try_stage log_env (demo_delivery ''x'' 5) (new_engine
     \<lparr>ec_max_events = 1, ec_max_bytes = 200\<rparr> (demo_store demo_db0))))) = [''x''] \<and>
   fst (try_stage log_env (demo_delivery ''y'' 5) (snd (try_stage log_env (demo_delivery ''x'' 5) (new_engine
     \<lparr>ec_max_events = 1, ec_max_bytes = 200\<rparr> (demo_store demo_db0))))) = Inl StageFull"
proof -
  let ?new = "new_engine \<lparr>ec_max_events = 1, ec_max_bytes = 200\<rparr> (demo_store demo_db0)"
  let ?en = "?new\<lparr>en_stage := [(demo_delivery ''x'' 5, 102)], en_stage_bytes := 102,
     en_staged := [demo_delivery ''x'' 5]\<rparr>"
  have t: "try_stage log_env (demo_delivery ''x'' 5) ?new = (Inr (), ?en)"
    by (simp add: try_stage_def new_engine_def engine_defaults_def log_env_def demo_delivery_def)
  from engine_accounts [OF engine_run_one [OF stage [OF t]]]
  have "map dl_id (en_staged ?en) = map fst (en_reported ?en) @ in_hand (en_writer ?en) @ map (dl_id \<circ> fst) (en_stage ?en)"
    by blast
  then have "map dl_id (en_staged ?en) = [''x'']" by (simp add: new_engine_def demo_delivery_def)
  moreover have "fst (try_stage log_env (demo_delivery ''y'' 5) ?en) = Inl StageFull"
    by (simp add: try_stage_def new_engine_def engine_defaults_def log_env_def demo_delivery_def)
  ultimately show ?thesis by (simp only: t fst_conv snd_conv)
qed

text \<open>
  \<open>Close\<close> does not strand staged work: from every state an engine can reach, once it is closed
  and as long as somebody reads the results, the writer can drain the stage and finish, with every
  accepted delivery reported; afterwards nothing more is accepted.
\<close>
lemma engine_close_drains:
  assumes "engine_run e (new_engine cfg s) en" "en_writer en \<noteq> Finished"
  shows "\<exists>en'. engine_run e (close_engine en) en' \<and> en_writer en' = Finished \<and>
    map fst (en_reported en') = map dl_id (en_staged en) \<and>
    (\<forall>d. fst (try_stage e d en') \<noteq> Inr ())"
proof -
  have run: "engine_run e (new_engine cfg s) (close_engine en)" by (rule run_step [OF assms(1) close])
  have ok: "engine_ok e (close_engine en)" by (rule engine_run_ok [OF run new_engine_ok])
  obtain en' where en': "engine_run e (close_engine en) en'" "en_writer en' = Finished"
    "quiet_after (close_engine en) en'"
    using drain_possible [OF ok] assms(2) by (auto simp: close_engine_def)
  have "engine_ok e en'" by (rule engine_run_ok [OF en'(1) ok])
  then have "map fst (en_reported en') = map dl_id (en_staged en)"
    using en'(2,3) by (simp add: engine_ok_def quiet_after_def close_engine_def)
  moreover have "fst (try_stage e d en') \<noteq> Inr ()" for d
    using en'(3) by (simp add: try_stage_def quiet_after_def close_engine_def Let_def split: option.splits)
  ultimately show ?thesis using en' by blast
qed

theorem engine_close_drains_witness:
  "\<exists>en'. en_writer en' = Finished \<and> engine_run log_env (close_engine (new_engine
     \<lparr>ec_max_events = 1, ec_max_bytes = 200\<rparr> (demo_store demo_db0))) en'"
proof -
  have "en_writer (new_engine \<lparr>ec_max_events = 1, ec_max_bytes = 200\<rparr> (demo_store demo_db0)) \<noteq> Finished"
    by (simp add: new_engine_def)
  from engine_close_drains [OF run_refl this, of log_env] show ?thesis by blast
qed

end
