(* ===== verification/ClockAttestation.thy ===== *)
theory ClockAttestation
  imports GoPrelude
begin

text \<open>
  Clock attestations (\<open>internal/clockattestation/clock.go\<close>): signed statements of the cloud about its
  time, which the receiver keeps (at most two) and attaches to events as evidence that its own clock is
  synchronized. \<open>Parse\<close> checks a token, \<open>Add\<close> keeps the two newest samples of distinct nonces and
  \<open>Envelope\<close> decides whether they attest an observation.

  JSON decoding, the canonical form (JCS) and the textual form of times are parameters (the
  record \<open>clock_env\<close>); base64 is modelled as \<open>encoding/base64\<close> decodes it.
\<close>

section \<open>Base64\<close>

definition b64url_value :: "char \<Rightarrow> nat option" where
  "b64url_value c = (let n = of_char c :: nat in
     if 65 \<le> n \<and> n \<le> 90 then Some (n - 65)
     else if 97 \<le> n \<and> n \<le> 122 then Some (n - 71)
     else if 48 \<le> n \<and> n \<le> 57 then Some (n + 4)
     else if n = 45 then Some 62
     else if n = 95 then Some 63
     else None)"

fun b64_bytes :: "nat list \<Rightarrow> nat list option" where
  "b64_bytes [] = Some []"
| "b64_bytes [a] = None"
| "b64_bytes [a, b] = Some [a * 4 + b div 16]"
| "b64_bytes [a, b, c] = Some [a * 4 + b div 16, (b mod 16) * 16 + c div 4]"
| "b64_bytes (a # b # c # d # rest) = (case b64_bytes rest of
     None \<Rightarrow> None
   | Some bs \<Rightarrow> Some ([a * 4 + b div 16, (b mod 16) * 16 + c div 4, (c mod 4) * 64 + d] @ bs))"

text \<open>\<open>RawURLEncoding.DecodeString\<close> skips line breaks, takes no padding and ignores left-over bits.\<close>

definition b64url_decode :: "string \<Rightarrow> string option" where
  "b64url_decode s =
     (let cs = filter (\<lambda>c. of_char c \<noteq> (10 :: nat) \<and> of_char c \<noteq> (13 :: nat)) s
      in case those (map b64url_value cs) of
           None \<Rightarrow> None
         | Some vs \<Rightarrow> map_option (map char_of) (b64_bytes vs))"

lemma b64_bytes_length: "b64_bytes vs = Some bs \<Longrightarrow> length bs = length vs * 6 div 8"
  by (induction vs arbitrary: bs rule: b64_bytes.induct) (auto split: option.splits)

section \<open>Types\<close>

record wire =
  wi_token :: string
  wi_issued :: string
  wi_expires :: string

record claims =
  cm_expires :: time
  cm_installation :: string
  cm_issued :: time
  cm_nonce :: string
  cm_receiver :: string

record candidate =
  ca_token :: string
  ca_received :: time
  ca_claims :: claims

record sample =
  sm_token :: string
  sm_received :: time
  sm_issued :: time
  sm_expires :: time
  sm_nonce :: string
  sm_receiver :: string
  sm_installation :: string

text \<open>The values of a decoded JSON object; a number is the bit pattern of its \<open>float64\<close>.\<close>

datatype json = JNull | JBool bool | JNumber "64 word" | JString string
  | JArray "json list" | JObject "(string \<times> json) list"

definition json_one :: json where
  "json_one = JNumber 0x3FF0000000000000"

text \<open>What the code takes from elsewhere: decoding the first JSON value of some text as an object, the
  canonical text of an object, and a time to and from the layout \<open>2006-01-02T15:04:05.000Z\<close> and to
  RFC 3339 with nanoseconds.\<close>

record clock_env =
  ce_decode :: "string \<Rightarrow> (string \<times> json) list option"
  ce_canonical :: "(string \<times> json) list \<Rightarrow> string option"
  ce_parse :: "string \<Rightarrow> time option"
  ce_format :: "time \<Rightarrow> string"
  ce_rfc3339 :: "time \<Rightarrow> string"

datatype clock_error = Untrusted | TokenGrammar | PayloadEncoding | MacEncoding | ClaimsInvalid
  | NotCanonical | VersionInvalid | TimeInvalid string | ExpiryInvalid | ReceiverInvalid
  | InstallationInvalid | NonceInvalid | IssuedMismatch | ExpiresMismatch | Stale | BindingMismatch

definition max_receipt_skew :: duration where "max_receipt_skew = 5 * second"
definition max_offset_delta :: duration where "max_offset_delta = 2 * second"
definition max_sample_age :: duration where "max_sample_age = 15 * minute"

lemmas clock_consts = max_receipt_skew_def max_offset_delta_def max_sample_age_def duration_defs

section \<open>Parsing a token\<close>

definition exact_string :: "(string \<times> json) list \<Rightarrow> string \<Rightarrow> string option" where
  "exact_string object key = (case map_of object key of Some (JString s) \<Rightarrow> Some s | _ \<Rightarrow> None)"

definition exact_time ::
  "clock_env \<Rightarrow> (string \<times> json) list \<Rightarrow> string \<Rightarrow> clock_error + time" where
  "exact_time ce object key = (case exact_string object key of
     None \<Rightarrow> Inl (TimeInvalid key)
   | Some v \<Rightarrow> (case ce_parse ce v of
       None \<Rightarrow> Inl (TimeInvalid key)
     | Some t \<Rightarrow> if v \<noteq> ce_format ce t then Inl (TimeInvalid key) else Inr t))"

definition abs_duration :: "duration \<Rightarrow> duration" where
  "abs_duration d = (if d < 0 then wrap64 (- d) else d)"

definition exact_id :: "(string \<times> json) list \<Rightarrow> string \<Rightarrow> clock_error \<Rightarrow> clock_error + string" where
  "exact_id object key err = (case exact_string object key of
     None \<Rightarrow> Inl err
   | Some s \<Rightarrow> if trim_space s \<noteq> s \<or> s = [] then Inl err else Inr s)"

definition parse_nonce :: "(string \<times> json) list \<Rightarrow> clock_error + string" where
  "parse_nonce object = (case exact_string object ''nonce'' of
     None \<Rightarrow> Inl NonceInvalid
   | Some nonce \<Rightarrow> (case b64url_decode nonce of
       None \<Rightarrow> Inl NonceInvalid
     | Some bs \<Rightarrow> if length nonce \<noteq> 22 \<or> length bs \<noteq> 16 \<or> CHR ''='' \<in> set nonce
                  then Inl NonceInvalid else Inr nonce))"

definition token_payload :: "string \<Rightarrow> clock_error + string" where
  "token_payload token = (case split_on CHR ''.'' token of
     [v, p, m] \<Rightarrow>
       if v \<noteq> ''v1'' \<or> CHR ''='' \<in> set p \<or> CHR ''='' \<in> set m then Inl TokenGrammar
       else (case b64url_decode p of
           None \<Rightarrow> Inl PayloadEncoding
         | Some payload \<Rightarrow> (case b64url_decode m of
             None \<Rightarrow> Inl MacEncoding
           | Some mac \<Rightarrow> if length mac \<noteq> 32 then Inl MacEncoding else Inr payload))
   | _ \<Rightarrow> Inl TokenGrammar)"

definition parse_object :: "clock_env \<Rightarrow> string \<Rightarrow> clock_error + (string \<times> json) list" where
  "parse_object ce payload = (case ce_decode ce payload of
     None \<Rightarrow> Inl ClaimsInvalid
   | Some object \<Rightarrow>
       if length object \<noteq> 6 then Inl ClaimsInvalid
       else if ce_canonical ce object \<noteq> Some payload then Inl NotCanonical
       else if map_of object ''v'' \<noteq> Some json_one then Inl VersionInvalid
       else Inr object)"

definition parse_expiry ::
  "clock_env \<Rightarrow> (string \<times> json) list \<Rightarrow> time \<Rightarrow> clock_error + time" where
  "parse_expiry ce object issued = (case exact_time ce object ''expiresAt'' of
     Inl _ \<Rightarrow> Inl ExpiryInvalid
   | Inr t \<Rightarrow> if time_sub t issued \<noteq> max_sample_age then Inl ExpiryInvalid else Inr t)"

definition wire_time :: "clock_env \<Rightarrow> string \<Rightarrow> time \<Rightarrow> clock_error \<Rightarrow> clock_error + unit" where
  "wire_time ce text t err = ensure (ce_parse ce text \<noteq> None \<and> text = ce_format ce t) err"

definition parse_attestation ::
  "clock_env \<Rightarrow> wire \<Rightarrow> time \<Rightarrow> bool \<Rightarrow> clock_error + candidate" where
  "parse_attestation ce w received trusted =
     (if \<not> trusted then Inl Untrusted
      else res_bind (token_payload (wi_token w)) (\<lambda>payload.
        res_bind (parse_object ce payload) (\<lambda>object.
        res_bind (exact_time ce object ''issuedAt'') (\<lambda>issued.
        res_bind (parse_expiry ce object issued) (\<lambda>expires.
        res_bind (exact_id object ''receiverAgentId'' ReceiverInvalid) (\<lambda>receiver.
        res_bind (exact_id object ''installationId'' InstallationInvalid) (\<lambda>installation.
        res_bind (parse_nonce object) (\<lambda>nonce.
        res_bind (wire_time ce (wi_issued w) issued IssuedMismatch) (\<lambda>_.
        res_bind (wire_time ce (wi_expires w) expires ExpiresMismatch) (\<lambda>_.
        if is_zero received \<or> received > expires
           \<or> abs_duration (time_sub received issued) > max_receipt_skew then Inl Stale
        else Inr \<lparr>ca_token = wi_token w, ca_received = received, ca_claims =
          \<lparr>cm_expires = expires, cm_installation = installation, cm_issued = issued,
           cm_nonce = nonce, cm_receiver = receiver\<rparr>\<rparr>))))))))))"

section \<open>Samples\<close>

definition bound_sample :: "candidate \<Rightarrow> string \<Rightarrow> string \<Rightarrow> clock_error + sample" where
  "bound_sample c receiver installation =
     (let m = ca_claims c
      in if cm_receiver m \<noteq> trim_space receiver \<or> cm_installation m \<noteq> trim_space installation
         then Inl BindingMismatch
         else Inr \<lparr>sm_token = ca_token c, sm_received = ca_received c, sm_issued = cm_issued m,
                   sm_expires = cm_expires m, sm_nonce = cm_nonce m, sm_receiver = cm_receiver m,
                   sm_installation = cm_installation m\<rparr>)"

definition add_sample :: "sample list \<Rightarrow> sample \<Rightarrow> sample list" where
  "add_sample samples s =
     (let result = filter (\<lambda>x. sm_nonce x \<noteq> sm_nonce s) samples @ [s]
      in if length result > 2 then drop (length result - 2) result else result)"

record clock_evidence =
  ev_source :: string
  ev_state :: string
  ev_samples :: "(string \<times> string) list"

definition clock_envelope ::
  "clock_env \<Rightarrow> sample list \<Rightarrow> time \<Rightarrow> string \<Rightarrow> string \<Rightarrow> clock_evidence option" where
  "clock_envelope ce samples observed receiver installation = (case samples of
     [x, y] \<Rightarrow>
       (let a = (if sm_received y < sm_received x then y else x);
            b = (if sm_received y < sm_received x then x else y)
        in if sm_nonce a = sm_nonce b \<or> sm_receiver a \<noteq> receiver \<or> sm_receiver b \<noteq> receiver
              \<or> sm_installation a \<noteq> installation \<or> sm_installation b \<noteq> installation
              \<or> observed < sm_received b \<or> time_sub observed (sm_received b) > max_sample_age
              \<or> observed > sm_expires a \<or> observed > sm_expires b
              \<or> abs_duration (time_sub (sm_received a) (sm_issued a)) > max_receipt_skew
              \<or> abs_duration (time_sub (sm_received b) (sm_issued b)) > max_receipt_skew
              \<or> abs_duration (wrap64 (time_sub (sm_received a) (sm_issued a)
                                     - time_sub (sm_received b) (sm_issued b))) > max_offset_delta
           then None
           else Some \<lparr>ev_source = ''cloud_attestation'', ev_state = ''synchronized'',
             ev_samples = [(sm_token a, ce_rfc3339 ce (sm_received a)),
                           (sm_token b, ce_rfc3339 ce (sm_received b))]\<rparr>)
   | _ \<Rightarrow> None)"

section \<open>The samples kept\<close>

definition last_two :: "'a list \<Rightarrow> 'a list" where
  "last_two xs = drop (length xs - 2) xs"

lemma last_two_map: "map f (last_two xs) = last_two (map f xs)"
  by (simp add: last_two_def drop_map)

lemma last_two_short: "length xs \<le> 2 \<Longrightarrow> last_two xs = xs"
  by (simp add: last_two_def)

lemma last_two_app: "last_two (xs @ [x, y]) = [x, y]"
  by (simp add: last_two_def)

lemma add_sample_last_two:
  "add_sample xs s = last_two (filter (\<lambda>x. sm_nonce x \<noteq> sm_nonce s) xs @ [s])"
  by (simp add: add_sample_def last_two_def Let_def)

lemma list_end_cases: "length xs \<le> 2 \<or> (\<exists>ys a b. xs = ys @ [a, b])"
  by (cases xs rule: rev_cases; cases "butlast xs" rule: rev_cases) auto

text \<open>Forgetting older samples early does not change which two are kept.\<close>

lemma filter_one_off:
  assumes "distinct xs"
  shows "last_two (filter (\<lambda>x. x \<noteq> n) (last_two xs) @ [n]) = last_two (filter (\<lambda>x. x \<noteq> n) xs @ [n])"
  using list_end_cases [of xs]
proof
  assume "length xs \<le> 2"
  then show ?thesis by (simp add: last_two_short)
next
  assume "\<exists>ys a b. xs = ys @ [a, b]"
  then obtain ys a b where xs: "xs = ys @ [a, b]" by blast
  have keep: "last_two (zs @ [u, v, w]) = [v, w]" for zs :: "'a list" and u v w
    using last_two_app [of "zs @ [u]" v w] by simp
  have "last_two [u, v, w] = [v, w]" for u v w :: 'a by (simp add: last_two_def)
  moreover have "last_two (zs @ [u, w]) = [u, w]" for zs :: "'a list" and u w by (rule last_two_app)
  ultimately show ?thesis
    using assms keep by (auto simp: xs last_two_app last_two_short)
qed

lemma remdups_snoc: "remdups (xs @ [n]) = filter (\<lambda>x. x \<noteq> n) (remdups xs) @ [n]"
  by (induction xs) auto

lemma filter_nonces:
  "map sm_nonce (filter (\<lambda>x. sm_nonce x \<noteq> n) xs) = filter (\<lambda>x. x \<noteq> n) (map sm_nonce xs)"
  by (induction xs) auto

lemma samples_nonces:
  "map sm_nonce (foldl add_sample [] ss) = last_two (remdups (map sm_nonce ss))"
proof (induction ss rule: rev_induct)
  case (snoc s ss)
  then show ?case
    using filter_one_off [of "remdups (map sm_nonce ss)" "sm_nonce s"]
    by (simp add: add_sample_last_two last_two_map filter_nonces remdups_snoc)
qed (simp add: last_two_def)

lemma set_last_two: "set (last_two xs) \<subseteq> set xs"
  by (simp add: last_two_def set_drop_subset)

lemma samples_set: "set (foldl add_sample [] ss) \<subseteq> set ss"
proof (induction ss rule: rev_induct)
  case (snoc s ss)
  have "set (add_sample xs s) \<subseteq> insert s (set xs)" for xs
    using set_last_two [of "filter (\<lambda>x. sm_nonce x \<noteq> sm_nonce s) xs @ [s]"]
    by (auto simp: add_sample_last_two)
  with snoc show ?case by fastforce
qed simp

lemma last_last_two: "xs \<noteq> [] \<Longrightarrow> last (last_two xs) = last xs"
  by (simp add: last_two_def)

text \<open>
  The receiver keeps the two newest attestations of distinct nonces: after any sequence of additions
  the nonces kept are the last two distinct ones in the order of their latest addition, every sample
  kept was added, and the newest is the last one added.
\<close>
lemma clock_keeps_newest_two:
  "map sm_nonce (foldl add_sample [] ss) = last_two (remdups (map sm_nonce ss)) \<and>
   set (foldl add_sample [] ss) \<subseteq> set ss \<and> length (foldl add_sample [] ss) \<le> 2 \<and>
   last (foldl add_sample [] (ss @ [s])) = s"
proof -
  have "length (map sm_nonce (foldl add_sample [] ss)) \<le> 2"
    unfolding samples_nonces by (simp add: last_two_def)
  then have "length (foldl add_sample [] ss) \<le> 2" by simp
  moreover have "last (foldl add_sample [] (ss @ [s])) = s"
    by (simp add: add_sample_last_two last_last_two)
  ultimately show ?thesis using samples_nonces samples_set by simp
qed

section \<open>What a parsed token guarantees\<close>

lemma exact_id_Inr: "exact_id object key err = Inr s \<longleftrightarrow>
    exact_string object key = Some s \<and> trim_space s = s \<and> s \<noteq> []"
  by (auto simp: exact_id_def split: option.splits)

lemma exact_time_Inr: "exact_time ce object key = Inr t \<longleftrightarrow>
    (\<exists>v. exact_string object key = Some v \<and> ce_parse ce v = Some t \<and> ce_format ce t = v)"
  by (cases "exact_string object key"; cases "ce_parse ce (the (exact_string object key))")
    (simp_all add: exact_time_def, metis)

lemma time_sub_eq: "time_sub t u = d \<Longrightarrow> - (2 ^ 63) < d \<Longrightarrow> d < 2 ^ 63 - 1 \<Longrightarrow> t = u + d"
  by (simp add: time_sub_def max_def min_def split: if_splits)

lemma parse_expiry_Inr: "parse_expiry ce object issued = Inr t \<Longrightarrow>
    exact_time ce object ''expiresAt'' = Inr t \<and> t = issued + max_sample_age"
  using time_sub_eq [of t issued max_sample_age]
  by (simp add: parse_expiry_def clock_consts split: sum.splits if_splits)

lemma parse_object_Inr: "parse_object ce payload = Inr object \<longleftrightarrow>
    ce_decode ce payload = Some object \<and> length object = 6 \<and> ce_canonical ce object = Some payload \<and>
    map_of object ''v'' = Some json_one"
  by (auto simp: parse_object_def split: option.splits if_splits)

lemma token_payload_Inr:
  assumes "token_payload token = Inr payload"
  shows "\<exists>p m mac. token = ''v1.'' @ p @ ''.'' @ m \<and> b64url_decode p = Some payload \<and>
    b64url_decode m = Some mac \<and> length mac = 32"
proof -
  obtain v p m where s: "split_on CHR ''.'' token = [v, p, m]"
    using assms by (auto simp: token_payload_def split: list.splits)
  have "token = join_with CHR ''.'' [v, p, m]" unfolding s [symmetric] by simp
  then show ?thesis
    using assms s by (auto simp: token_payload_def join_with_def split: option.splits if_splits)
qed

lemma skew_sound:
  assumes "abs_duration (time_sub t u) \<le> d" "0 \<le> d" "d < 2 ^ 63 - 1" "\<bar>t - u\<bar> < 2 ^ 63"
  shows "\<bar>t - u\<bar> \<le> d"
  using assms by (auto simp: abs_duration_def time_sub_exact wrap64_def split: if_splits)

lemma parse_nonce_Inr: "parse_nonce object = Inr n \<Longrightarrow>
    exact_string object ''nonce'' = Some n \<and> length n = 22 \<and> (\<exists>bs. b64url_decode n = Some bs \<and> length bs = 16)"
  by (auto simp: parse_nonce_def split: option.splits if_splits)

text \<open>
  C12. An accepted attestation is what the cloud signed: the token came over the trusted transport and
  consists of the version, a canonical JSON payload and a MAC of 32 bytes; the claims are exactly those
  of the payload and agree with the times beside the token; the identifiers are trimmed and not empty,
  the nonce is 16 bytes; it lives for 15 minutes from its issue, has not expired at receipt, and was
  received within 5 seconds of its issue (when the two times are less than 292 years apart).
\<close>
theorem clock_parse_sound:
  assumes "parse_attestation ce w received trusted = Inr c"
  shows "trusted \<and> ca_token c = wi_token w \<and> ca_received c = received \<and>
    (\<exists>p m payload object mac. wi_token w = ''v1.'' @ p @ ''.'' @ m \<and>
       b64url_decode p = Some payload \<and> b64url_decode m = Some mac \<and> length mac = 32 \<and>
       ce_decode ce payload = Some object \<and> ce_canonical ce object = Some payload \<and>
       exact_string object ''receiverAgentId'' = Some (cm_receiver (ca_claims c)) \<and>
       exact_string object ''installationId'' = Some (cm_installation (ca_claims c)) \<and>
       exact_string object ''nonce'' = Some (cm_nonce (ca_claims c)) \<and>
       exact_string object ''issuedAt'' = Some (wi_issued w) \<and>
       exact_string object ''expiresAt'' = Some (wi_expires w) \<and>
       ce_parse ce (wi_issued w) = Some (cm_issued (ca_claims c)) \<and>
       ce_parse ce (wi_expires w) = Some (cm_expires (ca_claims c))) \<and>
    trim_space (cm_receiver (ca_claims c)) = cm_receiver (ca_claims c) \<and> cm_receiver (ca_claims c) \<noteq> [] \<and>
    trim_space (cm_installation (ca_claims c)) = cm_installation (ca_claims c) \<and>
    cm_installation (ca_claims c) \<noteq> [] \<and> length (cm_nonce (ca_claims c)) = 22 \<and>
    cm_expires (ca_claims c) = cm_issued (ca_claims c) + 15 * minute \<and> received \<le> cm_expires (ca_claims c) \<and>
    (\<bar>received - cm_issued (ca_claims c)\<bar> < 2 ^ 63 \<longrightarrow> \<bar>received - cm_issued (ca_claims c)\<bar> \<le> 5 * second)"
proof -
  have trusted: trusted using assms by (auto simp: parse_attestation_def split: if_splits)
  obtain payload object issued expires receiver installation nonce where
    payload: "token_payload (wi_token w) = Inr payload"
    and object: "parse_object ce payload = Inr object"
    and issued: "exact_time ce object ''issuedAt'' = Inr issued"
    and expires: "parse_expiry ce object issued = Inr expires"
    and receiver: "exact_id object ''receiverAgentId'' ReceiverInvalid = Inr receiver"
    and installation: "exact_id object ''installationId'' InstallationInvalid = Inr installation"
    and nonce: "parse_nonce object = Inr nonce"
    and wire: "wi_issued w = ce_format ce issued" "wi_expires w = ce_format ce expires"
    and receipt: "received \<le> expires" "abs_duration (time_sub received issued) \<le> max_receipt_skew"
    and c: "c = \<lparr>ca_token = wi_token w, ca_received = received, ca_claims =
          \<lparr>cm_expires = expires, cm_installation = installation, cm_issued = issued,
           cm_nonce = nonce, cm_receiver = receiver\<rparr>\<rparr>"
    using assms trusted by (auto simp: parse_attestation_def res_simps wire_time_def split: if_splits)
  obtain p m mac where tok: "wi_token w = ''v1.'' @ p @ ''.'' @ m" "b64url_decode p = Some payload"
    "b64url_decode m = Some mac" "length mac = 32" using token_payload_Inr [OF payload] by blast
  note facts = parse_object_Inr [THEN iffD1, OF object] exact_time_Inr [THEN iffD1, OF issued]
    parse_expiry_Inr [OF expires] exact_id_Inr [THEN iffD1, OF receiver]
    exact_id_Inr [THEN iffD1, OF installation] parse_nonce_Inr [OF nonce]
  have "\<bar>received - issued\<bar> \<le> 5 * second" if "\<bar>received - issued\<bar> < 2 ^ 63"
    using skew_sound [OF receipt(2) _ _ that] by (simp add: clock_consts)
  moreover have "exact_string object ''issuedAt'' = Some (wi_issued w) \<and>
      exact_string object ''expiresAt'' = Some (wi_expires w) \<and>
      ce_parse ce (wi_issued w) = Some issued \<and> ce_parse ce (wi_expires w) = Some expires"
    using facts wire by (auto simp: exact_time_Inr)
  moreover have "ce_decode ce payload = Some object" "ce_canonical ce object = Some payload"
    "exact_string object ''receiverAgentId'' = Some receiver"
    "exact_string object ''installationId'' = Some installation"
    "exact_string object ''nonce'' = Some nonce" "trim_space receiver = receiver" "receiver \<noteq> []"
    "trim_space installation = installation" "installation \<noteq> []" "length nonce = 22"
    "expires = issued + 15 * minute"
    using facts by (simp_all add: max_sample_age_def)
  ultimately show ?thesis
    unfolding c using trusted tok receipt(1) by simp blast
qed

section \<open>What an envelope attests\<close>

definition time_sane :: "time \<Rightarrow> bool" where
  "time_sane t \<longleftrightarrow> \<bar>t\<bar> < 2 ^ 62"

definition sample_sane :: "sample \<Rightarrow> bool" where
  "sample_sane s \<longleftrightarrow> time_sane (sm_received s) \<and> time_sane (sm_issued s)"

lemma time_sub_sane: "time_sane t \<Longrightarrow> time_sane u \<Longrightarrow> time_sub t u = t - u"
  by (simp add: time_sane_def time_sub_exact abs_less_iff)

lemma abs_duration_exact: "- (2 ^ 63) < d \<Longrightarrow> d < 2 ^ 63 \<Longrightarrow> abs_duration d = \<bar>d\<bar>"
  by (simp add: abs_duration_def wrap64_id)

text \<open>The evidence two samples give, the older first, in exact arithmetic.\<close>

definition attests :: "sample \<Rightarrow> sample \<Rightarrow> time \<Rightarrow> string \<Rightarrow> string \<Rightarrow> bool" where
  "attests a b t receiver installation \<longleftrightarrow>
     sm_nonce a \<noteq> sm_nonce b \<and> sm_received b \<le> t \<and> t - sm_received b \<le> 15 * minute \<and>
     (\<forall>s \<in> {a, b}. sm_receiver s = receiver \<and> sm_installation s = installation \<and> t \<le> sm_expires s \<and>
        \<bar>sm_received s - sm_issued s\<bar> \<le> 5 * second) \<and>
     \<bar>(sm_received a - sm_issued a) - (sm_received b - sm_issued b)\<bar> \<le> 2 * second"

lemma envelope_pair:
  assumes "sample_sane x" "sample_sane y" "time_sane t"
    and "a = (if sm_received y < sm_received x then y else x)"
    and "b = (if sm_received y < sm_received x then x else y)"
  shows "clock_envelope ce [x, y] t receiver installation =
    (if attests a b t receiver installation
     then Some \<lparr>ev_source = ''cloud_attestation'', ev_state = ''synchronized'',
        ev_samples = [(sm_token a, ce_rfc3339 ce (sm_received a)), (sm_token b, ce_rfc3339 ce (sm_received b))]\<rparr>
     else None)"
proof -
  have sane: "time_sane (sm_received s)" "time_sane (sm_issued s)" if "s = a \<or> s = b" for s
    using assms that by (auto simp: sample_sane_def)
  have skew: "abs_duration (sm_received s - sm_issued s) = \<bar>sm_received s - sm_issued s\<bar>"
    "time_sub (sm_received s) (sm_issued s) = sm_received s - sm_issued s" if "s = a \<or> s = b" for s
    using sane [OF that] by (simp_all add: time_sub_sane abs_duration_exact time_sane_def)
  have age: "time_sub t (sm_received b) = t - sm_received b"
    using sane assms(3) by (simp add: time_sub_sane)
  have delta: "abs_duration (wrap64 ((sm_received a - sm_issued a) - (sm_received b - sm_issued b)))
      = \<bar>(sm_received a - sm_issued a) - (sm_received b - sm_issued b)\<bar>"
    if "\<bar>sm_received a - sm_issued a\<bar> \<le> max_receipt_skew" "\<bar>sm_received b - sm_issued b\<bar> \<le> max_receipt_skew"
    using that by (subst wrap64_id) (simp_all add: clock_consts abs_duration_exact)
  show ?thesis
    unfolding clock_envelope_def attests_def
    by (simp add: assms(4,5) [symmetric] Let_def skew age cong: conj_cong)
      (use delta in \<open>auto simp: clock_consts not_less\<close>)
qed

text \<open>
  C13. Clock evidence is attached to an event exactly when two samples of distinct nonces, both bound to
  this receiver and installation, attest it: the observation is no earlier than the newer receipt and at
  most 15 minutes after it, neither has expired, each was received within 5 seconds of its issue and
  the two clock offsets differ by at most 2 seconds; the evidence then lists them in order of receipt.
  (All times between 1823 and 2116.)
\<close>
theorem clock_envelope_exact:
  assumes "\<forall>s \<in> set samples. sample_sane s" "time_sane t"
  shows "clock_envelope ce samples t receiver installation = Some ev \<longleftrightarrow>
    (\<exists>a b. attests a b t receiver installation \<and>
       (samples = [a, b] \<and> sm_received a \<le> sm_received b \<or> samples = [b, a] \<and> sm_received a < sm_received b) \<and>
       ev = \<lparr>ev_source = ''cloud_attestation'', ev_state = ''synchronized'',
        ev_samples = [(sm_token a, ce_rfc3339 ce (sm_received a)), (sm_token b, ce_rfc3339 ce (sm_received b))]\<rparr>)"
proof (cases "\<exists>x y. samples = [x, y]")
  case False
  then have "clock_envelope ce samples t receiver installation = None"
    by (auto simp: clock_envelope_def split: list.splits)
  then show ?thesis using False by auto
next
  case True
  then obtain x y where xy: "samples = [x, y]" by blast
  show ?thesis
  proof (cases "sm_received y < sm_received x")
    case True
    with envelope_pair [OF _ _ assms(2) refl refl, of x y ce receiver installation] assms(1)
    show ?thesis by (auto simp: xy)
  next
    case False
    with envelope_pair [OF _ _ assms(2) refl refl, of x y ce receiver installation] assms(1)
    show ?thesis by (auto simp: xy not_less)
  qed
qed

section \<open>Concrete attestations\<close>

definition demo_clock :: clock_env where
  "demo_clock = \<lparr>
     ce_decode = (\<lambda>p. if p = ''p'' then Some
       [(''expiresAt'', JString ''e''), (''installationId'', JString ''i''), (''issuedAt'', JString ''s''),
        (''nonce'', JString ''AAAAAAAAAAAAAAAAAAAAAA''), (''receiverAgentId'', JString ''r''), (''v'', json_one)]
       else None),
     ce_canonical = (\<lambda>_. Some ''p''),
     ce_parse = (\<lambda>t. if t = ''s'' then Some 1000 else if t = ''e'' then Some (1000 + 15 * minute) else None),
     ce_format = (\<lambda>t. if t = 1000 then ''s'' else ''e''),
     ce_rfc3339 = itoa\<rparr>"

definition demo_token :: string where
  "demo_token = ''v1.cA.AAAAAAAAAAAAAAAAAAAAAAAAAAAAAAAAAAAAAAAAAAA''"

definition demo_wire :: wire where
  "demo_wire = \<lparr>wi_token = demo_token, wi_issued = ''s'', wi_expires = ''e''\<rparr>"

definition demo_candidate :: candidate where
  "demo_candidate = \<lparr>ca_token = demo_token, ca_received = 2000, ca_claims = \<lparr>cm_expires = 1000 + 15 * minute,
     cm_installation = ''i'', cm_issued = 1000, cm_nonce = ''AAAAAAAAAAAAAAAAAAAAAA'', cm_receiver = ''r''\<rparr>\<rparr>"

lemma demo_payload: "token_payload demo_token = Inr ''p''"
  by code_simp

lemma demo_nonce: "b64url_decode ''AAAAAAAAAAAAAAAAAAAAAA'' = Some (replicate 16 (char_of (0 :: nat)))"
  by code_simp

lemma demo_parse: "parse_attestation demo_clock demo_wire 2000 True = Inr demo_candidate"
  by (simp add: parse_attestation_def demo_payload demo_wire_def demo_clock_def parse_object_def
      exact_time_def exact_string_def parse_expiry_def exact_id_def parse_nonce_def demo_nonce wire_time_def
      time_sub_def clock_consts trim_space_visible is_zero_def zero_time_def abs_duration_def demo_candidate_def)

theorem clock_parse_sound_witness:
  "length (cm_nonce (ca_claims demo_candidate)) = 22 \<and>
   cm_expires (ca_claims demo_candidate) = cm_issued (ca_claims demo_candidate) + 15 * minute"
  using clock_parse_sound [OF demo_parse] by blast

definition demo_sample :: "string \<Rightarrow> time \<Rightarrow> sample" where
  "demo_sample n t = \<lparr>sm_token = n, sm_received = t + 1000, sm_issued = t, sm_expires = t + 15 * minute,
     sm_nonce = n, sm_receiver = ''r'', sm_installation = ''i''\<rparr>"

theorem clock_envelope_exact_witness:
  "clock_envelope demo_clock [demo_sample ''y'' 9000, demo_sample ''x'' 5000] 20000 ''r'' ''i'' =
     Some \<lparr>ev_source = ''cloud_attestation'', ev_state = ''synchronized'',
        ev_samples = [(''x'', itoa 6000), (''y'', itoa 10000)]\<rparr>"
proof -
  have sane: "\<forall>s \<in> set [demo_sample ''y'' 9000, demo_sample ''x'' 5000]. sample_sane s" "time_sane 20000"
    by (simp_all add: demo_sample_def sample_sane_def time_sane_def)
  have "attests (demo_sample ''x'' 5000) (demo_sample ''y'' 9000) 20000 ''r'' ''i''"
    by (simp add: attests_def demo_sample_def duration_defs)
  then show ?thesis
    unfolding clock_envelope_exact [OF sane]
    by (intro exI [of _ "demo_sample ''x'' 5000"] exI [of _ "demo_sample ''y'' 9000"])
      (simp add: demo_sample_def demo_clock_def)
qed

end
