(* ===== verification/StateTypes.thy ===== *)
theory StateTypes
  imports ClockAttestation
begin

text \<open>
  The durable state of the receiver (\<open>internal/state/state.go\<close>), a record per struct with its fields in
  the order of the code. A pointer is an option, a pairing phase is the string it is (the file may hold
  any), the generations are 64 bits wide, and the distance of the home session is the bit pattern of a
  \<open>float64\<close>, which no code below computes with.
\<close>

record installation =
  il_id :: string
  il_bound :: bool
  il_local_name :: string
  il_hostname :: string
  il_created_at :: time
  il_last_started_at :: time

record pairing =
  pg_phase :: string
  pg_pairing_code :: string
  pg_install_session_id :: string
  pg_flow_key :: string
  pg_activation_token :: string
  pg_activation_expires :: "time option"
  pg_retry_count :: int
  pg_next_retry_at :: "time option"
  pg_last_attempt_at :: "time option"
  pg_last_error :: string
  pg_updated_at :: time
  pg_last_change :: string

record cloud =
  cs_endpoint_url :: string
  cs_config_version :: string
  cs_activate_endpoint :: string
  cs_heartbeat_endpoint :: string
  cs_ingest_endpoint :: string
  cs_owner_id :: string
  cs_receiver_id :: string
  cs_receiver_label :: string
  cs_site_label :: string
  cs_group_label :: string
  cs_ingest_api_key_id :: string
  cs_ingest_api_key :: string
  cs_credential_ref :: string
  cs_credential_fingerprint :: string
  cs_credential_generation :: "64 word"
  cs_binding_generation :: "64 word"
  cs_clock_samples :: "sample list"
  cs_updated_at :: time

record runtime =
  rt_profile :: string
  rt_mode :: string
  rt_install_type :: string

record update_state =
  us_status :: string
  us_summary :: string
  us_hint :: string
  us_manifest_version :: string
  us_manifest_channel :: string
  us_recommended_version :: string
  us_last_checked_at :: "time option"
  us_last_error :: string
  us_updated_at :: time

record home_auto =
  ha_module_state :: string
  ha_control_state :: string
  ha_active_state_source :: string
  ha_reconciliation_state :: string
  ha_effective_config_source :: string
  ha_effective_config_version :: string
  ha_cloud_config_present :: bool
  ha_last_fetched_config_ver :: string
  ha_last_applied_config_ver :: string
  ha_last_config_apply_result :: string
  ha_last_config_apply_error :: string
  ha_desired_config_enabled :: "bool option"
  ha_desired_config_mode :: string
  ha_active_session_id :: string
  ha_active_trigger_node :: string
  ha_pending_action :: string
  ha_pending_trigger_node :: string
  ha_pending_device_uid :: string
  ha_pending_reason :: string
  ha_pending_dedupe_key :: string
  ha_pending_since :: "time option"
  ha_last_decision_reason :: string
  ha_last_start_dedupe_key :: string
  ha_last_stop_dedupe_key :: string
  ha_last_action :: string
  ha_last_action_result :: string
  ha_last_action_at :: "time option"
  ha_last_successful_action :: string
  ha_last_successful_action_at :: "time option"
  ha_last_error :: string
  ha_blocked_reason :: string
  ha_consecutive_failures :: int
  ha_last_decision_at :: "time option"
  ha_last_event_at :: "time option"
  ha_cooldown_until :: "time option"
  ha_decision_cooldown_until :: "time option"
  ha_gps_status :: string
  ha_gps_reason :: string
  ha_gps_node_id :: string
  ha_gps_updated_at :: "time option"
  ha_gps_distance_m :: "64 word option"
  ha_observed_dropped :: int
  ha_updated_at :: time

record metadata =
  md_updated_at :: time

record state_data =
  da_schema_version :: int
  da_installation :: installation
  da_pairing :: pairing
  da_cloud :: cloud
  da_runtime :: runtime
  da_update :: update_state
  da_home_auto_session :: home_auto
  da_metadata :: metadata


text \<open>The zero values, which \<open>json.Unmarshal\<close> starts from.\<close>

definition no_installation :: installation where
  "no_installation = \<lparr>il_id = [], il_bound = False, il_local_name = [], il_hostname = [],
     il_created_at = zero_time, il_last_started_at = zero_time\<rparr>"

definition no_pairing :: pairing where
  "no_pairing = \<lparr>pg_phase = [], pg_pairing_code = [], pg_install_session_id = [], pg_flow_key = [],
     pg_activation_token = [], pg_activation_expires = None, pg_retry_count = 0,
     pg_next_retry_at = None, pg_last_attempt_at = None, pg_last_error = [],
     pg_updated_at = zero_time, pg_last_change = []\<rparr>"

definition no_cloud :: cloud where
  "no_cloud = \<lparr>cs_endpoint_url = [], cs_config_version = [], cs_activate_endpoint = [],
     cs_heartbeat_endpoint = [], cs_ingest_endpoint = [], cs_owner_id = [],
     cs_receiver_id = [], cs_receiver_label = [], cs_site_label = [],
     cs_group_label = [], cs_ingest_api_key_id = [], cs_ingest_api_key = [],
     cs_credential_ref = [], cs_credential_fingerprint = [],
     cs_credential_generation = 0, cs_binding_generation = 0, cs_clock_samples = [],
     cs_updated_at = zero_time\<rparr>"

definition no_runtime :: runtime where
  "no_runtime = \<lparr>rt_profile = [], rt_mode = [], rt_install_type = []\<rparr>"

definition no_update_state :: update_state where
  "no_update_state = \<lparr>us_status = [], us_summary = [], us_hint = [], us_manifest_version = [],
     us_manifest_channel = [], us_recommended_version = [], us_last_checked_at = None,
     us_last_error = [], us_updated_at = zero_time\<rparr>"

definition no_home_auto :: home_auto where
  "no_home_auto = \<lparr>ha_module_state = [], ha_control_state = [], ha_active_state_source = [],
     ha_reconciliation_state = [], ha_effective_config_source = [],
     ha_effective_config_version = [], ha_cloud_config_present = False,
     ha_last_fetched_config_ver = [], ha_last_applied_config_ver = [],
     ha_last_config_apply_result = [], ha_last_config_apply_error = [],
     ha_desired_config_enabled = None, ha_desired_config_mode = [],
     ha_active_session_id = [], ha_active_trigger_node = [], ha_pending_action = [],
     ha_pending_trigger_node = [], ha_pending_device_uid = [], ha_pending_reason = [],
     ha_pending_dedupe_key = [], ha_pending_since = None, ha_last_decision_reason = [],
     ha_last_start_dedupe_key = [], ha_last_stop_dedupe_key = [], ha_last_action = [],
     ha_last_action_result = [], ha_last_action_at = None,
     ha_last_successful_action = [], ha_last_successful_action_at = None,
     ha_last_error = [], ha_blocked_reason = [], ha_consecutive_failures = 0,
     ha_last_decision_at = None, ha_last_event_at = None, ha_cooldown_until = None,
     ha_decision_cooldown_until = None, ha_gps_status = [], ha_gps_reason = [],
     ha_gps_node_id = [], ha_gps_updated_at = None, ha_gps_distance_m = None,
     ha_observed_dropped = 0, ha_updated_at = zero_time\<rparr>"

definition no_metadata :: metadata where
  "no_metadata = \<lparr>md_updated_at = zero_time\<rparr>"

definition no_state_data :: state_data where
  "no_state_data = \<lparr>da_schema_version = 0, da_installation = no_installation, da_pairing = no_pairing,
     da_cloud = no_cloud, da_runtime = no_runtime, da_update = no_update_state,
     da_home_auto_session = no_home_auto, da_metadata = no_metadata\<rparr>"


section \<open>Text that goes through JSON\<close>

text \<open>\<open>Marshal\<close> replaces what is not UTF-8 in a string; everything else survives a round trip.\<close>

definition scrub_sample :: "(string \<Rightarrow> string) \<Rightarrow> sample \<Rightarrow> sample" where
  "scrub_sample tv s = s\<lparr>sm_token := tv (sm_token s), sm_nonce := tv (sm_nonce s),
     sm_receiver := tv (sm_receiver s), sm_installation := tv (sm_installation s)\<rparr>"

definition scrub_installation :: "(string \<Rightarrow> string) \<Rightarrow> installation \<Rightarrow> installation" where
  "scrub_installation tv x = x\<lparr>
     il_id := tv (il_id x),
     il_local_name := tv (il_local_name x),
     il_hostname := tv (il_hostname x)\<rparr>"

definition scrub_pairing :: "(string \<Rightarrow> string) \<Rightarrow> pairing \<Rightarrow> pairing" where
  "scrub_pairing tv x = x\<lparr>
     pg_phase := tv (pg_phase x),
     pg_pairing_code := tv (pg_pairing_code x),
     pg_install_session_id := tv (pg_install_session_id x),
     pg_flow_key := tv (pg_flow_key x),
     pg_activation_token := tv (pg_activation_token x),
     pg_last_error := tv (pg_last_error x),
     pg_last_change := tv (pg_last_change x)\<rparr>"

definition scrub_cloud :: "(string \<Rightarrow> string) \<Rightarrow> cloud \<Rightarrow> cloud" where
  "scrub_cloud tv x = x\<lparr>
     cs_endpoint_url := tv (cs_endpoint_url x),
     cs_config_version := tv (cs_config_version x),
     cs_activate_endpoint := tv (cs_activate_endpoint x),
     cs_heartbeat_endpoint := tv (cs_heartbeat_endpoint x),
     cs_ingest_endpoint := tv (cs_ingest_endpoint x),
     cs_owner_id := tv (cs_owner_id x),
     cs_receiver_id := tv (cs_receiver_id x),
     cs_receiver_label := tv (cs_receiver_label x),
     cs_site_label := tv (cs_site_label x),
     cs_group_label := tv (cs_group_label x),
     cs_ingest_api_key_id := tv (cs_ingest_api_key_id x),
     cs_ingest_api_key := tv (cs_ingest_api_key x),
     cs_credential_ref := tv (cs_credential_ref x),
     cs_credential_fingerprint := tv (cs_credential_fingerprint x),
     cs_clock_samples := map (scrub_sample tv) (cs_clock_samples x)\<rparr>"

definition scrub_runtime :: "(string \<Rightarrow> string) \<Rightarrow> runtime \<Rightarrow> runtime" where
  "scrub_runtime tv x = x\<lparr>
     rt_profile := tv (rt_profile x),
     rt_mode := tv (rt_mode x),
     rt_install_type := tv (rt_install_type x)\<rparr>"

definition scrub_update_state :: "(string \<Rightarrow> string) \<Rightarrow> update_state \<Rightarrow> update_state" where
  "scrub_update_state tv x = x\<lparr>
     us_status := tv (us_status x),
     us_summary := tv (us_summary x),
     us_hint := tv (us_hint x),
     us_manifest_version := tv (us_manifest_version x),
     us_manifest_channel := tv (us_manifest_channel x),
     us_recommended_version := tv (us_recommended_version x),
     us_last_error := tv (us_last_error x)\<rparr>"

definition scrub_home_auto :: "(string \<Rightarrow> string) \<Rightarrow> home_auto \<Rightarrow> home_auto" where
  "scrub_home_auto tv x = x\<lparr>
     ha_module_state := tv (ha_module_state x),
     ha_control_state := tv (ha_control_state x),
     ha_active_state_source := tv (ha_active_state_source x),
     ha_reconciliation_state := tv (ha_reconciliation_state x),
     ha_effective_config_source := tv (ha_effective_config_source x),
     ha_effective_config_version := tv (ha_effective_config_version x),
     ha_last_fetched_config_ver := tv (ha_last_fetched_config_ver x),
     ha_last_applied_config_ver := tv (ha_last_applied_config_ver x),
     ha_last_config_apply_result := tv (ha_last_config_apply_result x),
     ha_last_config_apply_error := tv (ha_last_config_apply_error x),
     ha_desired_config_mode := tv (ha_desired_config_mode x),
     ha_active_session_id := tv (ha_active_session_id x),
     ha_active_trigger_node := tv (ha_active_trigger_node x),
     ha_pending_action := tv (ha_pending_action x),
     ha_pending_trigger_node := tv (ha_pending_trigger_node x),
     ha_pending_device_uid := tv (ha_pending_device_uid x),
     ha_pending_reason := tv (ha_pending_reason x),
     ha_pending_dedupe_key := tv (ha_pending_dedupe_key x),
     ha_last_decision_reason := tv (ha_last_decision_reason x),
     ha_last_start_dedupe_key := tv (ha_last_start_dedupe_key x),
     ha_last_stop_dedupe_key := tv (ha_last_stop_dedupe_key x),
     ha_last_action := tv (ha_last_action x),
     ha_last_action_result := tv (ha_last_action_result x),
     ha_last_successful_action := tv (ha_last_successful_action x),
     ha_last_error := tv (ha_last_error x),
     ha_blocked_reason := tv (ha_blocked_reason x),
     ha_gps_status := tv (ha_gps_status x),
     ha_gps_reason := tv (ha_gps_reason x),
     ha_gps_node_id := tv (ha_gps_node_id x)\<rparr>"

definition scrub_state :: "(string \<Rightarrow> string) \<Rightarrow> state_data \<Rightarrow> state_data" where
  "scrub_state tv d = d\<lparr>
     da_installation := scrub_installation tv (da_installation d),
     da_pairing := scrub_pairing tv (da_pairing d),
     da_cloud := scrub_cloud tv (da_cloud d),
     da_runtime := scrub_runtime tv (da_runtime d),
     da_update := scrub_update_state tv (da_update d),
     da_home_auto_session := scrub_home_auto tv (da_home_auto_session d)\<rparr>"

lemmas scrub_defs = scrub_state_def scrub_installation_def scrub_pairing_def scrub_cloud_def
  scrub_runtime_def scrub_update_state_def scrub_home_auto_def scrub_sample_def

section \<open>Parameters and errors\<close>

text \<open>The lower-case hexadecimal SHA-256 digest, the JSON texts that \<open>Marshal\<close> and \<open>MarshalIndent\<close> produce
  (or their failure), and \<open>Unmarshal\<close> into a value that may already hold fields: the value afterwards and
  whether it succeeded. \<open>se_text\<close> is what a string is after a round trip through JSON.\<close>

record state_env =
  se_unicode :: unicode
  se_sha256 :: "string \<Rightarrow> string"
  se_marshal :: "state_data \<Rightarrow> string option"
  se_indent :: "state_data \<Rightarrow> string option"
  se_decode :: "string \<Rightarrow> state_data \<Rightarrow> state_data \<times> bool"
  se_text :: "string \<Rightarrow> string"

text \<open>The steps of writing the file, any of which the operating system can refuse.\<close>

datatype write_step = MakeDir | CreateTemp | WriteBody | WriteNewline | ChangeMode | SyncTemp
  | CloseTemp | RenameTemp | SyncDir

datatype state_error = MarshalData | UnmarshalData | WriteStep write_step | NoEntropy | SchemaNewer
  | ReadFailed | FileMissing | BackupFailed

text \<open>How moving a corrupt file away goes: renamed, or copied and removed after a failed rename, or
  neither written nor removed.\<close>

datatype backup_outcome = Renamed | Copied | CopyFailed | RemoveFailed

record state_io =
  si_now :: time
  si_fail :: "write_step \<Rightarrow> bool"
  si_entropy :: "string option"
  si_read :: bool
  si_backup :: backup_outcome

text \<open>The store with the content of its file and of the backup of a corrupt one.\<close>

record state_store =
  sv_data :: state_data
  sv_recovered :: bool
  sv_file :: "string option"
  sv_backup :: "string option"

text \<open>What the code relies on: a value that went through JSON differs only in text that is not UTF-8
  (ASCII text is), is not changed by another round, and can be indented; the indented text, with a line
  break after it, reads as the value; decoded text is always UTF-8. A digest is written in ASCII.\<close>

definition state_env_ok :: "state_env \<Rightarrow> bool" where
  "state_env_ok se \<longleftrightarrow>
     (\<forall>s. ascii_only (se_sha256 se s) \<and> se_sha256 se s \<noteq> []) \<and>
     (\<forall>s. se_text se (se_text se s) = se_text se s) \<and> (\<forall>s. ascii_only s \<longrightarrow> se_text se s = s) \<and>
     (\<forall>d raw. se_marshal se d = Some raw \<longrightarrow>
        se_decode se raw no_state_data = (scrub_state (se_text se) d, True) \<and>
        se_marshal se (scrub_state (se_text se) d) \<noteq> None) \<and>
     (\<forall>raw d d' ok. se_decode se raw d = (d', ok) \<longrightarrow>
        scrub_state (se_text se) d = d \<longrightarrow> scrub_state (se_text se) d' = d') \<and>
     (\<forall>d raw. se_indent se d = Some raw \<longrightarrow> se_marshal se d \<noteq> None \<and>
        se_decode se (raw @ [char_of (10 :: nat)]) no_state_data = (scrub_state (se_text se) d, True)) \<and>
     (\<forall>d. se_marshal se d \<noteq> None \<longrightarrow> se_indent se d \<noteq> None)"

end
