(* ===== verification/StateStore.thy ===== *)
theory StateStore
  imports StateTypes
begin

text \<open>
  The operations of the state store (\<open>internal/state/state.go\<close>): reading and recovering the file,
  migration and defaults, and updates, which write the whole state to a temporary file and rename it
  over the old one.
\<close>

section \<open>Writing the file\<close>

definition write_state ::
  "state_env \<Rightarrow> state_io \<Rightarrow> state_data \<Rightarrow> state_store \<Rightarrow> (state_error + unit) \<times> state_store" where
  "write_state se io d s =
     (if si_fail io MakeDir then (Inl (WriteStep MakeDir), s)
      else case se_indent se d of
        None \<Rightarrow> (Inl MarshalData, s)
      | Some raw \<Rightarrow>
          (case find (si_fail io) [CreateTemp, WriteBody, WriteNewline, ChangeMode, SyncTemp, CloseTemp, RenameTemp] of
             Some st \<Rightarrow> (Inl (WriteStep st), s)
           | None \<Rightarrow>
               let s = s\<lparr>sv_file := Some (raw @ [char_of (10 :: nat)])\<rparr>
               in if si_fail io SyncDir then (Inl (WriteStep SyncDir), s) else (Inr (), s)))"

definition clone_data :: "state_env \<Rightarrow> state_data \<Rightarrow> state_error + state_data" where
  "clone_data se d = (case se_marshal se d of
     None \<Rightarrow> Inl MarshalData
   | Some raw \<Rightarrow> (case se_decode se raw no_state_data of
       (out, ok) \<Rightarrow> if ok then Inr out else Inl UnmarshalData))"

definition stamp :: "time \<Rightarrow> state_data \<Rightarrow> state_data" where
  "stamp now d = d\<lparr>da_metadata := (da_metadata d)\<lparr>md_updated_at := now\<rparr>\<rparr>"

text \<open>The tail that \<open>Save\<close> and \<open>Update\<close> share: memory follows the file only when the write succeeds.\<close>

definition commit_state ::
  "state_env \<Rightarrow> state_io \<Rightarrow> state_data \<Rightarrow> state_store \<Rightarrow> (state_error + unit) \<times> state_store" where
  "commit_state se io d s =
     (case write_state se io (stamp (si_now io) d) s of
        (Inl e, s) \<Rightarrow> (Inl e, s)
      | (Inr _, s) \<Rightarrow> (Inr (), s\<lparr>sv_data := stamp (si_now io) d\<rparr>))"

definition save_state ::
  "state_env \<Rightarrow> state_io \<Rightarrow> state_store \<Rightarrow> (state_error + unit) \<times> state_store" where
  "save_state se io s = (case clone_data se (sv_data s) of
     Inl e \<Rightarrow> (Inl e, s)
   | Inr snapshot \<Rightarrow> commit_state se io snapshot s)"

section \<open>Generations\<close>

definition credential_fingerprint :: "state_env \<Rightarrow> string \<Rightarrow> string" where
  "credential_fingerprint se secret = (if secret = [] then [] else se_sha256 se secret)"

definition binding_text :: "state_data \<Rightarrow> string" where
  "binding_text d = cs_owner_id (da_cloud d) @ [char_of (0 :: nat)] @ cs_receiver_id (da_cloud d)
     @ [char_of (0 :: nat)] @ il_id (da_installation d)"

definition normalize_credential :: "state_env \<Rightarrow> state_data \<Rightarrow> cloud \<Rightarrow> cloud" where
  "normalize_credential se previous c =
     (let fingerprint = credential_fingerprint se (cs_ingest_api_key c)
      in if fingerprint \<noteq> cs_credential_fingerprint (da_cloud previous)
         then (if fingerprint \<noteq> []
               then c\<lparr>cs_credential_generation := cs_credential_generation (da_cloud previous) + 1\<rparr>
               else c)\<lparr>cs_credential_fingerprint := fingerprint\<rparr>
         else c)"

definition normalize_generations :: "state_env \<Rightarrow> state_data \<Rightarrow> state_data \<Rightarrow> state_data" where
  "normalize_generations se previous d =
     (let moved = (binding_text d \<noteq> binding_text previous);
          c = normalize_credential se previous (da_cloud d);
          c = (if moved then c\<lparr>cs_clock_samples := []\<rparr> else c);
          c = (if moved \<and> cs_owner_id c \<noteq> [] \<and> cs_receiver_id c \<noteq> []
               then c\<lparr>cs_binding_generation := cs_binding_generation (da_cloud previous) + 1\<rparr> else c)
      in d\<lparr>da_cloud := c\<rparr>)"

definition update_store ::
  "state_env \<Rightarrow> state_io \<Rightarrow> (state_data \<Rightarrow> state_data) \<Rightarrow> state_store
   \<Rightarrow> (state_error + unit) \<times> state_store" where
  "update_store se io f s = (case clone_data se (sv_data s) of
     Inl e \<Rightarrow> (Inl e, s)
   | Inr snapshot \<Rightarrow> commit_state se io (normalize_generations se (sv_data s) (f snapshot)) s)"

section \<open>Values of an enumeration\<close>

definition phase_unpaired :: string where "phase_unpaired = ''unpaired''"
definition phase_code_entered :: string where "phase_code_entered = ''pairing_code_entered''"
definition phase_exchanged :: string where "phase_exchanged = ''bootstrap_exchanged''"
definition phase_activated :: string where "phase_activated = ''activated''"
definition phase_steady :: string where "phase_steady = ''steady_state''"

lemmas phase_defs = phase_unpaired_def phase_code_entered_def phase_exchanged_def
  phase_activated_def phase_steady_def

definition is_valid_phase :: "string \<Rightarrow> bool" where
  "is_valid_phase p \<longleftrightarrow>
     p \<in> {phase_unpaired, phase_code_entered, phase_exchanged, phase_activated, phase_steady}"

definition install_type_from_profile :: "unicode \<Rightarrow> string \<Rightarrow> string" where
  "install_type_from_profile u profile =
     (let p = to_lower u (trim_space profile)
      in if p = ''appliance-pi'' then ''pi-appliance''
         else if p = ''linux-service'' then ''linux-package''
         else if p = ''windows-user'' then ''windows-user''
         else ''manual'')"

definition is_known_update_status :: "unicode \<Rightarrow> string \<Rightarrow> bool" where
  "is_known_update_status u status \<longleftrightarrow> to_lower u (trim_space status) \<in>
     {''unknown'', ''disabled'', ''current'', ''outdated'', ''channel_mismatch'', ''unsupported'', ''ahead''}"

section \<open>Defaults\<close>

text \<open>A field that is still blank gets its default; the flag remembers that something changed.\<close>

definition blank :: "string \<Rightarrow> bool" where
  "blank s \<longleftrightarrow> trim_space s = []"

definition set_if :: "bool \<Rightarrow> ('a \<Rightarrow> 'a) \<Rightarrow> 'a \<times> bool \<Rightarrow> 'a \<times> bool" where
  "set_if c f x = (if c then (f (fst x), True) else x)"

abbreviation home :: "state_data \<Rightarrow> home_auto" where
  "home d \<equiv> da_home_auto_session d"

definition set_home :: "(home_auto \<Rightarrow> home_auto) \<Rightarrow> state_data \<Rightarrow> state_data" where
  "set_home f d = d\<lparr>da_home_auto_session := f (da_home_auto_session d)\<rparr>"

definition default_home :: "(home_auto \<Rightarrow> string) \<Rightarrow> (home_auto \<Rightarrow> home_auto)
   \<Rightarrow> state_data \<times> bool \<Rightarrow> state_data \<times> bool" where
  "default_home field f x = set_if (blank (field (home (fst x)))) (set_home f) x"

definition default_module :: "state_data \<times> bool \<Rightarrow> state_data \<times> bool" where
  "default_module = default_home ha_module_state (\<lambda>h. h\<lparr>ha_module_state := ''disabled''\<rparr>)"

definition default_reconciliation :: "state_data \<times> bool \<Rightarrow> state_data \<times> bool" where
  "default_reconciliation =
     default_home ha_reconciliation_state (\<lambda>h. h\<lparr>ha_reconciliation_state := ''clean_idle''\<rparr>)"

definition default_control :: "state_data \<times> bool \<Rightarrow> state_data \<times> bool" where
  "default_control = default_home ha_control_state (\<lambda>h. h\<lparr>ha_control_state := ''disabled''\<rparr>)"

definition default_active_source :: "state_data \<times> bool \<Rightarrow> state_data \<times> bool" where
  "default_active_source = default_home ha_active_state_source (\<lambda>h. h\<lparr>ha_active_state_source := ''none''\<rparr>)"

definition default_source :: "state_data \<times> bool \<Rightarrow> state_data \<times> bool" where
  "default_source =
     default_home ha_effective_config_source (\<lambda>h. h\<lparr>ha_effective_config_source := ''local_fallback''\<rparr>)"

definition default_version :: "state_data \<times> bool \<Rightarrow> state_data \<times> bool" where
  "default_version =
     default_home ha_effective_config_version (\<lambda>h. h\<lparr>ha_effective_config_version := ''local-default''\<rparr>)"

definition default_applied :: "state_data \<times> bool \<Rightarrow> state_data \<times> bool" where
  "default_applied = default_home ha_last_applied_config_ver
     (\<lambda>h. h\<lparr>ha_last_applied_config_ver := ha_effective_config_version h\<rparr>)"

definition default_apply_result :: "state_data \<times> bool \<Rightarrow> state_data \<times> bool" where
  "default_apply_result = default_home ha_last_config_apply_result
     (\<lambda>h. h\<lparr>ha_last_config_apply_result := ''local_config_applied''\<rparr>)"

definition default_enabled :: "state_data \<times> bool \<Rightarrow> state_data \<times> bool" where
  "default_enabled x = set_if (ha_desired_config_enabled (home (fst x)) = None)
     (set_home (\<lambda>h. h\<lparr>ha_desired_config_enabled := Some False\<rparr>)) x"

definition default_mode :: "state_data \<times> bool \<Rightarrow> state_data \<times> bool" where
  "default_mode = default_home ha_desired_config_mode (\<lambda>h. h\<lparr>ha_desired_config_mode := ''off''\<rparr>)"

definition default_config :: "state_data \<times> bool \<Rightarrow> state_data \<times> bool" where
  "default_config x =
     default_mode (default_enabled (default_apply_result (default_applied (default_version (default_source x)))))"

definition default_install_type :: "unicode \<Rightarrow> state_data \<times> bool \<Rightarrow> state_data \<times> bool" where
  "default_install_type u x = set_if (rt_install_type (da_runtime (fst x)) = [])
     (\<lambda>d. d\<lparr>da_runtime := (da_runtime d)\<lparr>rt_install_type :=
        install_type_from_profile u (rt_profile (da_runtime d))\<rparr>\<rparr>) x"

definition default_update_status :: "unicode \<Rightarrow> state_data \<times> bool \<Rightarrow> state_data \<times> bool" where
  "default_update_status u x = set_if (\<not> is_known_update_status u (us_status (da_update (fst x))))
     (\<lambda>d. d\<lparr>da_update := (da_update d)\<lparr>us_status := ''unknown''\<rparr>\<rparr>) x"

definition set_installation :: "(installation \<Rightarrow> installation) \<Rightarrow> state_data \<Rightarrow> state_data" where
  "set_installation f d = d\<lparr>da_installation := f (da_installation d)\<rparr>"

definition default_created :: "time \<Rightarrow> state_data \<times> bool \<Rightarrow> state_data \<times> bool" where
  "default_created now x = set_if (is_zero (il_created_at (da_installation (fst x))))
     (set_installation (\<lambda>i. i\<lparr>il_created_at := now\<rparr>)) x"

definition default_started :: "time \<Rightarrow> state_data \<times> bool \<Rightarrow> state_data \<times> bool" where
  "default_started now x = set_if (is_zero (il_last_started_at (da_installation (fst x))))
     (set_installation (\<lambda>i. i\<lparr>il_last_started_at := now\<rparr>)) x"

definition default_phase :: "state_data \<times> bool \<Rightarrow> state_data \<times> bool" where
  "default_phase x = set_if (pg_phase (da_pairing (fst x)) = [])
     (\<lambda>d. d\<lparr>da_pairing := (da_pairing d)\<lparr>pg_phase := phase_unpaired\<rparr>\<rparr>) x"

definition ensure_rest :: "state_env \<Rightarrow> time \<Rightarrow> state_data \<times> bool \<Rightarrow> state_data \<times> bool" where
  "ensure_rest se now x =
     (let x = default_phase (default_started now (default_created now x));
          x = default_update_status (se_unicode se) (default_install_type (se_unicode se) x);
          x = default_reconciliation (default_active_source (default_control (default_module x)))
      in default_config x)"

definition ensure_defaults ::
  "state_env \<Rightarrow> state_io \<Rightarrow> state_data \<Rightarrow> state_error + (state_data \<times> bool)" where
  "ensure_defaults se io d =
     (let x = set_if (da_schema_version d = 0) (\<lambda>d. d\<lparr>da_schema_version := 10\<rparr>) (d, False)
      in if il_id (da_installation (fst x)) = []
         then (case si_entropy io of
             None \<Rightarrow> Inl NoEntropy
           | Some i \<Rightarrow> Inr (ensure_rest se (si_now io)
               (set_installation (\<lambda>n. n\<lparr>il_id := i\<rparr>) (fst x), True)))
         else Inr (ensure_rest se (si_now io) x))"

section \<open>Migration\<close>

text \<open>One step brings a state of version at most \<open>n\<close> to version \<open>n + 1\<close>.\<close>

definition upgrade :: "int \<Rightarrow> (state_data \<Rightarrow> state_data) \<Rightarrow> int \<times> bool \<times> state_data \<Rightarrow> int \<times> bool \<times> state_data" where
  "upgrade n f x = (case x of (version, changed, d) \<Rightarrow>
     if version \<le> n then (n + 1, True, f d) else x)"

definition set_phase :: "string \<Rightarrow> state_data \<Rightarrow> state_data" where
  "set_phase p d = d\<lparr>da_pairing := (da_pairing d)\<lparr>pg_phase := p\<rparr>\<rparr>"

definition migrate_1 :: "state_data \<Rightarrow> state_data" where
  "migrate_1 d =
     (let p = pg_phase (da_pairing d)
      in if p = ''paired'' \<or> p = ''ready'' then set_phase phase_steady d
         else if p = ''pairing'' then set_phase phase_code_entered d
         else if p = [] then d
         else if \<not> is_valid_phase p then set_phase phase_unpaired d
         else d)"

definition migrate_2 :: "unicode \<Rightarrow> state_data \<Rightarrow> state_data" where
  "migrate_2 u d = fst (default_update_status u (default_install_type u (d, False)))"

definition migrate_3 :: "state_data \<Rightarrow> state_data" where
  "migrate_3 d = fst (default_module (d, False))"

definition migrate_4 :: "state_data \<Rightarrow> state_data" where
  "migrate_4 d = fst (default_reconciliation (d, False))"

definition migrate_5 :: "state_data \<Rightarrow> state_data" where
  "migrate_5 d = fst (default_active_source (default_control (d, False)))"

definition migrate_6 :: "state_data \<Rightarrow> state_data" where
  "migrate_6 d = fst (default_config (d, False))"

definition is_bound :: "cloud \<Rightarrow> bool" where
  "is_bound c \<longleftrightarrow> cs_owner_id c \<noteq> [] \<and> cs_receiver_id c \<noteq> []"

definition migrate_7 :: "state_env \<Rightarrow> state_data \<Rightarrow> state_data" where
  "migrate_7 se d =
     (let c = da_cloud d;
          c = (if cs_ingest_api_key c \<noteq> []
               then c\<lparr>cs_credential_fingerprint := credential_fingerprint se (cs_ingest_api_key c),
                      cs_credential_generation := (if cs_credential_generation c = 0 then 1
                                                   else cs_credential_generation c)\<rparr>
               else c);
          c = (if is_bound c \<and> cs_binding_generation c = 0 then c\<lparr>cs_binding_generation := 1\<rparr> else c)
      in d\<lparr>da_cloud := c\<rparr>)"

definition migrate_8 :: "state_data \<Rightarrow> state_data" where
  "migrate_8 d = (if is_bound (da_cloud d) then set_installation (\<lambda>i. i\<lparr>il_bound := True\<rparr>) d else d)"

definition migrate_9 :: "state_data \<Rightarrow> state_data" where
  "migrate_9 d =
     (let samples = cs_clock_samples (da_cloud d)
      in if length samples > 2
         then d\<lparr>da_cloud := (da_cloud d)\<lparr>cs_clock_samples := drop (length samples - 2) samples\<rparr>\<rparr>
         else d)"

definition migrate_steps :: "state_env \<Rightarrow> int \<times> bool \<times> state_data \<Rightarrow> int \<times> bool \<times> state_data" where
  "migrate_steps se x =
     (let u = se_unicode se;
          x = upgrade 1 migrate_1 x;
          x = upgrade 2 (migrate_2 u) x;
          x = upgrade 3 migrate_3 x;
          x = upgrade 4 migrate_4 x;
          x = upgrade 5 migrate_5 x;
          x = upgrade 6 migrate_6 x;
          x = upgrade 7 (migrate_7 se) x;
          x = upgrade 8 migrate_8 x
      in upgrade 9 migrate_9 x)"

definition migrate :: "state_env \<Rightarrow> state_data \<Rightarrow> state_error + (state_data \<times> bool)" where
  "migrate se d =
     (case migrate_steps se (if da_schema_version d = 0 then (1, True, d)
                             else (da_schema_version d, False, d)) of
        (version, changed, d) \<Rightarrow>
          if version > 10 then Inl SchemaNewer
          else if da_schema_version d \<noteq> version then Inr (d\<lparr>da_schema_version := version\<rparr>, True)
          else Inr (d, changed))"

section \<open>Reading the file\<close>

definition trim_bytes :: "char set \<Rightarrow> string \<Rightarrow> string" where
  "trim_bytes cutset s = rev (dropWhile (\<lambda>c. c \<in> cutset) (rev (dropWhile (\<lambda>c. c \<in> cutset) s)))"

definition padding :: "char set" where
  "padding = {char_of (0 :: nat), char_of (13 :: nat), char_of (10 :: nat), char_of (9 :: nat), CHR '' ''}"

text \<open>The first opening brace to the last closing one, when there is such a range.\<close>

definition brace_range :: "string \<Rightarrow> string option" where
  "brace_range s =
     (let from_open = dropWhile (\<lambda>c. c \<noteq> CHR ''{'') s;
          to_close = rev (dropWhile (\<lambda>c. c \<noteq> CHR ''}'') (rev from_open))
      in if from_open = [] \<or> to_close = [] then None else Some to_close)"

text \<open>Each attempt decodes into the value the failed ones before it have left.\<close>

definition decode_state_bytes :: "state_env \<Rightarrow> string \<Rightarrow> state_error + (state_data \<times> bool)" where
  "decode_state_bytes se raw =
     (let (d, ok) = se_decode se raw no_state_data
      in if ok then Inr (d, False) else
      let trimmed = trim_bytes padding raw;
          (d, ok) = (if trimmed \<noteq> [] \<and> trimmed \<noteq> raw then se_decode se trimmed d else (d, False))
      in if ok then Inr (d, True) else
      let (d, ok) = (if trimmed \<noteq> []
                     then (case brace_range trimmed of
                         None \<Rightarrow> (d, False)
                       | Some candidate \<Rightarrow> se_decode se candidate d)
                     else (d, False))
      in if ok then Inr (d, True) else
      let dense = filter (\<lambda>c. c \<noteq> char_of (0 :: nat)) raw;
          (d, ok) = (if dense \<noteq> [] \<and> dense \<noteq> raw then se_decode se dense d else (d, False))
      in if ok then Inr (d, True) else
      let (d, ok) = se_decode se raw d
      in if ok then Inr (d, False) else Inl UnmarshalData)"

definition backup_corrupt ::
  "backup_outcome \<Rightarrow> string \<Rightarrow> state_store \<Rightarrow> (state_error + unit) \<times> state_store" where
  "backup_corrupt outcome raw s = (case outcome of
     Renamed \<Rightarrow> (Inr (), s\<lparr>sv_backup := sv_file s, sv_file := None\<rparr>)
   | Copied \<Rightarrow> (Inr (), s\<lparr>sv_backup := Some raw, sv_file := None\<rparr>)
   | CopyFailed \<Rightarrow> (Inl BackupFailed, s)
   | RemoveFailed \<Rightarrow> (Inl BackupFailed, s\<lparr>sv_backup := Some raw\<rparr>))"

definition load_state ::
  "state_env \<Rightarrow> state_io \<Rightarrow> state_store \<Rightarrow> (state_error + unit) \<times> state_store" where
  "load_state se io s = (case sv_file s of
     None \<Rightarrow> (Inl FileMissing, s)
   | Some raw \<Rightarrow>
       if \<not> si_read io then (Inl ReadFailed, s)
       else (case decode_state_bytes se raw of
         Inr (d, recovered) \<Rightarrow> (Inr (), s\<lparr>sv_data := d, sv_recovered := recovered\<rparr>)
       | Inl e \<Rightarrow> (case backup_corrupt (si_backup io) raw s of
           (Inl b, s) \<Rightarrow> (Inl b, s)
         | (Inr _, s) \<Rightarrow> (Inl FileMissing, s))))"

section \<open>Opening the store\<close>

definition open_fresh ::
  "state_env \<Rightarrow> state_io \<Rightarrow> state_store \<Rightarrow> (state_error + unit) \<times> state_store" where
  "open_fresh se io s = (case ensure_defaults se io (sv_data s) of
     Inl e \<Rightarrow> (Inl e, s)
   | Inr (d, changed) \<Rightarrow> save_state se io (s\<lparr>sv_data := d\<rparr>))"

definition open_loaded ::
  "state_env \<Rightarrow> state_io \<Rightarrow> state_store \<Rightarrow> (state_error + unit) \<times> state_store" where
  "open_loaded se io s = (case migrate se (sv_data s) of
     Inl e \<Rightarrow> (Inl e, s)
   | Inr (d, migrated) \<Rightarrow> (case ensure_defaults se io d of
       Inl e \<Rightarrow> (Inl e, s\<lparr>sv_data := d\<rparr>)
     | Inr (d, changed) \<Rightarrow>
         if changed \<or> migrated \<or> sv_recovered s then save_state se io (s\<lparr>sv_data := d\<rparr>)
         else (Inr (), s\<lparr>sv_data := d\<rparr>)))"

text \<open>\<open>Open\<close> on what the disk holds: the file and the last backup of a corrupt one.\<close>

definition open_state ::
  "state_env \<Rightarrow> state_io \<Rightarrow> string option \<Rightarrow> string option \<Rightarrow> (state_error + unit) \<times> state_store" where
  "open_state se io stored backup =
     (let s = \<lparr>sv_data = no_state_data, sv_recovered = False, sv_file = stored, sv_backup = backup\<rparr>
      in case load_state se io s of
           (Inl FileMissing, s) \<Rightarrow> open_fresh se io s
         | (Inl e, s) \<Rightarrow> (Inl e, s)
         | (Inr _, s) \<Rightarrow> open_loaded se io s)"

end
