(* ===== verification/StateProps.thy ===== *)
theory StateProps
  imports StateStore
begin

text \<open>
  What the state store guarantees: an update is atomic in memory and on disk, a restart after any
  outcome of an update finds a complete state, opening brings every older file to the current schema
  and never destroys what it cannot read, and the generations identify credentials and bindings over
  the whole history of the store.
\<close>

section \<open>Writing\<close>

lemma write_state_cases:
  assumes "write_state se io d s = (r, s')"
  obtains (refused) e where "r = Inl e" "s' = s"
  | (unsynced) raw where "r = Inl (WriteStep SyncDir)" "se_indent se d = Some raw"
      "s' = s\<lparr>sv_file := Some (raw @ [char_of (10 :: nat)])\<rparr>"
  | (written) raw where "r = Inr ()" "se_indent se d = Some raw"
      "s' = s\<lparr>sv_file := Some (raw @ [char_of (10 :: nat)])\<rparr>"
  using assms by (auto simp: write_state_def Let_def split: if_splits option.splits)

definition reads_as :: "state_env \<Rightarrow> string option \<Rightarrow> state_data \<Rightarrow> bool" where
  "reads_as se stored d \<longleftrightarrow> (\<exists>raw. stored = Some raw \<and> decode_state_bytes se raw = Inr (d, False))"

abbreviation scrubbed :: "state_env \<Rightarrow> state_data \<Rightarrow> state_data" where
  "scrubbed se d \<equiv> scrub_state (se_text se) d"

lemma state_laws:
  assumes "state_env_ok se"
  shows "se_marshal se d = Some raw \<Longrightarrow> se_decode se raw no_state_data = (scrubbed se d, True)"
    "se_marshal se d = Some raw \<Longrightarrow> se_marshal se (scrubbed se d) \<noteq> None"
    "se_indent se d = Some raw \<Longrightarrow> se_marshal se d \<noteq> None"
    "se_indent se d = Some raw \<Longrightarrow>
       se_decode se (raw @ [char_of (10 :: nat)]) no_state_data = (scrubbed se d, True)"
    "se_marshal se d \<noteq> None \<Longrightarrow> se_indent se d \<noteq> None"
    "se_text se (se_text se t) = se_text se t" "ascii_only t \<Longrightarrow> se_text se t = t"
    "ascii_only (se_sha256 se t)" "se_sha256 se t \<noteq> []"
  using assms by (simp_all add: state_env_ok_def)

lemma decode_scrubbed:
  "state_env_ok se \<Longrightarrow> se_decode se t x = (x', ok) \<Longrightarrow> scrubbed se x = x \<Longrightarrow> scrubbed se x' = x'"
  unfolding state_env_ok_def by blast

lemma indent_reads_as:
  "state_env_ok se \<Longrightarrow> se_indent se d = Some raw \<Longrightarrow>
     reads_as se (Some (raw @ [char_of (10 :: nat)])) (scrubbed se d)"
  by (simp add: reads_as_def decode_state_bytes_def state_laws(4))

lemma clone_data_Inr: "state_env_ok se \<Longrightarrow> clone_data se d = Inr c \<Longrightarrow> c = scrubbed se d"
  by (auto simp: clone_data_def state_laws(1) split: option.splits)

lemma commit_state_cases:
  assumes ok: "state_env_ok se" and run: "commit_state se io d s = (r, s')"
  obtains (refused) e where "r = Inl e" "s' = s"
  | (unsynced) "r = Inl (WriteStep SyncDir)" "sv_data s' = sv_data s"
      "reads_as se (sv_file s') (scrubbed se (stamp (si_now io) d))"
  | (written) "r = Inr ()" "sv_data s' = stamp (si_now io) d"
      "reads_as se (sv_file s') (scrubbed se (stamp (si_now io) d))"
proof -
  obtain r1 s1 where w: "write_state se io (stamp (si_now io) d) s = (r1, s1)" by fastforce
  from w show thesis
  proof (cases rule: write_state_cases)
    case (refused e)
    with run w that(1) show thesis by (auto simp: commit_state_def)
  next
    case (unsynced raw)
    with run w that(2) indent_reads_as [OF ok unsynced(2)] show thesis by (auto simp: commit_state_def)
  next
    case (written raw)
    with run w that(3) indent_reads_as [OF ok written(2)] show thesis by (auto simp: commit_state_def)
  qed
qed

definition next_state :: "state_env \<Rightarrow> state_io \<Rightarrow> (state_data \<Rightarrow> state_data) \<Rightarrow> state_data \<Rightarrow> state_data" where
  "next_state se io f d = stamp (si_now io) (normalize_generations se d (f (scrubbed se d)))"

lemma state_update_atomic_facts:
  assumes "state_env_ok se" "update_store se io f s = (r, s')"
  shows "r = Inr () \<Longrightarrow> sv_data s' = next_state se io f (sv_data s) \<and>
      reads_as se (sv_file s') (scrubbed se (next_state se io f (sv_data s)))"
    "r = Inl e \<Longrightarrow> sv_data s' = sv_data s \<and>
      (sv_file s' = sv_file s \<or>
       e = WriteStep SyncDir \<and> reads_as se (sv_file s') (scrubbed se (next_state se io f (sv_data s))))"
proof -
  have "(r = Inr () \<longrightarrow> sv_data s' = next_state se io f (sv_data s) \<and>
      reads_as se (sv_file s') (scrubbed se (next_state se io f (sv_data s)))) \<and>
    (r = Inl e \<longrightarrow> sv_data s' = sv_data s \<and>
      (sv_file s' = sv_file s \<or>
       e = WriteStep SyncDir \<and> reads_as se (sv_file s') (scrubbed se (next_state se io f (sv_data s)))))"
  proof (cases "clone_data se (sv_data s)")
    case (Inl e)
    then show ?thesis using assms(2) by (auto simp: update_store_def)
  next
    case (Inr c)
    then have "commit_state se io (normalize_generations se (sv_data s) (f (scrubbed se (sv_data s)))) s = (r, s')"
      using assms clone_data_Inr [OF assms(1) Inr] by (simp add: update_store_def)
    from commit_state_cases [OF assms(1) this] show ?thesis
      by cases (simp_all add: next_state_def)
  qed
  then show "r = Inr () \<Longrightarrow> sv_data s' = next_state se io f (sv_data s) \<and>
      reads_as se (sv_file s') (scrubbed se (next_state se io f (sv_data s)))"
    "r = Inl e \<Longrightarrow> sv_data s' = sv_data s \<and>
      (sv_file s' = sv_file s \<or>
       e = WriteStep SyncDir \<and> reads_as se (sv_file s') (scrubbed se (next_state se io f (sv_data s))))"
    by blast+
qed

text \<open>
  C14. An update is atomic: when it succeeds, memory holds the new state and the file reads as it; when
  it fails, memory is unchanged, and so is the file, except when only the synchronization of the
  directory failed, after which the file reads as the complete new state. It never leaves a partial file.
\<close>
theorem state_update_atomic:
  assumes "state_env_ok se" "update_store se io f s = (r, s')"
  shows "(r = Inr () \<longrightarrow> sv_data s' = next_state se io f (sv_data s) \<and>
      reads_as se (sv_file s') (scrubbed se (next_state se io f (sv_data s)))) \<and>
    (\<forall>e. r = Inl e \<longrightarrow> sv_data s' = sv_data s \<and>
      (sv_file s' = sv_file s \<or>
       e = WriteStep SyncDir \<and> reads_as se (sv_file s') (scrubbed se (next_state se io f (sv_data s)))))"
  using state_update_atomic_facts [OF assms] by blast

section \<open>Well-formed states\<close>

definition has_defaults :: "state_env \<Rightarrow> state_data \<Rightarrow> bool" where
  "has_defaults se d \<longleftrightarrow>
     il_id (da_installation d) \<noteq> [] \<and> \<not> is_zero (il_created_at (da_installation d)) \<and>
     \<not> is_zero (il_last_started_at (da_installation d)) \<and> pg_phase (da_pairing d) \<noteq> [] \<and>
     rt_install_type (da_runtime d) \<noteq> [] \<and>
     is_known_update_status (se_unicode se) (us_status (da_update d)) \<and>
     \<not> blank (ha_module_state (home d)) \<and> \<not> blank (ha_control_state (home d)) \<and>
     \<not> blank (ha_active_state_source (home d)) \<and> \<not> blank (ha_reconciliation_state (home d)) \<and>
     \<not> blank (ha_effective_config_source (home d)) \<and> \<not> blank (ha_effective_config_version (home d)) \<and>
     \<not> blank (ha_last_applied_config_ver (home d)) \<and> \<not> blank (ha_last_config_apply_result (home d)) \<and>
     ha_desired_config_enabled (home d) \<noteq> None \<and> \<not> blank (ha_desired_config_mode (home d))"

definition state_wf :: "state_env \<Rightarrow> state_data \<Rightarrow> bool" where
  "state_wf se d \<longleftrightarrow> da_schema_version d = 10 \<and> has_defaults se d"

lemma set_if_fixed [simp]: "set_if False f x = x" "set_if True f x = (f (fst x), True)"
  by (simp_all add: set_if_def)

lemma default_home_fixed [simp]: "\<not> blank (field (home (fst x))) \<Longrightarrow> default_home field f x = x"
  by (simp add: default_home_def)

lemmas default_defs = default_module_def default_control_def default_active_source_def
  default_reconciliation_def default_config_def default_install_type_def default_update_status_def
  default_source_def default_version_def default_applied_def default_apply_result_def
  default_enabled_def default_mode_def default_created_def default_started_def default_phase_def

lemma ensure_rest_fixed: "has_defaults se d \<Longrightarrow> ensure_rest se now (d, ch) = (d, ch)"
  by (auto simp: ensure_rest_def default_defs has_defaults_def)

lemma ensure_defaults_fixed: "state_wf se d \<Longrightarrow> ensure_defaults se io d = Inr (d, False)"
  using ensure_rest_fixed [of se d "si_now io" False]
  by (simp add: ensure_defaults_def state_wf_def has_defaults_def)

lemma migrate_current: "da_schema_version d = 10 \<Longrightarrow> migrate se d = Inr (d, False)"
  by (simp add: migrate_def migrate_steps_def upgrade_def Let_def)

lemma state_reopen_facts:
  assumes "reads_as se stored d" "state_wf se d" "si_read io"
  shows "open_state se io stored b =
    (Inr (), \<lparr>sv_data = d, sv_recovered = False, sv_file = stored, sv_backup = b\<rparr>)"
  using assms
  by (auto simp: open_state_def load_state_def open_loaded_def reads_as_def state_wf_def migrate_current
      ensure_defaults_fixed)

text \<open>
  A restart finds exactly what the file reads as: opening the store on a complete current state
  succeeds without writing, and memory is that state.
\<close>
lemma state_reopen_exact:
  assumes "reads_as se stored d" "state_wf se d" "si_read io"
  shows "open_state se io stored b =
    (Inr (), \<lparr>sv_data = d, sv_recovered = False, sv_file = stored, sv_backup = b\<rparr>)"
  by (rule state_reopen_facts [OF assms])

section \<open>Defaults fill every field\<close>

lemma home_same: "d\<lparr>da_home_auto_session := home d\<rparr> = d" by simp

definition fill :: "string \<Rightarrow> string \<Rightarrow> string" where
  "fill v s = (if blank s then v else s)"

lemma fst_default_home:
  assumes "\<And>h. \<not> blank (field h) \<Longrightarrow> f' h = h" "\<And>h. blank (field h) \<Longrightarrow> f' h = f h"
  shows "fst (default_home field f x) = (fst x)\<lparr>da_home_auto_session := f' (home (fst x))\<rparr>"
  using assms by (cases "blank (field (home (fst x)))") (simp_all add: default_home_def set_home_def)

lemma fst_default_module: "fst (default_module x) = (fst x)\<lparr>da_home_auto_session :=
    (home (fst x))\<lparr>ha_module_state := fill ''disabled'' (ha_module_state (home (fst x)))\<rparr>\<rparr>"
  unfolding default_module_def by (rule fst_default_home) (simp_all add: fill_def)

lemma fst_default_control: "fst (default_control x) = (fst x)\<lparr>da_home_auto_session :=
    (home (fst x))\<lparr>ha_control_state := fill ''disabled'' (ha_control_state (home (fst x)))\<rparr>\<rparr>"
  unfolding default_control_def by (rule fst_default_home) (simp_all add: fill_def)

lemma fst_default_active: "fst (default_active_source x) = (fst x)\<lparr>da_home_auto_session :=
    (home (fst x))\<lparr>ha_active_state_source := fill ''none'' (ha_active_state_source (home (fst x)))\<rparr>\<rparr>"
  unfolding default_active_source_def by (rule fst_default_home) (simp_all add: fill_def)

lemma fst_default_reconciliation: "fst (default_reconciliation x) = (fst x)\<lparr>da_home_auto_session :=
    (home (fst x))\<lparr>ha_reconciliation_state := fill ''clean_idle'' (ha_reconciliation_state (home (fst x)))\<rparr>\<rparr>"
  unfolding default_reconciliation_def by (rule fst_default_home) (simp_all add: fill_def)

lemma fst_set_if: "fst (set_if c f x) = (if c then f (fst x) else fst x)"
  by (simp add: set_if_def)

definition config_filled :: "home_auto \<Rightarrow> home_auto" where
  "config_filled h =
     (let version = fill ''local-default'' (ha_effective_config_version h)
      in h\<lparr>ha_effective_config_source := fill ''local_fallback'' (ha_effective_config_source h),
           ha_effective_config_version := version,
           ha_last_applied_config_ver := fill version (ha_last_applied_config_ver h),
           ha_last_config_apply_result := fill ''local_config_applied'' (ha_last_config_apply_result h),
           ha_desired_config_enabled := (if ha_desired_config_enabled h = None then Some False
                                         else ha_desired_config_enabled h),
           ha_desired_config_mode := fill ''off'' (ha_desired_config_mode h)\<rparr>)"

lemma fst_default_source: "fst (default_source x) = (fst x)\<lparr>da_home_auto_session :=
    (home (fst x))\<lparr>ha_effective_config_source := fill ''local_fallback'' (ha_effective_config_source (home (fst x)))\<rparr>\<rparr>"
  unfolding default_source_def by (rule fst_default_home) (simp_all add: fill_def)

lemma fst_default_version: "fst (default_version x) = (fst x)\<lparr>da_home_auto_session :=
    (home (fst x))\<lparr>ha_effective_config_version := fill ''local-default'' (ha_effective_config_version (home (fst x)))\<rparr>\<rparr>"
  unfolding default_version_def by (rule fst_default_home) (simp_all add: fill_def)

lemma fst_default_applied: "fst (default_applied x) = (fst x)\<lparr>da_home_auto_session :=
    (home (fst x))\<lparr>ha_last_applied_config_ver :=
       fill (ha_effective_config_version (home (fst x))) (ha_last_applied_config_ver (home (fst x)))\<rparr>\<rparr>"
  unfolding default_applied_def by (rule fst_default_home) (simp_all add: fill_def)

lemma fst_default_apply_result: "fst (default_apply_result x) = (fst x)\<lparr>da_home_auto_session :=
    (home (fst x))\<lparr>ha_last_config_apply_result :=
       fill ''local_config_applied'' (ha_last_config_apply_result (home (fst x)))\<rparr>\<rparr>"
  unfolding default_apply_result_def by (rule fst_default_home) (simp_all add: fill_def)

lemma fst_default_enabled: "fst (default_enabled x) = (fst x)\<lparr>da_home_auto_session :=
    (home (fst x))\<lparr>ha_desired_config_enabled := (if ha_desired_config_enabled (home (fst x)) = None
       then Some False else ha_desired_config_enabled (home (fst x)))\<rparr>\<rparr>"
  by (simp add: default_enabled_def set_if_def set_home_def)

lemma fst_default_mode: "fst (default_mode x) = (fst x)\<lparr>da_home_auto_session :=
    (home (fst x))\<lparr>ha_desired_config_mode := fill ''off'' (ha_desired_config_mode (home (fst x)))\<rparr>\<rparr>"
  unfolding default_mode_def by (rule fst_default_home) (simp_all add: fill_def)

lemma fst_default_config:
  "fst (default_config x) = (fst x)\<lparr>da_home_auto_session := config_filled (home (fst x))\<rparr>"
  by (simp add: default_config_def fst_default_source fst_default_version fst_default_applied
      fst_default_apply_result fst_default_enabled fst_default_mode config_filled_def Let_def)

lemma fst_default_created: "fst (default_created now x) = (fst x)\<lparr>da_installation := (da_installation (fst x))\<lparr>
    il_created_at := (if is_zero (il_created_at (da_installation (fst x))) then now
                      else il_created_at (da_installation (fst x)))\<rparr>\<rparr>"
  by (simp add: default_created_def set_if_def set_installation_def)

lemma fst_default_started: "fst (default_started now x) = (fst x)\<lparr>da_installation := (da_installation (fst x))\<lparr>
    il_last_started_at := (if is_zero (il_last_started_at (da_installation (fst x))) then now
                           else il_last_started_at (da_installation (fst x)))\<rparr>\<rparr>"
  by (simp add: default_started_def set_if_def set_installation_def)

lemma fst_default_phase: "fst (default_phase x) = (fst x)\<lparr>da_pairing := (da_pairing (fst x))\<lparr>
    pg_phase := (if pg_phase (da_pairing (fst x)) = [] then phase_unpaired else pg_phase (da_pairing (fst x)))\<rparr>\<rparr>"
  by (simp add: default_phase_def set_if_def)

lemma fst_default_install: "fst (default_install_type u x) = (fst x)\<lparr>da_runtime := (da_runtime (fst x))\<lparr>
    rt_install_type := (if rt_install_type (da_runtime (fst x)) = []
       then install_type_from_profile u (rt_profile (da_runtime (fst x))) else rt_install_type (da_runtime (fst x)))\<rparr>\<rparr>"
  by (simp add: default_install_type_def set_if_def)

lemma fst_default_status: "fst (default_update_status u x) = (fst x)\<lparr>da_update := (da_update (fst x))\<lparr>
    us_status := (if is_known_update_status u (us_status (da_update (fst x))) then us_status (da_update (fst x))
                  else ''unknown'')\<rparr>\<rparr>"
  by (simp add: default_update_status_def set_if_def)

lemmas fst_defaults = fst_default_module fst_default_control fst_default_active
  fst_default_reconciliation fst_default_config fst_default_created fst_default_started
  fst_default_phase fst_default_install fst_default_status

lemma blank_simps [simp]: "blank []" "blank (fill v s) \<longleftrightarrow> blank s \<and> blank v"
  by (auto simp: blank_def fill_def)

lemma not_blank_visible: "visible (hd s) \<Longrightarrow> visible (last s) \<Longrightarrow> s \<noteq> [] \<Longrightarrow> \<not> blank s"
  by (simp add: blank_def trim_space_visible)

lemma install_type_not_Nil: "install_type_from_profile u p \<noteq> []"
  by (simp add: install_type_from_profile_def Let_def)

lemma known_unknown: "is_known_update_status u ''unknown''"
  by (simp add: is_known_update_status_def trim_space_visible to_lower_def ascii_only_def lower_char_def)

definition rest_filled :: "state_env \<Rightarrow> time \<Rightarrow> state_data \<Rightarrow> state_data" where
  "rest_filled se now d = d\<lparr>
     da_installation := (da_installation d)\<lparr>
       il_created_at := (if is_zero (il_created_at (da_installation d)) then now
                         else il_created_at (da_installation d)),
       il_last_started_at := (if is_zero (il_last_started_at (da_installation d)) then now
                              else il_last_started_at (da_installation d))\<rparr>,
     da_pairing := (da_pairing d)\<lparr>pg_phase := (if pg_phase (da_pairing d) = [] then phase_unpaired
                                               else pg_phase (da_pairing d))\<rparr>,
     da_runtime := (da_runtime d)\<lparr>rt_install_type := (if rt_install_type (da_runtime d) = []
         then install_type_from_profile (se_unicode se) (rt_profile (da_runtime d))
         else rt_install_type (da_runtime d))\<rparr>,
     da_update := (da_update d)\<lparr>us_status :=
        (if is_known_update_status (se_unicode se) (us_status (da_update d)) then us_status (da_update d)
         else ''unknown'')\<rparr>,
     da_home_auto_session := config_filled ((home d)\<lparr>
       ha_module_state := fill ''disabled'' (ha_module_state (home d)),
       ha_control_state := fill ''disabled'' (ha_control_state (home d)),
       ha_active_state_source := fill ''none'' (ha_active_state_source (home d)),
       ha_reconciliation_state := fill ''clean_idle'' (ha_reconciliation_state (home d))\<rparr>)\<rparr>"

text \<open>The defaults in one step: the specification of \<open>ensureDefaults\<close> past the identifier.\<close>

lemma fst_ensure_rest: "fst (ensure_rest se now x) = rest_filled se now (fst x)"
  by (simp add: ensure_rest_def Let_def fst_defaults rest_filled_def)

lemma scrub_installation_iff: "scrub_installation tv x = x \<longleftrightarrow>
     tv (il_id x) = il_id x \<and>
     tv (il_local_name x) = il_local_name x \<and>
     tv (il_hostname x) = il_hostname x"
  by (cases x) (auto simp: scrub_installation_def)

lemma scrub_pairing_iff: "scrub_pairing tv x = x \<longleftrightarrow>
     tv (pg_phase x) = pg_phase x \<and>
     tv (pg_pairing_code x) = pg_pairing_code x \<and>
     tv (pg_install_session_id x) = pg_install_session_id x \<and>
     tv (pg_flow_key x) = pg_flow_key x \<and>
     tv (pg_activation_token x) = pg_activation_token x \<and>
     tv (pg_last_error x) = pg_last_error x \<and>
     tv (pg_last_change x) = pg_last_change x"
  by (cases x) (auto simp: scrub_pairing_def)

lemma scrub_cloud_iff: "scrub_cloud tv x = x \<longleftrightarrow>
     tv (cs_endpoint_url x) = cs_endpoint_url x \<and>
     tv (cs_config_version x) = cs_config_version x \<and>
     tv (cs_activate_endpoint x) = cs_activate_endpoint x \<and>
     tv (cs_heartbeat_endpoint x) = cs_heartbeat_endpoint x \<and>
     tv (cs_ingest_endpoint x) = cs_ingest_endpoint x \<and>
     tv (cs_owner_id x) = cs_owner_id x \<and>
     tv (cs_receiver_id x) = cs_receiver_id x \<and>
     tv (cs_receiver_label x) = cs_receiver_label x \<and>
     tv (cs_site_label x) = cs_site_label x \<and>
     tv (cs_group_label x) = cs_group_label x \<and>
     tv (cs_ingest_api_key_id x) = cs_ingest_api_key_id x \<and>
     tv (cs_ingest_api_key x) = cs_ingest_api_key x \<and>
     tv (cs_credential_ref x) = cs_credential_ref x \<and>
     tv (cs_credential_fingerprint x) = cs_credential_fingerprint x \<and>
     map (scrub_sample tv) (cs_clock_samples x) = cs_clock_samples x"
  by (cases x) (auto simp: scrub_cloud_def)

lemma scrub_runtime_iff: "scrub_runtime tv x = x \<longleftrightarrow>
     tv (rt_profile x) = rt_profile x \<and>
     tv (rt_mode x) = rt_mode x \<and>
     tv (rt_install_type x) = rt_install_type x"
  by (cases x) (auto simp: scrub_runtime_def)

lemma scrub_update_state_iff: "scrub_update_state tv x = x \<longleftrightarrow>
     tv (us_status x) = us_status x \<and>
     tv (us_summary x) = us_summary x \<and>
     tv (us_hint x) = us_hint x \<and>
     tv (us_manifest_version x) = us_manifest_version x \<and>
     tv (us_manifest_channel x) = us_manifest_channel x \<and>
     tv (us_recommended_version x) = us_recommended_version x \<and>
     tv (us_last_error x) = us_last_error x"
  by (cases x) (auto simp: scrub_update_state_def)

lemma scrub_home_auto_iff: "scrub_home_auto tv x = x \<longleftrightarrow>
     tv (ha_module_state x) = ha_module_state x \<and>
     tv (ha_control_state x) = ha_control_state x \<and>
     tv (ha_active_state_source x) = ha_active_state_source x \<and>
     tv (ha_reconciliation_state x) = ha_reconciliation_state x \<and>
     tv (ha_effective_config_source x) = ha_effective_config_source x \<and>
     tv (ha_effective_config_version x) = ha_effective_config_version x \<and>
     tv (ha_last_fetched_config_ver x) = ha_last_fetched_config_ver x \<and>
     tv (ha_last_applied_config_ver x) = ha_last_applied_config_ver x \<and>
     tv (ha_last_config_apply_result x) = ha_last_config_apply_result x \<and>
     tv (ha_last_config_apply_error x) = ha_last_config_apply_error x \<and>
     tv (ha_desired_config_mode x) = ha_desired_config_mode x \<and>
     tv (ha_active_session_id x) = ha_active_session_id x \<and>
     tv (ha_active_trigger_node x) = ha_active_trigger_node x \<and>
     tv (ha_pending_action x) = ha_pending_action x \<and>
     tv (ha_pending_trigger_node x) = ha_pending_trigger_node x \<and>
     tv (ha_pending_device_uid x) = ha_pending_device_uid x \<and>
     tv (ha_pending_reason x) = ha_pending_reason x \<and>
     tv (ha_pending_dedupe_key x) = ha_pending_dedupe_key x \<and>
     tv (ha_last_decision_reason x) = ha_last_decision_reason x \<and>
     tv (ha_last_start_dedupe_key x) = ha_last_start_dedupe_key x \<and>
     tv (ha_last_stop_dedupe_key x) = ha_last_stop_dedupe_key x \<and>
     tv (ha_last_action x) = ha_last_action x \<and>
     tv (ha_last_action_result x) = ha_last_action_result x \<and>
     tv (ha_last_successful_action x) = ha_last_successful_action x \<and>
     tv (ha_last_error x) = ha_last_error x \<and>
     tv (ha_blocked_reason x) = ha_blocked_reason x \<and>
     tv (ha_gps_status x) = ha_gps_status x \<and>
     tv (ha_gps_reason x) = ha_gps_reason x \<and>
     tv (ha_gps_node_id x) = ha_gps_node_id x"
  by (cases x) (auto simp: scrub_home_auto_def)

lemma scrub_state_iff: "scrub_state tv d = d \<longleftrightarrow>
     scrub_installation tv (da_installation d) = da_installation d \<and>
     scrub_pairing tv (da_pairing d) = da_pairing d \<and> scrub_cloud tv (da_cloud d) = da_cloud d \<and>
     scrub_runtime tv (da_runtime d) = da_runtime d \<and> scrub_update_state tv (da_update d) = da_update d \<and>
     scrub_home_auto tv (home d) = home d"
  by (cases d) (auto simp: scrub_state_def)

text \<open>States whose text has been through JSON; constants and digests are ASCII, so no step changes that.\<close>

abbreviation json_clean :: "state_env \<Rightarrow> state_data \<Rightarrow> bool" where
  "json_clean se d \<equiv> scrubbed se d = d"

lemma fill_text: "tv v = v \<Longrightarrow> tv s = s \<Longrightarrow> tv (fill v s) = fill v s"
  by (simp add: fill_def)

lemma ascii_constants [simp]:
  "ascii_only ''disabled''" "ascii_only ''none''" "ascii_only ''clean_idle''" "ascii_only ''local_fallback''"
  "ascii_only ''local-default''" "ascii_only ''local_config_applied''" "ascii_only ''off''"
  "ascii_only ''unknown''" "ascii_only phase_unpaired" "ascii_only phase_code_entered" "ascii_only phase_steady"
  "ascii_only (install_type_from_profile u p)" "ascii_only []"
  by (simp_all add: ascii_only_def phase_defs install_type_from_profile_def Let_def)

lemma rest_filled_clean:
  assumes "state_env_ok se" "json_clean se d"
  shows "json_clean se (rest_filled se now d)"
  using assms(2)
  by (simp add: rest_filled_def config_filled_def Let_def scrub_state_iff scrub_installation_iff scrub_pairing_iff
      scrub_runtime_iff scrub_update_state_iff scrub_home_auto_iff fill_text state_laws(7) [OF assms(1)])

lemma rest_filled_wf:
  assumes "il_id (da_installation d) \<noteq> []" "\<not> is_zero now"
  shows "has_defaults se (rest_filled se now d)"
proof -
  have visible: "\<not> blank ''disabled''" "\<not> blank ''none''" "\<not> blank ''clean_idle''" "\<not> blank ''local_fallback''"
    "\<not> blank ''local-default''" "\<not> blank ''local_config_applied''" "\<not> blank ''off''"
    by (rule not_blank_visible; simp)+
  show ?thesis
    using assms by (simp add: has_defaults_def rest_filled_def config_filled_def Let_def visible
        install_type_not_Nil known_unknown phase_unpaired_def) blast
qed

lemma ensure_defaults_wf:
  assumes "ensure_defaults se io d = Inr (d', ch)" "\<not> is_zero (si_now io)" "si_entropy io \<noteq> Some []"
  shows "has_defaults se d'" "da_schema_version d = 10 \<or> da_schema_version d = 0 \<Longrightarrow> da_schema_version d' = 10"
proof -
  define x where "x = set_if (da_schema_version d = 0) (\<lambda>d. d\<lparr>da_schema_version := 10\<rparr>) (d, False)"
  obtain y where y: "d' = fst (ensure_rest se (si_now io) y)" "il_id (da_installation (fst y)) \<noteq> []"
    "da_schema_version (fst y) = da_schema_version (fst x)"
  proof (cases "il_id (da_installation (fst x)) = []")
    case True
    then obtain i where i: "si_entropy io = Some i"
      using assms(1) by (cases "si_entropy io") (simp_all add: ensure_defaults_def x_def [symmetric])
    show thesis
      by (rule that [of "(set_installation (\<lambda>n. n\<lparr>il_id := i\<rparr>) (fst x), True)"])
        (use assms True i in \<open>simp_all add: ensure_defaults_def x_def [symmetric] set_installation_def
           eq_fst_iff\<close>)
  next
    case False
    show thesis
      by (rule that [of x]) (use assms False in \<open>simp_all add: ensure_defaults_def x_def [symmetric] eq_fst_iff\<close>)
  qed
  show "has_defaults se d'"
    unfolding y(1) fst_ensure_rest by (rule rest_filled_wf [OF y(2) assms(2)])
  assume "da_schema_version d = 10 \<or> da_schema_version d = 0"
  then show "da_schema_version d' = 10"
    unfolding y(1) fst_ensure_rest by (auto simp: rest_filled_def y(3) x_def)
qed

lemma upgrade_version: "fst (upgrade n f x) = max (n + 1) (fst x)"
  by (auto simp: upgrade_def split: prod.splits)

lemma migrate_steps_version:
  "fst (migrate_steps se x) = max 10 (fst x)"
proof -
  have absorb: "m \<le> n \<Longrightarrow> max n (max m v) = max n v" for m n v :: int by simp
  show ?thesis
    by (simp only: migrate_steps_def Let_def upgrade_version) (simp only: absorb; simp)
qed

lemma migrate_Inr:
  "migrate se d = Inr (d', m) \<Longrightarrow> da_schema_version d' = 10"
  using migrate_steps_version [of se "if da_schema_version d = 0 then (1, True, d) else (da_schema_version d, False, d)"]
  by (auto simp: migrate_def split: prod.splits if_splits)

lemma migrate_total:
  "(\<exists>d' m. migrate se d = Inr (d', m)) \<longleftrightarrow> da_schema_version d \<le> 10"
  using migrate_steps_version [of se "if da_schema_version d = 0 then (1, True, d) else (da_schema_version d, False, d)"]
  by (auto simp: migrate_def split: prod.splits if_splits)

lemma migrate_error: "migrate se d = Inl e \<Longrightarrow> e = SchemaNewer \<and> 10 < da_schema_version d"
  using migrate_steps_version [of se "if da_schema_version d = 0 then (1, True, d) else (da_schema_version d, False, d)"]
  by (auto simp: migrate_def split: prod.splits if_splits)

lemma ensure_defaults_clean:
  assumes ok: "state_env_ok se" and run: "ensure_defaults se io d = Inr (d', ch)" and d: "json_clean se d"
    and i: "\<forall>i. si_entropy io = Some i \<longrightarrow> ascii_only i"
  shows "json_clean se d'"
proof -
  define x where "x = set_if (da_schema_version d = 0) (\<lambda>d. d\<lparr>da_schema_version := 10\<rparr>) (d, False)"
  have x: "json_clean se (fst x)" using d by (simp add: x_def fst_set_if scrub_state_iff)
  obtain y where y: "d' = fst (ensure_rest se (si_now io) y)" "json_clean se (fst y)"
  proof (cases "il_id (da_installation (fst x)) = []")
    case True
    then obtain i where i': "si_entropy io = Some i"
      using run by (cases "si_entropy io") (simp_all add: ensure_defaults_def x_def [symmetric])
    have "json_clean se (set_installation (\<lambda>n. n\<lparr>il_id := i\<rparr>) (fst x))"
      using x i i' state_laws(7) [OF ok]
      by (simp add: set_installation_def scrub_state_iff scrub_installation_iff)
    with True i' run show thesis
      by (intro that [of "(set_installation (\<lambda>n. n\<lparr>il_id := i\<rparr>) (fst x), True)"])
        (simp_all add: ensure_defaults_def x_def [symmetric] eq_fst_iff)
  next
    case False
    with run x show thesis
      by (intro that [of x]) (simp_all add: ensure_defaults_def x_def [symmetric] eq_fst_iff)
  qed
  show ?thesis unfolding y(1) fst_ensure_rest by (rule rest_filled_clean [OF ok y(2)])
qed

lemmas json_clean_iffs = scrub_state_iff scrub_installation_iff scrub_pairing_iff scrub_cloud_iff
  scrub_runtime_iff scrub_update_state_iff scrub_home_auto_iff

lemma upgrade_clean:
  assumes "\<And>d. json_clean se d \<Longrightarrow> json_clean se (f d)" "json_clean se (snd (snd x))"
  shows "json_clean se (snd (snd (upgrade n f x)))"
  using assms by (auto simp: upgrade_def split: prod.splits)

lemma set_phase_clean: "json_clean se d \<Longrightarrow> se_text se p = p \<Longrightarrow> json_clean se (set_phase p d)"
  by (simp add: set_phase_def json_clean_iffs)

lemma migrate_clean_steps:
  assumes ok: "state_env_ok se" and d: "json_clean se d"
  shows "json_clean se (migrate_1 d)" "json_clean se (migrate_2 u d)" "json_clean se (migrate_3 d)" "json_clean se (migrate_4 d)"
    "json_clean se (migrate_5 d)" "json_clean se (migrate_6 d)" "json_clean se (migrate_7 se d)" "json_clean se (migrate_8 d)"
    "json_clean se (migrate_9 d)"
proof -
  note utf = state_laws(7,8) [OF ok] fill_text
  note unf = fst_defaults config_filled_def json_clean_iffs Let_def
  show "json_clean se (migrate_1 d)"
    using d by (simp add: migrate_1_def Let_def set_phase_clean utf)
  show "json_clean se (migrate_2 u d)" using d by (simp add: migrate_2_def unf utf)
  show "json_clean se (migrate_3 d)" using d by (simp add: migrate_3_def unf utf)
  show "json_clean se (migrate_4 d)" using d by (simp add: migrate_4_def unf utf)
  show "json_clean se (migrate_5 d)" using d by (simp add: migrate_5_def unf utf)
  show "json_clean se (migrate_6 d)" using d by (simp add: migrate_6_def unf utf)
  show "json_clean se (migrate_7 se d)"
    using d by (simp add: migrate_7_def unf utf credential_fingerprint_def)
  show "json_clean se (migrate_8 d)"
    using d by (simp add: migrate_8_def set_installation_def json_clean_iffs)
  have "map f (drop n xs) = drop n xs" if "map f xs = xs" for f :: "sample \<Rightarrow> sample" and n xs
    by (metis drop_map that)
  then show "json_clean se (migrate_9 d)"
    using d by (simp add: migrate_9_def Let_def json_clean_iffs)
qed

lemma migrate_clean:
  assumes ok: "state_env_ok se" and run: "migrate se d = Inr (d', m)" and d: "json_clean se d"
  shows "json_clean se d'"
proof -
  let ?x = "if da_schema_version d = 0 then (1, True, d) else (da_schema_version d, False, d)"
  obtain v c d1 where steps: "migrate_steps se ?x = (v, c, d1)" by (metis prod.exhaust)
  have "json_clean se (snd (snd (migrate_steps se ?x)))"
    unfolding migrate_steps_def Let_def
    by (intro upgrade_clean migrate_clean_steps ok) (use d in auto)
  then have "json_clean se d1" by (simp only: steps snd_conv)
  moreover have "d' = d1 \<or> d' = d1\<lparr>da_schema_version := v\<rparr>"
    using run unfolding migrate_def steps by (simp split: if_splits)
  ultimately show ?thesis by (auto simp: scrub_state_iff)
qed

lemma no_state_clean: "state_env_ok se \<Longrightarrow> json_clean se no_state_data"
  using state_laws(7) [of se "[]"]
  by (simp add: json_clean_iffs no_state_data_def no_installation_def no_pairing_def no_cloud_def no_runtime_def
      no_update_state_def no_home_auto_def)

lemma decode_bytes_clean:
  assumes ok: "state_env_ok se" and run: "decode_state_bytes se raw = Inr (d, recovered)"
  shows "json_clean se d"
proof -
  note law = decode_scrubbed [OF ok]
  obtain d1 ok1 where 1: "se_decode se raw no_state_data = (d1, ok1)" by fastforce
  have c1: "json_clean se d1" by (rule law [OF 1 no_state_clean [OF ok]])
  define t where "t = trim_bytes padding raw"
  obtain d2 ok2 where 2: "(if t \<noteq> [] \<and> t \<noteq> raw then se_decode se t d1 else (d1, False)) = (d2, ok2)" by fastforce
  have c2: "json_clean se d2" using 2 c1 law [of t d1 d2 ok2] by (auto split: if_splits)
  obtain d3 ok3 where 3: "(if t \<noteq> [] then (case brace_range t of None \<Rightarrow> (d2, False)
      | Some candidate \<Rightarrow> se_decode se candidate d2) else (d2, False)) = (d3, ok3)" by fastforce
  have c3: "json_clean se d3" using 3 c2 law by (auto split: if_splits option.splits)
  define n where "n = filter (\<lambda>c. c \<noteq> char_of (0 :: nat)) raw"
  obtain d4 ok4 where 4: "(if n \<noteq> [] \<and> n \<noteq> raw then se_decode se n d3 else (d3, False)) = (d4, ok4)" by fastforce
  have c4: "json_clean se d4" using 4 c3 law [of n d3 d4 ok4] by (auto split: if_splits)
  obtain d5 ok5 where 5: "se_decode se raw d4 = (d5, ok5)" by fastforce
  have c5: "json_clean se d5" by (rule law [OF 5 c4])
  show ?thesis
    using run c1 c2 c3 c4 c5
    by (auto simp: decode_state_bytes_def Let_def 1 2 3 4 5 t_def [symmetric] n_def [symmetric] split: if_splits)
qed

section \<open>The changed flag\<close>

definition flagged :: "'a \<times> bool \<Rightarrow> 'a \<times> bool \<Rightarrow> bool" where
  "flagged x y \<longleftrightarrow> snd y \<or> y = x"

lemma flagged_trans: "flagged x y \<Longrightarrow> flagged y z \<Longrightarrow> flagged x z"
  by (auto simp: flagged_def)

lemma flagged_set_if: "flagged x y \<Longrightarrow> flagged x (set_if c f y)"
  by (auto simp: flagged_def set_if_def)

lemma flagged_home: "flagged x y \<Longrightarrow> flagged x (default_home field f y)"
  by (simp add: default_home_def flagged_set_if)

lemma flagged_ensure_rest: "flagged x (ensure_rest se now x)"
  by (simp add: ensure_rest_def Let_def default_defs flagged_set_if flagged_home)
    (intro flagged_home flagged_set_if, simp add: flagged_def)

lemma ensure_defaults_unchanged:
  assumes "ensure_defaults se io d = Inr (d', False)"
  shows "d' = d"
proof -
  have t: "snd (ensure_rest se now (y, True))" for now y
    using flagged_ensure_rest [of "(y, True)" se now] by (auto simp: flagged_def)
  have "ensure_rest se (si_now io) (d, False) = (d', False) \<Longrightarrow> d' = d"
    using flagged_ensure_rest [of "(d, False)" se "si_now io"] by (auto simp: flagged_def)
  moreover have "ensure_rest se now (y, True) \<noteq> (d', False)" for now y
    using t [of now y] by auto
  ultimately show ?thesis
    using assms by (auto simp: ensure_defaults_def set_if_def Let_def split: if_splits option.splits)
qed

lemma migrate_unchanged:
  assumes "migrate se d = Inr (d', False)"
  shows "d' = d"
proof -
  let ?x = "if da_schema_version d = 0 then (1, True, d) else (da_schema_version d, False, d)"
  have up: "snd x = y \<Longrightarrow> fst (snd (upgrade n f x)) \<or> snd (upgrade n f x) = y" for x y n f
    by (auto simp: upgrade_def split: prod.splits)
  have keep: "fst (snd x) \<Longrightarrow> fst (snd (upgrade n f x))" for x n f
    by (auto simp: upgrade_def split: prod.splits)
  have both: "fst (snd x) \<or> snd x = y \<Longrightarrow> fst (snd (upgrade n f x)) \<or> snd (upgrade n f x) = y" for x y n f
    using up keep by blast
  have "fst (snd (migrate_steps se ?x)) \<or> snd (migrate_steps se ?x) = snd ?x"
    unfolding migrate_steps_def Let_def by (intro both) simp
  then show ?thesis
    using assms by (auto simp: migrate_def split: prod.splits if_splits)
qed

section \<open>Opening\<close>

lemma commit_good:
  assumes ok: "state_env_ok se" and fine: "\<forall>st. \<not> si_fail io st"
  shows "commit_state se io d s = (Inl MarshalData, s) \<or>
    (\<exists>s'. commit_state se io d s = (Inr (), s') \<and> sv_data s' = stamp (si_now io) d \<and>
       sv_backup s' = sv_backup s \<and> reads_as se (sv_file s') (scrubbed se (stamp (si_now io) d)))"
proof (cases "se_indent se (stamp (si_now io) d)")
  case None
  then show ?thesis using fine by (simp add: commit_state_def write_state_def)
next
  case (Some raw)
  then show ?thesis
    using fine indent_reads_as [OF ok Some] by (simp add: commit_state_def write_state_def Let_def)
qed

lemma save_good:
  assumes ok: "state_env_ok se" and fine: "\<forall>st. \<not> si_fail io st" and clean: "json_clean se (sv_data s)"
  shows "save_state se io s = (Inl MarshalData, s) \<or>
    (\<exists>s'. save_state se io s = (Inr (), s') \<and> sv_data s' = stamp (si_now io) (sv_data s) \<and>
       sv_backup s' = sv_backup s \<and> reads_as se (sv_file s') (sv_data s'))"
proof (cases "se_marshal se (sv_data s)")
  case None
  then show ?thesis by (simp add: save_state_def clone_data_def)
next
  case (Some raw)
  have st: "scrubbed se (stamp t (sv_data s)) = stamp t (sv_data s)" for t
    using clean by (simp add: stamp_def scrub_state_iff)
  have "clone_data se (sv_data s) = Inr (sv_data s)"
    using Some state_laws(1) [OF ok Some] clean by (simp add: clone_data_def)
  then show ?thesis
    using commit_good [OF ok fine, of "sv_data s" s] by (auto simp: save_state_def st)
qed

lemma stamp_wf: "state_wf se d \<Longrightarrow> state_wf se (stamp t d)"
  by (simp add: state_wf_def has_defaults_def stamp_def)

text \<open>
  C15. Opening upgrades: a file that can be decoded (also after stripping padding, or from an older
  schema) opens to a state of the current schema with every default in place, and the file then reads
  as exactly that state, so that the next start finds it unchanged; a file of a newer schema is refused
  and left alone. (Nothing fails on the way; the one other outcome is a state that JSON cannot express.)
\<close>
theorem state_open_upgrades:
  assumes "state_env_ok se" "decode_state_bytes se raw = Inr (d, recovered)" "si_read io"
    and "\<forall>st. \<not> si_fail io st" "si_entropy io = Some i" "i \<noteq> []" "ascii_only i" "\<not> is_zero (si_now io)"
    and "open_state se io (Some raw) b = (r, s)"
  shows "if 10 < da_schema_version d then r = Inl SchemaNewer \<and> sv_file s = Some raw
    else r = Inl MarshalData \<or> (r = Inr () \<and> state_wf se (sv_data s) \<and> reads_as se (sv_file s) (sv_data s) \<and>
      sv_backup s = b)"
proof -
  let ?s = "\<lparr>sv_data = d, sv_recovered = recovered, sv_file = Some raw, sv_backup = b\<rparr>"
  have loaded: "open_loaded se io ?s = (r, s)"
    using assms(2,3,9) by (simp add: open_state_def load_state_def)
  show ?thesis
  proof (cases "migrate se d")
    case (Inl e)
    from loaded migrate_error [OF this] Inl show ?thesis by (auto simp: open_loaded_def)
  next
    case (Inr x)
    obtain d1 m where mig: "migrate se d = Inr (d1, m)" using Inr by (cases x) auto
    have le: "da_schema_version d \<le> 10" using mig migrate_total [of se d] by blast
    have v1: "da_schema_version d1 = 10" by (rule migrate_Inr [OF mig])
    have "ensure_defaults se io d1 \<noteq> Inl e" for e
      using assms(5) by (simp add: ensure_defaults_def Let_def)
    then obtain d2 ch where ens: "ensure_defaults se io d1 = Inr (d2, ch)"
      by (cases "ensure_defaults se io d1") auto
    have wf: "state_wf se d2"
      using ensure_defaults_wf [OF ens assms(8)] v1 assms(5,6) by (simp add: state_wf_def)
    have clean: "json_clean se d2"
      using ensure_defaults_clean [OF assms(1) ens]
        migrate_clean [OF assms(1) mig decode_bytes_clean [OF assms(1,2)]] assms(5,7) by simp
    show ?thesis
    proof (cases "ch \<or> m \<or> recovered")
      case True
      then have "save_state se io (?s\<lparr>sv_data := d2\<rparr>) = (r, s)"
        using loaded mig ens by (simp add: open_loaded_def)
      with save_good [OF assms(1,4), of "?s\<lparr>sv_data := d2\<rparr>"] clean wf le stamp_wf [of se d2 "si_now io"]
      show ?thesis by auto
    next
      case False
      then have "d1 = d" "d2 = d1" using mig ens migrate_unchanged ensure_defaults_unchanged by auto
      then show ?thesis
        using False loaded mig ens wf le assms(2) by (auto simp: open_loaded_def reads_as_def)
    qed
  qed
qed

section \<open>Recovering a padded or damaged file\<close>

lemma trim_padding:
  assumes "set pre \<subseteq> ws" "set post \<subseteq> ws" "raw \<noteq> []" "hd raw \<notin> ws" "last raw \<notin> ws"
  shows "trim_bytes ws (pre @ raw @ post) = raw"
proof -
  have 1: "dropWhile (\<lambda>c. c \<in> ws) (pre @ raw @ post) = raw @ post"
    using assms by (cases raw) (auto simp: dropWhile_append2 subset_iff)
  have "dropWhile (\<lambda>c. c \<in> ws) (rev post @ rev raw) = dropWhile (\<lambda>c. c \<in> ws) (rev raw)"
    by (rule dropWhile_append2) (use assms(2) in auto)
  also have "\<dots> = rev raw" using assms(3,5) by (cases raw rule: rev_cases) auto
  finally have "dropWhile (\<lambda>c. c \<in> ws) (rev post @ rev raw) = rev raw" .
  then show ?thesis by (simp add: trim_bytes_def 1)
qed

text \<open>
  A power loss that left NUL bytes or blanks around the state loses nothing: when the text between
  them decodes, the file decodes to the same value (a syntax error in the padded text leaves nothing
  behind).
\<close>
lemma state_padding_recovered:
  assumes "set pre \<subseteq> padding" "set post \<subseteq> padding" "raw \<noteq> []" "hd raw \<notin> padding" "last raw \<notin> padding"
    and "se_decode se raw no_state_data = (d, True)"
    and "se_decode se (pre @ raw @ post) no_state_data \<in> {(no_state_data, False), (d, True)}"
  shows "\<exists>recovered. decode_state_bytes se (pre @ raw @ post) = Inr (d, recovered)"
proof -
  have t: "trim_bytes padding (pre @ raw @ post) = raw" by (rule trim_padding [OF assms(1-5)])
  show ?thesis
  proof (cases "se_decode se (pre @ raw @ post) no_state_data = (d, True)")
    case True
    then show ?thesis by (auto simp: decode_state_bytes_def)
  next
    case False
    then have "se_decode se (pre @ raw @ post) no_state_data = (no_state_data, False)" using assms(7) by blast
    moreover from this have "pre @ raw @ post \<noteq> raw" using assms(6) by auto
    ultimately show ?thesis
      using assms(3,6) by (auto simp: decode_state_bytes_def Let_def t)
  qed
qed

lemma save_file_cases:
  assumes "state_env_ok se" "save_state se io s = (r, s')"
  shows "sv_file s' = sv_file s \<or> reads_as se (sv_file s') (scrubbed se (stamp (si_now io) (scrubbed se (sv_data s))))"
    "sv_backup s' = sv_backup s"
proof -
  have keep: "sv_backup y = sv_backup x" if "commit_state se io d x = (r', y)" for d x r' y
    using that by (auto simp: commit_state_def write_state_def Let_def split: if_splits option.splits)
  show "sv_file s' = sv_file s \<or> reads_as se (sv_file s') (scrubbed se (stamp (si_now io) (scrubbed se (sv_data s))))"
  proof (cases "clone_data se (sv_data s)")
    case (Inr c)
    then have "commit_state se io (scrubbed se (sv_data s)) s = (r, s')"
      using assms clone_data_Inr [OF assms(1) Inr] by (simp add: save_state_def)
    from commit_state_cases [OF assms(1) this] show ?thesis by cases simp_all
  qed (use assms(2) in \<open>simp add: save_state_def\<close>)
  show "sv_backup s' = sv_backup s"
    using assms(2) keep by (auto simp: save_state_def split: sum.splits)
qed

text \<open>
  Opening destroys nothing, whatever fails on the way: a file that cannot be decoded is still there
  or is the backup afterwards, byte for byte; a file that can be decoded is still there or reads as its
  upgraded state.
\<close>
lemma state_open_preserves:
  assumes "state_env_ok se" "open_state se io (Some raw) b = (r, s)"
  shows "case decode_state_bytes se raw of
      Inl e \<Rightarrow> sv_file s = Some raw \<or> sv_backup s = Some raw
    | Inr (d, recovered) \<Rightarrow> sv_file s = Some raw \<or>
        (\<exists>d1 m d2 ch. migrate se d = Inr (d1, m) \<and> ensure_defaults se io d1 = Inr (d2, ch) \<and>
           reads_as se (sv_file s) (scrubbed se (stamp (si_now io) (scrubbed se d2))))"
proof (cases "si_read io")
  case False
  then have "sv_file s = Some raw" using assms(2) by (auto simp: open_state_def load_state_def)
  then show ?thesis by (auto split: sum.splits)
next
  case read: True
  show ?thesis
  proof (cases "decode_state_bytes se raw")
    case (Inl e)
    have fresh: "sv_backup s' = sv_backup x" if "open_fresh se io x = (r', s')" for x r' s'
      using that save_file_cases(2) [OF assms(1)]
      by (fastforce simp: open_fresh_def split: sum.splits prod.splits)
    show ?thesis
    proof (cases "si_backup io")
      case Renamed
      with assms(2) Inl read fresh show ?thesis
        by (fastforce simp: open_state_def load_state_def backup_corrupt_def)
    next
      case Copied
      with assms(2) Inl read fresh show ?thesis
        by (fastforce simp: open_state_def load_state_def backup_corrupt_def)
    qed (use assms(2) Inl read in \<open>auto simp: open_state_def load_state_def backup_corrupt_def\<close>)
  next
    case (Inr x)
    obtain d recovered where x: "x = (d, recovered)" by fastforce
    let ?s = "\<lparr>sv_data = d, sv_recovered = recovered, sv_file = Some raw, sv_backup = b\<rparr>"
    have loaded: "open_loaded se io ?s = (r, s)"
      using assms(2) Inr read by (simp add: open_state_def load_state_def x)
    show ?thesis
    proof (cases "migrate se d")
      case (Inl e)
      with loaded show ?thesis by (auto simp: open_loaded_def \<open>decode_state_bytes se raw = Inr x\<close> x)
    next
      case mig: (Inr y)
      obtain d1 m where y: "y = (d1, m)" by fastforce
      show ?thesis
      proof (cases "ensure_defaults se io d1")
        case (Inl e)
        with loaded mig show ?thesis by (auto simp: open_loaded_def \<open>decode_state_bytes se raw = Inr x\<close> x y)
      next
        case ens: (Inr z)
        obtain d2 ch where z: "z = (d2, ch)" by fastforce
        have "sv_file s = Some raw \<or> save_state se io (?s\<lparr>sv_data := d2\<rparr>) = (r, s)"
          using loaded mig ens by (auto simp: open_loaded_def y z split: if_splits)
        then have "sv_file s = Some raw \<or>
            reads_as se (sv_file s) (scrubbed se (stamp (si_now io) (scrubbed se d2)))"
          using save_file_cases(1) [OF assms(1), of io "?s\<lparr>sv_data := d2\<rparr>" r s] by auto
        then show ?thesis using mig ens by (simp add: Inr x y z)
      qed
    qed
  qed
qed

section \<open>Generations\<close>

definition leaves_generations :: "(state_data \<Rightarrow> state_data) \<Rightarrow> bool" where
  "leaves_generations f \<longleftrightarrow> (\<forall>d.
     cs_credential_generation (da_cloud (f d)) = cs_credential_generation (da_cloud d) \<and>
     cs_binding_generation (da_cloud (f d)) = cs_binding_generation (da_cloud d) \<and>
     cs_credential_fingerprint (da_cloud (f d)) = cs_credential_fingerprint (da_cloud d))"

text \<open>The states a store went through by updates, newest first.\<close>

inductive state_history :: "state_env \<Rightarrow> state_data list \<Rightarrow> bool" for se where
  history_start: "ascii_only (cs_credential_fingerprint (da_cloud d)) \<Longrightarrow> state_history se [d]"
| history_update: "state_history se (d # ds) \<Longrightarrow> leaves_generations f \<Longrightarrow>
    state_history se (next_state se io f d # d # ds)"

abbreviation fingerprint :: "state_data \<Rightarrow> string" where
  "fingerprint d \<equiv> cs_credential_fingerprint (da_cloud d)"

abbreviation cred_gen :: "state_data \<Rightarrow> nat" where
  "cred_gen d \<equiv> unat (cs_credential_generation (da_cloud d))"

abbreviation bind_gen :: "state_data \<Rightarrow> nat" where
  "bind_gen d \<equiv> unat (cs_binding_generation (da_cloud d))"

lemma next_state_cloud:
  "da_cloud (next_state se io f d) = da_cloud (normalize_generations se d (f (scrubbed se d)))"
  "da_installation (next_state se io f d) = da_installation (f (scrubbed se d))"
  by (simp_all add: next_state_def stamp_def normalize_generations_def Let_def)

lemma scrubbed_generations:
  "cs_credential_generation (da_cloud (scrubbed se d)) = cs_credential_generation (da_cloud d)"
  "cs_binding_generation (da_cloud (scrubbed se d)) = cs_binding_generation (da_cloud d)"
  "fingerprint (scrubbed se d) = se_text se (fingerprint d)"
  by (simp_all add: scrub_state_def scrub_cloud_def)

lemma next_credential:
  fixes io
  assumes "state_env_ok se" "leaves_generations f" "ascii_only (fingerprint d)"
  defines "n \<equiv> next_state se io f d"
  shows "fingerprint n = credential_fingerprint se (cs_ingest_api_key (da_cloud n))"
    "ascii_only (fingerprint n)"
    "cs_credential_generation (da_cloud n) = cs_credential_generation (da_cloud d) +
       (if fingerprint n \<noteq> fingerprint d \<and> fingerprint n \<noteq> [] then 1 else 0)"
proof -
  let ?c = "da_cloud (f (scrubbed se d))"
  have same: "cs_credential_fingerprint ?c = fingerprint d"
    "cs_credential_generation ?c = cs_credential_generation (da_cloud d)"
    using assms(2) state_laws(7) [OF assms(1,3)] by (simp_all add: leaves_generations_def scrubbed_generations)
  have key: "cs_ingest_api_key (da_cloud n) = cs_ingest_api_key ?c"
    by (simp add: n_def next_state_cloud normalize_generations_def normalize_credential_def Let_def)
  have fp: "fingerprint n = credential_fingerprint se (cs_ingest_api_key ?c)"
    by (auto simp: n_def next_state_cloud normalize_generations_def normalize_credential_def Let_def same)
  show "fingerprint n = credential_fingerprint se (cs_ingest_api_key (da_cloud n))" by (simp add: fp key)
  then show "ascii_only (fingerprint n)"
    using state_laws(8) [OF assms(1)] by (simp add: credential_fingerprint_def)
  show "cs_credential_generation (da_cloud n) = cs_credential_generation (da_cloud d) +
      (if fingerprint n \<noteq> fingerprint d \<and> fingerprint n \<noteq> [] then 1 else 0)"
    unfolding fp by (simp add: n_def next_state_cloud normalize_generations_def normalize_credential_def Let_def same)
qed

lemma next_binding:
  fixes io d se
  assumes "leaves_generations f"
  defines "n \<equiv> next_state se io f d"
  shows "cs_binding_generation (da_cloud n) = cs_binding_generation (da_cloud d) +
       (if binding_text n \<noteq> binding_text d \<and> is_bound (da_cloud n) then 1 else 0)"
    "binding_text n \<noteq> binding_text d \<Longrightarrow> cs_clock_samples (da_cloud n) = []"
proof -
  have moved: "binding_text n = binding_text (f (scrubbed se d))"
    by (simp add: n_def binding_text_def next_state_cloud normalize_generations_def normalize_credential_def Let_def)
  have same: "cs_binding_generation (da_cloud (f (scrubbed se d))) = cs_binding_generation (da_cloud d)"
    using assms(1) by (simp add: leaves_generations_def scrubbed_generations)
  show "cs_binding_generation (da_cloud n) = cs_binding_generation (da_cloud d) +
      (if binding_text n \<noteq> binding_text d \<and> is_bound (da_cloud n) then 1 else 0)"
    unfolding moved
    by (simp add: n_def next_state_cloud normalize_generations_def normalize_credential_def is_bound_def same Let_def)
  show "binding_text n \<noteq> binding_text d \<Longrightarrow> cs_clock_samples (da_cloud n) = []"
    unfolding moved
    by (simp add: n_def next_state_cloud normalize_generations_def normalize_credential_def Let_def)
qed

definition nul_free :: "state_data \<Rightarrow> bool" where
  "nul_free d \<longleftrightarrow> char_of (0 :: nat) \<notin> set (cs_owner_id (da_cloud d)) \<union> set (cs_receiver_id (da_cloud d))"

definition principal :: "state_data \<Rightarrow> string \<times> string \<times> string" where
  "principal d = (cs_owner_id (da_cloud d), cs_receiver_id (da_cloud d), il_id (da_installation d))"

lemma separator_unique: "x @ c # y = x' @ c # y' \<Longrightarrow> c \<notin> set x \<Longrightarrow> c \<notin> set x' \<Longrightarrow> x = x' \<and> y = y'"
proof (induction x arbitrary: x')
  case Nil
  then show ?case by (cases x') auto
next
  case (Cons a x)
  then show ?case by (cases x') auto
qed

lemma binding_text_principal:
  assumes "nul_free a" "nul_free b" "binding_text a = binding_text b"
  shows "principal a = principal b"
proof -
  let ?c = "char_of (0 :: nat) :: char"
  have free: "?c \<notin> set (cs_owner_id (da_cloud a))" "?c \<notin> set (cs_owner_id (da_cloud b))"
    "?c \<notin> set (cs_receiver_id (da_cloud a))" "?c \<notin> set (cs_receiver_id (da_cloud b))"
    using assms(1,2) unfolding nul_free_def by blast+
  have "cs_owner_id (da_cloud a) @ ?c # (cs_receiver_id (da_cloud a) @ ?c # il_id (da_installation a)) =
      cs_owner_id (da_cloud b) @ ?c # (cs_receiver_id (da_cloud b) @ ?c # il_id (da_installation b))"
    using assms(3) by (simp only: binding_text_def append.simps append_assoc)
  from separator_unique [OF this free(1,2)]
  have owner: "cs_owner_id (da_cloud a) = cs_owner_id (da_cloud b)"
    and rest: "cs_receiver_id (da_cloud a) @ ?c # il_id (da_installation a) =
      cs_receiver_id (da_cloud b) @ ?c # il_id (da_installation b)" by (rule conjunct1, rule conjunct2)
  from separator_unique [OF rest free(3,4)] owner show ?thesis by (simp only: principal_def)
qed

lemma unat_grow: "unat (w :: 64 word) + k < 2 ^ 64 \<Longrightarrow> unat (w + of_nat k) = unat w + k"
  by (simp add: unat_word_ariths unat_of_nat)

definition same_generation :: "state_data \<Rightarrow> state_data \<Rightarrow> bool" where
  "same_generation p n \<longleftrightarrow> cred_gen p \<le> cred_gen n \<and> bind_gen p \<le> bind_gen n \<and>
     (cred_gen p = cred_gen n \<and> fingerprint p \<noteq> [] \<and> fingerprint n \<noteq> [] \<longrightarrow> fingerprint p = fingerprint n)"

definition same_binding :: "state_data \<Rightarrow> state_data \<Rightarrow> bool" where
  "same_binding p n \<longleftrightarrow>
     (bind_gen p = bind_gen n \<and> is_bound (da_cloud p) \<and> is_bound (da_cloud n) \<longrightarrow> principal p = principal n)"

lemma history_generations:
  assumes ok: "state_env_ok se" and "state_history se xs"
    and "cred_gen (last xs) + length xs \<le> 2 ^ 64" "bind_gen (last xs) + length xs \<le> 2 ^ 64"
  shows "ascii_only (fingerprint (hd xs)) \<and> cred_gen (hd xs) < cred_gen (last xs) + length xs \<and>
    bind_gen (hd xs) < bind_gen (last xs) + length xs \<and> (\<forall>p \<in> set xs. same_generation p (hd xs)) \<and>
    ((\<forall>d \<in> set xs. nul_free d) \<longrightarrow> (\<forall>p \<in> set xs. same_binding p (hd xs)))"
  using assms(2-)
proof (induction rule: state_history.induct)
  case (history_start d)
  then show ?case by (simp add: same_generation_def same_binding_def)
next
  case (history_update d ds f io)
  let ?n = "next_state se io f d"
  have IH: "ascii_only (fingerprint d)" "cred_gen d < cred_gen (last (d # ds)) + length (d # ds)"
    "bind_gen d < bind_gen (last (d # ds)) + length (d # ds)" "\<forall>p \<in> set (d # ds). same_generation p d"
    "(\<forall>x \<in> set (d # ds). nul_free x) \<longrightarrow> (\<forall>p \<in> set (d # ds). same_binding p d)"
    using history_update.IH history_update.prems by simp_all
  note cred = next_credential [OF ok history_update(2) IH(1), of io]
  note bind = next_binding [OF history_update(2), of se io d]
  have room: "cred_gen d + 1 < 2 ^ 64" "bind_gen d + 1 < 2 ^ 64"
    using IH(2,3) history_update.prems by simp_all
  have cg: "cred_gen ?n = cred_gen d + (if fingerprint ?n \<noteq> fingerprint d \<and> fingerprint ?n \<noteq> [] then 1 else 0)"
    using room(1) unat_grow [of "cs_credential_generation (da_cloud d)" 1] by (simp add: cred(3))
  have bg: "bind_gen ?n = bind_gen d + (if binding_text ?n \<noteq> binding_text d \<and> is_bound (da_cloud ?n) then 1 else 0)"
    using room(2) unat_grow [of "cs_binding_generation (da_cloud d)" 1] by (simp add: bind(1))
  have "same_generation p ?n" if "p \<in> set (d # ds)" for p
  proof -
    have "same_generation p d" using IH(4) that by blast
    then show ?thesis using cg bg unfolding same_generation_def by (auto split: if_splits)
  qed
  moreover have "same_generation ?n ?n" "same_binding ?n ?n" by (simp_all add: same_generation_def same_binding_def)
  moreover have "same_binding p ?n" if nul: "\<forall>x \<in> set (?n # d # ds). nul_free x" and p: "p \<in> set (d # ds)" for p
  proof -
    have text_eq: "binding_text ?n = binding_text d \<Longrightarrow> principal ?n = principal d"
      using nul by (intro binding_text_principal) auto
    then have bound_eq: "binding_text ?n = binding_text d \<Longrightarrow> is_bound (da_cloud ?n) = is_bound (da_cloud d)"
      by (auto simp: principal_def is_bound_def)
    have "same_binding p d" "bind_gen p \<le> bind_gen d" using IH(4,5) nul p by (auto simp: same_generation_def)
    then show ?thesis using bg text_eq bound_eq unfolding same_binding_def by (auto split: if_splits)
  qed
  ultimately show ?case using IH(1-3) cred(2) cg bg by auto
qed

text \<open>
  C16. Generations identify what they count, over the whole history of a store (every update leaves the
  generations to the store, and there are fewer than 2 to the 64 updates): they never decrease; two states
  with a credential and the same credential generation have the same credential (fingerprint); and two
  bound states with the same binding generation belong to the same owner, receiver and installation,
  provided that no owner or receiver id of the history holds a NUL byte. (Ids are joined with NUL bytes
  when bindings are compared, and \<open>binding_collision\<close> shows the collision that the proviso excludes.)
\<close>
theorem state_generations_identify:
  assumes "state_env_ok se" "state_history se (n # ds)" "p \<in> set (n # ds)"
    and "cred_gen (last (n # ds)) + length (n # ds) \<le> 2 ^ 64" "bind_gen (last (n # ds)) + length (n # ds) \<le> 2 ^ 64"
  shows "cs_credential_generation (da_cloud p) \<le> cs_credential_generation (da_cloud n) \<and>
    cs_binding_generation (da_cloud p) \<le> cs_binding_generation (da_cloud n) \<and>
    (cs_credential_generation (da_cloud p) = cs_credential_generation (da_cloud n) \<and>
       fingerprint p \<noteq> [] \<and> fingerprint n \<noteq> [] \<longrightarrow> fingerprint p = fingerprint n) \<and>
    ((\<forall>d \<in> set (n # ds). nul_free d) \<and> cs_binding_generation (da_cloud p) = cs_binding_generation (da_cloud n) \<and>
       is_bound (da_cloud p) \<and> is_bound (da_cloud n) \<longrightarrow> principal p = principal n)"
proof -
  have "same_generation p n" "(\<forall>d \<in> set (n # ds). nul_free d) \<longrightarrow> same_binding p n"
    using history_generations [OF assms(1,2,4,5)] assms(3) by (auto simp del: last.simps)
  then show ?thesis by (auto simp: same_generation_def same_binding_def word_le_nat_alt)
qed

text \<open>Two bound principals whose ids join to one text: the update from one to the other keeps the generation.\<close>

lemma binding_collision:
  defines "z \<equiv> char_of (0 :: nat) :: char"
  assumes "cs_owner_id (da_cloud d) = ''o''" "cs_receiver_id (da_cloud d) = ''r'' @ [z] @ ''s''"
    and "il_id (da_installation d) = ''i''" "leaves_generations f" "da_installation (f (scrubbed se d)) = da_installation d"
    and "cs_owner_id (da_cloud (f (scrubbed se d))) = ''o'' @ [z] @ ''r''" "cs_receiver_id (da_cloud (f (scrubbed se d))) = ''s''"
  shows "principal (next_state se io f d) \<noteq> principal d"
    "is_bound (da_cloud d)" "is_bound (da_cloud (next_state se io f d))"
    "cs_binding_generation (da_cloud (next_state se io f d)) = cs_binding_generation (da_cloud d)"
proof -
  let ?n = "next_state se io f d"
  have n: "cs_owner_id (da_cloud ?n) = ''o'' @ [z] @ ''r''" "cs_receiver_id (da_cloud ?n) = ''s''"
    "da_installation ?n = da_installation d"
    using assms(6-8) by (simp_all add: next_state_cloud normalize_generations_def normalize_credential_def Let_def)
  then have "binding_text ?n = binding_text d" using assms(2-4) by (simp add: binding_text_def z_def)
  then show "cs_binding_generation (da_cloud ?n) = cs_binding_generation (da_cloud d)"
    using next_binding(1) [OF assms(5), of se io d] by simp
  show "principal ?n \<noteq> principal d" using n assms(2) by (simp add: principal_def)
  show "is_bound (da_cloud d)" "is_bound (da_cloud ?n)" using n assms(2,3) by (simp_all add: is_bound_def)
qed

section \<open>A concrete environment\<close>

lemma scrub_id: "scrub_state (\<lambda>s. s) d = d"
  by (simp add: scrub_defs map_idI cong: map_cong)

definition demo_old :: state_data where
  "demo_old = no_state_data\<lparr>da_schema_version := 1,
     da_installation := no_installation\<lparr>il_id := ''i'', il_created_at := 5, il_last_started_at := 5\<rparr>,
     da_pairing := no_pairing\<lparr>pg_phase := ''paired''\<rparr>,
     da_cloud := no_cloud\<lparr>cs_owner_id := ''o'', cs_receiver_id := ''r''\<rparr>\<rparr>"

definition demo_migrated :: state_data where
  "demo_migrated = demo_old\<lparr>da_schema_version := 10,
     da_installation := no_installation\<lparr>il_id := ''i'', il_bound := True, il_created_at := 5, il_last_started_at := 5\<rparr>,
     da_pairing := no_pairing\<lparr>pg_phase := phase_steady\<rparr>,
     da_cloud := no_cloud\<lparr>cs_owner_id := ''o'', cs_receiver_id := ''r'', cs_binding_generation := 1\<rparr>,
     da_runtime := no_runtime\<lparr>rt_install_type := ''manual''\<rparr>,
     da_update := no_update_state\<lparr>us_status := ''unknown''\<rparr>,
     da_home_auto_session := no_home_auto\<lparr>ha_module_state := ''disabled'', ha_control_state := ''disabled'',
       ha_active_state_source := ''none'', ha_reconciliation_state := ''clean_idle'',
       ha_effective_config_source := ''local_fallback'', ha_effective_config_version := ''local-default'',
       ha_last_applied_config_ver := ''local-default'', ha_last_config_apply_result := ''local_config_applied'',
       ha_desired_config_enabled := Some False, ha_desired_config_mode := ''off''\<rparr>\<rparr>"

definition demo_opened :: state_data where
  "demo_opened = stamp 7 demo_migrated"

definition demo_pair :: "state_data \<Rightarrow> state_data" where
  "demo_pair d = d\<lparr>da_cloud := (da_cloud d)\<lparr>cs_ingest_api_key := ''k''\<rparr>\<rparr>"

definition demo_paired :: state_data where
  "demo_paired = demo_opened\<lparr>da_cloud := (da_cloud demo_opened)\<lparr>cs_ingest_api_key := ''k'',
     cs_credential_fingerprint := ''ff'', cs_credential_generation := 1\<rparr>\<rparr>"

definition demo_rotated :: state_data where
  "demo_rotated = demo_opened\<lparr>
     da_installation := no_installation\<lparr>il_id := ''n'', il_created_at := 22, il_last_started_at := 5\<rparr>,
     da_pairing := no_pairing\<lparr>pg_phase := phase_unpaired\<rparr>,
     da_cloud := no_cloud\<lparr>cs_binding_generation := 1, cs_updated_at := 9\<rparr>\<rparr>"

definition demo_coded :: state_data where
  "demo_coded = demo_rotated\<lparr>da_pairing := no_pairing\<lparr>pg_phase := phase_code_entered,
     pg_pairing_code := ''CODE1234'', pg_updated_at := 9, pg_last_change := ''pairing_code_entered''\<rparr>\<rparr>"

definition demo_marshal :: "state_data \<Rightarrow> string option" where
  "demo_marshal d = (if d = demo_migrated then Some ''{a}'' else if d = demo_opened then Some ''{b}''
     else if d = demo_paired then Some ''{c}''
     else if d = demo_rotated then Some ''{d}'' else if d = demo_coded then Some ''{e}'' else None)"

definition demo_texts :: "(string \<times> state_data) list" where
  "demo_texts = [(''{1}'', demo_old), (''{a}'', demo_migrated), (''{b}'', demo_opened), (''{c}'', demo_paired), (''{d}'', demo_rotated), (''{e}'', demo_coded),
     (''{a}'' @ [char_of (10 :: nat)], demo_migrated), (''{b}'' @ [char_of (10 :: nat)], demo_opened),
     (''{c}'' @ [char_of (10 :: nat)], demo_paired), (''{d}'' @ [char_of (10 :: nat)], demo_rotated),
     (''{e}'' @ [char_of (10 :: nat)], demo_coded)]"

definition demo_state_env :: state_env where
  "demo_state_env = \<lparr>se_unicode = \<lparr>uni_lower = (\<lambda>s. s), uni_upper = (\<lambda>s. s)\<rparr>, se_sha256 = (\<lambda>_. ''ff''),
     se_marshal = demo_marshal, se_indent = demo_marshal,
     se_decode = (\<lambda>t d. case map_of demo_texts t of Some d' \<Rightarrow> (d', True) | None \<Rightarrow> (d, False)),
     se_text = (\<lambda>s. s)\<rparr>"

definition demo_state_io :: state_io where
  "demo_state_io = \<lparr>si_now = 7, si_fail = (\<lambda>_. False), si_entropy = Some ''i'', si_read = True, si_backup = Renamed\<rparr>"

lemma demo_env_ok: "state_env_ok demo_state_env"
  by (auto simp: state_env_ok_def demo_state_env_def demo_marshal_def demo_texts_def scrub_id ascii_only_def
      char_of_def split: if_splits option.splits)

lemma demo_not_blank: "\<not> blank ''disabled''" "\<not> blank ''none''" "\<not> blank ''clean_idle''"
  "\<not> blank ''local_fallback''" "\<not> blank ''local-default''" "\<not> blank ''local_config_applied''" "\<not> blank ''off''"
  by (rule not_blank_visible; simp)+

lemma demo_old_fields:
  "home demo_old = no_home_auto" "da_pairing demo_old = no_pairing\<lparr>pg_phase := ''paired''\<rparr>"
  "da_runtime demo_old = no_runtime" "da_update demo_old = no_update_state" "da_schema_version demo_old = 1"
  "da_cloud demo_old = no_cloud\<lparr>cs_owner_id := ''o'', cs_receiver_id := ''r''\<rparr>"
  by (simp_all add: demo_old_def no_state_data_def)

lemma demo_status: "\<not> is_known_update_status u []" "is_known_update_status u ''unknown''"
  by (simp_all add: known_unknown) (simp add: is_known_update_status_def to_lower_def ascii_only_def)

lemma demo_manual: "install_type_from_profile u [] = ''manual''"
  by (simp add: install_type_from_profile_def to_lower_def ascii_only_def)

lemmas demo_defaults = default_defs default_home_def set_if_def set_home_def demo_not_blank demo_status demo_manual

lemma demo_steps:
  "migrate_1 demo_old = set_phase phase_steady demo_old"
  by (simp add: migrate_1_def Let_def demo_old_fields)

lemma demo_migrate: "migrate demo_state_env demo_old = Inr (demo_migrated, True)"
  by (simp add: migrate_def migrate_steps_def upgrade_def Let_def demo_steps migrate_2_def migrate_3_def migrate_4_def
      migrate_5_def migrate_6_def migrate_7_def migrate_8_def migrate_9_def fst_defaults config_filled_def fill_def
      demo_not_blank demo_status demo_manual demo_old_fields set_phase_def is_bound_def set_installation_def
      no_home_auto_def no_runtime_def no_update_state_def no_cloud_def demo_migrated_def)
    (simp add: demo_old_def no_state_data_def no_installation_def)

lemma demo_wf: "state_wf demo_state_env demo_migrated"
  by (simp add: state_wf_def has_defaults_def demo_migrated_def demo_not_blank known_unknown is_zero_def
      zero_time_def phase_defs)

lemma demo_io_fine: "\<forall>st. \<not> si_fail demo_state_io st" "si_read demo_state_io"
  "si_entropy demo_state_io = Some ''i''" "\<not> is_zero (si_now demo_state_io)" "si_now demo_state_io = 7"
  by (simp_all add: demo_state_io_def is_zero_def zero_time_def)

lemma demo_decode: "decode_state_bytes demo_state_env ''{1}'' = Inr (demo_old, False)"
  by (simp add: decode_state_bytes_def demo_state_env_def demo_texts_def)

lemma demo_marshals: "se_marshal demo_state_env demo_migrated = Some ''{a}''"
  "se_indent demo_state_env demo_opened = Some ''{b}''" "se_marshal demo_state_env demo_opened = Some ''{b}''"
  by (simp_all add: demo_state_env_def demo_marshal_def demo_opened_def stamp_def demo_migrated_def
      demo_old_def no_state_data_def no_home_auto_def no_metadata_def zero_time_def)

lemma demo_clone: "clone_data demo_state_env demo_migrated = Inr demo_migrated"
  "clone_data demo_state_env demo_opened = Inr demo_opened"
  by (simp_all add: clone_data_def demo_marshals) (simp_all add: demo_state_env_def demo_texts_def)

definition demo_opened_store :: state_store where
  "demo_opened_store = \<lparr>sv_data = demo_opened, sv_recovered = False,
     sv_file = Some (''{b}'' @ [char_of (10 :: nat)]), sv_backup = None\<rparr>"

lemma demo_open_state:
  "open_state demo_state_env demo_state_io (Some ''{1}'') None = (Inr (), demo_opened_store)"
  by (simp add: open_state_def load_state_def demo_io_fine demo_decode open_loaded_def demo_migrate
      ensure_defaults_fixed [OF demo_wf] save_state_def demo_clone commit_state_def write_state_def
      demo_opened_def [symmetric] demo_marshals demo_opened_store_def)

theorem state_open_upgrades_witness:
  "state_wf demo_state_env demo_opened \<and> reads_as demo_state_env (Some (''{b}'' @ [char_of (10 :: nat)])) demo_opened"
proof -
  have "ascii_only ''i''" by (simp add: ascii_only_def)
  from state_open_upgrades [OF demo_env_ok demo_decode demo_io_fine(2,1,3) _ this demo_io_fine(4) demo_open_state]
  show ?thesis by (simp add: demo_old_fields demo_opened_store_def)
qed

theorem state_open_preserves_witness:
  "\<exists>d1 m d2 ch. migrate demo_state_env demo_old = Inr (d1, m) \<and>
     ensure_defaults demo_state_env demo_state_io d1 = Inr (d2, ch) \<and>
     reads_as demo_state_env (sv_file demo_opened_store) (scrubbed demo_state_env (stamp 7 (scrubbed demo_state_env d2)))"
  using state_open_preserves [OF demo_env_ok demo_open_state]
  by (simp add: demo_decode demo_io_fine) (auto simp: demo_opened_store_def)

lemma demo_opened_wf: "state_wf demo_state_env demo_opened"
  unfolding demo_opened_def by (rule stamp_wf [OF demo_wf])

lemma demo_opened_reads: "reads_as demo_state_env (Some (''{b}'' @ [char_of (10 :: nat)])) demo_opened"
  using indent_reads_as [OF demo_env_ok demo_marshals(2)] by (simp add: demo_state_env_def scrub_id)

theorem state_reopen_exact_witness:
  "sv_data (snd (open_state demo_state_env demo_state_io (Some (''{b}'' @ [char_of (10 :: nat)])) None)) = demo_opened"
  using state_reopen_exact [OF demo_opened_reads demo_opened_wf demo_io_fine(2), of None] by simp

definition demo_unsynced_io :: state_io where
  "demo_unsynced_io = demo_state_io\<lparr>si_fail := (\<lambda>st. st = SyncDir)\<rparr>"

lemma demo_update:
  "update_store demo_state_env demo_unsynced_io demo_pair demo_opened_store =
     (Inl (WriteStep SyncDir), demo_opened_store\<lparr>sv_file := Some (''{c}'' @ [char_of (10 :: nat)])\<rparr>)"
proof -
  have n: "stamp 7 (normalize_generations demo_state_env demo_opened (demo_pair demo_opened)) = demo_paired"
    by (simp add: normalize_generations_def normalize_credential_def credential_fingerprint_def demo_pair_def
        demo_paired_def binding_text_def demo_opened_def stamp_def demo_state_env_def demo_migrated_def no_cloud_def)
  have "cs_ingest_api_key (da_cloud demo_paired) = ''k''" "cs_ingest_api_key (da_cloud demo_migrated) = []"
    "cs_ingest_api_key (da_cloud demo_opened) = []"
    by (simp_all add: demo_paired_def demo_opened_def stamp_def demo_migrated_def no_cloud_def)
  then have "demo_paired \<noteq> demo_migrated" "demo_paired \<noteq> demo_opened" by auto
  then have "se_indent demo_state_env demo_paired = Some ''{c}''"
    by (simp add: demo_state_env_def demo_marshal_def)
  then show ?thesis
    by (simp add: update_store_def demo_opened_store_def demo_clone commit_state_def write_state_def
        demo_unsynced_io_def demo_state_io_def n)
qed

theorem state_update_atomic_witness:
  "sv_data (snd (update_store demo_state_env demo_unsynced_io demo_pair demo_opened_store)) = demo_opened \<and>
   reads_as demo_state_env (sv_file (snd (update_store demo_state_env demo_unsynced_io demo_pair demo_opened_store)))
     (scrubbed demo_state_env (next_state demo_state_env demo_unsynced_io demo_pair demo_opened))"
  using state_update_atomic [OF demo_env_ok demo_update]
  by (simp add: demo_update) (simp add: demo_opened_store_def)

lemma state_padding_recovered_witness:
  "\<exists>recovered. decode_state_bytes demo_state_env (''{b}'' @ replicate 2 (char_of (0 :: nat))) = Inr (demo_opened, recovered)"
proof -
  have "set [] \<subseteq> padding" "set (replicate 2 (char_of (0 :: nat))) \<subseteq> padding" by (simp_all add: padding_def)
  moreover have "hd ''{b}'' \<notin> padding" "last ''{b}'' \<notin> padding" by (simp_all add: padding_def char_of_def)
  moreover have "se_decode demo_state_env ''{b}'' no_state_data = (demo_opened, True)"
    "se_decode demo_state_env ([] @ ''{b}'' @ replicate 2 (char_of (0 :: nat))) no_state_data
      \<in> {(no_state_data, False), (demo_opened, True)}"
    by (simp_all add: demo_state_env_def demo_texts_def char_of_def numeral_eq_Suc)
  ultimately show ?thesis
    using state_padding_recovered [of "[]" "replicate 2 (char_of (0 :: nat))" "''{b}''" demo_state_env demo_opened]
    by simp
qed

theorem state_generations_identify_witness:
  "cs_credential_generation (da_cloud demo_opened) \<le> cs_credential_generation
     (da_cloud (next_state demo_state_env demo_state_io demo_pair demo_opened))"
proof -
  let ?n = "next_state demo_state_env demo_state_io demo_pair demo_opened"
  have f: "leaves_generations demo_pair" by (simp add: leaves_generations_def demo_pair_def)
  have c: "da_cloud demo_opened = no_cloud\<lparr>cs_owner_id := ''o'', cs_receiver_id := ''r'', cs_binding_generation := 1\<rparr>"
    by (simp add: demo_opened_def stamp_def demo_migrated_def)
  have h: "state_history demo_state_env [?n, demo_opened]"
    by (intro history_update history_start f) (simp add: c no_cloud_def)
  have o: "scrubbed demo_state_env demo_opened = demo_opened" by (simp add: demo_state_env_def scrub_id)
  from state_generations_identify [OF demo_env_ok h, of demo_opened] show ?thesis
    by (simp add: c no_cloud_def)
qed

end
