(* ===== verification/Rotation.thy ===== *)
theory Rotation
  imports Dispatch StateProps
begin

text \<open>
  Rotation of the installation identity (\<open>internal/runtime/installation_rotation.go\<close>): the receiver
  takes a new identity and leaves the deliveries of the old one in quarantine. The outbox holds a
  journal of the phase reached; the state holds the identity. The two files cannot change together, so
  the coordinator can be interrupted between any two writes and continues from the journal.

  The calls to the outbox go through its engine (\<open>engine_write\<close>), numbered in order.
\<close>

datatype rotation_error = RotationOutbox outbox_error | RotationState state_error | CurrentIdMissing
  | NoNewIdentity | CompletedMismatch | JournalMissing | NeitherBoundary string | OldBindingRemains
  | SamplesRemain | StoppedInPhase rotation_phase

definition rotate_data :: "string \<Rightarrow> time \<Rightarrow> time \<Rightarrow> state_data \<Rightarrow> state_data" where
  "rotate_data newid started now d = d\<lparr>
     da_installation := (da_installation d)\<lparr>il_id := newid, il_bound := False, il_created_at := started\<rparr>,
     da_pairing := (da_pairing d)\<lparr>pg_phase := phase_unpaired, pg_pairing_code := [],
       pg_install_session_id := [], pg_flow_key := [], pg_activation_token := [],
       pg_activation_expires := None, pg_retry_count := 0, pg_next_retry_at := None\<rparr>,
     da_cloud := (da_cloud d)\<lparr>cs_owner_id := [], cs_receiver_id := [], cs_receiver_label := [],
       cs_site_label := [], cs_group_label := [], cs_ingest_api_key_id := [], cs_ingest_api_key := [],
       cs_credential_ref := [], cs_clock_samples := [], cs_updated_at := now\<rparr>\<rparr>"

definition validate_rotated :: "state_data \<Rightarrow> rotation_error + unit" where
  "validate_rotated d =
     (if il_bound (da_installation d) \<or> trim_space (cs_owner_id (da_cloud d)) \<noteq> []
         \<or> trim_space (cs_receiver_id (da_cloud d)) \<noteq> [] \<or> trim_space (cs_ingest_api_key (da_cloud d)) \<noteq> []
      then Inl OldBindingRemains
      else if cs_clock_samples (da_cloud d) \<noteq> [] then Inl SamplesRemain
      else Inr ())"

text \<open>Both stores, as one recovery sees them.\<close>

record ('b, 'd) host =
  ho_state :: state_store
  ho_outbox :: "('b, 'd) store"

definition rotate_state ::
  "state_env \<Rightarrow> state_io \<Rightarrow> time \<Rightarrow> rotation \<Rightarrow> state_store \<Rightarrow> (rotation_error + unit) \<times> state_store" where
  "rotate_state se sio now j s =
     (let current = sv_data s
      in if il_id (da_installation current) = ir_old j
         then (case update_store se sio (rotate_data (ir_new j) (ir_started j) now) s of
             (Inl x, s) \<Rightarrow> (Inl (RotationState x), s)
           | (Inr _, s) \<Rightarrow> (Inr (), s))
         else if il_id (da_installation current) = ir_new j then (validate_rotated current, s)
         else (Inl (NeitherBoundary (il_id (da_installation current))), s))"

definition outbox_call ::
  "('b, 'd) env \<Rightarrow> schedule \<Rightarrow> nat \<Rightarrow> (io \<Rightarrow> ('b, 'd) store \<Rightarrow> (outbox_error + 'a) \<times> ('b, 'd) store)
   \<Rightarrow> ('b, 'd) host \<Rightarrow> (rotation_error + 'a) \<times> ('b, 'd) host" where
  "outbox_call e sc n f h = (case engine_write e sc n f (ho_outbox h) of
     (Inl x, ob) \<Rightarrow> (Inl (RotationOutbox x), h\<lparr>ho_outbox := ob\<rparr>)
   | (Inr v, ob) \<Rightarrow> (Inr v, h\<lparr>ho_outbox := ob\<rparr>))"

text \<open>The three parts of \<open>recover\<close>, each skipped when the journal is not in its phase.\<close>

definition recover_quarantine ::
  "('b, 'd) env \<Rightarrow> schedule \<Rightarrow> rotation \<Rightarrow> ('b, 'd) host \<Rightarrow> (rotation_error + rotation) \<times> ('b, 'd) host" where
  "recover_quarantine e sc j h =
     (if ir_phase j = PhaseIntent then outbox_call e sc 1 (\<lambda>io. quarantine_rotation e io) h
      else (Inr j, h))"

definition recover_state ::
  "state_env \<Rightarrow> ('b, 'd) env \<Rightarrow> schedule \<Rightarrow> state_io \<Rightarrow> time \<Rightarrow> rotation \<Rightarrow> ('b, 'd) host
   \<Rightarrow> (rotation_error + rotation) \<times> ('b, 'd) host" where
  "recover_state se e sc sio now j h =
     (if ir_phase j = PhaseOldQuarantined
      then (case rotate_state se sio now j (ho_state h) of
          (Inl x, s) \<Rightarrow> (Inl x, h\<lparr>ho_state := s\<rparr>)
        | (Inr _, s) \<Rightarrow>
            outbox_call e sc 2 (\<lambda>io. advance_rotation e io PhaseOldQuarantined PhaseStateRotated)
              (h\<lparr>ho_state := s\<rparr>))
      else (Inr j, h))"

definition recover_complete ::
  "('b, 'd) env \<Rightarrow> schedule \<Rightarrow> rotation \<Rightarrow> ('b, 'd) host \<Rightarrow> (rotation_error + rotation) \<times> ('b, 'd) host" where
  "recover_complete e sc j h =
     (if ir_phase j = PhaseStateRotated
      then outbox_call e sc 3 (\<lambda>io. advance_rotation e io PhaseStateRotated PhaseCompleted) h
      else (Inr j, h))"

definition recover_rotation ::
  "state_env \<Rightarrow> ('b, 'd) env \<Rightarrow> schedule \<Rightarrow> state_io \<Rightarrow> time \<Rightarrow> rotation option \<Rightarrow> ('b, 'd) host
   \<Rightarrow> (rotation_error + string) \<times> ('b, 'd) host" where
  "recover_rotation se e sc sio now journal h = (case journal of
     None \<Rightarrow> (Inl JournalMissing, h)
   | Some j \<Rightarrow> (case recover_quarantine e sc j h of
       (Inl x, h) \<Rightarrow> (Inl x, h)
     | (Inr j, h) \<Rightarrow> (case recover_state se e sc sio now j h of
         (Inl x, h) \<Rightarrow> (Inl x, h)
       | (Inr j, h) \<Rightarrow> (case recover_complete e sc j h of
           (Inl x, h) \<Rightarrow> (Inl x, h)
         | (Inr j, h) \<Rightarrow>
             if ir_phase j \<noteq> PhaseCompleted then (Inl (StoppedInPhase (ir_phase j)), h)
             else (Inr (ir_new j), h)))))"

definition recover_installation ::
  "state_env \<Rightarrow> ('b, 'd) env \<Rightarrow> schedule \<Rightarrow> state_io \<Rightarrow> time \<Rightarrow> ('b, 'd) host
   \<Rightarrow> (rotation_error + string) \<times> ('b, 'd) host" where
  "recover_installation se e sc sio now h = (case stored_rotation (ho_outbox h) of
     Inl x \<Rightarrow> (Inl (RotationOutbox x), h)
   | Inr None \<Rightarrow> (Inr [], h)
   | Inr (Some j) \<Rightarrow>
       if ir_phase j = PhaseCompleted
       then (if il_id (da_installation (sv_data (ho_state h))) \<noteq> ir_new j then (Inl CompletedMismatch, h)
             else (Inr (ir_new j), h))
       else recover_rotation se e sc sio now (Some j) h)"

definition rotate_installation ::
  "state_env \<Rightarrow> ('b, 'd) env \<Rightarrow> schedule \<Rightarrow> state_io \<Rightarrow> time \<Rightarrow> string option \<Rightarrow> string \<Rightarrow> ('b, 'd) host
   \<Rightarrow> (rotation_error + string) \<times> ('b, 'd) host" where
  "rotate_installation se e sc sio now newid reason h = (case stored_rotation (ho_outbox h) of
     Inl x \<Rightarrow> (Inl (RotationOutbox x), h)
   | Inr journal \<Rightarrow>
       if journal = None \<or> ir_phase (the journal) = PhaseCompleted
       then let old = trim_space (il_id (da_installation (sv_data (ho_state h))))
            in if old = [] then (Inl CurrentIdMissing, h)
               else (case newid of
                   None \<Rightarrow> (Inl NoNewIdentity, h)
                 | Some n \<Rightarrow>
                     (case outbox_call e sc 0 (\<lambda>io. begin_rotation e io
                         \<lparr>ir_old = old, ir_new = n, ir_reason = trim_space reason, ir_phase = PhaseOther [],
                          ir_started = zero_time, ir_updated = zero_time, ir_quarantined = 0\<rparr>) h of
                        (Inl x, h) \<Rightarrow> (Inl x, h)
                      | (Inr j, h) \<Rightarrow> recover_rotation se e sc sio now (Some j) h))
       else recover_rotation se e sc sio now journal h)"

end
