(* ===== verification/RotationProps.thy ===== *)
theory RotationProps
  imports Rotation DispatchProps
begin

text \<open>
  A rotation is crash safe: in every state that an interrupted rotation can leave, the identity in
  memory and the one in the state file agree with the phase of the journal; recovery continues from
  there, fails only when a write fails, keeps the agreement when it does, and otherwise completes.
\<close>

section \<open>Agreement of the journal and the state\<close>

definition unbound :: "state_data \<Rightarrow> bool" where
  "unbound d \<longleftrightarrow> \<not> il_bound (da_installation d) \<and> cs_owner_id (da_cloud d) = [] \<and>
     cs_receiver_id (da_cloud d) = [] \<and> cs_ingest_api_key (da_cloud d) = [] \<and> cs_clock_samples (da_cloud d) = []"

abbreviation identity_of :: "state_data \<Rightarrow> string" where
  "identity_of d \<equiv> il_id (da_installation d)"

fun agrees :: "rotation_phase \<Rightarrow> string \<Rightarrow> string \<Rightarrow> state_data \<Rightarrow> bool" where
  "agrees PhaseIntent old new d \<longleftrightarrow> identity_of d = old"
| "agrees PhaseOldQuarantined old new d \<longleftrightarrow> identity_of d = old \<or> identity_of d = new \<and> unbound d"
| "agrees PhaseStateRotated old new d \<longleftrightarrow> identity_of d = new \<and> unbound d"
| "agrees PhaseCompleted old new d \<longleftrightarrow> identity_of d = new"
| "agrees (PhaseOther p) old new d \<longleftrightarrow> False"

definition settled :: "state_env \<Rightarrow> state_data \<Rightarrow> bool" where
  "settled se d \<longleftrightarrow> state_wf se d \<and> json_clean se d"

definition state_agrees :: "state_env \<Rightarrow> rotation_phase \<Rightarrow> string \<Rightarrow> string \<Rightarrow> state_store \<Rightarrow> bool" where
  "state_agrees se ph old new s \<longleftrightarrow> settled se (sv_data s) \<and> agrees ph old new (sv_data s) \<and>
     (\<exists>d. reads_as se (sv_file s) d \<and> settled se d \<and> agrees ph old new d \<and>
        (identity_of (sv_data s) = new \<longrightarrow> identity_of d = new))"

definition new_identity_ok :: "('b, 'd) env \<Rightarrow> state_env \<Rightarrow> string \<Rightarrow> string \<Rightarrow> bool" where
  "new_identity_ok e se old new \<longleftrightarrow> old \<noteq> new \<and> new \<noteq> [] \<and> json_text e old = old \<and> json_text e new = new \<and>
     se_text se new = new"

definition journal_at :: "('b, 'd) db \<Rightarrow> rotation_phase \<Rightarrow> string \<Rightarrow> string \<Rightarrow> bool" where
  "journal_at db ph old new \<longleftrightarrow> (\<exists>j. db_rotation db = Stored j \<and> ir_phase j = ph \<and> ir_old j = old \<and>
     ir_new j = new \<and> \<not> is_zero (ir_started j))"

definition host_ok ::
  "state_env \<Rightarrow> ('b, 'd) env \<Rightarrow> rotation_phase \<Rightarrow> string \<Rightarrow> string \<Rightarrow> ('b, 'd) host \<Rightarrow> bool" where
  "host_ok se e ph old new h \<longleftrightarrow> reachable e (ho_outbox h) \<and> new_identity_ok e se old new \<and>
     (\<exists>db. st_db (ho_outbox h) = Some db \<and> journal_at db ph old new) \<and>
     state_agrees se ph old new (ho_state h)"

section \<open>Live deliveries of the old installation\<close>

definition live_all :: "('b, 'd) env \<Rightarrow> (string \<Rightarrow> delivery \<Rightarrow> bool) \<Rightarrow> ('b, 'd) store \<Rightarrow> bool" where
  "live_all e Q s \<longleftrightarrow> (\<forall>db k d. st_db s = Some db \<longrightarrow> live e db k = Some d \<longrightarrow> Q k d)"

definition no_live :: "('b, 'd) env \<Rightarrow> string \<Rightarrow> ('b, 'd) store \<Rightarrow> bool" where
  "no_live e old s \<longleftrightarrow>
     (\<forall>db k d. st_db s = Some db \<longrightarrow> live e db k = Some d \<longrightarrow> dl_installation d \<noteq> old)"

text \<open>A delivery of the old installation that is still live was enqueued by another goroutine after the
  quarantine, which is the call number 1.\<close>

definition no_live_but :: "('b, 'd) env \<Rightarrow> schedule \<Rightarrow> string \<Rightarrow> ('b, 'd) store \<Rightarrow> bool" where
  "no_live_but e sc old s \<longleftrightarrow>
     (\<forall>db k d. st_db s = Some db \<longrightarrow> live e db k = Some d \<longrightarrow> dl_installation d = old \<longrightarrow>
        (\<exists>n > 1. \<exists>io x. (io, OpEnqueue x) \<in> set (sc_others sc n) \<and> dl_id x = k \<and> dl_installation x = old))"

lemma live_all_iff:
  "no_live e old s \<longleftrightarrow> live_all e (\<lambda>k d. dl_installation d \<noteq> old) s"
  "no_live_but e sc old s \<longleftrightarrow> live_all e (\<lambda>k d. dl_installation d = old \<longrightarrow>
     (\<exists>n > 1. \<exists>io x. (io, OpEnqueue x) \<in> set (sc_others sc n) \<and> dl_id x = k \<and> dl_installation x = old)) s"
  by (auto simp: live_all_def no_live_def no_live_but_def)

lemma no_live_weaken: "no_live e old s \<Longrightarrow> no_live_but e sc old s"
  by (auto simp: no_live_def no_live_but_def)

section \<open>Calls to the outbox\<close>

definition quiet_schedule :: "schedule \<Rightarrow> bool" where
  "quiet_schedule sc \<longleftrightarrow> (\<forall>n. sc_others sc n = [])"

lemma outbox_call_cases:
  assumes "quiet_schedule sc" "outbox_call e sc n f h = (r, h')"
    and "\<And>io s. f io s = run_update io k s (tx io)"
  obtains (failed) x where "r = Inl (RotationOutbox x)" "h' = h"
  | (committed) v db db' where "st_db (ho_outbox h) = Some db" "tx (sc_io sc n) db = Inr (v, db')"
      "h' = h\<lparr>ho_outbox := (ho_outbox h)\<lparr>st_db := Some db'\<rparr>\<rparr>"
      "r = Inr v \<or> (\<exists>x. r = Inl (RotationOutbox x))"
proof -
  have q: "run_others e (sc_others sc n) s = s" for s
    using assms(1) by (simp add: quiet_schedule_def run_others_def)
  show thesis
  proof (cases rule: run_update_cases [of "sc_io sc n" k "ho_outbox h" "tx (sc_io sc n)"])
    case (fail err)
    then have "r = Inl (RotationOutbox err) \<and> h' = h \<or> r = Inl (RotationOutbox EngineClosed) \<and> h' = h"
      using assms(2) by (cases "sc_admit sc n") (auto simp: outbox_call_def engine_write_def q assms(3) Let_def)
    then show thesis using failed by blast
  next
    case (commit db v db')
    show thesis
    proof (cases "sc_admit sc n")
      case Refused
      then show thesis
        using assms(2) failed by (auto simp: outbox_call_def engine_write_def q assms(3) Let_def)
    qed (use assms(2) commit committed in \<open>auto simp: outbox_call_def engine_write_def q assms(3) Let_def\<close>)
  qed
qed

lemma outbox_call_reachable:
  assumes "quiet_schedule sc" "outbox_call e sc n f h = (r, h')" "reachable e (ho_outbox h)"
    and "\<And>io s. snd (f io s) = perform e io op s" "op_clean e op"
  shows "reachable e (ho_outbox h')"
proof -
  have q: "run_others e (sc_others sc n) s = s" for s
    using assms(1) by (simp add: quiet_schedule_def run_others_def)
  have "ho_outbox h' = snd (engine_write e sc n f (ho_outbox h))"
    using assms(2) by (auto simp: outbox_call_def split: prod.splits sum.splits)
  moreover have "snd (engine_write e sc n f (ho_outbox h)) \<in> {ho_outbox h, snd (f (sc_io sc n) (ho_outbox h))}"
    by (cases "sc_admit sc n") (simp_all add: engine_write_def q Let_def)
  ultimately show ?thesis
    using assms(3-5) reachable.call by (metis empty_iff insert_iff)
qed

lemma outbox_call_state: "outbox_call e sc n f h = (r, h') \<Longrightarrow> ho_state h' = ho_state h"
  by (auto simp: outbox_call_def split: prod.splits sum.splits)

text \<open>
  The other goroutines may do anything to the outbox but rotate it: the rotation is the only one to write
  the journal. A call meets the store as they leave it.
\<close>

definition tame_schedule :: "('b, 'd) env \<Rightarrow> schedule \<Rightarrow> bool" where
  "tame_schedule e sc \<longleftrightarrow> schedule_clean e sc \<and> (\<forall>n io op. (io, op) \<in> set (sc_others sc n) \<longrightarrow> \<not> writes_journal op)"

definition calmed :: "schedule \<Rightarrow> schedule" where
  "calmed sc = sc\<lparr>sc_others := \<lambda>n. []\<rparr>"

definition met :: "('b, 'd) env \<Rightarrow> schedule \<Rightarrow> nat \<Rightarrow> ('b, 'd) host \<Rightarrow> ('b, 'd) host" where
  "met e sc n h = h\<lparr>ho_outbox := run_others e (sc_others sc n) (ho_outbox h)\<rparr>"

lemma calmed_quiet: "quiet_schedule (calmed sc)"
  by (simp add: quiet_schedule_def calmed_def)

lemma quiet_tame: "quiet_schedule sc \<Longrightarrow> tame_schedule e sc"
  by (simp add: quiet_schedule_def tame_schedule_def schedule_clean_def)

lemma quiet_no_live: "quiet_schedule sc \<Longrightarrow> no_live_but e sc old s \<Longrightarrow> no_live e old s"
  by (auto simp: quiet_schedule_def no_live_but_def no_live_def)

lemma met_state [simp]: "ho_state (met e sc n h) = ho_state h"
  by (simp add: met_def)

lemma quiet_met: "quiet_schedule sc \<Longrightarrow> met e sc n h = h"
  by (simp add: quiet_schedule_def met_def run_others_def)

lemma outbox_call_met: "outbox_call e sc n f h = outbox_call e (calmed sc) n f (met e sc n h)"
  by (cases "sc_admit sc n")
    (simp_all add: outbox_call_def engine_write_def met_def calmed_def run_others_def Let_def split: prod.split sum.split)

lemma met_reachable: "tame_schedule e sc \<Longrightarrow> reachable e (ho_outbox h) \<Longrightarrow> reachable e (ho_outbox (met e sc n h))"
  by (simp add: met_def tame_schedule_def reachable_run)

lemma met_db:
  assumes "env_ok e" "tame_schedule e sc" "reachable e (ho_outbox h)" "st_db (ho_outbox h) = Some db"
  obtains db' where "st_db (ho_outbox (met e sc n h)) = Some db'" "db_rotation db' = db_rotation db"
    "\<forall>k d. live e db' k = Some d \<longrightarrow> (\<exists>d0. live e db k = Some d0 \<and> dl_installation d = dl_installation d0) \<or>
      (\<exists>io x. (io, OpEnqueue x) \<in> set (sc_others sc n) \<and> dl_id x = k \<and> dl_installation x = dl_installation d)"
proof -
  obtain db' where db': "st_db (run_others e (sc_others sc n) (ho_outbox h)) = Some db'"
    using run_others_open [of "ho_outbox h" e "sc_others sc n"] assms(4) by auto
  have clean: "\<forall>io op. (io, op) \<in> set (sc_others sc n) \<longrightarrow> op_clean e op"
    and tame: "\<forall>io op. (io, op) \<in> set (sc_others sc n) \<longrightarrow> \<not> writes_journal op"
    using assms(2) by (auto simp: tame_schedule_def schedule_clean_def)
  note o = others_origin [OF assms(1,3,4) clean db']
  have "(\<exists>d0. live e db k = Some d0 \<and> dl_installation d = dl_installation d0) \<or>
      (\<exists>io x. (io, OpEnqueue x) \<in> set (sc_others sc n) \<and> dl_id x = k \<and> dl_installation x = dl_installation d)"
    if "live e db' k = Some d" for k d
    using conjunct1 [OF o] that by (fastforce simp: belongs_def)
  moreover have "db_rotation db' = db_rotation db" using o tame by blast
  moreover have "st_db (ho_outbox (met e sc n h)) = Some db'" using db' by (simp add: met_def)
  ultimately show thesis using that by blast
qed

lemma met_host_ok:
  assumes "env_ok e" "tame_schedule e sc" "host_ok se e ph old new h"
  shows "host_ok se e ph old new (met e sc n h)"
proof -
  obtain db where db: "st_db (ho_outbox h) = Some db" "journal_at db ph old new"
    and r: "reachable e (ho_outbox h)" using assms(3) by (auto simp: host_ok_def)
  obtain db' where "st_db (ho_outbox (met e sc n h)) = Some db'" "db_rotation db' = db_rotation db"
    by (rule met_db [OF assms(1,2) r db(1), where n = n])
  then show ?thesis
    using assms(3) met_reachable [OF assms(2) r] db(2) by (simp add: host_ok_def journal_at_def)
qed

lemma met_no_live:
  assumes "env_ok e" "tame_schedule e sc" "host_ok se e ph old new h" "no_live_but e sc old (ho_outbox h)" "1 < n"
  shows "no_live_but e sc old (ho_outbox (met e sc n h))"
proof -
  obtain db where db: "st_db (ho_outbox h) = Some db" and r: "reachable e (ho_outbox h)"
    using assms(3) by (auto simp: host_ok_def)
  obtain db' where "st_db (ho_outbox (met e sc n h)) = Some db'" "db_rotation db' = db_rotation db"
    "\<forall>k d. live e db' k = Some d \<longrightarrow> (\<exists>d0. live e db k = Some d0 \<and> dl_installation d = dl_installation d0) \<or>
      (\<exists>io x. (io, OpEnqueue x) \<in> set (sc_others sc n) \<and> dl_id x = k \<and> dl_installation x = dl_installation d)"
    by (rule met_db [OF assms(1,2) r db, where n = n])
  then show ?thesis using assms(4,5) db unfolding no_live_but_def by fastforce
qed

section \<open>Rotating the state\<close>

lemma next_rotated:
  fixes sio now
  assumes se: "state_env_ok se" and d: "settled se d" and new: "se_text se new = new" "new \<noteq> []"
    and started: "\<not> is_zero started"
  defines "n \<equiv> next_state se sio (rotate_data new started now) d"
  shows "settled se n" "identity_of n = new" "unbound n"
proof -
  have s: "scrubbed se d = d" using d by (simp add: settled_def)
  have utf [simp]: "se_text se [] = []" "se_text se phase_unpaired = phase_unpaired"
    using state_laws(7) [OF se] by simp_all
  have fp: "normalize_credential se d c = c\<lparr>cs_credential_fingerprint :=
      (if cs_credential_fingerprint (da_cloud d) = [] then cs_credential_fingerprint c else [])\<rparr>"
    if "cs_ingest_api_key c = []" for c
    using that by (simp add: normalize_credential_def credential_fingerprint_def)
  show "identity_of n = new" "unbound n"
    by (simp_all add: n_def next_state_def stamp_def normalize_generations_def Let_def rotate_data_def fp unbound_def)
  have n: "n = stamp (si_now sio) (normalize_generations se d (rotate_data new started now d))"
    by (simp add: n_def next_state_def s)
  obtain c where c: "n = stamp (si_now sio) ((rotate_data new started now d)\<lparr>da_cloud := c\<rparr>)"
    and clean: "scrub_cloud (se_text se) c = c"
  proof -
    let ?c = "da_cloud (normalize_generations se d (rotate_data new started now d))"
    have "scrub_cloud (se_text se) (da_cloud d) = da_cloud d"
      using d by (simp add: settled_def scrub_state_iff)
    then have "scrub_cloud (se_text se) ?c = ?c"
      by (simp add: normalize_generations_def Let_def rotate_data_def fp scrub_cloud_iff)
    then show thesis
      by (intro that [of ?c]) (simp add: n normalize_generations_def Let_def)
  qed
  show "settled se n"
    using d new started clean unfolding settled_def c
    by (simp add: stamp_def rotate_data_def state_wf_def has_defaults_def json_clean_iffs)
      (simp add: phase_unpaired_def)
qed

lemma rotate_state_effect:
  assumes se: "state_env_ok se" and agree: "state_agrees se PhaseOldQuarantined (ir_old j) (ir_new j) s"
    and new: "se_text se (ir_new j) = ir_new j" "ir_new j \<noteq> []" "ir_old j \<noteq> ir_new j"
    and started: "\<not> is_zero (ir_started j)"
    and run: "rotate_state se sio now j s = (r, s')"
  shows "state_agrees se PhaseOldQuarantined (ir_old j) (ir_new j) s' \<and>
    (r = Inr () \<and> state_agrees se PhaseStateRotated (ir_old j) (ir_new j) s' \<or> (\<exists>x. r = Inl (RotationState x)))"
proof (cases "identity_of (sv_data s) = ir_old j")
  case True
  let ?f = "rotate_data (ir_new j) (ir_started j) now"
  let ?n = "next_state se sio ?f (sv_data s)"
  obtain u where u: "update_store se sio ?f s = (u, s')" and r: "r = (case u of Inl x \<Rightarrow> Inl (RotationState x) | Inr _ \<Rightarrow> Inr ())"
    using run True by (cases "update_store se sio ?f s"; cases "fst (update_store se sio ?f s)")
      (auto simp: rotate_state_def Let_def)
  have mem: "settled se (sv_data s)" using agree by (simp add: state_agrees_def)
  note n = next_rotated [OF se mem new(1,2) started, of sio now]
  have clean: "scrubbed se ?n = ?n" using n(1) by (simp add: settled_def)
  note up = state_update_atomic_facts [OF se u]
  show ?thesis
  proof (cases u)
    case (Inr x)
    then show ?thesis using up(1) n clean r by (auto simp: state_agrees_def)
  next
    case (Inl x)
    then have "sv_data s' = sv_data s" "sv_file s' = sv_file s \<or> reads_as se (sv_file s') ?n"
      using up(2) clean by auto
    then have "state_agrees se PhaseOldQuarantined (ir_old j) (ir_new j) s'"
      using agree n True new(3) by (auto simp: state_agrees_def)
    then show ?thesis using Inl r by simp
  qed
next
  case False
  then have id: "identity_of (sv_data s) = ir_new j" and u: "unbound (sv_data s)"
    using agree by (auto simp: state_agrees_def)
  have "rotate_state se sio now j s = (Inr (), s)"
    using False id u by (simp add: rotate_state_def Let_def validate_rotated_def unbound_def)
  with run have "r = Inr ()" "s' = s" by simp_all
  then show ?thesis using agree id u new(3) by (auto simp: state_agrees_def)
qed

section \<open>The steps of a recovery\<close>

text \<open>What every step guarantees: a failure is one of a call and leaves the host in agreement with some
  phase; a success leaves it in agreement with the phase of the journal it returns.\<close>

definition call_failure :: "rotation_error \<Rightarrow> bool" where
  "call_failure x \<longleftrightarrow> (\<exists>y. x = RotationOutbox y) \<or> (\<exists>y. x = RotationState y)"

definition journal_is :: "rotation_phase \<Rightarrow> string \<Rightarrow> string \<Rightarrow> rotation \<Rightarrow> bool" where
  "journal_is ph old new j \<longleftrightarrow> ir_phase j = ph \<and> ir_old j = old \<and> ir_new j = new \<and> \<not> is_zero (ir_started j)"

definition step_ok ::
  "state_env \<Rightarrow> ('b, 'd) env \<Rightarrow> rotation_phase set \<Rightarrow> string \<Rightarrow> string \<Rightarrow> (rotation_error + rotation)
   \<Rightarrow> ('b, 'd) host \<Rightarrow> bool" where
  "step_ok se e phs old new r h \<longleftrightarrow> (case r of
     Inl x \<Rightarrow> call_failure x \<and> (\<exists>ph. host_ok se e ph old new h)
   | Inr j \<Rightarrow> \<exists>ph \<in> phs. journal_is ph old new j \<and> host_ok se e ph old new h)"

lemma agrees_later:
  "agrees PhaseIntent old new d \<Longrightarrow> agrees PhaseOldQuarantined old new d"
  "agrees PhaseStateRotated old new d \<Longrightarrow> agrees PhaseCompleted old new d"
  by simp_all

lemma state_agrees_later:
  "state_agrees se PhaseIntent old new s \<Longrightarrow> state_agrees se PhaseOldQuarantined old new s"
  "state_agrees se PhaseStateRotated old new s \<Longrightarrow> state_agrees se PhaseCompleted old new s"
  unfolding state_agrees_def using agrees_later by blast+

lemma quarantine_rotation_started:
  "quarantine_rotation_tx e cfg now db = Inr (r', db') \<Longrightarrow> db_rotation db = Stored r \<Longrightarrow>
     ir_started r' = ir_started r"
  by (auto simp: quarantine_rotation_tx_def res_simps Let_def split: if_splits)

lemma advance_rotation_run:
  assumes "advance_rotation_tx e now p q db = Inr (r, db')" "journal_at db p old new" "p \<noteq> q"
  obtains j where "r = j\<lparr>ir_phase := q, ir_updated := now\<rparr>" "journal_is p old new j"
    "db' = db\<lparr>db_rotation := Stored (scrub_rotation (json_text e) r)\<rparr>"
proof -
  obtain j where j: "db_rotation db = Stored j" "ir_phase j = p" "ir_old j = old" "ir_new j = new"
    "\<not> is_zero (ir_started j)" using assms(2) by (auto simp: journal_at_def)
  have "r = j\<lparr>ir_phase := q, ir_updated := now\<rparr> \<and> db' = db\<lparr>db_rotation := Stored (scrub_rotation (json_text e) r)\<rparr>"
    using assms(1,3) j(1,2) by (auto simp: advance_rotation_tx_def Let_def split: if_splits)
  then show thesis using that [of j] j by (simp add: journal_is_def)
qed

lemma scrubbed_journal_at:
  assumes "new_identity_ok e se old new" "journal_is ph old new r"
    "db_rotation db = Stored (scrub_rotation (json_text e) r)"
  shows "journal_at db ph old new"
  using assms by (simp add: journal_at_def journal_is_def new_identity_ok_def scrub_rotation_def)

lemma outbox_call_effect:
  assumes "quiet_schedule sc" "outbox_call e sc n f h = (r, h')" "\<And>io s. f io s = run_update io 0 s (tx io)"
  shows "(\<exists>x. r = Inl (RotationOutbox x)) \<and> h' = h \<or>
    (\<exists>v db db'. st_db (ho_outbox h) = Some db \<and> tx (sc_io sc n) db = Inr (v, db') \<and>
       h' = h\<lparr>ho_outbox := (ho_outbox h)\<lparr>st_db := Some db'\<rparr>\<rparr> \<and>
       (r = Inr v \<or> (\<exists>x. r = Inl (RotationOutbox x))))"
  by (rule outbox_call_cases [OF assms]) blast+

lemma advance_ok:
  assumes quiet: "quiet_schedule sc" and host: "host_ok se e p old new h" and next_agrees: "state_agrees se q old new (ho_state h)" and "p \<noteq> q"
    and run: "outbox_call e sc n (\<lambda>io. advance_rotation e io p q) h = (r, h')"
  shows "step_ok se e {q} old new r h' \<and> (live_all e Q (ho_outbox h) \<longrightarrow> live_all e Q (ho_outbox h'))"
proof -
  have reach: "reachable e (ho_outbox h')"
    by (rule outbox_call_reachable [OF quiet run, of "OpAdvanceRotation p q"])
      (use host in \<open>simp_all add: host_ok_def\<close>)
  from outbox_call_effect [OF quiet run advance_rotation_def] show ?thesis
  proof
    assume "(\<exists>x. r = Inl (RotationOutbox x)) \<and> h' = h"
    then show ?thesis using host by (auto simp: step_ok_def call_failure_def)
  next
    assume "\<exists>v db db'. st_db (ho_outbox h) = Some db \<and> advance_rotation_tx e (io_now (sc_io sc n)) p q db = Inr (v, db') \<and>
       h' = h\<lparr>ho_outbox := (ho_outbox h)\<lparr>st_db := Some db'\<rparr>\<rparr> \<and> (r = Inr v \<or> (\<exists>x. r = Inl (RotationOutbox x)))"
    then obtain v db db' where committed: "st_db (ho_outbox h) = Some db"
      "advance_rotation_tx e (io_now (sc_io sc n)) p q db = Inr (v, db')"
      "h' = h\<lparr>ho_outbox := (ho_outbox h)\<lparr>st_db := Some db'\<rparr>\<rparr>" "r = Inr v \<or> (\<exists>x. r = Inl (RotationOutbox x))" by blast
    obtain db0 where "st_db (ho_outbox h) = Some db0" "journal_at db0 p old new" using host by (auto simp: host_ok_def)
    then have at: "journal_at db p old new" using committed(1) by simp
    from advance_rotation_run [OF committed(2) at \<open>p \<noteq> q\<close>] obtain j where
      v: "v = j\<lparr>ir_phase := q, ir_updated := io_now (sc_io sc n)\<rparr>" and j: "journal_is p old new j"
      and db': "db' = db\<lparr>db_rotation := Stored (scrub_rotation (json_text e) v)\<rparr>" by blast
    have jv: "journal_is q old new v" using j v by (simp add: journal_is_def)
    have nid: "new_identity_ok e se old new" using host by (simp add: host_ok_def)
    have "journal_at db' q old new" by (rule scrubbed_journal_at [OF nid jv]) (simp add: db')
    then have ok: "host_ok se e q old new h'"
      using reach host next_agrees committed(3) by (simp add: host_ok_def)
    have "live_all e Q (ho_outbox h) \<longrightarrow> live_all e Q (ho_outbox h')"
      using committed(1,3) by (simp add: live_all_def db' live_def)
    then show ?thesis using ok jv committed(4) by (auto simp: step_ok_def call_failure_def)
  qed
qed

lemma quarantine_ok:
  assumes env: "env_ok e" and quiet: "quiet_schedule sc" and host: "host_ok se e PhaseIntent old new h"
    and run: "outbox_call e sc n (\<lambda>io. quarantine_rotation e io) h = (r, h')"
  shows "step_ok se e {PhaseOldQuarantined} old new r h' \<and> ((\<exists>v. r = Inr v) \<longrightarrow> no_live e old (ho_outbox h'))"
proof -
  let ?cfg = "st_cfg (ho_outbox h)"
  have reach: "reachable e (ho_outbox h')"
    by (rule outbox_call_reachable [OF quiet run, of "OpQuarantineRotation"])
      (use host in \<open>simp_all add: host_ok_def\<close>)
  have "sc_others sc n = []" using quiet by (simp add: quiet_schedule_def)
  then have "outbox_call e sc n (\<lambda>io s. run_update io 0 s (quarantine_rotation_tx e ?cfg (io_now io))) h = (r, h')"
    using run by (cases "sc_admit sc n")
      (simp_all add: outbox_call_def engine_write_def quarantine_rotation_def run_others_def Let_def)
  from outbox_call_effect [OF quiet this refl] show ?thesis
  proof
    assume "(\<exists>x. r = Inl (RotationOutbox x)) \<and> h' = h"
    then show ?thesis using host by (auto simp: step_ok_def call_failure_def)
  next
    assume "\<exists>v db db'. st_db (ho_outbox h) = Some db \<and> quarantine_rotation_tx e ?cfg (io_now (sc_io sc n)) db = Inr (v, db') \<and>
       h' = h\<lparr>ho_outbox := (ho_outbox h)\<lparr>st_db := Some db'\<rparr>\<rparr> \<and> (r = Inr v \<or> (\<exists>x. r = Inl (RotationOutbox x)))"
    then obtain v db db' where db: "st_db (ho_outbox h) = Some db"
      and tx: "quarantine_rotation_tx e ?cfg (io_now (sc_io sc n)) db = Inr (v, db')"
      and h': "h' = h\<lparr>ho_outbox := (ho_outbox h)\<lparr>st_db := Some db'\<rparr>\<rparr>" "r = Inr v \<or> (\<exists>x. r = Inl (RotationOutbox x))"
      by blast
    obtain j where j: "db_rotation db = Stored j" "ir_phase j = PhaseIntent" "ir_old j = old" "ir_new j = new"
      "\<not> is_zero (ir_started j)" using host db by (auto simp: host_ok_def journal_at_def)
    have wf: "wf_db e db" using reachable_wf [OF env _ db] host by (simp add: host_ok_def)
    note eff = outbox_env.quarantine_rotation_effect [OF outbox_env_of [OF env] wf tx j(1,2)]
    have jv: "journal_is PhaseOldQuarantined old new v"
      using eff j quarantine_rotation_started [OF tx j(1)] by (simp add: journal_is_def)
    have nid: "new_identity_ok e se old new" using host by (simp add: host_ok_def)
    have "journal_at db' PhaseOldQuarantined old new"
      by (rule scrubbed_journal_at [OF nid jv]) (use eff in simp)
    then have ok: "host_ok se e PhaseOldQuarantined old new h'"
      using reach host h'(1) state_agrees_later(1) by (auto simp: host_ok_def)
    have "no_live e old (ho_outbox h')"
      using eff j(3) h'(1) by (auto simp: no_live_def keep_if_def split: if_splits option.splits)
    then show ?thesis using ok jv h'(2) by (auto simp: step_ok_def call_failure_def)
  qed
qed

lemma recover_state_ok:
  assumes se: "state_env_ok se" and env: "env_ok e" and tame: "tame_schedule e sc"
    and host: "host_ok se e PhaseOldQuarantined old new h" and j: "journal_is PhaseOldQuarantined old new j"
    and run: "recover_state se e sc sio now j h = (r, h')"
  shows "step_ok se e {PhaseStateRotated} old new r h' \<and>
    (no_live_but e sc old (ho_outbox h) \<longrightarrow> no_live_but e sc old (ho_outbox h'))"
proof -
  obtain u s where rs: "rotate_state se sio now j (ho_state h) = (u, s)" by fastforce
  have agree: "state_agrees se PhaseOldQuarantined (ir_old j) (ir_new j) (ho_state h)"
    and utf: "se_text se (ir_new j) = ir_new j" "ir_new j \<noteq> []" "ir_old j \<noteq> ir_new j"
    using host j by (simp_all add: host_ok_def journal_is_def new_identity_ok_def)
  have started: "\<not> is_zero (ir_started j)" using j by (simp add: journal_is_def)
  from rotate_state_effect [OF se agree utf started rs]
  have s: "state_agrees se PhaseOldQuarantined old new s" and
    u: "u = Inr () \<and> state_agrees se PhaseStateRotated old new s \<or> (\<exists>x. u = Inl (RotationState x))"
    using j by (simp_all add: journal_is_def)
  let ?h = "h\<lparr>ho_state := s\<rparr>"
  have host': "host_ok se e PhaseOldQuarantined old new ?h" using host s by (simp add: host_ok_def)
  from u show ?thesis
  proof
    assume "\<exists>x. u = Inl (RotationState x)"
    then show ?thesis using run rs j host' by (auto simp: recover_state_def journal_is_def step_ok_def call_failure_def
        intro!: exI [of _ PhaseOldQuarantined])
  next
    assume u: "u = Inr () \<and> state_agrees se PhaseStateRotated old new s"
    then have "outbox_call e sc 2 (\<lambda>io. advance_rotation e io PhaseOldQuarantined PhaseStateRotated) ?h = (r, h')"
      using run rs j by (simp add: recover_state_def journal_is_def)
    then have call: "outbox_call e (calmed sc) 2 (\<lambda>io. advance_rotation e io PhaseOldQuarantined PhaseStateRotated)
        (met e sc 2 ?h) = (r, h')" by (simp add: outbox_call_met [of e sc])
    have "no_live_but e sc old (ho_outbox h) \<longrightarrow> no_live_but e sc old (ho_outbox (met e sc 2 ?h))"
      using met_no_live [OF env tame host', of 2] by simp
    then show ?thesis
      using advance_ok [OF calmed_quiet met_host_ok [OF env tame host', of 2] _ _ call] u
      unfolding live_all_iff by simp
  qed
qed

text \<open>The whole recovery, from any phase.\<close>

definition outcome_ok ::
  "state_env \<Rightarrow> ('b, 'd) env \<Rightarrow> string \<Rightarrow> string \<Rightarrow> (rotation_error + string) \<Rightarrow> ('b, 'd) host \<Rightarrow> bool" where
  "outcome_ok se e old new r h \<longleftrightarrow> (case r of
     Inl x \<Rightarrow> call_failure x \<and> (\<exists>ph. host_ok se e ph old new h)
   | Inr i \<Rightarrow> i = new \<and> host_ok se e PhaseCompleted old new h)"

lemma recover_ok:
  assumes se: "state_env_ok se" and env: "env_ok e" and tame: "tame_schedule e sc"
    and host: "host_ok se e ph old new h" and j: "journal_is ph old new j"
    and run: "recover_rotation se e sc sio now (Some j) h = (r, h')"
  shows "outcome_ok se e old new r h' \<and>
    (ph = PhaseIntent \<and> (\<exists>i. r = Inr i) \<longrightarrow> no_live_but e sc old (ho_outbox h'))"
proof -
  have ph: "ph \<in> {PhaseIntent, PhaseOldQuarantined, PhaseStateRotated, PhaseCompleted}"
    using host by (cases ph) (auto simp: host_ok_def state_agrees_def)
  obtain r1 h1 where s1: "recover_quarantine e sc j h = (r1, h1)" by fastforce
  have 1: "step_ok se e {PhaseOldQuarantined, PhaseStateRotated, PhaseCompleted} old new r1 h1 \<and>
      (ph = PhaseIntent \<and> (\<exists>v. r1 = Inr v) \<longrightarrow> no_live_but e sc old (ho_outbox h1))"
  proof (cases "ph = PhaseIntent")
    case True
    then have "outbox_call e (calmed sc) 1 (\<lambda>io. quarantine_rotation e io) (met e sc 1 h) = (r1, h1)"
      using s1 j by (simp add: recover_quarantine_def journal_is_def outbox_call_met [of e sc])
    moreover have "host_ok se e PhaseIntent old new (met e sc 1 h)" using met_host_ok [OF env tame host] True by simp
    ultimately have "step_ok se e {PhaseOldQuarantined} old new r1 h1 \<and> ((\<exists>v. r1 = Inr v) \<longrightarrow> no_live e old (ho_outbox h1))"
      by (intro quarantine_ok [OF env calmed_quiet])
    then show ?thesis
      using no_live_weaken [of e old "ho_outbox h1" sc] by (auto simp: step_ok_def split: sum.splits)
  next
    case False
    then have "r1 = Inr j" "h1 = h" using s1 j by (simp_all add: recover_quarantine_def journal_is_def)
    then show ?thesis using ph False host j by (auto simp: step_ok_def)
  qed
  show ?thesis
  proof (cases r1)
    case (Inl x)
    then show ?thesis using run s1 1 by (auto simp: recover_rotation_def outcome_ok_def step_ok_def)
  next
    case (Inr j1)
    then obtain p1 where p1: "p1 \<in> {PhaseOldQuarantined, PhaseStateRotated, PhaseCompleted}"
      "journal_is p1 old new j1" "host_ok se e p1 old new h1" using 1 by (auto simp: step_ok_def)
    obtain r2 h2 where s2: "recover_state se e sc sio now j1 h1 = (r2, h2)" by fastforce
    have 2: "step_ok se e {PhaseStateRotated, PhaseCompleted} old new r2 h2 \<and>
        (no_live_but e sc old (ho_outbox h1) \<longrightarrow> no_live_but e sc old (ho_outbox h2))"
    proof (cases "p1 = PhaseOldQuarantined")
      case True
      with recover_state_ok [OF se env tame _ _ s2] p1 show ?thesis by (auto simp: step_ok_def split: sum.splits)
    next
      case False
      then have "r2 = Inr j1" "h2 = h1" using s2 p1(2) by (simp_all add: recover_state_def journal_is_def)
      then show ?thesis using False p1 by (auto simp: step_ok_def)
    qed
    show ?thesis
    proof (cases r2)
      case (Inl x)
      then show ?thesis using run s1 s2 Inr 2 by (auto simp: recover_rotation_def outcome_ok_def step_ok_def)
    next
      case r2: (Inr j2)
      then obtain p2 where p2: "p2 \<in> {PhaseStateRotated, PhaseCompleted}"
        "journal_is p2 old new j2" "host_ok se e p2 old new h2" using 2 by (auto simp: step_ok_def)
      obtain r3 h3 where s3: "recover_complete e sc j2 h2 = (r3, h3)" by fastforce
      have 3: "step_ok se e {PhaseCompleted} old new r3 h3 \<and>
          (no_live_but e sc old (ho_outbox h2) \<longrightarrow> no_live_but e sc old (ho_outbox h3))"
      proof (cases "p2 = PhaseStateRotated")
        case True
        then have call: "outbox_call e (calmed sc) 3 (\<lambda>io. advance_rotation e io PhaseStateRotated PhaseCompleted)
            (met e sc 3 h2) = (r3, h3)"
          using s3 p2(2) by (simp add: recover_complete_def journal_is_def outbox_call_met [of e sc])
        have h2: "host_ok se e PhaseStateRotated old new h2" using p2(3) True by simp
        then have "state_agrees se PhaseCompleted old new (ho_state (met e sc 3 h2))"
          using state_agrees_later(2) by (simp add: host_ok_def)
        then show ?thesis
          using advance_ok [OF calmed_quiet met_host_ok [OF env tame h2, of 3] _ _ call]
            met_no_live [OF env tame h2, of 3] unfolding live_all_iff by simp
      next
        case False
        then have "r3 = Inr j2" "h3 = h2" using s3 p2(2) by (simp_all add: recover_complete_def journal_is_def)
        then show ?thesis using False p2 by (auto simp: step_ok_def)
      qed
      have no_live: "ph = PhaseIntent \<longrightarrow> no_live_but e sc old (ho_outbox h3)" using 1 2 3 Inr by blast
      show ?thesis
        using run s1 s2 s3 Inr r2 3 no_live
        by (cases r3) (auto simp: recover_rotation_def outcome_ok_def step_ok_def journal_is_def)
    qed
  qed
qed

section \<open>Properties\<close>

lemma recover_facts:
  assumes "state_env_ok se" "env_ok e" "tame_schedule e sc" "host_ok se e ph old new h"
    and "recover_installation se e sc sio now h = (r, h')"
  shows "case r of
      Inl x \<Rightarrow> ((\<exists>y. x = RotationOutbox y) \<or> (\<exists>y. x = RotationState y)) \<and> (\<exists>ph. host_ok se e ph old new h')
    | Inr i \<Rightarrow> i = new \<and> host_ok se e PhaseCompleted old new h' \<and> identity_of (sv_data (ho_state h')) = new \<and>
        (ph = PhaseIntent \<longrightarrow> no_live_but e sc old (ho_outbox h'))"
proof -
  obtain db j where db: "st_db (ho_outbox h) = Some db" "db_rotation db = Stored j" and j: "journal_is ph old new j"
    using assms(4) by (auto simp: host_ok_def journal_at_def journal_is_def)
  have stored: "stored_rotation (ho_outbox h) = Inr (Some j)"
    by (simp add: stored_rotation_def run_view_def db installation_rotation_tx_def read_slot_def)
  have "outcome_ok se e old new r h' \<and> (ph = PhaseIntent \<and> (\<exists>i. r = Inr i) \<longrightarrow> no_live_but e sc old (ho_outbox h'))"
  proof (cases "ph = PhaseCompleted")
    case True
    then have "identity_of (sv_data (ho_state h)) = new"
      using assms(4) by (simp add: host_ok_def state_agrees_def)
    then have "r = Inr new" "h' = h"
      using assms(5) True j stored by (simp_all add: recover_installation_def journal_is_def)
    then show ?thesis using assms(4) True by (simp add: outcome_ok_def)
  next
    case False
    then have "recover_rotation se e sc sio now (Some j) h = (r, h')"
      using assms(5) j stored by (simp add: recover_installation_def journal_is_def)
    from recover_ok [OF assms(1-4) j this] show ?thesis .
  qed
  then show ?thesis
    by (cases r) (auto simp: outcome_ok_def call_failure_def host_ok_def state_agrees_def)
qed

text \<open>
  C17. Recovery is crash safe and never stuck: from every state that agrees with the journal (an
  interrupted rotation leaves no other), a recovery either completes, with the new identity returned,
  in memory, in the file and in the journal, or fails because a call failed and leaves a state that
  agrees again; if it had to quarantine, no delivery of the old installation is live afterwards.
\<close>
theorem rotation_recovers:
  assumes "state_env_ok se" "env_ok e" "quiet_schedule sc" "host_ok se e ph old new h"
    and "recover_installation se e sc sio now h = (r, h')"
  shows "case r of
      Inl x \<Rightarrow> ((\<exists>y. x = RotationOutbox y) \<or> (\<exists>y. x = RotationState y)) \<and> (\<exists>ph. host_ok se e ph old new h')
    | Inr i \<Rightarrow> i = new \<and> host_ok se e PhaseCompleted old new h' \<and> identity_of (sv_data (ho_state h')) = new \<and>
        (ph = PhaseIntent \<longrightarrow> no_live e old (ho_outbox h'))"
  using recover_facts [OF assms(1,2) quiet_tame [OF assms(3)] assms(4,5)] quiet_no_live [OF assms(3)]
  by (auto split: sum.splits)

lemma begin_rotation_run:
  assumes "begin_rotation_tx e now r db = Inr (j, db')"
    and "db_rotation db = Absent \<or> (\<exists>j. db_rotation db = Stored j \<and> ir_phase j = PhaseCompleted)"
  shows "j = r\<lparr>ir_phase := PhaseIntent, ir_started := now, ir_updated := now, ir_quarantined := 0\<rparr> \<and>
    db' = db\<lparr>db_rotation := Stored (scrub_rotation (json_text e) j)\<rparr>"
  using assms by (auto simp: begin_rotation_tx_def Let_def split: if_splits)

lemma rotation_starts_facts:
  assumes "state_env_ok se" "env_ok e" "tame_schedule e sc" "reachable e (ho_outbox h)"
    and "st_db (ho_outbox h) = Some db"
    and "db_rotation db = Absent \<or> (\<exists>j. db_rotation db = Stored j \<and> ir_phase j = PhaseCompleted)"
    and "settled se (sv_data (ho_state h))" "reads_as se (sv_file (ho_state h)) (sv_data (ho_state h))"
    and "old = identity_of (sv_data (ho_state h))" "trim_space old = old" "trim_space new = new"
    and "new_identity_ok e se old new" "\<not> is_zero (io_now (sc_io sc 0))"
    and "rotate_installation se e sc sio now (Some new) reason h = (r, h')"
  shows "h' = met e sc 0 h \<and> (\<exists>y. r = Inl (RotationOutbox y)) \<or>
    (case r of
      Inl x \<Rightarrow> ((\<exists>y. x = RotationOutbox y) \<or> (\<exists>y. x = RotationState y)) \<and> (\<exists>ph. host_ok se e ph old new h')
    | Inr i \<Rightarrow> i = new \<and> host_ok se e PhaseCompleted old new h' \<and> no_live_but e sc old (ho_outbox h'))"
proof -
  obtain journal where stored: "stored_rotation (ho_outbox h) = Inr journal"
    "journal = None \<or> ir_phase (the journal) = PhaseCompleted"
    using assms(6) by (cases "db_rotation db")
      (auto simp: stored_rotation_def run_view_def assms(5) installation_rotation_tx_def read_slot_def)
  have old: "old \<noteq> []" using assms(7,9) by (simp add: settled_def state_wf_def has_defaults_def)
  have new: "new \<noteq> []" "old \<noteq> new" using assms(12) by (simp_all add: new_identity_ok_def)
  let ?r = "\<lparr>ir_old = old, ir_new = new, ir_reason = trim_space reason, ir_phase = PhaseOther [],
    ir_started = zero_time, ir_updated = zero_time, ir_quarantined = 0\<rparr>"
  let ?h = "met e sc 0 h"
  obtain u h1 where call0: "outbox_call e sc 0 (\<lambda>io. begin_rotation e io ?r) h = (u, h1)" by fastforce
  then have call: "outbox_call e (calmed sc) 0 (\<lambda>io. begin_rotation e io ?r) ?h = (u, h1)"
    by (simp add: outbox_call_met [of e sc])
  obtain db0 where db0: "st_db (ho_outbox ?h) = Some db0" "db_rotation db0 = db_rotation db"
    by (rule met_db [OF assms(2-5)])
  have r: "(case u of Inl x \<Rightarrow> (Inl x, h1) | Inr j \<Rightarrow> recover_rotation se e sc sio now (Some j) h1) = (r, h')"
    using assms(14) stored old assms(9,10) call0
    by (cases u) (simp_all add: rotate_installation_def Let_def)
  have reach: "reachable e (ho_outbox h1)"
    by (rule outbox_call_reachable [OF calmed_quiet call met_reachable [OF assms(3,4)], of "OpBeginRotation ?r"]) simp_all
  have st: "ho_state h1 = ho_state h" using outbox_call_state [OF call] by simp
  have run_begin: "begin_rotation e io ?r s = run_update io 0 s (begin_rotation_tx e (io_now io) ?r)" for io s
    using old new assms(10,11) by (simp add: begin_rotation_def Let_def)
  from outbox_call_effect [OF calmed_quiet call run_begin] show ?thesis
  proof
    assume "(\<exists>x. u = Inl (RotationOutbox x)) \<and> h1 = ?h"
    then show ?thesis using r by auto
  next
    assume "\<exists>v db db'. st_db (ho_outbox ?h) = Some db \<and>
       begin_rotation_tx e (io_now (sc_io (calmed sc) 0)) ?r db = Inr (v, db') \<and>
       h1 = ?h\<lparr>ho_outbox := (ho_outbox ?h)\<lparr>st_db := Some db'\<rparr>\<rparr> \<and> (u = Inr v \<or> (\<exists>x. u = Inl (RotationOutbox x)))"
    then obtain v db' where tx: "begin_rotation_tx e (io_now (sc_io sc 0)) ?r db0 = Inr (v, db')"
      and h1: "h1 = ?h\<lparr>ho_outbox := (ho_outbox ?h)\<lparr>st_db := Some db'\<rparr>\<rparr>"
      and u: "u = Inr v \<or> (\<exists>x. u = Inl (RotationOutbox x))" using db0(1) by (auto simp: calmed_def)
    note b = begin_rotation_run [OF tx assms(6) [folded db0(2)]]
    have j: "journal_is PhaseIntent old new v" using b assms(13) by (simp add: journal_is_def)
    have "journal_at db' PhaseIntent old new"
      by (rule scrubbed_journal_at [OF assms(12) j]) (use b in simp)
    moreover have "state_agrees se PhaseIntent old new (ho_state h)"
      using assms(7-9) by (auto simp: state_agrees_def)
    ultimately have ok: "host_ok se e PhaseIntent old new h1"
      using reach assms(12) st h1 by (simp add: host_ok_def)
    from u show ?thesis
    proof
      assume "u = Inr v"
      then have "recover_rotation se e sc sio now (Some v) h1 = (r, h')" using r by simp
      from recover_ok [OF assms(1-3) ok j this] show ?thesis
        by (cases r) (auto simp: outcome_ok_def call_failure_def)
    next
      assume "\<exists>x. u = Inl (RotationOutbox x)"
      then show ?thesis using r ok by auto
    qed
  qed
qed

text \<open>
  C18. A crash between any two writes of a rotation is harmless. When the process restarts from the two files
  of a host that agrees with its journal, both open (the outbox under the conditions of a restart: the
  directory exists, the records are accepted, the commits succeed), the state to exactly what its file
  reads as; the reopened host agrees with the journal in the same phase; and the recovery that follows
  completes the rotation, or fails because a call failed and leaves a host that agrees again.
\<close>
theorem rotation_survives_crash:
  assumes "state_env_ok se" "env_ok e" "tame_schedule e sc" "host_ok se e ph old new h" "st_db (ho_outbox h) = Some db"
    and "si_read sio" "open_state se sio (sv_file (ho_state h)) b = (r, s)"
    and "accepts e (oi_reset_now oi) db" "trim_space (cf_path cfg) \<noteq> []" "oi_mkdir oi" "\<And>n. oi_commit oi n"
  shows "r = Inr () \<and> reads_as se (sv_file (ho_state h)) (sv_data s) \<and>
    (\<exists>ob. open_store e oi cfg (SoundFile db) = Inr ob \<and> host_ok se e ph old new \<lparr>ho_state = s, ho_outbox = ob\<rparr> \<and>
      (case recover_installation se e sc sio' now \<lparr>ho_state = s, ho_outbox = ob\<rparr> of
         (Inl x, h') \<Rightarrow> ((\<exists>y. x = RotationOutbox y) \<or> (\<exists>y. x = RotationState y)) \<and> (\<exists>ph. host_ok se e ph old new h')
       | (Inr i, h') \<Rightarrow> i = new \<and> host_ok se e PhaseCompleted old new h' \<and> identity_of (sv_data (ho_state h')) = new \<and>
           (ph = PhaseIntent \<longrightarrow> no_live_but e sc old (ho_outbox h'))))"
proof -
  note env = outbox_env_of [OF assms(2)]
  have reach: "reachable e (ho_outbox h)" using assms(4) by (simp add: host_ok_def)
  have wf: "wf_db e db" "schema_ok db" using outbox_env.reachable_schema [OF env reach assms(5)] by simp_all
  obtain ob where ob: "open_store e oi cfg (SoundFile db) = Inr ob"
    using outbox_env.open_sound_succeeds [OF env wf assms(8-11)] by blast
  obtain d where d: "reads_as se (sv_file (ho_state h)) d" "settled se d" "agrees ph old new d"
    using assms(4) by (auto simp: host_ok_def state_agrees_def)
  have s: "r = Inr ()" "sv_data s = d" "sv_file s = sv_file (ho_state h)"
    using state_reopen_facts [OF d(1) _ assms(6), of b] d(2) assms(7) by (auto simp: settled_def)
  from outbox_env.open_sound_effect [OF env wf(1) ob] obtain db' where
    db': "st_db ob = Some db'" "db_rotation db' = db_rotation db" by (auto simp: restarted_def)
  have "journal_at db ph old new" using assms(4,5) by (auto simp: host_ok_def)
  then have "journal_at db' ph old new" using db'(2) by (simp add: journal_at_def)
  moreover have "reachable e ob" by (rule reachable.restart [OF reach assms(5) ob])
  moreover have "state_agrees se ph old new s" using d s by (auto simp: state_agrees_def)
  ultimately have ok: "host_ok se e ph old new \<lparr>ho_state = s, ho_outbox = ob\<rparr>"
    using assms(4) db'(1) by (simp add: host_ok_def)
  obtain x h' where run: "recover_installation se e sc sio' now \<lparr>ho_state = s, ho_outbox = ob\<rparr> = (x, h')" by fastforce
  from recover_facts [OF assms(1-3) ok run] ob ok s d(1) show ?thesis
    by (intro conjI exI [of _ ob]) (simp_all add: run split: sum.splits)
qed

section \<open>A concrete rotation\<close>

definition demo_journal :: "rotation_phase \<Rightarrow> int \<Rightarrow> rotation" where
  "demo_journal ph n = \<lparr>ir_old = ''i'', ir_new = ''n'', ir_reason = ''re_pair'', ir_phase = ph, ir_started = 22,
     ir_updated = 22, ir_quarantined = n\<rparr>"

definition demo_db7 :: demo_db where
  "demo_db7 = demo_db1\<lparr>db_rotation := Stored (demo_journal PhaseIntent 0)\<rparr>"

lemma demo_begin:
  "begin_rotation log_env (demo_io 22) \<lparr>ir_old = ''i'', ir_new = ''n'', ir_reason = ''re_pair'', ir_phase = PhaseOther [],
     ir_started = zero_time, ir_updated = zero_time, ir_quarantined = 0\<rparr> (demo_store demo_db1)
   = (Inr (demo_journal PhaseIntent 0), demo_store demo_db7)"
  by (simp add: begin_rotation_def begin_rotation_tx_def run_update_def demo_io_def demo_db7_def demo_db1_def
      demo_db0_def empty_db_def new_store_def demo_journal_def trim_space_visible Let_def log_env_def
      scrub_rotation_def)

definition demo_db8 :: demo_db where
  "demo_db8 = snd (projr (quarantine_rotation_tx log_env demo_config 22 demo_db7))"

lemma demo_quarantine_tx:
  "quarantine_rotation_tx log_env demo_config 22 demo_db7 = Inr (demo_journal PhaseOldQuarantined 1, demo_db8)"
  "db_rotation demo_db8 = Stored (demo_journal PhaseOldQuarantined 1)"
proof -
  have "\<exists>db. quarantine_rotation_tx log_env demo_config 22 demo_db7 = Inr (demo_journal PhaseOldQuarantined 1, db) \<and>
      db_rotation db = Stored (demo_journal PhaseOldQuarantined 1)"
    by (simp add: quarantine_rotation_tx_def clear_pause_of_def demo_db7_def demo_db1_def
      demo_db0_def empty_db_def demo_data demo_env tx_steps Let_def demo_journal_def rotation_mark_def
      mark_quarantined_def scrub_rotation_def)
  then show "quarantine_rotation_tx log_env demo_config 22 demo_db7 = Inr (demo_journal PhaseOldQuarantined 1, demo_db8)"
    "db_rotation demo_db8 = Stored (demo_journal PhaseOldQuarantined 1)"
    by (auto simp: demo_db8_def)
qed

lemma demo_quarantine:
  "quarantine_rotation log_env (demo_io 22) (demo_store demo_db7)
   = (Inr (demo_journal PhaseOldQuarantined 1), demo_store demo_db8)"
  using demo_quarantine_tx(1) by (simp add: quarantine_rotation_def run_update_def new_store_def demo_io_def)

lemma demo_advance:
  assumes "db_rotation db = Stored (demo_journal p 1)" "p \<noteq> q"
  shows "advance_rotation log_env (demo_io 22) p q (demo_store db) =
    (Inr (demo_journal q 1), demo_store (db\<lparr>db_rotation := Stored (demo_journal q 1)\<rparr>))"
  using assms by (simp add: advance_rotation_def run_update_def advance_rotation_tx_def new_store_def demo_io_def Let_def
      demo_journal_def scrub_rotation_def log_env_def)

definition demo_rotated_store :: state_store where
  "demo_rotated_store = demo_opened_store\<lparr>sv_data := demo_rotated, sv_file := Some (''{d}'' @ [char_of (10 :: nat)])\<rparr>"

lemma demo_rotate_state:
  "rotate_state demo_state_env demo_state_io 9 (demo_journal PhaseOldQuarantined 1) demo_opened_store =
     (Inr (), demo_rotated_store)"
proof -
  have n: "stamp 7 (normalize_generations demo_state_env demo_opened (rotate_data ''n'' 22 9 demo_opened)) = demo_rotated"
    by (simp add: normalize_generations_def normalize_credential_def credential_fingerprint_def rotate_data_def
        demo_rotated_def binding_text_def demo_opened_def stamp_def demo_state_env_def demo_migrated_def no_cloud_def
        no_pairing_def no_installation_def Let_def)
  have "identity_of demo_rotated = ''n''" "identity_of demo_migrated = ''i''" "identity_of demo_opened = ''i''"
      "identity_of demo_paired = ''i''"
    by (simp_all add: demo_rotated_def demo_opened_def demo_paired_def stamp_def demo_migrated_def)
  then have "demo_rotated \<noteq> demo_migrated" "demo_rotated \<noteq> demo_opened" "demo_rotated \<noteq> demo_paired"
      "identity_of (sv_data demo_opened_store) = ''i''" by (auto simp: demo_opened_store_def)
  then have "se_indent demo_state_env demo_rotated = Some ''{d}''" "identity_of (sv_data demo_opened_store) = ''i''"
    by (simp_all add: demo_state_env_def demo_marshal_def)
  then show ?thesis
    by (simp add: rotate_state_def Let_def demo_journal_def update_store_def demo_opened_store_def demo_clone
        commit_state_def write_state_def demo_state_io_def n demo_rotated_store_def)
qed


definition demo_db9 :: demo_db where
  "demo_db9 = demo_db8\<lparr>db_rotation := Stored (demo_journal PhaseCompleted 1)\<rparr>"

type_synonym demo_host = "(cell write_log, key write_log) host"

definition demo_intent :: demo_host where
  "demo_intent = \<lparr>ho_state = demo_opened_store, ho_outbox = demo_store demo_db7\<rparr>"

definition demo_done :: demo_host where
  "demo_done = \<lparr>ho_state = demo_rotated_store, ho_outbox = demo_store demo_db9\<rparr>"

lemma demo_recover:
  "recover_rotation demo_state_env log_env demo_quiet demo_state_io 9 (Some (demo_journal PhaseIntent 0)) demo_intent
   = (Inr ''n'', demo_done)"
proof -
  have phase: "ir_phase (demo_journal p n) = p" "ir_new (demo_journal p n) = ''n''" for p n
    by (simp_all add: demo_journal_def)
  have 1: "recover_quarantine log_env demo_quiet (demo_journal PhaseIntent 0) demo_intent =
      (Inr (demo_journal PhaseOldQuarantined 1), demo_intent\<lparr>ho_outbox := demo_store demo_db8\<rparr>)"
    by (simp add: recover_quarantine_def outbox_call_def demo_quarantine phase demo_intent_def)
  have 2: "recover_state demo_state_env log_env demo_quiet demo_state_io 9 (demo_journal PhaseOldQuarantined 1)
      (demo_intent\<lparr>ho_outbox := demo_store demo_db8\<rparr>) =
      (Inr (demo_journal PhaseStateRotated 1), \<lparr>ho_state = demo_rotated_store,
         ho_outbox = demo_store (demo_db8\<lparr>db_rotation := Stored (demo_journal PhaseStateRotated 1)\<rparr>)\<rparr>)"
    by (simp add: recover_state_def outbox_call_def phase demo_intent_def demo_rotate_state
        demo_advance [OF demo_quarantine_tx(2)])
  have 3: "recover_complete log_env demo_quiet (demo_journal PhaseStateRotated 1) \<lparr>ho_state = demo_rotated_store,
         ho_outbox = demo_store (demo_db8\<lparr>db_rotation := Stored (demo_journal PhaseStateRotated 1)\<rparr>)\<rparr>
      = (Inr (demo_journal PhaseCompleted 1), demo_done)"
    by (simp add: recover_complete_def outbox_call_def phase demo_advance demo_done_def demo_db9_def)
  show ?thesis by (simp add: recover_rotation_def 1 2 3 phase)
qed

lemma demo_quiet_schedule: "quiet_schedule demo_quiet"
  by (simp add: quiet_schedule_def demo_quiet_def)

lemma demo_reach7: "reachable log_env (demo_store demo_db7)"
proof -
  let ?r = "\<lparr>ir_old = ''i'', ir_new = ''n'', ir_reason = ''re_pair'', ir_phase = PhaseOther [],
     ir_started = zero_time, ir_updated = zero_time, ir_quarantined = 0\<rparr>"
  have "reachable log_env (perform log_env (demo_io 22) (OpBeginRotation ?r) (demo_store demo_db1))"
    by (rule reachable.call [OF demo_reach1]) simp
  then show ?thesis using demo_begin by simp
qed

lemma demo_new_identity: "new_identity_ok log_env demo_state_env ''i'' ''n''"
  by (simp add: new_identity_ok_def log_env_def demo_state_env_def)

lemma demo_settled: "settled demo_state_env demo_opened" "identity_of demo_opened = ''i''"
proof -
  have "se_text demo_state_env = (\<lambda>s. s)" by (simp add: demo_state_env_def)
  then show "settled demo_state_env demo_opened" by (simp add: settled_def demo_opened_wf scrub_id)
  show "identity_of demo_opened = ''i''" by (simp add: demo_opened_def stamp_def demo_migrated_def)
qed

lemma demo_intent_ok: "host_ok demo_state_env log_env PhaseIntent ''i'' ''n'' demo_intent"
proof -
  have "journal_at demo_db7 PhaseIntent ''i'' ''n''"
    by (simp add: journal_at_def demo_db7_def demo_journal_def is_zero_def zero_time_def)
  moreover have "state_agrees demo_state_env PhaseIntent ''i'' ''n'' demo_opened_store"
    using demo_settled demo_opened_reads by (auto simp: state_agrees_def demo_opened_store_def)
  ultimately show ?thesis
    using demo_reach7 demo_new_identity by (simp add: host_ok_def demo_intent_def new_store_def)
qed

lemma demo_recover_installation:
  "recover_installation demo_state_env log_env demo_quiet demo_state_io 9 demo_intent = (Inr ''n'', demo_done)"
proof -
  have "stored_rotation (ho_outbox demo_intent) = Inr (Some (demo_journal PhaseIntent 0))"
    by (simp add: stored_rotation_def run_view_def installation_rotation_tx_def read_slot_def demo_intent_def
        demo_db7_def new_store_def)
  then show ?thesis
    by (simp add: recover_installation_def demo_recover) (simp add: demo_journal_def)
qed

theorem rotation_recovers_witness:
  "host_ok demo_state_env log_env PhaseCompleted ''i'' ''n'' demo_done \<and>
   identity_of (sv_data (ho_state demo_done)) = ''n'' \<and> no_live log_env ''i'' (ho_outbox demo_done)"
  using rotation_recovers [OF demo_env_ok log_env_ok demo_quiet_schedule demo_intent_ok demo_recover_installation]
  by simp

definition demo_start :: demo_host where
  "demo_start = \<lparr>ho_state = demo_opened_store, ho_outbox = demo_store demo_db1\<rparr>"

lemma demo_trim: "trim_space ''i'' = ''i''" "trim_space ''n'' = ''n''" "trim_space ''re_pair'' = ''re_pair''"
  by (rule trim_space_visible; simp)+

lemma demo_rotate:
  "rotate_installation demo_state_env log_env demo_quiet demo_state_io 9 (Some ''n'') ''re_pair'' demo_start =
     (Inr ''n'', demo_done)"
proof -
  have "stored_rotation (ho_outbox demo_start) = Inr None"
    by (simp add: stored_rotation_def run_view_def installation_rotation_tx_def read_slot_def demo_start_def
        demo_db1_def demo_db0_def empty_db_def new_store_def)
  moreover have "outbox_call log_env demo_quiet 0 (\<lambda>io. begin_rotation log_env io \<lparr>ir_old = ''i'', ir_new = ''n'',
      ir_reason = ''re_pair'', ir_phase = PhaseOther [], ir_started = zero_time, ir_updated = zero_time, ir_quarantined = 0\<rparr>)
      demo_start = (Inr (demo_journal PhaseIntent 0), demo_intent)"
    using demo_begin by (simp add: outbox_call_def demo_start_def demo_intent_def)
  moreover have "identity_of (sv_data (ho_state demo_start)) = ''i''"
    by (simp add: demo_start_def demo_opened_store_def demo_settled)
  ultimately show ?thesis
    by (simp add: rotate_installation_def Let_def demo_trim demo_recover)
qed

lemma demo_accepts7: "accepts log_env (oi_reset_now (demo_open 30)) demo_db7"
proof -
  have "live log_env demo_db7 = live log_env demo_db1" by (simp add: fun_eq_iff live_def demo_db7_def)
  then show ?thesis
    unfolding accepts_def demo_live
    by (auto simp: demo_live log_env_def log_bucket_def key_ok_def due_key_def demo_rec_def demo_delivery_def
        split: if_splits)
qed

theorem rotation_survives_crash_witness:
  "\<exists>ob s. open_store log_env (demo_open 30) demo_config (SoundFile demo_db7) = Inr ob \<and>
     open_state demo_state_env demo_state_io (sv_file demo_opened_store) None = (Inr (), s) \<and>
     host_ok demo_state_env log_env PhaseIntent ''i'' ''n'' \<lparr>ho_state = s, ho_outbox = ob\<rparr>"
proof -
  obtain r s where st: "open_state demo_state_env demo_state_io (sv_file (ho_state demo_intent)) None = (r, s)"
    by fastforce
  have db: "st_db (ho_outbox demo_intent) = Some demo_db7" by (simp add: demo_intent_def new_store_def)
  have fine: "trim_space (cf_path demo_config) \<noteq> []" "oi_mkdir (demo_open 30)" "oi_commit (demo_open 30) n" for n
    by (simp_all add: demo_config_def demo_open_def trim_visible_char)
  note crash = rotation_survives_crash [OF demo_env_ok log_env_ok quiet_tame [OF demo_quiet_schedule] demo_intent_ok db
      demo_io_fine(2) st demo_accepts7 fine]
  have "sv_file (ho_state demo_intent) = sv_file demo_opened_store" by (simp add: demo_intent_def)
  then have "open_state demo_state_env demo_state_io (sv_file demo_opened_store) None = (Inr (), s)"
    using st conjunct1 [OF crash [of demo_state_io 9]] by simp
  moreover obtain ob where "open_store log_env (demo_open 30) demo_config (SoundFile demo_db7) = Inr ob"
    "host_ok demo_state_env log_env PhaseIntent ''i'' ''n'' \<lparr>ho_state = s, ho_outbox = ob\<rparr>"
    using conjunct2 [OF conjunct2 [OF crash [of demo_state_io 9]]] by (elim exE conjE)
  ultimately show ?thesis by (intro exI [of _ ob] exI [of _ s] conjI)
qed

end
