(* ===== verification/StatusModel.thy ===== *)
theory StatusModel
  imports GoPrelude
begin

text \<open>
  The status model (\<open>internal/status/model.go\<close>): what the receiver shows of itself. Every operation runs
  under the model's lock and stamps the snapshot; \<open>now\<close> is the reading of the clock in that section.
  \<open>Snapshot()\<close> copies the value, so that no caller shares a pointer with the model; a copy is the value
  itself here. A \<open>float64\<close> is its 64-bit pattern.
\<close>

type_synonym float64 = "64 word"

datatype lifecycle = LifecycleStarting | LifecycleRunning | LifecycleStopping | LifecycleStopped
  | LifecycleFailed

record component_status =
  cm_state :: string
  cm_message :: string
  cm_updated_at :: time

record delivery_status =
  dv_state :: string
  dv_pending_count :: int
  dv_quarantined_count :: int
  dv_used_bytes :: int
  dv_recovery_code :: string
  dv_failure_code :: string

record adapter_status =
  as_name :: string
  as_protocol :: string
  as_lifecycle :: string
  as_connection_state :: string
  as_enabled :: bool
  as_configured :: bool
  as_ready :: bool
  as_transport :: string
  as_configured_device :: string
  as_connected_device :: string
  as_companion_name :: string
  as_companion_id_prefix :: string
  as_device :: string
  as_protocol_version :: string
  as_profile :: string
  as_profile_state :: string
  as_reconnect_suppressed :: bool
  as_released_by_user :: bool
  as_last_error :: string
  as_updated_at :: time
  as_delivery :: "delivery_status option"

record failure_event =
  fe_code :: string
  fe_summary :: string
  fe_hint :: string
  fe_updated_at :: time

record session_status =
  hs_enabled :: bool
  hs_mode :: string
  hs_effective_config_source :: string
  hs_effective_config_ver :: string
  hs_cloud_config_present :: bool
  hs_last_fetched_config_ver :: string
  hs_last_applied_config_ver :: string
  hs_last_config_apply_result :: string
  hs_last_config_apply_error :: string
  hs_desired_config_enabled :: bool
  hs_desired_config_mode :: string
  hs_state :: string
  hs_control_state :: string
  hs_active_state_source :: string
  hs_summary :: string
  hs_home_summary :: string
  hs_tracked_node_ids :: "string list"
  hs_tracked_node_state :: string
  hs_reconciliation_state :: string
  hs_pending_action :: string
  hs_pending_since :: "time option"
  hs_active_session_id :: string
  hs_active_trigger_node :: string
  hs_last_decision_reason :: string
  hs_last_error :: string
  hs_last_action :: string
  hs_last_action_result :: string
  hs_last_action_at :: "time option"
  hs_last_successful_action :: string
  hs_last_successful_at :: "time option"
  hs_blocked_reason :: string
  hs_consecutive_failures :: int
  hs_cooldown_until :: "time option"
  hs_decision_cooldown_until :: "time option"
  hs_gps_status :: string
  hs_gps_reason :: string
  hs_gps_node_id :: string
  hs_gps_updated_at :: "time option"
  hs_gps_distance_m :: "float64 option"
  hs_observed_queue_depth :: int
  hs_observed_dropped :: int
  hs_updated_at :: time

record meshtastic_config =
  mc_available :: bool
  mc_unavailable_reason :: string
  mc_region :: string
  mc_primary_channel :: string
  mc_primary_channel_idx :: int
  mc_psk_state :: string
  mc_lora_preset :: string
  mc_lora_bandwidth :: string
  mc_lora_spreading :: string
  mc_lora_coding_rate :: string
  mc_share_url :: string
  mc_share_url_redacted :: string
  mc_share_url_available :: bool
  mc_share_qr_text :: string
  mc_source :: string
  mc_updated_at :: "time option"

record snapshot =
  sn_installation_id :: string
  sn_local_name :: string
  sn_hostname :: string
  sn_cloud_receiver_id :: string
  sn_cloud_receiver_label :: string
  sn_cloud_site_label :: string
  sn_cloud_group_label :: string
  sn_receiver_version :: string
  sn_release_channel :: string
  sn_build_commit :: string
  sn_build_date :: string
  sn_build_id :: string
  sn_platform :: string
  sn_arch :: string
  sn_install_type :: string
  sn_mode :: string
  sn_runtime_profile :: string
  sn_lifecycle :: lifecycle
  sn_pairing_phase :: string
  sn_cloud_endpoint :: string
  sn_cloud_status :: string
  sn_cloud_reachable :: bool
  sn_ready :: bool
  sn_ready_reason :: string
  sn_last_error :: string
  sn_last_heartbeat_sent :: "time option"
  sn_last_heartbeat_ack :: "time option"
  sn_heartbeat_fresh :: bool
  sn_last_packet_queued :: "time option"
  sn_last_packet_sent :: "time option"
  sn_last_packet_ack :: "time option"
  sn_ingest_queue_depth :: int
  sn_failure_code :: string
  sn_failure_summary :: string
  sn_failure_hint :: string
  sn_failure_since :: "time option"
  sn_recent_failures :: "failure_event list"
  sn_attention_state :: string
  sn_attention_category :: string
  sn_attention_code :: string
  sn_attention_summary :: string
  sn_attention_hint :: string
  sn_attention_action_required :: bool
  sn_attention_updated_at :: "time option"
  sn_update_status :: string
  sn_update_summary :: string
  sn_update_hint :: string
  sn_update_manifest_version :: string
  sn_update_manifest_channel :: string
  sn_update_recommended_version :: string
  sn_update_checked_at :: "time option"
  sn_meshtastic_config :: meshtastic_config
  sn_adapters :: "adapter_status list"
  sn_home_auto_session :: session_status
  sn_started_at :: time
  sn_updated_at :: time
  sn_components :: "string \<rightharpoonup> component_status"

section \<open>Operations\<close>

definition no_session_status :: session_status where
  "no_session_status = \<lparr>hs_enabled = False, hs_mode = [], hs_effective_config_source = [],
     hs_effective_config_ver = [], hs_cloud_config_present = False,
     hs_last_fetched_config_ver = [], hs_last_applied_config_ver = [],
     hs_last_config_apply_result = [], hs_last_config_apply_error = [],
     hs_desired_config_enabled = False, hs_desired_config_mode = [], hs_state = [],
     hs_control_state = [], hs_active_state_source = [], hs_summary = [], hs_home_summary = [],
     hs_tracked_node_ids = [], hs_tracked_node_state = [], hs_reconciliation_state = [],
     hs_pending_action = [], hs_pending_since = None, hs_active_session_id = [],
     hs_active_trigger_node = [], hs_last_decision_reason = [], hs_last_error = [],
     hs_last_action = [], hs_last_action_result = [], hs_last_action_at = None,
     hs_last_successful_action = [], hs_last_successful_at = None, hs_blocked_reason = [],
     hs_consecutive_failures = 0, hs_cooldown_until = None, hs_decision_cooldown_until = None,
     hs_gps_status = [], hs_gps_reason = [], hs_gps_node_id = [], hs_gps_updated_at = None,
     hs_gps_distance_m = None, hs_observed_queue_depth = 0, hs_observed_dropped = 0,
     hs_updated_at = zero_time\<rparr>"

definition no_meshtastic_config :: meshtastic_config where
  "no_meshtastic_config = \<lparr>mc_available = False, mc_unavailable_reason = [], mc_region = [], mc_primary_channel = [],
     mc_primary_channel_idx = 0, mc_psk_state = [], mc_lora_preset = [], mc_lora_bandwidth = [],
     mc_lora_spreading = [], mc_lora_coding_rate = [], mc_share_url = [],
     mc_share_url_redacted = [], mc_share_url_available = False, mc_share_qr_text = [],
     mc_source = [], mc_updated_at = None\<rparr>"

definition new_status :: "time \<Rightarrow> snapshot" where
  "new_status now = \<lparr>sn_installation_id = [], sn_local_name = [], sn_hostname = [], sn_cloud_receiver_id = [],
     sn_cloud_receiver_label = [], sn_cloud_site_label = [], sn_cloud_group_label = [],
     sn_receiver_version = [], sn_release_channel = [], sn_build_commit = [], sn_build_date = [],
     sn_build_id = [], sn_platform = [], sn_arch = [], sn_install_type = [], sn_mode = [],
     sn_runtime_profile = [], sn_lifecycle = LifecycleStarting, sn_pairing_phase = [],
     sn_cloud_endpoint = [], sn_cloud_status = ''unknown'', sn_cloud_reachable = False,
     sn_ready = False, sn_ready_reason = [], sn_last_error = [], sn_last_heartbeat_sent = None,
     sn_last_heartbeat_ack = None, sn_heartbeat_fresh = False, sn_last_packet_queued = None,
     sn_last_packet_sent = None, sn_last_packet_ack = None, sn_ingest_queue_depth = 0,
     sn_failure_code = [], sn_failure_summary = [], sn_failure_hint = [],
     sn_failure_since = None, sn_recent_failures = [], sn_attention_state = [],
     sn_attention_category = [], sn_attention_code = [], sn_attention_summary = [],
     sn_attention_hint = [], sn_attention_action_required = False,
     sn_attention_updated_at = None, sn_update_status = [], sn_update_summary = [],
     sn_update_hint = [], sn_update_manifest_version = [], sn_update_manifest_channel = [],
     sn_update_recommended_version = [], sn_update_checked_at = None,
     sn_meshtastic_config = no_meshtastic_config, sn_adapters = [],
     sn_home_auto_session = no_session_status, sn_started_at = now, sn_updated_at = now,
     sn_components = Map.empty\<rparr>"

definition update_status :: "time \<Rightarrow> (snapshot \<Rightarrow> snapshot) \<Rightarrow> snapshot \<Rightarrow> snapshot" where
  "update_status now f s = (f s)\<lparr>sn_updated_at := now\<rparr>"

definition set_lifecycle :: "time \<Rightarrow> lifecycle \<Rightarrow> snapshot \<Rightarrow> snapshot" where
  "set_lifecycle now l = update_status now (\<lambda>s. s\<lparr>sn_lifecycle := l\<rparr>)"

definition set_mode :: "time \<Rightarrow> string \<Rightarrow> snapshot \<Rightarrow> snapshot" where
  "set_mode now v = update_status now (\<lambda>s. s\<lparr>sn_mode := v\<rparr>)"

definition set_runtime_profile :: "time \<Rightarrow> string \<Rightarrow> snapshot \<Rightarrow> snapshot" where
  "set_runtime_profile now v = update_status now (\<lambda>s. s\<lparr>sn_runtime_profile := v\<rparr>)"

definition set_installation_id :: "time \<Rightarrow> string \<Rightarrow> snapshot \<Rightarrow> snapshot" where
  "set_installation_id now v = update_status now (\<lambda>s. s\<lparr>sn_installation_id := v\<rparr>)"

definition set_identity ::
  "time \<Rightarrow> string \<Rightarrow> string \<Rightarrow> string \<Rightarrow> string \<Rightarrow> string \<Rightarrow> string \<Rightarrow> snapshot \<Rightarrow> snapshot" where
  "set_identity now name host receiver label site grp = update_status now (\<lambda>s. s\<lparr>
     sn_local_name := trim_space name, sn_hostname := trim_space host,
     sn_cloud_receiver_id := trim_space receiver, sn_cloud_receiver_label := trim_space label,
     sn_cloud_site_label := trim_space site, sn_cloud_group_label := trim_space grp\<rparr>)"

record build_info =
  bd_version :: string
  bd_channel :: string
  bd_commit :: string
  bd_date :: string
  bd_id :: string
  bd_platform :: string
  bd_arch :: string
  bd_install_type :: string

definition set_build_info :: "time \<Rightarrow> build_info \<Rightarrow> snapshot \<Rightarrow> snapshot" where
  "set_build_info now b = update_status now (\<lambda>s. s\<lparr>
     sn_receiver_version := trim_space (bd_version b), sn_release_channel := trim_space (bd_channel b),
     sn_build_commit := trim_space (bd_commit b), sn_build_date := trim_space (bd_date b),
     sn_build_id := trim_space (bd_id b), sn_platform := trim_space (bd_platform b),
     sn_arch := trim_space (bd_arch b), sn_install_type := trim_space (bd_install_type b)\<rparr>)"

definition set_adapters :: "time \<Rightarrow> adapter_status list \<Rightarrow> snapshot \<Rightarrow> snapshot" where
  "set_adapters now v = update_status now (\<lambda>s. s\<lparr>sn_adapters := v\<rparr>)"

definition set_pairing_phase :: "time \<Rightarrow> string \<Rightarrow> snapshot \<Rightarrow> snapshot" where
  "set_pairing_phase now v = update_status now (\<lambda>s. s\<lparr>sn_pairing_phase := v\<rparr>)"

definition set_cloud :: "time \<Rightarrow> string \<Rightarrow> string \<Rightarrow> snapshot \<Rightarrow> snapshot" where
  "set_cloud now endpoint v = update_status now (\<lambda>s. s\<lparr>sn_cloud_endpoint := endpoint, sn_cloud_status := v\<rparr>)"

definition set_cloud_reachable :: "time \<Rightarrow> bool \<Rightarrow> snapshot \<Rightarrow> snapshot" where
  "set_cloud_reachable now v = update_status now (\<lambda>s. s\<lparr>sn_cloud_reachable := v\<rparr>)"

definition set_ready :: "time \<Rightarrow> bool \<Rightarrow> string \<Rightarrow> snapshot \<Rightarrow> snapshot" where
  "set_ready now v reason = update_status now (\<lambda>s. s\<lparr>sn_ready := v, sn_ready_reason := reason\<rparr>)"

definition set_last_error :: "time \<Rightarrow> string \<Rightarrow> snapshot \<Rightarrow> snapshot" where
  "set_last_error now v = update_status now (\<lambda>s. s\<lparr>sn_last_error := v\<rparr>)"

definition set_heartbeat :: "time \<Rightarrow> time option \<Rightarrow> time option \<Rightarrow> bool \<Rightarrow> snapshot \<Rightarrow> snapshot" where
  "set_heartbeat now sent ack fresh = update_status now (\<lambda>s. s\<lparr>
     sn_last_heartbeat_sent := sent, sn_last_heartbeat_ack := ack, sn_heartbeat_fresh := fresh\<rparr>)"

definition set_packet_telemetry ::
  "time \<Rightarrow> time option \<Rightarrow> time option \<Rightarrow> time option \<Rightarrow> int \<Rightarrow> snapshot \<Rightarrow> snapshot" where
  "set_packet_telemetry now queued sent ack depth = update_status now (\<lambda>s. s\<lparr>
     sn_last_packet_queued := queued, sn_last_packet_sent := sent, sn_last_packet_ack := ack,
     sn_ingest_queue_depth := depth\<rparr>)"

definition set_component :: "time \<Rightarrow> string \<Rightarrow> string \<Rightarrow> string \<Rightarrow> snapshot \<Rightarrow> snapshot" where
  "set_component now name st message = update_status now (\<lambda>s. s\<lparr>
     sn_components := (sn_components s)(name \<mapsto>
       \<lparr>cm_state = st, cm_message = message, cm_updated_at = now\<rparr>)\<rparr>)"

definition set_failure :: "time \<Rightarrow> string \<Rightarrow> string \<Rightarrow> string \<Rightarrow> snapshot \<Rightarrow> snapshot" where
  "set_failure now code summary hint = update_status now (\<lambda>s.
     (let code = trim_space code; summary = trim_space summary; hint = trim_space hint
      in if code = []
         then s\<lparr>sn_failure_code := [], sn_failure_summary := [], sn_failure_hint := [], sn_failure_since := None\<rparr>
         else
           let s = (if sn_failure_code s \<noteq> code \<or> sn_failure_summary s \<noteq> summary \<or> sn_failure_hint s \<noteq> hint
                    then let recent = sn_recent_failures s
                           @ [\<lparr>fe_code = code, fe_summary = summary, fe_hint = hint, fe_updated_at = now\<rparr>]
                         in s\<lparr>sn_failure_since := Some now,
                              sn_recent_failures := (if length recent > 8 then drop (length recent - 8) recent
                                                     else recent)\<rparr>
                    else s)
           in s\<lparr>sn_failure_code := code, sn_failure_summary := summary, sn_failure_hint := hint\<rparr>))"

record update_report =
  up_status :: string
  up_summary :: string
  up_hint :: string
  up_version :: string
  up_channel :: string
  up_recommended :: string
  up_checked_at :: "time option"

definition set_update_status :: "time \<Rightarrow> update_report \<Rightarrow> snapshot \<Rightarrow> snapshot" where
  "set_update_status now u = update_status now (\<lambda>s. s\<lparr>
     sn_update_status := trim_space (up_status u), sn_update_summary := trim_space (up_summary u),
     sn_update_hint := trim_space (up_hint u), sn_update_manifest_version := trim_space (up_version u),
     sn_update_manifest_channel := trim_space (up_channel u),
     sn_update_recommended_version := trim_space (up_recommended u), sn_update_checked_at := up_checked_at u\<rparr>)"

definition set_attention ::
  "time \<Rightarrow> string \<Rightarrow> string \<Rightarrow> string \<Rightarrow> string \<Rightarrow> string \<Rightarrow> bool \<Rightarrow> snapshot \<Rightarrow> snapshot" where
  "set_attention now st category code summary hint action_required = update_status now (\<lambda>s.
     (let s = s\<lparr>sn_attention_state := trim_space st, sn_attention_category := trim_space category,
                sn_attention_code := trim_space code, sn_attention_summary := trim_space summary,
                sn_attention_hint := trim_space hint, sn_attention_action_required := action_required\<rparr>
      in if sn_attention_state s = [] \<or> sn_attention_state s = ''none''
         then s\<lparr>sn_attention_updated_at := None\<rparr>
         else s\<lparr>sn_attention_updated_at := Some now\<rparr>))"

definition set_home_auto_session :: "time \<Rightarrow> session_status \<Rightarrow> snapshot \<Rightarrow> snapshot" where
  "set_home_auto_session now v = update_status now (\<lambda>s. s\<lparr>sn_home_auto_session := v\<lparr>
     hs_mode := trim_space (hs_mode v),
     hs_effective_config_source := trim_space (hs_effective_config_source v),
     hs_effective_config_ver := trim_space (hs_effective_config_ver v),
     hs_last_fetched_config_ver := trim_space (hs_last_fetched_config_ver v),
     hs_last_applied_config_ver := trim_space (hs_last_applied_config_ver v),
     hs_last_config_apply_result := trim_space (hs_last_config_apply_result v),
     hs_last_config_apply_error := trim_space (hs_last_config_apply_error v),
     hs_desired_config_mode := trim_space (hs_desired_config_mode v),
     hs_state := trim_space (hs_state v), hs_control_state := trim_space (hs_control_state v),
     hs_active_state_source := trim_space (hs_active_state_source v),
     hs_summary := trim_space (hs_summary v), hs_home_summary := trim_space (hs_home_summary v),
     hs_tracked_node_state := trim_space (hs_tracked_node_state v),
     hs_reconciliation_state := trim_space (hs_reconciliation_state v),
     hs_pending_action := trim_space (hs_pending_action v),
     hs_active_session_id := trim_space (hs_active_session_id v),
     hs_active_trigger_node := trim_space (hs_active_trigger_node v),
     hs_last_decision_reason := trim_space (hs_last_decision_reason v),
     hs_last_error := trim_space (hs_last_error v),
     hs_last_action := trim_space (hs_last_action v),
     hs_last_action_result := trim_space (hs_last_action_result v),
     hs_last_successful_action := trim_space (hs_last_successful_action v),
     hs_blocked_reason := trim_space (hs_blocked_reason v),
     hs_gps_status := trim_space (hs_gps_status v),
     hs_gps_reason := trim_space (hs_gps_reason v),
     hs_gps_node_id := trim_space (hs_gps_node_id v), hs_updated_at := now\<rparr>\<rparr>)"

definition set_meshtastic_config :: "time \<Rightarrow> meshtastic_config \<Rightarrow> snapshot \<Rightarrow> snapshot" where
  "set_meshtastic_config now v = update_status now (\<lambda>s.
     (let c = v\<lparr>
     mc_unavailable_reason := trim_space (mc_unavailable_reason v),
     mc_region := trim_space (mc_region v),
     mc_primary_channel := trim_space (mc_primary_channel v),
     mc_psk_state := trim_space (mc_psk_state v),
     mc_lora_preset := trim_space (mc_lora_preset v),
     mc_lora_bandwidth := trim_space (mc_lora_bandwidth v),
     mc_lora_spreading := trim_space (mc_lora_spreading v),
     mc_lora_coding_rate := trim_space (mc_lora_coding_rate v),
     mc_share_url := trim_space (mc_share_url v),
     mc_share_url_redacted := trim_space (mc_share_url_redacted v),
     mc_share_qr_text := trim_space (mc_share_qr_text v), mc_source := trim_space (mc_source v)\<rparr>
      in s\<lparr>sn_meshtastic_config :=
           (if mc_updated_at c = None \<and> mc_available c then c\<lparr>mc_updated_at := Some now\<rparr> else c)\<rparr>))"


section \<open>Histories of the model\<close>

datatype status_op = OpLifecycle lifecycle | OpMode string | OpProfile string | OpInstallationId string
  | OpIdentity string string string string string string | OpBuildInfo build_info
  | OpAdapters "adapter_status list" | OpPairingPhase string | OpCloud string string
  | OpCloudReachable bool | OpReady bool string | OpLastError string
  | OpHeartbeat "time option" "time option" bool
  | OpPacketTelemetry "time option" "time option" "time option" int
  | OpComponent string string string | OpFailure string string string | OpUpdateStatus update_report
  | OpAttention string string string string string bool | OpHomeAutoSession session_status
  | OpMeshtasticConfig meshtastic_config

fun status_step :: "time \<times> status_op \<Rightarrow> snapshot \<Rightarrow> snapshot" where
  "status_step (now, OpLifecycle v) = set_lifecycle now v"
| "status_step (now, OpMode v) = set_mode now v"
| "status_step (now, OpProfile v) = set_runtime_profile now v"
| "status_step (now, OpInstallationId v) = set_installation_id now v"
| "status_step (now, OpIdentity a b c d e f) = set_identity now a b c d e f"
| "status_step (now, OpBuildInfo v) = set_build_info now v"
| "status_step (now, OpAdapters v) = set_adapters now v"
| "status_step (now, OpPairingPhase v) = set_pairing_phase now v"
| "status_step (now, OpCloud a b) = set_cloud now a b"
| "status_step (now, OpCloudReachable v) = set_cloud_reachable now v"
| "status_step (now, OpReady v r) = set_ready now v r"
| "status_step (now, OpLastError v) = set_last_error now v"
| "status_step (now, OpHeartbeat a b c) = set_heartbeat now a b c"
| "status_step (now, OpPacketTelemetry a b c d) = set_packet_telemetry now a b c d"
| "status_step (now, OpComponent a b c) = set_component now a b c"
| "status_step (now, OpFailure a b c) = set_failure now a b c"
| "status_step (now, OpUpdateStatus v) = set_update_status now v"
| "status_step (now, OpAttention a b c d e f) = set_attention now a b c d e f"
| "status_step (now, OpHomeAutoSession v) = set_home_auto_session now v"
| "status_step (now, OpMeshtasticConfig v) = set_meshtastic_config now v"

definition status_after :: "time \<Rightarrow> (time \<times> status_op) list \<Rightarrow> snapshot" where
  "status_after started ops = fold status_step ops (new_status started)"

text \<open>What the failure fields promise: an unbounded log of the failures reported, one entry for every
  report that differs from the failure shown, and the failure shown now.\<close>

type_synonym failure_log = "failure_event option \<times> failure_event list"

definition same_failure :: "string \<Rightarrow> string \<Rightarrow> string \<Rightarrow> failure_event \<Rightarrow> bool" where
  "same_failure code summary hint ev \<longleftrightarrow> fe_code ev = code \<and> fe_summary ev = summary \<and> fe_hint ev = hint"

fun log_step :: "time \<times> status_op \<Rightarrow> failure_log \<Rightarrow> failure_log" where
  "log_step (now, OpFailure code summary hint) (shown, log) =
     (if trim_space code = [] then (None, log)
      else if \<exists>ev. shown = Some ev \<and> same_failure (trim_space code) (trim_space summary) (trim_space hint) ev
      then (shown, log)
      else let ev = \<lparr>fe_code = trim_space code, fe_summary = trim_space summary, fe_hint = trim_space hint,
                     fe_updated_at = now\<rparr>
           in (Some ev, log @ [ev]))"
| "log_step (now, op) l = l"

definition newest :: "nat \<Rightarrow> 'a list \<Rightarrow> 'a list" where
  "newest n xs = drop (length xs - n) xs"

definition shows_log :: "snapshot \<Rightarrow> failure_log \<Rightarrow> bool" where
  "shows_log s l \<longleftrightarrow> sn_recent_failures s = newest 8 (snd l) \<and>
     (case fst l of
        None \<Rightarrow> sn_failure_code s = [] \<and> sn_failure_summary s = [] \<and> sn_failure_hint s = [] \<and>
          sn_failure_since s = None
      | Some ev \<Rightarrow> fe_code ev \<noteq> [] \<and> sn_failure_code s = fe_code ev \<and> sn_failure_summary s = fe_summary ev \<and>
          sn_failure_hint s = fe_hint ev \<and> sn_failure_since s = Some (fe_updated_at ev))"

lemma newest_append:
  "newest n (newest n xs @ [x]) = newest n (xs @ [x])"
  by (cases "n \<le> length xs"; cases n) (simp_all add: newest_def Suc_diff_Suc)

lemma newest_if: "(if length xs > n then drop (length xs - n) xs else xs) = newest n xs"
  by (simp add: newest_def)

lemmas status_defs = update_status_def set_lifecycle_def set_mode_def set_runtime_profile_def
  set_installation_id_def set_identity_def set_build_info_def set_adapters_def set_pairing_phase_def
  set_cloud_def set_cloud_reachable_def set_ready_def set_last_error_def set_heartbeat_def
  set_packet_telemetry_def set_component_def set_update_status_def set_attention_def
  set_home_auto_session_def set_meshtastic_config_def

lemma status_step_failure_fields:
  assumes "\<nexists>a b c. op = OpFailure a b c"
  shows "sn_recent_failures (status_step (now, op) s) = sn_recent_failures s"
    "sn_failure_code (status_step (now, op) s) = sn_failure_code s"
    "sn_failure_summary (status_step (now, op) s) = sn_failure_summary s"
    "sn_failure_hint (status_step (now, op) s) = sn_failure_hint s"
    "sn_failure_since (status_step (now, op) s) = sn_failure_since s"
    "log_step (now, op) l = l"
  using assms by (cases op; simp add: status_defs Let_def)+

lemma shows_log_step: "shows_log s l \<Longrightarrow> shows_log (status_step op s) (log_step op l)"
proof -
  assume l: "shows_log s l"
  obtain now x where op: "op = (now, x)" by (cases op)
  show ?thesis
  proof (cases "\<exists>a b c. x = OpFailure a b c")
    case False
    from l show ?thesis unfolding op shows_log_def status_step_failure_fields [OF False] by assumption
  next
    case True
    then show ?thesis using l
      by (cases l) (auto simp: op shows_log_def set_failure_def update_status_def Let_def newest_if newest_append
          same_failure_def split: option.splits)
  qed
qed

lemma shows_log_history: "shows_log s l \<Longrightarrow> shows_log (fold status_step ops s) (fold log_step ops l)"
  by (induction ops arbitrary: s l) (simp_all add: shows_log_step)


section \<open>Properties\<close>

text \<open>
  The failure fields of the status implement the failure log: after any operations, the recent
  failures are the eight newest entries of the log, one for every report that changed the failure
  shown, and the failure shown, with the time since when, is the one of the log.
\<close>
lemma status_refines_log:
  "shows_log (status_after started ops) (fold log_step ops (None, []))"
  unfolding status_after_def
  by (rule shows_log_history) (simp add: shows_log_def new_status_def newest_def)

text \<open>What else holds in every status: an attention state is shown exactly with its time, an available
  radio configuration has a time, and every text that is normalised is trimmed.\<close>

definition trimmed :: "string \<Rightarrow> bool" where
  "trimmed s \<longleftrightarrow> trim_space s = s"

definition status_wf :: "snapshot \<Rightarrow> bool" where
  "status_wf s \<longleftrightarrow>
     (sn_attention_updated_at s = None \<longleftrightarrow> sn_attention_state s \<in> {[], ''none''}) \<and>
     (mc_available (sn_meshtastic_config s) \<longrightarrow> mc_updated_at (sn_meshtastic_config s) \<noteq> None) \<and>
     (sn_failure_since s = None \<longleftrightarrow> sn_failure_code s = []) \<and>
     trimmed (sn_failure_code s) \<and> trimmed (sn_failure_summary s) \<and> trimmed (sn_failure_hint s) \<and>
     trimmed (sn_attention_state s) \<and> trimmed (sn_attention_summary s) \<and> trimmed (sn_local_name s) \<and>
     trimmed (sn_cloud_receiver_id s) \<and> trimmed (sn_receiver_version s) \<and> trimmed (sn_update_status s) \<and>
     trimmed (hs_state (sn_home_auto_session s)) \<and> trimmed (mc_share_url (sn_meshtastic_config s))"

lemma status_step_wf: "status_wf s \<Longrightarrow> status_wf (status_step (now, op) s)"
  by (cases op) (auto simp: status_wf_def status_defs set_failure_def Let_def trimmed_def)

text \<open>
  In every status that any operations produce, the attention time is set exactly when attention is
  asked for, an available radio configuration has a time, a failure has a time, and the normalised
  texts are trimmed.
\<close>
lemma status_always_wf: "status_wf (status_after started ops)"
proof -
  have "status_wf s \<Longrightarrow> status_wf (fold status_step ops s)" for s
    by (induction ops arbitrary: s) (auto intro: status_step_wf)
  moreover have "status_wf (new_status started)"
    by (simp add: status_wf_def new_status_def no_session_status_def no_meshtastic_config_def trimmed_def)
  ultimately show ?thesis by (simp add: status_after_def)
qed

end
