(* ===== verification/CloudTypes.thy ===== *)
theory CloudTypes
  imports Dispatch ClockAttestation StatusModel
begin

text \<open>
  The data of the cloud client (\<open>internal/cloudclient\<close>): requests, responses, errors, the records on
  the wire and the environment the client runs in. One exchange is a value: the network is the function \<open>he_send\<close>, from the request that
  leaves to the transport's failure or the response that arrives. \<open>net/url\<close>, \<open>encoding/json\<close> and the
  parsers of time formats are parameters; every check the client makes on their results is modelled.
\<close>

section \<open>Requests, responses and errors\<close>

record url =
  ur_scheme :: string
  ur_host :: string
  ur_port :: string
  ur_text :: string

record http_request =
  rq_url :: string
  rq_headers :: "(string \<times> string) list"
  rq_body :: string

text \<open>What \<open>IsRetryable\<close> can see of an error from elsewhere: its text, whether it wraps
  \<open>context.DeadlineExceeded\<close> or \<open>context.Canceled\<close>, and whether it is a \<open>net.Error\<close>.\<close>

record go_error =
  te_text :: string
  te_deadline :: bool
  te_canceled :: bool
  te_net :: bool

text \<open>The body is what the stream delivers before it ends, or fails with \<open>rp_broken\<close>. \<open>rp_tls\<close>: TLS with a
  completed handshake; \<open>rp_direct\<close>: the response's request is the one sent, not one of a redirect.\<close>

record http_response =
  rp_status :: int
  rp_header :: "string \<Rightarrow> string"
  rp_body :: string
  rp_broken :: "go_error option"
  rp_tls :: bool
  rp_direct :: bool

datatype 'a decoded = Decoded 'a | Malformed string | StreamEnded string

datatype client_error = ApiFailure api_error string string | TransportFailure go_error
  | MissingApiKey | MissingDelivery | NoBaseUrl | BadUrl string | EncodeFailed string
  | DecodeFailed go_error | AckUndecodable go_error | InconsistentAck | InvalidAssertion | InvalidAssertionTime
  | BadTime string string

definition client_error_text :: "client_error \<Rightarrow> string" where
  "client_error_text err = (case err of
     ApiFailure a route session \<Rightarrow> error_text (SendApi a)
   | TransportFailure t \<Rightarrow> te_text t
   | MissingApiKey \<Rightarrow> ''ingest API key is required''
   | MissingDelivery \<Rightarrow> ''normalized delivery bytes, id, and hash are required''
   | NoBaseUrl \<Rightarrow> ''cloud base URL is not configured''
   | BadUrl m \<Rightarrow> m
   | EncodeFailed m \<Rightarrow> m
   | DecodeFailed t \<Rightarrow> te_text t
   | AckUndecodable t \<Rightarrow> ''decode normalized delivery response: '' @ te_text t
   | InconsistentAck \<Rightarrow> ''cloud returned an inconsistent normalized delivery acknowledgement''
   | InvalidAssertion \<Rightarrow> ''cloud returned an invalid session eligible position assertion''
   | InvalidAssertionTime \<Rightarrow> ''cloud returned an invalid session eligible position assertion time''
   | BadTime what m \<Rightarrow> what @ '': '' @ m)"

definition transient :: "go_error \<Rightarrow> bool" where
  "transient t = (if te_deadline t then True else if te_canceled t then False else te_net t)"

definition is_retryable :: "client_error \<Rightarrow> bool" where
  "is_retryable err = (case err of
     ApiFailure a route session \<Rightarrow> ae_retryable a
   | TransportFailure t \<Rightarrow> transient t
   | DecodeFailed t \<Rightarrow> transient t
   | AckUndecodable t \<Rightarrow> transient t
   | _ \<Rightarrow> False)"

definition send_error_of :: "client_error \<Rightarrow> send_error" where
  "send_error_of err = (case err of ApiFailure a route session \<Rightarrow> SendApi a
     | _ \<Rightarrow> SendOther (client_error_text err))"

section \<open>The wire records\<close>

record exchange_wire =
  xw_session :: string
  xw_flow_key :: string
  xw_token :: string
  xw_expires :: string
  xw_config :: string
  xw_receiver_label :: string
  xw_site_label :: string
  xw_group_label :: string
  xw_activate :: string
  xw_heartbeat :: string
  xw_ingest :: string

record bootstrap_exchange =
  bx_session :: string
  bx_flow_key :: string
  bx_token :: string
  bx_expires :: time
  bx_config :: string
  bx_receiver_label :: string
  bx_site_label :: string
  bx_group_label :: string
  bx_activate :: string
  bx_heartbeat :: string
  bx_ingest :: string

record activation_request =
  aq_token :: string
  aq_label :: string
  aq_version :: string
  aq_platform :: string
  aq_arch :: string
  aq_metadata :: "string \<rightharpoonup> json"

record activation_wire =
  aw_receiver :: string
  aw_owner :: string
  aw_receiver_label :: string
  aw_site_label :: string
  aw_group_label :: string
  aw_key_id :: string
  aw_key :: string
  aw_config :: string
  aw_ingest :: string
  aw_heartbeat :: string
  aw_activated :: string

record activation_result =
  ar_receiver :: string
  ar_owner :: string
  ar_receiver_label :: string
  ar_site_label :: string
  ar_group_label :: string
  ar_key_id :: string
  ar_key :: string
  ar_config :: string
  ar_ingest :: string
  ar_heartbeat :: string
  ar_activated :: time

record subject_ref =
  sr_protocol :: string
  sr_namespace :: string
  sr_canonical :: string

record assertion_wire =
  pw_delivery :: string
  pw_eligibility :: string
  pw_device :: string
  pw_subject :: subject_ref
  pw_lat :: float64
  pw_lon :: float64
  pw_captured :: string

record position_assertion =
  pa_delivery :: string
  pa_eligibility :: string
  pa_device :: string
  pa_subject :: subject_ref
  pa_lat :: float64
  pa_lon :: float64
  pa_captured :: time

record ack_wire =
  kw_accepted :: bool
  kw_duplicate :: bool
  kw_delivery :: string
  kw_clock :: string
  kw_position :: "assertion_wire option"

record delivery_result =
  nd_status :: int
  nd_duplicate :: bool
  nd_delivery :: string
  nd_request :: string
  nd_clock :: "candidate option"
  nd_position :: "position_assertion option"

record error_wire =
  ew_code :: string
  ew_message :: json
  ew_error :: json
  ew_session :: string
  ew_data :: "(string \<rightharpoonup> json) option"


record managed_config =
  mg_version :: string
  mg_enabled :: "bool option"
  mg_mode :: string
  mg_lat :: float64
  mg_lon :: float64
  mg_radius :: float64
  mg_tracked :: "string list"
  mg_start_debounce :: string
  mg_stop_debounce :: string
  mg_idle_stop :: string
  mg_startup_reconcile :: "bool option"
  mg_name_template :: string
  mg_notes_template :: string
  mg_start_endpoint :: string
  mg_stop_endpoint :: string

record tracking_intent =
  ti_version :: string
  ti_session :: string
  ti_device :: string
  ti_protocol :: string
  ti_public_key :: string
  ti_receiver :: string
  ti_installation :: string
  ti_updated :: string

record ble_intent =
  bl_version :: string
  bl_operation :: string
  bl_receiver :: string
  bl_installation :: string
  bl_requested :: string
  bl_address :: string
  bl_pin :: string

record adapter_report =
  av_protocol :: string
  av_enabled :: bool
  av_configured :: bool
  av_lifecycle :: string
  av_connection :: string
  av_connected :: bool
  av_ready :: bool
  av_transport :: string
  av_version :: string
  av_profile :: string
  av_error :: string
  av_released :: bool
  av_configured_device :: string
  av_connected_device :: string
  av_companion_name :: string
  av_companion_prefix :: string
  av_delivery :: "(string \<times> int \<times> int \<times> string) option"

record control_result =
  br_version :: string
  br_operation :: string
  br_state :: string
  br_error :: string

record discovery_device =
  dd_address :: string
  dd_name :: string
  dd_rssi :: "int option"
  dd_bonded :: bool
  dd_connected :: bool
  dd_configured :: bool

record discovery_result =
  dc_version :: string
  dc_state :: string
  dc_error :: string
  dc_devices :: "discovery_device list"

record heartbeat =
  hb_version :: string
  hb_platform :: string
  hb_arch :: string
  hb_local_node :: string
  hb_observed :: "string list"
  hb_diagnostic :: string
  hb_status :: "string \<rightharpoonup> json"
  hb_adapters :: "adapter_report list"
  hb_control :: "control_result option"
  hb_discovery :: "discovery_result option"

record heartbeat_wire =
  hw_receiver :: string
  hw_owner :: string
  hw_receiver_label :: string
  hw_site_label :: string
  hw_group_label :: string
  hw_config :: string
  hw_last :: string
  hw_nodes :: int
  hw_session :: "managed_config option"
  hw_tracking :: "tracking_intent option"
  hw_control :: "ble_intent option"
  hw_clock :: string

record heartbeat_ack =
  hk_receiver :: string
  hk_owner :: string
  hk_receiver_label :: string
  hk_site_label :: string
  hk_group_label :: string
  hk_config :: string
  hk_last :: time
  hk_nodes :: int
  hk_session :: "managed_config option"
  hk_tracking :: "tracking_intent option"
  hk_control :: "ble_intent option"
  hk_clock :: "candidate option"

record start_request =
  ss_device :: string
  ss_trigger :: string
  ss_dedupe :: string
  ss_reason :: string
  ss_name :: string
  ss_notes :: string
  ss_started :: string
  ss_home :: "string \<rightharpoonup> json"

record stop_request =
  sp_session :: string
  sp_trigger :: string
  sp_dedupe :: string
  sp_reason :: string
  sp_stopped :: string

record session_wire =
  sw_session :: string
  sw_at :: string
  sw_status :: string

record session_result =
  so_session :: string
  so_at :: time
  so_result :: string
  so_status :: int
  so_request :: string

datatype request_body = BodyExchange string | BodyActivate activation_request
  | BodyIngest "string \<rightharpoonup> json" | BodyHeartbeat heartbeat | BodyStart start_request
  | BodyStop stop_request

record http_env =
  he_url :: "string \<Rightarrow> string + url"
  he_send :: "http_request \<Rightarrow> go_error + http_response"
  he_now :: time
  he_time :: "string \<Rightarrow> string \<Rightarrow> string + time"
  he_http_time :: "string \<Rightarrow> time option"
  he_entropy :: "string option"
  he_fold :: "string \<Rightarrow> string \<Rightarrow> bool"
  he_clock :: clock_env
  he_encode :: "request_body \<Rightarrow> string + string"
  he_wire :: "string \<Rightarrow> (wire \<times> string) option"
  he_error :: "string \<Rightarrow> error_wire option"
  he_ack :: "string \<Rightarrow> ack_wire decoded"
  he_exchange :: "string \<Rightarrow> exchange_wire decoded"
  he_activation :: "string \<Rightarrow> activation_wire decoded"
  he_ingest :: "string \<Rightarrow> string decoded"
  he_heartbeat :: "string \<Rightarrow> heartbeat_wire decoded"
  he_session :: "string \<Rightarrow> session_wire decoded"

end
