(* ===== verification/CloudClient.thy ===== *)
theory CloudClient
  imports CloudTypes
begin

text \<open>
  The cloud client (\<open>internal/cloudclient/client.go\<close>): requests to the LoRaMapr cloud and what is made
  of the responses.
\<close>

unbundle bit_operations_syntax

section \<open>Addresses and identifiers\<close>

definition trim_slashes :: "string \<Rightarrow> string" where
  "trim_slashes s = rev (dropWhile (\<lambda>c. c = CHR ''/'') (rev s))"

definition resolve_url :: "http_env \<Rightarrow> string \<Rightarrow> string \<Rightarrow> client_error + string" where
  "resolve_url he base path =
     (let raw = trim_space path
      in if raw = [] then (if base = [] then Inl NoBaseUrl else Inr base)
         else let relative =
                (if base = [] then Inl NoBaseUrl
                 else if take 1 raw = ''/'' then Inr (base @ raw)
                 else Inr (base @ ''/'' @ raw))
              in case he_url he raw of
                   Inr u \<Rightarrow> if ur_scheme u \<noteq> [] then Inr (ur_text u) else relative
                 | Inl _ \<Rightarrow> relative)"

definition hex_digits :: string where "hex_digits = ''0123456789abcdef''"

definition hex_encode :: "string \<Rightarrow> string" where
  "hex_encode s = concat (map (\<lambda>c. [hex_digits ! (of_char c div 16), hex_digits ! (of_char c mod 16)]) s)"

definition generate_request_id :: "http_env \<Rightarrow> string" where
  "generate_request_id he = (case he_entropy he of
     Some bytes \<Rightarrow> ''req-'' @ hex_encode bytes
   | None \<Rightarrow> ''req-'' @ itoa (he_now he))"

text \<open>The request identifier a context carries, or the empty string.\<close>

definition with_request_id :: "string \<Rightarrow> string \<Rightarrow> string" where
  "with_request_id ctx rid = (if trim_space rid = [] then ctx else trim_space rid)"

definition ensure_request_id :: "http_env \<Rightarrow> string \<Rightarrow> string \<times> string" where
  "ensure_request_id he ctx =
     (if trim_space ctx \<noteq> [] then (ctx, trim_space ctx)
      else let rid = generate_request_id he in (with_request_id ctx rid, rid))"

definition response_request_id :: "http_response \<Rightarrow> string" where
  "response_request_id rp =
     (if trim_space (rp_header rp ''X-Request-Id'') \<noteq> [] then trim_space (rp_header rp ''X-Request-Id'')
      else trim_space (rp_header rp ''X-Request-ID''))"

text \<open>\<open>strings.EqualFold\<close>: on ASCII strings by lower case, elsewhere by the Unicode fold.\<close>

definition equal_fold :: "http_env \<Rightarrow> string \<Rightarrow> string \<Rightarrow> bool" where
  "equal_fold he a b =
     (if ascii_only a \<and> ascii_only b then map lower_char a = map lower_char b else he_fold he a b)"

definition effective_https_port :: "url \<Rightarrow> string" where
  "effective_https_port u = (if ur_port u \<noteq> [] then ur_port u else ''443'')"

definition same_https_origin :: "http_env \<Rightarrow> url \<Rightarrow> url \<Rightarrow> bool" where
  "same_https_origin he a b \<longleftrightarrow> equal_fold he (ur_scheme a) ''https'' \<and> equal_fold he (ur_scheme b) ''https'' \<and>
     equal_fold he (ur_host a) (ur_host b) \<and> effective_https_port a = effective_https_port b"

definition trusted_clock_transport :: "http_env \<Rightarrow> string \<Rightarrow> http_request \<Rightarrow> http_response \<Rightarrow> bool" where
  "trusted_clock_transport he base rq rp =
     (if \<not> rp_tls rp \<or> \<not> rp_direct rp then False
      else case (he_url he base, he_url he (rq_url rq)) of
          (Inr b, Inr u) \<Rightarrow> same_https_origin he b u
        | _ \<Rightarrow> False)"


section \<open>Errors of the cloud\<close>

definition retryable_status :: "int \<Rightarrow> bool" where
  "retryable_status code = (if code = 408 \<or> code = 429 then True else 500 \<le> code)"

fun json_text_item :: "json \<Rightarrow> string option" where
  "json_text_item (JString s) = (if trim_space s = [] then None else Some (trim_space s))"
| "json_text_item _ = None"

definition join_text :: "string \<Rightarrow> string list \<Rightarrow> string" where
  "join_text sep ps = (case ps of [] \<Rightarrow> [] | p # qs \<Rightarrow> p @ concat (map (\<lambda>q. sep @ q) qs))"

fun normalize_error_message :: "json \<Rightarrow> string" where
  "normalize_error_message (JString s) = trim_space s"
| "normalize_error_message (JArray items) = join_text ''; '' (List.map_filter json_text_item items)"
| "normalize_error_message _ = []"

definition read_limited :: "nat \<Rightarrow> http_response \<Rightarrow> string option" where
  "read_limited n rp =
     (if rp_broken rp \<noteq> None \<and> length (rp_body rp) < n then None else Some (take n (rp_body rp)))"

record error_info =
  ei_code :: string
  ei_message :: string
  ei_session :: string

definition decode_error_payload :: "http_env \<Rightarrow> http_response \<Rightarrow> error_info" where
  "decode_error_payload he rp = (case read_limited 2048 rp of
     None \<Rightarrow> \<lparr>ei_code = [], ei_message = [], ei_session = []\<rparr>
   | Some data \<Rightarrow> (case he_error he data of
       None \<Rightarrow> \<lparr>ei_code = [], ei_message = trim_space data, ei_session = []\<rparr>
     | Some w \<Rightarrow> \<lparr>
         ei_code = trim_space (ew_code w),
         ei_message = (if normalize_error_message (ew_message w) \<noteq> [] then normalize_error_message (ew_message w)
           else if normalize_error_message (ew_error w) \<noteq> [] then normalize_error_message (ew_error w)
           else trim_space data),
         ei_session = (if trim_space (ew_session w) = []
           then (case ew_data w of None \<Rightarrow> [] | Some m \<Rightarrow>
                   (case m ''sessionId'' of Some (JString v) \<Rightarrow> trim_space v | _ \<Rightarrow> []))
           else trim_space (ew_session w))\<rparr>))"

text \<open>A number of seconds is multiplied in 64 bits.\<close>

definition parse_retry_after :: "http_env \<Rightarrow> string \<Rightarrow> time \<Rightarrow> duration" where
  "parse_retry_after he header now =
     (let v = trim_space header
      in if v = [] then 0
         else case atoi v of
           Some seconds \<Rightarrow> if seconds \<le> 0 then 0 else wrap64 (seconds * second)
         | None \<Rightarrow> (case he_http_time he v of
             None \<Rightarrow> 0
           | Some at \<Rightarrow> if \<not> at > now then 0 else time_sub at now))"

definition api_error_of :: "http_env \<Rightarrow> http_response \<Rightarrow> api_error" where
  "api_error_of he rp = \<lparr>ae_status = rp_status rp, ae_code = ei_code (decode_error_payload he rp),
     ae_message = ei_message (decode_error_payload he rp), ae_retryable = retryable_status (rp_status rp),
     ae_retry_after = parse_retry_after he (rp_header rp ''Retry-After'') (he_now he),
     ae_request_id = response_request_id rp\<rparr>"

definition read_decoded :: "'a decoded \<Rightarrow> go_error option \<Rightarrow> go_error + 'a" where
  "read_decoded d broken = (case d of
     Decoded v \<Rightarrow> Inr v
   | Malformed m \<Rightarrow> Inl \<lparr>te_text = m, te_deadline = False, te_canceled = False, te_net = False\<rparr>
   | StreamEnded m \<Rightarrow> (case broken of
       Some t \<Rightarrow> Inl t
     | None \<Rightarrow> Inl \<lparr>te_text = m, te_deadline = False, te_canceled = False, te_net = False\<rparr>))"

section \<open>Clock attestations in responses\<close>

definition json_space :: "char set" where
  "json_space = {CHR '' '', char_of (9 :: nat), char_of (10 :: nat), char_of (13 :: nat)}"

text \<open>\<open>he_wire\<close> decodes one value without unknown fields and returns what follows it.\<close>

definition decode_clock_wire :: "http_env \<Rightarrow> string \<Rightarrow> wire option" where
  "decode_clock_wire he raw =
     (if raw = [] \<or> trim_space raw = ''null'' then None
      else case he_wire he raw of
          None \<Rightarrow> None
        | Some (w, rest) \<Rightarrow> if set rest \<subseteq> json_space then Some w else None)"

definition parse_clock_attestation ::
  "http_env \<Rightarrow> string \<Rightarrow> wire option \<Rightarrow> time \<Rightarrow> http_request \<Rightarrow> http_response \<Rightarrow> candidate option" where
  "parse_clock_attestation he base w received rq rp = (case w of
     None \<Rightarrow> None
   | Some w \<Rightarrow>
       (case parse_attestation (he_clock he) w received (trusted_clock_transport he base rq rp) of
          Inl _ \<Rightarrow> None
        | Inr c \<Rightarrow> Some c))"

section \<open>Positions\<close>

text \<open>IEEE 754: the bits without the sign order the magnitudes; \<open>NaN\<close> compares with nothing.\<close>

definition f64_magnitude :: "float64 \<Rightarrow> float64" where
  "f64_magnitude x = x AND 0x7FFFFFFFFFFFFFFF"

definition f64_is_nan :: "float64 \<Rightarrow> bool" where
  "f64_is_nan x \<longleftrightarrow> 0x7FF0000000000000 < f64_magnitude x"

definition f64_is_inf :: "float64 \<Rightarrow> bool" where
  "f64_is_inf x \<longleftrightarrow> f64_magnitude x = 0x7FF0000000000000"

definition f64_key :: "float64 \<Rightarrow> int" where
  "f64_key x = (if bit x 63 then - uint (f64_magnitude x) else uint (f64_magnitude x))"

definition f64_le :: "float64 \<Rightarrow> float64 \<Rightarrow> bool" where
  "f64_le x y \<longleftrightarrow> \<not> f64_is_nan x \<and> \<not> f64_is_nan y \<and> f64_key x \<le> f64_key y"

definition f64_90 :: float64 where "f64_90 = 0x4056800000000000"
definition f64_minus_90 :: float64 where "f64_minus_90 = 0xC056800000000000"
definition f64_180 :: float64 where "f64_180 = 0x4066800000000000"
definition f64_minus_180 :: float64 where "f64_minus_180 = 0xC066800000000000"

definition finite_coordinate :: "float64 \<Rightarrow> float64 \<Rightarrow> bool" where
  "finite_coordinate lat lon \<longleftrightarrow> \<not> f64_is_nan lat \<and> \<not> f64_is_inf lat \<and> \<not> f64_is_nan lon \<and> \<not> f64_is_inf lon \<and>
     f64_le f64_minus_90 lat \<and> f64_le lat f64_90 \<and> f64_le f64_minus_180 lon \<and> f64_le lon f64_180"

definition parse_position_assertion ::
  "http_env \<Rightarrow> string \<Rightarrow> assertion_wire \<Rightarrow> client_error + position_assertion" where
  "parse_position_assertion he did v =
     (if pw_delivery v \<noteq> did \<or> trim_space (pw_eligibility v) = [] \<or> trim_space (pw_device v) = []
         \<or> trim_space (sr_protocol (pw_subject v)) = [] \<or> trim_space (sr_namespace (pw_subject v)) = []
         \<or> trim_space (sr_canonical (pw_subject v)) = [] \<or> \<not> finite_coordinate (pw_lat v) (pw_lon v)
      then Inl InvalidAssertion
      else case he_time he ''2006-01-02T15:04:05.999999999Z07:00'' (pw_captured v) of
          Inl _ \<Rightarrow> Inl InvalidAssertionTime
        | Inr t \<Rightarrow>
            if is_zero t then Inl InvalidAssertionTime
            else Inr \<lparr>pa_delivery = pw_delivery v, pa_eligibility = pw_eligibility v, pa_device = pw_device v,
                   pa_subject = pw_subject v, pa_lat = pw_lat v, pa_lon = pw_lon v, pa_captured = t\<rparr>)"

section \<open>Posting\<close>

record post_meta =
  pm_status :: int
  pm_request_id :: string
  pm_received :: time
  pm_request :: http_request
  pm_response :: http_response

definition identified :: "string \<Rightarrow> (string \<times> string) list" where
  "identified rid = (if rid \<noteq> [] then [(''X-Request-Id'', rid)] else [])"

definition post_json_with_meta ::
  "http_env \<Rightarrow> string \<Rightarrow> string \<Rightarrow> string \<Rightarrow> request_body \<Rightarrow> (string \<times> string) list
   \<Rightarrow> (string \<Rightarrow> 'a decoded) \<Rightarrow> client_error + (post_meta \<times> 'a)" where
  "post_json_with_meta he base ctx path body headers dec =
     (let (ctx, rid) = ensure_request_id he ctx
      in res_bind (resolve_url he base path) (\<lambda>address.
         case he_encode he body of
           Inl m \<Rightarrow> Inl (EncodeFailed m)
         | Inr payload \<Rightarrow> (case he_url he address of
             Inl m \<Rightarrow> Inl (BadUrl m)
           | Inr _ \<Rightarrow>
               let rq = \<lparr>rq_url = address,
                         rq_headers = (''Content-Type'', ''application/json'') # identified rid @ headers,
                         rq_body = payload\<rparr>
               in (case he_send he rq of
                     Inl t \<Rightarrow> Inl (TransportFailure t)
                   | Inr rp \<Rightarrow>
                       if rp_status rp < 200 \<or> 300 \<le> rp_status rp
                       then Inl (ApiFailure (api_error_of he rp) address (ei_session (decode_error_payload he rp)))
                       else (case read_decoded (dec (rp_body rp)) (rp_broken rp) of
                           Inl t \<Rightarrow> Inl (DecodeFailed t)
                         | Inr v \<Rightarrow> Inr (\<lparr>pm_status = rp_status rp, pm_request_id = response_request_id rp,
                             pm_received = he_now he, pm_request = rq, pm_response = rp\<rparr>, v))))))"

definition post_json ::
  "http_env \<Rightarrow> string \<Rightarrow> string \<Rightarrow> string \<Rightarrow> request_body \<Rightarrow> (string \<times> string) list
   \<Rightarrow> (string \<Rightarrow> 'a decoded) \<Rightarrow> client_error + 'a" where
  "post_json he base ctx path body headers dec =
     res_bind (post_json_with_meta he base ctx path body headers dec) (\<lambda>(_, v). Inr v)"

definition parse_rfc3339 :: "http_env \<Rightarrow> string \<Rightarrow> string \<Rightarrow> client_error + time" where
  "parse_rfc3339 he what v = (case he_time he ''2006-01-02T15:04:05Z07:00'' v of
     Inl m \<Rightarrow> Inl (BadTime what m) | Inr t \<Rightarrow> Inr t)"


section \<open>The calls\<close>

definition exchange_pairing_code ::
  "http_env \<Rightarrow> string \<Rightarrow> string \<Rightarrow> string \<Rightarrow> client_error + bootstrap_exchange" where
  "exchange_pairing_code he base ctx code =
     res_bind (post_json he base ctx ''/api/receiver/bootstrap/exchange'' (BodyExchange (trim_space code)) []
       (he_exchange he)) (\<lambda>w.
     res_bind (parse_rfc3339 he ''parse activation expiry'' (xw_expires w)) (\<lambda>expires.
     Inr \<lparr>bx_session = xw_session w, bx_flow_key = xw_flow_key w, bx_token = xw_token w, bx_expires = expires,
       bx_config = trim_space (xw_config w), bx_receiver_label = xw_receiver_label w,
       bx_site_label = xw_site_label w, bx_group_label = xw_group_label w, bx_activate = xw_activate w,
       bx_heartbeat = xw_heartbeat w, bx_ingest = xw_ingest w\<rparr>))"

definition activate_receiver ::
  "http_env \<Rightarrow> string \<Rightarrow> string \<Rightarrow> string \<Rightarrow> activation_request \<Rightarrow> client_error + activation_result" where
  "activate_receiver he base ctx path q =
     res_bind (resolve_url he base path) (\<lambda>address.
     res_bind (post_json he base ctx address (BodyActivate (q\<lparr>aq_token := trim_space (aq_token q),
         aq_label := trim_space (aq_label q), aq_version := trim_space (aq_version q),
         aq_platform := trim_space (aq_platform q), aq_arch := trim_space (aq_arch q)\<rparr>)) []
       (he_activation he)) (\<lambda>w.
     res_bind (parse_rfc3339 he ''parse activation time'' (aw_activated w)) (\<lambda>activated.
     Inr \<lparr>ar_receiver = aw_receiver w, ar_owner = aw_owner w,
       ar_receiver_label = trim_space (aw_receiver_label w), ar_site_label = trim_space (aw_site_label w),
       ar_group_label = trim_space (aw_group_label w), ar_key_id = aw_key_id w, ar_key = aw_key w,
       ar_config = trim_space (aw_config w), ar_ingest = aw_ingest w, ar_heartbeat = aw_heartbeat w,
       ar_activated = activated\<rparr>)))"

text \<open>The headers that authenticate and identify a call.\<close>

definition keyed :: "string \<Rightarrow> string \<Rightarrow> (string \<times> string) list" where
  "keyed key idempotency = (''x-api-key'', key) #
     (if trim_space idempotency \<noteq> [] then [(''x-idempotency-key'', trim_space idempotency)] else [])"

definition post_ingest_event ::
  "http_env \<Rightarrow> string \<Rightarrow> string \<Rightarrow> string \<Rightarrow> string \<Rightarrow> (string \<rightharpoonup> json) \<Rightarrow> string \<Rightarrow> client_error + unit" where
  "post_ingest_event he base ctx path key payload idempotency =
     (if trim_space key = [] then Inl MissingApiKey
      else res_bind (post_json he base ctx path (BodyIngest payload) (keyed (trim_space key) idempotency)
        (he_ingest he)) (\<lambda>_. Inr ()))"

definition normalized_request :: "string \<Rightarrow> string \<Rightarrow> string \<Rightarrow> string \<Rightarrow> string \<Rightarrow> string \<Rightarrow> http_request" where
  "normalized_request rid address key envelope did hash = \<lparr>rq_url = address,
     rq_headers = [(''Content-Type'', ''application/json''), (''x-api-key'', trim_space key),
       (''x-idempotency-key'', trim_space did), (''x-loramapr-envelope-sha256'', trim_space hash)] @ identified rid,
     rq_body = envelope\<rparr>"

definition accept_acknowledgement ::
  "http_env \<Rightarrow> string \<Rightarrow> string \<Rightarrow> http_request \<Rightarrow> http_response \<Rightarrow> ack_wire \<Rightarrow> client_error + delivery_result" where
  "accept_acknowledgement he base did rq rp w =
     (if \<not> kw_accepted w \<or> kw_delivery w \<noteq> did \<or> rp_status rp = 200 \<and> \<not> kw_duplicate w
         \<or> rp_status rp = 202 \<and> kw_duplicate w
      then Inl InconsistentAck
      else let result = \<lparr>nd_status = rp_status rp, nd_duplicate = kw_duplicate w, nd_delivery = kw_delivery w,
                         nd_request = response_request_id rp,
                         nd_clock = parse_clock_attestation he base (decode_clock_wire he (kw_clock w))
                           (he_now he) rq rp,
                         nd_position = None\<rparr>
           in case kw_position w of
                None \<Rightarrow> Inr result
              | Some a \<Rightarrow> res_bind (parse_position_assertion he did a) (\<lambda>p. Inr (result\<lparr>nd_position := Some p\<rparr>)))"

definition post_normalized_event ::
  "http_env \<Rightarrow> string \<Rightarrow> string \<Rightarrow> string \<Rightarrow> string \<Rightarrow> string \<Rightarrow> string \<Rightarrow> string \<Rightarrow> client_error + delivery_result" where
  "post_normalized_event he base ctx path key envelope did hash =
     (if trim_space key = [] then Inl MissingApiKey
      else if envelope = [] \<or> trim_space did = [] \<or> trim_space hash = [] then Inl MissingDelivery
      else let (ctx, rid) = ensure_request_id he ctx
      in res_bind (resolve_url he base path) (\<lambda>address.
         case he_url he address of
           Inl m \<Rightarrow> Inl (BadUrl m)
         | Inr _ \<Rightarrow>
             let rq = normalized_request rid address key envelope did hash
             in (case he_send he rq of
                   Inl t \<Rightarrow> Inl (TransportFailure t)
                 | Inr rp \<Rightarrow>
                     if rp_status rp \<noteq> 200 \<and> rp_status rp \<noteq> 202 then Inl (ApiFailure (api_error_of he rp) address [])
                     else (case read_decoded (he_ack he (take 4096 (rp_body rp)))
                             (if length (rp_body rp) < 4096 then rp_broken rp else None) of
                         Inl t \<Rightarrow> Inl (AckUndecodable t)
                       | Inr w \<Rightarrow> accept_acknowledgement he base did rq rp w))))"

definition send_receiver_heartbeat ::
  "http_env \<Rightarrow> string \<Rightarrow> string \<Rightarrow> string \<Rightarrow> string \<Rightarrow> heartbeat \<Rightarrow> client_error + heartbeat_ack" where
  "send_receiver_heartbeat he base ctx path key hb =
     (if trim_space key = [] then Inl MissingApiKey
      else res_bind (post_json_with_meta he base ctx path (BodyHeartbeat (hb\<lparr>
          hb_version := trim_space (hb_version hb), hb_platform := trim_space (hb_platform hb),
          hb_arch := trim_space (hb_arch hb), hb_local_node := trim_space (hb_local_node hb),
          hb_diagnostic := trim_space (hb_diagnostic hb)\<rparr>)) [(''x-api-key'', trim_space key)]
        (he_heartbeat he)) (\<lambda>(meta, w).
      res_bind (parse_rfc3339 he ''parse heartbeat time'' (hw_last w)) (\<lambda>last.
      Inr \<lparr>hk_receiver = hw_receiver w, hk_owner = hw_owner w,
        hk_receiver_label = trim_space (hw_receiver_label w), hk_site_label = trim_space (hw_site_label w),
        hk_group_label = trim_space (hw_group_label w), hk_config = trim_space (hw_config w), hk_last = last,
        hk_nodes = hw_nodes w, hk_session = hw_session w, hk_tracking = hw_tracking w,
        hk_control = hw_control w,
        hk_clock = parse_clock_attestation he base (decode_clock_wire he (hw_clock w)) (pm_received meta)
          (pm_request meta) (pm_response meta)\<rparr>)))"

text \<open>The time a session call reports, or the time of the call when it reports none.\<close>

definition session_time :: "http_env \<Rightarrow> string \<Rightarrow> string \<Rightarrow> client_error + time" where
  "session_time he what v = (if trim_space v = [] then Inr (he_now he) else parse_rfc3339 he what v)"

definition start_home_auto_session ::
  "http_env \<Rightarrow> string \<Rightarrow> string \<Rightarrow> string \<Rightarrow> string \<Rightarrow> start_request \<Rightarrow> client_error + session_result" where
  "start_home_auto_session he base ctx path key q =
     (if trim_space key = [] then Inl MissingApiKey
      else res_bind (post_json_with_meta he base ctx path (BodyStart q) (keyed (trim_space key) (ss_dedupe q))
        (he_session he)) (\<lambda>(meta, w).
      res_bind (session_time he ''parse home auto session startedAt'' (sw_at w)) (\<lambda>at.
      Inr \<lparr>so_session = trim_space (sw_session w), so_at = at, so_result = [], so_status = pm_status meta,
        so_request = pm_request_id meta\<rparr>)))"

definition stop_home_auto_session ::
  "http_env \<Rightarrow> string \<Rightarrow> string \<Rightarrow> string \<Rightarrow> string \<Rightarrow> stop_request \<Rightarrow> client_error + session_result" where
  "stop_home_auto_session he base ctx path key q =
     (if trim_space key = [] then Inl MissingApiKey
      else res_bind (post_json_with_meta he base ctx path (BodyStop q) (keyed (trim_space key) (sp_dedupe q))
        (he_session he)) (\<lambda>(meta, w).
      res_bind (session_time he ''parse home auto session stoppedAt'' (sw_at w)) (\<lambda>at.
      Inr \<lparr>so_session = trim_space (sw_session w), so_at = at, so_result = trim_space (sw_status w),
        so_status = pm_status meta, so_request = pm_request_id meta\<rparr>)))"

end
