(* ===== verification/CloudProps.thy ===== *)
theory CloudProps
  imports CloudClient DispatchProps
begin

text \<open>
  What the results of the cloud client promise: an acknowledgement is for exactly the posted delivery, a
  clock attestation came over a trusted connection, a position lies on the globe; how errors classify;
  and the dispatcher together with the client.
\<close>

section \<open>Coordinates\<close>

lemma f64_magnitude_less: "uint (f64_magnitude x) < 2 ^ 63"
proof -
  have "f64_magnitude x \<le> 0x7FFFFFFFFFFFFFFF"
    unfolding f64_magnitude_def by (rule word_and_le1)
  then show ?thesis by (simp add: word_le_def)
qed

lemma finite_iff:
  "finite_coordinate lat lon \<longleftrightarrow> f64_magnitude lat \<le> f64_90 \<and> f64_magnitude lon \<le> f64_180"
proof -
  have mag: "f64_magnitude f64_90 = f64_90" "f64_magnitude f64_minus_90 = f64_90"
      "f64_magnitude f64_180 = f64_180" "f64_magnitude f64_minus_180 = f64_180"
    by (simp_all add: f64_magnitude_def f64_90_def f64_minus_90_def f64_180_def f64_minus_180_def)
  have key: "f64_key f64_90 = uint f64_90" "f64_key f64_minus_90 = - uint f64_90"
      "f64_key f64_180 = uint f64_180" "f64_key f64_minus_180 = - uint f64_180"
    by (simp_all add: f64_key_def mag) (simp_all add: f64_90_def f64_minus_90_def f64_180_def f64_minus_180_def)
  have nan: "\<not> f64_is_nan f64_90" "\<not> f64_is_nan f64_minus_90" "\<not> f64_is_nan f64_180" "\<not> f64_is_nan f64_minus_180"
    by (simp_all add: f64_is_nan_def mag) (simp_all add: f64_90_def f64_180_def)
  have range: "(- uint b \<le> f64_key x \<and> f64_key x \<le> uint b) \<longleftrightarrow> f64_magnitude x \<le> b" for x b :: float64
  proof -
    have "0 \<le> uint (f64_magnitude x)" "0 \<le> uint b" by (rule uint_ge_0)+
    then show ?thesis unfolding f64_key_def word_le_def by (smt (verit))
  qed
  have fin: "b \<le> f64_180 \<Longrightarrow> f64_magnitude x \<le> b \<Longrightarrow> \<not> f64_is_nan x \<and> \<not> f64_is_inf x" for x b
    by (auto simp: f64_is_nan_def f64_is_inf_def f64_180_def word_le_def word_less_def)
  have "f64_90 \<le> f64_180" by (simp add: f64_90_def f64_180_def)
  then show ?thesis
    unfolding finite_coordinate_def f64_le_def using nan key range fin by auto
qed

section \<open>Acknowledgements\<close>

text \<open>A response that the client takes as the acknowledgement of a delivery, and its request.\<close>

definition acknowledges :: "http_env \<Rightarrow> string \<Rightarrow> string \<Rightarrow> string \<Rightarrow> string \<Rightarrow> http_request \<Rightarrow> http_response \<Rightarrow> bool" where
  "acknowledges he key envelope did hash rq rp \<longleftrightarrow> he_send he rq = Inr rp \<and>
     (\<exists>rid address. rq = normalized_request rid address key envelope did hash) \<and>
     (\<exists>w. he_ack he (take 4096 (rp_body rp)) = Decoded w \<and> kw_accepted w \<and> kw_delivery w = did \<and>
        (rp_status rp = 200 \<and> kw_duplicate w \<or> rp_status rp = 202 \<and> \<not> kw_duplicate w))"

definition trusted_candidate :: "http_env \<Rightarrow> string \<Rightarrow> http_request \<Rightarrow> http_response \<Rightarrow> candidate \<Rightarrow> bool" where
  "trusted_candidate he base rq rp c \<longleftrightarrow> rp_tls rp \<and> rp_direct rp \<and>
     (\<exists>b u. he_url he base = Inr b \<and> he_url he (rq_url rq) = Inr u \<and> same_https_origin he b u) \<and>
     (\<exists>w. parse_attestation (he_clock he) w (he_now he) True = Inr c)"

definition sound_position :: "string \<Rightarrow> position_assertion \<Rightarrow> bool" where
  "sound_position did p \<longleftrightarrow> pa_delivery p = did \<and> trim_space (pa_eligibility p) \<noteq> [] \<and> trim_space (pa_device p) \<noteq> [] \<and>
     trim_space (sr_canonical (pa_subject p)) \<noteq> [] \<and> f64_magnitude (pa_lat p) \<le> f64_90 \<and>
     f64_magnitude (pa_lon p) \<le> f64_180 \<and> \<not> is_zero (pa_captured p)"

lemma parse_clock_trusted:
  assumes "parse_clock_attestation he base w (he_now he) rq rp = Some c"
  shows "trusted_candidate he base rq rp c"
proof -
  obtain v where v: "parse_attestation (he_clock he) v (he_now he) (trusted_clock_transport he base rq rp) = Inr c"
    using assms by (auto simp: parse_clock_attestation_def split: option.splits sum.splits)
  then have t: "trusted_clock_transport he base rq rp" by (simp add: parse_attestation_def split: if_splits)
  then show ?thesis
    using v by (auto simp: trusted_candidate_def trusted_clock_transport_def split: if_splits sum.splits)
qed

lemma parse_position_sound:
  "parse_position_assertion he did v = Inr p \<Longrightarrow> sound_position did p"
  by (auto simp: parse_position_assertion_def sound_position_def finite_iff split: if_splits sum.splits)

lemma read_decoded_Inr: "read_decoded d b = Inr v \<longleftrightarrow> d = Decoded v"
  by (auto simp: read_decoded_def split: decoded.splits option.splits)

lemma accept_facts:
  assumes "accept_acknowledgement he base did rq rp w = Inr r" "rp_status rp = 200 \<or> rp_status rp = 202"
  shows "kw_accepted w \<and> kw_delivery w = did \<and>
      (rp_status rp = 200 \<and> kw_duplicate w \<or> rp_status rp = 202 \<and> \<not> kw_duplicate w) \<and>
    nd_status r = rp_status rp \<and> nd_duplicate r = kw_duplicate w \<and> nd_delivery r = did \<and>
    (\<forall>c. nd_clock r = Some c \<longrightarrow> trusted_candidate he base rq rp c) \<and>
    (\<forall>p. nd_position r = Some p \<longrightarrow> sound_position did p)"
  using assms by (auto simp: accept_acknowledgement_def Let_def res_simps
      intro: parse_clock_trusted parse_position_sound split: if_splits option.splits)

lemma post_normalized_facts:
  assumes "post_normalized_event he base ctx path key envelope did hash = Inr r"
  shows "\<exists>rq rp. acknowledges he key envelope did hash rq rp \<and> nd_status r = rp_status rp \<and>
    (nd_duplicate r \<longleftrightarrow> rp_status rp = 200) \<and> nd_delivery r = did \<and>
    (\<forall>c. nd_clock r = Some c \<longrightarrow> trusted_candidate he base rq rp c) \<and>
    (\<forall>p. nd_position r = Some p \<longrightarrow> sound_position did p)"
proof -
  obtain ctx' rid where rid: "ensure_request_id he ctx = (ctx', rid)" by fastforce
  obtain address where address: "resolve_url he base path = Inr address"
    using assms rid by (auto simp: post_normalized_event_def res_simps split: if_splits)
  let ?rq = "normalized_request rid address key envelope did hash"
  obtain rp where rp: "he_send he ?rq = Inr rp"
    using assms rid address
    by (cases "he_send he ?rq") (auto simp: post_normalized_event_def Let_def split: if_splits sum.splits)
  then have st: "rp_status rp = 200 \<or> rp_status rp = 202"
    using assms rid address by (auto simp: post_normalized_event_def Let_def split: if_splits sum.splits)
  obtain w where w: "he_ack he (take 4096 (rp_body rp)) = Decoded w"
      and acc: "accept_acknowledgement he base did ?rq rp w = Inr r"
    using assms rid address rp st
    by (auto simp: post_normalized_event_def Let_def read_decoded_Inr split: if_splits sum.splits)
  show ?thesis
    using accept_facts [OF acc st] rp w
    by (intro exI [of _ ?rq] exI [of _ rp])
      (auto simp: acknowledges_def)
qed


section \<open>Errors\<close>

lemma post_normalized_error:
  assumes "post_normalized_event he base ctx path key envelope did hash = Inl (ApiFailure a route session)"
  shows "\<exists>rq rp. he_send he rq = Inr rp \<and> rq_body rq = envelope \<and> rp_status rp \<noteq> 200 \<and> rp_status rp \<noteq> 202 \<and>
    a = api_error_of he rp"
proof -
  obtain ctx' rid where rid: "ensure_request_id he ctx = (ctx', rid)" by fastforce
  obtain address where address: "resolve_url he base path = Inr address"
    using assms rid
    by (auto simp: post_normalized_event_def res_simps resolve_url_def Let_def split: if_splits sum.splits)
  let ?rq = "normalized_request rid address key envelope did hash"
  have not_other: "accept_acknowledgement he base did ?rq rp w \<noteq> Inl (ApiFailure a route session)" for rp w
    by (auto simp: accept_acknowledgement_def parse_position_assertion_def Let_def res_simps
        split: option.splits if_splits sum.splits)
  obtain rp where rp: "he_send he ?rq = Inr rp"
    using assms rid address
    by (cases "he_send he ?rq") (auto simp: post_normalized_event_def Let_def split: if_splits sum.splits)
  have "rp_status rp \<noteq> 200 \<and> rp_status rp \<noteq> 202 \<and> a = api_error_of he rp"
    using assms rid address rp not_other
    by (auto simp: post_normalized_event_def Let_def split: if_splits sum.splits)
  then show ?thesis using rp by (intro exI [of _ ?rq] exI [of _ rp]) (simp add: normalized_request_def)
qed

lemma classify_other: "(\<nexists>a route session. err = ApiFailure a route session) \<Longrightarrow>
    classify u (send_error_of err) = no_disposition\<lparr>ds_action := ActRetry, ds_reason := ''delivery_error''\<rparr>"
  by (cases err) (simp_all add: send_error_of_def classify_def)

lemma classify_api:
  "ds_quarantine (classify u (SendApi a)) \<Longrightarrow> \<not> ae_retryable a \<and> 400 \<le> ae_status a \<and> ae_status a < 500 \<and>
     ae_status a \<noteq> 401 \<and> ae_status a \<noteq> 403 \<and> ae_status a \<noteq> 429"
  "ds_action (classify u (SendApi a)) \<in> {ActPause, ActRequirePairing, ActStop} \<Longrightarrow>
     ae_status a = 401 \<or> ae_status a = 403 \<or> ae_status a = 409"
  "ae_retryable a \<Longrightarrow> ds_action (classify u (SendApi a)) = ActRetry"
  by (auto simp: classify_def Let_def no_disposition_def split: if_splits)

section \<open>Properties\<close>

text \<open>
  C19. An acknowledgement is exact: when a post succeeds, a response with status 200 or 202 arrived for a
  request that carried exactly the envelope under the delivery's identifier and hash, and it names that
  delivery; it is a duplicate exactly for status 200. A clock attestation in it came over TLS from the
  configured https origin without a redirect and passed every check; a position in it is for this
  delivery and lies on the globe.
\<close>
theorem cloud_acknowledgement_exact:
  assumes "post_normalized_event he base ctx path key envelope did hash = Inr r"
  shows "\<exists>rq rp. acknowledges he key envelope did hash rq rp \<and> nd_status r = rp_status rp \<and>
    (nd_duplicate r \<longleftrightarrow> rp_status rp = 200) \<and> nd_delivery r = did \<and>
    (\<forall>c. nd_clock r = Some c \<longrightarrow> trusted_candidate he base rq rp c) \<and>
    (\<forall>p. nd_position r = Some p \<longrightarrow> sound_position did p)"
  by (rule post_normalized_facts [OF assms])

text \<open>
  C20. A failed post never costs a delivery by mistake: it is classified for quarantine only when a
  response to its envelope carried a definite client error (400 to 499, but not 401, 403, 408 or 429),
  it pauses dispatching only on 401, 403 or 409, and every failure the client calls retryable is retried.
\<close>
theorem cloud_failure_definite:
  assumes "post_normalized_event he base ctx path key envelope did hash = Inl err"
  shows "(ds_quarantine (classify u (send_error_of err)) \<longrightarrow>
      (\<exists>rq rp. he_send he rq = Inr rp \<and> rq_body rq = envelope \<and> 400 \<le> rp_status rp \<and> rp_status rp < 500 \<and>
        rp_status rp \<notin> {401, 403, 408, 429})) \<and>
    (ds_action (classify u (send_error_of err)) \<in> {ActPause, ActRequirePairing, ActStop} \<longrightarrow>
      (\<exists>rq rp. he_send he rq = Inr rp \<and> rq_body rq = envelope \<and> rp_status rp \<in> {401, 403, 409})) \<and>
    (is_retryable err \<longrightarrow> ds_action (classify u (send_error_of err)) = ActRetry)"
proof (cases "\<exists>a route session. err = ApiFailure a route session")
  case True
  then obtain a route session where err: "err = ApiFailure a route session" by blast
  obtain rq rp where rp: "he_send he rq = Inr rp" "rq_body rq = envelope" "a = api_error_of he rp"
    using post_normalized_error assms err by blast
  have st: "ae_status a = rp_status rp" "ae_retryable a \<longleftrightarrow> retryable_status (rp_status rp)"
    by (simp_all add: rp(3) api_error_of_def)
  have "send_error_of err = SendApi a" by (simp add: err send_error_of_def)
  moreover have "rp_status rp = 408 \<Longrightarrow> ae_retryable a" by (simp add: st(2) retryable_status_def)
  ultimately show ?thesis
    using classify_api [where u = u and a = a] rp(1,2) st(1) err by (auto simp: is_retryable_def)
next
  case False
  then show ?thesis using classify_other [OF False] by (simp add: no_disposition_def)
qed

text \<open>
  A Retry-After of whole seconds is exact up to 292 years; beyond, the multiplication wraps, and one
  second more is a delay in the past.
\<close>
lemma cloud_retry_after:
  "(atoi (trim_space h) = Some n \<longrightarrow> 0 < n \<longrightarrow> n \<le> 9223372036 \<longrightarrow> parse_retry_after he h now = n * second) \<and>
   parse_retry_after he ''9223372037'' now = - 9223372036709551616"
proof
  show "atoi (trim_space h) = Some n \<longrightarrow> 0 < n \<longrightarrow> n \<le> 9223372036 \<longrightarrow> parse_retry_after he h now = n * second"
  proof (intro impI)
    assume n: "atoi (trim_space h) = Some n" "0 < n" "n \<le> 9223372036"
    then have "trim_space h \<noteq> []" by (auto simp: atoi_def parse_digits_def Let_def)
    then show "parse_retry_after he h now = n * second"
      using n by (simp add: parse_retry_after_def Let_def second_def wrap64_id)
  qed
  have "trim_space ''9223372037'' = ''9223372037''" by (rule trim_space_visible) simp
  moreover have "atoi ''9223372037'' = Some 9223372037"
    by (simp add: atoi_def parse_digits_def digit_value_def Let_def)
  ultimately show "parse_retry_after he ''9223372037'' now = - 9223372036709551616"
    by (simp add: parse_retry_after_def Let_def second_def wrap64_def)
qed

text \<open>The dispatcher posting with the client.\<close>

definition post_over_http ::
  "http_env \<Rightarrow> string \<Rightarrow> string \<Rightarrow> string \<Rightarrow> delivery
   \<Rightarrow> send_error + (candidate option \<times> position_assertion option) ack" where
  "post_over_http he base ctx key d =
     (case post_normalized_event he base ctx (dl_endpoint d) key (dl_envelope d) (dl_id d) (dl_sha256 d) of
        Inl err \<Rightarrow> Inl (send_error_of err)
      | Inr r \<Rightarrow> Inr \<lparr>ak_duplicate = nd_duplicate r, ak_payload = (nd_clock r, nd_position r)\<rparr>)"

text \<open>
  C21. End to end, only the cloud's acknowledgement removes a delivery: when the dispatcher posts with the
  client, a stored record is still stored after the dispatch with the same identity, unless a response
  with status 200 or 202 named it in answer to the posted envelope, or another goroutine deleted it or
  pruned it after its retention.
\<close>
theorem cloud_acknowledges_what_leaves:
  assumes "env_ok e" "reachable e s" "schedule_clean e sc" "op_clean e (OpReconcile b)"
    and "r = dispatch_once u e sc (post_over_http he base ctx key) b now s"
    and "st_db s = Some db" "st_db (di_store r) = Some db'" "stored_as e db k d"
  shows "(\<exists>d'. identity d' = identity d \<and> stored_as e db' k d')
    \<or> (\<exists>p rq rp. di_posted r = Some p \<and> dl_id p = k \<and>
        acknowledges he key (dl_envelope p) k (dl_sha256 p) rq rp)
    \<or> (\<exists>n x. x \<in> set (sc_others sc n) \<and> takes_away (cf_retention (st_cfg s)) k d x)"
  using dispatch_keeps [OF assms]
proof (elim disjE)
  assume "\<exists>p ack. di_posted r = Some p \<and> dl_id p = k \<and> post_over_http he base ctx key p = Inr ack"
  then obtain p ack where p: "di_posted r = Some p" "dl_id p = k" "post_over_http he base ctx key p = Inr ack"
    by blast
  then obtain v where "post_normalized_event he base ctx (dl_endpoint p) key (dl_envelope p) k (dl_sha256 p) = Inr v"
    by (auto simp: post_over_http_def split: sum.splits)
  from post_normalized_facts [OF this] p show ?thesis by blast
qed blast+


section \<open>Concrete exchanges\<close>

definition demo_response :: "int \<Rightarrow> http_response" where
  "demo_response status = \<lparr>rp_status = status, rp_header = (\<lambda>_. []), rp_body = ''{}'', rp_broken = None,
     rp_tls = False, rp_direct = True\<rparr>"

definition demo_position :: assertion_wire where
  "demo_position = \<lparr>pw_delivery = ''x'', pw_eligibility = ''e'', pw_device = ''d'',
     pw_subject = \<lparr>sr_protocol = ''p'', sr_namespace = ''n'', sr_canonical = ''c''\<rparr>,
     pw_lat = f64_minus_90, pw_lon = f64_180, pw_captured = ''t''\<rparr>"

definition demo_http :: "(http_request \<Rightarrow> go_error + http_response) \<Rightarrow> http_env" where
  "demo_http net = \<lparr>
     he_url = (\<lambda>s. Inr \<lparr>ur_scheme = ''https'', ur_host = ''h'', ur_port = [], ur_text = s\<rparr>),
     he_send = net, he_now = 5, he_time = (\<lambda>_ _. Inr 5), he_http_time = (\<lambda>_. None), he_entropy = None,
     he_fold = (=), he_clock = demo_clock, he_encode = (\<lambda>_. Inr ''{}''), he_wire = (\<lambda>_. None),
     he_error = (\<lambda>_. None),
     he_ack = (\<lambda>_. Decoded \<lparr>kw_accepted = True, kw_duplicate = False, kw_delivery = ''x'', kw_clock = [],
       kw_position = Some demo_position\<rparr>),
     he_exchange = (\<lambda>_. Malformed []), he_activation = (\<lambda>_. Malformed []), he_ingest = (\<lambda>_. Malformed []),
     he_heartbeat = (\<lambda>_. Malformed []), he_session = (\<lambda>_. Malformed [])\<rparr>"

lemma demo_trimmed: "trim_space [c] = [c]" if "visible c" for c
  using that by (rule trim_visible_char)

lemma demo_post_accepted:
  "\<exists>r. post_normalized_event (demo_http (\<lambda>_. Inr (demo_response 202))) ''b'' ''q'' ''e'' ''k'' ''{}'' ''x'' ''h'' = Inr r \<and>
     nd_position r \<noteq> None"
  by (simp add: post_normalized_event_def demo_http_def demo_trimmed ensure_request_id_def resolve_url_def
      demo_response_def read_decoded_def accept_acknowledgement_def parse_clock_attestation_def decode_clock_wire_def
      parse_position_assertion_def demo_position_def finite_iff f64_magnitude_def f64_minus_90_def f64_180_def
      f64_90_def is_zero_def zero_time_def Let_def)

theorem cloud_acknowledgement_exact_witness:
  "\<exists>(r :: delivery_result) rq rp. acknowledges (demo_http (\<lambda>_. Inr (demo_response 202))) ''k'' ''{}'' ''x'' ''h'' rq rp \<and>
     nd_delivery r = ''x'' \<and> \<not> nd_duplicate r \<and> (\<exists>p. nd_position r = Some p \<and> sound_position ''x'' p)"
proof -
  obtain r where r: "post_normalized_event (demo_http (\<lambda>_. Inr (demo_response 202))) ''b'' ''q'' ''e'' ''k'' ''{}'' ''x'' ''h'' = Inr r"
    and p: "nd_position r \<noteq> None" using demo_post_accepted by blast
  have "he_send (demo_http (\<lambda>_. Inr (demo_response 202))) rq = Inr rp \<Longrightarrow> rp_status rp = 202" for rq rp
    by (auto simp: demo_http_def demo_response_def)
  then have "acknowledges (demo_http (\<lambda>_. Inr (demo_response 202))) key envelope did hash rq rp \<Longrightarrow> rp_status rp = 202"
    for key envelope did hash rq rp unfolding acknowledges_def by blast
  note ok = this
  from cloud_acknowledgement_exact [OF r] obtain rq rp where
    a: "acknowledges (demo_http (\<lambda>_. Inr (demo_response 202))) ''k'' ''{}'' ''x'' ''h'' rq rp"
    and v: "nd_duplicate r \<longleftrightarrow> rp_status rp = 200" "nd_delivery r = ''x''"
      "\<forall>p. nd_position r = Some p \<longrightarrow> sound_position ''x'' p" by blast
  obtain q where "nd_position r = Some q" using p by blast
  then show ?thesis using a v ok [OF a] by (intro exI [of _ r] exI [of _ rq] exI [of _ rp]) simp
qed

lemma demo_post_refused:
  "post_normalized_event (demo_http (\<lambda>_. Inr (demo_response 422))) ''b'' ''q'' ''e'' ''k'' ''{}'' ''x'' ''h'' =
     Inl (ApiFailure \<lparr>ae_status = 422, ae_code = [], ae_message = ''{}'', ae_retryable = False, ae_retry_after = 0,
       ae_request_id = []\<rparr> ''e'' [])"
proof -
  have "trim_space ''{}'' = ''{}''" by (rule trim_space_visible) simp
  then show ?thesis
    by (simp add: post_normalized_event_def demo_http_def demo_trimmed ensure_request_id_def resolve_url_def
      demo_response_def api_error_of_def decode_error_payload_def read_limited_def retryable_status_def
      parse_retry_after_def response_request_id_def Let_def)
qed

theorem cloud_failure_definite_witness:
  "\<exists>rq rp. he_send (demo_http (\<lambda>_. Inr (demo_response 422))) rq = Inr rp \<and> rq_body rq = ''{}'' \<and>
     400 \<le> rp_status rp \<and> rp_status rp < 500 \<and> rp_status rp \<notin> {401, 403, 408, 429}"
  using cloud_failure_definite [OF demo_post_refused, of demo_unicode]
  by (simp add: send_error_of_def classify_def Let_def no_disposition_def)

lemma cloud_retry_after_witness:
  "parse_retry_after (demo_http (\<lambda>_. Inr (demo_response 503))) ''30'' 5 = 30 * second"
proof -
  have "trim_space ''30'' = ''30''" by (rule trim_space_visible) simp
  then have "atoi (trim_space ''30'') = Some 30"
    by (simp add: atoi_def parse_digits_def digit_value_def Let_def)
  then show ?thesis
    using cloud_retry_after [of "''30''" 30 "demo_http (\<lambda>_. Inr (demo_response 503))" 5] by simp
qed

definition demo_offline :: http_env where
  "demo_offline = demo_http (\<lambda>_. Inl \<lparr>te_text = ''t'', te_deadline = True, te_canceled = False, te_net = True\<rparr>)"

lemma run_update_open: "st_db s = Some db \<Longrightarrow> \<exists>db'. st_db (snd (run_update io n s tx)) = Some db'"
  by (cases rule: run_update_cases [of io n s tx]) auto

lemma demo_settle_other:
  "di_store (dispatched x (settle_failure demo_unicode log_env demo_quiet b 25 d (SendOther m) res s)) =
     snd (retry log_env (demo_io 22) (dl_id d) (25 + retry_delay (dl_attempts d)) (failure_from_error (SendOther m)) s)"
  by (simp add: dispatched_def settle_failure_def classify_def no_disposition_def Let_def split: prod.split sum.split)

lemma demo_offline_dispatch:
  "\<exists>db'. st_db (di_store (dispatch_once demo_unicode log_env demo_quiet (post_over_http demo_offline ''b'' ''q'' ''k'')
     (demo_binding ''a'') 25 (demo_store demo_db1))) = Some db'"
proof -
  have post: "post_over_http demo_offline ''b'' ''q'' ''k'' (demo_rec ''x'' 1 20 20) =
      Inl (SendOther (client_error_text MissingDelivery))"
    by (simp add: post_over_http_def post_normalized_event_def demo_trimmed demo_rec_def demo_delivery_def
        send_error_of_def)
  have "st_db (demo_store demo_db5) = Some demo_db5" by (simp add: new_store_def)
  from run_update_open [OF this] show ?thesis
    unfolding demo_dispatch post sum.case demo_settle_other retry_def by blast
qed

theorem cloud_acknowledges_what_leaves_witness:
  "\<exists>db' d'. st_db (di_store (dispatch_once demo_unicode log_env demo_quiet
       (post_over_http demo_offline ''b'' ''q'' ''k'') (demo_binding ''a'') 25 (demo_store demo_db1))) = Some db' \<and>
     identity d' = identity (demo_rec ''x'' 1 20 20) \<and> stored_as log_env db' ''x'' d'"
proof -
  obtain db' where db': "st_db (di_store (dispatch_once demo_unicode log_env demo_quiet
      (post_over_http demo_offline ''b'' ''q'' ''k'') (demo_binding ''a'') 25 (demo_store demo_db1))) = Some db'"
    using demo_offline_dispatch by blast
  have ok: "op_clean log_env (OpReconcile (demo_binding ''a''))" by (simp add: log_env_def scrub_marker_def)
  have at: "stored_as log_env demo_db1 ''x'' (demo_rec ''x'' 1 20 20)" by (simp add: stored_as_def demo_live)
  have "\<not> acknowledges demo_offline key envelope did hash rq rp" for key envelope did hash rq rp
    by (simp add: acknowledges_def demo_offline_def demo_http_def)
  with cloud_acknowledges_what_leaves [OF log_env_ok demo_reach1 demo_quiet_clean ok refl demo_store_db(1) db' at]
  have "\<exists>d'. identity d' = identity (demo_rec ''x'' 1 20 20) \<and> stored_as log_env db' ''x'' d'"
    by (simp add: demo_quiet_def)
  with db' show ?thesis by blast
qed

end
