(* ===== verification/Pairing.thy ===== *)
theory Pairing
  imports Rotation CloudClient
begin

text \<open>
  The pairing manager (\<open>internal/pairing/manager.go\<close>): the state machine that takes the receiver from a
  pairing code to a durable credential. It keeps its state in the state store, shows it in the status
  model, talks to the cloud through a \<open>PairingClient\<close> and rotates the installation through an
  \<open>InstallationRotator\<close>; both may be absent. \<open>pe_now\<close> are the readings of its clock in the order of one
  call, \<open>pe_io\<close> is what the one update of the state in a call meets.
\<close>

record pairing_client =
  pc_exchange :: "string \<Rightarrow> client_error + bootstrap_exchange"
  pc_activate :: "string \<Rightarrow> activation_request \<Rightarrow> client_error + activation_result"

record activation_identity =
  ai_label :: string
  ai_version :: string
  ai_platform :: string
  ai_arch :: string
  ai_metadata :: "string \<rightharpoonup> json"

record ('b, 'd) manager =
  mn_host :: "('b, 'd) host"
  mn_status :: snapshot

type_synonym ('b, 'd) rotator = "string \<Rightarrow> ('b, 'd) host \<Rightarrow> (rotation_error + string) \<times> ('b, 'd) host"

record ('b, 'd) pairing_env =
  pe_client :: "pairing_client option"
  pe_identity :: activation_identity
  pe_rotator :: "('b, 'd) rotator option"
  pe_state :: state_env
  pe_io :: state_io
  pe_now :: "nat \<Rightarrow> time"
  pe_shown :: time

datatype pairing_error = CodeTooShort | RotationRequired | RotationFailed rotation_error
  | UpdateFailed state_error | InvalidChange | PairingFailed string

definition manager_identity :: "string \<Rightarrow> string \<Rightarrow> activation_identity \<Rightarrow> activation_identity" where
  "manager_identity goos goarch i = i\<lparr>
     ai_version := (if ai_version i = [] then ''dev'' else ai_version i),
     ai_platform := (if ai_platform i = [] then goos else ai_platform i),
     ai_arch := (if ai_arch i = [] then goarch else ai_arch i)\<rparr>"

section \<open>Small functions\<close>

definition min_pairing_code_length :: nat where "min_pairing_code_length = 8"
definition max_retry_delay :: duration where "max_retry_delay = 2 * minute"

definition normalize_pairing_code :: "unicode \<Rightarrow> string \<Rightarrow> pairing_error + string" where
  "normalize_pairing_code u value =
     (let trimmed = to_upper u (trim_space value)
      in if length trimmed < min_pairing_code_length then Inl CodeTooShort else Inr trimmed)"

definition pairing_retry_delay :: "int \<Rightarrow> duration" where
  "pairing_retry_delay count =
     (if count \<le> 0 then 0
      else let delay = second * 2 ^ nat (min (count + 1) 7)
           in if delay > max_retry_delay then max_retry_delay else delay)"

definition can_attempt :: "time option \<Rightarrow> time \<Rightarrow> bool" where
  "can_attempt next_retry now = (case next_retry of None \<Rightarrow> True | Some t \<Rightarrow> \<not> now < t)"

definition sanitize_error :: "client_error \<Rightarrow> string" where
  "sanitize_error err =
     (let msg = client_error_text err in if length msg > 256 then take 256 msg else msg)"

definition sanitize_text :: "string \<Rightarrow> string" where
  "sanitize_text value =
     (let trimmed = trim_space value in if length trimmed > 256 then take 256 trimmed else trimmed)"

fun contains_text :: "string \<Rightarrow> string \<Rightarrow> bool" where
  "contains_text [] needle = (needle = [])"
| "contains_text (c # s) needle = (strip_prefix needle (c # s) \<noteq> None \<or> contains_text s needle)"

definition is_pairing_code_expired :: "unicode \<Rightarrow> client_error \<Rightarrow> bool" where
  "is_pairing_code_expired u err =
     (if contains_text (to_lower u (client_error_text err)) ''expired'' then True
      else case err of ApiFailure a route session \<Rightarrow> ae_status a = 410 | _ \<Rightarrow> False)"

definition pairing_failure_change :: "unicode \<Rightarrow> string \<Rightarrow> client_error \<Rightarrow> bool \<Rightarrow> string" where
  "pairing_failure_change u phase err retryable =
     (if phase = phase_code_entered
      then if retryable then ''pairing_retry_scheduled''
           else if is_pairing_code_expired u err then ''pairing_code_expired''
           else ''pairing_code_invalid''
      else if phase = phase_exchanged
      then if retryable then ''activation_retry_scheduled'' else ''activation_failed''
      else if retryable then ''retry_scheduled'' else ''failed_permanent'')"

text \<open>\<open>Duration.String\<close> of whole seconds below an hour.\<close>

definition duration_text :: "duration \<Rightarrow> string" where
  "duration_text d = (let s = d div second
     in if s < 60 then itoa s @ ''s'' else itoa (s div 60) @ ''m'' @ itoa (s mod 60) @ ''s'')"

datatype lifecycle_change = CredentialRevoked | ReceiverDisabled | ReceiverReplaced | LocalReset
  | LocalDeauthorized | OtherChange string

fun change_text :: "lifecycle_change \<Rightarrow> string" where
  "change_text CredentialRevoked = ''credential_revoked''"
| "change_text ReceiverDisabled = ''receiver_disabled''"
| "change_text ReceiverReplaced = ''receiver_replaced''"
| "change_text LocalReset = ''local_reset''"
| "change_text LocalDeauthorized = ''local_deauthorized''"
| "change_text (OtherChange v) = v"

definition is_change_valid :: "lifecycle_change \<Rightarrow> bool" where
  "is_change_valid c \<longleftrightarrow>
     c \<in> {CredentialRevoked, ReceiverDisabled, ReceiverReplaced, LocalReset, LocalDeauthorized}"

definition is_local_change :: "lifecycle_change \<Rightarrow> bool" where
  "is_local_change c \<longleftrightarrow> c = LocalReset \<or> c = LocalDeauthorized"

fun default_reason :: "lifecycle_change \<Rightarrow> string" where
  "default_reason CredentialRevoked = ''receiver credential was revoked by cloud''"
| "default_reason ReceiverDisabled = ''receiver is disabled by cloud policy''"
| "default_reason ReceiverReplaced = ''receiver was replaced by a newer installation''"
| "default_reason _ = ''receiver lifecycle changed''"

fun lifecycle_status :: "lifecycle_change \<Rightarrow> string \<times> string" where
  "lifecycle_status CredentialRevoked =
     (''credential_revoked'', ''receiver credential was revoked; re-pair required'')"
| "lifecycle_status ReceiverDisabled =
     (''receiver_disabled'', ''receiver is disabled in cloud; resolve and re-pair'')"
| "lifecycle_status ReceiverReplaced =
     (''receiver_replaced'', ''receiver was replaced by another installation'')"
| "lifecycle_status LocalDeauthorized =
     (''deauthorized'', ''local credentials cleared; enter a new pairing code'')"
| "lifecycle_status LocalReset = (''reset'', ''pairing state reset; enter a new pairing code'')"
| "lifecycle_status (OtherChange _) = (''lifecycle_changed'', ''receiver lifecycle changed'')"

fun lifecycle_error :: "lifecycle_change \<Rightarrow> string" where
  "lifecycle_error CredentialRevoked = ''receiver credential revoked''"
| "lifecycle_error ReceiverDisabled = ''receiver disabled by cloud''"
| "lifecycle_error ReceiverReplaced = ''receiver replaced by another install''"
| "lifecycle_error _ = ''receiver lifecycle changed''"

section \<open>The updates of the state\<close>

definition set_pairing :: "(pairing \<Rightarrow> pairing) \<Rightarrow> state_data \<Rightarrow> state_data" where
  "set_pairing f d = d\<lparr>da_pairing := f (da_pairing d)\<rparr>"

definition set_cloud_state :: "(cloud \<Rightarrow> cloud) \<Rightarrow> state_data \<Rightarrow> state_data" where
  "set_cloud_state f d = d\<lparr>da_cloud := f (da_cloud d)\<rparr>"

definition keep_or :: "string \<Rightarrow> string \<Rightarrow> string" where
  "keep_or v old = (if v \<noteq> [] then v else old)"

definition code_entered :: "string \<Rightarrow> time \<Rightarrow> state_data \<Rightarrow> state_data" where
  "code_entered code now = set_pairing (\<lambda>p. p\<lparr>pg_phase := phase_code_entered, pg_pairing_code := code,
     pg_install_session_id := [], pg_flow_key := [], pg_activation_token := [], pg_activation_expires := None,
     pg_retry_count := 0, pg_next_retry_at := None, pg_last_attempt_at := None, pg_last_error := [],
     pg_updated_at := now, pg_last_change := ''pairing_code_entered''\<rparr>)"

definition lifecycle_cleared :: "lifecycle_change \<Rightarrow> string \<Rightarrow> bool \<Rightarrow> time \<Rightarrow> state_data \<Rightarrow> state_data" where
  "lifecycle_cleared change reason durable now d =
     (let d = set_pairing (\<lambda>p. p\<lparr>pg_phase := phase_unpaired, pg_pairing_code := [], pg_install_session_id := [],
            pg_flow_key := [], pg_activation_token := [], pg_activation_expires := None, pg_retry_count := 0,
            pg_next_retry_at := None, pg_last_attempt_at := Some now,
            pg_last_error := (if is_local_change change then [] else reason), pg_updated_at := now,
            pg_last_change := change_text change\<rparr>) d
      in if durable
         then set_cloud_state (\<lambda>c. c\<lparr>cs_owner_id := [], cs_receiver_id := [], cs_receiver_label := [],
                cs_site_label := [], cs_group_label := [], cs_ingest_api_key_id := [], cs_ingest_api_key := [],
                cs_credential_ref := [], cs_clock_samples := [], cs_updated_at := now\<rparr>) d
         else d)"

definition exchanged :: "bootstrap_exchange \<Rightarrow> time \<Rightarrow> state_data \<Rightarrow> state_data" where
  "exchanged r now d =
     set_cloud_state (\<lambda>c. c\<lparr>
         cs_config_version := keep_or (trim_space (bx_config r)) (cs_config_version c),
         cs_activate_endpoint := bx_activate r, cs_heartbeat_endpoint := bx_heartbeat r,
         cs_ingest_endpoint := bx_ingest r,
         cs_receiver_label := keep_or (trim_space (bx_receiver_label r)) (cs_receiver_label c),
         cs_site_label := keep_or (trim_space (bx_site_label r)) (cs_site_label c),
         cs_group_label := keep_or (trim_space (bx_group_label r)) (cs_group_label c), cs_updated_at := now\<rparr>)
       (set_pairing (\<lambda>p. p\<lparr>pg_phase := phase_exchanged, pg_install_session_id := bx_session r,
         pg_flow_key := bx_flow_key r, pg_activation_token := bx_token r,
         pg_activation_expires := Some (bx_expires r), pg_retry_count := 0, pg_next_retry_at := None,
         pg_last_attempt_at := Some now, pg_last_error := [], pg_updated_at := now,
         pg_last_change := ''bootstrap_exchanged''\<rparr>) d)"

definition activated :: "activation_result \<Rightarrow> time \<Rightarrow> state_data \<Rightarrow> state_data" where
  "activated r now d =
     set_installation (\<lambda>i. i\<lparr>il_bound := True\<rparr>)
       (set_cloud_state (\<lambda>c. c\<lparr>
         cs_config_version := keep_or (trim_space (ar_config r)) (cs_config_version c),
         cs_heartbeat_endpoint := keep_or (ar_heartbeat r) (cs_heartbeat_endpoint c),
         cs_ingest_endpoint := keep_or (ar_ingest r) (cs_ingest_endpoint c),
         cs_owner_id := ar_owner r, cs_receiver_id := ar_receiver r,
         cs_receiver_label := keep_or (trim_space (ar_receiver_label r)) (cs_receiver_label c),
         cs_site_label := keep_or (trim_space (ar_site_label r)) (cs_site_label c),
         cs_group_label := keep_or (trim_space (ar_group_label r)) (cs_group_label c),
         cs_ingest_api_key_id := ar_key_id r, cs_ingest_api_key := ar_key r,
         cs_credential_ref := keep_or (ar_receiver r) (cs_credential_ref c), cs_updated_at := now\<rparr>)
       (set_pairing (\<lambda>p. p\<lparr>pg_phase := phase_activated, pg_pairing_code := [], pg_activation_token := [],
         pg_activation_expires := None, pg_retry_count := 0, pg_next_retry_at := None,
         pg_last_attempt_at := Some now, pg_last_error := [], pg_updated_at := now,
         pg_last_change := ''activated''\<rparr>) d))"

definition promoted :: "time \<Rightarrow> state_data \<Rightarrow> state_data" where
  "promoted now = set_pairing (\<lambda>p. p\<lparr>pg_phase := phase_steady, pg_updated_at := now,
     pg_last_change := ''steady_state''\<rparr>)"

definition retry_scheduled ::
  "string \<Rightarrow> int \<Rightarrow> time \<Rightarrow> string \<Rightarrow> string \<Rightarrow> time \<Rightarrow> state_data \<Rightarrow> state_data" where
  "retry_scheduled phase count next_retry message change now = set_pairing (\<lambda>p. p\<lparr>pg_phase := phase,
     pg_retry_count := count, pg_next_retry_at := Some next_retry, pg_last_attempt_at := Some now,
     pg_last_error := message, pg_updated_at := now, pg_last_change := change\<rparr>)"

definition pairing_abandoned :: "string \<Rightarrow> string \<Rightarrow> time \<Rightarrow> state_data \<Rightarrow> state_data" where
  "pairing_abandoned message change now = set_pairing (\<lambda>p. p\<lparr>pg_phase := phase_unpaired,
     pg_pairing_code := [], pg_activation_token := [], pg_activation_expires := None, pg_retry_count := 0,
     pg_next_retry_at := None, pg_last_attempt_at := Some now, pg_last_error := message, pg_updated_at := now,
     pg_last_change := change\<rparr>)"


section \<open>The operations\<close>

definition update_state_of ::
  "('b, 'd) pairing_env \<Rightarrow> (state_data \<Rightarrow> state_data) \<Rightarrow> ('b, 'd) manager
   \<Rightarrow> (pairing_error + unit) \<times> ('b, 'd) manager" where
  "update_state_of pe f m = (case update_store (pe_state pe) (pe_io pe) f (ho_state (mn_host m)) of
     (r, s) \<Rightarrow> (case r of Inl x \<Rightarrow> Inl (UpdateFailed x) | Inr _ \<Rightarrow> Inr (),
                m\<lparr>mn_host := (mn_host m)\<lparr>ho_state := s\<rparr>\<rparr>))"

definition tell :: "('b, 'd) pairing_env \<Rightarrow> status_op list \<Rightarrow> ('b, 'd) manager \<Rightarrow> ('b, 'd) manager" where
  "tell pe ops m = m\<lparr>mn_status := fold (\<lambda>op. status_step (pe_shown pe, op)) ops (mn_status m)\<rparr>"

abbreviation snapshot_of :: "('b, 'd) manager \<Rightarrow> state_data" where
  "snapshot_of m \<equiv> sv_data (ho_state (mn_host m))"

text \<open>An update and what is shown when it succeeds.\<close>

definition update_and_tell ::
  "('b, 'd) pairing_env \<Rightarrow> (state_data \<Rightarrow> state_data) \<Rightarrow> status_op list \<Rightarrow> ('b, 'd) manager
   \<Rightarrow> (pairing_error + unit) \<times> ('b, 'd) manager" where
  "update_and_tell pe f ops m = (case update_state_of pe f m of
     (Inl x, m) \<Rightarrow> (Inl x, m)
   | (Inr _, m) \<Rightarrow> (Inr (), tell pe ops m))"

text \<open>The rotation before an operation on a bound installation, when it needs one.\<close>

definition rotate_first ::
  "('b, 'd) pairing_env \<Rightarrow> bool \<Rightarrow> string \<Rightarrow> ('b, 'd) manager \<Rightarrow> (pairing_error + unit) \<times> ('b, 'd) manager" where
  "rotate_first pe needed reason m =
     (if \<not> needed then (Inr (), m)
      else case pe_rotator pe of
          None \<Rightarrow> (Inl RotationRequired, m)
        | Some rot \<Rightarrow> (case rot reason (mn_host m) of
            (Inl x, h) \<Rightarrow> (Inl (RotationFailed x), m\<lparr>mn_host := h\<rparr>)
          | (Inr newid, h) \<Rightarrow> (Inr (), tell pe [OpInstallationId newid] (m\<lparr>mn_host := h\<rparr>))))"

definition submit_pairing_code ::
  "('b, 'd) pairing_env \<Rightarrow> string \<Rightarrow> ('b, 'd) manager \<Rightarrow> (pairing_error + unit) \<times> ('b, 'd) manager" where
  "submit_pairing_code pe code m = (case normalize_pairing_code (se_unicode (pe_state pe)) code of
     Inl x \<Rightarrow> (Inl x, m)
   | Inr normalized \<Rightarrow>
       (case rotate_first pe (il_bound (da_installation (snapshot_of m))) ''re_pair'' m of
          (Inl x, m) \<Rightarrow> (Inl x, m)
        | (Inr _, m) \<Rightarrow> update_and_tell pe (code_entered normalized (pe_now pe 0))
            [OpPairingPhase phase_code_entered,
             OpComponent ''pairing'' ''pairing_code_entered'' ''pairing code accepted'', OpLastError []] m))"

definition apply_lifecycle_change ::
  "('b, 'd) pairing_env \<Rightarrow> lifecycle_change \<Rightarrow> string \<Rightarrow> bool \<Rightarrow> ('b, 'd) manager
   \<Rightarrow> (pairing_error + unit) \<times> ('b, 'd) manager" where
  "apply_lifecycle_change pe change detail durable m =
     (if \<not> is_change_valid change then (Inl InvalidChange, m)
      else
        let reason = sanitize_text detail;
            reason = (if \<not> is_local_change change \<and> reason = [] then default_reason change else reason)
        in (case rotate_first pe (il_bound (da_installation (snapshot_of m)) \<and>
                   (change = LocalDeauthorized \<or> change = ReceiverReplaced)) (change_text change) m of
              (Inl x, m) \<Rightarrow> (Inl x, m)
            | (Inr _, m) \<Rightarrow> update_and_tell pe (lifecycle_cleared change reason durable (pe_now pe 0))
                [OpPairingPhase phase_unpaired,
                 OpComponent ''pairing'' (fst (lifecycle_status change)) (snd (lifecycle_status change)),
                 OpLastError (if is_local_change change then [] else lifecycle_error change)] m))"

definition reset_pairing ::
  "('b, 'd) pairing_env \<Rightarrow> bool \<Rightarrow> ('b, 'd) manager \<Rightarrow> (pairing_error + unit) \<times> ('b, 'd) manager" where
  "reset_pairing pe deauthorize m =
     (if deauthorize
      then apply_lifecycle_change pe LocalDeauthorized ''local receiver deauthorization requested'' True m
      else apply_lifecycle_change pe LocalReset [] False m)"

definition fail_pairing ::
  "('b, 'd) pairing_env \<Rightarrow> string \<Rightarrow> string \<Rightarrow> ('b, 'd) manager \<Rightarrow> (pairing_error + unit) \<times> ('b, 'd) manager" where
  "fail_pairing pe reason phase m =
     (Inl (PairingFailed reason),
      tell pe [OpPairingPhase phase, OpComponent ''pairing'' ''error'' reason, OpLastError reason] m)"

definition revert_to_unpaired ::
  "('b, 'd) pairing_env \<Rightarrow> string \<Rightarrow> ('b, 'd) manager \<Rightarrow> (pairing_error + unit) \<times> ('b, 'd) manager" where
  "revert_to_unpaired pe reason m =
     update_and_tell pe (pairing_abandoned reason ''reverted_unpaired'' (pe_now pe 2))
       [OpPairingPhase phase_unpaired, OpComponent ''pairing'' ''unpaired'' reason, OpLastError reason] m"

definition handle_attempt_error ::
  "('b, 'd) pairing_env \<Rightarrow> state_data \<Rightarrow> client_error \<Rightarrow> string \<Rightarrow> ('b, 'd) manager
   \<Rightarrow> (pairing_error + unit) \<times> ('b, 'd) manager" where
  "handle_attempt_error pe d err phase m =
     (let now = pe_now pe 2;
          change = pairing_failure_change (se_unicode (pe_state pe)) phase err (is_retryable err)
      in if is_retryable err
         then let count = pg_retry_count (da_pairing d) + 1; delay = pairing_retry_delay count
              in update_and_tell pe (retry_scheduled phase count (now + delay) (sanitize_error err) change now)
                   [OpComponent ''pairing'' ''retrying'' (''temporary failure, retrying in '' @ duration_text delay),
                    OpLastError ''temporary cloud error''] m
         else update_and_tell pe (pairing_abandoned (sanitize_error err) change now)
                [OpPairingPhase phase_unpaired,
                 OpComponent ''pairing'' ''failed'' ''pairing failed, enter a new pairing code'',
                 OpLastError ''pairing failed''] m)"

definition exchange_bootstrap ::
  "('b, 'd) pairing_env \<Rightarrow> state_data \<Rightarrow> ('b, 'd) manager \<Rightarrow> (pairing_error + unit) \<times> ('b, 'd) manager" where
  "exchange_bootstrap pe d m = (case pe_client pe of
     None \<Rightarrow> (Inr (), tell pe [OpComponent ''pairing'' ''disabled'' ''cloud client unavailable''] m)
   | Some client \<Rightarrow>
       if \<not> can_attempt (pg_next_retry_at (da_pairing d)) (pe_now pe 0)
       then (Inr (), tell pe [OpComponent ''pairing'' ''retry_wait'' ''waiting for next pairing retry''] m)
       else let code = trim_space (pg_pairing_code (da_pairing d))
            in if code = [] then fail_pairing pe ''pairing phase has no pairing code'' (pg_phase (da_pairing d)) m
               else
                 let m = tell pe [OpComponent ''pairing'' ''bootstrap_exchange'' ''redeeming pairing code''] m
                 in (case pc_exchange client code of
                       Inl err \<Rightarrow> handle_attempt_error pe d err phase_code_entered m
                     | Inr r \<Rightarrow> update_and_tell pe (exchanged r (pe_now pe 1))
                         [OpPairingPhase phase_exchanged,
                          OpComponent ''pairing'' ''bootstrap_exchanged'' ''pairing code redeemed'', OpLastError []] m))"

definition activation_metadata :: "activation_identity \<Rightarrow> state_data \<Rightarrow> (string \<rightharpoonup> json)" where
  "activation_metadata i d = (ai_metadata i)(''installationId'' \<mapsto> JString (il_id (da_installation d)),
     ''localName'' \<mapsto> JString (il_local_name (da_installation d)),
     ''hostname'' \<mapsto> JString (il_hostname (da_installation d)))"

definition activate ::
  "('b, 'd) pairing_env \<Rightarrow> state_data \<Rightarrow> ('b, 'd) manager \<Rightarrow> (pairing_error + unit) \<times> ('b, 'd) manager" where
  "activate pe d m = (case pe_client pe of
     None \<Rightarrow> (Inr (), tell pe [OpComponent ''pairing'' ''disabled'' ''cloud client unavailable''] m)
   | Some client \<Rightarrow>
       if \<not> can_attempt (pg_next_retry_at (da_pairing d)) (pe_now pe 0)
       then (Inr (), tell pe [OpComponent ''pairing'' ''retry_wait'' ''waiting for next activation retry''] m)
       else let token = trim_space (pg_activation_token (da_pairing d)); now = pe_now pe 1
            in if token = []
               then fail_pairing pe ''bootstrap exchange missing activation token'' (pg_phase (da_pairing d)) m
               else if (case pg_activation_expires (da_pairing d) of None \<Rightarrow> False | Some t \<Rightarrow> now > t)
               then revert_to_unpaired pe ''activation token expired'' m
               else
                 let endpoint = trim_space (cs_activate_endpoint (da_cloud d));
                     endpoint = (if endpoint = [] then ''/api/receiver/activate'' else endpoint);
                     m = tell pe [OpComponent ''pairing'' ''activate'' ''activating receiver credential''] m;
                     i = pe_identity pe
                 in (case pc_activate client endpoint \<lparr>aq_token = token, aq_label = ai_label i,
                         aq_version = ai_version i, aq_platform = ai_platform i, aq_arch = ai_arch i,
                         aq_metadata = activation_metadata i d\<rparr> of
                       Inl err \<Rightarrow> handle_attempt_error pe d err phase_exchanged m
                     | Inr r \<Rightarrow> update_and_tell pe (activated r now)
                         [OpPairingPhase phase_activated,
                          OpComponent ''pairing'' ''activated'' ''receiver credential activated'', OpLastError []] m))"

definition promote_steady_state ::
  "('b, 'd) pairing_env \<Rightarrow> state_data \<Rightarrow> ('b, 'd) manager \<Rightarrow> (pairing_error + unit) \<times> ('b, 'd) manager" where
  "promote_steady_state pe d m =
     (if pg_phase (da_pairing d) \<noteq> phase_activated then (Inr (), m)
      else if trim_space (cs_ingest_api_key (da_cloud d)) = []
      then (Inr (), tell pe [OpComponent ''pairing'' ''activated'' ''waiting for durable credentials''] m)
      else update_and_tell pe (promoted (pe_now pe 0))
             [OpPairingPhase phase_steady, OpComponent ''pairing'' ''steady_state'' ''pairing completed''] m)"

definition process_pairing ::
  "('b, 'd) pairing_env \<Rightarrow> ('b, 'd) manager \<Rightarrow> (pairing_error + unit) \<times> ('b, 'd) manager" where
  "process_pairing pe m =
     (let d = snapshot_of m; phase = pg_phase (da_pairing d); m = tell pe [OpPairingPhase phase] m
      in if phase = phase_unpaired
         then (Inr (), tell pe [OpComponent ''pairing'' ''unpaired'' ''waiting for pairing code''] m)
         else if phase = phase_code_entered then exchange_bootstrap pe d m
         else if phase = phase_exchanged then activate pe d m
         else if phase = phase_activated then promote_steady_state pe d m
         else if phase = phase_steady
         then (Inr (), tell pe [OpComponent ''pairing'' ''steady_state'' ''pairing completed''] m)
         else fail_pairing pe ''unknown pairing phase'' phase m)"

text \<open>The interface that the HTTP client provides to the manager.\<close>

definition http_pairing_client :: "http_env \<Rightarrow> string \<Rightarrow> string \<Rightarrow> pairing_client" where
  "http_pairing_client he base ctx =
     \<lparr>pc_exchange = exchange_pairing_code he base ctx, pc_activate = activate_receiver he base ctx\<rparr>"

end
