(* ===== verification/PairingProps.thy ===== *)
theory PairingProps
  imports Pairing RotationProps
begin

text \<open>
  The pairing state machine: the state it keeps in every phase, the moves between phases, when it waits
  and retries, and what re-pairing and deauthorizing leave behind.
\<close>

section \<open>One update\<close>

lemma next_state_pairing:
  "da_pairing (next_state se io f d) = da_pairing (f (scrubbed se d))"
  "da_installation (next_state se io f d) = da_installation (f (scrubbed se d))"
  by (simp_all add: next_state_def stamp_def normalize_generations_def Let_def)

lemma scrubbed_parts:
  "da_pairing (scrubbed se d) = scrub_pairing (se_text se) (da_pairing d)"
  "da_installation (scrubbed se d) = scrub_installation (se_text se) (da_installation d)"
  "da_cloud (scrubbed se d) = scrub_cloud (se_text se) (da_cloud d)"
  by (simp_all add: scrub_state_def)

lemma tell_host [simp]: "mn_host (tell pe ops m) = mn_host m"
  by (simp add: tell_def)

lemma update_and_tell_cases:
  assumes "state_env_ok (pe_state pe)" "update_and_tell pe f ops m = (r, m')"
  shows "(r = Inr () \<and> snapshot_of m' = next_state (pe_state pe) (pe_io pe) f (snapshot_of m) \<and>
      ho_outbox (mn_host m') = ho_outbox (mn_host m) \<and>
      reads_as (pe_state pe) (sv_file (ho_state (mn_host m')))
        (scrubbed (pe_state pe) (next_state (pe_state pe) (pe_io pe) f (snapshot_of m)))) \<or>
    ((\<exists>x. r = Inl (UpdateFailed x)) \<and> snapshot_of m' = snapshot_of m \<and>
      ho_outbox (mn_host m') = ho_outbox (mn_host m))"
proof -
  obtain u s where u: "update_store (pe_state pe) (pe_io pe) f (ho_state (mn_host m)) = (u, s)" by fastforce
  note facts = state_update_atomic_facts [OF assms(1) u]
  show ?thesis
    using assms(2) facts u
    by (cases u) (auto simp: update_and_tell_def update_state_of_def)
qed

lemma update_and_tell_data:
  assumes "state_env_ok (pe_state pe)" "update_and_tell pe f ops m = (r, m')"
  shows "snapshot_of m' \<in> {snapshot_of m, next_state (pe_state pe) (pe_io pe) f (snapshot_of m)}"
  using update_and_tell_cases [OF assms] by auto

section \<open>The state kept in every phase\<close>

definition idle_pairing :: "pairing \<Rightarrow> bool" where
  "idle_pairing p \<longleftrightarrow> pg_pairing_code p = [] \<and> pg_activation_token p = [] \<and> pg_activation_expires p = None \<and>
     pg_retry_count p = 0 \<and> pg_next_retry_at p = None"

text \<open>Nothing secret or scheduled is left outside the two phases of a pairing under way; a credential in
  use belongs to a bound installation; a retry is counted exactly when it is scheduled.\<close>

definition pairing_wf :: "state_data \<Rightarrow> bool" where
  "pairing_wf d \<longleftrightarrow> (let p = da_pairing d in
     is_valid_phase (pg_phase p) \<and> 0 \<le> pg_retry_count p \<and>
     (pg_next_retry_at p = None \<longleftrightarrow> pg_retry_count p = 0) \<and>
     (pg_phase p = phase_unpaired \<longrightarrow> idle_pairing p) \<and>
     (pg_phase p = phase_code_entered \<longrightarrow> pg_activation_token p = [] \<and> pg_activation_expires p = None) \<and>
     (pg_phase p = phase_exchanged \<longrightarrow> pg_activation_expires p \<noteq> None) \<and>
     (pg_phase p \<in> {phase_activated, phase_steady} \<longrightarrow> idle_pairing p \<and> il_bound (da_installation d)))"

lemma phases_distinct [simp]:
  "phase_unpaired \<noteq> phase_code_entered" "phase_unpaired \<noteq> phase_exchanged" "phase_unpaired \<noteq> phase_activated"
  "phase_unpaired \<noteq> phase_steady" "phase_code_entered \<noteq> phase_unpaired" "phase_code_entered \<noteq> phase_exchanged"
  "phase_code_entered \<noteq> phase_activated" "phase_code_entered \<noteq> phase_steady" "phase_exchanged \<noteq> phase_unpaired"
  "phase_exchanged \<noteq> phase_code_entered" "phase_exchanged \<noteq> phase_activated" "phase_exchanged \<noteq> phase_steady"
  "phase_activated \<noteq> phase_unpaired" "phase_activated \<noteq> phase_code_entered" "phase_activated \<noteq> phase_exchanged"
  "phase_activated \<noteq> phase_steady" "phase_steady \<noteq> phase_unpaired" "phase_steady \<noteq> phase_code_entered"
  "phase_steady \<noteq> phase_exchanged" "phase_steady \<noteq> phase_activated"
  by (simp_all add: phase_defs)

lemma phase_text:
  assumes "state_env_ok se" "is_valid_phase p"
  shows "se_text se p = p"
proof -
  have "ascii_only p"
    using assms(2) by (auto simp: is_valid_phase_def phase_defs ascii_only_def)
  then show ?thesis by (rule state_laws(7) [OF assms(1)])
qed

lemma text_Nil: "state_env_ok se \<Longrightarrow> se_text se [] = []"
  by (rule state_laws(7)) (simp_all add: ascii_only_def)

lemma pairing_wf_update:
  assumes "state_env_ok se" "pairing_wf d"
  shows "pairing_wf (next_state se io (code_entered code now) d)"
    "pairing_wf (next_state se io (lifecycle_cleared change reason durable now) d)"
    "pairing_wf (next_state se io (pairing_abandoned msg ch now) d)"
    "pairing_wf (next_state se io (rotate_data newid started now) d)"
    "pairing_wf (next_state se io (exchanged x now) d)"
    "pairing_wf (next_state se io (activated y now) d)"
  by (simp_all add: pairing_wf_def next_state_pairing code_entered_def lifecycle_cleared_def
      pairing_abandoned_def rotate_data_def exchanged_def activated_def set_pairing_def set_cloud_state_def
      set_installation_def is_valid_phase_def idle_pairing_def Let_def)

lemma pairing_wf_promote:
  assumes "state_env_ok se" "pairing_wf d" "pg_phase (da_pairing d) = phase_activated"
  shows "pairing_wf (next_state se io (promoted now) d)"
  using assms(2,3) by (simp add: pairing_wf_def next_state_pairing promoted_def set_pairing_def scrubbed_parts
      scrub_pairing_def scrub_installation_def is_valid_phase_def idle_pairing_def Let_def text_Nil [OF assms(1)])

lemma pairing_wf_retry:
  assumes "state_env_ok se" "pairing_wf d" "pg_phase (da_pairing d) = phase" "phase = phase_code_entered \<or> phase = phase_exchanged"
  shows "pairing_wf (next_state se io (retry_scheduled phase (pg_retry_count (da_pairing d) + 1) t msg ch now) d)"
  using assms(2-4) by (auto simp: pairing_wf_def next_state_pairing retry_scheduled_def set_pairing_def scrubbed_parts
      scrub_pairing_def is_valid_phase_def idle_pairing_def Let_def text_Nil [OF assms(1)])


section \<open>What a rotation does to the state\<close>

definition maybe_rotated :: "state_env \<Rightarrow> state_io \<Rightarrow> time \<Rightarrow> state_data \<Rightarrow> state_data \<Rightarrow> bool" where
  "maybe_rotated se sio now d d' \<longleftrightarrow> d' = d \<or> (\<exists>n t. d' = next_state se sio (rotate_data n t now) d)"

lemma maybe_rotated_refl [simp]: "maybe_rotated se sio now d d"
  by (simp add: maybe_rotated_def)

lemma rotate_state_data:
  assumes "state_env_ok se" "rotate_state se sio now j s = (r, s')"
  shows "maybe_rotated se sio now (sv_data s) (sv_data s')"
proof (cases "il_id (da_installation (sv_data s)) = ir_old j")
  case True
  obtain u s1 where u: "update_store se sio (rotate_data (ir_new j) (ir_started j) now) s = (u, s1)" by fastforce
  note facts = state_update_atomic_facts [OF assms(1) u]
  show ?thesis
    using assms(2) True u facts by (cases u) (auto simp: rotate_state_def Let_def maybe_rotated_def)
qed (use assms(2) in \<open>auto simp: rotate_state_def Let_def split: if_splits\<close>)

lemma recover_rotation_data:
  assumes "state_env_ok se" "recover_rotation se e sc sio now j h = (r, h')"
  shows "maybe_rotated se sio now (sv_data (ho_state h)) (sv_data (ho_state h'))"
proof (cases j)
  case (Some j0)
  obtain r1 h1 where 1: "recover_quarantine e sc j0 h = (r1, h1)" by fastforce
  have h1: "ho_state h1 = ho_state h"
    using 1 by (auto simp: recover_quarantine_def split: if_splits dest: outbox_call_state)
  show ?thesis
  proof (cases r1)
    case (Inl x)
    then show ?thesis using assms(2) Some 1 h1 by (simp add: recover_rotation_def)
  next
    case r1: (Inr j1)
    obtain r2 h2 where 2: "recover_state se e sc sio now j1 h1 = (r2, h2)" by fastforce
    have h2: "maybe_rotated se sio now (sv_data (ho_state h)) (sv_data (ho_state h2))"
    proof (cases "ir_phase j1 = PhaseOldQuarantined")
      case True
      obtain u s where u: "rotate_state se sio now j1 (ho_state h1) = (u, s)" by fastforce
      have "ho_state h2 = s"
        using 2 True u by (cases u) (auto simp: recover_state_def dest: outbox_call_state)
      then show ?thesis using rotate_state_data [OF assms(1) u] h1 by simp
    qed (use 2 h1 in \<open>simp add: recover_state_def\<close>)
    show ?thesis
    proof (cases r2)
      case (Inl x)
      then show ?thesis using assms(2) Some 1 r1 2 h2 by (simp add: recover_rotation_def)
    next
      case r2: (Inr j2)
      obtain r3 h3 where 3: "recover_complete e sc j2 h2 = (r3, h3)" by fastforce
      then have "ho_state h3 = ho_state h2"
        by (auto simp: recover_complete_def split: if_splits dest: outbox_call_state)
      moreover have "h' = h3"
        using assms(2) Some 1 r1 2 r2 3 by (cases r3) (auto simp: recover_rotation_def split: if_splits)
      ultimately show ?thesis using h2 by simp
    qed
  qed
qed (use assms(2) in \<open>simp add: recover_rotation_def\<close>)

lemma rotate_installation_data:
  assumes "state_env_ok se" "rotate_installation se e sc sio now newid reason h = (r, h')"
  shows "maybe_rotated se sio now (sv_data (ho_state h)) (sv_data (ho_state h'))"
proof -
  have call: "outbox_call e sc 0 f h = (x, h1) \<Longrightarrow> ho_state h1 = ho_state h" for f x h1
    by (rule outbox_call_state)
  show ?thesis
    using assms(2) unfolding rotate_installation_def Let_def
    by (auto split: sum.splits if_splits option.splits prod.splits
        dest!: call recover_rotation_data [OF assms(1)])
qed

text \<open>The rotator of the runtime.\<close>

definition runtime_rotator :: "('b, 'd) pairing_env \<Rightarrow> bool" where
  "runtime_rotator pe \<longleftrightarrow> (\<forall>rot. pe_rotator pe = Some rot \<longrightarrow>
     (\<exists>e sc sio now newid. rot = rotate_installation (pe_state pe) e sc sio now newid))"

lemma rotate_first_cases:
  assumes "state_env_ok (pe_state pe)" "runtime_rotator pe" "rotate_first pe needed reason m = (r, m')"
  shows "snapshot_of m' = snapshot_of m \<or>
    (\<exists>sio n t now. snapshot_of m' = next_state (pe_state pe) sio (rotate_data n t now) (snapshot_of m))"
proof (cases "needed \<and> pe_rotator pe \<noteq> None")
  case True
  then obtain rot where rot: "pe_rotator pe = Some rot" by blast
  then obtain e sc sio now newid where eq: "rot = rotate_installation (pe_state pe) e sc sio now newid"
    using assms(2) by (auto simp: runtime_rotator_def)
  obtain x h where x: "rot reason (mn_host m) = (x, h)" by fastforce
  have "mn_host m' = h"
    using assms(3) True rot x by (cases x) (auto simp: rotate_first_def)
  then show ?thesis using rotate_installation_data [OF assms(1) x [unfolded eq]] unfolding maybe_rotated_def by blast
qed (use assms(3) in \<open>auto simp: rotate_first_def split: option.splits if_splits\<close>)

lemma rotate_first_wf:
  assumes "state_env_ok (pe_state pe)" "runtime_rotator pe" "rotate_first pe needed reason m = (r, m')"
    and "pairing_wf (snapshot_of m)"
  shows "pairing_wf (snapshot_of m')"
  using rotate_first_cases [OF assms(1-3)] pairing_wf_update(4) [OF assms(1)] assms(4) by auto

section \<open>The operations\<close>

datatype pairing_op = OpSubmit string | OpReset bool | OpLifecycleChange lifecycle_change string bool | OpProcess

fun pairing_call :: "('b, 'd) pairing_env \<Rightarrow> pairing_op \<Rightarrow> ('b, 'd) manager
    \<Rightarrow> (pairing_error + unit) \<times> ('b, 'd) manager" where
  "pairing_call pe (OpSubmit code) m = submit_pairing_code pe code m"
| "pairing_call pe (OpReset deauthorize) m = reset_pairing pe deauthorize m"
| "pairing_call pe (OpLifecycleChange change detail durable) m = apply_lifecycle_change pe change detail durable m"
| "pairing_call pe OpProcess m = process_pairing pe m"

lemma update_and_tell_wf:
  assumes "state_env_ok (pe_state pe)" "update_and_tell pe f ops m = (r, m')" "pairing_wf (snapshot_of m)"
    and "pairing_wf (next_state (pe_state pe) (pe_io pe) f (snapshot_of m))"
  shows "pairing_wf (snapshot_of m')"
  using update_and_tell_data [OF assms(1,2)] assms(3,4) by auto

lemma lifecycle_wf:
  assumes se: "state_env_ok (pe_state pe)" and rot: "runtime_rotator pe" and wf: "pairing_wf (snapshot_of m)"
    and run: "apply_lifecycle_change pe change detail durable m = (r, m')"
  shows "pairing_wf (snapshot_of m')"
proof (cases "is_change_valid change")
  case True
  let ?needed = "il_bound (da_installation (snapshot_of m)) \<and> (change = LocalDeauthorized \<or> change = ReceiverReplaced)"
  obtain u m1 where u: "rotate_first pe ?needed (change_text change) m = (u, m1)" by fastforce
  have wf1: "pairing_wf (snapshot_of m1)" by (rule rotate_first_wf [OF se rot u wf])
  show ?thesis
  proof (cases u)
    case (Inl x)
    then show ?thesis using run u True wf1 by (simp add: apply_lifecycle_change_def)
  next
    case (Inr v)
    then obtain reason ops where "update_and_tell pe (lifecycle_cleared change reason durable (pe_now pe 0)) ops m1 = (r, m')"
      using run u True by (simp add: apply_lifecycle_change_def Let_def)
    from update_and_tell_wf [OF se this wf1] show ?thesis by (simp add: pairing_wf_update(2) [OF se wf1])
  qed
qed (use run wf in \<open>simp add: apply_lifecycle_change_def\<close>)

lemma submit_wf:
  assumes se: "state_env_ok (pe_state pe)" and rot: "runtime_rotator pe" and wf: "pairing_wf (snapshot_of m)"
    and run: "submit_pairing_code pe code m = (r, m')"
  shows "pairing_wf (snapshot_of m')"
proof (cases "normalize_pairing_code (se_unicode (pe_state pe)) code")
  case (Inr c)
  obtain u m1 where u: "rotate_first pe (il_bound (da_installation (snapshot_of m))) ''re_pair'' m = (u, m1)"
    by fastforce
  have wf1: "pairing_wf (snapshot_of m1)" by (rule rotate_first_wf [OF se rot u wf])
  show ?thesis
  proof (cases u)
    case (Inl x)
    then show ?thesis using run u Inr wf1 by (simp add: submit_pairing_code_def)
  next
    case u': (Inr v)
    then obtain ops where "update_and_tell pe (code_entered c (pe_now pe 0)) ops m1 = (r, m')"
      using run u Inr by (simp add: submit_pairing_code_def)
    from update_and_tell_wf [OF se this wf1] show ?thesis by (simp add: pairing_wf_update(1) [OF se wf1])
  qed
qed (use run wf in \<open>simp add: submit_pairing_code_def\<close>)


section \<open>The phase machine\<close>

text \<open>What one call of \<open>Process\<close> may do to the state, as a step relation: every move names what the client
  answered and when it was asked.\<close>

definition may_ask :: "('b, 'd) pairing_env \<Rightarrow> pairing_client \<Rightarrow> state_data \<Rightarrow> bool" where
  "may_ask pe client d \<longleftrightarrow> pe_client pe = Some client \<and> can_attempt (pg_next_retry_at (da_pairing d)) (pe_now pe 0)"

definition expired :: "('b, 'd) pairing_env \<Rightarrow> state_data \<Rightarrow> bool" where
  "expired pe d \<longleftrightarrow> (\<exists>t. pg_activation_expires (da_pairing d) = Some t \<and> pe_now pe 1 > t)"

inductive pairing_step :: "('b, 'd) pairing_env \<Rightarrow> state_data \<Rightarrow> state_data \<Rightarrow> bool" for pe where
  stay: "pairing_step pe d d"
| exchange: "pg_phase (da_pairing d) = phase_code_entered \<Longrightarrow> may_ask pe client d \<Longrightarrow>
    trim_space (pg_pairing_code (da_pairing d)) \<noteq> [] \<Longrightarrow>
    pc_exchange client (trim_space (pg_pairing_code (da_pairing d))) = Inr x \<Longrightarrow>
    pairing_step pe d (next_state (pe_state pe) (pe_io pe) (exchanged x (pe_now pe 1)) d)"
| activate: "pg_phase (da_pairing d) = phase_exchanged \<Longrightarrow> may_ask pe client d \<Longrightarrow> \<not> expired pe d \<Longrightarrow>
    aq_token q = trim_space (pg_activation_token (da_pairing d)) \<Longrightarrow> aq_token q \<noteq> [] \<Longrightarrow>
    pc_activate client endpoint q = Inr y \<Longrightarrow>
    pairing_step pe d (next_state (pe_state pe) (pe_io pe) (activated y (pe_now pe 1)) d)"
| promote: "pg_phase (da_pairing d) = phase_activated \<Longrightarrow> trim_space (cs_ingest_api_key (da_cloud d)) \<noteq> [] \<Longrightarrow>
    pairing_step pe d (next_state (pe_state pe) (pe_io pe) (promoted (pe_now pe 0)) d)"
| retry: "pg_phase (da_pairing d) = phase_code_entered \<or> pg_phase (da_pairing d) = phase_exchanged \<Longrightarrow>
    may_ask pe client d \<Longrightarrow> is_retryable err \<Longrightarrow> count = pg_retry_count (da_pairing d) + 1 \<Longrightarrow>
    pairing_step pe d (next_state (pe_state pe) (pe_io pe)
      (retry_scheduled (pg_phase (da_pairing d)) count (pe_now pe 2 + pairing_retry_delay count) (sanitize_error err)
        change (pe_now pe 2)) d)"
| abandon: "pg_phase (da_pairing d) = phase_code_entered \<or> pg_phase (da_pairing d) = phase_exchanged \<Longrightarrow>
    may_ask pe client d \<Longrightarrow>
    pairing_step pe d (next_state (pe_state pe) (pe_io pe) (pairing_abandoned message change (pe_now pe 2)) d)"

inductive_cases pairing_stepE: "pairing_step pe d d'"

lemma update_and_tell_step:
  assumes "state_env_ok (pe_state pe)" "update_and_tell pe f ops m1 = (r, m')" "mn_host m1 = mn_host m"
    and "pairing_step pe (snapshot_of m) (next_state (pe_state pe) (pe_io pe) f (snapshot_of m))"
  shows "pairing_step pe (snapshot_of m) (snapshot_of m')"
  using update_and_tell_data [OF assms(1,2)] assms(3,4) stay by auto

lemma handle_attempt_error_step:
  assumes se: "state_env_ok (pe_state pe)" and ask: "may_ask pe client (snapshot_of m)"
    and phase: "pg_phase (da_pairing (snapshot_of m)) = phase" "phase = phase_code_entered \<or> phase = phase_exchanged"
    and same: "mn_host m1 = mn_host m"
    and run: "handle_attempt_error pe (snapshot_of m) err phase m1 = (r, m')"
  shows "pairing_step pe (snapshot_of m) (snapshot_of m')"
proof (cases "is_retryable err")
  case True
  let ?count = "pg_retry_count (da_pairing (snapshot_of m)) + 1"
  obtain change ops where "update_and_tell pe (retry_scheduled phase ?count
      (pe_now pe 2 + pairing_retry_delay ?count) (sanitize_error err) change (pe_now pe 2)) ops m1 = (r, m')"
    using run True by (auto simp: handle_attempt_error_def Let_def)
  moreover have "pairing_step pe (snapshot_of m) (next_state (pe_state pe) (pe_io pe) (retry_scheduled phase ?count
      (pe_now pe 2 + pairing_retry_delay ?count) (sanitize_error err) change (pe_now pe 2)) (snapshot_of m))" for change
    using retry [of "snapshot_of m" pe client err ?count change] phase ask True by simp
  ultimately show ?thesis using update_and_tell_step [OF se _ same] by blast
next
  case False
  then obtain change ops where "update_and_tell pe (pairing_abandoned (sanitize_error err) change (pe_now pe 2)) ops m1 = (r, m')"
    using run by (auto simp: handle_attempt_error_def Let_def)
  moreover have "pairing_step pe (snapshot_of m)
      (next_state (pe_state pe) (pe_io pe) (pairing_abandoned message change (pe_now pe 2)) (snapshot_of m))" for message change
    using abandon phase ask by blast
  ultimately show ?thesis using update_and_tell_step [OF se _ same] by blast
qed

lemma exchange_bootstrap_step:
  assumes se: "state_env_ok (pe_state pe)" and phase: "pg_phase (da_pairing (snapshot_of m)) = phase_code_entered"
    and same: "mn_host m1 = mn_host m" and run: "exchange_bootstrap pe (snapshot_of m) m1 = (r, m')"
  shows "pairing_step pe (snapshot_of m) (snapshot_of m')"
proof (cases "\<exists>client. may_ask pe client (snapshot_of m)")
  case False
  then have "mn_host m' = mn_host m1"
    using run by (auto simp: exchange_bootstrap_def may_ask_def split: option.splits)
  then show ?thesis using same by (simp add: stay)
next
  case True
  then obtain client where ask: "may_ask pe client (snapshot_of m)" by blast
  let ?code = "trim_space (pg_pairing_code (da_pairing (snapshot_of m)))"
  show ?thesis
  proof (cases "?code = []")
    case True
    then have "mn_host m' = mn_host m1"
      using run ask by (auto simp: exchange_bootstrap_def may_ask_def fail_pairing_def Let_def)
    then show ?thesis using same by (simp add: stay)
  next
    case code: False
    obtain ops0 where m2: "mn_host (tell pe ops0 m1) = mn_host m"
      and run2: "(case pc_exchange client ?code of
          Inl err \<Rightarrow> handle_attempt_error pe (snapshot_of m) err phase_code_entered (tell pe ops0 m1)
        | Inr x \<Rightarrow> update_and_tell pe (exchanged x (pe_now pe 1))
            [OpPairingPhase phase_exchanged,
             OpComponent ''pairing'' ''bootstrap_exchanged'' ''pairing code redeemed'', OpLastError []]
            (tell pe ops0 m1)) = (r, m')"
      using run ask code same by (auto simp: exchange_bootstrap_def may_ask_def Let_def)
    show ?thesis
    proof (cases "pc_exchange client ?code")
      case (Inl err)
      then show ?thesis using handle_attempt_error_step [OF se ask phase _ m2] run2 by simp
    next
      case (Inr x)
      then show ?thesis
        using update_and_tell_step [OF se _ m2] exchange [OF phase ask code Inr] run2 by simp
    qed
  qed
qed


lemma activate_step:
  assumes se: "state_env_ok (pe_state pe)" and phase: "pg_phase (da_pairing (snapshot_of m)) = phase_exchanged"
    and same: "mn_host m1 = mn_host m" and run: "activate pe (snapshot_of m) m1 = (r, m')"
  shows "pairing_step pe (snapshot_of m) (snapshot_of m')"
proof (cases "\<exists>client. may_ask pe client (snapshot_of m)")
  case False
  then have "mn_host m' = mn_host m1"
    using run by (auto simp: activate_def may_ask_def split: option.splits)
  then show ?thesis using same by (simp add: stay)
next
  case True
  then obtain client where ask: "may_ask pe client (snapshot_of m)" by blast
  let ?p = "da_pairing (snapshot_of m)" and ?token = "trim_space (pg_activation_token (da_pairing (snapshot_of m)))"
  have expired: "(case pg_activation_expires ?p of None \<Rightarrow> False | Some t \<Rightarrow> pe_now pe 1 > t) = expired pe (snapshot_of m)"
    by (auto simp: expired_def split: option.splits)
  note expired = expired expired [unfolded One_nat_def]
  consider (no_token) "?token = []" | (late) "?token \<noteq> []" "expired pe (snapshot_of m)"
    | (ask) "?token \<noteq> []" "\<not> expired pe (snapshot_of m)" by blast
  then show ?thesis
  proof cases
    case no_token
    then have "mn_host m' = mn_host m1"
      using run ask by (auto simp: activate_def may_ask_def fail_pairing_def Let_def)
    then show ?thesis using same by (simp add: stay)
  next
    case late
    then obtain ops message change where
      "update_and_tell pe (pairing_abandoned message change (pe_now pe 2)) ops m1 = (r, m')"
      using run ask by (auto simp: activate_def may_ask_def expired revert_to_unpaired_def Let_def)
    then show ?thesis using update_and_tell_step [OF se _ same] abandon [OF _ ask] phase by blast
  next
    case token: ask
    obtain ops0 endpoint q where m2: "mn_host (tell pe ops0 m1) = mn_host m" and q: "aq_token q = ?token"
      and run2: "(case pc_activate client endpoint q of
          Inl err \<Rightarrow> handle_attempt_error pe (snapshot_of m) err phase_exchanged (tell pe ops0 m1)
        | Inr y \<Rightarrow> update_and_tell pe (activated y (pe_now pe 1))
            [OpPairingPhase phase_activated,
             OpComponent ''pairing'' ''activated'' ''receiver credential activated'', OpLastError []]
            (tell pe ops0 m1)) = (r, m')"
    proof
      let ?e = "trim_space (cs_activate_endpoint (da_cloud (snapshot_of m)))" and ?i = "pe_identity pe"
      let ?q = "\<lparr>aq_token = ?token, aq_label = ai_label ?i, aq_version = ai_version ?i,
        aq_platform = ai_platform ?i, aq_arch = ai_arch ?i, aq_metadata = activation_metadata ?i (snapshot_of m)\<rparr>"
      show "mn_host (tell pe [OpComponent ''pairing'' ''activate'' ''activating receiver credential''] m1) = mn_host m"
        by (simp add: same)
      show "aq_token ?q = ?token" by simp
      show "(case pc_activate client (if ?e = [] then ''/api/receiver/activate'' else ?e) ?q of
          Inl err \<Rightarrow> handle_attempt_error pe (snapshot_of m) err phase_exchanged
            (tell pe [OpComponent ''pairing'' ''activate'' ''activating receiver credential''] m1)
        | Inr y \<Rightarrow> update_and_tell pe (activated y (pe_now pe 1))
            [OpPairingPhase phase_activated,
             OpComponent ''pairing'' ''activated'' ''receiver credential activated'', OpLastError []]
            (tell pe [OpComponent ''pairing'' ''activate'' ''activating receiver credential''] m1)) = (r, m')"
        using run ask token by (simp add: activate_def may_ask_def expired Let_def del: One_nat_def split del: if_split)
    qed
    show ?thesis
    proof (cases "pc_activate client endpoint q")
      case (Inl err)
      then show ?thesis using handle_attempt_error_step [OF se ask phase _ m2] run2 by simp
    next
      case (Inr y)
      then show ?thesis
        using update_and_tell_step [OF se _ m2] activate [OF phase ask token(2) q _ Inr] q token(1) run2 by simp
    qed
  qed
qed

lemma update_and_tell_outbox: "update_and_tell pe f ops m = (r, m') \<Longrightarrow> ho_outbox (mn_host m') = ho_outbox (mn_host m)"
  by (auto simp: update_and_tell_def update_state_of_def split: prod.splits sum.splits)

lemma process_outbox: "process_pairing pe m = (r, m') \<Longrightarrow> ho_outbox (mn_host m') = ho_outbox (mn_host m)"
  by (auto simp: process_pairing_def exchange_bootstrap_def activate_def promote_steady_state_def fail_pairing_def
      revert_to_unpaired_def handle_attempt_error_def Let_def dest!: update_and_tell_outbox
      split: option.splits if_splits sum.splits)

lemma process_step:
  assumes se: "state_env_ok (pe_state pe)" and run: "process_pairing pe m = (r, m')"
  shows "pairing_step pe (snapshot_of m) (snapshot_of m')"
proof -
  let ?phase = "pg_phase (da_pairing (snapshot_of m))" and ?m = "tell pe [OpPairingPhase (pg_phase (da_pairing (snapshot_of m)))] m"
  have same: "mn_host ?m = mn_host m" by simp
  consider (entered) "?phase = phase_code_entered" | (exchanged) "?phase = phase_exchanged"
    | (activated) "?phase = phase_activated"
    | (other) "?phase \<noteq> phase_code_entered" "?phase \<noteq> phase_exchanged" "?phase \<noteq> phase_activated" by blast
  then show ?thesis
  proof cases
    case entered
    then have "exchange_bootstrap pe (snapshot_of m) ?m = (r, m')" using run by (simp add: process_pairing_def Let_def)
    from exchange_bootstrap_step [OF se entered same this] show ?thesis .
  next
    case exchanged
    then have "activate pe (snapshot_of m) ?m = (r, m')" using run by (simp add: process_pairing_def Let_def)
    from activate_step [OF se exchanged same this] show ?thesis .
  next
    case activated
    then have promote: "promote_steady_state pe (snapshot_of m) ?m = (r, m')"
      using run by (simp add: process_pairing_def Let_def)
    show ?thesis
    proof (cases "trim_space (cs_ingest_api_key (da_cloud (snapshot_of m))) = []")
      case True
      then have "mn_host m' = mn_host m" using promote activated by (auto simp: promote_steady_state_def)
      then show ?thesis by (simp add: stay)
    next
      case False
      then show ?thesis
        using promote activated update_and_tell_step [OF se _ same pairing_step.promote [OF activated False]]
        by (simp add: promote_steady_state_def)
    qed
  next
    case other
    then have "mn_host m' = mn_host m"
      using run by (auto simp: process_pairing_def fail_pairing_def Let_def split: if_splits)
    then show ?thesis by (simp add: stay)
  qed
qed

lemma next_state_phase:
  assumes "state_env_ok se"
  shows "pg_phase (da_pairing (next_state se io (exchanged x now) d)) = phase_exchanged"
    "pg_phase (da_pairing (next_state se io (activated y now) d)) = phase_activated"
    "pg_phase (da_pairing (next_state se io (promoted now) d)) = phase_steady"
    "pg_phase (da_pairing (next_state se io (retry_scheduled p n t msg ch now) d)) = p"
    "pg_phase (da_pairing (next_state se io (pairing_abandoned msg ch now) d)) = phase_unpaired"
    "pg_phase (da_pairing (next_state se io (code_entered code now) d)) = phase_code_entered"
    "pg_phase (da_pairing (next_state se io (lifecycle_cleared c reason durable now) d)) = phase_unpaired"
  by (simp_all add: next_state_pairing exchanged_def activated_def promoted_def retry_scheduled_def pairing_abandoned_def
      code_entered_def lifecycle_cleared_def set_pairing_def set_cloud_state_def set_installation_def Let_def)

lemma pairing_step_wf:
  assumes "state_env_ok (pe_state pe)" "pairing_wf d" "pairing_step pe d d'"
  shows "pairing_wf d'"
  using assms(3)
proof cases
  case (promote)
  then show ?thesis using pairing_wf_promote [OF assms(1,2)] by simp
next
  case (retry client err count change)
  then show ?thesis using pairing_wf_retry [OF assms(1,2) refl] by simp
qed (use assms(2) pairing_wf_update [OF assms(1,2)] in simp_all)

lemma pairing_call_wf:
  assumes "state_env_ok (pe_state pe)" "runtime_rotator pe" "pairing_wf (snapshot_of m)"
  shows "pairing_wf (snapshot_of (snd (pairing_call pe op m)))"
proof -
  obtain r m' where run: "pairing_call pe op m = (r, m')" by fastforce
  have "pairing_wf (snapshot_of m')"
  proof (cases op)
    case (OpSubmit code)
    then show ?thesis using submit_wf [OF assms] run by simp
  next
    case (OpReset deauthorize)
    then show ?thesis using lifecycle_wf [OF assms] run by (cases deauthorize) (auto simp: reset_pairing_def)
  next
    case (OpLifecycleChange change detail durable)
    then show ?thesis using lifecycle_wf [OF assms] run by simp
  next
    case OpProcess
    then show ?thesis using pairing_step_wf [OF assms(1,3) process_step [OF assms(1)]] run by simp
  qed
  then show ?thesis using run by simp
qed


section \<open>Waiting and retrying\<close>

lemma process_waits:
  assumes "pg_phase (da_pairing (snapshot_of m)) = phase_code_entered \<or> pg_phase (da_pairing (snapshot_of m)) = phase_exchanged"
    and "pg_next_retry_at (da_pairing (snapshot_of m)) = Some t" "pe_now pe 0 < t"
    and "process_pairing pe m = (r, m')"
  shows "r = Inr () \<and> mn_host m' = mn_host m"
  using assms by (auto simp: process_pairing_def exchange_bootstrap_def activate_def can_attempt_def Let_def
      split: option.splits)

lemma pairing_delay_bounds:
  assumes "1 \<le> n"
  shows "4 * second \<le> pairing_retry_delay n" "pairing_retry_delay n \<le> 2 * minute"
proof -
  have "(2 :: int) ^ 2 \<le> 2 ^ nat (min (n + 1) 7)"
    by (rule power_increasing) (use assms in auto)
  then show "4 * second \<le> pairing_retry_delay n"
    using assms by (simp add: pairing_retry_delay_def max_retry_delay_def duration_defs Let_def)
  show "pairing_retry_delay n \<le> 2 * minute"
    using assms by (simp add: pairing_retry_delay_def max_retry_delay_def Let_def)
qed

lemma exchange_retry:
  assumes se: "state_env_ok (pe_state pe)" and wf: "pairing_wf (snapshot_of m)"
    and phase: "pg_phase (da_pairing (snapshot_of m)) = phase_code_entered" and ask: "may_ask pe client (snapshot_of m)"
    and code: "trim_space (pg_pairing_code (da_pairing (snapshot_of m))) \<noteq> []"
    and err: "pc_exchange client (trim_space (pg_pairing_code (da_pairing (snapshot_of m)))) = Inl err" "is_retryable err"
    and run: "process_pairing pe m = (Inr (), m')"
  shows "\<exists>count message change. 1 \<le> count \<and> snapshot_of m' = next_state (pe_state pe) (pe_io pe) (retry_scheduled phase_code_entered
      count (pe_now pe 2 + pairing_retry_delay count) message change (pe_now pe 2)) (snapshot_of m)"
proof -
  let ?count = "pg_retry_count (da_pairing (snapshot_of m)) + 1"
  obtain m1 change ops where m1: "mn_host m1 = mn_host m" and
    upd: "update_and_tell pe (retry_scheduled phase_code_entered ?count (pe_now pe 2 + pairing_retry_delay ?count)
       (sanitize_error err) change (pe_now pe 2)) ops m1 = (Inr (), m')"
  proof
    let ?m1 = "tell pe [OpComponent ''pairing'' ''bootstrap_exchange'' ''redeeming pairing code'']
      (tell pe [OpPairingPhase (pg_phase (da_pairing (snapshot_of m)))] m)"
    show "mn_host ?m1 = mn_host m" by simp
    show "update_and_tell pe (retry_scheduled phase_code_entered ?count (pe_now pe 2 + pairing_retry_delay ?count)
       (sanitize_error err) (pairing_failure_change (se_unicode (pe_state pe)) phase_code_entered err True) (pe_now pe 2))
       [OpComponent ''pairing'' ''retrying'' (''temporary failure, retrying in '' @ duration_text (pairing_retry_delay ?count)),
        OpLastError ''temporary cloud error''] ?m1 = (Inr (), m')"
      using run phase ask code err
      by (simp add: process_pairing_def exchange_bootstrap_def may_ask_def handle_attempt_error_def Let_def)
  qed
  have "1 \<le> ?count" using wf by (simp add: pairing_wf_def Let_def)
  moreover from update_and_tell_cases [OF se upd] m1 have "snapshot_of m' = next_state (pe_state pe) (pe_io pe)
      (retry_scheduled phase_code_entered ?count (pe_now pe 2 + pairing_retry_delay ?count)
       (sanitize_error err) change (pe_now pe 2)) (snapshot_of m)" by simp
  ultimately show ?thesis by blast
qed

section \<open>Properties\<close>

text \<open>
  In every history of the manager, whatever the client, the clock and the file system do: the phase
  is a known one; nothing secret and nothing scheduled is left outside the two phases of a pairing under
  way; a credential in use belongs to a bound installation; an activation token has its expiry; and a
  retry is counted exactly when it is scheduled.
\<close>
lemma pairing_always_wf:
  assumes "pairing_wf (snapshot_of m)"
    and "\<forall>x \<in> set calls. state_env_ok (pe_state (fst x)) \<and> runtime_rotator (fst x)"
  shows "pairing_wf (snapshot_of (fold (\<lambda>(pe, op) m. snd (pairing_call pe op m)) calls m))"
  using assms
proof (induction calls arbitrary: m)
  case (Cons call calls)
  obtain pe op where call: "call = (pe, op)" by (cases call)
  have "pairing_wf (snapshot_of (snd (pairing_call pe op m)))"
    using Cons.prems call by (intro pairing_call_wf) auto
  then show ?case using Cons.IH Cons.prems(2) call by simp
qed simp

text \<open>The moves between phases.\<close>

definition pairing_moves :: "(string \<times> string) set" where
  "pairing_moves = Id \<union> {(phase_code_entered, phase_exchanged), (phase_code_entered, phase_unpaired),
     (phase_exchanged, phase_activated), (phase_exchanged, phase_unpaired), (phase_activated, phase_steady)}"

text \<open>
  C29. Process implements the pairing steps: it changes the state only by one of them, never the outbox,
  and so only along the intended moves between phases: an exchange or an activation needs the client's
  answer, asked for when a retry was not being waited for, and the steady phase needs a credential.
\<close>
theorem pairing_refines_steps:
  assumes "state_env_ok (pe_state pe)" "process_pairing pe m = (r, m')"
  shows "pairing_step pe (snapshot_of m) (snapshot_of m') \<and> ho_outbox (mn_host m') = ho_outbox (mn_host m) \<and>
    (pg_phase (da_pairing (snapshot_of m)), pg_phase (da_pairing (snapshot_of m'))) \<in> pairing_moves"
proof -
  have step: "pairing_step pe (snapshot_of m) (snapshot_of m')" by (rule process_step [OF assms])
  then have "(pg_phase (da_pairing (snapshot_of m)), pg_phase (da_pairing (snapshot_of m'))) \<in> pairing_moves"
    by (rule pairing_stepE) (auto simp: next_state_phase [OF assms(1)] pairing_moves_def)
  then show ?thesis using step process_outbox [OF assms(2)] by simp
qed

text \<open>
  C30. Retries back off and wait: when the exchange of a pairing code fails in a way that may pass and the
  state is written, the phase and the code stay, the next attempt is due between 4 seconds and 2 minutes
  later, and until then Process asks nobody and changes neither the state nor the outbox.
\<close>
theorem pairing_backs_off:
  assumes "state_env_ok (pe_state pe)" "pairing_wf (snapshot_of m)"
    and "pg_phase (da_pairing (snapshot_of m)) = phase_code_entered" "may_ask pe client (snapshot_of m)"
    and "trim_space (pg_pairing_code (da_pairing (snapshot_of m))) \<noteq> []"
    and "pc_exchange client (trim_space (pg_pairing_code (da_pairing (snapshot_of m)))) = Inl err" "is_retryable err"
    and "process_pairing pe m = (Inr (), m')"
  shows "\<exists>t. pg_phase (da_pairing (snapshot_of m')) = phase_code_entered \<and>
    pg_pairing_code (da_pairing (snapshot_of m')) = se_text (pe_state pe) (pg_pairing_code (da_pairing (snapshot_of m))) \<and>
    pg_next_retry_at (da_pairing (snapshot_of m')) = Some t \<and>
    pe_now pe 2 + 4 * second \<le> t \<and> t \<le> pe_now pe 2 + 2 * minute \<and>
    (\<forall>pe2 r2 m2. pe_now pe2 0 < t \<longrightarrow> process_pairing pe2 m' = (r2, m2) \<longrightarrow> r2 = Inr () \<and> mn_host m2 = mn_host m')"
proof -
  obtain count message change where count: "1 \<le> count" and m': "snapshot_of m' = next_state (pe_state pe) (pe_io pe)
      (retry_scheduled phase_code_entered count (pe_now pe 2 + pairing_retry_delay count) message change (pe_now pe 2))
      (snapshot_of m)" using exchange_retry [OF assms] by blast
  let ?t = "pe_now pe 2 + pairing_retry_delay count"
  have p: "pg_phase (da_pairing (snapshot_of m')) = phase_code_entered" "pg_next_retry_at (da_pairing (snapshot_of m')) = Some ?t"
    "pg_pairing_code (da_pairing (snapshot_of m')) = se_text (pe_state pe) (pg_pairing_code (da_pairing (snapshot_of m)))"
    by (simp_all add: m' next_state_pairing retry_scheduled_def set_pairing_def scrubbed_parts scrub_pairing_def)
  have "\<forall>pe2 r2 m2. pe_now pe2 0 < ?t \<longrightarrow> process_pairing pe2 m' = (r2, m2) \<longrightarrow> r2 = Inr () \<and> mn_host m2 = mn_host m'"
    using process_waits [OF disjI1 [OF p(1)] p(2)] by blast
  moreover have "pe_now pe 2 + 4 * second \<le> ?t" "?t \<le> pe_now pe 2 + 2 * minute"
    using pairing_delay_bounds [OF count] by simp_all
  ultimately show ?thesis using p by blast
qed

text \<open>
  C31. Deauthorizing leaves no credential: when a change of lifecycle that clears durable data succeeds,
  neither the state in memory nor what the state file reads as holds an API key, an owner, a receiver, a
  pairing code or an activation token.
\<close>
theorem pairing_clears_credentials:
  assumes "state_env_ok (pe_state pe)" "apply_lifecycle_change pe change detail True m = (Inr (), m')"
  shows "\<exists>d. reads_as (pe_state pe) (sv_file (ho_state (mn_host m'))) d \<and>
    (\<forall>x \<in> {d, snapshot_of m'}. cs_ingest_api_key (da_cloud x) = [] \<and> cs_ingest_api_key_id (da_cloud x) = [] \<and>
      cs_owner_id (da_cloud x) = [] \<and> cs_receiver_id (da_cloud x) = [] \<and> cs_clock_samples (da_cloud x) = [] \<and>
      pg_pairing_code (da_pairing x) = [] \<and> pg_activation_token (da_pairing x) = [] \<and>
      pg_phase (da_pairing x) = phase_unpaired)"
proof -
  obtain needed u m1 where u: "rotate_first pe needed (change_text change) m = (u, m1)"
      "needed \<longleftrightarrow> il_bound (da_installation (snapshot_of m)) \<and> (change = LocalDeauthorized \<or> change = ReceiverReplaced)"
    by fastforce
  have valid: "is_change_valid change" using assms(2) by (auto simp: apply_lifecycle_change_def split: if_splits)
  then obtain v where v: "u = Inr v" using assms(2) u by (cases u) (simp_all add: apply_lifecycle_change_def)
  then obtain reason ops where
    "update_and_tell pe (lifecycle_cleared change reason True (pe_now pe 0)) ops m1 = (Inr (), m')"
    using assms(2) u valid by (simp add: apply_lifecycle_change_def Let_def)
  from update_and_tell_cases [OF assms(1) this]
  have m': "snapshot_of m' = next_state (pe_state pe) (pe_io pe) (lifecycle_cleared change reason True (pe_now pe 0)) (snapshot_of m1)"
    and d: "reads_as (pe_state pe) (sv_file (ho_state (mn_host m'))) (scrubbed (pe_state pe) (snapshot_of m'))" by auto
  have cloud: "cs_ingest_api_key (da_cloud (snapshot_of m')) = []" "cs_ingest_api_key_id (da_cloud (snapshot_of m')) = []"
      "cs_owner_id (da_cloud (snapshot_of m')) = []" "cs_receiver_id (da_cloud (snapshot_of m')) = []"
      "cs_clock_samples (da_cloud (snapshot_of m')) = []"
    by (simp_all add: m' next_state_def stamp_def normalize_generations_def normalize_credential_def
        lifecycle_cleared_def set_cloud_state_def set_pairing_def Let_def)
  have pairing: "pg_pairing_code (da_pairing (snapshot_of m')) = []" "pg_activation_token (da_pairing (snapshot_of m')) = []"
      "pg_phase (da_pairing (snapshot_of m')) = phase_unpaired"
    by (simp_all add: m' next_state_pairing lifecycle_cleared_def set_cloud_state_def set_pairing_def Let_def)
  have unpaired: "se_text (pe_state pe) phase_unpaired = phase_unpaired"
    by (rule phase_text [OF assms(1)]) (simp add: is_valid_phase_def)
  show ?thesis
    using d cloud pairing unpaired text_Nil [OF assms(1)]
    by (intro exI [of _ "scrubbed (pe_state pe) (snapshot_of m')"])
      (simp add: scrubbed_parts scrub_cloud_def scrub_pairing_def)
qed


section \<open>Re-pairing a bound installation\<close>

lemma rotated_unbound: "unbound (next_state se sio (rotate_data n t now) d)"
  by (simp add: unbound_def next_state_def stamp_def normalize_generations_def normalize_credential_def
      credential_fingerprint_def rotate_data_def Let_def)

lemma code_entered_keeps:
  assumes "scrubbed se d = d" "unbound d"
  shows "unbound (next_state se io (code_entered code now) d)"
    "identity_of (next_state se io (code_entered code now) d) = identity_of d"
  using assms by (simp_all add: unbound_def next_state_def stamp_def normalize_generations_def normalize_credential_def
      credential_fingerprint_def code_entered_def set_pairing_def binding_text_def Let_def)

text \<open>
  C32. Re-pairing a bound installation starts afresh: when a pairing code is accepted while a cloud binding
  exists, the receiver has the new identity and no owner, receiver or credential left, the rotation is
  recorded as complete, and the code waits to be exchanged. Adapters, writer and dispatcher may run in the
  meantime and call the outbox as they like, except that they rotate nothing: a delivery of the old
  installation that is still live afterwards was enqueued by one of them after the quarantine (the next
  reconciliation with the new binding will move it).
\<close>
theorem pairing_repair_rotates:
  fixes pe :: "('b, 'd) pairing_env" and m :: "('b, 'd) manager"
  defines "h \<equiv> mn_host m"
  assumes "state_env_ok (pe_state pe)" "env_ok e" "tame_schedule e sc" "reachable e (ho_outbox h)"
    and "st_db (ho_outbox h) = Some db"
    and "db_rotation db = Absent \<or> (\<exists>j. db_rotation db = Stored j \<and> ir_phase j = PhaseCompleted)"
    and "settled (pe_state pe) (snapshot_of m)" "reads_as (pe_state pe) (sv_file (ho_state h)) (snapshot_of m)"
    and "old = identity_of (snapshot_of m)" "trim_space old = old" "trim_space new = new"
    and "new_identity_ok e (pe_state pe) old new" "\<not> is_zero (io_now (sc_io sc 0))"
    and "pe_rotator pe = Some (rotate_installation (pe_state pe) e sc sio now (Some new))"
    and "il_bound (da_installation (snapshot_of m))" "submit_pairing_code pe code m = (Inr (), m')"
  shows "identity_of (snapshot_of m') = new \<and> unbound (snapshot_of m') \<and>
    pg_phase (da_pairing (snapshot_of m')) = phase_code_entered \<and>
    (\<exists>db'. st_db (ho_outbox (mn_host m')) = Some db' \<and> journal_at db' PhaseCompleted old new) \<and>
    (\<forall>db' k d. st_db (ho_outbox (mn_host m')) = Some db' \<longrightarrow> live e db' k = Some d \<longrightarrow> dl_installation d = old \<longrightarrow>
       (\<exists>n > 1. \<exists>io x. (io, OpEnqueue x) \<in> set (sc_others sc n) \<and> dl_id x = k \<and> dl_installation x = old))"
proof -
  obtain c where c: "normalize_pairing_code (se_unicode (pe_state pe)) code = Inr c"
    using assms(17) by (cases "normalize_pairing_code (se_unicode (pe_state pe)) code") (simp_all add: submit_pairing_code_def)
  obtain u h1 where run: "rotate_installation (pe_state pe) e sc sio now (Some new) ''re_pair'' h = (u, h1)" by fastforce
  obtain i where u: "u = Inr i"
    using assms(15,16,17) c run by (cases u) (simp_all add: submit_pairing_code_def rotate_first_def h_def)
  let ?m1 = "tell pe [OpInstallationId i] (m\<lparr>mn_host := h1\<rparr>)"
  have m1: "mn_host ?m1 = h1" by simp
  have upd: "update_and_tell pe (code_entered c (pe_now pe 0))
      [OpPairingPhase phase_code_entered,
       OpComponent ''pairing'' ''pairing_code_entered'' ''pairing code accepted'', OpLastError []] ?m1 = (Inr (), m')"
    using assms(15,16,17) c run u by (simp add: submit_pairing_code_def rotate_first_def h_def)
  have "old = identity_of (sv_data (ho_state h))" "settled (pe_state pe) (sv_data (ho_state h))"
      "reads_as (pe_state pe) (sv_file (ho_state h)) (sv_data (ho_state h))"
    using assms(8-10) by (simp_all add: h_def)
  note facts = rotation_starts_facts [OF assms(2-7) this(2,3,1) assms(11-14) run]
  have host: "host_ok (pe_state pe) e PhaseCompleted old new h1" and live: "no_live_but e sc old (ho_outbox h1)"
    using facts u by auto
  have d1: "identity_of (sv_data (ho_state h1)) = new" "scrubbed (pe_state pe) (sv_data (ho_state h1)) = sv_data (ho_state h1)"
    using host by (simp_all add: host_ok_def state_agrees_def settled_def)
  have "old \<noteq> new" using assms(13) by (simp add: new_identity_ok_def)
  with rotate_installation_data [OF assms(2) run] d1(1) assms(10) rotated_unbound
  have unbound: "unbound (sv_data (ho_state h1))" by (auto simp: maybe_rotated_def h_def)
  from update_and_tell_cases [OF assms(2) upd]
  have m': "snapshot_of m' = next_state (pe_state pe) (pe_io pe) (code_entered c (pe_now pe 0)) (sv_data (ho_state h1))"
    and ob: "ho_outbox (mn_host m') = ho_outbox h1" by auto
  show ?thesis
    using code_entered_keeps [OF d1(2) unbound] d1(1) m' ob live host next_state_phase(6) [OF assms(2)]
    by (simp add: host_ok_def no_live_but_def)
qed

section \<open>Concrete histories\<close>

definition demo_failing :: client_error where
  "demo_failing = TransportFailure \<lparr>te_text = ''t'', te_deadline = True, te_canceled = False, te_net = True\<rparr>"

definition demo_client :: pairing_client where
  "demo_client = \<lparr>pc_exchange = (\<lambda>_. Inl demo_failing), pc_activate = (\<lambda>_ _. Inl demo_failing)\<rparr>"

definition demo_pairing_env :: "state_env \<Rightarrow> (cell write_log, key write_log) pairing_env" where
  "demo_pairing_env se = \<lparr>pe_client = Some demo_client,
     pe_identity = \<lparr>ai_label = [], ai_version = [], ai_platform = [], ai_arch = [], ai_metadata = Map.empty\<rparr>,
     pe_rotator = Some (rotate_installation se log_env demo_quiet demo_state_io 9 (Some ''n'')),
     pe_state = se, pe_io = demo_state_io, pe_now = (\<lambda>_. 9), pe_shown = 9\<rparr>"

type_synonym demo_manager = "(cell write_log, key write_log) manager"

definition demo_manager :: "state_store \<Rightarrow> demo_db \<Rightarrow> demo_manager" where
  "demo_manager s db = \<lparr>mn_host = \<lparr>ho_state = s, ho_outbox = demo_store db\<rparr>, mn_status = new_status 9\<rparr>"

lemma demo_runtime_rotator: "runtime_rotator (demo_pairing_env se)"
  unfolding runtime_rotator_def demo_pairing_env_def by simp blast

lemma demo_opened_pairing: "pairing_wf demo_opened"
  by (simp add: pairing_wf_def demo_opened_def stamp_def demo_migrated_def no_pairing_def is_valid_phase_def
      idle_pairing_def)

theorem pairing_always_wf_witness:
  "pairing_wf (snapshot_of (snd (submit_pairing_code (demo_pairing_env demo_state_env) ''CODE1234''
     (demo_manager demo_opened_store demo_db1))))"
proof -
  have "pairing_wf (snapshot_of (demo_manager demo_opened_store demo_db1))"
    using demo_opened_pairing by (simp add: demo_manager_def demo_opened_store_def)
  from pairing_always_wf [OF this, of "[(demo_pairing_env demo_state_env, OpSubmit ''CODE1234'')]"]
  show ?thesis using demo_runtime_rotator demo_env_ok by (simp add: demo_pairing_env_def)
qed

definition demo_coded_store :: state_store where
  "demo_coded_store = demo_opened_store\<lparr>sv_data := demo_coded, sv_file := Some (''{e}'' @ [char_of (10 :: nat)])\<rparr>"

theorem pairing_refines_steps_witness:
  "pairing_step (demo_pairing_env demo_state_env) demo_coded
     (snapshot_of (snd (process_pairing (demo_pairing_env demo_state_env) (demo_manager demo_coded_store demo_db1))))"
proof -
  obtain r m' where run: "process_pairing (demo_pairing_env demo_state_env) (demo_manager demo_coded_store demo_db1) = (r, m')"
    by fastforce
  have "state_env_ok (pe_state (demo_pairing_env demo_state_env))" using demo_env_ok by (simp add: demo_pairing_env_def)
  from pairing_refines_steps [OF this run] show ?thesis
    using run by (simp add: demo_manager_def demo_coded_store_def)
qed

lemma demo_code: "normalize_pairing_code u ''CODE1234'' = Inr ''CODE1234''"
proof -
  have "trim_space ''CODE1234'' = ''CODE1234''" by (rule trim_space_visible) simp
  then show ?thesis
    by (simp add: normalize_pairing_code_def to_upper_def ascii_only_def upper_char_def min_pairing_code_length_def)
qed

lemma demo_coded_differs:
  "demo_coded \<noteq> demo_migrated" "demo_coded \<noteq> demo_opened" "demo_coded \<noteq> demo_paired" "demo_coded \<noteq> demo_rotated"
proof -
  have "pg_pairing_code (da_pairing demo_coded) = ''CODE1234''" "pg_pairing_code (da_pairing demo_migrated) = []"
    "pg_pairing_code (da_pairing demo_opened) = []" "pg_pairing_code (da_pairing demo_paired) = []"
    "pg_pairing_code (da_pairing demo_rotated) = []"
    by (simp_all add: demo_coded_def demo_migrated_def demo_opened_def stamp_def demo_paired_def demo_rotated_def no_pairing_def)
  then show "demo_coded \<noteq> demo_migrated" "demo_coded \<noteq> demo_opened" "demo_coded \<noteq> demo_paired" "demo_coded \<noteq> demo_rotated"
    by auto
qed

lemma demo_rotated_differs: "demo_rotated \<noteq> demo_migrated" "demo_rotated \<noteq> demo_opened" "demo_rotated \<noteq> demo_paired"
proof -
  have "identity_of demo_rotated = ''n''" "identity_of demo_migrated = ''i''" "identity_of demo_opened = ''i''"
      "identity_of demo_paired = ''i''"
    by (simp_all add: demo_rotated_def demo_opened_def demo_paired_def stamp_def demo_migrated_def)
  then show "demo_rotated \<noteq> demo_migrated" "demo_rotated \<noteq> demo_opened" "demo_rotated \<noteq> demo_paired" by auto
qed

lemma demo_enter_code:
  "update_store demo_state_env demo_state_io (code_entered ''CODE1234'' 9) demo_rotated_store = (Inr (), demo_coded_store)"
proof -
  have n: "stamp 7 (normalize_generations demo_state_env demo_rotated (code_entered ''CODE1234'' 9 demo_rotated)) = demo_coded"
    by (simp add: normalize_generations_def normalize_credential_def credential_fingerprint_def code_entered_def
        set_pairing_def demo_coded_def demo_rotated_def demo_opened_def stamp_def demo_migrated_def
        no_cloud_def no_pairing_def Let_def)
  have "se_marshal demo_state_env demo_rotated = Some ''{d}''" "se_indent demo_state_env demo_coded = Some ''{e}''"
    using demo_rotated_differs demo_coded_differs by (simp_all add: demo_state_env_def demo_marshal_def)
  moreover have "se_decode demo_state_env ''{d}'' no_state_data = (demo_rotated, True)"
    by (simp add: demo_state_env_def demo_texts_def)
  ultimately show ?thesis
    by (simp add: update_store_def clone_data_def commit_state_def write_state_def demo_state_io_def n
        demo_rotated_store_def demo_coded_store_def)
qed

lemma demo_submit:
  "\<exists>m'. submit_pairing_code (demo_pairing_env demo_state_env) ''CODE1234'' (demo_manager demo_opened_store demo_db1)
     = (Inr (), m') \<and> mn_host m' = \<lparr>ho_state = demo_coded_store, ho_outbox = demo_store demo_db9\<rparr>"
proof -
  have bound: "il_bound (da_installation demo_opened)" by (simp add: demo_opened_def stamp_def demo_migrated_def)
  have "rotate_installation demo_state_env log_env demo_quiet demo_state_io 9 (Some ''n'') ''re_pair''
      \<lparr>ho_state = demo_opened_store, ho_outbox = demo_store demo_db1\<rparr> = (Inr ''n'', demo_done)"
    using demo_rotate by (simp add: demo_start_def)
  then show ?thesis
    using bound demo_enter_code
    by (simp add: submit_pairing_code_def demo_code rotate_first_def demo_pairing_env_def demo_manager_def
        demo_opened_store_def update_and_tell_def update_state_of_def tell_def demo_done_def)
qed


theorem pairing_repair_rotates_witness:
  "\<exists>m' :: demo_manager. submit_pairing_code (demo_pairing_env demo_state_env) ''CODE1234'' (demo_manager demo_opened_store demo_db1)
       = (Inr (), m') \<and> identity_of (snapshot_of m') = ''n'' \<and> unbound (snapshot_of m') \<and>
     no_live log_env ''i'' (ho_outbox (mn_host m'))"
proof -
  obtain m' where run: "submit_pairing_code (demo_pairing_env demo_state_env) ''CODE1234''
      (demo_manager demo_opened_store demo_db1) = (Inr (), m')" using demo_submit by blast
  have d: "mn_host (demo_manager demo_opened_store demo_db1) = demo_start" "sv_data (ho_state demo_start) = demo_opened"
      "pe_state (demo_pairing_env demo_state_env) = demo_state_env"
    by (simp_all add: demo_manager_def demo_opened_store_def demo_start_def demo_pairing_env_def)
  have bound: "il_bound (da_installation demo_opened)" by (simp add: demo_opened_def stamp_def demo_migrated_def)
  have 1: "reachable log_env (ho_outbox demo_start)" "st_db (ho_outbox demo_start) = Some demo_db1"
      "reads_as demo_state_env (sv_file (ho_state demo_start)) demo_opened"
    using demo_reach1 demo_opened_reads by (simp_all add: demo_start_def demo_opened_store_def new_store_def)
  have 2: "db_rotation demo_db1 = Absent \<or> (\<exists>j. db_rotation demo_db1 = Stored j \<and> ir_phase j = PhaseCompleted)"
    by (simp add: demo_db1_def demo_db0_def empty_db_def)
  have 3: "\<not> is_zero (io_now (sc_io demo_quiet 0))" by (simp add: demo_quiet_def demo_io_def is_zero_def zero_time_def)
  have 4: "pe_rotator (demo_pairing_env demo_state_env) =
      Some (rotate_installation demo_state_env log_env demo_quiet demo_state_io 9 (Some ''n''))"
    by (simp add: demo_pairing_env_def)
  note repair = pairing_repair_rotates [of "demo_pairing_env demo_state_env" log_env demo_quiet
      "demo_manager demo_opened_store demo_db1" demo_db1 "''i''" "''n''" demo_state_io 9 "''CODE1234''" m', unfolded d,
      OF demo_env_ok log_env_ok quiet_tame [OF demo_quiet_schedule] 1(1,2) 2 demo_settled(1) 1(3) demo_settled(2) [symmetric]
        demo_trim(1,2) demo_new_identity 3 4 bound run]
  then show ?thesis using run by (auto simp: no_live_def demo_quiet_def)
qed


text \<open>An environment whose state file holds the states of the next two examples.\<close>

definition demo_waiting :: state_data where
  "demo_waiting = demo_coded\<lparr>da_pairing := (da_pairing demo_coded)\<lparr>pg_retry_count := 1,
     pg_next_retry_at := Some (9 + pairing_retry_delay 1), pg_last_attempt_at := Some 9, pg_last_error := ''t'',
     pg_last_change := ''pairing_retry_scheduled''\<rparr>\<rparr>"

definition demo_cleared :: state_data where
  "demo_cleared = demo_paired\<lparr>
     da_pairing := no_pairing\<lparr>pg_phase := phase_unpaired, pg_last_attempt_at := Some 9, pg_updated_at := 9,
       pg_last_change := ''local_reset''\<rparr>,
     da_cloud := no_cloud\<lparr>cs_binding_generation := 1, cs_credential_generation := 1, cs_updated_at := 9\<rparr>\<rparr>"

definition demo_table :: "(string \<times> state_data) list" where
  "demo_table = [(''{e}'', demo_coded), (''{f}'', demo_waiting), (''{g}'', demo_paired), (''{h}'', demo_cleared)]"

definition demo_table_env :: state_env where
  "demo_table_env = demo_state_env\<lparr>
     se_marshal := (\<lambda>d. map_option fst (find (\<lambda>(t, x). x = d) demo_table)),
     se_indent := (\<lambda>d. map_option fst (find (\<lambda>(t, x). x = d) demo_table)),
     se_decode := (\<lambda>t d. case map_of (demo_table @ map (\<lambda>(t, x). (t @ [char_of (10 :: nat)], x)) demo_table) t of
        Some d' \<Rightarrow> (d', True) | None \<Rightarrow> (d, False))\<rparr>"

lemma demo_table_differs:
  "demo_coded \<noteq> demo_waiting" "demo_coded \<noteq> demo_paired" "demo_coded \<noteq> demo_cleared" "demo_waiting \<noteq> demo_paired"
  "demo_waiting \<noteq> demo_cleared" "demo_paired \<noteq> demo_cleared"
proof -
  have "identity_of demo_coded = ''n''" "identity_of demo_waiting = ''n''" "identity_of demo_paired = ''i''"
    "identity_of demo_cleared = ''i''" "pg_retry_count (da_pairing demo_coded) = 0" "pg_retry_count (da_pairing demo_waiting) = 1"
    "cs_ingest_api_key (da_cloud demo_paired) = ''k''" "cs_ingest_api_key (da_cloud demo_cleared) = []"
    by (simp_all add: demo_coded_def demo_waiting_def demo_paired_def demo_cleared_def demo_rotated_def demo_opened_def
        stamp_def demo_migrated_def no_pairing_def no_cloud_def)
  then show "demo_coded \<noteq> demo_waiting" "demo_coded \<noteq> demo_paired" "demo_coded \<noteq> demo_cleared" "demo_waiting \<noteq> demo_paired"
    "demo_waiting \<noteq> demo_cleared" "demo_paired \<noteq> demo_cleared" by auto
qed

lemma demo_table_env_ok: "state_env_ok demo_table_env"
  using demo_table_differs
  by (auto simp: state_env_ok_def demo_table_env_def demo_state_env_def demo_table_def scrub_id ascii_only_def
      char_of_def split: if_splits option.splits)

lemma demo_table_marshal:
  "se_marshal demo_table_env demo_coded = Some ''{e}''" "se_indent demo_table_env demo_waiting = Some ''{f}''"
  "se_marshal demo_table_env demo_paired = Some ''{g}''" "se_indent demo_table_env demo_cleared = Some ''{h}''"
  "se_decode demo_table_env ''{e}'' d = (demo_coded, True)" "se_decode demo_table_env ''{g}'' d = (demo_paired, True)"
  using demo_table_differs by (auto simp: demo_table_env_def demo_table_def)

lemma demo_delay: "pairing_retry_delay 1 = 4 * second"
  by (simp add: pairing_retry_delay_def max_retry_delay_def duration_defs)

definition demo_waiting_store :: state_store where
  "demo_waiting_store = demo_opened_store\<lparr>sv_data := demo_waiting, sv_file := Some (''{f}'' @ [char_of (10 :: nat)])\<rparr>"

lemma demo_wait_update:
  "update_store demo_table_env demo_state_io (retry_scheduled phase_code_entered 1 (9 + pairing_retry_delay 1) ''t''
     ''pairing_retry_scheduled'' 9) demo_coded_store = (Inr (), demo_waiting_store)"
proof -
  have n: "stamp 7 (normalize_generations demo_table_env demo_coded (retry_scheduled phase_code_entered 1
      (9 + pairing_retry_delay 1) ''t'' ''pairing_retry_scheduled'' 9 demo_coded)) = demo_waiting"
    by (simp add: normalize_generations_def normalize_credential_def credential_fingerprint_def retry_scheduled_def
        set_pairing_def demo_waiting_def demo_coded_def demo_rotated_def demo_opened_def stamp_def demo_migrated_def
        no_cloud_def no_pairing_def Let_def binding_text_def)
  show ?thesis
    by (simp add: update_store_def clone_data_def demo_table_marshal commit_state_def write_state_def
        demo_state_io_def n demo_coded_store_def demo_waiting_store_def)
qed


lemma demo_backs_off:
  "\<exists>m' :: demo_manager. process_pairing (demo_pairing_env demo_table_env) (demo_manager demo_coded_store demo_db1) = (Inr (), m')"
proof -
  have trim: "trim_space ''CODE1234'' = ''CODE1234''" by (rule trim_space_visible) simp
  have p: "da_pairing demo_coded = no_pairing\<lparr>pg_phase := phase_code_entered, pg_pairing_code := ''CODE1234'',
      pg_updated_at := 9, pg_last_change := ''pairing_code_entered''\<rparr>" by (simp add: demo_coded_def)
  show ?thesis
    using demo_wait_update
    by (simp add: process_pairing_def exchange_bootstrap_def demo_pairing_env_def demo_manager_def demo_coded_store_def
        p can_attempt_def trim demo_client_def handle_attempt_error_def demo_failing_def is_retryable_def transient_def
        sanitize_error_def client_error_text_def pairing_failure_change_def update_and_tell_def update_state_of_def
        tell_def no_pairing_def)
qed

theorem pairing_backs_off_witness:
  "\<exists>(m' :: demo_manager) t. process_pairing (demo_pairing_env demo_table_env) (demo_manager demo_coded_store demo_db1) = (Inr (), m') \<and>
     pg_next_retry_at (da_pairing (snapshot_of m')) = Some t \<and> 9 + 4 * second \<le> t \<and> t \<le> 9 + 2 * minute"
proof -
  obtain m' :: demo_manager where run: "process_pairing (demo_pairing_env demo_table_env)
      (demo_manager demo_coded_store demo_db1) = (Inr (), m')" using demo_backs_off by blast
  have trim: "trim_space ''CODE1234'' = ''CODE1234''" by (rule trim_space_visible) simp
  have p: "da_pairing demo_coded = no_pairing\<lparr>pg_phase := phase_code_entered, pg_pairing_code := ''CODE1234'',
      pg_updated_at := 9, pg_last_change := ''pairing_code_entered''\<rparr>" by (simp add: demo_coded_def)
  let ?m = "demo_manager demo_coded_store demo_db1" and ?pe = "demo_pairing_env demo_table_env"
  have d: "snapshot_of ?m = demo_coded" by (simp add: demo_manager_def demo_coded_store_def)
  have 1: "state_env_ok (pe_state ?pe)" "pairing_wf (snapshot_of ?m)"
      "pg_phase (da_pairing (snapshot_of ?m)) = phase_code_entered" "may_ask ?pe demo_client (snapshot_of ?m)"
      "trim_space (pg_pairing_code (da_pairing (snapshot_of ?m))) \<noteq> []"
      "pc_exchange demo_client (trim_space (pg_pairing_code (da_pairing (snapshot_of ?m)))) = Inl demo_failing"
      "is_retryable demo_failing"
    unfolding d using demo_table_env_ok
    by (simp_all add: demo_pairing_env_def pairing_wf_def p no_pairing_def is_valid_phase_def may_ask_def
        can_attempt_def trim demo_client_def demo_failing_def is_retryable_def transient_def)
  have "pe_now ?pe 2 = 9" by (simp add: demo_pairing_env_def)
  with pairing_backs_off [OF 1 run] run show ?thesis by auto
qed

definition demo_paired_store :: state_store where
  "demo_paired_store = demo_opened_store\<lparr>sv_data := demo_paired, sv_file := Some (''{g}'' @ [char_of (10 :: nat)])\<rparr>"

lemma demo_clear_update:
  "update_store demo_table_env demo_state_io (lifecycle_cleared LocalReset [] True 9) demo_paired_store =
     (Inr (), demo_opened_store\<lparr>sv_data := demo_cleared, sv_file := Some (''{h}'' @ [char_of (10 :: nat)])\<rparr>)"
proof -
  have n: "stamp 7 (normalize_generations demo_table_env demo_paired (lifecycle_cleared LocalReset [] True 9 demo_paired)) = demo_cleared"
    by (simp add: normalize_generations_def normalize_credential_def credential_fingerprint_def lifecycle_cleared_def
        set_cloud_state_def set_pairing_def demo_cleared_def demo_paired_def demo_opened_def stamp_def demo_migrated_def
        no_cloud_def no_pairing_def is_local_change_def Let_def)
  show ?thesis
    by (simp add: update_store_def clone_data_def demo_table_marshal commit_state_def write_state_def
        demo_state_io_def n demo_paired_store_def)
qed

theorem pairing_clears_credentials_witness:
  "\<exists>d. reads_as demo_table_env (Some (''{h}'' @ [char_of (10 :: nat)])) d \<and> cs_ingest_api_key (da_cloud d) = [] \<and>
     cs_ingest_api_key (da_cloud demo_paired) = ''k''"
proof -
  let ?pe = "demo_pairing_env demo_table_env"
  have bound: "il_bound (da_installation demo_paired)" by (simp add: demo_paired_def demo_opened_def stamp_def demo_migrated_def)
  obtain m' where m': "apply_lifecycle_change ?pe LocalReset [] True (demo_manager demo_paired_store demo_db1) = (Inr (), m')"
    and s: "ho_state (mn_host m') = demo_opened_store\<lparr>sv_data := demo_cleared, sv_file := Some (''{h}'' @ [char_of (10 :: nat)])\<rparr>"
    using demo_clear_update
    by (simp add: apply_lifecycle_change_def is_change_valid_def rotate_first_def demo_manager_def demo_pairing_env_def
        update_and_tell_def update_state_of_def tell_def sanitize_text_def is_local_change_def Let_def)
  have "state_env_ok (pe_state ?pe)" using demo_table_env_ok by (simp add: demo_pairing_env_def)
  from pairing_clears_credentials [OF this m'] s show ?thesis
    by (auto simp: demo_pairing_env_def demo_paired_def)
qed

end
