(* ===== verification/MeshFrames.thy ===== *)
theory MeshFrames
  imports GoPrelude
begin

text \<open>
  The physical serial framing of a MeshCore Companion (\<open>internal/meshcore/framing.go\<close>) and the byte
  encodings the MeshCore protocol uses: little-endian integers, two's complement and hexadecimal text.

  An \<open>io.Reader\<close> is the bytes it delivers before it ends or fails; \<open>io.ReadFull\<close> succeeds on it exactly
  when enough bytes are left. An \<open>io.Writer\<close> is what its successive \<open>Write\<close> calls answer.
\<close>

type_synonym bytes = "8 word list"

section \<open>Little-endian integers and hexadecimal text\<close>

fun le_bytes :: "nat \<Rightarrow> nat \<Rightarrow> bytes" where
  "le_bytes 0 v = []"
| "le_bytes (Suc n) v = word_of_nat v # le_bytes n (v div 256)"

fun le_value :: "bytes \<Rightarrow> nat" where
  "le_value [] = 0"
| "le_value (b # bs) = unat b + 256 * le_value bs"

definition int32_le :: "bytes \<Rightarrow> 32 word" where
  "int32_le bs = word_of_nat (le_value (take 4 bs))"

lemma length_le_bytes [simp]: "length (le_bytes n v) = n"
  by (induction n arbitrary: v) auto

lemma unat_byte_of_nat: "unat (word_of_nat v :: 8 word) = v mod 256"
  by (simp add: unat_of_nat)

lemma unat_byte_less [simp]: "unat (b :: 8 word) < 256"
  using unsigned_less [of b, where 'a = nat] by simp

lemma le_value_bytes: "le_value (le_bytes n v) = v mod 256 ^ n"
proof (induction n arbitrary: v)
  case (Suc n)
  then show ?case by (simp add: unat_byte_of_nat mod_mult2_eq)
qed simp

lemma le_value_bytes_exact: "v < 256 ^ n \<Longrightarrow> le_value (le_bytes n v) = v"
  by (simp add: le_value_bytes)

lemma le_value_less: "le_value bs < 256 ^ length bs"
proof (induction bs)
  case (Cons b bs)
  have "unat b + 256 * le_value bs < 256 * (le_value bs + 1)" by (simp add: algebra_simps)
  also have "\<dots> \<le> 256 * 256 ^ length bs" using Cons by (intro mult_le_mono) auto
  finally show ?case by simp
qed simp

lemma le_bytes_value: "le_bytes (length bs) (le_value bs) = bs"
proof (induction bs)
  case (Cons b bs)
  have "(word_of_nat (unat b + 256 * le_value bs) :: 8 word) = b"
  proof -
    have "unat (word_of_nat (unat b + 256 * le_value bs) :: 8 word) = unat b"
      by (simp add: unat_byte_of_nat del: of_nat_add of_nat_mult)
    then show ?thesis by (simp only: unsigned_word_eqI)
  qed
  moreover have "(unat b + 256 * le_value bs) div 256 = le_value bs" by simp
  ultimately show ?case using Cons by simp
qed simp

text \<open>\<open>hex.EncodeToString\<close>.\<close>

definition hex_char :: "nat \<Rightarrow> char" where
  "hex_char n = (if n < 10 then char_of (48 + n) else char_of (87 + n))"

definition hex_bytes :: "bytes \<Rightarrow> string" where
  "hex_bytes bs = concat (map (\<lambda>b. [hex_char (unat b div 16), hex_char (unat b mod 16)]) bs)"

text \<open>\<open>hex.DecodeString\<close>: digits of either case, an even number of them.\<close>

definition hex_value :: "char \<Rightarrow> nat option" where
  "hex_value c =
     (let n = of_char c in
      if 48 \<le> n \<and> n \<le> 57 then Some (n - 48)
      else if 97 \<le> n \<and> n \<le> 102 then Some (n - 87)
      else if 65 \<le> n \<and> n \<le> 70 then Some (n - 55) else None)"

fun hex_decode :: "string \<Rightarrow> bytes option" where
  "hex_decode [] = Some []"
| "hex_decode [c] = None"
| "hex_decode (c # d # s) =
     (case (hex_value c, hex_value d) of
        (Some m, Some n) \<Rightarrow> map_option (\<lambda>bs. word_of_nat (16 * m + n) # bs) (hex_decode s)
      | _ \<Rightarrow> None)"

lemma hex_value_char: "n < 16 \<Longrightarrow> hex_value (hex_char n) = Some n"
  by (auto simp: hex_value_def hex_char_def Let_def)

lemma hex_decode_bytes [simp]: "hex_decode (hex_bytes bs) = Some bs"
proof (induction bs)
  case (Cons b bs)
  have "unat b div 16 < 16" "unat b mod 16 < 16" using unat_byte_less [of b] by (auto simp del: unat_byte_less)
  moreover have "16 * (unat b div 16) + unat b mod 16 = unat b" by simp
  ultimately show ?case using Cons by (simp add: hex_bytes_def hex_value_char)
qed (simp add: hex_bytes_def)

lemma length_hex_bytes [simp]: "length (hex_bytes bs) = 2 * length bs"
  by (induction bs) (auto simp: hex_bytes_def)

lemma hex_bytes_inject: "hex_bytes a = hex_bytes b \<longleftrightarrow> a = b"
  by (metis hex_decode_bytes option.inject)

section \<open>Frames\<close>

datatype frame_error =
  UnexpectedFrameMarker "8 word"
| InvalidFrameLength
| OversizedFrame nat
| TruncatedHeader
| TruncatedPayload

definition max_payload_size :: nat where "max_payload_size = 176"
definition outbound_marker :: "8 word" where "outbound_marker = 60"
definition inbound_marker :: "8 word" where "inbound_marker = 62"

definition read_full :: "nat \<Rightarrow> bytes \<Rightarrow> (bytes \<times> bytes) option" where
  "read_full n s = (if n \<le> length s then Some (take n s, drop n s) else None)"

definition read_frame :: "bytes \<Rightarrow> frame_error + (bytes \<times> bytes)" where
  "read_frame s =
     res_bind (of_option TruncatedHeader (read_full 3 s)) (\<lambda>(header, rest).
     res_bind (ensure (header ! 0 = inbound_marker) (UnexpectedFrameMarker (header ! 0))) (\<lambda>_.
     let n = le_value (take 2 (drop 1 header)) in
     res_bind (ensure (n \<noteq> 0) InvalidFrameLength) (\<lambda>_.
     res_bind (ensure (n \<le> max_payload_size) (OversizedFrame n)) (\<lambda>_.
     of_option TruncatedPayload (read_full n rest)))))"

text \<open>The answers of \<open>Write\<close>: how many bytes it took, and whether it failed. Slicing with a count that
  the contract of \<open>io.Writer\<close> excludes panics.\<close>

datatype write_error = WriteFailed | ShortWrite | SliceOutOfRange | WriteRefused frame_error

type_synonym writer = "nat \<Rightarrow> int \<times> bool"

function write_all :: "writer \<Rightarrow> nat \<Rightarrow> bytes \<Rightarrow> bytes \<times> (write_error + unit)" where
  "write_all w k s =
     (if s = [] then ([], Inr ())
      else
        let (written, failed) = w k; n = nat written in
        if failed then (take n s, Inl WriteFailed)
        else if written \<le> 0 then ([], Inl ShortWrite)
        else if length s < n then (s, Inl SliceOutOfRange)
        else let (sent, r) = write_all w (Suc k) (drop n s) in (take n s @ sent, r))"
  by pat_completeness auto
termination by (relation "measure (\<lambda>(w, k, s). length s)") auto

declare write_all.simps [simp del]

definition frame_bytes :: "8 word \<Rightarrow> bytes \<Rightarrow> bytes" where
  "frame_bytes marker payload = marker # le_bytes 2 (length payload) @ payload"

text \<open>\<open>WriteFrame\<close>: the bytes that reach the wire and the outcome.\<close>

definition write_frame :: "writer \<Rightarrow> bytes \<Rightarrow> bytes \<times> (write_error + unit)" where
  "write_frame w payload =
     (if payload = [] then ([], Inl (WriteRefused InvalidFrameLength))
      else if max_payload_size < length payload
      then ([], Inl (WriteRefused (OversizedFrame (length payload))))
      else write_all w 0 (frame_bytes outbound_marker payload))"

text \<open>What a session reads: frames until the stream ends or is damaged, which closes it. Each frame
  takes at least four bytes, so the length of the stream is enough fuel.\<close>

fun read_frames_fuel :: "nat \<Rightarrow> bytes \<Rightarrow> bytes list \<times> frame_error" where
  "read_frames_fuel 0 s = ([], TruncatedHeader)"
| "read_frames_fuel (Suc n) s =
     (case read_frame s of
        Inl e \<Rightarrow> ([], e)
      | Inr (p, rest) \<Rightarrow> let (ps, e) = read_frames_fuel n rest in (p # ps, e))"

definition read_frames :: "bytes \<Rightarrow> bytes list \<times> frame_error" where
  "read_frames s = read_frames_fuel (Suc (length s)) s"

section \<open>Frames: lemmas\<close>

definition payload_ok :: "bytes \<Rightarrow> bool" where
  "payload_ok p = (p \<noteq> [] \<and> length p \<le> max_payload_size)"

lemma length_frame_bytes [simp]: "length (frame_bytes m p) = 3 + length p"
  by (simp add: frame_bytes_def)

lemma read_frame_bytes:
  assumes "payload_ok p"
  shows "read_frame (frame_bytes inbound_marker p @ rest) = Inr (p, rest)"
proof -
  have "length p < 256 ^ 2" using assms by (simp add: payload_ok_def max_payload_size_def)
  then have v: "le_value (le_bytes 2 (length p)) = length p" by (rule le_value_bytes_exact)
  have n: "le_bytes 2 v = [word_of_nat v, word_of_nat (v div 256)]" for v
    by (simp add: numeral_2_eq_2)
  from v show ?thesis
    using assms unfolding payload_ok_def n
    by (simp add: read_frame_def frame_bytes_def read_full_def n)
qed

lemma read_frame_inverse:
  assumes "read_frame s = Inr (p, rest)"
  shows "payload_ok p" "s = frame_bytes inbound_marker p @ rest"
proof -
  from assms have len: "3 \<le> length s" by (auto simp: read_frame_def read_full_def res_simps split: if_splits)
  then obtain a b c t where s: "s = a # b # c # t"
    by (metis Suc_le_length_iff numeral_3_eq_3)
  from assms have g: "a = inbound_marker" "le_value [b, c] \<noteq> 0" "le_value [b, c] \<le> max_payload_size"
    "le_value [b, c] \<le> length t" "p = take (le_value [b, c]) t" "rest = drop (le_value [b, c]) t"
    by (auto simp: read_frame_def read_full_def s res_simps Let_def split: if_splits)
  from g have "length p = le_value [b, c]" by simp
  with g show "payload_ok p" by (auto simp: payload_ok_def)
  have "le_bytes 2 (length p) = [b, c]"
    using le_bytes_value [of "[b, c]"] \<open>length p = le_value [b, c]\<close> by (simp add: numeral_2_eq_2)
  with g show "s = frame_bytes inbound_marker p @ rest"
    by (simp add: frame_bytes_def s)
qed

lemma read_frame_rest: "read_frame s = Inr (p, rest) \<Longrightarrow> length rest < length s"
  by (drule read_frame_inverse(2)) simp

lemma read_frames_fuel_enough:
  "length s < n \<Longrightarrow> length s < m \<Longrightarrow> read_frames_fuel n s = read_frames_fuel m s"
proof (induction n arbitrary: m s)
  case (Suc n)
  then obtain k where m: "m = Suc k" by (cases m) auto
  show ?case
  proof (cases "read_frame s")
    case (Inr r)
    obtain p rest where r: "r = (p, rest)" by (cases r)
    have "length rest < length s" using Inr r read_frame_rest by auto
    then have "read_frames_fuel n rest = read_frames_fuel k rest"
      using Suc.prems m by (intro Suc.IH) auto
    then show ?thesis by (simp add: m Inr r)
  qed (simp add: m)
qed simp

lemma read_frames_step:
  "read_frames s =
     (case read_frame s of
        Inl e \<Rightarrow> ([], e)
      | Inr (p, rest) \<Rightarrow> let (ps, e) = read_frames rest in (p # ps, e))"
proof (cases "read_frame s")
  case (Inr r)
  obtain p rest where r: "r = (p, rest)" by (cases r)
  have "read_frames_fuel (length s) rest = read_frames_fuel (Suc (length rest)) rest"
    using Inr r read_frame_rest by (intro read_frames_fuel_enough) auto
  then show ?thesis by (simp add: read_frames_def Inr r)
qed (simp add: read_frames_def)

definition frame_stream :: "bytes list \<Rightarrow> bytes" where
  "frame_stream ps = concat (map (frame_bytes inbound_marker) ps)"

lemma read_frames_stream:
  "\<forall>p \<in> set ps. payload_ok p \<Longrightarrow>
   read_frames (frame_stream ps @ rest) = (ps @ fst (read_frames rest), snd (read_frames rest))"
proof (induction ps)
  case (Cons p ps)
  have "read_frame (frame_stream (p # ps) @ rest) = Inr (p, frame_stream ps @ rest)"
    using Cons.prems by (simp add: frame_stream_def read_frame_bytes)
  then show ?case
    using Cons by (subst read_frames_step) (simp split: prod.splits)
qed (simp add: frame_stream_def)

lemma read_frames_exact:
  "read_frames s = (ps, e) \<longleftrightarrow>
   (\<exists>rest. s = frame_stream ps @ rest \<and> (\<forall>p \<in> set ps. payload_ok p) \<and> read_frame rest = Inl e)"
  (is "?l \<longleftrightarrow> ?r")
proof
  assume ?l
  then show ?r
  proof (induction "length s" arbitrary: s ps rule: less_induct)
    case less
    show ?case
    proof (cases "read_frame s")
      case (Inl x)
      with less.prems have "ps = []" "x = e" by (simp_all add: read_frames_step [of s])
      with Inl show ?thesis by (simp add: frame_stream_def)
    next
      case (Inr r)
      obtain p rest where r: "r = (p, rest)" by (cases r)
      obtain qs where q: "read_frames rest = (qs, e)" "ps = p # qs"
        using less.prems Inr r by (auto simp: read_frames_step [of s] split: prod.splits)
      then obtain t where "rest = frame_stream qs @ t" "\<forall>p \<in> set qs. payload_ok p" "read_frame t = Inl e"
        using less.hyps [OF read_frame_rest] Inr r by blast
      then show ?thesis
        using read_frame_inverse [OF Inr [unfolded r]] q by (auto simp: frame_stream_def)
    qed
  qed
next
  assume ?r
  then obtain rest where "s = frame_stream ps @ rest" "\<forall>p \<in> set ps. payload_ok p" "read_frame rest = Inl e"
    by blast
  then show ?l by (simp add: read_frames_stream read_frames_step [of rest])
qed

lemma write_all_wire:
  "write_all w k s = (wire, r) \<Longrightarrow>
   (\<exists>t. s = wire @ t) \<and> (r = Inr () \<longrightarrow> wire = s)"
proof (induction w k s arbitrary: wire r rule: write_all.induct)
  case (1 w k s)
  show ?case
  proof (cases "s = []")
    case True
    with 1 show ?thesis by (simp add: write_all.simps)
  next
    case False
    obtain n f where w: "w k = (n, f)" by (cases "w k")
    show ?thesis
    proof (cases "f \<or> n \<le> 0 \<or> length s < nat n")
      case True
      with 1(2) False w have "wire = take (nat n) s \<or> wire = [] \<or> wire = s" "r \<noteq> Inr ()"
        by (auto simp: write_all.simps [of w k s] Let_def split: if_splits)
      then show ?thesis by (metis append_Nil append_Nil2 append_take_drop_id)
    next
      case ok: False
      obtain sent q where q: "write_all w (Suc k) (drop (nat n) s) = (sent, q)" by fastforce
      with 1(2) False ok w have "wire = take (nat n) s @ sent" "r = q"
        by (simp_all add: write_all.simps [of w k s])
      moreover obtain t where "drop (nat n) s = sent @ t" "q = Inr () \<longrightarrow> sent = drop (nat n) s"
        using 1(1) [OF False refl _ refl _ _ _ q, of f] ok w by auto
      ultimately show ?thesis
        by (metis append_assoc append_take_drop_id)
    qed
  qed
qed

lemma write_frame_wire:
  assumes "write_frame w p = (wire, r)"
  shows "(\<exists>t. frame_bytes outbound_marker p = wire @ t)
    \<and> (r = Inr () \<longrightarrow> payload_ok p \<and> wire = frame_bytes outbound_marker p)"
proof -
  consider "\<not> payload_ok p" | "payload_ok p" "write_all w 0 (frame_bytes outbound_marker p) = (wire, r)"
    using assms by (auto simp: write_frame_def payload_ok_def split: if_splits)
  then show ?thesis
  proof cases
    case 1
    then show ?thesis using assms by (auto simp: write_frame_def payload_ok_def split: if_splits)
  next
    case 2
    then show ?thesis using write_all_wire [OF 2(2)] by blast
  qed
qed

end
