(* ===== verification/MeshSession.thy ===== *)
theory MeshSession
  imports MeshFrames
begin

text \<open>
  The handshake and trust state of a MeshCore Companion session (\<open>internal/meshcore/session.go\<close>). A
  session is a record and \<open>Handle\<close> a function of it; strings are bytes, so the fields of the fixed
  frames are cut at the first zero byte and trimmed as the code does.
\<close>

section \<open>Data\<close>

definition protocol_version :: "8 word" where "protocol_version = 13"
definition protocol_version_v14 :: "8 word" where "protocol_version_v14 = 14"
definition command_app_start :: "8 word" where "command_app_start = 1"
definition command_device_query :: "8 word" where "command_device_query = 0x16"
definition response_ok :: "8 word" where "response_ok = 0"
definition response_error :: "8 word" where "response_error = 1"
definition response_contacts_start :: "8 word" where "response_contacts_start = 2"
definition response_contact :: "8 word" where "response_contact = 3"
definition response_contacts_end :: "8 word" where "response_contacts_end = 4"
definition response_self_info :: "8 word" where "response_self_info = 5"
definition response_sent :: "8 word" where "response_sent = 6"
definition response_device_info :: "8 word" where "response_device_info = 13"
definition push_path_updated :: "8 word" where "push_path_updated = 0x81"
definition push_raw_data :: "8 word" where "push_raw_data = 0x84"
definition push_log_rx_data :: "8 word" where "push_log_rx_data = 0x88"
definition push_new_advert :: "8 word" where "push_new_advert = 0x8A"
definition push_telemetry_response :: "8 word" where "push_telemetry_response = 0x8B"
definition push_binary_response :: "8 word" where "push_binary_response = 0x8C"
definition push_control_data :: "8 word" where "push_control_data = 0x8E"
definition device_info_length :: nat where "device_info_length = 82"
definition self_info_min_length :: nat where "self_info_min_length = 58"
definition new_advert_length :: nat where "new_advert_length = 148"
definition public_key_length :: nat where "public_key_length = 32"

lemmas opcode_defs = response_ok_def response_error_def response_contacts_start_def
  response_contact_def response_contacts_end_def response_self_info_def response_sent_def
  response_device_info_def push_path_updated_def push_raw_data_def push_log_rx_data_def
  push_new_advert_def push_telemetry_response_def push_binary_response_def push_control_data_def

record firmware_profile =
  fp_protocol :: "8 word"
  fp_build :: string
  fp_version :: string
  fp_commit :: string

record device_info =
  di_protocol :: "8 word"
  di_max_contacts_half :: "8 word"
  di_max_channels :: "8 word"
  di_ble_pin :: "32 word"
  di_build :: string
  di_model :: string
  di_version :: string
  di_repeater :: bool
  di_path_hash_mode :: "8 word"

text \<open>Signed fields keep their bits; \<open>sint\<close> reads them.\<close>

record self_info =
  si_advert_type :: "8 word"
  si_tx_power :: "8 word"
  si_max_tx_power :: "8 word"
  si_public_key :: bytes
  si_latitude :: "32 word"
  si_longitude :: "32 word"
  si_multi_acks :: "8 word"
  si_advert_loc_policy :: "8 word"
  si_telemetry_mode :: "8 word"
  si_manual_add :: "8 word"
  si_frequency :: "32 word"
  si_bandwidth :: "32 word"
  si_spreading_factor :: "8 word"
  si_coding_rate :: "8 word"
  si_node_name :: string

datatype session_error =
  SessionNotStarted
| SessionFailedError
| UnexpectedHandshakeFrame "8 word option"
| UnsupportedProtocol "8 word"
| InvalidDeviceInfo nat
| InvalidSelfInfo nat
| UnsupportedPush "8 word"
| InvalidPush "8 word option" nat
| SessionOversizedFrame nat

datatype trust_reason =
  ReasonDisconnected
| ReasonAwaiting
| ReasonRenegotiate
| ReasonMismatch string string string
| ReasonMatched
| ReasonDelegated
| ReasonRawOnly
| ReasonRawCapture
| ReasonError session_error

record trust_profile =
  tp_trusted :: bool
  tp_compatible :: bool
  tp_matched :: bool
  tp_protocol :: "8 word"
  tp_build :: string
  tp_version :: string
  tp_model :: string
  tp_commit :: string
  tp_attested :: bool
  tp_transport :: string
  tp_delegated :: bool
  tp_reason :: trust_reason

record transport_metadata =
  tm_kind :: string
  tm_delegated :: bool
  tm_peer :: string

datatype session_state = Disconnected | AwaitDeviceInfo | AwaitSelfInfo | Ready | Failed

record companion_session =
  cs_app :: string
  cs_state :: session_state
  cs_device :: "device_info option"
  cs_self :: "self_info option"
  cs_trust :: trust_profile
  cs_transport :: transport_metadata

text \<open>What \<open>Handle\<close> returns: bytes to send, a push or a response of the device, and readiness. Push
  and response frames carry the whole payload; their code is its first byte.\<close>

record handle_result =
  hr_outbound :: bytes
  hr_push :: "bytes option"
  hr_response :: "bytes option"
  hr_ready :: bool

definition no_result :: handle_result where
  "no_result = \<lparr> hr_outbound = [], hr_push = None, hr_response = None, hr_ready = False \<rparr>"

section \<open>The allow-list\<close>

definition trusted_profiles :: "firmware_profile list" where
  "trusted_profiles =
     [\<lparr> fp_protocol = protocol_version, fp_build = ''14 Aug 2026'', fp_version = ''v1.17.1'',
        fp_commit = ''d92964352441e53b93e8667b802e04f6e072b39e'' \<rparr>,
      \<lparr> fp_protocol = protocol_version_v14, fp_build = ''15 Oct 2026'', fp_version = ''v1.18.0'',
        fp_commit = ''81dbae592ffad40b4212bc0b37e82b38da08f4bc'' \<rparr>]"

definition profile_for_device :: "device_info \<Rightarrow> firmware_profile option" where
  "profile_for_device d =
     (if trim_space (di_model d) = [] then None
      else find (\<lambda>p. di_protocol d = fp_protocol p \<and> di_build d = fp_build p
                   \<and> di_version d = fp_version p) trusted_profiles)"

definition profile_for_trust :: "trust_profile \<Rightarrow> firmware_profile option" where
  "profile_for_trust t =
     (if trim_space (tp_model t) = [] then None
      else find (\<lambda>p. tp_protocol t = fp_protocol p \<and> tp_build t = fp_build p
                   \<and> tp_version t = fp_version p \<and> tp_commit t = fp_commit p) trusted_profiles)"

section \<open>Parsing the handshake frames\<close>

definition byte_string :: "bytes \<Rightarrow> string" where
  "byte_string bs = map (\<lambda>b. char_of (unat b)) bs"

definition string_bytes :: "string \<Rightarrow> bytes" where
  "string_bytes s = map (\<lambda>c. word_of_nat (of_char c)) s"

definition fixed_string :: "bytes \<Rightarrow> string" where
  "fixed_string bs = trim_space (byte_string (takeWhile (\<lambda>b. b \<noteq> 0) bs))"

definition slice :: "nat \<Rightarrow> nat \<Rightarrow> 'a list \<Rightarrow> 'a list" where
  "slice a b xs = take (b - a) (drop a xs)"

definition parse_device_info :: "bytes \<Rightarrow> session_error + device_info" where
  "parse_device_info p =
     (if length p \<noteq> device_info_length then Inl (InvalidDeviceInfo (length p))
      else Inr
        \<lparr> di_protocol = p ! 1, di_max_contacts_half = p ! 2, di_max_channels = p ! 3,
          di_ble_pin = int32_le (slice 4 8 p),
          di_build = fixed_string (slice 8 20 p), di_model = fixed_string (slice 20 60 p),
          di_version = fixed_string (slice 60 80 p),
          di_repeater = (p ! 80 \<noteq> 0), di_path_hash_mode = p ! 81 \<rparr>)"

definition parse_self_info :: "bytes \<Rightarrow> session_error + self_info" where
  "parse_self_info p =
     (if length p < self_info_min_length then Inl (InvalidSelfInfo (length p))
      else Inr
        \<lparr> si_advert_type = p ! 1, si_tx_power = p ! 2, si_max_tx_power = p ! 3,
          si_public_key = slice 4 36 p,
          si_latitude = int32_le (slice 36 40 p), si_longitude = int32_le (slice 40 44 p),
          si_multi_acks = p ! 44, si_advert_loc_policy = p ! 45, si_telemetry_mode = p ! 46,
          si_manual_add = p ! 47, si_frequency = int32_le (slice 48 52 p),
          si_bandwidth = int32_le (slice 52 56 p), si_spreading_factor = p ! 56,
          si_coding_rate = p ! 57, si_node_name = fixed_string (drop 58 p) \<rparr>)"

definition build_app_start :: "string \<Rightarrow> bytes" where
  "build_app_start name =
     [command_app_start, protocol_version, 0, 0, 0, 0, 0, 0] @ string_bytes (trim_space name)"

section \<open>Validation of frames\<close>

definition validate_captured_push :: "bytes \<Rightarrow> session_error + unit" where
  "validate_captured_push p =
     res_bind (ensure (p \<noteq> []) (InvalidPush None 0)) (\<lambda>_.
     ensure (length p \<le> max_payload_size) (SessionOversizedFrame (length p)))"

definition validate_command_response :: "bytes \<Rightarrow> session_error + unit" where
  "validate_command_response p =
     res_bind (ensure (p \<noteq> []) (InvalidPush None 0)) (\<lambda>_.
     let c = p ! 0; bad = InvalidPush (Some c) (length p) in
     res_bind (ensure (\<not> (c = response_sent \<and> length p < 10)) bad) (\<lambda>_.
     res_bind (ensure (\<not> (c = response_contact \<and> length p \<noteq> new_advert_length)) bad) (\<lambda>_.
     ensure (\<not> ((c = response_contacts_start \<or> c = response_contacts_end) \<and> length p \<noteq> 5)) bad)))"

definition validate_telemetry_response :: "bytes \<Rightarrow> session_error + unit" where
  "validate_telemetry_response p =
     ensure (8 \<le> length p) (InvalidPush (Some push_telemetry_response) (length p))"

definition validate_binary_response :: "bytes \<Rightarrow> session_error + unit" where
  "validate_binary_response p =
     ensure (6 \<le> length p) (InvalidPush (Some push_binary_response) (length p))"

definition validate_push :: "bytes \<Rightarrow> session_error + unit" where
  "validate_push p =
     res_bind (validate_captured_push p) (\<lambda>_.
     let c = p ! 0; bad = InvalidPush (Some c) (length p) in
     if c = push_path_updated then ensure (1 + public_key_length \<le> length p) bad
     else if c = push_raw_data then ensure (4 \<le> length p) bad
     else if c = push_log_rx_data then ensure (3 \<le> length p) bad
     else if c = push_new_advert then ensure (length p = new_advert_length) bad
     else if c = push_control_data then ensure (4 \<le> length p) bad
     else Inl (UnsupportedPush c))"

definition is_supported_protocol :: "8 word \<Rightarrow> bool" where
  "is_supported_protocol v = (v = protocol_version \<or> v = protocol_version_v14)"

definition command_response_codes :: "8 word set" where
  "command_response_codes = {response_ok, response_error, response_contacts_start,
     response_contact, response_contacts_end, response_sent}"

section \<open>The session\<close>

definition blank_trust :: "transport_metadata \<Rightarrow> 8 word \<Rightarrow> trust_reason \<Rightarrow> trust_profile" where
  "blank_trust m v r =
     \<lparr> tp_trusted = False, tp_compatible = False, tp_matched = False, tp_protocol = v,
       tp_build = [], tp_version = [], tp_model = [], tp_commit = [], tp_attested = False,
       tp_transport = tm_kind m, tp_delegated = tm_delegated m, tp_reason = r \<rparr>"

definition new_session :: "string \<Rightarrow> transport_metadata \<Rightarrow> companion_session" where
  "new_session app m =
     (let m = (if trim_space (tm_kind m) = [] then m\<lparr> tm_kind := ''physical_serial'' \<rparr> else m)
      in \<lparr> cs_app = trim_space app, cs_state = Disconnected, cs_device = None, cs_self = None,
           cs_trust = blank_trust m 0 ReasonDisconnected, cs_transport = m \<rparr>)"

definition begin_session :: "companion_session \<Rightarrow> companion_session \<times> bytes" where
  "begin_session s =
     (s\<lparr> cs_state := AwaitDeviceInfo, cs_device := None, cs_self := None,
         cs_trust := blank_trust (cs_transport s) protocol_version ReasonAwaiting \<rparr>,
      [command_device_query, protocol_version])"

definition disconnect_session :: "companion_session \<Rightarrow> companion_session" where
  "disconnect_session s =
     s\<lparr> cs_state := Disconnected,
        cs_trust := (cs_trust s)\<lparr> tp_trusted := False, tp_attested := False, tp_reason := ReasonRenegotiate \<rparr> \<rparr>"

definition fail_session ::
  "session_error \<Rightarrow> companion_session \<Rightarrow> companion_session \<times> (session_error + handle_result)" where
  "fail_session e s =
     (s\<lparr> cs_state := Failed,
         cs_trust := (cs_trust s)\<lparr> tp_trusted := False, tp_attested := False, tp_reason := ReasonError e \<rparr> \<rparr>,
      Inl e)"

definition accept_device :: "device_info \<Rightarrow> companion_session \<Rightarrow> companion_session" where
  "accept_device d s =
     (let matched = profile_for_device d; t = cs_trust s
      in s\<lparr> cs_device := Some d, cs_state := AwaitSelfInfo,
            cs_trust := t
              \<lparr> tp_compatible := True, tp_matched := (matched \<noteq> None), tp_protocol := di_protocol d,
                tp_build := di_build d, tp_version := di_version d, tp_model := di_model d,
                tp_commit := (case matched of None \<Rightarrow> tp_commit t | Some p \<Rightarrow> fp_commit p),
                tp_reason := (if matched = None
                              then ReasonMismatch (di_build d) (di_version d) (di_model d)
                              else ReasonMatched) \<rparr> \<rparr>)"

definition accept_self :: "self_info \<Rightarrow> companion_session \<Rightarrow> companion_session" where
  "accept_self i s =
     (let t = cs_trust s; trusted = tp_matched t
      in s\<lparr> cs_self := Some i, cs_state := Ready,
            cs_trust := t
              \<lparr> tp_trusted := trusted, tp_attested := False,
                tp_reason := (if trusted
                              then (if tp_delegated t then ReasonDelegated else ReasonRawOnly)
                              else ReasonRawCapture) \<rparr> \<rparr>)"

definition handle_ready :: "bytes \<Rightarrow> session_error + handle_result" where
  "handle_ready p =
     res_bind (validate_captured_push p) (\<lambda>_.
     if p ! 0 \<in> command_response_codes
     then res_bind (validate_command_response p) (\<lambda>_. Inr (no_result\<lparr> hr_ready := True, hr_response := Some p \<rparr>))
     else
       res_bind (if p ! 0 = push_telemetry_response then validate_telemetry_response p else Inr ()) (\<lambda>_.
       res_bind (if p ! 0 = push_binary_response then validate_binary_response p else Inr ()) (\<lambda>_.
       Inr (no_result\<lparr> hr_ready := True, hr_push := Some p \<rparr>))))"

definition handle_frame ::
  "bytes \<Rightarrow> companion_session \<Rightarrow> companion_session \<times> (session_error + handle_result)" where
  "handle_frame p s =
     (if p = [] then fail_session (UnexpectedHandshakeFrame None) s
      else case cs_state s of
        AwaitDeviceInfo \<Rightarrow>
          if p ! 0 \<noteq> response_device_info then fail_session (UnexpectedHandshakeFrame (Some (p ! 0))) s
          else (case parse_device_info p of
            Inl e \<Rightarrow> fail_session e s
          | Inr d \<Rightarrow>
              if \<not> is_supported_protocol (di_protocol d)
              then fail_session (UnsupportedProtocol (di_protocol d)) s
              else (accept_device d s, Inr (no_result\<lparr> hr_outbound := build_app_start (cs_app s) \<rparr>)))
      | AwaitSelfInfo \<Rightarrow>
          if p ! 0 \<noteq> response_self_info then fail_session (UnexpectedHandshakeFrame (Some (p ! 0))) s
          else (case parse_self_info p of
            Inl e \<Rightarrow> fail_session e s
          | Inr i \<Rightarrow> (accept_self i s, Inr (no_result\<lparr> hr_ready := True \<rparr>)))
      | Ready \<Rightarrow> (s, handle_ready p)
      | Disconnected \<Rightarrow> (s, Inl SessionNotStarted)
      | Failed \<Rightarrow> (s, Inl SessionFailedError))"

text \<open>\<open>Snapshot\<close>: the copies it hands out are values here.\<close>

record session_view =
  sn_state :: session_state
  sn_device :: "device_info option"
  sn_self :: "self_info option"
  sn_trust :: trust_profile

definition session_snapshot :: "companion_session \<Rightarrow> session_view" where
  "session_snapshot s =
     \<lparr> sn_state = cs_state s, sn_device = cs_device s, sn_self = cs_self s, sn_trust = cs_trust s \<rparr>"

section \<open>Histories of a session\<close>

datatype session_call = CallBegin | CallDisconnect | CallHandle bytes

fun session_do :: "session_call \<Rightarrow> companion_session \<Rightarrow> companion_session" where
  "session_do CallBegin s = fst (begin_session s)"
| "session_do CallDisconnect s = disconnect_session s"
| "session_do (CallHandle p) s = fst (handle_frame p s)"

fun run_session :: "session_call list \<Rightarrow> companion_session \<Rightarrow> companion_session" where
  "run_session [] s = s"
| "run_session (c # cs) s = run_session cs (session_do c s)"

lemma run_session_append: "run_session (xs @ ys) s = run_session ys (run_session xs s)"
  by (induction xs arbitrary: s) auto

text \<open>A device frame the handshake accepts, and a self frame it accepts.\<close>

definition device_frame :: "bytes \<Rightarrow> device_info \<Rightarrow> bool" where
  "device_frame p d =
     (p \<noteq> [] \<and> p ! 0 = response_device_info \<and> parse_device_info p = Inr d
      \<and> is_supported_protocol (di_protocol d))"

definition self_frame :: "bytes \<Rightarrow> self_info \<Rightarrow> bool" where
  "self_frame p i = (p \<noteq> [] \<and> p ! 0 = response_self_info \<and> parse_self_info p = Inr i)"

text \<open>The frames of the handshake, as the last calls of a history.\<close>

definition negotiated ::
  "session_call list \<Rightarrow> bytes \<Rightarrow> device_info \<Rightarrow> bytes \<Rightarrow> self_info \<Rightarrow> bool" where
  "negotiated calls pd d pi i =
     (\<exists>before after. calls = before @ [CallBegin, CallHandle pd, CallHandle pi] @ map CallHandle after
        \<and> device_frame pd d \<and> self_frame pi i \<and> [] \<notin> set after)"

definition history_inv :: "session_call list \<Rightarrow> companion_session \<Rightarrow> bool" where
  "history_inv calls s =
     (let t = cs_trust s in
      \<not> tp_attested t \<and> (tp_trusted t \<longrightarrow> cs_state s = Ready)
      \<and> (case cs_state s of
           AwaitDeviceInfo \<Rightarrow> \<exists>before. calls = before @ [CallBegin]
         | AwaitSelfInfo \<Rightarrow>
             \<exists>before pd d. calls = before @ [CallBegin, CallHandle pd] \<and> device_frame pd d
               \<and> cs_device s = Some d \<and> tp_matched t = (profile_for_device d \<noteq> None)
         | Ready \<Rightarrow>
             \<exists>pd d pi i. negotiated calls pd d pi i \<and> cs_device s = Some d \<and> cs_self s = Some i
               \<and> tp_trusted t = (profile_for_device d \<noteq> None)
         | _ \<Rightarrow> True))"

lemma history_inv_start: "history_inv [] (new_session app m)"
  by (simp add: history_inv_def new_session_def blank_trust_def Let_def)

lemma history_inv_fail: "\<not> tp_attested (cs_trust s) \<Longrightarrow> history_inv calls (fst (fail_session e s))"
  by (simp add: history_inv_def fail_session_def Let_def)

lemma negotiated_more:
  "negotiated calls pd d pi i \<Longrightarrow> p \<noteq> [] \<Longrightarrow> negotiated (calls @ [CallHandle p]) pd d pi i"
  unfolding negotiated_def
  by (elim exE conjE, rule_tac x = before in exI, rule_tac x = "after @ [p]" in exI) auto

lemma history_inv_handle:
  assumes "history_inv calls s"
  shows "history_inv (calls @ [CallHandle p]) (fst (handle_frame p s))"
proof -
  have att: "\<not> tp_attested (cs_trust s)" and tr: "cs_state s \<noteq> Ready \<longrightarrow> \<not> tp_trusted (cs_trust s)"
    using assms by (auto simp: history_inv_def Let_def)
  show ?thesis
proof (cases "p = []")
  case True
  then show ?thesis using history_inv_fail [OF att] by (simp add: handle_frame_def)
next
  case ne: False
  show ?thesis
  proof (cases "cs_state s")
    case AwaitDeviceInfo
    then obtain before where b: "calls = before @ [CallBegin]"
      using assms by (auto simp: history_inv_def Let_def)
    show ?thesis
    proof (cases "\<exists>d. device_frame p d")
      case True
      then obtain d where d: "device_frame p d" by blast
      then have "fst (handle_frame p s) = accept_device d s"
        using AwaitDeviceInfo by (simp add: handle_frame_def device_frame_def)
      then show ?thesis
        using d b att tr AwaitDeviceInfo by (simp add: history_inv_def accept_device_def Let_def)
    next
      case False
      then have "\<exists>e. fst (handle_frame p s) = fst (fail_session e s)"
        using AwaitDeviceInfo ne by (auto simp: handle_frame_def device_frame_def split: sum.splits)
      then show ?thesis using att history_inv_fail by auto
    qed
  next
    case AwaitSelfInfo
    then obtain before pd d where b: "calls = before @ [CallBegin, CallHandle pd]" "device_frame pd d"
      "cs_device s = Some d" "tp_matched (cs_trust s) = (profile_for_device d \<noteq> None)"
      using assms by (auto simp: history_inv_def Let_def)
    show ?thesis
    proof (cases "\<exists>i. self_frame p i")
      case True
      then obtain i where i: "self_frame p i" by blast
      then have "fst (handle_frame p s) = accept_self i s"
        using AwaitSelfInfo by (simp add: handle_frame_def self_frame_def)
      moreover have "negotiated (calls @ [CallHandle p]) pd d p i"
        unfolding negotiated_def using b i by (intro exI [of _ before] exI [of _ "[]"]) simp
      ultimately show ?thesis
        using b by (auto simp: history_inv_def accept_self_def Let_def)
    next
      case False
      then have "\<exists>e. fst (handle_frame p s) = fst (fail_session e s)"
        using AwaitSelfInfo ne by (auto simp: handle_frame_def self_frame_def split: sum.splits)
      then show ?thesis using att history_inv_fail by auto
    qed
  next
    case Ready
    then show ?thesis
      using assms ne negotiated_more [OF _ ne] by (fastforce simp: history_inv_def handle_frame_def Let_def)
  qed (use assms ne in \<open>simp_all add: history_inv_def handle_frame_def Let_def\<close>)
qed
qed

lemma history_inv_run: "history_inv calls (run_session calls (new_session app m))"
proof (induction calls rule: rev_induct)
  case Nil
  show ?case by (simp add: history_inv_start)
next
  case (snoc c calls)
  then show ?case
  proof (cases c)
    case CallBegin
    then show ?thesis
      by (simp add: run_session_append history_inv_def begin_session_def blank_trust_def Let_def)
  next
    case CallDisconnect
    then show ?thesis using snoc
      by (simp add: run_session_append history_inv_def disconnect_session_def Let_def)
  next
    case (CallHandle p)
    then show ?thesis using history_inv_handle [OF snoc] by (simp add: run_session_append)
  qed
qed

lemma ready_stays:
  "cs_state s = Ready \<Longrightarrow> [] \<notin> set ps \<Longrightarrow> run_session (map CallHandle ps) s = s"
  by (induction ps) (auto simp: handle_frame_def)

text \<open>A history that ends with the handshake ends in a ready session with the device's profile.\<close>

lemma negotiated_ready:
  assumes "negotiated calls pd d pi i"
  shows "cs_state (run_session calls s) = Ready" "cs_device (run_session calls s) = Some d"
    "cs_self (run_session calls s) = Some i"
    "tp_trusted (cs_trust (run_session calls s)) = (profile_for_device d \<noteq> None)"
    "profile_for_device d = Some f \<Longrightarrow> tp_commit (cs_trust (run_session calls s)) = fp_commit f"
proof -
  from assms obtain before after where
    c: "calls = before @ [CallBegin, CallHandle pd, CallHandle pi] @ map CallHandle after"
    and d: "device_frame pd d" and i: "self_frame pi i" and n: "[] \<notin> set after"
    unfolding negotiated_def by blast
  define s1 where "s1 = accept_device d (fst (begin_session (run_session before s)))"
  define s2 where "s2 = accept_self i s1"
  have "handle_frame pd (fst (begin_session (run_session before s)))
      = (s1, Inr (no_result\<lparr> hr_outbound := build_app_start (cs_app (run_session before s)) \<rparr>))"
    using d by (simp add: s1_def handle_frame_def device_frame_def begin_session_def)
  moreover have "handle_frame pi s1 = (s2, Inr (no_result\<lparr> hr_ready := True \<rparr>))"
    using i by (simp add: s2_def s1_def handle_frame_def self_frame_def accept_device_def Let_def)
  moreover have s2: "cs_state s2 = Ready" by (simp add: s2_def accept_self_def Let_def)
  ultimately have r: "run_session calls s = s2"
    using n by (simp add: c run_session_append ready_stays)
  show "cs_state (run_session calls s) = Ready" "cs_device (run_session calls s) = Some d"
    "cs_self (run_session calls s) = Some i"
    "tp_trusted (cs_trust (run_session calls s)) = (profile_for_device d \<noteq> None)"
    "profile_for_device d = Some f \<Longrightarrow> tp_commit (cs_trust (run_session calls s)) = fp_commit f"
    unfolding r by (simp_all add: s2_def accept_self_def s1_def accept_device_def Let_def)
qed

lemma trusted_negotiated:
  assumes "tp_trusted (cs_trust (run_session calls (new_session app m)))"
  shows "\<exists>pd d pi i f. negotiated calls pd d pi i \<and> profile_for_device d = Some f"
proof -
  have r: "cs_state (run_session calls (new_session app m)) = Ready"
    using assms history_inv_run [of calls app m] by (simp add: history_inv_def Let_def)
  with assms history_inv_run [of calls app m] obtain pd d pi i where
    "negotiated calls pd d pi i" "profile_for_device d \<noteq> None"
    by (auto simp: history_inv_def Let_def)
  then show ?thesis by blast
qed

end
