(* ===== verification/MeshPacket.thy ===== *)
theory MeshPacket
  imports MeshSession
begin

text \<open>
  MeshCore packets as they are heard on the air (\<open>internal/meshcore/advert.go\<close>) and the route
  evidence of a contact (\<open>internal/meshcore/route.go\<close>). Ed25519 verification and SHA-256 are
  parameters; \<open>utf8.Valid\<close> is modelled.
\<close>

unbundle bit_operations_syntax

section \<open>Compact paths\<close>

text \<open>A path byte holds the number of hashes in its low six bits and their size, less one, above.\<close>

definition path_count :: "8 word \<Rightarrow> nat" where
  "path_count e = unat (e AND 0x3F)"

definition path_size :: "8 word \<Rightarrow> nat" where
  "path_size e = unat (drop_bit 6 e) + 1"

definition path_hashes :: "nat \<Rightarrow> nat \<Rightarrow> bytes \<Rightarrow> string list" where
  "path_hashes n k bs = map (\<lambda>i. hex_bytes (slice (i * k) (i * k + k) bs)) [0..<n]"

datatype route_mode = ZeroHop | ExplicitPath | Flood | UnknownRoute

datatype route_source =
  ContactOutPath
| ContactOutPathInvalid
| ContactOutPathUnavailable
| ResponseSentSource
| ContactAndResponseSent
| ResponseSentDirectUnavailable

record route_evidence =
  re_mode :: route_mode
  re_path :: "string list"
  re_length :: nat
  re_source :: route_source

definition route_of :: "route_mode \<Rightarrow> string list \<Rightarrow> route_source \<Rightarrow> route_evidence" where
  "route_of m p src = \<lparr> re_mode = m, re_path = p, re_length = length p, re_source = src \<rparr>"

definition unknown_route :: "route_source \<Rightarrow> route_evidence" where
  "unknown_route src = route_of UnknownRoute [] src"

definition route_from_contact :: "8 word \<Rightarrow> bytes \<Rightarrow> route_evidence" where
  "route_from_contact e bs =
     (if e = 0xFF then route_of Flood [] ContactOutPath
      else if path_size e = 4 \<or> length bs < path_count e * path_size e
      then unknown_route ContactOutPathInvalid
      else if path_count e = 0 then route_of ZeroHop [] ContactOutPath
      else route_of ExplicitPath (path_hashes (path_count e) (path_size e) bs) ContactOutPath)"

definition path_updated_target :: "bytes \<Rightarrow> string option" where
  "path_updated_target p =
     (if length p \<noteq> 1 + public_key_length \<or> p ! 0 \<noteq> push_path_updated then None
      else Some (hex_bytes (drop 1 p)))"

section \<open>Packets on the air\<close>

datatype packet_error =
  PacketTooShort
| TransportTruncated
| PathReserved "8 word"
| PathTruncated
| PayloadVersion "8 word"
| PayloadType "8 word"
| AdvertLength nat
| AppDataLength nat
| AdvertType "8 word"
| LocationTruncated
| CoordinatesOutOfRange
| FeaturesTruncated
| NameMissing
| NameNotUtf8
| TrailingBytes
| SignatureFailed

datatype route_kind = KindFlood | KindDirect

record wire_packet =
  wp_route :: route_kind
  wp_path :: "string list"
  wp_version :: "8 word"
  wp_type :: "8 word"
  wp_payload :: bytes

text \<open>Routes 0 and 3 carry four bytes of transport codes; routes 0 and 1 flood, 2 and 3 are direct.\<close>

definition has_transport_codes :: "8 word \<Rightarrow> bool" where
  "has_transport_codes h = (h AND 3 = 0 \<or> h AND 3 = 3)"

definition route_kind_of :: "8 word \<Rightarrow> route_kind" where
  "route_kind_of h = (if h AND 3 = 0 \<or> h AND 3 = 1 then KindFlood else KindDirect)"

definition parse_wire_packet :: "bytes \<Rightarrow> packet_error + wire_packet" where
  "parse_wire_packet raw =
     res_bind (ensure (3 \<le> length raw) PacketTooShort) (\<lambda>_.
     let header = raw ! 0 in
     res_bind (ensure (\<not> (has_transport_codes header \<and> length raw < 6)) TransportTruncated) (\<lambda>_.
     let i = (if has_transport_codes header then 5 else 1);
         enc = raw ! i; j = i + 1; path_bytes = path_count enc * path_size enc in
     res_bind (ensure (path_size enc \<noteq> 4 \<and> path_bytes \<le> 64) (PathReserved enc)) (\<lambda>_.
     res_bind (ensure (j + path_bytes < length raw) PathTruncated) (\<lambda>_.
     Inr \<lparr> wp_route = route_kind_of header,
           wp_path = path_hashes (path_count enc) (path_size enc) (drop j raw),
           wp_version = drop_bit 6 header AND 3,
           wp_type = drop_bit 2 header AND 15,
           wp_payload = drop (j + path_bytes) raw \<rparr>))))"

section \<open>UTF-8\<close>

definition cont_byte :: "8 word \<Rightarrow> bool" where
  "cont_byte b = (0x80 \<le> b \<and> b \<le> 0xBF)"

text \<open>The encodings of RFC 3629: no surrogates, no overlong forms, nothing above U+10FFFF.\<close>

definition second_ok :: "8 word \<Rightarrow> 8 word \<Rightarrow> bool" where
  "second_ok b c =
     (if b = 0xE0 then 0xA0 \<le> c \<and> c \<le> 0xBF
      else if b = 0xED then 0x80 \<le> c \<and> c \<le> 0x9F
      else if b = 0xF0 then 0x90 \<le> c \<and> c \<le> 0xBF
      else if b = 0xF4 then 0x80 \<le> c \<and> c \<le> 0x8F
      else cont_byte c)"

fun utf8_valid :: "bytes \<Rightarrow> bool" where
  "utf8_valid [] = True"
| "utf8_valid (b # s) =
     (if b < 0x80 then utf8_valid s
      else if 0xC2 \<le> b \<and> b \<le> 0xDF then
        (case s of c # t \<Rightarrow> cont_byte c \<and> utf8_valid t | _ \<Rightarrow> False)
      else if 0xE0 \<le> b \<and> b \<le> 0xEF then
        (case s of c # d # t \<Rightarrow> second_ok b c \<and> cont_byte d \<and> utf8_valid t | _ \<Rightarrow> False)
      else if 0xF0 \<le> b \<and> b \<le> 0xF4 then
        (case s of c # d # e # t \<Rightarrow> second_ok b c \<and> cont_byte d \<and> cont_byte e \<and> utf8_valid t
         | _ \<Rightarrow> False)
      else False)"

section \<open>Adverts\<close>

record advert_app_data =
  ad_latitude :: "32 word"
  ad_longitude :: "32 word"
  ad_has_position :: bool
  ad_name :: bytes

definition advert_max_app_data :: nat where "advert_max_app_data = 32"

definition coordinates_ok :: "32 word \<Rightarrow> 32 word \<Rightarrow> bool" where
  "coordinates_ok lat lon =
     (- 90000000 \<le> sint lat \<and> sint lat \<le> 90000000
      \<and> - 180000000 \<le> sint lon \<and> sint lon \<le> 180000000)"

definition has_flag :: "8 word \<Rightarrow> 8 word \<Rightarrow> bool" where
  "has_flag flags f = (flags AND f \<noteq> 0)"

definition parse_location :: "bytes \<Rightarrow> packet_error + (advert_app_data \<times> nat)" where
  "parse_location app =
     (let none = \<lparr> ad_latitude = 0, ad_longitude = 0, ad_has_position = False, ad_name = [] \<rparr> in
      if has_flag (app ! 0) 0x10 then
        res_bind (ensure (9 \<le> length app) LocationTruncated) (\<lambda>_.
        let lat = int32_le (slice 1 5 app); lon = int32_le (slice 5 9 app) in
        res_bind (ensure (coordinates_ok lat lon) CoordinatesOutOfRange) (\<lambda>_.
        Inr (none\<lparr> ad_has_position := True, ad_latitude := lat, ad_longitude := lon \<rparr>, 9)))
      else Inr (none, 1))"

definition parse_advert_app_data :: "bytes \<Rightarrow> packet_error + advert_app_data" where
  "parse_advert_app_data app =
     res_bind (ensure (1 \<le> length app \<and> length app \<le> advert_max_app_data) (AppDataLength (length app))) (\<lambda>_.
     let flags = app ! 0; kind = flags AND 15 in
     res_bind (ensure (1 \<le> kind \<and> kind \<le> 4) (AdvertType kind)) (\<lambda>_.
     res_bind (parse_location app) (\<lambda>(result, i).
     let i = i + (if has_flag flags 0x20 then 2 else 0) + (if has_flag flags 0x40 then 2 else 0) in
     res_bind (ensure (i \<le> length app) FeaturesTruncated) (\<lambda>_.
     if has_flag flags 0x80 then
       res_bind (ensure (i \<noteq> length app) NameMissing) (\<lambda>_.
       res_bind (ensure (utf8_valid (drop i app)) NameNotUtf8) (\<lambda>_.
       Inr (result\<lparr> ad_name := drop i app \<rparr>)))
     else res_bind (ensure (i = length app) TrailingBytes) (\<lambda>_. Inr result)))))"

text \<open>\<open>ed25519.Verify\<close> takes the public key, the message and the signature.\<close>

record mesh_crypto =
  mc_verify :: "bytes \<Rightarrow> bytes \<Rightarrow> bytes \<Rightarrow> bool"
  mc_sha256 :: "bytes \<Rightarrow> bytes"

definition sha256_hex :: "mesh_crypto \<Rightarrow> bytes \<Rightarrow> string" where
  "sha256_hex k bs = hex_bytes (mc_sha256 k bs)"

record signed_advert =
  sa_public_key :: bytes
  sa_timestamp :: "32 word"
  sa_data :: advert_app_data
  sa_signing :: bytes
  sa_signing_sha256 :: string
  sa_on_air_sha256 :: string

text \<open>A refused advert still names its packet, when there was one.\<close>

definition with_packet :: "wire_packet \<Rightarrow> packet_error + 'a \<Rightarrow> (packet_error \<times> wire_packet option) + 'a" where
  "with_packet w r = (case r of Inl e \<Rightarrow> Inl (e, Some w) | Inr x \<Rightarrow> Inr x)"

definition verify_advert :: "mesh_crypto \<Rightarrow> bytes \<Rightarrow> wire_packet \<Rightarrow> packet_error + signed_advert" where
  "verify_advert k raw packet =
     res_bind (ensure (wp_version packet = 0) (PayloadVersion (wp_version packet + 1))) (\<lambda>_.
     res_bind (ensure (wp_type packet = 4) (PayloadType (wp_type packet))) (\<lambda>_.
     let p = wp_payload packet in
     res_bind (ensure (\<not> (length p < 32 + 4 + 64 + 1 \<or> 32 + 4 + 64 + advert_max_app_data < length p))
                 (AdvertLength (length p))) (\<lambda>_.
     let key = take 32 p; stamp = slice 32 36 p; signature = slice 36 100 p; app = drop 100 p in
     res_bind (parse_advert_app_data app) (\<lambda>data.
     let signing = key @ stamp @ app in
     res_bind (ensure (mc_verify k key signing signature) SignatureFailed) (\<lambda>_.
     Inr \<lparr> sa_public_key = key, sa_timestamp = int32_le stamp, sa_data = data, sa_signing = signing,
           sa_signing_sha256 = sha256_hex k signing, sa_on_air_sha256 = sha256_hex k raw \<rparr>)))))"

definition parse_signed_advert ::
  "mesh_crypto \<Rightarrow> bytes \<Rightarrow> (packet_error \<times> wire_packet option) + (wire_packet \<times> signed_advert)" where
  "parse_signed_advert k raw =
     (case parse_wire_packet raw of
        Inl e \<Rightarrow> Inl (e, None)
      | Inr packet \<Rightarrow>
          res_bind (with_packet packet (verify_advert k raw packet)) (\<lambda>advert. Inr (packet, advert)))"

section \<open>Packets: lemmas\<close>

lemma path_size_bounds: "1 \<le> path_size e" "path_size e \<le> 4"
proof -
  have "unat (drop_bit 6 e) = unat e div 64"
    by (simp add: drop_bit_eq_div unat_div_distrib)
  then show "1 \<le> path_size e" "path_size e \<le> 4"
    using unat_byte_less [of e] by (auto simp: path_size_def simp del: unat_byte_less)
qed

lemma path_count_mod: "path_count e = unat e mod 64"
proof -
  have "e AND 0x3F = take_bit 6 e" by (simp add: take_bit_eq_mask mask_numeral)
  then show ?thesis by (simp add: path_count_def take_bit_eq_mod unat_mod_distrib)
qed

lemma concat_chunks: "concat (map (\<lambda>i. slice (i * k) (i * k + k) bs) [0..<n]) = take (n * k) bs"
proof (induction n)
  case (Suc n)
  have "take (n * k) bs @ take k (drop (n * k) bs) = take (n * k + k) bs"
    by (simp add: take_add)
  then show ?case using Suc by (simp add: slice_def algebra_simps)
qed simp

lemma hex_bytes_append: "hex_bytes (a @ b) = hex_bytes a @ hex_bytes b"
  by (simp add: hex_bytes_def)

lemma hex_bytes_concat: "hex_bytes (concat xss) = concat (map hex_bytes xss)"
  by (induction xss) (simp_all add: hex_bytes_append, simp add: hex_bytes_def)

lemma concat_path_hashes: "concat (path_hashes n k bs) = hex_bytes (take (n * k) bs)"
  unfolding concat_chunks [symmetric] hex_bytes_concat by (simp add: path_hashes_def comp_def)

lemma path_hashes_take: "path_hashes n k (take (n * k) bs @ rest) = path_hashes n k bs" if "n * k \<le> length bs"
proof -
  have "slice (i * k) (i * k + k) (take (n * k) bs @ rest) = slice (i * k) (i * k + k) bs" if "i < n" for i
  proof -
    have le: "i * k + k \<le> n * k" using that by (metis Suc_leI add.commute mult_Suc mult_le_mono1)
    have "drop (i * k) (take (n * k) bs) = take (n * k - i * k) (drop (i * k) bs)"
      by (simp add: drop_take)
    moreover have "k \<le> n * k - i * k" "k \<le> length bs - i * k" "i * k \<le> n * k"
      using le \<open>n * k \<le> length bs\<close> by linarith+
    ultimately show ?thesis
      using \<open>n * k \<le> length bs\<close> by (simp add: slice_def min_def)
  qed
  then show ?thesis by (simp add: path_hashes_def)
qed

text \<open>The layout of a packet on the air.\<close>

definition packet_layout :: "bytes \<Rightarrow> 8 word \<Rightarrow> bytes \<Rightarrow> 8 word \<Rightarrow> bytes \<Rightarrow> bytes \<Rightarrow> bool" where
  "packet_layout raw header codes enc path payload =
     (raw = header # codes @ enc # path @ payload
      \<and> length codes = (if has_transport_codes header then 4 else 0)
      \<and> path_size enc \<noteq> 4 \<and> length path = path_count enc * path_size enc \<and> length path \<le> 64
      \<and> payload \<noteq> [])"

definition packet_fields :: "8 word \<Rightarrow> 8 word \<Rightarrow> bytes \<Rightarrow> bytes \<Rightarrow> wire_packet" where
  "packet_fields header enc path payload =
     \<lparr> wp_route = route_kind_of header, wp_path = path_hashes (path_count enc) (path_size enc) path,
       wp_version = drop_bit 6 header AND 3, wp_type = drop_bit 2 header AND 15, wp_payload = payload \<rparr>"

lemma parse_packet_layout:
  assumes "packet_layout raw header codes enc path payload"
  shows "parse_wire_packet raw = Inr (packet_fields header enc path payload)"
proof -
  have r: "raw = (header # codes) @ enc # path @ payload" and p: "payload \<noteq> []"
    and c: "length codes = (if has_transport_codes header then 4 else 0)"
    and l: "length path = path_count enc * path_size enc" "length path \<le> 64" "path_size enc \<noteq> 4"
    using assms by (simp_all add: packet_layout_def)
  define i where "i = (if has_transport_codes header then 5 else 1 :: nat)"
  have i: "i = length (header # codes)" using c by (simp add: i_def)
  have "raw ! i = enc" "drop (i + 1) raw = path @ payload" "raw ! 0 = header"
    by (simp_all add: i r nth_append)
  moreover have "drop (i + 1 + length path) raw = payload"
    using \<open>drop (i + 1) raw = path @ payload\<close> by (metis append_eq_conv_conj drop_drop add.commute)
  moreover have "path_hashes (path_count enc) (path_size enc) (path @ payload)
      = path_hashes (path_count enc) (path_size enc) path"
    using path_hashes_take [of "path_count enc" "path_size enc" path payload] l by simp
  moreover have "i + 1 + length path < length raw" "3 \<le> length raw" "has_transport_codes header \<longrightarrow> 6 \<le> length raw"
    using p c by (auto simp: i r Suc_le_eq split: if_splits)
  ultimately show ?thesis
    using l by (auto simp: parse_wire_packet_def Let_def packet_fields_def i_def [symmetric] ensure_def)
qed

lemma parse_packet_shape:
  assumes "parse_wire_packet raw = Inr w"
  shows "\<exists>header codes enc path payload. packet_layout raw header codes enc path payload"
proof -
  define header where "header = raw ! 0"
  define i where "i = (if has_transport_codes header then 5 else 1 :: nat)"
  define n where "n = path_count (raw ! i) * path_size (raw ! i)"
  have g: "3 \<le> length raw" "path_size (raw ! i) \<noteq> 4" "n \<le> 64" "i + 1 + n < length raw"
    using assms by (auto simp: parse_wire_packet_def res_simps Let_def header_def i_def n_def split: if_splits)
  have "raw = take i raw @ raw ! i # drop (i + 1) raw"
    using g by (simp add: id_take_nth_drop)
  moreover have "take i raw = header # take (i - 1) (drop 1 raw)"
    using g by (cases raw) (auto simp: i_def header_def)
  moreover have "drop (i + 1) raw = take n (drop (i + 1) raw) @ drop (i + 1 + n) raw"
    by (metis append_take_drop_id drop_drop add.commute)
  ultimately have "packet_layout raw header (take (i - 1) (drop 1 raw)) (raw ! i)
      (take n (drop (i + 1) raw)) (drop (i + 1 + n) raw)"
    using g unfolding packet_layout_def by (auto simp: i_def n_def)
  then show ?thesis by blast
qed

section \<open>Adverts: lemmas\<close>

lemma parse_location_Inr:
  "parse_location app = Inr (d, i) \<Longrightarrow>
   (ad_has_position d \<longrightarrow> coordinates_ok (ad_latitude d) (ad_longitude d)) \<and> ad_name d = []"
  by (auto simp: parse_location_def res_simps Let_def split: if_splits)

lemma parse_app_Inr:
  assumes "parse_advert_app_data app = Inr d"
  shows "ad_has_position d \<longrightarrow> coordinates_ok (ad_latitude d) (ad_longitude d)"
    "utf8_valid (ad_name d)" "\<exists>before. app = before @ ad_name d" "length (ad_name d) \<le> 31"
proof -
  obtain r i where l: "parse_location app = Inr (r, i)" and n: "app \<noteq> []" "length app \<le> 32"
    and d: "d = r \<or> (\<exists>j. d = r\<lparr> ad_name := drop j app \<rparr> \<and> utf8_valid (drop j app) \<and> 1 \<le> j)"
  proof -
    obtain r i where "parse_location app = Inr (r, i)" "app \<noteq> []" "length app \<le> 32"
      using assms
      by (fastforce simp: parse_advert_app_data_def res_simps Let_def advert_max_app_data_def simp del: One_nat_def)
    moreover from this have "1 \<le> i"
      by (auto simp: parse_location_def res_simps Let_def split: if_splits)
    ultimately show ?thesis
      using assms
      by (intro that [of r i]) (auto simp: parse_advert_app_data_def res_simps Let_def split: if_splits)
  qed
  from d show "ad_has_position d \<longrightarrow> coordinates_ok (ad_latitude d) (ad_longitude d)"
    using parse_location_Inr [OF l] by auto
  from d show "utf8_valid (ad_name d)" using parse_location_Inr [OF l] by auto
  from d show "\<exists>before. app = before @ ad_name d"
    using parse_location_Inr [OF l] by (elim disjE exE conjE) (auto intro: append_take_drop_id [symmetric])
  from d show "length (ad_name d) \<le> 31" using parse_location_Inr [OF l] n by auto
qed

lemma slice_take_drop: "a \<le> b \<Longrightarrow> take a xs @ slice a b xs = take b xs"
  by (metis le_add_diff_inverse slice_def take_add)

lemma verify_advert_Inr:
  assumes "verify_advert k raw w = Inr a"
  shows "wp_version w = 0 \<and> wp_type w = 4 \<and> length (sa_public_key a) = 32
    \<and> (\<exists>stamp signature app. wp_payload w = sa_public_key a @ stamp @ signature @ app
        \<and> sa_signing a = sa_public_key a @ stamp @ app \<and> length stamp = 4 \<and> length signature = 64
        \<and> mc_verify k (sa_public_key a) (sa_signing a) signature
        \<and> sa_timestamp a = int32_le stamp \<and> parse_advert_app_data app = Inr (sa_data a))"
proof -
  define p where "p = wp_payload w"
  have g: "wp_version w = 0" "wp_type w = 4" "101 \<le> length p"
    "sa_public_key a = take 32 p" "sa_signing a = take 32 p @ slice 32 36 p @ drop 100 p"
    "mc_verify k (take 32 p) (sa_signing a) (slice 36 100 p)"
    "sa_timestamp a = int32_le (slice 32 36 p)" "parse_advert_app_data (drop 100 p) = Inr (sa_data a)"
    using assms by (auto simp: verify_advert_def res_simps Let_def p_def)
  have "take 32 p @ slice 32 36 p @ slice 36 100 p = take 100 p"
    using slice_take_drop [of 32 36 p] slice_take_drop [of 36 100 p] by (simp flip: append_assoc)
  then have "p = take 32 p @ slice 32 36 p @ slice 36 100 p @ drop 100 p"
    by (metis append_assoc append_take_drop_id)
  then show ?thesis
    using g by (intro conjI exI [of _ "slice 32 36 p"] exI [of _ "slice 36 100 p"] exI [of _ "drop 100 p"])
      (auto simp: slice_def p_def)
qed

lemma parse_signed_Inr:
  "parse_signed_advert k raw = Inr (w, a) \<longleftrightarrow> parse_wire_packet raw = Inr w \<and> verify_advert k raw w = Inr a"
  by (auto simp: parse_signed_advert_def with_packet_def res_simps split: sum.splits)

text \<open>What an accepted advert reports is a function of what its signature covers.\<close>

lemma signing_determines:
  assumes "verify_advert k raw w = Inr a" "verify_advert k raw' w' = Inr b" "sa_signing a = sa_signing b"
  shows "sa_public_key a = sa_public_key b" "sa_timestamp a = sa_timestamp b" "sa_data a = sa_data b"
proof -
  obtain s g p where a: "sa_signing a = sa_public_key a @ s @ p" "length s = 4" "length (sa_public_key a) = 32"
    "sa_timestamp a = int32_le s" "parse_advert_app_data p = Inr (sa_data a)"
    using verify_advert_Inr [OF assms(1)] by blast
  obtain t q where b: "sa_signing b = sa_public_key b @ t @ q" "length t = 4" "length (sa_public_key b) = 32"
    "sa_timestamp b = int32_le t" "parse_advert_app_data q = Inr (sa_data b)"
    using verify_advert_Inr [OF assms(2)] by blast
  have "sa_public_key a = sa_public_key b \<and> s = t \<and> p = q"
    using assms(3) a b by (metis append_eq_append_conv)
  then show "sa_public_key a = sa_public_key b" "sa_timestamp a = sa_timestamp b" "sa_data a = sa_data b"
    using a b by auto
qed

end
