(* ===== verification/MeshTelemetry.thy ===== *)
theory MeshTelemetry
  imports MeshPacket
begin

text \<open>
  Telemetry of a MeshCore contact (\<open>internal/meshcore/telemetry.go\<close>): the request frames, and the
  decoding of the CayenneLPP payload of a response. A decoded quantity is a quotient: \<open>(n, d)\<close> stands
  for the float \<open>float64(n) / d\<close>.
\<close>

section \<open>Targets and request frames\<close>

definition is_upper_char :: "char \<Rightarrow> bool" where
  "is_upper_char c = (65 \<le> (of_char c :: nat) \<and> (of_char c :: nat) \<le> 90)"

text \<open>\<open>parseTelemetryTarget\<close>: \<open>hex.DecodeString\<close> refuses every non-ASCII string, so the Unicode case
  tables decide nothing that it would accept; on ASCII, \<open>ToLower(v) == v\<close> says that \<open>v\<close> has no upper
  case letter.\<close>

definition parse_target :: "string \<Rightarrow> bytes option" where
  "parse_target v =
     (if length v \<noteq> 2 * public_key_length \<or> list_ex is_upper_char v then None else hex_decode v)"

definition build_telemetry_request :: "bytes \<Rightarrow> bytes" where
  "build_telemetry_request target = [0x27, 0, 0, 0] @ target"

definition build_binary_request :: "bytes \<Rightarrow> bytes" where
  "build_binary_request target = 0x32 # target @ [3]"

definition build_contact_request :: "bytes \<Rightarrow> bytes" where
  "build_contact_request target = 0x1E # target"

definition build_path_reset :: "bytes \<Rightarrow> bytes" where
  "build_path_reset target = 0x0D # target"

section \<open>Big-endian fields\<close>

fun be_number :: "nat \<Rightarrow> bytes \<Rightarrow> nat" where
  "be_number acc [] = acc"
| "be_number acc (b # bs) = be_number (256 * acc + unat b) bs"

definition uint16_be :: "bytes \<Rightarrow> int" where
  "uint16_be bs = int (be_number 0 (take 2 bs))"

definition int16_be :: "bytes \<Rightarrow> int" where
  "int16_be bs = sint (word_of_nat (be_number 0 (take 2 bs)) :: 16 word)"

definition int24_word :: "8 word \<Rightarrow> 8 word \<Rightarrow> 8 word \<Rightarrow> 32 word" where
  "int24_word a b c =
     (let r = push_bit 16 (ucast a) OR push_bit 8 (ucast b) OR ucast c in
      if r AND 0x800000 \<noteq> 0 then r OR NOT 0xFFFFFF else r)"

definition int24_be :: "bytes \<Rightarrow> int" where
  "int24_be bs = sint (int24_word (bs ! 0) (bs ! 1) (bs ! 2))"

section \<open>CayenneLPP\<close>

type_synonym quotient = "int \<times> nat"

record telemetry =
  tl_battery :: "8 word option"
  tl_voltage :: "quotient option"
  tl_latitude :: "quotient option"
  tl_longitude :: "quotient option"
  tl_altitude :: "quotient option"
  tl_temperature :: "quotient option"
  tl_unsupported :: "nat list"

definition no_telemetry :: telemetry where
  "no_telemetry =
     \<lparr> tl_battery = None, tl_voltage = None, tl_latitude = None, tl_longitude = None,
       tl_altitude = None, tl_temperature = None, tl_unsupported = [] \<rparr>"

datatype lpp_error = TruncatedChannelType | FieldTruncated "8 word" nat

definition field_size :: "8 word \<Rightarrow> nat option" where
  "field_size kind =
     (if kind = 103 then Some 2 else if kind = 116 then Some 2 else if kind = 120 then Some 1
      else if kind = 121 then Some 2 else if kind = 136 then Some 9 else None)"

definition set_field :: "8 word \<Rightarrow> bytes \<Rightarrow> telemetry \<Rightarrow> telemetry" where
  "set_field kind v t =
     (if kind = 103 then t\<lparr> tl_temperature := Some (int16_be v, 10) \<rparr>
      else if kind = 116 then t\<lparr> tl_voltage := Some (uint16_be v, 100) \<rparr>
      else if kind = 120 then t\<lparr> tl_battery := Some (v ! 0) \<rparr>
      else if kind = 121 then t\<lparr> tl_altitude := Some (int16_be v, 1) \<rparr>
      else t\<lparr> tl_latitude := Some (int24_be (take 3 v), 10000),
              tl_longitude := Some (int24_be (slice 3 6 v), 10000),
              tl_altitude := Some (int24_be (slice 6 9 v), 100) \<rparr>)"

text \<open>The loop of \<open>ParseTelemetryLPP\<close>; an error comes with the fields decoded before it.\<close>

fun parse_lpp :: "telemetry \<Rightarrow> bytes \<Rightarrow> telemetry \<times> lpp_error option" where
  "parse_lpp t [] = (t, None)"
| "parse_lpp t [channel] = (t, Some TruncatedChannelType)"
| "parse_lpp t (channel # kind # s) =
     (if channel = 0 \<and> kind = 0 then (t, None)
      else case field_size kind of
        None \<Rightarrow> (t\<lparr> tl_unsupported := tl_unsupported t @ [unat kind] \<rparr>, None)
      | Some n \<Rightarrow>
          if length s < n then (t, Some (FieldTruncated kind n))
          else parse_lpp (set_field kind (take n s) t) (drop n s))"

declare parse_lpp.simps(3) [simp del]

definition parse_telemetry_lpp :: "bytes \<Rightarrow> telemetry \<times> lpp_error option" where
  "parse_telemetry_lpp p = parse_lpp no_telemetry p"

section \<open>LPP: lemmas\<close>

text \<open>A field on the wire: its channel, its type and its value.\<close>

type_synonym lpp_field = "8 word \<times> 8 word \<times> bytes"

definition field_bytes :: "lpp_field \<Rightarrow> bytes" where
  "field_bytes f = (case f of (channel, kind, v) \<Rightarrow> channel # kind # v)"

definition field_ok :: "lpp_field \<Rightarrow> bool" where
  "field_ok f = (case f of (channel, kind, v) \<Rightarrow> field_size kind = Some (length v))"

definition apply_fields :: "lpp_field list \<Rightarrow> telemetry \<Rightarrow> telemetry" where
  "apply_fields fs t = fold (\<lambda>(channel, kind, v). set_field kind v) fs t"

lemma field_size_0 [simp]: "field_size 0 = None"
  by (simp add: field_size_def)

lemma parse_lpp_field:
  "field_ok (channel, kind, v) \<Longrightarrow> parse_lpp t (channel # kind # v @ s) = parse_lpp (set_field kind v t) s"
  by (auto simp: parse_lpp.simps(3) field_ok_def)

lemma parse_lpp_fields:
  "list_all field_ok fs \<Longrightarrow>
   parse_lpp t (concat (map field_bytes fs) @ s) = parse_lpp (apply_fields fs t) s"
proof (induction fs arbitrary: t)
  case (Cons f fs)
  obtain c k v where f: "f = (c, k, v)" by (cases f)
  show ?case using Cons by (simp add: f field_bytes_def parse_lpp_field apply_fields_def)
qed (simp add: apply_fields_def)

text \<open>How parsing can end: at the end, at the padding, at a field of an unknown type, or truncated.\<close>

definition lpp_end :: "bytes \<Rightarrow> nat list \<Rightarrow> lpp_error option \<Rightarrow> bool" where
  "lpp_end s unknown e =
     ((s = [] \<and> unknown = [] \<and> e = None)
      \<or> (length s = 1 \<and> unknown = [] \<and> e = Some TruncatedChannelType)
      \<or> (\<exists>t. s = 0 # 0 # t \<and> unknown = [] \<and> e = None)
      \<or> (\<exists>c k t. s = c # k # t \<and> \<not> (c = 0 \<and> k = 0) \<and> field_size k = None \<and> unknown = [unat k] \<and> e = None)
      \<or> (\<exists>c k t n. s = c # k # t \<and> field_size k = Some n \<and> length t < n \<and> unknown = []
           \<and> e = Some (FieldTruncated k n)))"

definition add_unsupported :: "nat list \<Rightarrow> telemetry \<Rightarrow> telemetry" where
  "add_unsupported unknown t = t\<lparr> tl_unsupported := tl_unsupported t @ unknown \<rparr>"

lemma parse_lpp_end:
  "lpp_end s unknown e \<Longrightarrow> parse_lpp t s = (add_unsupported unknown t, e)"
  unfolding lpp_end_def
  by (elim disjE exE conjE)
    (auto simp: add_unsupported_def parse_lpp.simps(3) length_Suc_conv)

lemma parse_lpp_exact:
  "parse_lpp t p = (t', e) \<longleftrightarrow>
   (\<exists>fs s unknown. p = concat (map field_bytes fs) @ s \<and> list_all field_ok fs \<and> lpp_end s unknown e
      \<and> t' = add_unsupported unknown (apply_fields fs t))"
  (is "?l \<longleftrightarrow> ?r t p t'")
proof
  show "?l" if "?r t p t'"
    using that by (auto simp: parse_lpp_fields parse_lpp_end)
  show "?r t p t'" if ?l
    using that
  proof (induction t p rule: parse_lpp.induct)
    case (1 t)
    then show ?case
      by (intro exI [of _ "[]"]) (simp add: lpp_end_def add_unsupported_def apply_fields_def)
  next
    case (2 t c)
    then show ?case
      by (intro exI [of _ "[]"] exI [of _ "[c]"]) (simp add: lpp_end_def add_unsupported_def apply_fields_def)
  next
    case (3 t c k s)
    have stop: ?case if "lpp_end (c # k # s) unknown e" for unknown
      using that parse_lpp_end [OF that] 3(2)
      by (intro exI [of _ "[]"] exI [of _ "c # k # s"] exI [of _ unknown]) (simp add: apply_fields_def)
    consider "c = 0" "k = 0" | "\<not> (c = 0 \<and> k = 0)" "field_size k = None"
      | n where "\<not> (c = 0 \<and> k = 0)" "field_size k = Some n" "length s < n"
      | n where "\<not> (c = 0 \<and> k = 0)" "field_size k = Some n" "n \<le> length s"
      by (cases "field_size k") (auto simp: not_less[symmetric])
    then show ?case
    proof cases
      case 1
      then show ?thesis using 3(2) by (intro stop [of "[]"]) (simp add: lpp_end_def parse_lpp.simps(3))
    next
      case 2
      then show ?thesis using 3(2)
        by (intro stop [of "[unat k]"]) (auto simp: lpp_end_def parse_lpp.simps(3))
    next
      case short: 3
      then show ?thesis using 3(2) by (intro stop [of "[]"]) (auto simp: lpp_end_def parse_lpp.simps(3))
    next
      case 4
      then have "parse_lpp (set_field k (take n s) t) (drop n s) = (t', e)"
        using 3(2) by (auto simp: parse_lpp.simps(3))
      then obtain fs r unknown where i: "drop n s = concat (map field_bytes fs) @ r" "list_all field_ok fs"
        "lpp_end r unknown e" "t' = add_unsupported unknown (apply_fields fs (set_field k (take n s) t))"
        using 3(1) 4 by fastforce
      have "c # k # s = concat (map field_bytes ((c, k, take n s) # fs)) @ r"
        by (simp add: field_bytes_def flip: i(1))
      moreover have "list_all field_ok ((c, k, take n s) # fs)" using 4 i by (simp add: field_ok_def)
      moreover have "t' = add_unsupported unknown (apply_fields ((c, k, take n s) # fs) t)"
        using i by (simp add: apply_fields_def)
      ultimately show ?thesis using i(3) by blast
    qed
  qed
qed

text \<open>The three bytes of a coordinate are its two's complement.\<close>

definition int24_bytes :: "int \<Rightarrow> bytes" where
  "int24_bytes v = [word_of_int (v div 65536), word_of_int (v div 256), word_of_int v]"

definition int16_bytes :: "int \<Rightarrow> bytes" where
  "int16_bytes v = [word_of_int (v div 256), word_of_int v]"

lemma int24_word_bytes:
  assumes "- (2 ^ 23) \<le> v" "v < 2 ^ 23"
  shows "int24_be (int24_bytes v) = v"
proof -
  define r where "r = (push_bit 16 (ucast (word_of_int (v div 65536) :: 8 word))
      OR push_bit 8 (ucast (word_of_int (v div 256) :: 8 word)) OR ucast (word_of_int v :: 8 word) :: 32 word)"
  have d: "v div 65536 = drop_bit 16 v" "v div 256 = drop_bit 8 v"
    by (simp_all add: drop_bit_eq_div)
  have r: "bit r i \<longleftrightarrow> i < 24 \<and> bit v i" for i
  proof (cases "16 \<le> i")
    case True
    then have "16 + (i - 16) = i" by simp
    with True show ?thesis unfolding r_def d by (auto simp: bit_simps)
  next
    case False
    then show ?thesis unfolding r_def d by (auto simp: bit_simps)
  qed
  have "int24_word (word_of_int (v div 65536)) (word_of_int (v div 256)) (word_of_int v)
      = (if r AND 0x800000 \<noteq> 0 then r OR NOT 0xFFFFFF else r)"
    by (simp add: int24_word_def r_def Let_def)
  also have "\<dots> = word_of_int v"
  proof -
    have m: "(0x800000 :: 32 word) = 2 ^ 23" "(0xFFFFFF :: 32 word) = mask 24"
      by (simp_all add: mask_numeral)
    have test: "r AND 0x800000 \<noteq> 0 \<longleftrightarrow> bit r 23"
      unfolding m and_exp_eq_0_iff_not_bit by simp
    have high: "bit v i = bit v 23" if "23 \<le> i" for i
    proof -
      have "signed_take_bit 23 v = v"
        using assms by (simp add: signed_take_bit_int_eq_self)
      then have "bit v i = bit (signed_take_bit 23 v) i" by simp
      also have "\<dots> = bit v 23" using that by (simp add: bit_signed_take_bit_iff min_absorb1)
      finally show ?thesis .
    qed
    have "(if bit r 23 then r OR NOT (mask 24) else r) = word_of_int v"
    proof (rule bit_word_eqI)
      fix i :: nat assume i: "i < LENGTH(32)"
      have lhs: "bit (if bit r 23 then r OR NOT (mask 24) else r) i
          \<longleftrightarrow> (if i < 24 then bit v i else bit v 23)"
        using i by (cases "bit r 23") (auto simp: bit_or_iff bit_not_iff bit_mask_iff r [of i] r [of 23])
      have "bit v i = bit v 23" if "\<not> i < 24"
        using high [of i] that by simp
      then show "bit (if bit r 23 then r OR NOT (mask 24) else r) i = bit (word_of_int v :: 32 word) i"
        using i unfolding lhs by (simp add: bit_of_int_iff)
    qed
    then show ?thesis unfolding test unfolding m(2) .
  qed
  finally show ?thesis
    using assms by (simp add: int24_be_def int24_bytes_def signed_of_int signed_take_bit_int_eq_self)
qed

lemma int16_be_bytes:
  assumes "- (2 ^ 15) \<le> v" "v < 2 ^ 15"
  shows "int16_be (int16_bytes v) = v"
proof -
  have "be_number 0 (take 2 (int16_bytes v)) = nat (v mod 65536)"
  proof -
    have "v mod (256 * 256) = 256 * (v div 256 mod 256) + v mod 256"
      by (rule zmod_zmult2_eq) simp
    then show ?thesis by (simp add: int16_bytes_def unsigned_of_int nat_add_distrib nat_mult_distrib take_bit_eq_mod)
  qed
  moreover have "signed_take_bit 15 (v mod 65536) = v"
  proof -
    have "signed_take_bit 15 (take_bit 16 v) = signed_take_bit 15 v"
      by (simp add: signed_take_bit_take_bit)
    then show ?thesis using assms by (simp add: take_bit_eq_mod signed_take_bit_int_eq_self)
  qed
  ultimately show ?thesis by (simp add: int16_be_def signed_of_int)
qed

end
