(* ===== verification/MeshArbiter.thy ===== *)
theory MeshArbiter
  imports MeshTelemetry
begin

text \<open>
  The telemetry arbiter of the MeshCore adapter (\<open>internal/meshcore/telemetry.go\<close> and
  \<open>telemetry_rf.go\<close>): one outstanding request or path reset, the tags of binary requests, and the
  association of a tagged response with a preceding raw frame.

  The state is what \<open>telemetryMu\<close> guards. Each definition is one critical section; a pointer
  comparison \<open>a.telemetry == request\<close> compares request numbers here. Where a function of the code
  leaves its critical section and then calls \<open>finishTelemetry\<close>, the model returns that call as a
  \<open>finish\<close> value, to be executed later: other goroutines may come in between.
\<close>

section \<open>State\<close>

datatype telemetry_capability = BinaryUnknown | BinarySupported | BinaryUnsupported

datatype telemetry_mode = LegacyRequest | BinaryRequest

datatype telemetry_error =
  InvalidTarget
| AdapterDisconnected
| RequestInFlight
| TelemetryFirmware
| TelemetryTimeout
| MismatchedResponse
| InvalidPayload
| LppError lpp_error
| PathResetFirmware
| PathResetTimeout
| ContextDone

record raw_candidate =
  rc_observed :: time
  rc_sequence :: "64 word"
  rc_rssi :: "8 word"
  rc_snr :: "8 word"
  rc_sha256 :: string

datatype rf_outcome = NoCandidate | CandidateBeforeRequest | OutsideWindow | MatchedOrdered | AlreadyConsumed

text \<open>The nearest candidate is a diagnostic; what is selected is \<open>rf_candidate\<close>. The float SNR is a
  quarter of the signed byte \<open>rc_snr\<close>.\<close>

record rf_nearest =
  rn_sequence :: "64 word"
  rn_sequence_delta :: "64 word"
  rn_immediate :: bool
  rn_rssi :: "8 word"
  rn_snr :: "8 word"
  rn_delta_ms :: "int option"

record rf_evidence =
  rf_outcome :: rf_outcome
  rf_count :: nat
  rf_delta_ms :: "int option"
  rf_sequence_delta :: "64 word option"
  rf_candidate :: "64 word option"
  rf_sha256 :: string
  rf_rssi :: "8 word option"
  rf_snr :: "8 word option"
  rf_confidence :: "(string \<times> string)"
  rf_nearest_diagnostic :: "rf_nearest option"

record telemetry_result =
  tr_target :: string
  tr_requested_at :: time
  tr_source_prefix :: string
  tr_request_tag :: "32 word option"
  tr_response_tag :: "32 word option"
  tr_tagged :: bool
  tr_transport :: string
  tr_capability :: string
  tr_fallback :: string
  tr_opcode :: "8 word"
  tr_received_at :: time
  tr_telemetry :: telemetry
  tr_route :: route_evidence
  tr_route_unknown :: bool
  tr_rf :: "rf_evidence option"
  tr_raw :: bytes

record telemetry_request =
  tq_id :: nat
  tq_target :: bytes
  tq_route :: route_evidence
  tq_route_done :: "route_evidence option"
  tq_awaiting :: bool
  tq_requested_at :: time
  tq_frame_sequence :: "64 word"
  tq_mode :: telemetry_mode
  tq_tag :: "32 word"
  tq_tag_known :: bool
  tq_fallback :: string
  tq_suggested :: "duration option"

record path_reset =
  pr_id :: nat
  pr_target :: bytes

record arbiter =
  ar_request :: "telemetry_request option"
  ar_reset :: "path_reset option"
  ar_capability :: telemetry_capability
  ar_expired :: "32 word \<Rightarrow> time option"
  ar_sequence :: "64 word"
  ar_recent :: "raw_candidate list"
  ar_consumed :: "64 word set"
  ar_window :: duration
  ar_next :: nat

text \<open>\<open>finishTelemetry(request, result, err)\<close> and \<open>finishPathReset(request, err)\<close>, still to run.\<close>

datatype finish =
  FinishTelemetry nat telemetry_result "telemetry_error option"
| FinishReset nat "telemetry_error option"

section \<open>Constants\<close>

definition default_telemetry_timeout :: duration where "default_telemetry_timeout = 45 * second"
definition minimum_telemetry_timeout :: duration where "minimum_telemetry_timeout = second"
definition binary_telemetry_guard :: duration where "binary_telemetry_guard = 2 * second"
definition expired_tag_retention :: duration where "expired_tag_retention = default_telemetry_timeout"
definition telemetry_rf_window :: duration where "telemetry_rf_window = 250 * millisecond"
definition max_recent_candidates :: nat where "max_recent_candidates = 32"

definition no_route :: route_evidence where
  "no_route = unknown_route ContactOutPathUnavailable"

definition blank_result :: telemetry_result where
  "blank_result =
     \<lparr> tr_target = [], tr_requested_at = zero_time, tr_source_prefix = [], tr_request_tag = None,
       tr_response_tag = None, tr_tagged = False, tr_transport = [], tr_capability = [],
       tr_fallback = [], tr_opcode = 0, tr_received_at = zero_time, tr_telemetry = no_telemetry,
       tr_route = no_route, tr_route_unknown = False, tr_rf = None, tr_raw = [] \<rparr>"

section \<open>Starting\<close>

text \<open>A new adapter; \<open>consume\<close> resets what belongs to one connection.\<close>

definition new_arbiter :: "duration \<Rightarrow> arbiter" where
  "new_arbiter window =
     \<lparr> ar_request = None, ar_reset = None, ar_capability = BinaryUnknown, ar_expired = (\<lambda>_. None),
       ar_sequence = 0, ar_recent = [], ar_consumed = {}, ar_window = window, ar_next = 0 \<rparr>"

definition begin_connection :: "arbiter \<Rightarrow> arbiter" where
  "begin_connection a =
     a\<lparr> ar_capability := BinaryUnknown, ar_expired := (\<lambda>_. None), ar_sequence := 0, ar_recent := [],
        ar_consumed := {} \<rparr>"

definition next_frame :: "arbiter \<Rightarrow> arbiter" where
  "next_frame a = a\<lparr> ar_sequence := ar_sequence a + 1 \<rparr>"

definition request_mode :: "arbiter \<Rightarrow> telemetry_mode" where
  "request_mode a = (if ar_capability a = BinaryUnsupported then LegacyRequest else BinaryRequest)"

definition busy :: "arbiter \<Rightarrow> bool" where
  "busy a = (ar_request a \<noteq> None \<or> ar_reset a \<noteq> None)"

text \<open>\<open>connected\<close>: a link is up, the session is ready and the adapter not closed. The timer of 45
  seconds is armed here; a firing timer is a \<open>finish\<close> of its own.\<close>

definition begin_telemetry :: "string \<Rightarrow> bool \<Rightarrow> arbiter \<Rightarrow> telemetry_error + (nat \<times> arbiter)" where
  "begin_telemetry v connected a =
     res_bind (of_option InvalidTarget (parse_target v)) (\<lambda>target.
     res_bind (ensure (\<not> busy a) RequestInFlight) (\<lambda>_.
     res_bind (ensure connected AdapterDisconnected) (\<lambda>_.
     Inr (ar_next a,
       a\<lparr> ar_next := ar_next a + 1,
          ar_request := Some
            \<lparr> tq_id = ar_next a, tq_target = target, tq_route = no_route, tq_route_done = None,
              tq_awaiting = False, tq_requested_at = zero_time, tq_frame_sequence = 0,
              tq_mode = request_mode a, tq_tag = 0, tq_tag_known = False, tq_fallback = [],
              tq_suggested = None \<rparr> \<rparr>))))"

definition begin_reset :: "string \<Rightarrow> bool \<Rightarrow> arbiter \<Rightarrow> telemetry_error + (nat \<times> arbiter)" where
  "begin_reset v connected a =
     res_bind (of_option InvalidTarget (parse_target v)) (\<lambda>target.
     res_bind (ensure (\<not> busy a) RequestInFlight) (\<lambda>_.
     res_bind (ensure connected AdapterDisconnected) (\<lambda>_.
     Inr (ar_next a,
       a\<lparr> ar_next := ar_next a + 1, ar_reset := Some \<lparr> pr_id = ar_next a, pr_target = target \<rparr> \<rparr>))))"

section \<open>Updates of the current request\<close>

definition current :: "nat \<Rightarrow> arbiter \<Rightarrow> telemetry_request option" where
  "current i a =
     (case ar_request a of None \<Rightarrow> None | Some q \<Rightarrow> if tq_id q = i then Some q else None)"

definition update_current ::
  "nat \<Rightarrow> (telemetry_request \<Rightarrow> telemetry_request) \<Rightarrow> arbiter \<Rightarrow> arbiter" where
  "update_current i f a =
     (case current i a of None \<Rightarrow> a | Some q \<Rightarrow> a\<lparr> ar_request := Some (f q) \<rparr>)"

definition set_requested_at :: "nat \<Rightarrow> time \<Rightarrow> arbiter \<Rightarrow> arbiter" where
  "set_requested_at i at a =
     update_current i (\<lambda>q. q\<lparr> tq_requested_at := at, tq_frame_sequence := ar_sequence a \<rparr>) a"

text \<open>\<open>captureTelemetryRoute\<close>: a fresh channel for the route; it writes the contact request next.\<close>

definition capture_route :: "nat \<Rightarrow> arbiter \<Rightarrow> arbiter" where
  "capture_route i a = update_current i (\<lambda>q. q\<lparr> tq_awaiting := True, tq_route_done := None \<rparr>) a"

definition complete_route_snapshot :: "nat \<Rightarrow> route_evidence \<Rightarrow> arbiter \<Rightarrow> arbiter" where
  "complete_route_snapshot i e a =
     update_current i
       (\<lambda>q. if tq_awaiting q
            then q\<lparr> tq_awaiting := False,
                    tq_route_done := (case tq_route_done q of None \<Rightarrow> Some e | d \<Rightarrow> d) \<rparr>
            else q) a"

text \<open>The requester receives the route from the channel and stores it.\<close>

definition set_route_attempt :: "nat \<Rightarrow> arbiter \<Rightarrow> arbiter" where
  "set_route_attempt i a =
     update_current i
       (\<lambda>q. case tq_route_done q of
              None \<Rightarrow> q
            | Some e \<Rightarrow> q\<lparr> tq_route := e, tq_route_done := None \<rparr>) a"

section \<open>Finishing\<close>

definition finish_result :: "telemetry_request \<Rightarrow> telemetry_result \<Rightarrow> telemetry_result" where
  "finish_result q r =
     (let r = r\<lparr> tr_target := hex_bytes (tq_target q),
                tr_requested_at := (if is_zero (tr_requested_at r) then tq_requested_at q else tr_requested_at r) \<rparr>;
          r = (if tq_mode q = BinaryRequest \<and> tq_tag_known q
               then r\<lparr> tr_request_tag := (case tr_request_tag r of None \<Rightarrow> Some (tq_tag q) | t \<Rightarrow> t),
                       tr_tagged := True, tr_transport := ''tagged_binary'',
                       tr_capability := ''tagged_binary_supported'' \<rparr>
               else if tq_mode q = LegacyRequest
               then r\<lparr> tr_transport := ''legacy'', tr_capability := ''legacy_fallback'',
                       tr_fallback := tq_fallback q \<rparr>
               else r)
      in r\<lparr> tr_opcode := (if tr_opcode r = 0 then push_telemetry_response else tr_opcode r),
            tr_route := tq_route q, tr_route_unknown := True \<rparr>)"

text \<open>\<open>finishTelemetry\<close>: the result goes to the requester's channel, unless the request is over.\<close>

definition finish_telemetry ::
  "nat \<Rightarrow> telemetry_result \<Rightarrow> time \<Rightarrow> arbiter \<Rightarrow> arbiter \<times> telemetry_result option" where
  "finish_telemetry i r now a =
     (case current i a of
        None \<Rightarrow> (a, None)
      | Some q \<Rightarrow>
          (a\<lparr> ar_request := None,
              ar_expired := (if tq_mode q = BinaryRequest \<and> tq_tag_known q
                             then (ar_expired a)(tq_tag q \<mapsto> now + expired_tag_retention) else ar_expired a) \<rparr>,
           Some (finish_result q r)))"

definition finish_reset :: "nat \<Rightarrow> arbiter \<Rightarrow> arbiter \<times> bool" where
  "finish_reset i a =
     (case ar_reset a of
        None \<Rightarrow> (a, False)
      | Some p \<Rightarrow> if pr_id p = i then (a\<lparr> ar_reset := None \<rparr>, True) else (a, False))"

definition finish_current :: "telemetry_error option \<Rightarrow> arbiter \<Rightarrow> finish list" where
  "finish_current e a =
     (case ar_request a of None \<Rightarrow> [] | Some q \<Rightarrow> [FinishTelemetry (tq_id q) blank_result e])"

definition finish_current_reset :: "telemetry_error option \<Rightarrow> arbiter \<Rightarrow> finish list" where
  "finish_current_reset e a =
     (case ar_reset a of None \<Rightarrow> [] | Some p \<Rightarrow> [FinishReset (pr_id p) e])"

definition prune_tags :: "time \<Rightarrow> arbiter \<Rightarrow> arbiter" where
  "prune_tags now a =
     a\<lparr> ar_expired := (\<lambda>t. case ar_expired a t of
                            Some e \<Rightarrow> if e \<le> now then None else Some e
                          | None \<Rightarrow> None) \<rparr>"

section \<open>Receiver-local RF evidence\<close>

definition record_raw_rx :: "mesh_crypto \<Rightarrow> bytes \<Rightarrow> time \<Rightarrow> 64 word \<Rightarrow> arbiter \<Rightarrow> arbiter" where
  "record_raw_rx k frame at sq a =
     (if length frame < 3 \<or> frame ! 0 \<noteq> push_log_rx_data \<or> sq = 0 then a
      else
        let c = \<lparr> rc_observed = at, rc_sequence = sq, rc_rssi = frame ! 2, rc_snr = frame ! 1,
                  rc_sha256 = sha256_hex k frame \<rparr>;
            recent = ar_recent a @ [c]
        in a\<lparr> ar_recent := drop (length recent - max_recent_candidates) recent \<rparr>)"

definition rf_window :: "arbiter \<Rightarrow> duration" where
  "rf_window a = (if 0 < ar_window a then ar_window a else telemetry_rf_window)"

definition precedes_response :: "time \<Rightarrow> 64 word \<Rightarrow> raw_candidate \<Rightarrow> bool" where
  "precedes_response at sq c = (\<not> (sq \<le> rc_sequence c \<or> at < rc_observed c))"

definition before_request :: "telemetry_request \<Rightarrow> raw_candidate \<Rightarrow> bool" where
  "before_request q c = (rc_sequence c \<le> tq_frame_sequence q \<or> rc_observed c < tq_requested_at q)"

definition within_window :: "duration \<Rightarrow> time \<Rightarrow> raw_candidate \<Rightarrow> bool" where
  "within_window w at c = (0 \<le> time_sub at (rc_observed c) \<and> time_sub at (rc_observed c) \<le> w)"

definition nearest_candidate :: "raw_candidate \<Rightarrow> raw_candidate list \<Rightarrow> raw_candidate" where
  "nearest_candidate c cs = fold (\<lambda>d n. if rc_sequence n < rc_sequence d then d else n) cs c"

definition delta_ms :: "time \<Rightarrow> raw_candidate \<Rightarrow> int option" where
  "delta_ms at c = (if 0 \<le> time_sub at (rc_observed c) then Some (time_sub at (rc_observed c) div millisecond) else None)"

definition nearest_diagnostic :: "raw_candidate \<Rightarrow> time \<Rightarrow> 64 word \<Rightarrow> rf_nearest option" where
  "nearest_diagnostic c at sq =
     (if rc_sequence c = 0 \<or> sq \<le> rc_sequence c then None
      else Some \<lparr> rn_sequence = rc_sequence c, rn_sequence_delta = sq - rc_sequence c,
                  rn_immediate = (sq - rc_sequence c = 1), rn_rssi = rc_rssi c, rn_snr = rc_snr c,
                  rn_delta_ms = delta_ms at c \<rparr>)"

definition association_confidence :: "64 word \<Rightarrow> string \<times> string" where
  "association_confidence d =
     (if d = 1 then (''high'', ''immediate_predecessor'')
      else if d = 2 then (''medium'', ''one_intervening_frame'')
      else (''low'', ''nearest_preceding_candidate''))"

definition new_rf_evidence :: "rf_outcome \<Rightarrow> nat \<Rightarrow> rf_evidence" where
  "new_rf_evidence outcome n =
     \<lparr> rf_outcome = outcome, rf_count = n, rf_delta_ms = None, rf_sequence_delta = None,
       rf_candidate = None, rf_sha256 = [], rf_rssi = None, rf_snr = None, rf_confidence = ([], []),
       rf_nearest_diagnostic = None \<rparr>"

definition correlate_rf ::
  "telemetry_request \<Rightarrow> time \<Rightarrow> 64 word \<Rightarrow> arbiter \<Rightarrow> arbiter \<times> rf_evidence" where
  "correlate_rf q at sq a =
     (if is_zero (tq_requested_at q) \<or> sq = 0 then (a, new_rf_evidence NoCandidate 0)
      else
        let seen = filter (precedes_response at sq) (ar_recent a);
            candidates = filter (\<lambda>c. \<not> before_request q c) seen;
            eligible = filter (within_window (rf_window a) at) candidates
        in case eligible of
             [] \<Rightarrow>
               (a, case candidates of
                     c # cs \<Rightarrow> (new_rf_evidence OutsideWindow (length candidates))
                                 \<lparr> rf_nearest_diagnostic := nearest_diagnostic (nearest_candidate c cs) at sq \<rparr>
                   | [] \<Rightarrow> new_rf_evidence
                             (if list_ex (before_request q) seen then CandidateBeforeRequest else NoCandidate) 0)
           | d # ds \<Rightarrow>
               let c = nearest_candidate d ds;
                   e = (new_rf_evidence MatchedOrdered (length candidates))
                         \<lparr> rf_nearest_diagnostic := nearest_diagnostic c at sq,
                           rf_sha256 := rc_sha256 c, rf_candidate := Some (rc_sequence c),
                           rf_sequence_delta := Some (sq - rc_sequence c),
                           rf_delta_ms := delta_ms at c \<rparr>
               in if rc_sequence c \<in> ar_consumed a then (a, e\<lparr> rf_outcome := AlreadyConsumed \<rparr>)
                  else (a\<lparr> ar_consumed := insert (rc_sequence c) (ar_consumed a) \<rparr>,
                        e\<lparr> rf_confidence := association_confidence (sq - rc_sequence c),
                           rf_rssi := Some (rc_rssi c), rf_snr := Some (rc_snr c) \<rparr>))"

section \<open>Responses\<close>

definition parse_telemetry_response ::
  "bytes \<Rightarrow> time \<Rightarrow> telemetry_error + (telemetry_result \<times> bytes)" where
  "parse_telemetry_response frame at =
     (if length frame < 8 \<or> frame ! 0 \<noteq> push_telemetry_response then Inl InvalidPayload
      else case parse_telemetry_lpp (drop 8 frame) of
        (_, Some e) \<Rightarrow> Inl (LppError e)
      | (t, None) \<Rightarrow>
          let prefix = slice 2 8 frame
          in Inr (blank_result\<lparr> tr_source_prefix := hex_bytes prefix, tr_opcode := push_telemetry_response,
                    tr_received_at := at, tr_telemetry := t, tr_raw := frame \<rparr>, prefix))"

definition handle_telemetry_response :: "bytes \<Rightarrow> time \<Rightarrow> arbiter \<Rightarrow> finish list" where
  "handle_telemetry_response frame at a =
     (case parse_telemetry_response frame at of
        Inl e \<Rightarrow> finish_current (Some e) a
      | Inr (r, prefix) \<Rightarrow>
          (case ar_request a of
             None \<Rightarrow> []
           | Some q \<Rightarrow>
               if tq_mode q \<noteq> LegacyRequest then []
               else if prefix \<noteq> take 6 (tq_target q)
               then [FinishTelemetry (tq_id q) blank_result (Some MismatchedResponse)]
               else [FinishTelemetry (tq_id q)
                      (r\<lparr> tr_target := hex_bytes (tq_target q), tr_requested_at := tq_requested_at q \<rparr>) None]))"

definition tag_matches :: "32 word \<Rightarrow> telemetry_request \<Rightarrow> bool" where
  "tag_matches tag q = (tq_mode q = BinaryRequest \<and> tq_tag_known q \<and> tq_tag q = tag)"

definition binary_result ::
  "telemetry_request \<Rightarrow> bytes \<Rightarrow> time \<Rightarrow> telemetry \<Rightarrow> rf_evidence \<Rightarrow> telemetry_result" where
  "binary_result q frame at t e =
     (let tag = int32_le (slice 2 6 frame)
      in blank_result
           \<lparr> tr_target := hex_bytes (tq_target q), tr_source_prefix := hex_bytes (take 6 (tq_target q)),
             tr_request_tag := Some tag, tr_response_tag := Some tag, tr_tagged := True,
             tr_transport := ''tagged_binary'', tr_capability := ''tagged_binary_supported'',
             tr_opcode := push_binary_response, tr_requested_at := tq_requested_at q,
             tr_received_at := at, tr_telemetry := t, tr_rf := Some e, tr_raw := frame \<rparr>)"

definition handle_binary_response ::
  "bytes \<Rightarrow> time \<Rightarrow> 64 word \<Rightarrow> arbiter \<Rightarrow> arbiter \<times> finish list" where
  "handle_binary_response frame at sq a =
     (if length frame < 6 \<or> frame ! 0 \<noteq> push_binary_response then (a, [])
      else
        let tag = int32_le (slice 2 6 frame)
        in case parse_telemetry_lpp (drop 6 frame) of
             (_, Some e) \<Rightarrow>
               (a, case ar_request a of
                     None \<Rightarrow> []
                   | Some q \<Rightarrow> if tag_matches tag q
                               then [FinishTelemetry (tq_id q) blank_result (Some (LppError e))] else [])
           | (t, None) \<Rightarrow>
               let a = prune_tags at a
               in case ar_request a of
                    None \<Rightarrow> (a, [])
                  | Some q \<Rightarrow>
                      if \<not> tag_matches tag q \<or> ar_expired a tag \<noteq> None then (a, [])
                      else let (a, e) = correlate_rf q at sq a
                           in (a, [FinishTelemetry (tq_id q) (binary_result q frame at t e) None]))"

section \<open>Command responses\<close>

definition handle_reset_command :: "8 word \<Rightarrow> arbiter \<Rightarrow> finish list option" where
  "handle_reset_command code a =
     (case ar_reset a of
        None \<Rightarrow> None
      | Some p \<Rightarrow>
          if code = response_ok then Some [FinishReset (pr_id p) None]
          else if code = response_error then Some [FinishReset (pr_id p) (Some PathResetFirmware)]
          else None)"

definition handle_contact_response :: "bytes \<Rightarrow> arbiter \<Rightarrow> arbiter" where
  "handle_contact_response frame a =
     (if length frame \<noteq> new_advert_length \<or> frame ! 0 \<noteq> response_contact then a
      else case ar_request a of
        None \<Rightarrow> a
      | Some q \<Rightarrow>
          if \<not> tq_awaiting q \<or> slice 1 33 frame \<noteq> tq_target q then a
          else complete_route_snapshot (tq_id q) (route_from_contact (frame ! 35) (slice 36 100 frame)) a)"

text \<open>\<open>RESP_CODE_SENT\<close> says whether the request was flooded.\<close>

definition note_sent_route :: "bytes \<Rightarrow> telemetry_request \<Rightarrow> telemetry_request" where
  "note_sent_route p q =
     (if p ! 1 \<noteq> 0 then q\<lparr> tq_route := route_of Flood [] ResponseSentSource \<rparr>
      else if re_mode (tq_route q) = ZeroHop \<or> re_mode (tq_route q) = ExplicitPath
      then q\<lparr> tq_route := (tq_route q)\<lparr> re_source := ContactAndResponseSent \<rparr> \<rparr>
      else q\<lparr> tq_route := unknown_route ResponseSentDirectUnavailable \<rparr>)"

text \<open>What the reader still has to do for a command response after its first critical section.\<close>

datatype command_rest = CommandError bytes "telemetry_request option" | CommandSent bytes

definition command_first :: "bytes \<Rightarrow> arbiter \<Rightarrow> arbiter \<times> command_rest option" where
  "command_first p a =
     (case ar_request a of
        Some q \<Rightarrow>
          if tq_awaiting q then (complete_route_snapshot (tq_id q) no_route a, None)
          else
            (if p ! 0 = response_sent \<and> 2 \<le> length p then update_current (tq_id q) (note_sent_route p) a else a,
             if p ! 0 = response_error then Some (CommandError p (Some q))
             else if p ! 0 = response_sent then Some (CommandSent p) else None)
      | None \<Rightarrow>
          (a, if p ! 0 = response_error then Some (CommandError p None)
              else if p ! 0 = response_sent then Some (CommandSent p) else None))"

definition binary_request_unsupported :: "bytes \<Rightarrow> bool" where
  "binary_request_unsupported p = (2 \<le> length p \<and> p ! 1 = 1)"

text \<open>A rejected binary request falls back to the legacy one, which is written at once; \<open>written\<close>
  says whether the link took it. The last component is what is written. The code checks twice that the request
  is current, before it changes the mode and before it writes; here both are one step, so the case of a request that ends
  between the two and is not written any more is left out.\<close>

definition command_error ::
  "bytes \<Rightarrow> telemetry_request option \<Rightarrow> bool \<Rightarrow> arbiter \<Rightarrow> arbiter \<times> finish list \<times> bytes list" where
  "command_error p request written a =
     (case request of
        Some q \<Rightarrow>
          if tq_mode q = BinaryRequest \<and> binary_request_unsupported p
          then (case current (tq_id q) a of
                  None \<Rightarrow> (a, [], [])
                | Some _ \<Rightarrow>
                    (update_current (tq_id q)
                       (\<lambda>r. r\<lparr> tq_mode := LegacyRequest, tq_tag_known := False,
                              tq_fallback := ''unsupported_command'' \<rparr>)
                       (a\<lparr> ar_capability := BinaryUnsupported \<rparr>),
                     if written then [] else [FinishTelemetry (tq_id q) blank_result (Some AdapterDisconnected)],
                     [build_telemetry_request (tq_target q)]))
          else (a, finish_current (Some TelemetryFirmware) a, [])
      | None \<Rightarrow> (a, finish_current (Some TelemetryFirmware) a, []))"

definition suggested_timeout :: "bytes \<Rightarrow> telemetry_mode \<Rightarrow> duration option" where
  "suggested_timeout p mode =
     (let requested = int (le_value (slice 6 10 p)) * millisecond
      in if requested \<le> 0 \<or> default_telemetry_timeout \<le> requested then None
         else Some (max requested minimum_telemetry_timeout
                    + (if mode = BinaryRequest then binary_telemetry_guard else 0)))"

definition arm_suggested :: "bytes \<Rightarrow> telemetry_request \<Rightarrow> telemetry_request" where
  "arm_suggested p q =
     (if tq_suggested q = None then q\<lparr> tq_suggested := suggested_timeout p (tq_mode q) \<rparr> else q)"

definition command_sent :: "bytes \<Rightarrow> time \<Rightarrow> arbiter \<Rightarrow> arbiter \<times> finish list" where
  "command_sent p now a =
     (if length p < 10 then (a, finish_current (Some InvalidPayload) a)
      else case ar_request a of
        None \<Rightarrow> (a, [])
      | Some q \<Rightarrow>
          if tq_mode q = BinaryRequest
          then
            let tag = int32_le (slice 2 6 p); a = prune_tags now a
            in if ar_expired a tag \<noteq> None
               then (a, [FinishTelemetry (tq_id q) blank_result (Some TelemetryFirmware)])
               else (a\<lparr> ar_capability := BinarySupported,
                        ar_request := Some (arm_suggested p (q\<lparr> tq_tag := tag, tq_tag_known := True \<rparr>)) \<rparr>, [])
          else (a\<lparr> ar_request := Some (arm_suggested p q) \<rparr>, []))"

end
