(* ===== verification/MeshSystem.thy ===== *)
theory MeshSystem
  imports MeshArbiter
begin

text \<open>
  The MeshCore adapter around the arbiter: the reader goroutine (\<open>consume\<close> in
  \<open>internal/meshcore/adapter.go\<close>, as far as the session and telemetry go), the goroutines that request
  telemetry or a path reset, and the timers. A step is one critical section of one of them; the reader
  works off the rest of a frame before it reads the next one, while the others come in between. Each
  step reads the clock once.
\<close>

section \<open>The system\<close>

datatype reader_task =
  TaskFinish finish
| TaskCommand command_rest
| TaskFinishCurrentReset
| TaskFinishCurrent
| TaskDisconnect

text \<open>What the requester receives from its channel, with the request as it was finished, and when.\<close>

record completion =
  co_id :: nat
  co_result :: telemetry_result
  co_error :: "telemetry_error option"
  co_request :: telemetry_request

record mesh_system =
  ms_session :: companion_session
  ms_arbiter :: arbiter
  ms_reader :: "reader_task list"
  ms_written :: "bytes list"
  ms_done :: "completion list"
  ms_reset_done :: "(nat \<times> telemetry_error option) list"
  ms_tags :: "(32 word \<times> time) list"

datatype mesh_step =
  StepRequest string bool
| StepReset string bool
| StepRequestedAt nat
| StepCapture nat
| StepSnapshotFailed nat
| StepRouteAttempt nat
| StepAbort nat telemetry_error
| StepAbortReset nat telemetry_error
| StepConnect string transport_metadata
| StepFrame bytes
| StepReadFailed
| StepReader bool

definition new_system :: "string \<Rightarrow> transport_metadata \<Rightarrow> duration \<Rightarrow> mesh_system" where
  "new_system app m window =
     \<lparr> ms_session = new_session app m, ms_arbiter = new_arbiter window, ms_reader = [], ms_written = [],
       ms_done = [], ms_reset_done = [], ms_tags = [] \<rparr>"

definition on_arbiter :: "(arbiter \<Rightarrow> arbiter) \<Rightarrow> mesh_system \<Rightarrow> mesh_system" where
  "on_arbiter f S = S\<lparr> ms_arbiter := f (ms_arbiter S) \<rparr>"

definition run_finish :: "time \<Rightarrow> finish \<Rightarrow> mesh_system \<Rightarrow> mesh_system" where
  "run_finish now f S =
     (case f of
        FinishTelemetry i r e \<Rightarrow>
          (case current i (ms_arbiter S) of
             None \<Rightarrow> S
           | Some q \<Rightarrow>
               let (a, answer) = finish_telemetry i r now (ms_arbiter S)
               in S\<lparr> ms_arbiter := a,
                     ms_done := ms_done S
                       @ (case answer of
                            None \<Rightarrow> []
                          | Some r' \<Rightarrow> [\<lparr> co_id = i, co_result = r', co_error = e, co_request = q \<rparr>]),
                     ms_tags := ms_tags S @ (if tq_mode q = BinaryRequest \<and> tq_tag_known q
                                             then [(tq_tag q, now)] else []) \<rparr>)
      | FinishReset i e \<Rightarrow>
          let (a, answered) = finish_reset i (ms_arbiter S)
          in S\<lparr> ms_arbiter := a, ms_reset_done := ms_reset_done S @ (if answered then [(i, e)] else []) \<rparr>)"

text \<open>\<open>handleTelemetryCommandResponse\<close> up to the end of its first critical section.\<close>

definition command_begin :: "bytes \<Rightarrow> arbiter \<Rightarrow> arbiter \<times> reader_task list" where
  "command_begin p a =
     (case handle_reset_command (p ! 0) a of
        Some fs \<Rightarrow> (a, map TaskFinish fs)
      | None \<Rightarrow>
          if p ! 0 = response_contact then (handle_contact_response p a, [])
          else case command_first p a of
            (a, None) \<Rightarrow> (a, [])
          | (a, Some c) \<Rightarrow> (a, [TaskCommand c]))"

definition push_begin :: "mesh_crypto \<Rightarrow> time \<Rightarrow> bytes \<Rightarrow> arbiter \<Rightarrow> arbiter \<times> reader_task list" where
  "push_begin k now p a =
     (if p ! 0 = push_telemetry_response then (a, map TaskFinish (handle_telemetry_response p now a))
      else if p ! 0 = push_binary_response
      then (let (a, fs) = handle_binary_response p now (ar_sequence a) a in (a, map TaskFinish fs))
      else if p ! 0 = push_log_rx_data then (record_raw_rx k p now (ar_sequence a) a, [])
      else (a, []))"

definition close_tasks :: "reader_task list" where
  "close_tasks = [TaskFinishCurrentReset, TaskFinishCurrent, TaskDisconnect]"

text \<open>A damaged push of a ready session is skipped; any other error ends the connection.\<close>

definition skips_error :: "companion_session \<Rightarrow> session_error \<Rightarrow> bool" where
  "skips_error s e =
     (cs_state s = Ready \<and> (case e of UnsupportedPush _ \<Rightarrow> True | InvalidPush _ _ \<Rightarrow> True | _ \<Rightarrow> False))"

definition read_one :: "mesh_crypto \<Rightarrow> time \<Rightarrow> bytes \<Rightarrow> mesh_system \<Rightarrow> mesh_system" where
  "read_one k now p S =
     (let a = next_frame (ms_arbiter S); (s, r) = handle_frame p (ms_session S)
      in case r of
           Inl e \<Rightarrow> S\<lparr> ms_session := s, ms_arbiter := a,
                       ms_reader := (if skips_error s e then [] else close_tasks) \<rparr>
         | Inr h \<Rightarrow>
             let (a, ts) = (case hr_response h of
                              Some q \<Rightarrow> command_begin q a
                            | None \<Rightarrow> (case hr_push h of Some q \<Rightarrow> push_begin k now q a | None \<Rightarrow> (a, [])))
             in S\<lparr> ms_session := s, ms_arbiter := a, ms_reader := ts,
                   ms_written := ms_written S @ (if hr_outbound h = [] then [] else [hr_outbound h]) \<rparr>)"

fun reader_do :: "time \<Rightarrow> bool \<Rightarrow> reader_task \<Rightarrow> mesh_system \<Rightarrow> mesh_system" where
  "reader_do now written (TaskFinish f) S = run_finish now f S"
| "reader_do now written (TaskCommand (CommandError p q)) S =
     (let (a, fs, ws) = command_error p q written (ms_arbiter S)
      in S\<lparr> ms_arbiter := a, ms_reader := map TaskFinish fs @ ms_reader S, ms_written := ms_written S @ ws \<rparr>)"
| "reader_do now written (TaskCommand (CommandSent p)) S =
     (let (a, fs) = command_sent p now (ms_arbiter S)
      in S\<lparr> ms_arbiter := a, ms_reader := map TaskFinish fs @ ms_reader S \<rparr>)"
| "reader_do now written TaskFinishCurrentReset S =
     S\<lparr> ms_reader := map TaskFinish (finish_current_reset (Some AdapterDisconnected) (ms_arbiter S)) @ ms_reader S \<rparr>"
| "reader_do now written TaskFinishCurrent S =
     S\<lparr> ms_reader := map TaskFinish (finish_current (Some AdapterDisconnected) (ms_arbiter S)) @ ms_reader S \<rparr>"
| "reader_do now written TaskDisconnect S = S\<lparr> ms_session := disconnect_session (ms_session S) \<rparr>"

fun mesh_do :: "mesh_crypto \<Rightarrow> time \<Rightarrow> mesh_step \<Rightarrow> mesh_system \<Rightarrow> mesh_system" where
  "mesh_do k now (StepRequest v connected) S =
     (case begin_telemetry v connected (ms_arbiter S) of Inl _ \<Rightarrow> S | Inr (_, a) \<Rightarrow> S\<lparr> ms_arbiter := a \<rparr>)"
| "mesh_do k now (StepReset v connected) S =
     (case begin_reset v connected (ms_arbiter S) of Inl _ \<Rightarrow> S | Inr (_, a) \<Rightarrow> S\<lparr> ms_arbiter := a \<rparr>)"
| "mesh_do k now (StepRequestedAt i) S = on_arbiter (set_requested_at i now) S"
| "mesh_do k now (StepCapture i) S = on_arbiter (capture_route i) S"
| "mesh_do k now (StepSnapshotFailed i) S = on_arbiter (complete_route_snapshot i no_route) S"
| "mesh_do k now (StepRouteAttempt i) S = on_arbiter (set_route_attempt i) S"
| "mesh_do k now (StepAbort i e) S = run_finish now (FinishTelemetry i blank_result (Some e)) S"
| "mesh_do k now (StepAbortReset i e) S = run_finish now (FinishReset i (Some e)) S"
| "mesh_do k now (StepConnect app m) S =
     (if ms_reader S \<noteq> [] then S
      else S\<lparr> ms_session := fst (begin_session (new_session app m)),
              ms_arbiter := begin_connection (ms_arbiter S), ms_tags := [],
              ms_written := ms_written S @ [snd (begin_session (new_session app m))] \<rparr>)"
| "mesh_do k now (StepFrame p) S = (if ms_reader S \<noteq> [] then S else read_one k now p S)"
| "mesh_do k now StepReadFailed S = (if ms_reader S \<noteq> [] then S else S\<lparr> ms_reader := close_tasks \<rparr>)"
| "mesh_do k now (StepReader written) S =
     (case ms_reader S of [] \<Rightarrow> S | t # ts \<Rightarrow> reader_do now written t (S\<lparr> ms_reader := ts \<rparr>))"

fun run_mesh :: "mesh_crypto \<Rightarrow> (time \<times> mesh_step) list \<Rightarrow> mesh_system \<Rightarrow> mesh_system" where
  "run_mesh k [] S = S"
| "run_mesh k ((now, s) # ss) S = run_mesh k ss (mesh_do k now s S)"

lemma run_mesh_append: "run_mesh k (xs @ ys) S = run_mesh k ys (run_mesh k xs S)"
  by (induction xs arbitrary: S) auto

section \<open>Every call is answered once\<close>

definition outstanding :: "arbiter \<Rightarrow> nat list" where
  "outstanding a =
     (case ar_request a of None \<Rightarrow> [] | Some q \<Rightarrow> [tq_id q])
     @ (case ar_reset a of None \<Rightarrow> [] | Some p \<Rightarrow> [pr_id p])"

definition answered :: "mesh_system \<Rightarrow> nat list" where
  "answered S = map co_id (ms_done S) @ map fst (ms_reset_done S)"

definition calls_ok :: "mesh_system \<Rightarrow> bool" where
  "calls_ok S =
     (let a = ms_arbiter S in
      length (outstanding a) \<le> 1 \<and> distinct (outstanding a @ answered S)
      \<and> set (outstanding a @ answered S) = {..<ar_next a})"

text \<open>Steps that leave the calls alone, and may change the other fields of the current request.\<close>

definition same_calls :: "arbiter \<Rightarrow> arbiter \<Rightarrow> bool" where
  "same_calls a b = (outstanding b = outstanding a \<and> ar_next b = ar_next a)"

lemma current_Some: "current i a = Some q \<longleftrightarrow> ar_request a = Some q \<and> tq_id q = i"
  by (auto simp: current_def split: option.splits)

lemma same_calls_refl [simp]: "same_calls a a"
  by (simp add: same_calls_def)

lemma same_calls_trans: "same_calls a b \<Longrightarrow> same_calls b c \<Longrightarrow> same_calls a c"
  by (simp add: same_calls_def)

lemma same_calls_request:
  "ar_request a = Some q \<Longrightarrow> ar_request b = Some r \<Longrightarrow> tq_id r = tq_id q \<Longrightarrow> ar_reset b = ar_reset a
   \<Longrightarrow> ar_next b = ar_next a \<Longrightarrow> same_calls a b"
  by (simp add: same_calls_def outstanding_def)

lemma same_calls_others:
  "ar_request b = ar_request a \<Longrightarrow> ar_reset b = ar_reset a \<Longrightarrow> ar_next b = ar_next a \<Longrightarrow> same_calls a b"
  by (simp add: same_calls_def outstanding_def)

lemma same_calls_update: "(\<And>q. tq_id (f q) = tq_id q) \<Longrightarrow> same_calls a (update_current i f a)"
  by (auto simp: update_current_def current_Some same_calls_def outstanding_def split: option.splits)

lemma same_calls_sections [intro]:
  "same_calls a (set_requested_at i now a)" "same_calls a (capture_route i a)"
  "same_calls a (complete_route_snapshot i e a)" "same_calls a (set_route_attempt i a)"
  "same_calls a (begin_connection a)" "same_calls a (next_frame a)" "same_calls a (prune_tags now a)"
  "same_calls a (record_raw_rx k p now sq a)" "same_calls a (handle_contact_response p a)"
  unfolding set_requested_at_def capture_route_def complete_route_snapshot_def set_route_attempt_def
    handle_contact_response_def record_raw_rx_def Let_def
  by (auto intro!: same_calls_update same_calls_others split: option.splits
      simp: begin_connection_def next_frame_def prune_tags_def)

lemma same_calls_correlate: "same_calls a (fst (correlate_rf q at sq a))"
  by (auto simp: correlate_rf_def Let_def intro: same_calls_others split: list.splits)

lemma same_calls_binary: "same_calls a (fst (handle_binary_response p at sq a))"
proof -
  have "same_calls a (fst (correlate_rf q at sq (prune_tags at a)))" for q
    by (rule same_calls_trans [OF _ same_calls_correlate]) blast
  then show ?thesis
    by (auto simp: handle_binary_response_def Let_def split: prod.splits option.splits)
      (metis fst_conv)
qed

lemma same_calls_command_first: "same_calls a (fst (command_first p a))"
  by (auto simp: command_first_def note_sent_route_def split: option.splits intro: same_calls_update)

lemma same_calls_command_error: "same_calls a (fst (command_error p q w a))"
  by (auto simp: command_error_def update_current_def current_Some split: option.splits
      intro!: same_calls_request)

lemma same_calls_command_sent: "same_calls a (fst (command_sent p now a))"
  by (auto simp: command_sent_def Let_def prune_tags_def arm_suggested_def same_calls_def outstanding_def
      split: option.splits)

lemma calls_ok_same:
  "calls_ok S \<Longrightarrow> same_calls (ms_arbiter S) (ms_arbiter T) \<Longrightarrow> answered T = answered S \<Longrightarrow> calls_ok T"
  by (simp add: calls_ok_def same_calls_def Let_def)

lemma calls_ok_arbiter:
  "calls_ok S \<Longrightarrow> same_calls (ms_arbiter S) (ms_arbiter T) \<Longrightarrow> ms_done T = ms_done S
   \<Longrightarrow> ms_reset_done T = ms_reset_done S \<Longrightarrow> calls_ok T"
  by (rule calls_ok_same) (simp_all add: answered_def)

lemma calls_ok_begin:
  assumes "calls_ok S" "outstanding (ms_arbiter S) = []" "outstanding a = [ar_next (ms_arbiter S)]"
    "ar_next a = ar_next (ms_arbiter S) + 1"
  shows "calls_ok (S\<lparr> ms_arbiter := a \<rparr>)"
  using assms by (auto simp: calls_ok_def answered_def Let_def)

lemma calls_ok_finish: "calls_ok S \<Longrightarrow> calls_ok (run_finish now f S)"
proof (cases f)
  case (FinishTelemetry i r e)
  assume c: "calls_ok S"
  show ?thesis
  proof (cases "current i (ms_arbiter S)")
    case None
    then show ?thesis using c by (simp add: FinishTelemetry run_finish_def)
  next
    case (Some q)
    then have q: "ar_request (ms_arbiter S) = Some q" "tq_id q = i" by (simp_all add: current_Some)
    with c have r: "ar_reset (ms_arbiter S) = None"
      by (auto simp: calls_ok_def outstanding_def Let_def split: option.splits)
    show ?thesis
      using c q r unfolding FinishTelemetry
      by (auto simp: run_finish_def finish_telemetry_def Some calls_ok_def answered_def outstanding_def Let_def)
  qed
next
  case (FinishReset i e)
  assume c: "calls_ok S"
  show ?thesis
  proof (cases "ar_reset (ms_arbiter S)")
    case None
    then show ?thesis using c by (simp add: FinishReset run_finish_def finish_reset_def)
  next
    case (Some p)
    with c have r: "ar_request (ms_arbiter S) = None"
      by (auto simp: calls_ok_def outstanding_def Let_def split: option.splits)
    show ?thesis
      using c Some r unfolding FinishReset
      by (auto simp: run_finish_def finish_reset_def calls_ok_def answered_def outstanding_def Let_def)
  qed
qed

lemma same_calls_begins: "same_calls a (fst (command_begin p a))" "same_calls a (fst (push_begin k now p a))"
  using same_calls_command_first [of a p] same_calls_binary [of a p now "ar_sequence a"]
  by (auto simp: command_begin_def push_begin_def split: option.splits prod.splits)

lemma same_calls_begun:
  "command_begin p a = (b, ts) \<Longrightarrow> same_calls a b" "push_begin k now p a = (b, ts) \<Longrightarrow> same_calls a b"
  using same_calls_begins [where a = a] by (metis fst_conv)+

lemma calls_ok_read:
  assumes "calls_ok S"
  shows "calls_ok (read_one k now p S)"
proof -
  have n: "same_calls (ms_arbiter S) (next_frame (ms_arbiter S))" by blast
  have "same_calls (ms_arbiter S) (ms_arbiter (read_one k now p S))"
    using n unfolding read_one_def Let_def
    by (auto split: prod.splits sum.splits option.splits dest!: same_calls_begun intro: same_calls_trans)
  moreover have "answered (read_one k now p S) = answered S"
    by (simp add: read_one_def Let_def answered_def split: prod.splits sum.splits option.splits)
  ultimately show ?thesis using assms by (rule calls_ok_same [rotated])
qed

lemma calls_ok_reader: "calls_ok S \<Longrightarrow> calls_ok (reader_do now w t S)"
proof (cases t)
  case (TaskCommand c)
  assume "calls_ok S"
  moreover have "same_calls (ms_arbiter S) (ms_arbiter (reader_do now w t S))"
    unfolding TaskCommand
    using same_calls_command_error [of "ms_arbiter S"] same_calls_command_sent [of "ms_arbiter S"]
    by (cases c) (simp_all split: prod.splits, metis fst_conv, metis fst_conv)
  moreover have "answered (reader_do now w t S) = answered S"
    unfolding TaskCommand by (cases c) (simp_all add: answered_def split: prod.splits)
  ultimately show ?thesis by (rule calls_ok_same)
qed (simp_all add: calls_ok_finish, simp_all add: calls_ok_def answered_def Let_def)

lemma calls_ok_on:
  "calls_ok S \<Longrightarrow> same_calls (ms_arbiter S) (f (ms_arbiter S)) \<Longrightarrow> calls_ok (on_arbiter f S)"
  by (erule calls_ok_arbiter) (simp_all add: on_arbiter_def)

lemma calls_ok_step:
  assumes "calls_ok S"
  shows "calls_ok (mesh_do k now s S)"
proof (cases s)
  case (StepRequest v c)
  show ?thesis
  proof (cases "begin_telemetry v c (ms_arbiter S)")
    case (Inr r)
    obtain i a where r: "r = (i, a)" by (cases r)
    have "outstanding (ms_arbiter S) = []" "outstanding a = [ar_next (ms_arbiter S)]"
      "ar_next a = ar_next (ms_arbiter S) + 1"
      using Inr r by (auto simp: begin_telemetry_def res_simps busy_def outstanding_def)
    with Inr r show ?thesis using calls_ok_begin [OF assms] by (simp add: StepRequest)
  qed (simp add: StepRequest assms)
next
  case (StepReset v c)
  show ?thesis
  proof (cases "begin_reset v c (ms_arbiter S)")
    case (Inr r)
    obtain i a where r: "r = (i, a)" by (cases r)
    have "outstanding (ms_arbiter S) = []" "outstanding a = [ar_next (ms_arbiter S)]"
      "ar_next a = ar_next (ms_arbiter S) + 1"
      using Inr r by (auto simp: begin_reset_def res_simps busy_def outstanding_def)
    with Inr r show ?thesis using calls_ok_begin [OF assms] by (simp add: StepReset)
  qed (simp add: StepReset assms)
next
  case (StepReader w)
  show ?thesis
  proof (cases "ms_reader S")
    case (Cons t ts)
    have "calls_ok (S\<lparr> ms_reader := ts \<rparr>)" using assms by (simp add: calls_ok_def answered_def)
    then show ?thesis by (simp add: StepReader Cons calls_ok_reader)
  qed (simp add: StepReader assms)
next
  case (StepConnect app m)
  then show ?thesis
    using calls_ok_arbiter [OF assms, of "mesh_do k now s S"] same_calls_sections(5) [of "ms_arbiter S"] assms
    by (cases "ms_reader S = []") simp_all
next
  case StepReadFailed
  then show ?thesis using calls_ok_arbiter [OF assms, of "mesh_do k now s S"] by simp
qed (use assms in \<open>auto simp: calls_ok_finish calls_ok_read intro: calls_ok_on\<close>)

lemma calls_ok_run: "calls_ok S \<Longrightarrow> calls_ok (run_mesh k hist S)"
proof (induction hist arbitrary: S)
  case (Cons h hist)
  obtain now s where h: "h = (now, s)" by (cases h)
  show ?case using Cons.IH [OF calls_ok_step [OF Cons.prems]] by (simp add: h)
qed simp

lemma calls_ok_new: "calls_ok (new_system app m window)"
  by (simp add: calls_ok_def new_system_def new_arbiter_def outstanding_def answered_def)

end
