(* ===== verification/MeshAnswers.thy ===== *)
theory MeshAnswers
  imports MeshSystem
begin

text \<open>
  What every history of the MeshCore adapter keeps: a successful answer rests on a frame that identifies
  its request, and a tag that was used is retained for 45 seconds.
\<close>

section \<open>What an answer rests on\<close>

text \<open>The frame of a successful answer identifies the request: by the prefix of the key, or by its tag.\<close>

definition legacy_evidence :: "telemetry_request \<Rightarrow> telemetry_result \<Rightarrow> bool" where
  "legacy_evidence q r =
     (tq_mode q = LegacyRequest \<and> 8 \<le> length (tr_raw r) \<and> tr_raw r ! 0 = push_telemetry_response
      \<and> slice 2 8 (tr_raw r) = take 6 (tq_target q)
      \<and> parse_telemetry_lpp (drop 8 (tr_raw r)) = (tr_telemetry r, None))"

definition binary_evidence :: "telemetry_request \<Rightarrow> telemetry_result \<Rightarrow> bool" where
  "binary_evidence q r =
     (tq_mode q = BinaryRequest \<and> tq_tag_known q \<and> 6 \<le> length (tr_raw r)
      \<and> tr_raw r ! 0 = push_binary_response \<and> int32_le (slice 2 6 (tr_raw r)) = tq_tag q
      \<and> tr_request_tag r = Some (tq_tag q) \<and> tr_response_tag r = Some (tq_tag q)
      \<and> parse_telemetry_lpp (drop 6 (tr_raw r)) = (tr_telemetry r, None))"

definition evidenced :: "telemetry_request \<Rightarrow> telemetry_result \<Rightarrow> bool" where
  "evidenced q r = (legacy_evidence q r \<or> binary_evidence q r)"

definition answer_ok :: "completion \<Rightarrow> bool" where
  "answer_ok c =
     (co_error c = None \<longrightarrow> evidenced (co_request c) (co_result c)
        \<and> tr_target (co_result c) = hex_bytes (tq_target (co_request c))
        \<and> tr_tagged (co_result c) = (tq_mode (co_request c) = BinaryRequest))"

fun is_success :: "reader_task \<Rightarrow> bool" where
  "is_success (TaskFinish (FinishTelemetry i r None)) = True"
| "is_success _ = False"

text \<open>A success the reader is about to deliver fits the request, if that is still the current one.\<close>

fun pending_ok :: "arbiter \<Rightarrow> reader_task list \<Rightarrow> bool" where
  "pending_ok a [TaskFinish (FinishTelemetry i r None)] =
     (i < ar_next a
      \<and> (\<forall>q. current i a = Some q \<longrightarrow> evidenced q r \<and> tr_tagged r = (tq_mode q = BinaryRequest)))"
| "pending_ok a ts = (\<forall>t \<in> set ts. \<not> is_success t)"

definition answers_ok :: "mesh_system \<Rightarrow> bool" where
  "answers_ok S = (list_all answer_ok (ms_done S) \<and> pending_ok (ms_arbiter S) (ms_reader S))"

text \<open>What the evidence depends on is only written by the reader.\<close>

definition same_core :: "arbiter \<Rightarrow> arbiter \<Rightarrow> bool" where
  "same_core a b =
     (ar_next a \<le> ar_next b
      \<and> (\<forall>i q. current i b = Some q \<longrightarrow> i < ar_next a \<longrightarrow>
           (\<exists>p. current i a = Some p \<and> tq_target p = tq_target q \<and> tq_mode p = tq_mode q
              \<and> tq_tag p = tq_tag q \<and> tq_tag_known p = tq_tag_known q)))"

lemma same_core_refl [simp]: "same_core a a"
  by (simp add: same_core_def)

lemma evidenced_core:
  "tq_target p = tq_target q \<Longrightarrow> tq_mode p = tq_mode q \<Longrightarrow> tq_tag p = tq_tag q
   \<Longrightarrow> tq_tag_known p = tq_tag_known q \<Longrightarrow> evidenced p r = evidenced q r"
  by (simp add: evidenced_def legacy_evidence_def binary_evidence_def)

lemma pending_ok_same: "pending_ok a ts \<Longrightarrow> same_core a b \<Longrightarrow> pending_ok b ts"
proof (induction a ts rule: pending_ok.induct)
  case (1 a i r)
  then show ?case
    unfolding pending_ok.simps same_core_def by (metis evidenced_core order_less_le_trans)
qed auto

lemma pending_ok_failures: "\<forall>t \<in> set ts. \<not> is_success t \<Longrightarrow> pending_ok a ts"
  by (cases "(a, ts)" rule: pending_ok.cases) auto

lemma same_core_update:
  "(\<And>q. tq_id (f q) = tq_id q \<and> tq_target (f q) = tq_target q \<and> tq_mode (f q) = tq_mode q
        \<and> tq_tag (f q) = tq_tag q \<and> tq_tag_known (f q) = tq_tag_known q)
   \<Longrightarrow> same_core a (update_current i f a)"
  by (auto simp: update_current_def same_core_def current_Some split: option.splits)

lemma same_core_sections [intro]:
  "same_core a (set_requested_at i now a)" "same_core a (capture_route i a)"
  "same_core a (complete_route_snapshot i e a)" "same_core a (set_route_attempt i a)"
  unfolding set_requested_at_def capture_route_def complete_route_snapshot_def set_route_attempt_def
  by (auto intro!: same_core_update split: option.splits if_splits)

lemma same_core_finish: "same_core (ms_arbiter S) (ms_arbiter (run_finish now f S))"
  by (cases f) (auto simp: run_finish_def finish_telemetry_def finish_reset_def same_core_def current_Some Let_def
      split: option.splits)

lemma same_core_begin:
  "begin_telemetry v c a = Inr (i, b) \<Longrightarrow> same_core a b"
  "begin_reset v c a = Inr (i, b) \<Longrightarrow> same_core a b"
  by (auto simp: begin_telemetry_def begin_reset_def res_simps same_core_def current_Some)

text \<open>The handlers of responses only promise evidenced successes.\<close>

lemma legacy_pending:
  assumes "\<And>q. ar_request a = Some q \<Longrightarrow> tq_id q < ar_next a"
  shows "pending_ok a (map TaskFinish (handle_telemetry_response p now a))"
proof (cases "parse_telemetry_response p now")
  case (Inl e)
  then show ?thesis
    by (cases "ar_request a") (simp_all add: handle_telemetry_response_def finish_current_def)
next
  case (Inr r)
  then obtain t where r: "8 \<le> length p" "p ! 0 = push_telemetry_response"
    "parse_telemetry_lpp (drop 8 p) = (t, None)" "snd r = slice 2 8 p"
    "tr_raw (fst r) = p" "tr_telemetry (fst r) = t" "\<not> tr_tagged (fst r)"
    by (auto simp: parse_telemetry_response_def blank_result_def Let_def split: if_splits prod.splits option.splits)
  then show ?thesis
    using assms Inr
    by (cases "ar_request a"; cases r)
      (auto simp: handle_telemetry_response_def current_Some evidenced_def legacy_evidence_def)
qed

lemma current_correlate: "current i (fst (correlate_rf q at sq a)) = current i a"
  "ar_next (fst (correlate_rf q at sq a)) = ar_next a"
  by (auto simp: correlate_rf_def Let_def current_def split: list.splits)

lemma binary_pending:
  assumes "\<And>q. ar_request a = Some q \<Longrightarrow> tq_id q < ar_next a" "handle_binary_response p now sq a = (b, fs)"
  shows "pending_ok b (map TaskFinish fs)"
proof -
  define tag where "tag = int32_le (slice 2 6 p)"
  consider "\<forall>t \<in> set (map TaskFinish fs). \<not> is_success t"
    | t q' where "6 \<le> length p" "p ! 0 = push_binary_response" "parse_telemetry_lpp (drop 6 p) = (t, None)"
      "ar_request a = Some q'" "tag_matches tag q'" "b = fst (correlate_rf q' now sq (prune_tags now a))"
      "fs = [FinishTelemetry (tq_id q') (binary_result q' p now t (snd (correlate_rf q' now sq (prune_tags now a)))) None]"
  proof (cases "length p < 6 \<or> p ! 0 \<noteq> push_binary_response")
    case True
    then show ?thesis using assms(2) that(1) by (simp add: handle_binary_response_def)
  next
    case False
    obtain t e where t: "parse_telemetry_lpp (drop 6 p) = (t, e)" by fastforce
    show ?thesis
    proof (cases e)
      case (Some x)
      then show ?thesis
        using assms(2) False t that(1)
        by (cases "ar_request a") (auto simp: handle_binary_response_def Let_def split: if_splits)
    next
      case None
      show ?thesis
      proof (cases "\<exists>q'. ar_request a = Some q' \<and> tag_matches tag q' \<and> ar_expired (prune_tags now a) tag = None")
        case True
        then obtain q' where q': "ar_request a = Some q'" "tag_matches tag q'" "ar_expired (prune_tags now a) tag = None"
          by blast
        have "ar_request (prune_tags now a) = Some q'" using q'(1) by (simp add: prune_tags_def)
        then show ?thesis
          using assms(2) False t None q' by (intro that(2) [of t q'])
            (simp_all add: handle_binary_response_def tag_def [symmetric] Let_def split: prod.splits)
      next
        case bad: False
        have "ar_request (prune_tags now a) = ar_request a" by (simp add: prune_tags_def)
        then have "fs = []"
          using assms(2) False t None bad
          by (cases "ar_request a") (auto simp: handle_binary_response_def tag_def Let_def split: if_splits)
        then show ?thesis by (intro that(1)) simp
      qed
    qed
  qed
  then show ?thesis
  proof cases
    case 1
    then show ?thesis by (rule pending_ok_failures)
  next
    case 2
    have c: "current i b = current i a" "ar_next b = ar_next a" for i
      unfolding 2(6) current_correlate by (simp_all add: prune_tags_def current_def)
    show ?thesis
      using 2(1-5) assms(1) unfolding 2(7)
      by (auto simp: c current_Some evidenced_def binary_evidence_def binary_result_def tag_def tag_matches_def Let_def)
  qed
qed

lemma pending_ok_Cons:
  "pending_ok a (t # ts) \<Longrightarrow> (is_success t \<and> ts = []) \<or> (\<forall>u \<in> set (t # ts). \<not> is_success u)"
  by (cases "(a, t # ts)" rule: pending_ok.cases) auto

lemma finish_failures:
  "f \<in> set (finish_current (Some e) a) \<Longrightarrow> \<not> is_success (TaskFinish f)"
  "f \<in> set (finish_current_reset (Some e) a) \<Longrightarrow> \<not> is_success (TaskFinish f)"
  by (auto simp: finish_current_def finish_current_reset_def split: option.splits)

lemma command_failures:
  "command_error p q w a = (b, fs, ws) \<Longrightarrow> f \<in> set fs \<Longrightarrow> \<not> is_success (TaskFinish f)"
  "command_sent p now a = (b, fs) \<Longrightarrow> f \<in> set fs \<Longrightarrow> \<not> is_success (TaskFinish f)"
  "command_begin p a = (b, ts) \<Longrightarrow> u \<in> set ts \<Longrightarrow> \<not> is_success u"
  by (auto simp: command_error_def command_sent_def command_begin_def handle_reset_command_def Let_def
      dest: finish_failures split: option.splits if_splits prod.splits)

lemma finish_result_evidence:
  assumes "evidenced q r" "tr_tagged r = (tq_mode q = BinaryRequest)"
  shows "evidenced q (finish_result q r)" "tr_target (finish_result q r) = hex_bytes (tq_target q)"
    "tr_tagged (finish_result q r) = (tq_mode q = BinaryRequest)"
  using assms
  by (auto simp: evidenced_def legacy_evidence_def binary_evidence_def finish_result_def Let_def split: option.splits)

definition delivers_ok :: "arbiter \<Rightarrow> finish \<Rightarrow> bool" where
  "delivers_ok a f =
     (case f of
        FinishTelemetry i r None \<Rightarrow>
          \<forall>q. current i a = Some q \<longrightarrow> evidenced q r \<and> tr_tagged r = (tq_mode q = BinaryRequest)
      | _ \<Rightarrow> True)"

lemma run_finish_answers:
  assumes "list_all answer_ok (ms_done S)" "delivers_ok (ms_arbiter S) f"
  shows "list_all answer_ok (ms_done (run_finish now f S))"
proof (cases f)
  case (FinishTelemetry i r e)
  show ?thesis
  proof (cases "current i (ms_arbiter S)")
    case (Some q)
    have "answer_ok \<lparr> co_id = i, co_result = finish_result q r, co_error = e, co_request = q \<rparr>"
      using assms(2) Some finish_result_evidence [of q r]
      by (cases e) (auto simp: answer_ok_def delivers_ok_def FinishTelemetry)
    with assms(1) Some show ?thesis by (simp add: run_finish_def FinishTelemetry finish_telemetry_def)
  qed (use assms FinishTelemetry in \<open>simp add: run_finish_def\<close>)
qed (use assms in \<open>simp add: run_finish_def split: prod.splits\<close>)

lemma run_finish_reader [simp]: "ms_reader (run_finish now f S) = ms_reader S"
  by (cases f) (auto simp: run_finish_def Let_def split: option.splits prod.splits)

lemma answers_ok_fields:
  "answers_ok S \<Longrightarrow> same_core (ms_arbiter S) (ms_arbiter T) \<Longrightarrow> ms_done T = ms_done S
   \<Longrightarrow> ms_reader T = ms_reader S \<Longrightarrow> answers_ok T"
  by (auto simp: answers_ok_def intro: pending_ok_same)

lemma answers_ok_abort:
  "answers_ok S \<Longrightarrow> answers_ok (run_finish now (FinishTelemetry i r (Some e)) S)"
  "answers_ok S \<Longrightarrow> answers_ok (run_finish now (FinishReset i e') S)"
  using run_finish_answers [of S] same_core_finish [of S]
  by (auto simp: answers_ok_def delivers_ok_def intro: pending_ok_same)

lemma answers_ok_reader:
  assumes "answers_ok S" "ms_reader S = t # ts"
  shows "answers_ok (reader_do now w t (S\<lparr> ms_reader := ts \<rparr>))"
proof -
  let ?S = "S\<lparr> ms_reader := ts \<rparr>"
  have d: "list_all answer_ok (ms_done ?S)" using assms(1) by (simp add: answers_ok_def)
  have "pending_ok (ms_arbiter S) (t # ts)" using assms by (simp add: answers_ok_def)
  then consider i r where "t = TaskFinish (FinishTelemetry i r None)" "ts = []"
    "delivers_ok (ms_arbiter ?S) (FinishTelemetry i r None)"
    | "\<not> is_success t" "\<forall>u \<in> set ts. \<not> is_success u"
    by (cases "(ms_arbiter S, t # ts)" rule: pending_ok.cases) (auto simp: delivers_ok_def)
  then show ?thesis
  proof cases
    case 1
    then show ?thesis using run_finish_answers [OF d] by (simp add: answers_ok_def)
  next
    case 2
    then show ?thesis
    proof (cases t)
      case (TaskFinish f)
      then have "delivers_ok (ms_arbiter ?S) f"
        using 2 by (cases "TaskFinish f" rule: is_success.cases) (auto simp: delivers_ok_def split: option.splits)
      then show ?thesis
        using run_finish_answers [OF d] 2 TaskFinish by (simp add: answers_ok_def pending_ok_failures)
    next
      case (TaskCommand c)
      then show ?thesis
        using 2 d by (cases c) (auto simp: answers_ok_def split: prod.splits
            intro!: pending_ok_failures dest: command_failures)
    qed (use 2 d in \<open>auto simp: answers_ok_def intro!: pending_ok_failures dest: finish_failures\<close>)
  qed
qed

lemma calls_ok_fresh: "calls_ok S \<Longrightarrow> ar_request (ms_arbiter S) = Some q \<Longrightarrow> tq_id q < ar_next (ms_arbiter S)"
  by (auto simp: calls_ok_def outstanding_def Let_def)

lemma answers_ok_read:
  assumes "calls_ok S" "answers_ok S"
  shows "answers_ok (read_one k now p S)"
proof -
  let ?a = "next_frame (ms_arbiter S)"
  have fresh: "tq_id q < ar_next ?a" if "ar_request ?a = Some q" for q
    using calls_ok_fresh [OF assms(1)] that by (simp add: next_frame_def)
  have "pending_ok b ts" if "push_begin k now q ?a = (b, ts)" for q b ts
    using that legacy_pending [OF fresh] binary_pending [OF fresh]
    by (auto simp: push_begin_def split: if_splits prod.splits)
  moreover have "pending_ok b ts" if "command_begin q ?a = (b, ts)" for q b ts
    using that by (intro pending_ok_failures) (auto dest: command_failures)
  moreover have "pending_ok b close_tasks" for b
    by (rule pending_ok_failures) (auto simp: close_tasks_def)
  ultimately show ?thesis
    using assms(2)
    by (auto simp: answers_ok_def read_one_def Let_def split: prod.splits sum.splits option.splits)
qed

lemma answers_ok_step:
  assumes "calls_ok S" "answers_ok S"
  shows "answers_ok (mesh_do k now s S)"
proof (cases s)
  case (StepRequest v c)
  then show ?thesis
    using answers_ok_fields [OF assms(2), of "mesh_do k now s S"] assms(2) same_core_begin(1) [of v c "ms_arbiter S"]
    by (cases "begin_telemetry v c (ms_arbiter S)") auto
next
  case (StepReset v c)
  then show ?thesis
    using answers_ok_fields [OF assms(2), of "mesh_do k now s S"] assms(2) same_core_begin(2) [of v c "ms_arbiter S"]
    by (cases "begin_reset v c (ms_arbiter S)") auto
next
  case (StepReader w)
  then show ?thesis using assms answers_ok_reader by (cases "ms_reader S") simp_all
next
  case (StepConnect app m)
  then show ?thesis using assms by (auto simp: answers_ok_def)
next
  case (StepFrame p)
  then show ?thesis using assms answers_ok_read by simp
next
  case StepReadFailed
  then show ?thesis using assms(2) by (auto simp: answers_ok_def close_tasks_def)
qed (use assms(2) same_core_sections in
      \<open>auto simp: on_arbiter_def intro!: answers_ok_abort answers_ok_fields [OF assms(2)]\<close>)

lemma answers_ok_run: "calls_ok S \<Longrightarrow> answers_ok S \<Longrightarrow> answers_ok (run_mesh k hist S)"
proof (induction hist arbitrary: S)
  case (Cons h hist)
  obtain now s where h: "h = (now, s)" by (cases h)
  show ?case
    using Cons.IH [OF calls_ok_step answers_ok_step] Cons.prems by (simp add: h)
qed simp

lemma answers_ok_new: "answers_ok (new_system app m window)"
  by (simp add: answers_ok_def new_system_def)

section \<open>Tags\<close>

text \<open>A tag that was used is retained until 45 seconds have passed.\<close>

definition retained :: "time \<Rightarrow> arbiter \<Rightarrow> (32 word \<times> time) \<Rightarrow> bool" where
  "retained clock a u =
     (case u of (tag, t) \<Rightarrow>
        t + expired_tag_retention \<le> clock
        \<or> (\<exists>e. ar_expired a tag = Some e \<and> t + expired_tag_retention \<le> e))"

definition tags_ok :: "time \<Rightarrow> mesh_system \<Rightarrow> bool" where
  "tags_ok clock S =
     (list_all (retained clock (ms_arbiter S)) (ms_tags S) \<and> list_all (\<lambda>u. snd u \<le> clock) (ms_tags S))"

lemma retained_prune: "retained clock a u \<Longrightarrow> clock \<le> now \<Longrightarrow> retained now (prune_tags now a) u"
  by (auto simp: retained_def prune_tags_def split: prod.splits)

lemma retained_same: "retained clock a u \<Longrightarrow> clock \<le> now \<Longrightarrow> ar_expired b = ar_expired a \<Longrightarrow> retained now b u"
  by (auto simp: retained_def split: prod.splits)

definition keeps_tags :: "time \<Rightarrow> arbiter \<Rightarrow> arbiter \<Rightarrow> bool" where
  "keeps_tags now a b = (ar_expired b = ar_expired a \<or> ar_expired b = ar_expired (prune_tags now a))"

lemma keeps_tags_refl [simp]: "keeps_tags now a a"
  by (simp add: keeps_tags_def)

lemma tags_ok_keeps:
  assumes "tags_ok clock S" "clock \<le> now" "keeps_tags now (ms_arbiter S) (ms_arbiter T)" "ms_tags T = ms_tags S"
  shows "tags_ok now T"
proof -
  have "retained now (ms_arbiter T) u" if "retained clock (ms_arbiter S) u" for u
    using assms(3) retained_same [OF that assms(2), of "ms_arbiter T"]
      retained_same [OF retained_prune [OF that assms(2)] order_refl, of "ms_arbiter T"]
    by (auto simp: keeps_tags_def)
  then show ?thesis using assms(1,2,4) by (auto simp: tags_ok_def list_all_iff)
qed

lemma expired_update [simp]: "ar_expired (update_current i f a) = ar_expired a"
  by (simp add: update_current_def split: option.splits)

lemma expired_correlate [simp]: "ar_expired (fst (correlate_rf q at sq a)) = ar_expired a"
  by (auto simp: correlate_rf_def Let_def split: list.splits)

lemma keeps_sections [simp]:
  "keeps_tags now a (set_requested_at i t a)" "keeps_tags now a (capture_route i a)"
  "keeps_tags now a (complete_route_snapshot i e a)" "keeps_tags now a (set_route_attempt i a)"
  by (simp_all add: keeps_tags_def set_requested_at_def capture_route_def complete_route_snapshot_def
      set_route_attempt_def)

lemma keeps_commands:
  "command_begin p a = (b, ts) \<Longrightarrow> keeps_tags now a b"
  "command_error p q w a = (b, fs, ws) \<Longrightarrow> keeps_tags now a b"
  "command_sent p now a = (b, fs) \<Longrightarrow> keeps_tags now a b"
  by (auto simp: command_begin_def command_error_def command_sent_def command_first_def keeps_tags_def
      handle_contact_response_def complete_route_snapshot_def Let_def split: option.splits if_splits prod.splits)

lemma keeps_binary: "keeps_tags now a (fst (handle_binary_response p now sq a))"
  using expired_correlate [of _ now sq "prune_tags now a"]
  by (auto simp: handle_binary_response_def keeps_tags_def Let_def simp del: expired_correlate
      split: option.splits prod.splits)
    (metis fst_conv)+

lemma keeps_pushes: "push_begin k now p a = (b, ts) \<Longrightarrow> keeps_tags now a b"
  using keeps_binary [of now a p "ar_sequence a"]
  by (auto simp: push_begin_def record_raw_rx_def keeps_tags_def Let_def split: if_splits prod.splits)

lemma keeps_next: "keeps_tags now (next_frame a) b \<Longrightarrow> keeps_tags now a b"
  by (simp add: keeps_tags_def next_frame_def prune_tags_def)

lemma tags_ok_finish:
  assumes "tags_ok clock S" "clock \<le> now"
  shows "tags_ok now (run_finish now f S)"
proof (cases f)
  case (FinishTelemetry i r e)
  have keep: "tags_ok now S" using assms by (rule tags_ok_keeps) simp_all
  show ?thesis
  proof (cases "current i (ms_arbiter S)")
    case (Some q)
    let ?used = "tq_mode q = BinaryRequest \<and> tq_tag_known q"
    have "retained now (ms_arbiter (run_finish now f S)) u" if "retained now (ms_arbiter S) u" "snd u \<le> now" for u
      using that Some
      by (cases "fst u = tq_tag q") (auto simp: retained_def run_finish_def FinishTelemetry finish_telemetry_def)
    moreover have "?used \<Longrightarrow> retained now (ms_arbiter (run_finish now f S)) (tq_tag q, now)"
      using Some by (auto simp: retained_def run_finish_def FinishTelemetry finish_telemetry_def)
    ultimately show ?thesis
      using keep Some by (auto simp: tags_ok_def list_all_iff run_finish_def FinishTelemetry finish_telemetry_def)
  qed (use keep in \<open>simp add: run_finish_def FinishTelemetry\<close>)
next
  case (FinishReset i e)
  show ?thesis
    using assms by (rule tags_ok_keeps) (auto simp: run_finish_def FinishReset finish_reset_def keeps_tags_def
        split: option.splits)
qed

lemma tags_ok_fields:
  "tags_ok clock S \<Longrightarrow> ms_arbiter T = ms_arbiter S \<Longrightarrow> ms_tags T = ms_tags S \<Longrightarrow> tags_ok clock T"
  by (simp add: tags_ok_def)

lemma tags_ok_read:
  assumes "tags_ok clock S" "clock \<le> now"
  shows "tags_ok now (read_one k now p S)"
  using assms
proof (rule tags_ok_keeps)
  show "keeps_tags now (ms_arbiter S) (ms_arbiter (read_one k now p S))"
    by (rule keeps_next)
      (auto simp: read_one_def Let_def split: prod.splits sum.splits option.splits
        dest: keeps_commands(1) keeps_pushes)
  show "ms_tags (read_one k now p S) = ms_tags S"
    by (simp add: read_one_def Let_def split: prod.splits sum.splits option.splits)
qed

lemma tags_ok_reader:
  assumes "tags_ok clock S" "clock \<le> now"
  shows "tags_ok now (reader_do now w t S)"
proof (cases "\<exists>f. t = TaskFinish f")
  case True
  then show ?thesis using tags_ok_finish [OF assms] by auto
next
  case False
  from assms show ?thesis
  proof (rule tags_ok_keeps)
    show "keeps_tags now (ms_arbiter S) (ms_arbiter (reader_do now w t S))"
      using False by (cases "(now, w, t, S)" rule: reader_do.cases)
        (auto split: prod.splits dest: keeps_commands)
    show "ms_tags (reader_do now w t S) = ms_tags S"
      using False by (cases "(now, w, t, S)" rule: reader_do.cases) (auto split: prod.splits)
  qed
qed

lemma tags_ok_step:
  assumes "tags_ok clock S" "clock \<le> now"
  shows "tags_ok now (mesh_do k now s S)"
proof (cases s)
  case (StepRequest v c)
  show ?thesis
    using assms by (rule tags_ok_keeps)
      (auto simp: StepRequest begin_telemetry_def res_simps keeps_tags_def split: sum.splits)
next
  case (StepReset v c)
  show ?thesis
    using assms by (rule tags_ok_keeps)
      (auto simp: StepReset begin_reset_def res_simps keeps_tags_def split: sum.splits)
next
  case (StepConnect app m)
  show ?thesis
  proof (cases "ms_reader S = []")
    case True
    then show ?thesis by (simp add: StepConnect tags_ok_def)
  next
    case False
    show ?thesis using assms by (rule tags_ok_keeps) (simp_all add: StepConnect False)
  qed
next
  case (StepFrame p)
  show ?thesis
    using tags_ok_read [OF assms] tags_ok_keeps [OF assms, of S] by (simp add: StepFrame)
next
  case (StepReader w)
  show ?thesis
    using tags_ok_reader [OF tags_ok_fields [OF assms(1)] assms(2)] tags_ok_keeps [OF assms, of S]
    by (simp add: StepReader split: list.splits)
qed (use assms in \<open>auto simp: on_arbiter_def tags_ok_finish intro: tags_ok_keeps [of clock S]\<close>)

lemma tags_ok_run:
  "tags_ok clock S \<Longrightarrow> sorted (clock # map fst hist @ [now]) \<Longrightarrow> tags_ok now (run_mesh k hist S)"
proof (induction hist arbitrary: S clock)
  case Nil
  then show ?case by (auto intro: tags_ok_keeps [of clock S])
next
  case (Cons h hist)
  obtain t s where h: "h = (t, s)" by (cases h)
  have "tags_ok t (mesh_do k t s S)" using Cons.prems by (intro tags_ok_step) (auto simp: h)
  then show ?case using Cons.prems by (auto simp: h intro: Cons.IH)
qed

lemma tags_ok_new: "tags_ok clock (new_system app m window)"
  by (simp add: tags_ok_def new_system_def)

text \<open>A step gives the current request a tag.\<close>

definition assigns_tag :: "mesh_system \<Rightarrow> mesh_system \<Rightarrow> 32 word \<Rightarrow> bool" where
  "assigns_tag S T tag =
     (\<exists>q. ar_request (ms_arbiter T) = Some q \<and> tq_tag_known q \<and> tq_tag q = tag
        \<and> \<not> (\<exists>p. current (tq_id q) (ms_arbiter S) = Some p \<and> tq_tag_known p \<and> tq_tag p = tag))"

text \<open>Every tag of the current request was its tag before, unless the device confirmed it in between.\<close>

definition keeps_assigned :: "arbiter \<Rightarrow> arbiter \<Rightarrow> bool" where
  "keeps_assigned a b =
     (\<forall>q. ar_request b = Some q \<longrightarrow> tq_tag_known q \<longrightarrow>
        (\<exists>p. ar_request a = Some p \<and> tq_id p = tq_id q \<and> tq_tag_known p \<and> tq_tag p = tq_tag q))"

lemma keeps_assigned_refl [simp]: "keeps_assigned a a"
  by (simp add: keeps_assigned_def)

lemma keeps_assigned_same: "ar_request b = ar_request a \<Longrightarrow> keeps_assigned a b"
  by (simp add: keeps_assigned_def)

lemma keeps_assigned_update:
  "(\<And>q. tq_id (f q) = tq_id q \<and> (tq_tag_known (f q) \<longrightarrow> tq_tag_known q \<and> tq_tag (f q) = tq_tag q))
   \<Longrightarrow> keeps_assigned a (update_current i f a)"
  by (auto simp: update_current_def keeps_assigned_def current_Some split: option.splits)

lemma keeps_assigned_sections [simp, intro]:
  "keeps_assigned a (set_requested_at i now a)" "keeps_assigned a (capture_route i a)"
  "keeps_assigned a (complete_route_snapshot i e a)" "keeps_assigned a (set_route_attempt i a)"
  unfolding set_requested_at_def capture_route_def complete_route_snapshot_def set_route_attempt_def
  by (auto intro!: keeps_assigned_update split: option.splits if_splits)

lemma request_correlate [simp]: "ar_request (fst (correlate_rf q at sq a)) = ar_request a"
  by (auto simp: correlate_rf_def Let_def split: list.splits)

lemma keeps_assigned_handlers:
  "command_begin p a = (b, ts) \<Longrightarrow> keeps_assigned a b"
  "command_error p q w a = (b, fs, ws) \<Longrightarrow> keeps_assigned a b"
  by (auto simp: command_begin_def command_first_def command_error_def note_sent_route_def
      handle_contact_response_def split: option.splits if_splits prod.splits
      intro!: keeps_assigned_update) (auto simp: keeps_assigned_def update_current_def current_Some split: option.splits)

lemma request_prune [simp]: "ar_request (prune_tags now a) = ar_request a"
  by (simp add: prune_tags_def)

lemma request_binary: "ar_request (fst (handle_binary_response p at sq a)) = ar_request a"
  using request_correlate [of _ at sq "prune_tags at a"]
  by (auto simp: handle_binary_response_def Let_def simp del: request_correlate split: option.splits prod.splits)
    (metis fst_conv request_prune)+

lemma request_push: "push_begin k now p a = (b, ts) \<Longrightarrow> ar_request b = ar_request a"
  using request_binary [of p now "ar_sequence a" a]
  by (auto simp: push_begin_def record_raw_rx_def Let_def split: if_splits prod.splits)

lemma assigns_keeps:
  "keeps_assigned (ms_arbiter S) (ms_arbiter T) \<Longrightarrow> \<not> assigns_tag S T tag"
  by (auto simp: keeps_assigned_def assigns_tag_def current_Some)

lemma finish_keeps: "keeps_assigned (ms_arbiter S) (ms_arbiter (run_finish now f S))"
  by (cases f) (auto simp: run_finish_def finish_telemetry_def finish_reset_def keeps_assigned_def Let_def
      split: option.splits)

lemma read_keeps: "keeps_assigned (ms_arbiter S) (ms_arbiter (read_one k now p S))"
proof -
  have "keeps_assigned (next_frame (ms_arbiter S)) (ms_arbiter (read_one k now p S))"
    by (auto simp: read_one_def Let_def split: prod.splits sum.splits option.splits
        dest: keeps_assigned_handlers(1) keeps_assigned_same [OF request_push])
  then show ?thesis by (simp add: keeps_assigned_def next_frame_def)
qed

text \<open>A tag that a step assigns is not among the retained ones.\<close>

lemma assigns_tag_step:
  assumes "assigns_tag S (mesh_do k now s S) tag"
  shows "ar_expired (prune_tags now (ms_arbiter S)) tag = None"
proof (cases s)
  case (StepReader w)
  then obtain t ts where t: "ms_reader S = t # ts"
    using assms by (cases "ms_reader S") (auto simp: assigns_keeps)
  let ?S = "S\<lparr> ms_reader := ts \<rparr>"
  have d: "mesh_do k now s S = reader_do now w t ?S" by (simp add: StepReader t)
  show ?thesis
  proof (cases "(now, w, t, ?S)" rule: reader_do.cases)
    case (3 now' w' p S')
    obtain b fs where c: "command_sent p now (ms_arbiter S) = (b, fs)" by fastforce
    with assms d 3 have "assigns_tag S (S\<lparr> ms_arbiter := b \<rparr>) tag"
      by (auto simp: assigns_tag_def)
    then show ?thesis
      using c by (auto simp: assigns_tag_def command_sent_def arm_suggested_def current_Some Let_def
          split: if_splits option.splits)
  qed (use assms d finish_keeps [of ?S] in \<open>auto simp: assigns_keeps split: prod.splits
      dest: keeps_assigned_handlers(2)
      dest!: assigns_keeps [where S = S, unfolded not_def, rule_format, rotated]\<close>)
next
  case (StepRequest v c)
  then show ?thesis
    using assms by (auto simp: assigns_tag_def current_Some begin_telemetry_def res_simps split: sum.splits)
next
  case (StepReset v c)
  then show ?thesis
    using assms by (auto simp: assigns_tag_def current_Some begin_reset_def res_simps split: sum.splits)
qed (use assms in \<open>auto simp: assigns_keeps finish_keeps read_keeps on_arbiter_def begin_connection_def
    keeps_assigned_same split: if_splits\<close>)

lemma assigned_fresh:
  assumes "tags_ok clock S" "clock \<le> now" "ar_expired (prune_tags now (ms_arbiter S)) tag = None"
    "(tag, t) \<in> set (ms_tags S)"
  shows "t + expired_tag_retention \<le> now"
proof -
  have "retained now (prune_tags now (ms_arbiter S)) (tag, t)"
    using assms(1,2,4) by (auto simp: tags_ok_def list_all_iff intro: retained_prune)
  with assms(3) show ?thesis by (simp add: retained_def)
qed

section \<open>RF evidence: lemmas\<close>

lemma nearest_member: "nearest_candidate c cs \<in> set (c # cs)"
  by (induction cs arbitrary: c) (auto simp: nearest_candidate_def)

lemma nearest_max: "d \<in> set (c # cs) \<Longrightarrow> rc_sequence d \<le> rc_sequence (nearest_candidate c cs)"
proof (induction cs arbitrary: c d)
  case (Cons x cs)
  define y where "y = (if rc_sequence c < rc_sequence x then x else c)"
  have n: "nearest_candidate c (x # cs) = nearest_candidate y cs"
    by (simp add: nearest_candidate_def y_def)
  have "rc_sequence y \<le> rc_sequence (nearest_candidate y cs)" by (rule Cons.IH) simp
  moreover have "rc_sequence c \<le> rc_sequence y" "rc_sequence x \<le> rc_sequence y" by (auto simp: y_def)
  ultimately show ?case
    using Cons.prems Cons.IH [of d y] unfolding n by auto
qed (simp add: nearest_candidate_def)

definition rf_eligible :: "telemetry_request \<Rightarrow> time \<Rightarrow> 64 word \<Rightarrow> arbiter \<Rightarrow> raw_candidate \<Rightarrow> bool" where
  "rf_eligible q at sq a c =
     (c \<in> set (ar_recent a) \<and> rc_sequence c < sq \<and> tq_frame_sequence q < rc_sequence c
      \<and> tq_requested_at q \<le> rc_observed c \<and> rc_observed c \<le> at
      \<and> time_sub at (rc_observed c) \<le> rf_window a)"

lemma rf_eligible_filter:
  "set (filter (within_window (rf_window a) at) (filter (\<lambda>c. \<not> before_request q c)
      (filter (precedes_response at sq) (ar_recent a)))) = {c. rf_eligible q at sq a c}"
proof -
  have "0 \<le> time_sub at t" if "t \<le> at" for t using that by (simp add: time_sub_def)
  then show ?thesis
    by (auto simp: rf_eligible_def before_request_def precedes_response_def within_window_def not_le not_less)
qed

lemma correlate_rf_matched:
  assumes "correlate_rf q at sq a = (b, e)" "rf_rssi e \<noteq> None \<or> rf_snr e \<noteq> None"
  shows "\<exists>c. rf_eligible q at sq a c \<and> (\<forall>d. rf_eligible q at sq a d \<longrightarrow> rc_sequence d \<le> rc_sequence c)
    \<and> rf_candidate e = Some (rc_sequence c) \<and> rf_rssi e = Some (rc_rssi c) \<and> rf_snr e = Some (rc_snr c)
    \<and> rf_outcome e = MatchedOrdered \<and> rc_sequence c \<notin> ar_consumed a
    \<and> b = a\<lparr> ar_consumed := insert (rc_sequence c) (ar_consumed a) \<rparr>"
proof -
  let ?el = "filter (within_window (rf_window a) at) (filter (\<lambda>c. \<not> before_request q c)
      (filter (precedes_response at sq) (ar_recent a)))"
  have n: "\<not> (is_zero (tq_requested_at q) \<or> sq = 0)"
    using assms by (auto simp: correlate_rf_def new_rf_evidence_def)
  obtain d ds where el: "?el = d # ds"
    using assms n by (cases ?el) (auto simp: correlate_rf_def new_rf_evidence_def Let_def simp del: filter_filter split: list.splits)
  define c where "c = nearest_candidate d ds"
  have "rf_eligible q at sq a c" "\<forall>d. rf_eligible q at sq a d \<longrightarrow> rc_sequence d \<le> rc_sequence c"
    using nearest_member [of d ds] nearest_max [of _ d ds] rf_eligible_filter [of a at q sq]
    unfolding el c_def by auto
  moreover have "rc_sequence c \<notin> ar_consumed a"
    using assms n by (auto simp: correlate_rf_def Let_def el c_def [symmetric] new_rf_evidence_def simp del: filter_filter)
  moreover from this have
    "rf_candidate e = Some (rc_sequence c)" "rf_rssi e = Some (rc_rssi c)" "rf_snr e = Some (rc_snr c)"
    "rf_outcome e = MatchedOrdered" "b = a\<lparr> ar_consumed := insert (rc_sequence c) (ar_consumed a) \<rparr>"
    using assms(1) n by (auto simp: correlate_rf_def Let_def el c_def [symmetric] new_rf_evidence_def simp del: filter_filter)
  ultimately show ?thesis by blast
qed

end
