(* ===== verification/MeshProps.thy ===== *)
theory MeshProps
  imports MeshAnswers
begin

text \<open>
  The properties of the MeshCore protocol layer, and a concrete device and history on which their
  hypotheses hold.
\<close>

section \<open>Frames of a concrete device\<close>

definition pad :: "nat \<Rightarrow> string \<Rightarrow> bytes" where
  "pad n s = string_bytes s @ replicate (n - length s) 0"

definition fixed_ok :: "nat \<Rightarrow> string \<Rightarrow> bool" where
  "fixed_ok n s = (length s \<le> n \<and> char_of (0 :: nat) \<notin> set s \<and> trim_space s = s)"

lemma length_pad [simp]: "length s \<le> n \<Longrightarrow> length (pad n s) = n"
  by (simp add: pad_def string_bytes_def)

lemma byte_string_bytes [simp]: "byte_string (string_bytes s) = s"
proof (induction s)
  case (Cons c s)
  have "unat (word_of_nat (of_char c) :: 8 word) = of_char c"
    by (simp add: unat_byte_of_nat)
  with Cons show ?case by (simp add: byte_string_def string_bytes_def)
qed (simp add: byte_string_def string_bytes_def)

lemma byte_of_char_0: "(word_of_nat (of_char c) :: 8 word) = 0 \<longleftrightarrow> c = char_of (0 :: nat)"
proof
  assume "(word_of_nat (of_char c) :: 8 word) = 0"
  then have "unat (word_of_nat (of_char c) :: 8 word) = 0" by simp
  then have "(of_char c :: nat) = 0" by (simp add: unat_byte_of_nat)
  then show "c = char_of (0 :: nat)" by (metis char_of_char)
qed simp

lemma fixed_string_pad: "fixed_ok n s \<Longrightarrow> fixed_string (pad n s) = s"
proof -
  assume s: "fixed_ok n s"
  then have "\<forall>b \<in> set (string_bytes s). b \<noteq> 0"
    by (auto simp: fixed_ok_def string_bytes_def byte_of_char_0)
  then have "takeWhile (\<lambda>b. b \<noteq> 0) (pad n s) = string_bytes s"
    by (simp add: pad_def takeWhile_append2 takeWhile_replicate)
  with s show ?thesis by (simp add: fixed_string_def fixed_ok_def)
qed

definition device_info_bytes :: "device_info \<Rightarrow> bytes" where
  "device_info_bytes d =
     [response_device_info, di_protocol d, di_max_contacts_half d, di_max_channels d]
     @ le_bytes 4 (unat (di_ble_pin d)) @ pad 12 (di_build d) @ pad 40 (di_model d) @ pad 20 (di_version d)
     @ [if di_repeater d then 1 else 0, di_path_hash_mode d]"

lemma int32_le_bytes: "int32_le (le_bytes 4 (unat w)) = w"
proof -
  have "unat w < 256 ^ 4" using unsigned_less [of w, where 'a = nat] by simp
  then show ?thesis by (simp add: int32_le_def le_value_bytes_exact)
qed

lemma slice_append: "length xs = a \<Longrightarrow> length ys = b - a \<Longrightarrow> slice a b (xs @ ys @ zs) = ys"
  by (simp add: slice_def)

lemma parse_device_bytes:
  assumes "fixed_ok 12 (di_build d)" "fixed_ok 40 (di_model d)" "fixed_ok 20 (di_version d)"
  shows "parse_device_info (device_info_bytes d) = Inr d"
proof -
  let ?h = "[response_device_info, di_protocol d, di_max_contacts_half d, di_max_channels d]"
  let ?pin = "le_bytes 4 (unat (di_ble_pin d))"
  let ?t = "[if di_repeater d then 1 else 0, di_path_hash_mode d]"
  have l: "length (pad 12 (di_build d)) = 12" "length (pad 40 (di_model d)) = 40"
    "length (pad 20 (di_version d)) = 20"
    using assms by (simp_all add: fixed_ok_def)
  let ?p = "device_info_bytes d"
  have n: "length ?p = 82" by (simp add: device_info_bytes_def l)
  have s: "slice 4 8 ?p = ?pin" "slice 8 20 ?p = pad 12 (di_build d)" "slice 20 60 ?p = pad 40 (di_model d)"
    "slice 60 80 ?p = pad 20 (di_version d)"
    using slice_append [of ?h 4 ?pin 8] slice_append [of "?h @ ?pin" 8 "pad 12 (di_build d)" 20]
      slice_append [of "?h @ ?pin @ pad 12 (di_build d)" 20 "pad 40 (di_model d)" 60]
      slice_append [of "?h @ ?pin @ pad 12 (di_build d) @ pad 40 (di_model d)" 60 "pad 20 (di_version d)" 80]
    by (simp_all add: device_info_bytes_def l)
  have "?p ! 80 = ?t ! 0" "?p ! 81 = ?t ! 1"
    by (simp_all add: device_info_bytes_def l nth_append)
  moreover have "?p ! 1 = di_protocol d" "?p ! 2 = di_max_contacts_half d" "?p ! 3 = di_max_channels d"
    by (simp_all add: device_info_bytes_def)
  ultimately show ?thesis
    using assms by (simp add: parse_device_info_def device_info_length_def n s int32_le_bytes fixed_string_pad)
qed

definition demo_device :: device_info where
  "demo_device =
     \<lparr> di_protocol = 13, di_max_contacts_half = 50, di_max_channels = 8, di_ble_pin = 0,
       di_build = ''14 Aug 2026'', di_model = ''L1'', di_version = ''v1.17.1'', di_repeater = False,
       di_path_hash_mode = 0 \<rparr>"

lemma demo_device_frame: "device_frame (device_info_bytes demo_device) demo_device"
proof -
  have "parse_device_info (device_info_bytes demo_device) = Inr demo_device"
    by (rule parse_device_bytes) (simp_all add: demo_device_def fixed_ok_def trim_space_visible char_of_def)
  moreover have "device_info_bytes demo_device \<noteq> []" "device_info_bytes demo_device ! 0 = response_device_info"
    by (simp_all add: device_info_bytes_def)
  ultimately show ?thesis
    by (simp add: device_frame_def is_supported_protocol_def protocol_version_def demo_device_def)
qed

lemma demo_profile: "profile_for_device demo_device = Some (hd trusted_profiles)"
  by (simp add: profile_for_device_def demo_device_def trim_space_visible trusted_profiles_def protocol_version_def)

definition demo_self_bytes :: bytes where
  "demo_self_bytes = response_self_info # replicate 57 0"

definition demo_self :: self_info where
  "demo_self = (case parse_self_info demo_self_bytes of Inr i \<Rightarrow> i)"

lemma demo_self_frame: "self_frame demo_self_bytes demo_self"
  by (simp add: self_frame_def demo_self_def demo_self_bytes_def parse_self_info_def self_info_min_length_def)

lemma parse_target_hex: "length bs = 32 \<Longrightarrow> parse_target (hex_bytes bs) = Some bs"
proof -
  assume "length bs = 32"
  moreover have "\<not> is_upper_char (hex_char n)" if "n < 16" for n
    using that by (auto simp: is_upper_char_def hex_char_def)
  then have "\<not> list_ex is_upper_char (hex_bytes bs)"
    using unat_byte_less by (induction bs) (simp_all add: hex_bytes_def less_mult_imp_div_less)
  ultimately show ?thesis by (simp add: parse_target_def public_key_length_def)
qed

section \<open>A concrete adapter\<close>

definition demo_crypto :: mesh_crypto where
  "demo_crypto = \<lparr> mc_verify = (\<lambda>_ _ _. True), mc_sha256 = (\<lambda>_. []) \<rparr>"

definition demo_serial :: transport_metadata where
  "demo_serial = \<lparr> tm_kind = ''physical_serial'', tm_delegated = True, tm_peer = [] \<rparr>"

definition demo_key :: bytes where "demo_key = replicate 32 0xAA"

definition demo_mesh :: mesh_system where
  "demo_mesh = new_system ''app'' demo_serial 0"

definition demo_handshake :: "(time \<times> mesh_step) list" where
  "demo_handshake =
     [(0, StepConnect ''app'' demo_serial), (1, StepFrame (device_info_bytes demo_device)),
      (2, StepFrame demo_self_bytes)]"

definition demo_ready :: mesh_system where
  "demo_ready = run_mesh demo_crypto demo_handshake demo_mesh"

lemma demo_ready_fields:
  "cs_state (ms_session demo_ready) = Ready" "ms_reader demo_ready = []" "ms_done demo_ready = []"
  "ms_tags demo_ready = []" "ms_arbiter demo_ready = (new_arbiter 0)\<lparr> ar_sequence := 2 \<rparr>"
proof -
  define s0 where "s0 = fst (begin_session (new_session ''app'' demo_serial))"
  have a: "handle_frame (device_info_bytes demo_device) s0
      = (accept_device demo_device s0, Inr (no_result\<lparr> hr_outbound := build_app_start (cs_app s0) \<rparr>))"
    using demo_device_frame by (simp add: handle_frame_def device_frame_def s0_def begin_session_def)
  have b: "handle_frame demo_self_bytes (accept_device demo_device s0)
      = (accept_self demo_self (accept_device demo_device s0), Inr (no_result\<lparr> hr_ready := True \<rparr>))"
    using demo_self_frame by (simp add: handle_frame_def self_frame_def accept_device_def Let_def)
  have ne: "build_app_start x \<noteq> []" for x by (simp add: build_app_start_def)
  show "cs_state (ms_session demo_ready) = Ready" "ms_reader demo_ready = []" "ms_done demo_ready = []"
    "ms_tags demo_ready = []" "ms_arbiter demo_ready = (new_arbiter 0)\<lparr> ar_sequence := 2 \<rparr>"
    unfolding demo_ready_def demo_handshake_def demo_mesh_def new_system_def
    by (simp_all add: read_one_def s0_def [symmetric] a b no_result_def ne begin_connection_def new_arbiter_def
        next_frame_def accept_self_def Let_def)
qed

definition demo_sent :: bytes where "demo_sent = [6, 0, 7, 0, 0, 0, 0, 0, 0, 0]"
definition demo_response :: bytes where "demo_response = [0x8C, 0, 7, 0, 0, 0, 1, 120, 50]"

lemma demo_frames:
  assumes "cs_state s = Ready"
  shows "handle_frame demo_sent s = (s, Inr (no_result\<lparr> hr_ready := True, hr_response := Some demo_sent \<rparr>))"
    "handle_frame demo_response s = (s, Inr (no_result\<lparr> hr_ready := True, hr_push := Some demo_response \<rparr>))"
  using assms
  by (simp_all add: handle_frame_def handle_ready_def demo_sent_def demo_response_def opcode_defs
      validate_captured_push_def validate_command_response_def validate_binary_response_def
      command_response_codes_def max_payload_size_def)

definition demo_request :: "nat \<Rightarrow> telemetry_request" where
  "demo_request i =
     \<lparr> tq_id = i, tq_target = demo_key, tq_route = no_route, tq_route_done = None, tq_awaiting = False,
       tq_requested_at = zero_time, tq_frame_sequence = 0, tq_mode = BinaryRequest, tq_tag = 0,
       tq_tag_known = False, tq_fallback = [], tq_suggested = None \<rparr>"

text \<open>A confirmed request, from any idle arbiter that does not retain tag 7.\<close>

lemma demo_confirm:
  fixes t3 t5 t6 :: time
  assumes "cs_state (ms_session S) = Ready" "ms_reader S = []" "ar_request (ms_arbiter S) = None"
    "ar_reset (ms_arbiter S) = None" "ar_capability (ms_arbiter S) \<noteq> BinaryUnsupported"
    "ar_expired (prune_tags t6 (ms_arbiter S)) 7 = None"
  defines "R \<equiv> run_mesh demo_crypto [(t3, StepRequest (hex_bytes demo_key) True), (t5, StepFrame demo_sent)] S"
  shows "mesh_do demo_crypto t6 (StepReader True) R
      = S\<lparr> ms_arbiter := (prune_tags t6 (ms_arbiter S))
            \<lparr> ar_request := Some ((demo_request (ar_next (ms_arbiter S)))
                 \<lparr> tq_route := unknown_route ResponseSentDirectUnavailable, tq_tag := 7, tq_tag_known := True \<rparr>),
              ar_capability := BinarySupported,
              ar_sequence := ar_sequence (ms_arbiter S) + 1, ar_next := ar_next (ms_arbiter S) + 1 \<rparr> \<rparr>"
    "\<forall>q. ar_request (ms_arbiter R) = Some q \<longrightarrow> \<not> tq_tag_known q" "ms_tags R = ms_tags S"
proof -
  let ?a = "ms_arbiter S" and ?q = "demo_request (ar_next (ms_arbiter S))"
  let ?b = "?a\<lparr> ar_next := ar_next ?a + 1, ar_request := Some ?q \<rparr>"
  have "begin_telemetry (hex_bytes demo_key) True ?a = Inr (ar_next ?a, ?b)"
    using assms by (simp add: begin_telemetry_def parse_target_hex demo_key_def busy_def demo_request_def
        request_mode_def)
  then have one: "mesh_do demo_crypto t3 (StepRequest (hex_bytes demo_key) True) S = S\<lparr> ms_arbiter := ?b \<rparr>"
    by simp
  let ?c = "?b\<lparr> ar_sequence := ar_sequence ?a + 1 \<rparr>"
  have "command_begin demo_sent (next_frame ?b)
      = (?c\<lparr> ar_request := Some (note_sent_route demo_sent ?q) \<rparr>, [TaskCommand (CommandSent demo_sent)])"
    using assms
    by (simp add: command_begin_def handle_reset_command_def next_frame_def command_first_def demo_request_def
        update_current_def current_def opcode_defs) (simp add: demo_sent_def)
  then have two: "read_one demo_crypto t5 demo_sent (S\<lparr> ms_arbiter := ?b \<rparr>)
      = S\<lparr> ms_arbiter := ?c\<lparr> ar_request := Some (note_sent_route demo_sent ?q) \<rparr>,
            ms_reader := [TaskCommand (CommandSent demo_sent)] \<rparr>"
    by (simp add: read_one_def demo_frames assms no_result_def)
  have n: "note_sent_route demo_sent ?q = ?q\<lparr> tq_route := unknown_route ResponseSentDirectUnavailable \<rparr>"
    by (simp add: note_sent_route_def demo_sent_def demo_request_def no_route_def unknown_route_def route_of_def)
  have tag: "int32_le (slice 2 6 demo_sent) = 7" "le_value (slice 6 10 demo_sent) = 0" "length demo_sent = 10"
    by (simp_all add: demo_sent_def slice_def int32_le_def)
  have R: "R = S\<lparr> ms_arbiter := ?c\<lparr> ar_request := Some (note_sent_route demo_sent ?q) \<rparr>,
            ms_reader := [TaskCommand (CommandSent demo_sent)] \<rparr>"
    unfolding R_def run_mesh.simps one mesh_do.simps(10) two using assms(2) by simp
  show "mesh_do demo_crypto t6 (StepReader True) R
      = S\<lparr> ms_arbiter := (prune_tags t6 (ms_arbiter S))
            \<lparr> ar_request := Some ((demo_request (ar_next (ms_arbiter S)))
                 \<lparr> tq_route := unknown_route ResponseSentDirectUnavailable, tq_tag := 7, tq_tag_known := True \<rparr>),
              ar_capability := BinarySupported,
              ar_sequence := ar_sequence (ms_arbiter S) + 1, ar_next := ar_next (ms_arbiter S) + 1 \<rparr> \<rparr>"
    using assms(2,6) unfolding R n
    by (simp add: command_sent_def tag demo_request_def arm_suggested_def suggested_timeout_def prune_tags_def Let_def)
  show "\<forall>q. ar_request (ms_arbiter R) = Some q \<longrightarrow> \<not> tq_tag_known q" "ms_tags R = ms_tags S"
    unfolding R n by (simp_all add: demo_request_def)
qed

definition demo_confirmed :: mesh_system where
  "demo_confirmed =
     mesh_do demo_crypto 6 (StepReader True)
       (run_mesh demo_crypto [(3, StepRequest (hex_bytes demo_key) True), (5, StepFrame demo_sent)] demo_ready)"

definition demo_tagged_request :: telemetry_request where
  "demo_tagged_request = (demo_request 0)
     \<lparr> tq_route := unknown_route ResponseSentDirectUnavailable, tq_tag := 7, tq_tag_known := True \<rparr>"

lemma demo_confirmed_fields:
  "cs_state (ms_session demo_confirmed) = Ready" "ms_reader demo_confirmed = []" "ms_done demo_confirmed = []"
  "ms_tags demo_confirmed = []"
  "ms_arbiter demo_confirmed = (new_arbiter 0)
     \<lparr> ar_request := Some demo_tagged_request, ar_capability := BinarySupported, ar_sequence := 3, ar_next := 1 \<rparr>"
proof -
  have r: "ar_request (ms_arbiter demo_ready) = None" "ar_reset (ms_arbiter demo_ready) = None"
    "ar_capability (ms_arbiter demo_ready) \<noteq> BinaryUnsupported"
    "ar_expired (prune_tags 6 (ms_arbiter demo_ready)) 7 = None"
    by (simp_all add: demo_ready_fields new_arbiter_def prune_tags_def)
  show "cs_state (ms_session demo_confirmed) = Ready" "ms_reader demo_confirmed = []" "ms_done demo_confirmed = []"
    "ms_tags demo_confirmed = []"
    "ms_arbiter demo_confirmed = (new_arbiter 0)
       \<lparr> ar_request := Some demo_tagged_request, ar_capability := BinarySupported, ar_sequence := 3, ar_next := 1 \<rparr>"
    unfolding demo_confirmed_def demo_confirm(1) [OF demo_ready_fields(1,2) r]
    by (simp_all add: demo_ready_fields new_arbiter_def prune_tags_def demo_tagged_request_def)
qed

definition demo_telemetry :: telemetry where
  "demo_telemetry = no_telemetry\<lparr> tl_battery := Some 50 \<rparr>"

definition demo_answer :: telemetry_result where
  "demo_answer = binary_result demo_tagged_request demo_response 7 demo_telemetry (new_rf_evidence NoCandidate 0)"

lemma demo_binary:
  "handle_binary_response demo_response 7 sq (next_frame (ms_arbiter demo_confirmed))
   = (next_frame (ms_arbiter demo_confirmed), [FinishTelemetry 0 demo_answer None])"
proof -
  have p: "parse_telemetry_lpp (drop 6 demo_response) = (demo_telemetry, None)"
    "int32_le (slice 2 6 demo_response) = 7" "length demo_response = 9" "demo_response ! 0 = push_binary_response"
    by (simp_all add: demo_response_def parse_telemetry_lpp_def parse_lpp.simps(3) field_size_def set_field_def
        demo_telemetry_def slice_def int32_le_def push_binary_response_def)
  have q: "tag_matches 7 demo_tagged_request" "tq_id demo_tagged_request = 0"
    "correlate_rf demo_tagged_request t sq a = (a, new_rf_evidence NoCandidate 0)" for t sq a
    by (simp_all add: tag_matches_def demo_tagged_request_def demo_request_def correlate_rf_def is_zero_def)
  show ?thesis
    by (simp add: handle_binary_response_def p q demo_confirmed_fields new_arbiter_def next_frame_def prune_tags_def
        demo_answer_def Let_def)
qed

definition demo_answered :: mesh_system where
  "demo_answered = run_mesh demo_crypto [(7, StepFrame demo_response), (8, StepReader True)] demo_confirmed"

lemma demo_answered_fields:
  "cs_state (ms_session demo_answered) = Ready" "ms_reader demo_answered = []"
  "ms_done demo_answered = [\<lparr> co_id = 0, co_result = finish_result demo_tagged_request demo_answer, co_error = None,
      co_request = demo_tagged_request \<rparr>]"
  "ms_tags demo_answered = [(7, 8)]"
  "ms_arbiter demo_answered = (new_arbiter 0)
     \<lparr> ar_capability := BinarySupported, ar_sequence := 4, ar_next := 1, ar_expired := [7 \<mapsto> 45000000008] \<rparr>"
proof -
  have c: "push_begin demo_crypto 7 demo_response (next_frame (ms_arbiter demo_confirmed))
      = (next_frame (ms_arbiter demo_confirmed), [TaskFinish (FinishTelemetry 0 demo_answer None)])"
  proof -
    have "demo_response ! 0 = push_binary_response" "push_binary_response \<noteq> push_telemetry_response"
      by (simp_all add: demo_response_def push_telemetry_response_def push_binary_response_def)
    then show ?thesis by (simp add: push_begin_def demo_binary)
  qed
  have one: "mesh_do demo_crypto 7 (StepFrame demo_response) demo_confirmed
      = demo_confirmed\<lparr> ms_arbiter := next_frame (ms_arbiter demo_confirmed),
          ms_reader := [TaskFinish (FinishTelemetry 0 demo_answer None)] \<rparr>"
    by (simp add: demo_confirmed_fields(1,2) read_one_def demo_frames(2) no_result_def c)
  have t: "tq_tag demo_tagged_request = 7" "tq_tag_known demo_tagged_request" "tq_id demo_tagged_request = 0"
    "tq_mode demo_tagged_request = BinaryRequest"
    by (simp_all add: demo_tagged_request_def demo_request_def)
  show "cs_state (ms_session demo_answered) = Ready" "ms_reader demo_answered = []"
    "ms_done demo_answered = [\<lparr> co_id = 0, co_result = finish_result demo_tagged_request demo_answer, co_error = None,
        co_request = demo_tagged_request \<rparr>]"
    "ms_tags demo_answered = [(7, 8)]"
    "ms_arbiter demo_answered = (new_arbiter 0)
       \<lparr> ar_capability := BinarySupported, ar_sequence := 4, ar_next := 1, ar_expired := [7 \<mapsto> 45000000008] \<rparr>"
    unfolding demo_answered_def run_mesh.simps one
    by (simp_all add: demo_confirmed_fields run_finish_def current_def finish_telemetry_def next_frame_def t
        new_arbiter_def expired_tag_retention_def default_telemetry_timeout_def second_def)
qed

text \<open>The whole history, and the confirmation of a second request once tag 7 is free again.\<close>

definition demo_history_to_answer :: "(time \<times> mesh_step) list" where
  "demo_history_to_answer =
     demo_handshake @ [(3, StepRequest (hex_bytes demo_key) True), (5, StepFrame demo_sent), (6, StepReader True),
       (7, StepFrame demo_response), (8, StepReader True)]"

lemma demo_run: "run_mesh demo_crypto demo_history_to_answer demo_mesh = demo_answered"
  by (simp add: demo_history_to_answer_def run_mesh_append demo_answered_def demo_confirmed_def
      demo_ready_def [symmetric] del: mesh_do.simps)

definition demo_second :: "(time \<times> mesh_step) list" where
  "demo_second =
     [(45000000009, StepRequest (hex_bytes demo_key) True), (45000000010, StepFrame demo_sent)]"

lemma demo_reassigned:
  "assigns_tag (run_mesh demo_crypto (demo_history_to_answer @ demo_second) demo_mesh)
     (mesh_do demo_crypto 45000000011 (StepReader True)
       (run_mesh demo_crypto (demo_history_to_answer @ demo_second) demo_mesh)) 7"
  "(7, 8) \<in> set (ms_tags (run_mesh demo_crypto (demo_history_to_answer @ demo_second) demo_mesh))"
proof -
  have r: "ar_request (ms_arbiter demo_answered) = None" "ar_reset (ms_arbiter demo_answered) = None"
    "ar_capability (ms_arbiter demo_answered) \<noteq> BinaryUnsupported"
    "ar_expired (prune_tags 45000000011 (ms_arbiter demo_answered)) 7 = None"
    by (simp_all add: demo_answered_fields new_arbiter_def prune_tags_def)
  note c = demo_confirm [OF demo_answered_fields(1,2) r, of 45000000009 45000000010, folded demo_second_def]
  show "assigns_tag (run_mesh demo_crypto (demo_history_to_answer @ demo_second) demo_mesh)
     (mesh_do demo_crypto 45000000011 (StepReader True)
       (run_mesh demo_crypto (demo_history_to_answer @ demo_second) demo_mesh)) 7"
    using c(2) unfolding run_mesh_append demo_run assigns_tag_def c(1) by (auto simp: current_Some)
  show "(7, 8) \<in> set (ms_tags (run_mesh demo_crypto (demo_history_to_answer @ demo_second) demo_mesh))"
    unfolding run_mesh_append demo_run c(3) by (simp add: demo_answered_fields)
qed

section \<open>Properties\<close>

text \<open>
  C22. Framing is exact. A session reads the payloads \<open>ps\<close> from a stream if and only if the stream
  starts with exactly their frames, each with 1 to 176 bytes, and what follows is no complete, valid
  frame; so a truncated or damaged stream never yields an invented frame. And whatever the writer does
  (short writes, failures, counts out of range), what reaches the wire is a prefix of the one frame of
  the payload, all of it when \<open>WriteFrame\<close> reports success.
\<close>
theorem mesh_frames_exact:
  "(read_frames s = (ps, e) \<longleftrightarrow>
      (\<exists>rest. s = frame_stream ps @ rest \<and> (\<forall>p \<in> set ps. payload_ok p) \<and> read_frame rest = Inl e))
   \<and> (write_frame w p = (wire, r) \<longrightarrow>
      (\<exists>t. frame_bytes outbound_marker p = wire @ t)
      \<and> (r = Inr () \<longrightarrow> payload_ok p \<and> wire = frame_bytes outbound_marker p))"
  using read_frames_exact write_frame_wire by blast

lemma demo_stream:
  "read_frames [62, 2, 0, 10, 20, 62, 1, 0, 30, 62, 5] = ([[10, 20], [30]], TruncatedHeader)"
  by (simp add: read_frames_def read_frame_def read_full_def inbound_marker_def max_payload_size_def)

theorem mesh_frames_exact_witness:
  "(\<exists>rest. [62, 2, 0, 10, 20, 62, 1, 0, 30, 62, 5] = frame_stream [[10, 20], [30]] @ rest
      \<and> read_frame rest = Inl TruncatedHeader)
   \<and> (\<exists>t. frame_bytes outbound_marker [1, 2] = fst (write_frame (\<lambda>k. if k = 0 then (3, False) else (0, False)) [1, 2]) @ t)"
  using mesh_frames_exact [of "[62, 2, 0, 10, 20, 62, 1, 0, 30, 62, 5]" "[[10, 20], [30]]" TruncatedHeader
      "\<lambda>k. if k = 0 then (3, False) else (0, False)" "[1, 2]"] demo_stream
  by (metis prod.collapse)

text \<open>
  C23. The trust of a Companion session. In every history of calls a session is trusted if and only if
  the calls since the last \<open>Begin\<close> are: a valid device frame of a firmware build on the allow-list, a
  valid self frame, and then only non-empty frames. So nothing said before \<open>Begin\<close>, after a disconnect,
  after a failed handshake or by a firmware that is not listed makes a session trusted; and a session
  never counts as device attestation.
\<close>
theorem mesh_trust_exact:
  "(tp_trusted (cs_trust (run_session calls (new_session app m))) \<longleftrightarrow>
      (\<exists>pd d pi i f. negotiated calls pd d pi i \<and> profile_for_device d = Some f))
   \<and> \<not> tp_attested (cs_trust (run_session calls (new_session app m)))"
proof (intro conjI iffI)
  assume "tp_trusted (cs_trust (run_session calls (new_session app m)))"
  then show "\<exists>pd d pi i f. negotiated calls pd d pi i \<and> profile_for_device d = Some f"
    by (rule trusted_negotiated)
next
  assume "\<exists>pd d pi i f. negotiated calls pd d pi i \<and> profile_for_device d = Some f"
  then show "tp_trusted (cs_trust (run_session calls (new_session app m)))"
    using negotiated_ready(4) by fastforce
next
  show "\<not> tp_attested (cs_trust (run_session calls (new_session app m)))"
    using history_inv_run [of calls app m] by (simp add: history_inv_def Let_def)
qed

lemma demo_negotiated:
  "negotiated [CallBegin, CallHandle (device_info_bytes demo_device), CallHandle demo_self_bytes]
     (device_info_bytes demo_device) demo_device demo_self_bytes demo_self"
  unfolding negotiated_def
  by (intro exI [of _ "[]"]) (simp add: demo_device_frame demo_self_frame)

theorem mesh_trust_exact_witness:
  "tp_trusted (cs_trust (run_session
     [CallBegin, CallHandle (device_info_bytes demo_device), CallHandle demo_self_bytes]
     (new_session ''app'' demo_serial)))"
  using mesh_trust_exact demo_negotiated demo_profile by blast

text \<open>
  C24. A verified advert. When an advert is accepted, its packet has exactly the layout of the protocol
  and the Ed25519 key it names verified the signature over exactly its key, timestamp and application
  data; its coordinates are on the globe and its name is UTF-8 of at most 31 bytes. And everything it
  reports (key, timestamp, position, name) is a function of the signed bytes: another accepted packet
  with the same signed bytes reports the same, whatever its route, path and signature.
\<close>
theorem mesh_advert_verified:
  assumes "parse_signed_advert k raw = Inr (packet, advert)"
  shows "(\<exists>header codes enc path stamp signature app.
        packet_layout raw header codes enc path (sa_public_key advert @ stamp @ signature @ app)
        \<and> packet = packet_fields header enc path (sa_public_key advert @ stamp @ signature @ app)
        \<and> sa_signing advert = sa_public_key advert @ stamp @ app
        \<and> length (sa_public_key advert) = 32 \<and> length stamp = 4 \<and> length signature = 64
        \<and> mc_verify k (sa_public_key advert) (sa_signing advert) signature
        \<and> sa_timestamp advert = int32_le stamp)
    \<and> (ad_has_position (sa_data advert) \<longrightarrow>
         coordinates_ok (ad_latitude (sa_data advert)) (ad_longitude (sa_data advert)))
    \<and> utf8_valid (ad_name (sa_data advert)) \<and> length (ad_name (sa_data advert)) \<le> 31
    \<and> (\<forall>raw' packet' advert'. parse_signed_advert k raw' = Inr (packet', advert')
         \<and> sa_signing advert' = sa_signing advert \<longrightarrow>
         sa_public_key advert' = sa_public_key advert \<and> sa_timestamp advert' = sa_timestamp advert
         \<and> sa_data advert' = sa_data advert)"
proof (intro conjI allI impI)
  have p: "parse_wire_packet raw = Inr packet" and v: "verify_advert k raw packet = Inr advert"
    using assms by (simp_all add: parse_signed_Inr)
  obtain header codes enc path payload where l: "packet_layout raw header codes enc path payload"
    using parse_packet_shape [OF p] by blast
  then have w: "packet = packet_fields header enc path payload"
    using p parse_packet_layout [OF l] by simp
  obtain stamp signature app where f: "wp_payload packet = sa_public_key advert @ stamp @ signature @ app"
    "sa_signing advert = sa_public_key advert @ stamp @ app" "length (sa_public_key advert) = 32"
    "length stamp = 4" "length signature = 64"
    "mc_verify k (sa_public_key advert) (sa_signing advert) signature" "sa_timestamp advert = int32_le stamp"
    "parse_advert_app_data app = Inr (sa_data advert)"
    using verify_advert_Inr [OF v] by blast
  have "payload = sa_public_key advert @ stamp @ signature @ app"
    using f(1) w by (simp add: packet_fields_def)
  with l w f show "\<exists>header codes enc path stamp signature app.
        packet_layout raw header codes enc path (sa_public_key advert @ stamp @ signature @ app)
        \<and> packet = packet_fields header enc path (sa_public_key advert @ stamp @ signature @ app)
        \<and> sa_signing advert = sa_public_key advert @ stamp @ app
        \<and> length (sa_public_key advert) = 32 \<and> length stamp = 4 \<and> length signature = 64
        \<and> mc_verify k (sa_public_key advert) (sa_signing advert) signature
        \<and> sa_timestamp advert = int32_le stamp"
    by blast
  from parse_app_Inr [OF f(8)]
  show "ad_has_position (sa_data advert) \<Longrightarrow>
      coordinates_ok (ad_latitude (sa_data advert)) (ad_longitude (sa_data advert))"
    "utf8_valid (ad_name (sa_data advert))" "length (ad_name (sa_data advert)) \<le> 31" by simp_all
  fix raw' packet' advert'
  assume other: "parse_signed_advert k raw' = Inr (packet', advert') \<and> sa_signing advert' = sa_signing advert"
  then have v': "verify_advert k raw' packet' = Inr advert'" by (simp add: parse_signed_Inr)
  from other signing_determines [OF v' v]
  show "sa_public_key advert' = sa_public_key advert" "sa_timestamp advert' = sa_timestamp advert"
    "sa_data advert' = sa_data advert" by simp_all
qed

definition demo_advert :: bytes where
  "demo_advert = 17 # 0 # replicate 32 1 @ [1, 2, 3, 4] @ replicate 64 0 @ [0x81, 104, 105]"

lemma demo_advert_parses: "\<exists>w a. parse_signed_advert demo_crypto demo_advert = Inr (w, a) \<and> ad_name (sa_data a) = [104, 105]"
proof -
  define payload :: bytes where "payload = replicate 32 1 @ [1, 2, 3, 4] @ replicate 64 0 @ [0x81, 104, 105]"
  have s: "path_size 0 = 1" "path_count 0 = 0" by (simp_all add: path_size_def path_count_def)
  have "packet_layout demo_advert 17 [] 0 [] payload"
    by (simp add: packet_layout_def demo_advert_def payload_def s has_transport_codes_def)
  then have p: "parse_wire_packet demo_advert = Inr (packet_fields 17 0 [] payload)"
    by (rule parse_packet_layout)
  have app: "parse_advert_app_data [0x81, 104, 105]
      = Inr \<lparr> ad_latitude = 0, ad_longitude = 0, ad_has_position = False, ad_name = [104, 105] \<rparr>"
    by (simp add: parse_advert_app_data_def parse_location_def has_flag_def advert_max_app_data_def Let_def)
  have "drop 100 payload = [0x81, 104, 105]" "length payload = 103"
    by (simp_all add: payload_def)
  then have "\<exists>a. verify_advert demo_crypto demo_advert (packet_fields 17 0 [] payload) = Inr a
      \<and> ad_name (sa_data a) = [104, 105]"
    by (simp add: verify_advert_def packet_fields_def app advert_max_app_data_def demo_crypto_def Let_def)
  with p show ?thesis by (auto simp: parse_signed_Inr)
qed

theorem mesh_advert_verified_witness:
  "\<exists>w a. parse_signed_advert demo_crypto demo_advert = Inr (w, a) \<and> ad_name (sa_data a) = [104, 105]
     \<and> utf8_valid (ad_name (sa_data a))"
  using mesh_advert_verified [of demo_crypto demo_advert] demo_advert_parses by blast

text \<open>
  C25. Telemetry decoding is exact. \<open>ParseTelemetryLPP\<close> returns given fields and a given error if and
  only if the payload is a sequence of complete fields of known types, applied in their order, followed
  by exactly what ends the parse: nothing, the zero padding, a field of an unknown type (which is
  reported and ends it), or a truncated field (an error). Signed coordinates and temperatures are
  decoded from their two's complement over the whole range of 24 and 16 bits.
\<close>
theorem mesh_telemetry_exact:
  "(parse_telemetry_lpp p = (t, e) \<longleftrightarrow>
      (\<exists>fs s unknown. p = concat (map field_bytes fs) @ s \<and> list_all field_ok fs \<and> lpp_end s unknown e
         \<and> t = add_unsupported unknown (apply_fields fs no_telemetry)))
   \<and> (- (2 ^ 23) \<le> v \<and> v < 2 ^ 23 \<longrightarrow> int24_be (int24_bytes v) = v)
   \<and> (- (2 ^ 15) \<le> u \<and> u < 2 ^ 15 \<longrightarrow> int16_be (int16_bytes u) = u)"
  using parse_lpp_exact [of no_telemetry p t e] int24_word_bytes [of v] int16_be_bytes [of u]
  by (auto simp: parse_telemetry_lpp_def)

theorem mesh_telemetry_exact_witness:
  "(\<exists>fs s unknown. [1, 120, 50, 1, 99, 7] = concat (map field_bytes fs) @ s \<and> list_all field_ok fs
      \<and> lpp_end s unknown None)
   \<and> int24_be (int24_bytes (-1)) = -1 \<and> int16_be (int16_bytes (-300)) = -300"
proof -
  have "parse_telemetry_lpp [1, 120, 50, 1, 99, 7]
      = (no_telemetry\<lparr> tl_battery := Some 50, tl_unsupported := [99] \<rparr>, None)"
    by (simp add: parse_telemetry_lpp_def parse_lpp.simps(3) field_size_def set_field_def no_telemetry_def)
  then show ?thesis
    using mesh_telemetry_exact [of "[1, 120, 50, 1, 99, 7]" _ None "-1" "-300"] by fastforce
qed

text \<open>
  C26. Every call is answered once. In every interleaving of requesters, timers and the reader, each
  telemetry request or path reset that was started is either the one outstanding call or has been
  answered exactly once: nothing is answered twice, nothing is lost, and there is at most one
  outstanding call.
\<close>
theorem mesh_calls_answered_once:
  "let S = run_mesh k hist (new_system app m window); a = ms_arbiter S in
     distinct (outstanding a @ answered S)
     \<and> set (outstanding a @ answered S) = {..<ar_next a}
     \<and> length (outstanding a) \<le> 1"
  using calls_ok_run [OF calls_ok_new] unfolding calls_ok_def Let_def by blast

text \<open>
  C27. A successful telemetry answer rests on a frame for its own request. In every interleaving, a
  request that is answered without error was answered from a response frame that carries the first six
  bytes of its target's key (legacy), or the tag the device assigned to this very request (binary);
  the telemetry is what that frame decodes to without error, and the answer names the request's target.
\<close>
theorem mesh_answers_evidenced:
  assumes "c \<in> set (ms_done (run_mesh k hist (new_system app m window)))" "co_error c = None"
  shows "(legacy_evidence (co_request c) (co_result c) \<or> binary_evidence (co_request c) (co_result c))
    \<and> tr_target (co_result c) = hex_bytes (tq_target (co_request c))
    \<and> tr_tagged (co_result c) = (tq_mode (co_request c) = BinaryRequest)"
  using answers_ok_run [OF calls_ok_new answers_ok_new, of k hist app m window] assms
  by (auto simp: answers_ok_def list_all_iff answer_ok_def evidenced_def)

theorem mesh_answers_evidenced_witness:
  "\<exists>c \<in> set (ms_done (run_mesh demo_crypto demo_history_to_answer demo_mesh)).
     co_error c = None \<and> tr_raw (co_result c) = demo_response \<and> binary_evidence (co_request c) (co_result c)"
proof -
  let ?c = "\<lparr> co_id = 0, co_result = finish_result demo_tagged_request demo_answer, co_error = None,
      co_request = demo_tagged_request \<rparr>"
  have c: "?c \<in> set (ms_done (run_mesh demo_crypto demo_history_to_answer demo_mesh))"
    by (simp add: demo_run demo_answered_fields)
  have r: "tr_raw (co_result ?c) = demo_response" "tq_mode (co_request ?c) = BinaryRequest"
    by (simp_all add: finish_result_def demo_answer_def binary_result_def blank_result_def demo_tagged_request_def
        demo_request_def Let_def)
  have "binary_evidence (co_request ?c) (co_result ?c)"
    using mesh_answers_evidenced [OF c [unfolded demo_mesh_def]] r(2) by (auto simp: legacy_evidence_def)
  with c r(1) show ?thesis by (intro bexI [of _ ?c]) simp_all
qed

text \<open>
  C28. A tag is not reused while an old response could still arrive. In every interleaving in which the
  clock does not run backwards, when the device's confirmation gives the current request a tag, every
  earlier request of the connection that was finished with the same tag had been finished at least
  45 seconds before.
\<close>
theorem mesh_tags_retained:
  assumes "sorted (map fst hist @ [now])"
    and "assigns_tag (run_mesh k hist (new_system app m window))
           (mesh_do k now s (run_mesh k hist (new_system app m window))) tag"
    and "(tag, t) \<in> set (ms_tags (run_mesh k hist (new_system app m window)))"
  shows "t + 45 * second \<le> now"
proof -
  let ?S = "run_mesh k hist (new_system app m window)"
  have "sorted (hd (map fst hist @ [now]) # map fst hist @ [now])"
    using assms(1) by (cases hist) auto
  then have "tags_ok now ?S" by (rule tags_ok_run [OF tags_ok_new])
  then have "t + expired_tag_retention \<le> now"
    by (rule assigned_fresh [OF _ order_refl assigns_tag_step [OF assms(2)] assms(3)])
  then show ?thesis by (simp add: expired_tag_retention_def default_telemetry_timeout_def)
qed

theorem mesh_tags_retained_witness:
  "(7, 8) \<in> set (ms_tags (run_mesh demo_crypto (demo_history_to_answer @ demo_second) demo_mesh))
   \<and> 8 + 45 * second \<le> 45000000011"
proof (intro conjI mesh_tags_retained)
  show "sorted (map fst (demo_history_to_answer @ demo_second) @ [45000000011])"
    by (simp add: demo_history_to_answer_def demo_handshake_def demo_second_def)
  show "assigns_tag (run_mesh demo_crypto (demo_history_to_answer @ demo_second) (new_system ''app'' demo_serial 0))
     (mesh_do demo_crypto 45000000011 (StepReader True)
       (run_mesh demo_crypto (demo_history_to_answer @ demo_second) (new_system ''app'' demo_serial 0))) 7"
    using demo_reassigned(1) unfolding demo_mesh_def .
  show "(7, 8) \<in> set (ms_tags (run_mesh demo_crypto (demo_history_to_answer @ demo_second)
      (new_system ''app'' demo_serial 0)))"
    using demo_reassigned(2) unfolding demo_mesh_def .
  show "(7, 8) \<in> set (ms_tags (run_mesh demo_crypto (demo_history_to_answer @ demo_second) demo_mesh))"
    by (rule demo_reassigned(2))
qed

end
