(* ===== verification/Tracking.thy ===== *)
theory Tracking
  imports MeshArbiter Complex_Main
begin

text \<open>
  The tracking controller (\<open>internal/meshcore/tracking.go\<close>): which telemetry request is made when, how a
  stale route is recovered, and what the status shows.

  The controller's critical sections are functions of its state; the goroutine that polls runs them in
  the order of \<open>poll\<close> and \<open>run\<close>, other goroutines in between. \<open>TelemetryResult{}\<close> is \<^term>\<open>None\<close>. Distances
  and speeds are floats: the two computed ones (haversine, and distance over time) are parameters, and
  finite floats are rationals. The copies a status hands out are values here, and log lines are not
  modelled.
\<close>

section \<open>Floats, errors and policy\<close>

datatype go_float = Finite rat | Infinite bool | NotANumber

text \<open>Comparisons with a finite float; every comparison with NaN is false.\<close>

fun float_less :: "go_float \<Rightarrow> rat \<Rightarrow> bool" where
  "float_less (Finite x) y = (x < y)"
| "float_less (Infinite negative) y = negative"
| "float_less NotANumber y = False"

fun float_greater :: "go_float \<Rightarrow> rat \<Rightarrow> bool" where
  "float_greater (Finite x) y = (y < x)"
| "float_greater (Infinite negative) y = (\<not> negative)"
| "float_greater NotANumber y = False"

definition is_finite :: "go_float \<Rightarrow> bool" where
  "is_finite x = (case x of Finite _ \<Rightarrow> True | _ \<Rightarrow> False)"

text \<open>What \<open>errors.Is\<close> and \<open>Error()\<close> show of an error.\<close>

record track_error =
  er_text :: string
  er_timeout :: bool
  er_disconnected :: bool
  er_deadline :: bool

definition disconnected_text :: string where
  "disconnected_text = ''MeshCore adapter is disconnected''"

datatype motion_state = MotionUnknown | MotionStationary | MotionSlow | MotionFast

record tracking_policy =
  pl_unknown_interval :: duration
  pl_stationary_interval :: duration
  pl_slow_interval :: duration
  pl_fast_interval :: duration
  pl_minimum_interval :: duration
  pl_maximum_backoff :: duration
  pl_stationary_kmh :: rat
  pl_slow_kmh :: rat
  pl_minimum_sample_age :: duration
  pl_maximum_jump :: rat
  pl_maximum_speed :: rat

definition default_tracking_policy :: tracking_policy where
  "default_tracking_policy =
     \<lparr> pl_unknown_interval = 30 * second, pl_stationary_interval = 45 * second,
       pl_slow_interval = 30 * second, pl_fast_interval = 15 * second,
       pl_minimum_interval = 10 * second, pl_maximum_backoff = 5 * minute,
       pl_stationary_kmh = 1, pl_slow_kmh = 8, pl_minimum_sample_age = 5 * second,
       pl_maximum_jump = 10000, pl_maximum_speed = 250 \<rparr>"

definition or_default :: "'a::{zero,linorder} \<Rightarrow> 'a \<Rightarrow> 'a" where
  "or_default v d = (if v \<le> 0 then d else v)"

definition normalized_policy :: "tracking_policy \<Rightarrow> tracking_policy" where
  "normalized_policy p =
     (let d = default_tracking_policy;
          unknown = or_default (pl_unknown_interval p) (pl_unknown_interval d);
          stationary = or_default (pl_stationary_interval p) (pl_stationary_interval d);
          slow = or_default (pl_slow_interval p) (pl_slow_interval d);
          fast = or_default (pl_fast_interval p) (pl_fast_interval d);
          least = or_default (pl_minimum_interval p) (pl_minimum_interval d);
          backoff = or_default (pl_maximum_backoff p) (pl_maximum_backoff d);
          stationary_kmh = or_default (pl_stationary_kmh p) (pl_stationary_kmh d)
      in \<lparr> pl_unknown_interval = max unknown least, pl_stationary_interval = max stationary least,
           pl_slow_interval = max slow least, pl_fast_interval = max fast least,
           pl_minimum_interval = least, pl_maximum_backoff = max backoff (max unknown least),
           pl_stationary_kmh = stationary_kmh,
           pl_slow_kmh = (if pl_slow_kmh p \<le> stationary_kmh then pl_slow_kmh d else pl_slow_kmh p),
           pl_minimum_sample_age = or_default (pl_minimum_sample_age p) (pl_minimum_sample_age d),
           pl_maximum_jump = or_default (pl_maximum_jump p) (pl_maximum_jump d),
           pl_maximum_speed = or_default (pl_maximum_speed p) (pl_maximum_speed d) \<rparr>)"

section \<open>State\<close>

definition unavailable_diagnostic :: string where
  "unavailable_diagnostic = ''meshcore_tracking_unavailable''"

definition unavailable_threshold :: nat where "unavailable_threshold = 2"
definition recent_poll_limit :: nat where "recent_poll_limit = 50"
definition stale_route_threshold :: nat where "stale_route_threshold = 3"

record tracking_poll =
  po_request_at :: time
  po_response_at :: "time option"
  po_outcome :: string
  po_error :: "string option"
  po_speed :: "go_float option"
  po_motion :: motion_state
  po_interval :: int
  po_route :: "route_evidence option"
  po_recovery :: string
  po_stale_failures :: nat
  po_path_update :: bool
  po_failures :: nat
  po_transport :: string
  po_request_tag :: "32 word option"
  po_response_tag :: "32 word option"
  po_fallback :: string
  po_schedule_source :: string
  po_rf :: "rf_evidence option"

record tracking_status =
  ts_active :: bool
  ts_target :: string
  ts_motion :: motion_state
  ts_speed :: "go_float option"
  ts_interval :: int
  ts_last_request :: "time option"
  ts_last_response :: "time option"
  ts_transport :: string
  ts_capability :: string
  ts_request_tag :: "32 word option"
  ts_response_tag :: "32 word option"
  ts_expired_tag :: "32 word option"
  ts_fallback :: string
  ts_schedule_source :: string
  ts_next_request :: "time option"
  ts_failures :: nat
  ts_adapter_failures :: nat
  ts_diagnostic :: string
  ts_error :: "string option"
  ts_recovery_state :: string
  ts_recovery_event :: string
  ts_episode :: bool
  ts_reset_attempts :: nat
  ts_stale_failures :: nat
  ts_stale_threshold :: nat
  ts_route_generation :: "64 word"
  ts_route_fingerprint :: string
  ts_path_update_at :: "time option"
  ts_path_update_pending :: bool
  ts_latest :: "telemetry_result option"
  ts_polls :: "tracking_poll list"
  ts_source :: string

record tracking_fix =
  fx_latitude :: quotient
  fx_longitude :: quotient
  fx_observed :: time

text \<open>The number of runs is a natural number: 2^64 starts are out of reach.\<close>

record tracker =
  tk_has_request :: bool
  tk_has_reset :: bool
  tk_policy :: tracking_policy
  tk_status :: tracking_status
  tk_fix :: "tracking_fix option"
  tk_pending :: motion_state
  tk_pending_count :: nat
  tk_generation :: nat
  tk_source :: string
  tk_wake :: bool
  tk_fingerprint :: string
  tk_route_generation :: "64 word"
  tk_episode :: bool
  tk_pending_event :: string
  tk_stale_fingerprint :: string
  tk_stale_failures :: nat
  tk_acknowledged :: bool
  tk_reset_fingerprint :: string
  tk_path_generation :: "64 word"
  tk_reset_path_generation :: "64 word"
  tk_flood_after_reset :: bool

definition blank_tracking_status :: tracking_status where
  "blank_tracking_status =
     \<lparr> ts_active = False, ts_target = [], ts_motion = MotionUnknown, ts_speed = None, ts_interval = 0,
       ts_last_request = None, ts_last_response = None, ts_transport = [], ts_capability = [],
       ts_request_tag = None, ts_response_tag = None, ts_expired_tag = None, ts_fallback = [],
       ts_schedule_source = [], ts_next_request = None, ts_failures = 0, ts_adapter_failures = 0,
       ts_diagnostic = [], ts_error = None, ts_recovery_state = [], ts_recovery_event = [],
       ts_episode = False, ts_reset_attempts = 0, ts_stale_failures = 0, ts_stale_threshold = 0,
       ts_route_generation = 0, ts_route_fingerprint = [], ts_path_update_at = None,
       ts_path_update_pending = False, ts_latest = None, ts_polls = [], ts_source = [] \<rparr>"

abbreviation on_status :: "(tracking_status \<Rightarrow> tracking_status) \<Rightarrow> tracker \<Rightarrow> tracker" where
  "on_status f c \<equiv> c\<lparr> tk_status := f (tk_status c) \<rparr>"

text \<open>Go's division truncates, and a duration is positive here.\<close>

definition in_seconds :: "duration \<Rightarrow> int" where
  "in_seconds d = d div second"

definition new_tracker :: "bool \<Rightarrow> bool \<Rightarrow> tracking_policy \<Rightarrow> tracker" where
  "new_tracker has_request has_reset policy =
     (let p = normalized_policy policy
      in \<lparr> tk_has_request = has_request, tk_has_reset = has_reset, tk_policy = p,
           tk_status = blank_tracking_status
             \<lparr> ts_interval := in_seconds (pl_unknown_interval p), ts_stale_threshold := stale_route_threshold \<rparr>,
           tk_fix = None, tk_pending = MotionUnknown, tk_pending_count = 0, tk_generation = 0, tk_source = [],
           tk_wake = False, tk_fingerprint = [], tk_route_generation = 0, tk_episode = False,
           tk_pending_event = [], tk_stale_fingerprint = [], tk_stale_failures = 0,
           tk_acknowledged = False, tk_reset_fingerprint = [], tk_path_generation = 0,
           tk_reset_path_generation = 0, tk_flood_after_reset = False \<rparr>)"

section \<open>Lifecycle\<close>

definition current_run :: "string \<Rightarrow> nat \<Rightarrow> tracker \<Rightarrow> bool" where
  "current_run target g c =
     (ts_active (tk_status c) \<and> ts_target (tk_status c) = target \<and> tk_generation c = g)"

definition interval_for :: "tracker \<Rightarrow> duration" where
  "interval_for c =
     (let p = tk_policy c in
      case ts_motion (tk_status c) of
        MotionStationary \<Rightarrow> pl_stationary_interval p
      | MotionSlow \<Rightarrow> pl_slow_interval p
      | MotionFast \<Rightarrow> pl_fast_interval p
      | MotionUnknown \<Rightarrow> pl_unknown_interval p)"

definition set_control_source :: "unicode \<Rightarrow> string \<Rightarrow> tracker \<Rightarrow> tracker" where
  "set_control_source u s c =
     (let s = to_lower u (trim_space s); s = (if s \<noteq> ''session'' \<and> s \<noteq> ''manual'' then [] else s) in
      if tk_source c = s then c
      else
        let c = on_status (\<lambda>t. t\<lparr> ts_source := s \<rparr>) (c\<lparr> tk_source := s \<rparr>) in
        if s \<noteq> ''session'' \<or> \<not> ts_active (tk_status c) \<or> ts_error (tk_status c) = Some disconnected_text then c
        else on_status (\<lambda>t. t\<lparr> ts_interval := in_seconds (interval_for c) \<rparr>) (c\<lparr> tk_wake := True \<rparr>))"

text \<open>What a new run, or a stopped one, forgets.\<close>

definition forget_run :: "tracker \<Rightarrow> tracker" where
  "forget_run c =
     c\<lparr> tk_fix := None, tk_pending := MotionUnknown, tk_pending_count := 0, tk_fingerprint := [],
        tk_route_generation := 0, tk_episode := False, tk_pending_event := [], tk_stale_fingerprint := [],
        tk_stale_failures := 0, tk_acknowledged := False, tk_reset_fingerprint := [],
        tk_path_generation := 0, tk_reset_path_generation := 0, tk_flood_after_reset := False,
        tk_wake := False \<rparr>"

datatype start_error = StartInvalidTarget | StartUnavailable | StartDifferentTarget | StartAlreadyActive

definition start_tracking :: "string \<Rightarrow> time \<Rightarrow> tracker \<Rightarrow> tracker \<times> (start_error + nat)" where
  "start_tracking key now c =
     (if parse_target key = None then (c, Inl StartInvalidTarget)
      else if \<not> tk_has_request c then (c, Inl StartUnavailable)
      else if ts_active (tk_status c)
      then (c, Inl (if ts_target (tk_status c) \<noteq> key then StartDifferentTarget else StartAlreadyActive))
      else
        let g = tk_generation c + 1;
            keep = (tk_source c = ''session'' \<and> ts_diagnostic (tk_status c) = unavailable_diagnostic)
        in ((forget_run c)\<lparr> tk_generation := g,
              tk_status := blank_tracking_status
                \<lparr> ts_active := True, ts_target := key,
                  ts_interval := in_seconds (pl_unknown_interval (tk_policy c)), ts_source := tk_source c,
                  ts_recovery_state := ''idle'', ts_stale_threshold := stale_route_threshold,
                  ts_adapter_failures := (if keep then ts_adapter_failures (tk_status c) else 0),
                  ts_diagnostic := (if keep then ts_diagnostic (tk_status c) else []),
                  ts_next_request := Some now \<rparr> \<rparr>,
            Inr g))"

definition stop_tracking :: "tracker \<Rightarrow> tracker" where
  "stop_tracking c =
     on_status (\<lambda>t. t\<lparr> ts_active := False, ts_target := [], ts_next_request := None,
                       ts_interval := in_seconds (pl_unknown_interval (tk_policy c)),
                       ts_recovery_state := ''idle'', ts_recovery_event := [], ts_episode := False,
                       ts_reset_attempts := 0, ts_stale_failures := 0,
                       ts_stale_threshold := stale_route_threshold, ts_route_generation := 0,
                       ts_route_fingerprint := [], ts_path_update_at := None,
                       ts_path_update_pending := False \<rparr>)
       ((forget_run c)\<lparr> tk_generation := tk_generation c + 1 \<rparr>)"

section \<open>Routes\<close>

definition recoverable_route :: "route_evidence \<Rightarrow> bool" where
  "recoverable_route e = (re_mode e = ZeroHop \<or> re_mode e = ExplicitPath)"

definition stale_route_candidate :: "route_evidence \<Rightarrow> bool" where
  "stale_route_candidate e = (recoverable_route e \<and> re_source e = ContactAndResponseSent)"

fun route_mode_text :: "route_mode \<Rightarrow> string" where
  "route_mode_text ZeroHop = ''zero_hop''"
| "route_mode_text ExplicitPath = ''explicit_path''"
| "route_mode_text Flood = ''flood''"
| "route_mode_text UnknownRoute = ''unknown''"

definition route_fingerprint :: "route_evidence \<Rightarrow> string" where
  "route_fingerprint e =
     (if \<not> recoverable_route e \<and> re_mode e \<noteq> Flood then []
      else route_mode_text (re_mode e) @ '':'' @ join_with (CHR '','') (re_path e))"

definition clear_stale_failures :: "tracker \<Rightarrow> tracker" where
  "clear_stale_failures c =
     on_status (\<lambda>t. t\<lparr> ts_stale_failures := 0, ts_stale_threshold := stale_route_threshold \<rparr>)
       (c\<lparr> tk_stale_fingerprint := [], tk_stale_failures := 0 \<rparr>)"

definition note_stale_failure :: "route_evidence \<Rightarrow> tracker \<Rightarrow> tracker" where
  "note_stale_failure e c =
     (let f = route_fingerprint e in
      if f = [] then clear_stale_failures c
      else
        let n = (if tk_stale_fingerprint c \<noteq> f then 1 else tk_stale_failures c + 1)
        in on_status (\<lambda>t. t\<lparr> ts_stale_failures := n, ts_stale_threshold := stale_route_threshold \<rparr>)
             (c\<lparr> tk_stale_fingerprint := f, tk_stale_failures := n \<rparr>))"

definition observe_post_reset :: "route_evidence option \<Rightarrow> tracker \<Rightarrow> tracker" where
  "observe_post_reset r c =
     (case r of
        Some e \<Rightarrow>
          if tk_episode c \<and> tk_acknowledged c \<and> re_mode e = Flood \<and> re_source e = ResponseSentSource
          then c\<lparr> tk_flood_after_reset := True \<rparr> else c
      | None \<Rightarrow> c)"

definition end_episode :: "tracker \<Rightarrow> tracker" where
  "end_episode c =
     c\<lparr> tk_episode := False, tk_acknowledged := False, tk_reset_fingerprint := [],
        tk_reset_path_generation := 0, tk_flood_after_reset := False \<rparr>"

definition route_changed :: "route_evidence \<Rightarrow> tracker \<Rightarrow> bool" where
  "route_changed e c =
     (route_fingerprint e \<noteq> tk_reset_fingerprint c \<or> tk_flood_after_reset c
      \<or> tk_path_generation c \<noteq> tk_reset_path_generation c)"

definition rearm_for_new_route :: "route_evidence \<Rightarrow> tracker \<Rightarrow> tracker" where
  "rearm_for_new_route e c =
     (if \<not> tk_episode c \<or> \<not> tk_acknowledged c \<or> \<not> route_changed e c then c
      else on_status (\<lambda>t. t\<lparr> ts_recovery_state := ''rearmed_for_new_route'', ts_episode := False,
                             ts_recovery_event := ''new_route_observed'' \<rparr>)
             ((clear_stale_failures (end_episode c))\<lparr> tk_pending_event := ''new_route_observed'' \<rparr>))"

definition episode_label :: "tracker \<Rightarrow> route_evidence option \<Rightarrow> string" where
  "episode_label c r =
     (if \<not> tk_episode c then []
      else case map_option re_mode r of
        Some Flood \<Rightarrow> ''flood_attempted''
      | Some ExplicitPath \<Rightarrow> ''explicit_path_observed''
      | Some ZeroHop \<Rightarrow> ''zero_hop_observed''
      | _ \<Rightarrow> [])"

definition recovery_for_poll :: "route_evidence option \<Rightarrow> tracker \<Rightarrow> tracker \<times> string" where
  "recovery_for_poll r c =
     (if tk_pending_event c \<noteq> [] then (c\<lparr> tk_pending_event := [] \<rparr>, tk_pending_event c)
      else (c, episode_label c r))"

definition establish_route :: "route_evidence option \<Rightarrow> tracker \<Rightarrow> tracker" where
  "establish_route r c =
     (case r of
        None \<Rightarrow> c
      | Some e \<Rightarrow>
          let f = route_fingerprint e in
          if f = [] then c
          else
            let c = (if f \<noteq> tk_fingerprint c
                     then on_status (\<lambda>t. t\<lparr> ts_route_fingerprint := f,
                                            ts_route_generation := tk_route_generation c + 1 \<rparr>)
                            (c\<lparr> tk_fingerprint := f, tk_route_generation := tk_route_generation c + 1 \<rparr>)
                     else c)
            in if tk_episode c
               then on_status (\<lambda>t. t\<lparr> ts_episode := False, ts_recovery_state := ''recovery_complete'',
                                      ts_recovery_event := ''route_recovered'' \<rparr>) (end_episode c)
               else c)"

text \<open>\<open>HandlePathUpdated\<close> for a time that is not zero.\<close>

definition handle_path_updated :: "string \<Rightarrow> time \<Rightarrow> tracker \<Rightarrow> tracker" where
  "handle_path_updated key seen_at c =
     (if is_zero seen_at \<or> \<not> ts_active (tk_status c) \<or> ts_target (tk_status c) \<noteq> key then c
      else on_status (\<lambda>t. t\<lparr> ts_path_update_at := Some seen_at, ts_path_update_pending := True \<rparr>)
             (c\<lparr> tk_path_generation := tk_path_generation c + 1 \<rparr>))"

section \<open>Motion\<close>

record motion_env =
  mo_distance :: "tracking_fix \<Rightarrow> tracking_fix \<Rightarrow> go_float"
  mo_speed :: "go_float \<Rightarrow> duration \<Rightarrow> go_float"

definition coordinate_value :: "quotient \<Rightarrow> rat" where
  "coordinate_value q = of_int (fst q) / of_nat (snd q)"

text \<open>Decoded coordinates are finite; 90 and 180 are floats, so rounding does not move a coordinate
  across them, and different quotients of one denominator are different floats.\<close>

definition valid_coordinate :: "quotient \<Rightarrow> quotient \<Rightarrow> bool" where
  "valid_coordinate lat lon =
     (-90 \<le> coordinate_value lat \<and> coordinate_value lat \<le> 90
      \<and> -180 \<le> coordinate_value lon \<and> coordinate_value lon \<le> 180)"

definition set_motion :: "motion_state \<Rightarrow> tracker \<Rightarrow> tracker" where
  "set_motion m c =
     on_status (\<lambda>t. t\<lparr> ts_motion := m \<rparr>) (c\<lparr> tk_pending := MotionUnknown, tk_pending_count := 0 \<rparr>)"

definition set_operational_error :: "string \<Rightarrow> tracker \<Rightarrow> tracker" where
  "set_operational_error e c = on_status (\<lambda>t. t\<lparr> ts_error := Some e \<rparr>) c"

definition apply_motion :: "motion_state \<Rightarrow> tracker \<Rightarrow> tracker" where
  "apply_motion m c =
     (if ts_motion (tk_status c) = m then c\<lparr> tk_pending := MotionUnknown, tk_pending_count := 0 \<rparr>
      else if ts_motion (tk_status c) = MotionUnknown then set_motion m c
      else if tk_pending c \<noteq> m then c\<lparr> tk_pending := m, tk_pending_count := 1 \<rparr>
      else
        let c = c\<lparr> tk_pending_count := tk_pending_count c + 1 \<rparr>
        in if 2 \<le> tk_pending_count c then set_motion m c else c)"

definition classify_speed :: "tracking_policy \<Rightarrow> go_float \<Rightarrow> motion_state" where
  "classify_speed p v =
     (if float_less v (pl_stationary_kmh p) then MotionStationary
      else if is_finite v \<and> \<not> float_greater v (pl_slow_kmh p) then MotionSlow
      else MotionFast)"

definition unknown_motion :: "tracker \<Rightarrow> tracker" where
  "unknown_motion c = set_motion MotionUnknown (on_status (\<lambda>t. t\<lparr> ts_speed := None \<rparr>) c)"

definition rebase_fix :: "tracking_fix \<Rightarrow> tracker \<Rightarrow> tracker" where
  "rebase_fix fix c = on_status (\<lambda>t. t\<lparr> ts_error := None \<rparr>) (unknown_motion (c\<lparr> tk_fix := Some fix \<rparr>))"

definition apply_fix :: "motion_env \<Rightarrow> telemetry_result \<Rightarrow> tracker \<Rightarrow> tracker" where
  "apply_fix m r c =
     (case (tl_latitude (tr_telemetry r), tl_longitude (tr_telemetry r)) of
        (Some lat, Some lon) \<Rightarrow>
          if \<not> valid_coordinate lat lon
          then set_operational_error ''telemetry response GPS is invalid'' (unknown_motion c)
          else if is_zero (tr_received_at r)
          then set_operational_error ''telemetry response timestamp is invalid'' (unknown_motion c)
          else
            let here = \<lparr> fx_latitude = lat, fx_longitude = lon, fx_observed = tr_received_at r \<rparr>
            in (case tk_fix c of
                  None \<Rightarrow> rebase_fix here c
                | Some before \<Rightarrow>
                    if coordinate_value (fx_latitude before) = coordinate_value lat
                       \<and> coordinate_value (fx_longitude before) = coordinate_value lon
                    then rebase_fix here c
                    else
                      let elapsed = time_sub (fx_observed here) (fx_observed before); p = tk_policy c in
                      if elapsed < pl_minimum_sample_age p
                      then set_operational_error ''telemetry GPS samples are too close together''
                             (c\<lparr> tk_fix := Some here \<rparr>)
                      else if elapsed \<le> 0
                      then set_operational_error ''telemetry GPS sample timestamp did not advance'' c
                      else
                        let d = mo_distance m before here in
                        if \<not> is_finite d \<or> float_greater d (pl_maximum_jump p)
                        then set_operational_error ''telemetry GPS jump ignored'' c
                        else
                          let v = mo_speed m d elapsed in
                          if \<not> is_finite v \<or> float_greater v (pl_maximum_speed p)
                          then set_operational_error ''telemetry GPS speed is implausible'' c
                          else apply_motion (classify_speed p v)
                                 (on_status (\<lambda>t. t\<lparr> ts_speed := Some v, ts_error := None \<rparr>)
                                   (c\<lparr> tk_fix := Some here \<rparr>)))
      | _ \<Rightarrow> set_operational_error ''telemetry response has no usable GPS'' (unknown_motion c))"

section \<open>Polls\<close>

definition result_route :: "telemetry_result option \<Rightarrow> route_evidence option" where
  "result_route r = map_option tr_route r"

definition append_poll :: "tracking_poll \<Rightarrow> tracker \<Rightarrow> tracker" where
  "append_poll p c =
     on_status (\<lambda>t. let ps = ts_polls t @ [p] in t\<lparr> ts_polls := drop (length ps - recent_poll_limit) ps \<rparr>) c"

definition tracking_outcome :: "track_error \<Rightarrow> string" where
  "tracking_outcome e = (if er_timeout e \<or> er_deadline e then ''timeout'' else ''error'')"

definition or_keep :: "string \<Rightarrow> string \<Rightarrow> string" where
  "or_keep new old = (if new \<noteq> [] then new else old)"

definition record_diagnostics :: "telemetry_result option \<Rightarrow> track_error option \<Rightarrow> tracker \<Rightarrow> tracker" where
  "record_diagnostics r e c =
     (case r of
        None \<Rightarrow> c
      | Some r \<Rightarrow>
          on_status (\<lambda>t. t
            \<lparr> ts_transport := or_keep (tr_transport r) (ts_transport t),
              ts_capability := or_keep (tr_capability r) (ts_capability t),
              ts_fallback := or_keep (tr_fallback r) (ts_fallback t),
              ts_request_tag := (if tr_request_tag r \<noteq> None then tr_request_tag r else ts_request_tag t),
              ts_response_tag := (if tr_response_tag r \<noteq> None then tr_response_tag r else ts_response_tag t),
              ts_expired_tag := (if (case e of None \<Rightarrow> False | Some x \<Rightarrow> er_timeout x) \<and> tr_request_tag r \<noteq> None
                                 then tr_request_tag r else ts_expired_tag t) \<rparr>) c)"

definition failure_interval :: "track_error \<Rightarrow> tracker \<Rightarrow> duration \<times> string" where
  "failure_interval e c =
     (if tk_source c = ''session'' \<and> \<not> er_disconnected e then (interval_for c, ''motion'')
      else
        let p = tk_policy c;
            next = wrap64 (ts_interval (tk_status c) * second);
            next = (if ts_failures (tk_status c) = 1 then max (pl_unknown_interval p) next else wrap64 (next * 2));
            next = max (min next (pl_maximum_backoff p)) (pl_minimum_interval p)
        in (next, if er_disconnected e then ''adapter_recovery'' else ''manual_backoff''))"

text \<open>What a poll appends to the history; the status supplies the rest.\<close>

definition poll_entry ::
  "time \<Rightarrow> time option \<Rightarrow> string \<Rightarrow> string option \<Rightarrow> telemetry_result option \<Rightarrow> string \<Rightarrow> string \<Rightarrow> bool
   \<Rightarrow> tracker \<Rightarrow> tracking_poll" where
  "poll_entry request_at response_at outcome err r recovery schedule path_update c =
     (let t = tk_status c in
      \<lparr> po_request_at = request_at, po_response_at = response_at, po_outcome = outcome, po_error = err,
        po_speed = ts_speed t, po_motion = ts_motion t, po_interval = ts_interval t,
        po_route = result_route r, po_recovery = recovery, po_stale_failures = ts_stale_failures t,
        po_path_update = path_update, po_failures = ts_failures t,
        po_transport = (case r of None \<Rightarrow> [] | Some r \<Rightarrow> tr_transport r),
        po_request_tag = Option.bind r tr_request_tag, po_response_tag = Option.bind r tr_response_tag,
        po_fallback = (case r of None \<Rightarrow> [] | Some r \<Rightarrow> tr_fallback r), po_schedule_source = schedule,
        po_rf = Option.bind r tr_rf \<rparr>)"

definition record_success ::
  "motion_env \<Rightarrow> string \<Rightarrow> nat \<Rightarrow> telemetry_result \<Rightarrow> time \<Rightarrow> tracker \<Rightarrow> tracker" where
  "record_success m target g r request_at c =
     (if \<not> current_run target g c then c
      else
        let c = on_status (\<lambda>t. t\<lparr> ts_last_response := Some (tr_received_at r),
                  ts_latest := Some (r\<lparr> tr_raw := [] \<rparr>), ts_failures := 0, ts_adapter_failures := 0,
                  ts_diagnostic := [], ts_error := None \<rparr>) c;
            c = apply_fix m r (record_diagnostics (Some r) None (clear_stale_failures c));
            c = on_status (\<lambda>t. t\<lparr> ts_interval := in_seconds (interval_for c) \<rparr>) c;
            recovery = snd (recovery_for_poll (Some (tr_route r)) c);
            c = establish_route (Some (tr_route r)) (fst (recovery_for_poll (Some (tr_route r)) c));
            seen = ts_path_update_pending (tk_status c);
            c = on_status (\<lambda>t. t\<lparr> ts_path_update_pending := False \<rparr>) c
        in append_poll (poll_entry request_at (Some (tr_received_at r)) ''success'' None (Some r) recovery [] seen c) c)"

definition record_poll_failure ::
  "string \<Rightarrow> nat \<Rightarrow> telemetry_result option \<Rightarrow> track_error \<Rightarrow> time \<Rightarrow> tracker \<Rightarrow> tracker" where
  "record_poll_failure target g r e request_at c =
     (if \<not> current_run target g c then c
      else
        let local = (tk_source c = ''session'' \<and> er_disconnected e);
            n = ts_adapter_failures (tk_status c) + 1;
            c = on_status (\<lambda>t. t\<lparr> ts_failures := ts_failures t + 1,
                  ts_adapter_failures := (if local then n else 0),
                  ts_diagnostic := (if local
                                    then (if unavailable_threshold \<le> n then unavailable_diagnostic
                                          else ts_diagnostic t)
                                    else []),
                  ts_error := Some (er_text e) \<rparr>) c;
            c = record_diagnostics r (Some e) c;
            schedule = snd (failure_interval e c);
            c = on_status (\<lambda>t. t\<lparr> ts_interval := in_seconds (fst (failure_interval e c)),
                  ts_schedule_source := schedule \<rparr>) c;
            recovery = snd (recovery_for_poll (result_route r) c);
            c = fst (recovery_for_poll (result_route r) c);
            seen = ts_path_update_pending (tk_status c);
            c = on_status (\<lambda>t. t\<lparr> ts_path_update_pending := False \<rparr>) c
        in append_poll (poll_entry request_at None (tracking_outcome e) (Some (er_text e)) r recovery schedule seen c) c)"

section \<open>Recovery of a stale route\<close>

text \<open>\<open>recoverStaleRouteTimeout\<close> up to the reset command: whether it is sent.\<close>

definition recover_begin ::
  "string \<Rightarrow> nat \<Rightarrow> telemetry_result option \<Rightarrow> track_error \<Rightarrow> bool \<Rightarrow> tracker \<Rightarrow> tracker \<times> bool" where
  "recover_begin target g r e cancelled c =
     (if \<not> current_run target g c then (c, False)
      else if \<not> er_timeout e \<or> \<not> tk_has_reset c
      then (clear_stale_failures (observe_post_reset (result_route r) c), False)
      else case result_route r of
        None \<Rightarrow> (clear_stale_failures (observe_post_reset None c), False)
      | Some route \<Rightarrow>
          if \<not> stale_route_candidate route
          then (clear_stale_failures (observe_post_reset (Some route) c), False)
          else
            let c = note_stale_failure route (rearm_for_new_route route c) in
            if tk_stale_failures c < stale_route_threshold \<or> cancelled then (c, False)
            else if tk_episode c
                    \<and> (tk_acknowledged c \<or> tk_stale_failures c mod stale_route_threshold \<noteq> 0)
            then (c, False)
            else
              (on_status (\<lambda>t. t\<lparr> ts_recovery_state := ''path_reset_requested'', ts_episode := True,
                  ts_recovery_event := ''path_reset_requested'',
                  ts_reset_attempts := (if tk_episode c then ts_reset_attempts t else 0) + 1 \<rparr>)
                (c\<lparr> tk_episode := True \<rparr>), True))"

text \<open>The rest, once the reset command has failed or was acknowledged.\<close>

definition recover_end :: "string \<Rightarrow> nat \<Rightarrow> bool \<Rightarrow> tracker \<Rightarrow> tracker" where
  "recover_end target g acknowledged c =
     (if \<not> current_run target g c then c
      else if \<not> acknowledged
      then on_status (\<lambda>t. t\<lparr> ts_recovery_state := ''recovery_active'', ts_recovery_event := ''path_reset_failed'' \<rparr>)
             (c\<lparr> tk_pending_event := ''path_reset_failed'' \<rparr>)
      else on_status (\<lambda>t. t\<lparr> ts_recovery_state := ''recovery_active'', ts_recovery_event := ''path_reset_acknowledged'' \<rparr>)
             (c\<lparr> tk_acknowledged := True, tk_reset_fingerprint := tk_stale_fingerprint c,
                 tk_reset_path_generation := tk_path_generation c, tk_flood_after_reset := False,
                 tk_pending_event := ''path_reset_acknowledged'' \<rparr>))"

section \<open>The polling goroutine\<close>

definition poll_begin :: "string \<Rightarrow> nat \<Rightarrow> time \<Rightarrow> tracker \<Rightarrow> tracker option" where
  "poll_begin target g now c =
     (if \<not> current_run target g c then None
      else Some (on_status (\<lambda>t. t\<lparr> ts_last_request := Some now, ts_next_request := None \<rparr>) c))"

text \<open>\<open>withSuccessfulRouteEvidence\<close>: the recovery label and the path-update flag a staged result carries.\<close>

definition success_evidence :: "string \<Rightarrow> nat \<Rightarrow> telemetry_result \<Rightarrow> tracker \<Rightarrow> string \<times> bool" where
  "success_evidence target g r c =
     (if \<not> current_run target g c then ([], False)
      else (if tk_pending_event c \<noteq> [] then tk_pending_event c else episode_label c (Some (tr_route r)),
            ts_path_update_pending (tk_status c)))"

definition request_time :: "time \<Rightarrow> telemetry_result option \<Rightarrow> time" where
  "request_time now r =
     (case r of None \<Rightarrow> now | Some r \<Rightarrow> if is_zero (tr_requested_at r) then now else tr_requested_at r)"

definition next_tracking_request :: "time \<Rightarrow> time \<Rightarrow> duration \<Rightarrow> bool \<Rightarrow> bool \<Rightarrow> time" where
  "next_tracking_request now request_at interval managed tagged =
     (if \<not> managed \<or> \<not> tagged \<or> is_zero request_at then now + interval
      else if request_at + interval < now then now else request_at + interval)"

text \<open>\<open>run\<close> after a poll: the next time, and whether the goroutine goes on.\<close>

definition schedule_next :: "string \<Rightarrow> nat \<Rightarrow> time \<Rightarrow> time \<Rightarrow> bool \<Rightarrow> tracker \<Rightarrow> time option" where
  "schedule_next target g now request_at tagged c =
     (if \<not> current_run target g c then None
      else Some (next_tracking_request now request_at (wrap64 (ts_interval (tk_status c) * second))
                   (tk_source c = ''session'') tagged))"

definition set_next_request :: "string \<Rightarrow> nat \<Rightarrow> time \<Rightarrow> tracker \<Rightarrow> tracker" where
  "set_next_request target g next c =
     (if current_run target g c then on_status (\<lambda>t. t\<lparr> ts_next_request := Some next \<rparr>) c else c)"

text \<open>\<open>poll\<close> with nothing in between: \<open>answer\<close> is what the telemetry request returns, \<open>staged\<close> the error of
  staging a successful one, \<open>acknowledged\<close> the outcome of a path reset.\<close>

definition result_tagged :: "telemetry_result option \<Rightarrow> bool" where
  "result_tagged r = (case r of None \<Rightarrow> False | Some r \<Rightarrow> tr_tagged r)"

definition run_poll ::
  "motion_env \<Rightarrow> string \<Rightarrow> nat \<Rightarrow> time \<Rightarrow> (telemetry_result option \<times> track_error) + telemetry_result
   \<Rightarrow> track_error option \<Rightarrow> bool \<Rightarrow> bool \<Rightarrow> tracker \<Rightarrow> tracker \<times> time \<times> bool" where
  "run_poll m target g now answer staged cancelled acknowledged c =
     (case poll_begin target g now c of
        None \<Rightarrow> (c, zero_time, False)
      | Some c \<Rightarrow>
          (case answer of
             Inl (r, e) \<Rightarrow>
               let (c, send) = recover_begin target g r e cancelled c;
                   c = (if send then recover_end target g acknowledged c else c)
               in (record_poll_failure target g r e (request_time now r) c, request_time now r, result_tagged r)
           | Inr r \<Rightarrow>
               ((case staged of
                   Some e \<Rightarrow> record_poll_failure target g (Some r) e (request_time now (Some r)) c
                 | None \<Rightarrow> record_success m target g r (request_time now (Some r)) c),
                request_time now (Some r), tr_tagged r)))"

section \<open>Steps\<close>

text \<open>The critical sections of all goroutines, as steps. A poll without an answer is a \<open>TrackRecover\<close> and a
  \<open>TrackFailure\<close>; one whose answer could not be staged is a \<open>TrackUnstaged\<close> alone.\<close>

datatype track_step =
  TrackStart string
| TrackStop
| TrackControl string
| TrackPathUpdated string
| TrackPoll string nat
| TrackRecover string nat "telemetry_result option" track_error bool
| TrackReset string nat bool
| TrackFailure string nat "telemetry_result option" track_error time
| TrackUnstaged string nat telemetry_result track_error time
| TrackSuccess string nat telemetry_result time
| TrackScheduled string nat time

text \<open>A polling goroutine that has sent a path reset waits for its outcome: \<open>tw_waiting\<close> names its run.\<close>

record track_world =
  tw_tracker :: tracker
  tw_waiting :: "(string \<times> nat) list"

definition new_world :: "tracker \<Rightarrow> track_world" where
  "new_world c = \<lparr> tw_tracker = c, tw_waiting = [] \<rparr>"

abbreviation on_tracker :: "(tracker \<Rightarrow> tracker) \<Rightarrow> track_world \<Rightarrow> track_world" where
  "on_tracker f w \<equiv> w\<lparr> tw_tracker := f (tw_tracker w) \<rparr>"

fun track_do :: "unicode \<Rightarrow> motion_env \<Rightarrow> time \<Rightarrow> track_step \<Rightarrow> track_world \<Rightarrow> track_world" where
  "track_do u m now (TrackStart key) w = on_tracker (\<lambda>c. fst (start_tracking key now c)) w"
| "track_do u m now TrackStop w = on_tracker stop_tracking w"
| "track_do u m now (TrackControl s) w = on_tracker (set_control_source u s) w"
| "track_do u m now (TrackPathUpdated key) w = on_tracker (handle_path_updated key now) w"
| "track_do u m now (TrackPoll target g) w =
     on_tracker (\<lambda>c. case poll_begin target g now c of None \<Rightarrow> c | Some c' \<Rightarrow> c') w"
| "track_do u m now (TrackRecover target g r e cancelled) w =
     (if (target, g) \<in> set (tw_waiting w) then w
      else w\<lparr> tw_tracker := fst (recover_begin target g r e cancelled (tw_tracker w)),
              tw_waiting := (if snd (recover_begin target g r e cancelled (tw_tracker w))
                             then [(target, g)] else []) @ tw_waiting w \<rparr>)"
| "track_do u m now (TrackReset target g acknowledged) w =
     (if (target, g) \<notin> set (tw_waiting w) then w
      else w\<lparr> tw_tracker := recover_end target g acknowledged (tw_tracker w),
              tw_waiting := removeAll (target, g) (tw_waiting w) \<rparr>)"
| "track_do u m now (TrackFailure target g r e request_at) w =
     (if (target, g) \<in> set (tw_waiting w) then w else on_tracker (record_poll_failure target g r e request_at) w)"
| "track_do u m now (TrackUnstaged target g r e request_at) w =
     (if (target, g) \<in> set (tw_waiting w) then w else on_tracker (record_poll_failure target g (Some r) e request_at) w)"
| "track_do u m now (TrackSuccess target g r request_at) w =
     (if (target, g) \<in> set (tw_waiting w) then w else on_tracker (record_success m target g r request_at) w)"
| "track_do u m now (TrackScheduled target g next) w = on_tracker (set_next_request target g next) w"

type_synonym track_history = "(time \<times> track_step) list"

fun run_tracker :: "unicode \<Rightarrow> motion_env \<Rightarrow> track_history \<Rightarrow> track_world \<Rightarrow> track_world" where
  "run_tracker u m [] w = w"
| "run_tracker u m ((now, s) # ss) w = run_tracker u m ss (track_do u m now s w)"

lemma run_tracker_append: "run_tracker u m (xs @ ys) w = run_tracker u m ys (run_tracker u m xs w)"
  by (induction xs arbitrary: w) auto

end
