(* ===== verification/TrackingProps.thy ===== *)
theory TrackingProps
  imports Tracking
begin

text \<open>
  What the tracking controller guarantees over every history of its critical sections: its interval
  stays within the policy, and a path is only reset on evidence that it is stale. The evidence is
  written down as events a history produces (\<open>route_event\<close>); the invariants relate the controller's
  counters and latches to them.
\<close>

section \<open>Pace\<close>

definition longest_interval :: "tracking_policy \<Rightarrow> duration" where
  "longest_interval p =
     Max {pl_unknown_interval p, pl_stationary_interval p, pl_slow_interval p, pl_fast_interval p, pl_maximum_backoff p}"

definition policy_ok :: "tracking_policy \<Rightarrow> bool" where
  "policy_ok p =
     (pl_minimum_interval p \<le> pl_unknown_interval p \<and> pl_minimum_interval p \<le> pl_stationary_interval p
      \<and> pl_minimum_interval p \<le> pl_slow_interval p \<and> pl_minimum_interval p \<le> pl_fast_interval p
      \<and> pl_minimum_interval p \<le> pl_maximum_backoff p \<and> 0 < pl_minimum_interval p)"

lemma or_default_pos: "0 < d \<Longrightarrow> 0 < or_default v d"
  by (auto simp: or_default_def not_le)

lemma normalized_ok: "policy_ok (normalized_policy p)"
proof -
  have "0 < or_default (pl_minimum_interval p) (pl_minimum_interval default_tracking_policy)"
    by (rule or_default_pos) (simp add: default_tracking_policy_def second_def)
  then show ?thesis by (simp add: policy_ok_def normalized_policy_def Let_def le_max_iff_disj)
qed

definition paced :: "tracker \<Rightarrow> bool" where
  "paced c =
     (policy_ok (tk_policy c)
      \<and> in_seconds (pl_minimum_interval (tk_policy c)) \<le> ts_interval (tk_status c)
      \<and> ts_interval (tk_status c) \<le> in_seconds (longest_interval (tk_policy c)))"

lemma in_seconds_mono: "a \<le> b \<Longrightarrow> in_seconds a \<le> in_seconds b"
  by (simp add: in_seconds_def second_def zdiv_mono1)

lemma paced_same:
  "paced c \<Longrightarrow> tk_policy d = tk_policy c \<Longrightarrow> ts_interval (tk_status d) = ts_interval (tk_status c) \<Longrightarrow> paced d"
  by (simp add: paced_def)

lemma paced_between:
  "policy_ok (tk_policy d) \<Longrightarrow> pl_minimum_interval (tk_policy d) \<le> v \<Longrightarrow> v \<le> longest_interval (tk_policy d)
   \<Longrightarrow> ts_interval (tk_status d) = in_seconds v \<Longrightarrow> paced d"
  by (simp add: paced_def in_seconds_mono)

lemma interval_for_between:
  "policy_ok (tk_policy c) \<Longrightarrow> pl_minimum_interval (tk_policy c) \<le> interval_for c"
  "interval_for c \<le> longest_interval (tk_policy c)"
  by (auto simp: interval_for_def policy_ok_def longest_interval_def Let_def split: motion_state.splits)

lemma failure_interval_between:
  "policy_ok (tk_policy c) \<Longrightarrow> pl_minimum_interval (tk_policy c) \<le> fst (failure_interval e c)"
  "policy_ok (tk_policy c) \<Longrightarrow> fst (failure_interval e c) \<le> longest_interval (tk_policy c)"
proof -
  assume p: "policy_ok (tk_policy c)"
  then have "max (min x (pl_maximum_backoff (tk_policy c))) (pl_minimum_interval (tk_policy c))
      \<le> longest_interval (tk_policy c)" for x
    by (auto simp: policy_ok_def longest_interval_def)
  then show "fst (failure_interval e c) \<le> longest_interval (tk_policy c)"
    using interval_for_between(2) by (auto simp: failure_interval_def Let_def)
  show "pl_minimum_interval (tk_policy c) \<le> fst (failure_interval e c)"
    using interval_for_between(1) [OF p] by (auto simp: failure_interval_def Let_def)
qed

text \<open>What the helpers keep.\<close>

lemma helpers_keep [simp]:
  "tk_policy (clear_stale_failures c) = tk_policy c" "ts_interval (tk_status (clear_stale_failures c)) = ts_interval (tk_status c)"
  "tk_policy (note_stale_failure e c) = tk_policy c" "ts_interval (tk_status (note_stale_failure e c)) = ts_interval (tk_status c)"
  "tk_policy (observe_post_reset r c) = tk_policy c" "ts_interval (tk_status (observe_post_reset r c)) = ts_interval (tk_status c)"
  "tk_policy (rearm_for_new_route e c) = tk_policy c" "ts_interval (tk_status (rearm_for_new_route e c)) = ts_interval (tk_status c)"
  "tk_policy (fst (recovery_for_poll r c)) = tk_policy c" "ts_interval (tk_status (fst (recovery_for_poll r c))) = ts_interval (tk_status c)"
  "tk_policy (establish_route r c) = tk_policy c" "ts_interval (tk_status (establish_route r c)) = ts_interval (tk_status c)"
  "tk_policy (append_poll p c) = tk_policy c" "ts_interval (tk_status (append_poll p c)) = ts_interval (tk_status c)"
  "tk_policy (record_diagnostics d x c) = tk_policy c"
  by (auto simp: clear_stale_failures_def note_stale_failure_def observe_post_reset_def rearm_for_new_route_def
      end_episode_def recovery_for_poll_def establish_route_def append_poll_def record_diagnostics_def Let_def
      split: option.splits)

lemma motion_keeps [simp]:
  "tk_policy (apply_fix m t c) = tk_policy c"
  by (auto simp: apply_fix_def apply_motion_def set_motion_def set_operational_error_def rebase_fix_def
      unknown_motion_def Let_def split: option.splits)

lemma paced_success: "paced c \<Longrightarrow> paced (record_success m target g r t c)"
proof (cases "current_run target g c")
  case True
  assume c: "paced c"
  define d where "d = apply_fix m r (record_diagnostics (Some r) None (clear_stale_failures
      (on_status (\<lambda>t. t\<lparr> ts_last_response := Some (tr_received_at r), ts_latest := Some (r\<lparr> tr_raw := [] \<rparr>),
        ts_failures := 0, ts_adapter_failures := 0, ts_diagnostic := [], ts_error := None \<rparr>) c)))"
  have p: "tk_policy d = tk_policy c" by (simp add: d_def)
  have "tk_policy (record_success m target g r t c) = tk_policy d"
    "ts_interval (tk_status (record_success m target g r t c)) = in_seconds (interval_for d)"
    using True unfolding record_success_def Let_def d_def [symmetric] by simp_all
  then show ?thesis
    using c p interval_for_between [of d] by (intro paced_between [of _ "interval_for d"]) (auto simp: paced_def)
qed (simp add: record_success_def)

lemma paced_failure: "paced c \<Longrightarrow> paced (record_poll_failure target g r e t c)"
proof (cases "current_run target g c")
  case True
  assume c: "paced c"
  define d where "d = record_diagnostics r (Some e) (on_status (\<lambda>t. t\<lparr> ts_failures := ts_failures t + 1,
      ts_adapter_failures := (if tk_source c = ''session'' \<and> er_disconnected e
                              then ts_adapter_failures (tk_status c) + 1 else 0),
      ts_diagnostic := (if tk_source c = ''session'' \<and> er_disconnected e
                        then (if unavailable_threshold \<le> ts_adapter_failures (tk_status c) + 1
                              then unavailable_diagnostic else ts_diagnostic t)
                        else []),
      ts_error := Some (er_text e) \<rparr>) c)"
  have "tk_policy d = tk_policy c" by (simp add: d_def)
  moreover have "tk_policy (record_poll_failure target g r e t c) = tk_policy d"
    "ts_interval (tk_status (record_poll_failure target g r e t c)) = in_seconds (fst (failure_interval e d))"
    using True unfolding record_poll_failure_def Let_def d_def [symmetric] by simp_all
  ultimately show ?thesis
    using c failure_interval_between [of d e]
    by (intro paced_between [of _ "fst (failure_interval e d)"]) (auto simp: paced_def)
qed (simp add: record_poll_failure_def)

lemma paced_recover:
  "paced c \<Longrightarrow> paced (fst (recover_begin target g r e x c))" "paced c \<Longrightarrow> paced (recover_end target g a c)"
  by (auto simp: recover_begin_def recover_end_def Let_def elim!: paced_same split: option.splits)

lemma unknown_between:
  "policy_ok p \<Longrightarrow> pl_minimum_interval p \<le> pl_unknown_interval p"
  "pl_unknown_interval p \<le> longest_interval p"
  by (auto simp: policy_ok_def longest_interval_def)

lemma forget_keeps [simp]: "tk_policy (forget_run c) = tk_policy c" "tk_status (forget_run c) = tk_status c"
  "tk_source (forget_run c) = tk_source c" "tk_generation (forget_run c) = tk_generation c"
  by (simp_all add: forget_run_def)

lemma paced_lifecycle:
  "paced c \<Longrightarrow> paced (fst (start_tracking key now c))" "paced c \<Longrightarrow> paced (stop_tracking c)"
  "paced c \<Longrightarrow> paced (set_control_source u s c)" "paced c \<Longrightarrow> paced (handle_path_updated key now c)"
  "paced c \<Longrightarrow> poll_begin key g now c = Some d \<Longrightarrow> paced d" "paced c \<Longrightarrow> paced (set_next_request key g now c)"
proof -
  assume c: "paced c"
  then have p: "policy_ok (tk_policy c)" by (simp add: paced_def)
  show "paced (fst (start_tracking key now c))"
    using c unknown_between [of "tk_policy c"] p by (auto simp: start_tracking_def Let_def blank_tracking_status_def
        intro!: paced_between [of _ "pl_unknown_interval (tk_policy c)"])
  show "paced (stop_tracking c)"
    using unknown_between [of "tk_policy c"] p
    by (intro paced_between [of _ "pl_unknown_interval (tk_policy c)"]) (simp_all add: stop_tracking_def)
  have "paced (on_status (\<lambda>t. t\<lparr> ts_interval := in_seconds (interval_for d) \<rparr>) d)"
    if "tk_policy d = tk_policy c" for d
    using interval_for_between [of d] that p by (intro paced_between [of _ "interval_for d"]) simp_all
  then show "paced (set_control_source u s c)"
    using c unfolding set_control_source_def Let_def by (auto simp: paced_def)
  show "paced (handle_path_updated key now c)" "paced (set_next_request key g now c)"
    using c by (auto simp: handle_path_updated_def set_next_request_def elim!: paced_same)
  show "poll_begin key g now c = Some d \<Longrightarrow> paced d"
    using c by (auto simp: poll_begin_def elim!: paced_same split: if_splits)
qed

lemma paced_step: "paced (tw_tracker w) \<Longrightarrow> paced (tw_tracker (track_do u m now s w))"
  by (cases s) (auto simp: paced_lifecycle paced_success paced_failure paced_recover split: option.splits)

lemma policy_step: "tk_policy (tw_tracker (track_do u m now s w)) = tk_policy (tw_tracker w)"
  by (cases s) (auto simp: start_tracking_def stop_tracking_def set_control_source_def handle_path_updated_def
      poll_begin_def recover_begin_def recover_end_def record_poll_failure_def record_success_def set_next_request_def
      Let_def split: option.splits)

lemma paced_run:
  "paced (tw_tracker w) \<Longrightarrow> paced (tw_tracker (run_tracker u m hist w))
     \<and> tk_policy (tw_tracker (run_tracker u m hist w)) = tk_policy (tw_tracker w)"
  by (induction hist arbitrary: w) (auto simp: paced_step policy_step)

lemma paced_new: "paced (tw_tracker (new_world (new_tracker a b p)))"
  using normalized_ok [of p] unknown_between [of "normalized_policy p"]
  by (intro paced_between [of _ "pl_unknown_interval (normalized_policy p)"])
    (simp_all add: new_world_def new_tracker_def Let_def blank_tracking_status_def)

section \<open>Path resets\<close>

text \<open>What a run has seen of the route, newest first. A stale timeout is a timeout of a request the device
  confirmed as sent directly, over a cached path; \<open>Unstaged\<close> is an answer that could not be staged.\<close>

datatype route_event =
  StaleTimeout string
| OtherFailure bool
| Answered
| Unstaged
| PathUpdated
| ResetAcknowledged string
| ResetFailed

definition poll_failure_event :: "telemetry_result option \<Rightarrow> track_error \<Rightarrow> tracker \<Rightarrow> route_event" where
  "poll_failure_event r e c =
     (if er_timeout e \<and> tk_has_reset c \<and> (case result_route r of None \<Rightarrow> False | Some p \<Rightarrow> stale_route_candidate p)
      then StaleTimeout (case result_route r of None \<Rightarrow> [] | Some p \<Rightarrow> route_fingerprint p)
      else OtherFailure (case result_route r of
             None \<Rightarrow> False | Some p \<Rightarrow> re_mode p = Flood \<and> re_source p = ResponseSentSource))"

fun route_events :: "track_step \<Rightarrow> time \<Rightarrow> track_world \<Rightarrow> route_event list \<Rightarrow> route_event list" where
  "route_events (TrackStart key) now w evs =
     (if is_ok (snd (start_tracking key now (tw_tracker w))) then [] else evs)"
| "route_events TrackStop now w evs = []"
| "route_events (TrackPathUpdated key) now w evs =
     (if \<not> is_zero now \<and> ts_active (tk_status (tw_tracker w)) \<and> ts_target (tk_status (tw_tracker w)) = key
      then PathUpdated # evs else evs)"
| "route_events (TrackRecover target g r e x) now w evs =
     (if (target, g) \<in> set (tw_waiting w) \<or> \<not> current_run target g (tw_tracker w) then evs
      else poll_failure_event r e (tw_tracker w) # evs)"
| "route_events (TrackReset target g acknowledged) now w evs =
     (if (target, g) \<notin> set (tw_waiting w) \<or> \<not> current_run target g (tw_tracker w) then evs
      else (if acknowledged then ResetAcknowledged (tk_stale_fingerprint (tw_tracker w)) else ResetFailed) # evs)"
| "route_events (TrackSuccess target g r t) now w evs =
     (if (target, g) \<in> set (tw_waiting w) \<or> \<not> current_run target g (tw_tracker w) then evs else Answered # evs)"
| "route_events (TrackUnstaged target g r e t) now w evs =
     (if (target, g) \<in> set (tw_waiting w) \<or> \<not> current_run target g (tw_tracker w) then evs else Unstaged # evs)"
| "route_events s now w evs = evs"

fun run_events ::
  "unicode \<Rightarrow> motion_env \<Rightarrow> track_history \<Rightarrow> track_world \<Rightarrow> route_event list \<Rightarrow> route_event list" where
  "run_events u m [] w evs = evs"
| "run_events u m ((now, s) # ss) w evs =
     run_events u m ss (track_do u m now s w) (route_events s now w evs)"

text \<open>Events that say how a poll went, but for answers that could not be staged: those leave the streak of timeouts
  as it is.\<close>

definition outcomes :: "route_event list \<Rightarrow> route_event list" where
  "outcomes evs = filter (\<lambda>v. case v of StaleTimeout _ \<Rightarrow> True | OtherFailure _ \<Rightarrow> True | Answered \<Rightarrow> True | _ \<Rightarrow> False) evs"

text \<open>The route has changed since a reset over the path \<open>f\<close>: another path, a confirmed flood, a notice of
  the device, or an answer.\<close>

definition route_news :: "string \<Rightarrow> route_event list \<Rightarrow> bool" where
  "route_news f evs =
     (PathUpdated \<in> set evs \<or> OtherFailure True \<in> set evs \<or> Answered \<in> set evs
      \<or> (\<exists>g. g \<noteq> f \<and> StaleTimeout g \<in> set evs))"

text \<open>Each acknowledged reset but the last one was followed by news before the next; \<open>settled\<close> demands
  news after the last one too.\<close>

definition no_ack :: "route_event list \<Rightarrow> bool" where
  "no_ack evs = (\<forall>f. ResetAcknowledged f \<notin> set evs)"

definition last_ack :: "route_event list \<Rightarrow> string \<Rightarrow> route_event list \<Rightarrow> bool" where
  "last_ack evs f since = (\<exists>before. evs = since @ ResetAcknowledged f # before \<and> no_ack since)"

definition reset_inv :: "route_event list \<Rightarrow> track_world \<Rightarrow> bool" where
  "reset_inv evs w =
     (let c = tw_tracker w in
      (\<forall>p \<in> set (tw_waiting w). snd p \<le> tk_generation c
         \<and> (current_run (fst p) (snd p) c \<longrightarrow> tk_episode c \<and> \<not> tk_acknowledged c))
      \<and> (tk_acknowledged c \<longrightarrow> tk_episode c)
      \<and> tk_stale_failures c \<le> length (outcomes evs)
      \<and> take (tk_stale_failures c) (outcomes evs) = replicate (tk_stale_failures c) (StaleTimeout (tk_stale_fingerprint c))
      \<and> (\<forall>f since. last_ack evs f since \<longrightarrow>
           (if tk_acknowledged c
            then tk_reset_fingerprint c = f
                 \<and> (tk_flood_after_reset c \<longrightarrow> OtherFailure True \<in> set since)
                 \<and> (tk_path_generation c \<noteq> tk_reset_path_generation c \<longrightarrow> PathUpdated \<in> set since)
            else route_news f since)))"

text \<open>Steps that change neither the recovery state nor the events.\<close>

definition same_recovery :: "tracker \<Rightarrow> tracker \<Rightarrow> bool" where
  "same_recovery c d =
     (tk_generation d = tk_generation c \<and> tk_episode d = tk_episode c \<and> tk_acknowledged d = tk_acknowledged c
      \<and> tk_stale_failures d = tk_stale_failures c \<and> tk_stale_fingerprint d = tk_stale_fingerprint c
      \<and> tk_reset_fingerprint d = tk_reset_fingerprint c \<and> tk_flood_after_reset d = tk_flood_after_reset c
      \<and> tk_path_generation d = tk_path_generation c \<and> tk_reset_path_generation d = tk_reset_path_generation c
      \<and> ts_active (tk_status d) = ts_active (tk_status c) \<and> ts_target (tk_status d) = ts_target (tk_status c))"

lemma reset_inv_same:
  "reset_inv evs w \<Longrightarrow> same_recovery (tw_tracker w) (tw_tracker v) \<Longrightarrow> tw_waiting v = tw_waiting w \<Longrightarrow> reset_inv evs v"
  by (simp add: reset_inv_def same_recovery_def current_run_def Let_def)

lemma same_recovery_refl [simp]: "same_recovery c c"
  by (simp add: same_recovery_def)

lemma same_recovery_trans: "same_recovery c d \<Longrightarrow> same_recovery d e \<Longrightarrow> same_recovery c e"
  by (simp add: same_recovery_def)

lemma same_recovery_status:
  "ts_active s = ts_active (tk_status c) \<Longrightarrow> ts_target s = ts_target (tk_status c)
   \<Longrightarrow> same_recovery c (c\<lparr> tk_status := s \<rparr>)"
  by (simp add: same_recovery_def)

lemma same_recovery_helpers:
  "same_recovery c (record_diagnostics r e c)" "same_recovery c (fst (recovery_for_poll q c))"
  "same_recovery c (append_poll p c)"
  by (auto simp: record_diagnostics_def recovery_for_poll_def append_poll_def same_recovery_def Let_def
      split: option.splits)

lemma same_recovery_failure: "same_recovery c (record_poll_failure target g r e t c)"
proof (cases "current_run target g c")
  case True
  show ?thesis
    unfolding record_poll_failure_def Let_def if_not_P [OF iffD2 [OF not_not True]] 
    by (intro same_recovery_trans [OF _ same_recovery_helpers(3)] same_recovery_trans [OF _ same_recovery_status]
        same_recovery_trans [OF _ same_recovery_helpers(2)] same_recovery_trans [OF _ same_recovery_helpers(1)]
        same_recovery_status) simp_all
qed (simp add: record_poll_failure_def)

lemma same_recovery_sections:
  "same_recovery c (set_control_source u s c)" "same_recovery c (set_next_request target g t c)"
  "poll_begin target g t c = Some d \<Longrightarrow> same_recovery c d"
  by (auto simp: same_recovery_def set_control_source_def set_next_request_def poll_begin_def Let_def
      split: if_splits)

lemma last_ack_Cons:
  "\<forall>g. v \<noteq> ResetAcknowledged g \<Longrightarrow>
   last_ack (v # evs) f since \<longleftrightarrow> (\<exists>rest. since = v # rest \<and> last_ack evs f rest)"
  by (cases since) (auto simp: last_ack_def no_ack_def)

lemma last_ack_acknowledged:
  "last_ack (ResetAcknowledged g # evs) f since \<longleftrightarrow> f = g \<and> since = []"
  by (cases since) (auto simp: last_ack_def no_ack_def)

lemma route_news_Cons: "route_news f evs \<Longrightarrow> route_news f (v # evs)"
  by (auto simp: route_news_def)

definition waiting_inv :: "track_world \<Rightarrow> bool" where
  "waiting_inv w =
     (\<forall>p \<in> set (tw_waiting w). snd p \<le> tk_generation (tw_tracker w)
        \<and> (current_run (fst p) (snd p) (tw_tracker w) \<longrightarrow>
             tk_episode (tw_tracker w) \<and> \<not> tk_acknowledged (tw_tracker w)))"

definition streak_inv :: "route_event list \<Rightarrow> tracker \<Rightarrow> bool" where
  "streak_inv evs c =
     (tk_stale_failures c \<le> length (outcomes evs)
      \<and> take (tk_stale_failures c) (outcomes evs) = replicate (tk_stale_failures c) (StaleTimeout (tk_stale_fingerprint c)))"

definition latch_inv :: "route_event list \<Rightarrow> tracker \<Rightarrow> bool" where
  "latch_inv evs c =
     (\<forall>f since. last_ack evs f since \<longrightarrow>
        (if tk_acknowledged c
         then tk_reset_fingerprint c = f
              \<and> (tk_flood_after_reset c \<longrightarrow> OtherFailure True \<in> set since)
              \<and> (tk_path_generation c \<noteq> tk_reset_path_generation c \<longrightarrow> PathUpdated \<in> set since)
         else route_news f since))"

lemma reset_inv_parts:
  "reset_inv evs w \<longleftrightarrow> waiting_inv w \<and> (tk_acknowledged (tw_tracker w) \<longrightarrow> tk_episode (tw_tracker w))
     \<and> streak_inv evs (tw_tracker w) \<and> latch_inv evs (tw_tracker w)"
  by (simp add: reset_inv_def waiting_inv_def streak_inv_def latch_inv_def Let_def)

lemma streak_inv_0: "tk_stale_failures c = 0 \<Longrightarrow> streak_inv evs c"
  by (simp add: streak_inv_def)

lemma streak_inv_skip:
  "streak_inv evs c \<Longrightarrow> outcomes evs' = outcomes evs \<Longrightarrow> tk_stale_failures d = tk_stale_failures c
   \<Longrightarrow> tk_stale_fingerprint d = tk_stale_fingerprint c \<Longrightarrow> streak_inv evs' d"
  by (simp add: streak_inv_def)

text \<open>An event that is no acknowledgement, with the latch as it was or opened by news.\<close>

lemma latch_inv_Cons:
  assumes "latch_inv evs c" "\<forall>g. v \<noteq> ResetAcknowledged g" "tk_acknowledged d \<longrightarrow> tk_acknowledged c"
    "tk_acknowledged d \<Longrightarrow> tk_reset_fingerprint d = tk_reset_fingerprint c"
    "tk_acknowledged d \<Longrightarrow> tk_flood_after_reset d \<Longrightarrow> tk_flood_after_reset c \<or> v = OtherFailure True"
    "tk_acknowledged d \<Longrightarrow> tk_path_generation d \<noteq> tk_reset_path_generation d \<Longrightarrow>
       tk_path_generation c \<noteq> tk_reset_path_generation c \<or> v = PathUpdated"
    "tk_acknowledged c \<Longrightarrow> \<not> tk_acknowledged d \<Longrightarrow>
       v = Answered \<or> (\<exists>f. v = StaleTimeout f \<and> (f \<noteq> tk_reset_fingerprint c \<or> tk_flood_after_reset c
          \<or> tk_path_generation c \<noteq> tk_reset_path_generation c))"
  shows "latch_inv (v # evs) d"
  unfolding latch_inv_def
proof (intro allI impI)
  fix f since
  assume "last_ack (v # evs) f since"
  then obtain rest where r: "since = v # rest" "last_ack evs f rest"
    using assms(2) by (auto simp: last_ack_Cons)
  then have i: "if tk_acknowledged c
         then tk_reset_fingerprint c = f
              \<and> (tk_flood_after_reset c \<longrightarrow> OtherFailure True \<in> set rest)
              \<and> (tk_path_generation c \<noteq> tk_reset_path_generation c \<longrightarrow> PathUpdated \<in> set rest)
         else route_news f rest"
    using assms(1) unfolding latch_inv_def by blast
  show "if tk_acknowledged d
         then tk_reset_fingerprint d = f
              \<and> (tk_flood_after_reset d \<longrightarrow> OtherFailure True \<in> set since)
              \<and> (tk_path_generation d \<noteq> tk_reset_path_generation d \<longrightarrow> PathUpdated \<in> set since)
         else route_news f since"
  proof (cases "tk_acknowledged d")
    case True
    with i assms(3-6) r(1) show ?thesis by auto
  next
    case False
    show ?thesis
    proof (cases "tk_acknowledged c")
      case True
      with i assms(7) False r(1) show ?thesis by (auto simp: route_news_def)
    next
      case c: False
      with i False r(1) show ?thesis by (simp add: route_news_Cons)
    qed
  qed
qed

lemma current_run_unique: "current_run t g c \<Longrightarrow> current_run t' g' c \<Longrightarrow> t' = t \<and> g' = g"
  by (auto simp: current_run_def)

text \<open>A section of the current run that waits for nothing: the other waiting runs are over.\<close>

lemma waiting_inv_current:
  assumes "waiting_inv w" "current_run t g (tw_tracker w)" "(t, g) \<notin> set (tw_waiting w)"
    "tk_generation (tw_tracker v) = tk_generation (tw_tracker w)"
    "ts_active (tk_status (tw_tracker v)) = ts_active (tk_status (tw_tracker w))"
    "ts_target (tk_status (tw_tracker v)) = ts_target (tk_status (tw_tracker w))"
    "tw_waiting v = tw_waiting w"
  shows "waiting_inv v"
  unfolding waiting_inv_def
proof (intro ballI conjI impI)
  fix p assume p: "p \<in> set (tw_waiting v)"
  then show "snd p \<le> tk_generation (tw_tracker v)" using assms by (simp add: waiting_inv_def)
  assume "current_run (fst p) (snd p) (tw_tracker v)"
  then have "p = (t, g)" using assms(2,4-6) by (auto simp: current_run_def prod_eq_iff)
  with p assms(3,7) show "tk_episode (tw_tracker v)" "\<not> tk_acknowledged (tw_tracker v)" by auto
qed

lemma apply_fix_recovery: "same_recovery c (apply_fix m r c)"
  by (auto simp: apply_fix_def apply_motion_def set_motion_def set_operational_error_def rebase_fix_def
      unknown_motion_def same_recovery_def Let_def split: option.splits)

lemma success_recovery:
  assumes "current_run target g c"
  shows "tk_stale_failures (record_success m target g r t c) = 0"
    "tk_generation (record_success m target g r t c) = tk_generation c"
    "ts_active (tk_status (record_success m target g r t c)) = ts_active (tk_status c)"
    "ts_target (tk_status (record_success m target g r t c)) = ts_target (tk_status c)"
    "tk_path_generation (record_success m target g r t c) = tk_path_generation c"
    "tk_acknowledged (record_success m target g r t c) \<Longrightarrow>
       tk_acknowledged c \<and> tk_reset_fingerprint (record_success m target g r t c) = tk_reset_fingerprint c
       \<and> tk_flood_after_reset (record_success m target g r t c) = tk_flood_after_reset c
       \<and> tk_reset_path_generation (record_success m target g r t c) = tk_reset_path_generation c
       \<and> tk_episode (record_success m target g r t c) = tk_episode c"
proof -
  define d where "d = apply_fix m r (record_diagnostics (Some r) None (clear_stale_failures
      (on_status (\<lambda>t. t\<lparr> ts_last_response := Some (tr_received_at r), ts_latest := Some (r\<lparr> tr_raw := [] \<rparr>),
        ts_failures := 0, ts_adapter_failures := 0, ts_diagnostic := [], ts_error := None \<rparr>) c)))"
  define e where "e = fst (recovery_for_poll (Some (tr_route r)) (on_status (\<lambda>t. t\<lparr> ts_interval := in_seconds (interval_for d) \<rparr>) d))"
  have d: "same_recovery (clear_stale_failures (on_status (\<lambda>t. t\<lparr> ts_last_response := Some (tr_received_at r),
      ts_latest := Some (r\<lparr> tr_raw := [] \<rparr>), ts_failures := 0, ts_adapter_failures := 0, ts_diagnostic := [],
      ts_error := None \<rparr>) c)) d"
    unfolding d_def by (rule same_recovery_trans [OF same_recovery_helpers(1) apply_fix_recovery])
  have e: "same_recovery d e"
    unfolding e_def by (rule same_recovery_trans [OF same_recovery_status same_recovery_helpers(2)]) simp_all
  obtain p where x: "record_success m target g r t c
      = append_poll p (on_status (\<lambda>t. t\<lparr> ts_path_update_pending := False \<rparr>) (establish_route (Some (tr_route r)) e))"
    using assms unfolding record_success_def Let_def d_def [symmetric] e_def [symmetric] by simp
  let ?f = "establish_route (Some (tr_route r)) e"
  have f: "same_recovery ?f (record_success m target g r t c)"
    unfolding x by (rule same_recovery_trans [OF same_recovery_status same_recovery_helpers(3)]) simp_all
  note defs = same_recovery_def clear_stale_failures_def
  have est: "tk_stale_failures ?f = tk_stale_failures e" "tk_generation ?f = tk_generation e"
    "ts_active (tk_status ?f) = ts_active (tk_status e)" "ts_target (tk_status ?f) = ts_target (tk_status e)"
    "tk_path_generation ?f = tk_path_generation e"
    "tk_acknowledged ?f \<Longrightarrow> tk_acknowledged e \<and> tk_reset_fingerprint ?f = tk_reset_fingerprint e
       \<and> tk_flood_after_reset ?f = tk_flood_after_reset e
       \<and> tk_reset_path_generation ?f = tk_reset_path_generation e \<and> tk_episode ?f = tk_episode e"
    by (auto simp: establish_route_def end_episode_def Let_def split: if_splits)
  show "tk_stale_failures (record_success m target g r t c) = 0"
    "tk_generation (record_success m target g r t c) = tk_generation c"
    "ts_active (tk_status (record_success m target g r t c)) = ts_active (tk_status c)"
    "ts_target (tk_status (record_success m target g r t c)) = ts_target (tk_status c)"
    "tk_path_generation (record_success m target g r t c) = tk_path_generation c"
    "tk_acknowledged (record_success m target g r t c) \<Longrightarrow>
       tk_acknowledged c \<and> tk_reset_fingerprint (record_success m target g r t c) = tk_reset_fingerprint c
       \<and> tk_flood_after_reset (record_success m target g r t c) = tk_flood_after_reset c
       \<and> tk_reset_path_generation (record_success m target g r t c) = tk_reset_path_generation c
       \<and> tk_episode (record_success m target g r t c) = tk_episode c"
    using d e f est unfolding defs by auto
qed

lemma reset_inv_success:
  assumes "reset_inv evs w" "current_run t g (tw_tracker w)" "(t, g) \<notin> set (tw_waiting w)"
  shows "reset_inv (Answered # evs) (on_tracker (record_success m t g r x) w)"
proof -
  note s = success_recovery [OF assms(2), of m r x]
  have i: "waiting_inv w" "tk_acknowledged (tw_tracker w) \<longrightarrow> tk_episode (tw_tracker w)" "latch_inv evs (tw_tracker w)"
    using assms(1) by (simp_all add: reset_inv_parts)
  have "waiting_inv (on_tracker (record_success m t g r x) w)"
    using i(1) assms(2,3) by (rule waiting_inv_current) (simp_all add: s)
  moreover have "streak_inv (Answered # evs) (record_success m t g r x (tw_tracker w))"
    by (rule streak_inv_0) (rule s(1))
  moreover have "latch_inv (Answered # evs) (record_success m t g r x (tw_tracker w))"
    using i(3) by (rule latch_inv_Cons) (use s in auto)
  ultimately show ?thesis using i(2) s(6) by (auto simp: reset_inv_parts)
qed

text \<open>The evidence of a failed poll.\<close>

lemma fingerprint_candidate: "stale_route_candidate p \<Longrightarrow> route_fingerprint p \<noteq> []"
  by (simp add: stale_route_candidate_def route_fingerprint_def)

lemma outcomes_Cons:
  "outcomes (StaleTimeout f # evs) = StaleTimeout f # outcomes evs"
  "outcomes (OtherFailure b # evs) = OtherFailure b # outcomes evs"
  "outcomes (Answered # evs) = Answered # outcomes evs" "outcomes (PathUpdated # evs) = outcomes evs"
  "outcomes (ResetAcknowledged f # evs) = outcomes evs" "outcomes (ResetFailed # evs) = outcomes evs"
  "outcomes (Unstaged # evs) = outcomes evs"
  by (simp_all add: outcomes_def)

lemma note_stale_streak:
  assumes "streak_inv evs c" "route_fingerprint p \<noteq> []"
  shows "streak_inv (StaleTimeout (route_fingerprint p) # evs) (note_stale_failure p c)"
  using assms by (auto simp: streak_inv_def note_stale_failure_def outcomes_Cons Let_def)

lemma rearm_streak: "streak_inv evs c \<Longrightarrow> streak_inv evs (rearm_for_new_route p c)"
  by (auto simp: streak_inv_def rearm_for_new_route_def clear_stale_failures_def end_episode_def)

lemma other_failure_keeps:
  assumes "reset_inv evs w" "current_run t g (tw_tracker w)" "(t, g) \<notin> set (tw_waiting w)"
  shows "reset_inv (OtherFailure (case q of None \<Rightarrow> False | Some p \<Rightarrow> re_mode p = Flood \<and> re_source p = ResponseSentSource) # evs)
     (w\<lparr> tw_tracker := clear_stale_failures (observe_post_reset q (tw_tracker w)) \<rparr>)"
proof -
  let ?d = "clear_stale_failures (observe_post_reset q (tw_tracker w))"
  have i: "waiting_inv w" "tk_acknowledged (tw_tracker w) \<longrightarrow> tk_episode (tw_tracker w)" "latch_inv evs (tw_tracker w)"
    using assms(1) by (simp_all add: reset_inv_parts)
  note d = clear_stale_failures_def observe_post_reset_def
  have "waiting_inv (w\<lparr> tw_tracker := ?d \<rparr>)"
    using i(1) assms(2,3) by (rule waiting_inv_current) (simp_all add: d split: option.splits)
  moreover have "streak_inv (OtherFailure b # evs) ?d" for b
    by (rule streak_inv_0) (simp add: clear_stale_failures_def)
  moreover have "latch_inv (OtherFailure (case q of None \<Rightarrow> False | Some p \<Rightarrow> re_mode p = Flood \<and> re_source p = ResponseSentSource) # evs) ?d"
    using i(3) by (rule latch_inv_Cons) (auto simp: d split: option.splits if_splits)
  ultimately show ?thesis using i(2) by (auto simp: reset_inv_parts d split: option.splits)
qed

lemma rearm_facts:
  assumes "tk_acknowledged c \<longrightarrow> tk_episode c" and d_def: "d = note_stale_failure p (rearm_for_new_route p c)"
  shows "tk_generation d = tk_generation c" "tk_path_generation d = tk_path_generation c"
    "ts_active (tk_status d) = ts_active (tk_status c)" "ts_target (tk_status d) = ts_target (tk_status c)"
    "tk_acknowledged d \<longrightarrow> tk_acknowledged c \<and> tk_episode d \<and> tk_reset_fingerprint d = tk_reset_fingerprint c
       \<and> tk_flood_after_reset d = tk_flood_after_reset c \<and> tk_reset_path_generation d = tk_reset_path_generation c"
    "tk_acknowledged c \<longrightarrow> \<not> tk_acknowledged d \<longrightarrow> route_changed p c"
  using assms(1) unfolding d_def
  by (auto simp: note_stale_failure_def rearm_for_new_route_def clear_stale_failures_def end_episode_def Let_def)

lemma recover_begin_stale:
  assumes "current_run t g c"
    "er_timeout e \<and> tk_has_reset c \<and> (case result_route r of None \<Rightarrow> False | Some p \<Rightarrow> stale_route_candidate p)"
    "result_route r = Some p" "stale_route_candidate p"
  defines "d \<equiv> note_stale_failure p (rearm_for_new_route p c)"
  shows "same_recovery (d\<lparr> tk_episode := tk_episode (fst (recover_begin t g r e x c)) \<rparr>) (fst (recover_begin t g r e x c))"
    "snd (recover_begin t g r e x c) \<longrightarrow>
       (tk_episode d \<longrightarrow> \<not> tk_acknowledged d) \<and> tk_episode (fst (recover_begin t g r e x c))"
    "\<not> snd (recover_begin t g r e x c) \<longrightarrow> fst (recover_begin t g r e x c) = d"
    "tk_episode d \<longrightarrow> tk_episode (fst (recover_begin t g r e x c))"
proof -
  define stop where "stop = (tk_stale_failures d < stale_route_threshold \<or> x
    \<or> tk_episode d \<and> (tk_acknowledged d \<or> tk_stale_failures d mod stale_route_threshold \<noteq> 0))"
  define sent where "sent = on_status (\<lambda>t. t\<lparr> ts_recovery_state := ''path_reset_requested'', ts_episode := True,
      ts_recovery_event := ''path_reset_requested'',
      ts_reset_attempts := (if tk_episode d then ts_reset_attempts t else 0) + 1 \<rparr>) (d\<lparr> tk_episode := True \<rparr>)"
  have rb: "recover_begin t g r e x c = (if stop then (d, False) else (sent, True))"
  proof -
    have "recover_begin t g r e x c =
       (if tk_stale_failures d < stale_route_threshold \<or> x then (d, False)
        else if tk_episode d \<and> (tk_acknowledged d \<or> tk_stale_failures d mod stale_route_threshold \<noteq> 0) then (d, False)
        else (sent, True))"
      using assms(1,2,4) unfolding recover_begin_def assms(3) option.case Let_def d_def [symmetric] sent_def by simp
    then show ?thesis by (simp add: stop_def)
  qed
  have sent: "same_recovery (d\<lparr> tk_episode := True \<rparr>) sent" "tk_episode sent"
    by (simp_all add: sent_def same_recovery_def)
  have d: "d\<lparr> tk_episode := tk_episode d \<rparr> = d" by simp
  show "same_recovery (d\<lparr> tk_episode := tk_episode (fst (recover_begin t g r e x c)) \<rparr>) (fst (recover_begin t g r e x c))"
    "snd (recover_begin t g r e x c) \<longrightarrow>
       (tk_episode d \<longrightarrow> \<not> tk_acknowledged d) \<and> tk_episode (fst (recover_begin t g r e x c))"
    "\<not> snd (recover_begin t g r e x c) \<longrightarrow> fst (recover_begin t g r e x c) = d"
    "tk_episode d \<longrightarrow> tk_episode (fst (recover_begin t g r e x c))"
    unfolding rb using sent by (auto simp: stop_def)
qed

lemma reset_inv_recover:
  assumes "reset_inv evs w" "current_run t g (tw_tracker w)" "(t, g) \<notin> set (tw_waiting w)"
  shows "reset_inv (poll_failure_event r e (tw_tracker w) # evs) (track_do u m now (TrackRecover t g r e x) w)"
proof (cases "er_timeout e \<and> tk_has_reset (tw_tracker w)
    \<and> (case result_route r of None \<Rightarrow> False | Some p \<Rightarrow> stale_route_candidate p)")
  case False
  then have "recover_begin t g r e x (tw_tracker w)
      = (clear_stale_failures (observe_post_reset (result_route r) (tw_tracker w)), False)"
    using assms(2) by (auto simp: recover_begin_def split: option.splits)
  moreover have "poll_failure_event r e (tw_tracker w) = OtherFailure (case result_route r of
      None \<Rightarrow> False | Some p \<Rightarrow> re_mode p = Flood \<and> re_source p = ResponseSentSource)"
    unfolding poll_failure_event_def using False by (rule if_not_P)
  ultimately show ?thesis using other_failure_keeps [OF assms, of "result_route r"] assms(3) by simp
next
  case True
  then obtain p where p: "result_route r = Some p" "stale_route_candidate p" by (auto split: option.splits)
  define c where "c = tw_tracker w"
  define d where "d = note_stale_failure p (rearm_for_new_route p c)"
  define send where "send = snd (recover_begin t g r e x c)"
  have i: "waiting_inv w" "tk_acknowledged c \<longrightarrow> tk_episode c" "streak_inv evs c" "latch_inv evs c"
    using assms(1) by (simp_all add: reset_inv_parts c_def)
  note f = rearm_facts [OF i(2) d_def]
  have ev: "poll_failure_event r e c = StaleTimeout (route_fingerprint p)"
    using True p by (simp add: poll_failure_event_def c_def)
  have cur: "current_run t g c" using assms(2) by (simp add: c_def)
  note rb = recover_begin_stale [OF cur True [folded c_def] p, folded d_def]
  have b: "same_recovery (d\<lparr> tk_episode := tk_episode (fst (recover_begin t g r e x c)) \<rparr>) (fst (recover_begin t g r e x c))"
    "send \<longrightarrow> \<not> tk_acknowledged d \<and> tk_episode (fst (recover_begin t g r e x c))"
    "\<not> send \<longrightarrow> fst (recover_begin t g r e x c) = d" "tk_episode d \<longrightarrow> tk_episode (fst (recover_begin t g r e x c))"
    using rb f(5) unfolding send_def by blast+
  have latch: "latch_inv (StaleTimeout (route_fingerprint p) # evs) d"
    using i(4) by (rule latch_inv_Cons) (use f in \<open>auto simp: route_changed_def\<close>)
  have streak: "streak_inv (StaleTimeout (route_fingerprint p) # evs) d"
    unfolding d_def using i(3) p(2) by (intro note_stale_streak rearm_streak fingerprint_candidate)
  let ?v = "track_do u m now (TrackRecover t g r e x) w"
  let ?b = "fst (recover_begin t g r e x c)"
  have v: "tw_tracker ?v = ?b" "tw_waiting ?v = (if send then [(t, g)] else []) @ tw_waiting w"
    using assms(3) by (simp_all add: send_def c_def)
  have "waiting_inv (w\<lparr> tw_tracker := ?b \<rparr>)"
    using i(1) assms(2,3) by (rule waiting_inv_current) (use b(1) f in \<open>simp_all add: same_recovery_def c_def\<close>)
  then have "waiting_inv ?v"
    using b(1,2) f assms(2) unfolding waiting_inv_def v
    by (auto simp: same_recovery_def c_def current_run_def)
  moreover have "tk_acknowledged ?b \<longrightarrow> tk_episode ?b" using b f(5) by (auto simp: same_recovery_def)
  moreover have "streak_inv (StaleTimeout (route_fingerprint p) # evs) ?b"
    using streak b(1) by (simp add: streak_inv_def same_recovery_def)
  moreover have "latch_inv (StaleTimeout (route_fingerprint p) # evs) ?b"
    using latch b(1) by (simp add: latch_inv_def same_recovery_def)
  ultimately show ?thesis using ev assms(3) by (simp add: reset_inv_parts c_def)
qed

lemma reset_inv_end:
  assumes "reset_inv evs w" "(t, g) \<in> set (tw_waiting w)"
  shows "reset_inv (route_events (TrackReset t g a) now w evs) (track_do u m now (TrackReset t g a) w)"
proof -
  define c where "c = tw_tracker w"
  have i: "waiting_inv w" "tk_acknowledged c \<longrightarrow> tk_episode c" "streak_inv evs c" "latch_inv evs c"
    using assms(1) by (simp_all add: reset_inv_parts c_def)
  let ?v = "track_do u m now (TrackReset t g a) w"
  have v: "tw_tracker ?v = recover_end t g a c" "tw_waiting ?v = removeAll (t, g) (tw_waiting w)"
    using assms(2) by (simp_all add: c_def)
  show ?thesis
  proof (cases "current_run t g c")
    case False
    then have "tw_tracker ?v = c" "route_events (TrackReset t g a) now w evs = evs"
      by (simp_all add: v recover_end_def c_def)
    then show ?thesis using i v(2) by (auto simp: reset_inv_parts waiting_inv_def c_def)
  next
    case True
    then have e: "tk_episode c" "\<not> tk_acknowledged c"
      using i(1) assms(2) by (auto simp: waiting_inv_def c_def)
    have w: "waiting_inv ?v"
      using i(1) True unfolding waiting_inv_def v c_def
      by (auto simp: recover_end_def current_run_def split: if_splits)
    show ?thesis
    proof (cases a)
      case False
      have "latch_inv (ResetFailed # evs) (recover_end t g a c)"
        using i(4) by (rule latch_inv_Cons) (use e False True in \<open>simp_all add: recover_end_def\<close>)
      then show ?thesis
        using True False w e i(3) assms(2)
        by (auto simp: reset_inv_parts v(1) [unfolded c_def] c_def recover_end_def streak_inv_def outcomes_Cons)
    next
      case ack: True
      have "latch_inv (ResetAcknowledged (tk_stale_fingerprint c) # evs) (recover_end t g a c)"
        using True ack by (auto simp: latch_inv_def last_ack_acknowledged recover_end_def)
      then show ?thesis
        using True ack w e i(3) assms(2)
        by (auto simp: reset_inv_parts c_def recover_end_def streak_inv_def outcomes_Cons)
    qed
  qed
qed

lemma reset_inv_start:
  assumes "reset_inv evs w" "snd (start_tracking key now (tw_tracker w)) = Inr g"
  shows "reset_inv [] (on_tracker (\<lambda>c. fst (start_tracking key now c)) w)"
proof -
  define c where "c = fst (start_tracking key now (tw_tracker w))"
  have c: "tk_generation c = tk_generation (tw_tracker w) + 1" "\<not> tk_acknowledged c" "tk_stale_failures c = 0"
    using assms(2) by (auto simp: c_def start_tracking_def Let_def forget_run_def split: if_splits)
  have "waiting_inv (w\<lparr> tw_tracker := c \<rparr>)"
    using assms(1) c(1) by (fastforce simp: reset_inv_parts waiting_inv_def current_run_def)
  then show ?thesis
    using c by (simp add: reset_inv_parts streak_inv_0 latch_inv_def last_ack_def flip: c_def)
qed

lemma reset_inv_stop:
  assumes "reset_inv evs w"
  shows "reset_inv [] (on_tracker stop_tracking w)"
proof -
  define c where "c = stop_tracking (tw_tracker w)"
  have c: "tk_generation c = tk_generation (tw_tracker w) + 1" "\<not> ts_active (tk_status c)" "\<not> tk_acknowledged c"
    "tk_stale_failures c = 0"
    by (simp_all add: c_def stop_tracking_def forget_run_def)
  have "waiting_inv (w\<lparr> tw_tracker := c \<rparr>)"
    using assms c(1,2) by (auto simp: reset_inv_parts waiting_inv_def current_run_def)
  then show ?thesis
    using c by (simp add: reset_inv_parts streak_inv_0 latch_inv_def last_ack_def flip: c_def)
qed

lemma reset_inv_path:
  assumes "reset_inv evs w"
  shows "reset_inv (route_events (TrackPathUpdated key) now w evs) (on_tracker (handle_path_updated key now) w)"
proof (cases "is_zero now \<or> \<not> ts_active (tk_status (tw_tracker w)) \<or> ts_target (tk_status (tw_tracker w)) \<noteq> key")
  case True
  then show ?thesis using assms by (auto simp: handle_path_updated_def)
next
  case False
  define d where "d = handle_path_updated key now (tw_tracker w)"
  have "latch_inv (PathUpdated # evs) d"
    by (rule latch_inv_Cons [of _ "tw_tracker w"])
      (use assms False in \<open>auto simp: reset_inv_parts d_def handle_path_updated_def\<close>)
  then show ?thesis
    using assms False
    by (auto simp: reset_inv_parts d_def handle_path_updated_def waiting_inv_def streak_inv_def outcomes_Cons
        current_run_def)
qed

lemma reset_inv_unstaged:
  assumes "reset_inv evs w"
  shows "reset_inv (Unstaged # evs) w"
proof -
  have "latch_inv (Unstaged # evs) (tw_tracker w)"
    by (rule latch_inv_Cons [of evs "tw_tracker w"]) (use assms in \<open>auto simp: reset_inv_parts\<close>)
  then show ?thesis using assms by (simp add: reset_inv_parts streak_inv_def outcomes_Cons)
qed

lemma reset_inv_step:
  assumes "reset_inv evs w"
  shows "reset_inv (route_events s now w evs) (track_do u m now s w)"
proof (cases s)
  case (TrackStart key)
  show ?thesis
  proof (cases "snd (start_tracking key now (tw_tracker w))")
    case (Inl x)
    then have "fst (start_tracking key now (tw_tracker w)) = tw_tracker w"
      by (auto simp: start_tracking_def Let_def split: if_splits)
    then show ?thesis using assms Inl by (simp add: TrackStart)
  next
    case (Inr g)
    then show ?thesis using reset_inv_start [OF assms Inr] by (simp add: TrackStart)
  qed
next
  case TrackStop
  then show ?thesis using reset_inv_stop [OF assms] by simp
next
  case (TrackPathUpdated key)
  then show ?thesis using reset_inv_path [OF assms, of key now] by simp
next
  case (TrackRecover t g r e x)
  consider "(t, g) \<in> set (tw_waiting w)" | "(t, g) \<notin> set (tw_waiting w)" "\<not> current_run t g (tw_tracker w)"
    | "(t, g) \<notin> set (tw_waiting w)" "current_run t g (tw_tracker w)" by blast
  then show ?thesis
  proof cases
    case 2
    then show ?thesis using assms unfolding TrackRecover by (simp add: recover_begin_def)
  qed (use assms reset_inv_recover [OF assms, of t g r e u m now x] in \<open>simp_all add: TrackRecover del: track_do.simps(6)\<close>, simp)
next
  case (TrackReset t g a)
  show ?thesis
  proof (cases "(t, g) \<in> set (tw_waiting w)")
    case True
    then show ?thesis using reset_inv_end [OF assms] unfolding TrackReset by blast
  qed (use assms in \<open>simp add: TrackReset\<close>)
next
  case (TrackSuccess t g r x)
  show ?thesis
  proof (cases "(t, g) \<in> set (tw_waiting w) \<or> \<not> current_run t g (tw_tracker w)")
    case True
    then show ?thesis using assms by (auto simp: TrackSuccess record_success_def)
  next
    case False
    then show ?thesis using reset_inv_success [OF assms] by (simp add: TrackSuccess)
  qed
next
  case (TrackPoll t g)
  have "same_recovery (tw_tracker w) (tw_tracker (track_do u m now s w))"
    using same_recovery_sections(3) [of t g now "tw_tracker w"] by (auto simp: TrackPoll split: option.splits)
  then show ?thesis using reset_inv_same [OF assms] by (simp add: TrackPoll)
next
  case (TrackControl x)
  then show ?thesis using reset_inv_same [OF assms] same_recovery_sections(1) by simp
next
  case (TrackFailure t g r e x)
  then show ?thesis using reset_inv_same [OF assms] same_recovery_failure assms by simp
next
  case (TrackUnstaged t g r e x)
  show ?thesis
  proof (cases "(t, g) \<in> set (tw_waiting w) \<or> \<not> current_run t g (tw_tracker w)")
    case True
    then show ?thesis using assms by (auto simp: TrackUnstaged record_poll_failure_def)
  next
    case False
    then show ?thesis
      using reset_inv_same [OF reset_inv_unstaged [OF assms], of "on_tracker (record_poll_failure t g (Some r) e x) w"]
        same_recovery_failure by (simp add: TrackUnstaged)
  qed
next
  case (TrackScheduled t g x)
  then show ?thesis using reset_inv_same [OF assms] same_recovery_sections(2) by simp
qed

lemma reset_inv_run:
  "reset_inv evs w \<Longrightarrow> reset_inv (run_events u m hist w evs) (run_tracker u m hist w)"
proof (induction hist arbitrary: w evs)
  case (Cons h hist)
  obtain now s where h: "h = (now, s)" by (cases h)
  show ?case using Cons.IH [OF reset_inv_step [OF Cons.prems]] by (simp add: h)
qed simp

lemma reset_inv_new: "reset_inv [] (new_world (new_tracker a b p))"
  by (simp add: reset_inv_def new_world_def new_tracker_def outcomes_def last_ack_def Let_def)

text \<open>The goroutine sends a reset command.\<close>

definition sends_reset :: "track_step \<Rightarrow> track_world \<Rightarrow> bool" where
  "sends_reset s w =
     (case s of
        TrackRecover t g r e x \<Rightarrow> (t, g) \<notin> set (tw_waiting w) \<and> snd (recover_begin t g r e x (tw_tracker w))
      | _ \<Rightarrow> False)"

lemma sends_reset_facts:
  assumes "sends_reset s w" "tk_acknowledged (tw_tracker w) \<longrightarrow> tk_episode (tw_tracker w)"
  shows "3 \<le> tk_stale_failures (tw_tracker (track_do u m now s w))"
    "\<not> tk_acknowledged (tw_tracker (track_do u m now s w))"
proof -
  obtain t g r e x where s: "s = TrackRecover t g r e x" "(t, g) \<notin> set (tw_waiting w)"
    "snd (recover_begin t g r e x (tw_tracker w))"
    using assms(1) by (auto simp: sends_reset_def split: track_step.splits)
  then obtain p where p: "result_route r = Some p"
    by (auto simp: recover_begin_def split: if_splits option.splits)
  define d where "d = note_stale_failure p (rearm_for_new_route p (tw_tracker w))"
  note f = rearm_facts [OF assms(2) d_def]
  have "3 \<le> tk_stale_failures d" "\<not> tk_acknowledged d" "tk_stale_failures (fst (recover_begin t g r e x (tw_tracker w))) = tk_stale_failures d"
    "tk_acknowledged (fst (recover_begin t g r e x (tw_tracker w))) = tk_acknowledged d"
    using s(3) f(5) by (auto simp: recover_begin_def p d_def [symmetric] stale_route_threshold_def Let_def split: if_splits)
  then show "3 \<le> tk_stale_failures (tw_tracker (track_do u m now s w))"
    "\<not> tk_acknowledged (tw_tracker (track_do u m now s w))"
    using s(1,2) by simp_all
qed

section \<open>Properties\<close>

lemma scheduled_paced:
  assumes "paced c" "longest_interval (tk_policy c) \<le> 9223372036854775807"
    "schedule_next target g now request_at tagged c = Some next" "request_at \<le> now"
  shows "request_at + in_seconds (pl_minimum_interval (tk_policy c)) * second \<le> next"
    "now \<le> next" "next \<le> now + longest_interval (tk_policy c)"
proof -
  define v where "v = ts_interval (tk_status c) * second"
  have l: "in_seconds d * second \<le> d" for d
    using div_mult_mod_eq [of d second] pos_mod_sign [of second d] by (simp add: in_seconds_def second_def)
  have m: "0 \<le> in_seconds (pl_minimum_interval (tk_policy c))"
    using assms(1) by (simp add: paced_def policy_ok_def in_seconds_def pos_imp_zdiv_nonneg_iff second_def)
  have v: "in_seconds (pl_minimum_interval (tk_policy c)) * second \<le> v" "0 \<le> v" "v \<le> longest_interval (tk_policy c)"
    using assms(1) m l [of "longest_interval (tk_policy c)"] by (auto simp: v_def paced_def second_def)
  have "next = next_tracking_request now request_at (wrap64 v) (tk_source c = ''session'') tagged"
    using assms(3) by (auto simp: schedule_next_def v_def split: if_splits)
  then have n: "next = next_tracking_request now request_at v (tk_source c = ''session'') tagged"
    using wrap64_id [of v] v assms(2) by simp
  show "request_at + in_seconds (pl_minimum_interval (tk_policy c)) * second \<le> next"
    "now \<le> next" "next \<le> now + longest_interval (tk_policy c)"
    using n v assms(4) by (auto simp: next_tracking_request_def)
qed

definition demo_poll_key :: string where
  "demo_poll_key = replicate 64 (CHR ''a'')"

definition demo_direct :: route_evidence where
  "demo_direct = route_of ExplicitPath [''2f''] ContactAndResponseSent"

definition demo_unanswered :: telemetry_result where
  "demo_unanswered = blank_result \<lparr> tr_target := demo_poll_key, tr_requested_at := 1, tr_route := demo_direct \<rparr>"

definition demo_timeout :: track_error where
  "demo_timeout = \<lparr> er_text = ''no response'', er_timeout = True, er_disconnected = False, er_deadline = True \<rparr>"

definition demo_motion :: motion_env where
  "demo_motion = \<lparr> mo_distance = (\<lambda>a b. Finite 0), mo_speed = (\<lambda>d t. Finite 0) \<rparr>"

definition demo_tracker :: track_world where
  "demo_tracker = new_world (new_tracker True True default_tracking_policy)"

definition demo_failing_poll :: "time \<Rightarrow> track_history" where
  "demo_failing_poll t =
     [(t, TrackPoll demo_poll_key 1),
      (t, TrackRecover demo_poll_key 1 (Some demo_unanswered) demo_timeout False),
      (t, TrackFailure demo_poll_key 1 (Some demo_unanswered) demo_timeout t)]"

definition demo_tracking :: track_history where
  "demo_tracking = (1, TrackStart demo_poll_key) # demo_failing_poll 2 @ demo_failing_poll (60 * second)"

definition demo_reset_step :: track_step where
  "demo_reset_step = TrackRecover demo_poll_key 1 (Some demo_unanswered) demo_timeout False"

lemma demo_third_poll_resets:
  "sends_reset demo_reset_step
     (run_tracker u demo_motion demo_tracking (new_world (new_tracker True True default_tracking_policy)))"
  by code_simp

lemma demo_next_poll:
  "schedule_next demo_poll_key 1 (70 * second) (60 * second) False (tw_tracker
     (run_tracker u demo_motion demo_tracking (new_world (new_tracker True True default_tracking_policy))))
   = Some (130 * second)"
  by code_simp

lemma demo_longest: "longest_interval (normalized_policy default_tracking_policy) = 300 * second"
  by code_simp

text \<open>
  C33. Polls are scheduled with distance and never stall. In every history of a controller with any policy
  whose durations fit 64 bits, after a poll that asked at a time not in the future, the next one is scheduled
  no earlier than the policy's minimum interval, cut to whole seconds, after that request, not in the past,
  and no later than the longest interval of the policy from now, however many failures, back-offs and changes
  of owner came first. (A minimum of a fraction of a second over a whole number of seconds is therefore not
  kept, see \<open>fraction_lost\<close>. The goroutine may poll before the scheduled time only when a session takes over
  control: that wakes it on purpose.)
\<close>
theorem tracking_paced:
  assumes "longest_interval (normalized_policy p) \<le> 9223372036854775807"
    and "schedule_next target g now request_at tagged (tw_tracker (run_tracker u m hist (new_world (new_tracker a b p))))
           = Some next"
    and "request_at \<le> now"
  shows "request_at + pl_minimum_interval (normalized_policy p) div second * second \<le> next
    \<and> now \<le> next \<and> next \<le> now + longest_interval (normalized_policy p)"
proof -
  have c: "paced (tw_tracker (run_tracker u m hist (new_world (new_tracker a b p))))"
    "tk_policy (tw_tracker (run_tracker u m hist (new_world (new_tracker a b p)))) = normalized_policy p"
    using paced_run [OF paced_new [of a b p]] by (simp_all add: new_world_def new_tracker_def Let_def)
  show ?thesis using scheduled_paced [OF c(1) _ assms(2,3), unfolded c(2)] assms(1) by (simp add: in_seconds_def)
qed

text \<open>With all intervals at a second and a half, a poll is followed by one after a second.\<close>

definition fraction_policy :: tracking_policy where
  "fraction_policy = default_tracking_policy\<lparr> pl_minimum_interval := 1500000000, pl_unknown_interval := 1500000000,
     pl_stationary_interval := 1500000000, pl_slow_interval := 1500000000, pl_fast_interval := 1500000000 \<rparr>"

lemma fraction_lost:
  "pl_minimum_interval (normalized_policy fraction_policy) = 1500000000 \<and>
   schedule_next demo_poll_key 1 (70 * second) (70 * second) False (tw_tracker
     (run_tracker u demo_motion [(1, TrackStart demo_poll_key)] (new_world (new_tracker True True fraction_policy))))
   = Some (71 * second)"
  by code_simp

theorem tracking_paced_witness:
  "\<forall>u. schedule_next demo_poll_key 1 (70 * second) (60 * second) False (tw_tracker
      (run_tracker u demo_motion demo_tracking (new_world (new_tracker True True default_tracking_policy))))
     = Some (130 * second)
   \<and> 130 * second \<le> 70 * second + longest_interval (normalized_policy default_tracking_policy)"
proof (intro allI conjI demo_next_poll)
  fix u
  show "130 * second \<le> 70 * second + longest_interval (normalized_policy default_tracking_policy)"
    using tracking_paced [OF _ demo_next_poll [of u]] by (simp add: demo_longest second_def)
qed

text \<open>
  C34. A learned path is only reset on evidence that it is stale. In every history of the controller's
  critical sections, when the polling goroutine sends a reset, the last three polls of the run, not counting
  polls whose answer could not be staged, all timed out after the device had confirmed a direct send over
  one and the same path; and whenever an earlier reset was acknowledged, the route has changed since: the
  device reported a new path, a request was flooded, a poll was answered and staged, or a different path was
  used. (An answer that cannot be staged does not end the streak of timeouts, see \<open>unstaged_keeps_streak\<close>.)
\<close>
theorem tracking_reset_justified:
  assumes "sends_reset s (run_tracker u m hist (new_world (new_tracker a b p)))"
  shows "\<exists>f. take 3 (outcomes (route_events s now (run_tracker u m hist (new_world (new_tracker a b p)))
             (run_events u m hist (new_world (new_tracker a b p)) []))) = replicate 3 (StaleTimeout f)
     \<and> (\<forall>h since. last_ack (route_events s now (run_tracker u m hist (new_world (new_tracker a b p)))
             (run_events u m hist (new_world (new_tracker a b p)) [])) h since \<longrightarrow> route_news h since)"
proof -
  define w where "w = run_tracker u m hist (new_world (new_tracker a b p))"
  define evs where "evs = route_events s now w (run_events u m hist (new_world (new_tracker a b p)) [])"
  define c where "c = tw_tracker (track_do u m now s w)"
  have before: "reset_inv (run_events u m hist (new_world (new_tracker a b p)) []) w"
    unfolding w_def by (rule reset_inv_run) (rule reset_inv_new)
  have after: "streak_inv evs c" "latch_inv evs c"
    using reset_inv_step [OF before, of s now u m] by (simp_all add: reset_inv_parts evs_def c_def)
  have n: "3 \<le> tk_stale_failures c" "\<not> tk_acknowledged c"
    using sends_reset_facts [OF assms [folded w_def], of u m now] before
    by (auto simp: reset_inv_parts c_def)
  have "take 3 (outcomes evs) = take 3 (take (tk_stale_failures c) (outcomes evs))"
    using n(1) by (simp add: min_absorb1)
  also have "\<dots> = replicate 3 (StaleTimeout (tk_stale_fingerprint c))"
    using after(1) n(1) by (simp add: streak_inv_def min_absorb1)
  finally have "take 3 (outcomes evs) = replicate 3 (StaleTimeout (tk_stale_fingerprint c))" .
  with after(2) n(2) show ?thesis unfolding evs_def w_def by (auto simp: latch_inv_def)
qed

text \<open>Timeout, timeout, an answer that cannot be staged, timeout: the path is reset.\<close>

lemma unstaged_keeps_streak:
  "sends_reset demo_reset_step (run_tracker u demo_motion
     (demo_tracking @ [(90 * second, TrackPoll demo_poll_key 1),
        (90 * second, TrackUnstaged demo_poll_key 1 demo_unanswered demo_timeout (90 * second))])
     (new_world (new_tracker True True default_tracking_policy)))"
  by code_simp

theorem tracking_reset_justified_witness:
  "\<forall>u. \<exists>f. take 3 (outcomes (route_events demo_reset_step (120 * second)
        (run_tracker u demo_motion demo_tracking (new_world (new_tracker True True default_tracking_policy)))
        (run_events u demo_motion demo_tracking (new_world (new_tracker True True default_tracking_policy)) [])))
      = replicate 3 (StaleTimeout f)"
  using tracking_reset_justified [OF demo_third_poll_resets] by blast

end
