(* ===== verification/HomeTypes.thy ===== *)
theory HomeTypes
  imports Pairing
begin

text \<open>
  The data of the home auto session module (\<open>internal/homeautosession/module.go\<close>) and its pure
  functions: configuration, positions and geofence, delays, and the reading of cloud errors.

  Module and control states are the texts the code uses: a persisted text is taken over as it is.
  Distances are floats. Their comparisons are modelled on the bits; the haversine distance, the product
  with the margin fraction, the difference to the radius, and the decimal texts of floats and
  of times are parameters, and so is SHA-256.
\<close>

section \<open>Data\<close>

record home_config =
  hc_enabled :: bool
  hc_mode :: string
  hc_lat :: float64
  hc_lon :: float64
  hc_radius :: float64
  hc_tracked :: "string list"
  hc_start_debounce :: duration
  hc_stop_debounce :: duration
  hc_idle_timeout :: duration
  hc_reconcile :: bool
  hc_name_template :: string
  hc_notes_template :: string
  hc_start_endpoint :: string
  hc_stop_endpoint :: string

datatype home_action = StartAction | StopAction

fun action_text :: "home_action \<Rightarrow> string" where
  "action_text StartAction = ''start''"
| "action_text StopAction = ''stop''"

record pending_action =
  pn_action :: home_action
  pn_node :: string
  pn_device :: string
  pn_reason :: string
  pn_dedupe :: string
  pn_since :: time

record transition =
  tc_node :: string
  tc_device :: string
  tc_at :: time
  tc_reason :: string
  tc_dedupe :: string

record node_fact =
  nf_has_position :: bool
  nf_inside :: bool
  nf_lat :: float64
  nf_lon :: float64
  nf_distance :: float64
  nf_seen :: time
  nf_transition :: time
  nf_outside :: time

definition no_fact :: node_fact where
  "no_fact = \<lparr> nf_has_position = False, nf_inside = False, nf_lat = 0, nf_lon = 0, nf_distance = 0,
     nf_seen = zero_time, nf_transition = zero_time, nf_outside = zero_time \<rparr>"

record position_observation =
  ob_protocol :: string
  ob_namespace :: string
  ob_id :: string
  ob_device :: string
  ob_lat :: float64
  ob_lon :: float64
  ob_at :: time
  ob_evidence :: string
  ob_has_position :: bool

text \<open>The part of a Meshtastic event the module looks at: with a packet its source, time and position.\<close>

record home_packet =
  hp_source :: string
  hp_received :: time
  hp_position :: "(float64 \<times> float64) option"

record home_event =
  hv_packet :: "home_packet option"
  hv_received :: time

record home_module =
  hm_config :: home_config
  hm_hash :: string
  hm_tracked :: "string \<rightharpoonup> string"
  hm_state :: string
  hm_summary :: string
  hm_control :: string
  hm_source :: string
  hm_node_state :: string
  hm_reconciliation :: string
  hm_blocked :: string
  hm_config_source :: string
  hm_config_version :: string
  hm_cloud_present :: bool
  hm_fetched :: string
  hm_applied :: string
  hm_apply_result :: string
  hm_apply_error :: string
  hm_desired_enabled :: bool
  hm_desired_mode :: string
  hm_session :: string
  hm_trigger :: string
  hm_decision :: string
  hm_error :: string
  hm_start_dedupe :: string
  hm_stop_dedupe :: string
  hm_action :: string
  hm_result :: string
  hm_action_at :: "time option"
  hm_good_action :: string
  hm_good_at :: "time option"
  hm_event_at :: "time option"
  hm_pending :: "pending_action option"
  hm_cooldown :: "time option"
  hm_stabilize :: "time option"
  hm_failures :: int
  hm_retry_class :: string
  hm_dropped :: int
  hm_gps_status :: string
  hm_gps_reason :: string
  hm_gps_node :: string
  hm_gps_at :: "time option"
  hm_gps_distance :: "float64 option"
  hm_start :: "transition option"
  hm_stop :: "transition option"
  hm_facts :: "string \<rightharpoonup> node_fact"
  hm_events :: "home_event list"
  hm_positions :: "position_observation list"
  hm_reevaluate :: bool
  hm_started :: bool
  hm_fingerprint :: string

text \<open>The parameters: \<open>hx_digest\<close> is SHA-256, \<open>hx_fingerprint\<close> the digest of the persisted record
  without its two times (empty when it cannot be encoded), \<open>hx_config_hash\<close> that of the configuration.\<close>

record home_env =
  hx_unicode :: unicode
  hx_state :: state_env
  hx_digest :: "string \<Rightarrow> string"
  hx_fingerprint :: "home_auto \<Rightarrow> string"
  hx_config_hash :: "home_config \<Rightarrow> string"
  hx_rfc3339 :: "time \<Rightarrow> string"
  hx_rfc3339_nano :: "time \<Rightarrow> string"
  hx_seconds_text :: "duration \<Rightarrow> string"
  hx_distance :: "float64 \<Rightarrow> float64 \<Rightarrow> float64 \<Rightarrow> float64 \<Rightarrow> float64"
  hx_margin_product :: "float64 \<Rightarrow> float64"
  hx_boundary_gap :: "float64 \<Rightarrow> float64 \<Rightarrow> float64"
  hx_margin_text :: "float64 \<Rightarrow> string"
  hx_home_text :: "float64 \<Rightarrow> float64 \<Rightarrow> float64 \<Rightarrow> string"
  hx_home_json :: "float64 \<Rightarrow> float64 \<Rightarrow> float64 \<Rightarrow> string \<rightharpoonup> json"

section \<open>Constants\<close>

definition queue_depth :: nat where "queue_depth = 256"
definition retry_cooldown :: duration where "retry_cooldown = 30 * second"
definition retry_cooldown_max :: duration where "retry_cooldown_max = 4 * minute"
definition gps_stale_floor :: duration where "gps_stale_floor = 2 * minute"
definition gps_stale_ceiling :: duration where "gps_stale_ceiling = 10 * minute"
definition stop_retry_bypass_min :: duration where "stop_retry_bypass_min = 5 * second"
definition stop_retry_fresh_inside_max :: duration where "stop_retry_fresh_inside_max = 45 * second"
definition stabilize_floor :: duration where "stabilize_floor = 1 * second"
definition stabilize_ceiling :: duration where "stabilize_ceiling = 30 * second"

lemmas home_constants = queue_depth_def retry_cooldown_def retry_cooldown_max_def gps_stale_floor_def
  gps_stale_ceiling_def stop_retry_bypass_min_def stop_retry_fresh_inside_max_def stabilize_floor_def
  stabilize_ceiling_def

text \<open>8.0 and 75.0, the bounds of the margin, and 0.0.\<close>

definition margin_floor :: float64 where "margin_floor = 0x4020000000000000"
definition margin_cap :: float64 where "margin_cap = 0x4052C00000000000"
definition f64_zero :: float64 where "f64_zero = 0"

definition f64_less :: "float64 \<Rightarrow> float64 \<Rightarrow> bool" where
  "f64_less x y \<longleftrightarrow> \<not> f64_is_nan x \<and> \<not> f64_is_nan y \<and> f64_key x < f64_key y"

section \<open>Subjects\<close>

text \<open>\<open>strings.EqualFold\<close> with an ASCII word, where the callers have compared the lower-case text before or
  the word has no letter with a special folding.\<close>

definition same_fold :: "unicode \<Rightarrow> string \<Rightarrow> string \<Rightarrow> bool" where
  "same_fold u s word \<longleftrightarrow> to_lower u s = word"

definition is_lower_hex_key :: "string \<Rightarrow> bool" where
  "is_lower_hex_key v \<longleftrightarrow> length v = 64 \<and>
     list_all (\<lambda>c. (CHR ''0'' \<le> c \<and> c \<le> CHR ''9'') \<or> (CHR ''a'' \<le> c \<and> c \<le> CHR ''f'')) v"

definition subject_key :: "unicode \<Rightarrow> string \<Rightarrow> string \<Rightarrow> string \<Rightarrow> string" where
  "subject_key u protocol namespace canonical =
     (let p = to_lower u (trim_space protocol); n = to_lower u (trim_space namespace); i = trim_space canonical in
      if p = ''meshtastic'' \<and> n = ''meshtastic_node_id'' then to_lower u i
      else if p = ''meshcore'' \<and> n = ''ed25519'' \<and> is_lower_hex_key i then ''meshcore:ed25519:'' @ i
      else [])"

definition observation_key :: "unicode \<Rightarrow> position_observation \<Rightarrow> string" where
  "observation_key u ob = subject_key u (ob_protocol ob) (ob_namespace ob) (ob_id ob)"

definition is_meshcore_selector :: "unicode \<Rightarrow> string \<Rightarrow> bool" where
  "is_meshcore_selector u v =
     (case split_on (CHR '':'') (trim_space v) of
        [a, b, c] \<Rightarrow> same_fold u a ''meshcore'' \<and> same_fold u b ''ed25519'' \<and> is_lower_hex_key c
      | _ \<Rightarrow> False)"

section \<open>Configuration\<close>

definition normalize_mode :: "unicode \<Rightarrow> string \<Rightarrow> string" where
  "normalize_mode u mode =
     (let m = to_lower u (trim_space mode) in
      if m = ''observe'' then ''observe'' else if m = ''control'' then ''control'' else ''off'')"

fun distinct_ids :: "unicode \<Rightarrow> string set \<Rightarrow> string list \<Rightarrow> string list" where
  "distinct_ids u seen [] = []"
| "distinct_ids u seen (raw # rest) =
     (let v = trim_space raw; l = to_lower u v in
      if v = [] \<or> l \<in> seen then distinct_ids u seen rest
      else v # distinct_ids u (insert l seen) rest)"

definition normalize_config :: "unicode \<Rightarrow> home_config \<Rightarrow> home_config" where
  "normalize_config u c =
     c\<lparr> hc_mode := normalize_mode u (hc_mode c), hc_tracked := distinct_ids u {} (hc_tracked c),
        hc_name_template := trim_space (hc_name_template c), hc_notes_template := trim_space (hc_notes_template c),
        hc_start_endpoint := trim_space (hc_start_endpoint c),
        hc_stop_endpoint := trim_space (hc_stop_endpoint c) \<rparr>"

definition module_off :: "unicode \<Rightarrow> home_config \<Rightarrow> bool" where
  "module_off u c \<longleftrightarrow> \<not> hc_enabled c \<or> normalize_mode u (hc_mode c) = ''off''"

definition validate_config :: "unicode \<Rightarrow> home_config \<Rightarrow> string option" where
  "validate_config u c =
     (if module_off u c then None
      else if f64_less (hc_lat c) f64_minus_90 \<or> f64_less f64_90 (hc_lat c)
      then Some ''home geofence latitude is invalid''
      else if f64_less (hc_lon c) f64_minus_180 \<or> f64_less f64_180 (hc_lon c)
      then Some ''home geofence longitude is invalid''
      else if f64_le (hc_radius c) f64_zero then Some ''home geofence radius must be greater than zero''
      else if hc_tracked c = [] then Some ''tracked node IDs are required''
      else if \<not> list_all (\<lambda>v. strip_prefix ''meshcore:'' (to_lower u (trim_space v)) = None
                             \<or> is_meshcore_selector u v) (hc_tracked c)
      then Some ''MeshCore tracked node must be meshcore:ed25519:<64 lowercase hex characters>''
      else if hc_start_debounce c \<le> 0 then Some ''start debounce must be greater than zero''
      else if hc_stop_debounce c \<le> 0 then Some ''stop debounce must be greater than zero''
      else if hc_idle_timeout c \<le> 0 then Some ''idle stop timeout must be greater than zero''
      else None)"

text \<open>\<open>strings.ReplaceAll\<close> for a pattern that is not empty.\<close>

fun replace_from :: "nat \<Rightarrow> string \<Rightarrow> string \<Rightarrow> string \<Rightarrow> string" where
  "replace_from (Suc n) old new s =
     (case strip_prefix old s of
        Some rest \<Rightarrow> new @ replace_from n old new rest
      | None \<Rightarrow> (case s of [] \<Rightarrow> [] | c # rest \<Rightarrow> c # replace_from n old new rest))"
| "replace_from 0 old new s = s"

definition replace_all :: "string \<Rightarrow> string \<Rightarrow> string \<Rightarrow> string" where
  "replace_all old new s = replace_from (length s) old new s"

definition render_template :: "string \<Rightarrow> string \<Rightarrow> string" where
  "render_template template node =
     (let v = trim_space template in
      if v = [] then []
      else trim_space (replace_all ''{{ .NodeID }}'' node (replace_all ''{{.NodeID}}'' node v)))"

section \<open>Positions\<close>

definition coordinates_valid :: "float64 \<Rightarrow> float64 \<Rightarrow> bool" where
  "coordinates_valid lat lon \<longleftrightarrow>
     f64_le f64_minus_90 lat \<and> f64_le lat f64_90 \<and> f64_le f64_minus_180 lon \<and> f64_le lon f64_180"

text \<open>Go's division of durations truncates; the configured times are positive here.\<close>

definition stale_threshold :: "home_config \<Rightarrow> duration" where
  "stale_threshold c = min gps_stale_ceiling (max gps_stale_floor (hc_idle_timeout c div 3))"

definition position_is_stale :: "time \<Rightarrow> time \<Rightarrow> duration \<Rightarrow> bool" where
  "position_is_stale wall sample threshold \<longleftrightarrow> is_zero sample \<or> threshold < time_sub wall sample"

definition boundary_margin :: "home_env \<Rightarrow> float64 \<Rightarrow> float64" where
  "boundary_margin hx radius =
     (let m = hx_margin_product hx radius; m = (if f64_less m margin_floor then margin_floor else m)
      in if f64_less margin_cap m then margin_cap else m)"

definition stabilize_time :: "home_config \<Rightarrow> duration" where
  "stabilize_time c =
     min stabilize_ceiling (max stabilize_floor (max (hc_start_debounce c div 2) (hc_stop_debounce c div 2)))"

section \<open>Dedupe keys\<close>

definition dedupe_key :: "home_env \<Rightarrow> string \<Rightarrow> string \<Rightarrow> time \<Rightarrow> string \<Rightarrow> string" where
  "dedupe_key hx prefix node t reason =
     prefix @ ''-'' @ hex_encode (take 10 (hx_digest hx (join_with (CHR ''|'')
       [prefix, to_lower (hx_unicode hx) (trim_space node), hx_rfc3339_nano hx t,
        to_lower (hx_unicode hx) (trim_space reason)])))"

definition position_dedupe_key ::
  "home_env \<Rightarrow> home_action \<Rightarrow> position_observation \<Rightarrow> string \<Rightarrow> time \<Rightarrow> string \<Rightarrow> string" where
  "position_dedupe_key hx a ob node t reason =
     (if same_fold (hx_unicode hx) (trim_space (ob_protocol ob)) ''meshcore''
      then dedupe_key hx (action_text a) node t (reason @ ''|'' @ trim_space (ob_evidence ob))
      else [])"

section \<open>Delays\<close>

definition retry_delay_home :: "int \<Rightarrow> duration" where
  "retry_delay_home failures =
     (if failures \<le> 1 then retry_cooldown
      else min retry_cooldown_max (retry_cooldown * 2 ^ nat (min failures 4 - 1)))"

definition stop_timeout_delay :: "int \<Rightarrow> duration" where
  "stop_timeout_delay failures =
     (if failures \<le> 1 then 10 * second
      else if failures = 2 then 20 * second
      else if failures = 3 then 30 * second
      else retry_delay_home (failures - 2))"

definition retry_delay_for :: "home_action \<Rightarrow> string \<Rightarrow> int \<Rightarrow> duration" where
  "retry_delay_for a cls failures =
     (if a = StopAction \<and> cls = ''timeout_network'' then stop_timeout_delay failures else retry_delay_home failures)"

text \<open>The first byte of the digest moves a delay by up to ten percent; Go's division truncates.\<close>

definition truncated_div :: "int \<Rightarrow> int \<Rightarrow> int" where
  "truncated_div a b = (if a < 0 then - ((- a) div b) else a div b)"

definition jitter_delay :: "home_env \<Rightarrow> duration \<Rightarrow> home_action \<Rightarrow> int \<Rightarrow> string \<Rightarrow> duration" where
  "jitter_delay hx base a failures key =
     (if base \<le> 0 then base
      else
        let sum = hx_digest hx (action_text a @ ''|'' @ itoa failures @ ''|''
                                 @ to_lower (hx_unicode hx) (trim_space key));
            offset = int (of_char (hd sum)) mod 21 - 10;
            jittered = base + truncated_div (base * offset) 100
        in min retry_cooldown_max (max second jittered))"

section \<open>Cloud errors\<close>

text \<open>What \<open>errors.As\<close> finds: an API error with its session id, or an error from below.\<close>

fun api_failure :: "client_error \<Rightarrow> (api_error \<times> string) option" where
  "api_failure (ApiFailure a route session) = Some (a, session)"
| "api_failure _ = None"

fun wrapped_error :: "client_error \<Rightarrow> go_error option" where
  "wrapped_error (TransportFailure t) = Some t"
| "wrapped_error (DecodeFailed t) = Some t"
| "wrapped_error (AckUndecodable t) = Some t"
| "wrapped_error _ = None"

definition api_message :: "unicode \<Rightarrow> api_error \<Rightarrow> string" where
  "api_message u a = to_lower u (trim_space (ae_message a))"

definition contains_any :: "string \<Rightarrow> string list \<Rightarrow> bool" where
  "contains_any s words \<longleftrightarrow> list_ex (contains_text s) words"

definition classify_retryable :: "unicode \<Rightarrow> client_error \<Rightarrow> string" where
  "classify_retryable u err =
     (if (case wrapped_error err of Some t \<Rightarrow> te_deadline t \<or> te_net t | None \<Rightarrow> False) then ''timeout_network''
      else if contains_any (to_lower u (trim_space (client_error_text err)))
                [''timeout'', ''timed out'', ''deadline exceeded'', ''dial tcp'', ''connection refused'',
                 ''connection reset'', ''no such host'']
      then ''timeout_network'' else ''generic_retryable'')"

definition stale_session_semantics :: "string \<Rightarrow> bool" where
  "stale_session_semantics m \<longleftrightarrow>
     m \<noteq> [] \<and>
     (contains_any m [''sessionid should not exist'', ''session id should not exist'', ''invalid sessionid'',
        ''invalid session id'', ''stale session'', ''missing session'', ''unknown session'']
      \<or> contains_text m ''session'' \<and> contains_text m ''not found'')"

definition stop_already_resolved :: "unicode \<Rightarrow> client_error \<Rightarrow> bool" where
  "stop_already_resolved u err =
     (case api_failure err of
        None \<Rightarrow> False
      | Some (a, _) \<Rightarrow>
          if ae_status a \<noteq> 404 \<and> ae_status a \<noteq> 409 then False
          else let m = api_message u a in
            if m = [] then ae_status a = 404
            else contains_text m ''not found''
              \<or> contains_text m ''already'' \<and> contains_any m [''stopped'', ''closed'', ''ended''])"

definition stop_state_mismatch :: "unicode \<Rightarrow> client_error \<Rightarrow> bool" where
  "stop_state_mismatch u err =
     (case api_failure err of
        None \<Rightarrow> False
      | Some (a, _) \<Rightarrow>
          if ae_status a \<noteq> 409 \<and> ae_status a \<noteq> 422 then False
          else let m = api_message u a in
            m \<noteq> [] \<and> (contains_any m [''state mismatch'', ''does not match'']
                       \<or> contains_text m ''cannot stop'' \<and> contains_text m ''current state''))"

definition start_already_active :: "unicode \<Rightarrow> client_error \<Rightarrow> bool" where
  "start_already_active u err =
     (case api_failure err of
        None \<Rightarrow> False
      | Some (a, _) \<Rightarrow>
          if ae_status a \<noteq> 409 \<and> ae_status a \<noteq> 422 then False
          else let m = api_message u a in
            m \<noteq> [] \<and> (contains_any m [''already active'', ''already running'']
                       \<or> contains_text m ''already'' \<and> contains_text m ''session'' \<and> contains_text m ''active''))"

definition start_missing_session_id :: "unicode \<Rightarrow> client_error \<Rightarrow> bool" where
  "start_missing_session_id u err =
     (case api_failure err of
        None \<Rightarrow> False
      | Some (a, _) \<Rightarrow>
          ae_status a = 409
          \<and> contains_any (api_message u a) [''home auto session start is missing sessionid'',
                                             ''home auto session start is missing session id''])"

definition lifecycle_conflict :: "unicode \<Rightarrow> client_error \<Rightarrow> string option" where
  "lifecycle_conflict u err =
     (case api_failure err of
        None \<Rightarrow> None
      | Some (a, _) \<Rightarrow>
          let m = api_message u a in
          if ae_status a = 423 \<or> contains_text m ''disabled'' then Some ''disabled''
          else if contains_any m [''replaced'', ''superseded'', ''replacement''] then Some ''replaced''
          else if ae_status a = 401 \<or> contains_any m [''revoked'', ''invalid credential''] then Some ''revoked''
          else None)"

definition fallback_without_session :: "unicode \<Rightarrow> client_error \<Rightarrow> bool" where
  "fallback_without_session u err =
     (if stop_already_resolved u err \<or> stop_state_mismatch u err \<or> lifecycle_conflict u err \<noteq> None then False
      else if is_retryable err then True
      else case api_failure err of
        None \<Rightarrow> False
      | Some (a, _) \<Rightarrow> 500 \<le> ae_status a \<or> stale_session_semantics (api_message u a))"

definition error_session_id :: "client_error \<Rightarrow> string" where
  "error_session_id err = (case api_failure err of None \<Rightarrow> [] | Some (_, session) \<Rightarrow> trim_space session)"

definition blocked_reason_for :: "unicode \<Rightarrow> home_action \<Rightarrow> client_error \<Rightarrow> string" where
  "blocked_reason_for u act err =
     (case api_failure err of
        None \<Rightarrow> ''home auto session control request failed''
      | Some (a, _) \<Rightarrow>
          let m = api_message u a in
          if contains_any m [''replaced'', ''superseded''] then ''receiver was replaced by another install''
          else if contains_text m ''disabled'' then ''receiver is disabled in cloud''
          else if contains_any m [''revoked'', ''invalid credential''] then ''receiver credentials were revoked by cloud''
          else if ae_status a = 401 \<or> ae_status a = 403 then ''receiver credentials were rejected by cloud''
          else if ae_status a = 404
          then (if act = StopAction then ''cloud session was not found during stop''
                else ''cloud session endpoint was not found'')
          else if ae_status a = 409 then ''cloud reported conflicting session state''
          else if ae_status a = 400 \<or> ae_status a = 422 then ''cloud rejected Home Auto Session request''
          else if trim_space (ae_message a) \<noteq> [] then trim_space (ae_message a)
          else ''home auto session control request failed'')"

section \<open>Texts\<close>

definition ready_summary :: "string \<Rightarrow> string \<Rightarrow> string \<Rightarrow> string" where
  "ready_summary gps reason fallback =
     (if trim_space gps \<in> {''missing'', ''invalid'', ''stale'', ''boundary_uncertain''}
      then (if trim_space reason \<noteq> [] then reason else ''waiting for valid tracked-node position updates'')
      else fallback)"

definition derive_control_state :: "unicode \<Rightarrow> string \<Rightarrow> string \<Rightarrow> string" where
  "derive_control_state u module_state blocked =
     (let b = to_lower u (trim_space blocked) in
      if trim_space blocked \<noteq> [] \<and> contains_any b [''revoked'', ''replaced'', ''disabled''] then ''lifecycle_blocked''
      else if trim_space blocked \<noteq> [] \<and> contains_any b [''conflict'', ''disagree'', ''mismatch'']
      then ''conflict_blocked''
      else if module_state = ''disabled'' then ''disabled''
      else if module_state = ''misconfigured'' then ''misconfigured''
      else if module_state = ''observe_ready'' \<or> module_state = ''control_ready'' then ''ready''
      else if module_state = ''start_pending'' then ''pending_start''
      else if module_state = ''stop_pending'' then ''pending_stop''
      else if module_state = ''active'' then ''active''
      else if module_state = ''cooldown'' then ''cooldown''
      else ''degraded'')"

definition home_summary :: "home_env \<Rightarrow> home_config \<Rightarrow> string" where
  "home_summary hx c =
     (if f64_le (hc_radius c) f64_zero then ''home geofence not configured''
      else hx_home_text hx (hc_lat c) (hc_lon c) (hc_radius c))"

definition stop_retry_summary :: "home_env \<Rightarrow> int \<Rightarrow> time \<Rightarrow> string" where
  "stop_retry_summary hx attempt eta =
     ''stop pending; cloud unreachable/slow (attempt '' @ itoa attempt @ '', next retry '' @ hx_rfc3339 hx eta @ '')''"

definition normalize_pending :: "unicode \<Rightarrow> string \<Rightarrow> home_action option" where
  "normalize_pending u v =
     (let v = to_lower u (trim_space v) in
      if v = ''start'' then Some StartAction else if v = ''stop'' then Some StopAction else None)"

definition event_time :: "time \<Rightarrow> home_event \<Rightarrow> time" where
  "event_time wall v =
     (case hv_packet v of
        Some p \<Rightarrow> if \<not> is_zero (hp_received p) then hp_received p
                  else if \<not> is_zero (hv_received v) then hv_received v else wall
      | None \<Rightarrow> if \<not> is_zero (hv_received v) then hv_received v else wall)"

end
