(* ===== verification/HomeModule.thy ===== *)
theory HomeModule
  imports HomeTypes
begin

text \<open>
  The home auto session module as a state machine: the module with the stores it writes to, and its
  handlers in the order of the code.

  The module runs under one lock, so a handler is one step. \<open>hw_calls\<close> records each call to the cloud,
  newest first, with the module and the state store as they were when the call was made: a crash during
  the call leaves that store. The outcome of a call and of each write to the store are given to the step; the clock is read once
  per step. Log lines are not modelled, nor what was last logged.
\<close>

section \<open>The world of a step\<close>

datatype home_call =
  CallStart time string string start_request home_module "state_store option"
| CallStop time string string stop_request home_module "state_store option"

record home_world =
  hw_module :: home_module
  hw_store :: "state_store option"
  hw_status :: "snapshot option"
  hw_client :: bool
  hw_calls :: "home_call list"

text \<open>\<open>hi_write n\<close> is the outcome of the \<open>n\<close>-th write of the step, \<open>hi_stop n\<close> that of the \<open>n\<close>-th stop call.\<close>

record home_io =
  hi_wall :: time
  hi_write :: "nat \<Rightarrow> state_io"
  hi_start :: "start_request \<Rightarrow> client_error + session_result"
  hi_stop :: "nat \<Rightarrow> stop_request \<Rightarrow> client_error + session_result"

abbreviation on_module :: "(home_module \<Rightarrow> home_module) \<Rightarrow> home_world \<Rightarrow> home_world" where
  "on_module f w \<equiv> w\<lparr> hw_module := f (hw_module w) \<rparr>"

definition or_text :: "string \<Rightarrow> string \<Rightarrow> string" where
  "or_text v fallback = (if trim_space v = [] then fallback else trim_space v)"

section \<open>Persisting and publishing\<close>

definition persisted_state :: "home_env \<Rightarrow> home_module \<Rightarrow> home_auto" where
  "persisted_state hx m =
     (let u = hx_unicode hx;
          src = or_text (hm_config_source m) ''local_fallback'';
          ver = (if trim_space (hm_config_version m) = [] \<and> src = ''local_fallback'' then ''local-default''
                 else trim_space (hm_config_version m));
          pend = hm_pending m
      in \<lparr> ha_module_state = trim_space (hm_state m),
           ha_control_state = or_text (hm_control m) (derive_control_state u (hm_state m) (hm_blocked m)),
           ha_active_state_source = or_text (hm_source m) ''none'',
           ha_reconciliation_state = or_text (hm_reconciliation m) ''clean_idle'',
           ha_effective_config_source = src,
           ha_effective_config_version = ver,
           ha_cloud_config_present = hm_cloud_present m,
           ha_last_fetched_config_ver = trim_space (hm_fetched m),
           ha_last_applied_config_ver = or_text (hm_applied m) ver,
           ha_last_config_apply_result = or_text (hm_apply_result m) ''config_apply_unknown'',
           ha_last_config_apply_error = trim_space (hm_apply_error m),
           ha_desired_config_enabled = Some (hm_desired_enabled m),
           ha_desired_config_mode = or_text (hm_desired_mode m) (normalize_mode u (hc_mode (hm_config m))),
           ha_active_session_id = trim_space (hm_session m),
           ha_active_trigger_node = trim_space (hm_trigger m),
           ha_pending_action = (case pend of None \<Rightarrow> [] | Some p \<Rightarrow> action_text (pn_action p)),
           ha_pending_trigger_node = (case pend of None \<Rightarrow> [] | Some p \<Rightarrow> trim_space (pn_node p)),
           ha_pending_device_uid = (case pend of None \<Rightarrow> [] | Some p \<Rightarrow> trim_space (pn_device p)),
           ha_pending_reason = (case pend of None \<Rightarrow> [] | Some p \<Rightarrow> trim_space (pn_reason p)),
           ha_pending_dedupe_key = (case pend of None \<Rightarrow> [] | Some p \<Rightarrow> trim_space (pn_dedupe p)),
           ha_pending_since = map_option pn_since pend,
           ha_last_decision_reason = trim_space (hm_decision m),
           ha_last_start_dedupe_key = trim_space (hm_start_dedupe m),
           ha_last_stop_dedupe_key = trim_space (hm_stop_dedupe m),
           ha_last_action = trim_space (hm_action m),
           ha_last_action_result = trim_space (hm_result m),
           ha_last_action_at = hm_action_at m,
           ha_last_successful_action = trim_space (hm_good_action m),
           ha_last_successful_action_at = hm_good_at m,
           ha_last_error = trim_space (hm_error m),
           ha_blocked_reason = trim_space (hm_blocked m),
           ha_consecutive_failures = hm_failures m,
           ha_last_decision_at = None,
           ha_last_event_at = hm_event_at m,
           ha_cooldown_until = hm_cooldown m,
           ha_decision_cooldown_until = hm_stabilize m,
           ha_gps_status = trim_space (hm_gps_status m),
           ha_gps_reason = trim_space (hm_gps_reason m),
           ha_gps_node_id = trim_space (hm_gps_node m),
           ha_gps_updated_at = hm_gps_at m,
           ha_gps_distance_m = hm_gps_distance m,
           ha_observed_dropped = hm_dropped m,
           ha_updated_at = zero_time \<rparr>)"

definition persist_home :: "home_env \<Rightarrow> home_io \<Rightarrow> nat \<Rightarrow> home_world \<Rightarrow> home_world" where
  "persist_home hx io n w =
     (case hw_store w of
        None \<Rightarrow> w
      | Some s \<Rightarrow>
          let next = persisted_state hx (hw_module w); fingerprint = hx_fingerprint hx next in
          if fingerprint \<noteq> [] \<and> fingerprint = hm_fingerprint (hw_module w) then w
          else
            let next = next\<lparr> ha_last_decision_at := Some (hi_wall io),
                             ha_updated_at := (if is_zero (hi_wall io) then zero_time else hi_wall io) \<rparr>
            in (case update_store (hx_state hx) (hi_write io n) (\<lambda>d. d\<lparr> da_home_auto_session := next \<rparr>) s of
                  (Inl _, s) \<Rightarrow> w\<lparr> hw_store := Some s \<rparr>
                | (Inr _, s) \<Rightarrow>
                    on_module (\<lambda>m. if fingerprint \<noteq> [] then m\<lparr> hm_fingerprint := fingerprint \<rparr> else m)
                      (w\<lparr> hw_store := Some s \<rparr>)))"

definition published_status :: "home_env \<Rightarrow> home_module \<Rightarrow> session_status" where
  "published_status hx m =
     (let u = hx_unicode hx; c = hm_config m;
          src = or_text (hm_config_source m) ''local_fallback'';
          ver = (if trim_space (hm_config_version m) = [] \<and> src = ''local_fallback'' then ''local-default''
                 else trim_space (hm_config_version m))
      in no_session_status\<lparr>
           hs_enabled := hc_enabled c, hs_mode := normalize_mode u (hc_mode c),
           hs_effective_config_source := src, hs_effective_config_ver := ver,
           hs_cloud_config_present := hm_cloud_present m,
           hs_last_fetched_config_ver := trim_space (hm_fetched m),
           hs_last_applied_config_ver := or_text (hm_applied m) ver,
           hs_last_config_apply_result := or_text (hm_apply_result m) ''config_apply_unknown'',
           hs_last_config_apply_error := trim_space (hm_apply_error m),
           hs_desired_config_enabled := hm_desired_enabled m,
           hs_desired_config_mode := or_text (hm_desired_mode m) (normalize_mode u (hc_mode c)),
           hs_state := hm_state m,
           hs_control_state := or_text (hm_control m) (derive_control_state u (hm_state m) (hm_blocked m)),
           hs_active_state_source := or_text (hm_source m) ''none'',
           hs_summary := or_text (hm_summary m) ''home auto session status unavailable'',
           hs_home_summary := home_summary hx c, hs_tracked_node_ids := hc_tracked c,
           hs_tracked_node_state := or_text (hm_node_state m) ''no tracked node data observed yet'',
           hs_reconciliation_state := hm_reconciliation m,
           hs_pending_action := (case hm_pending m of None \<Rightarrow> [] | Some p \<Rightarrow> action_text (pn_action p)),
           hs_pending_since := map_option pn_since (hm_pending m),
           hs_active_session_id := hm_session m, hs_active_trigger_node := hm_trigger m,
           hs_last_decision_reason := hm_decision m, hs_last_error := hm_error m,
           hs_last_action := hm_action m, hs_last_action_result := hm_result m,
           hs_last_action_at := hm_action_at m, hs_last_successful_action := hm_good_action m,
           hs_last_successful_at := hm_good_at m, hs_blocked_reason := hm_blocked m,
           hs_consecutive_failures := hm_failures m, hs_cooldown_until := hm_cooldown m,
           hs_decision_cooldown_until := hm_stabilize m, hs_gps_status := hm_gps_status m,
           hs_gps_reason := hm_gps_reason m, hs_gps_node_id := hm_gps_node m,
           hs_gps_updated_at := hm_gps_at m, hs_gps_distance_m := hm_gps_distance m,
           hs_observed_queue_depth := int (length (hm_events m)), hs_observed_dropped := hm_dropped m \<rparr>)"

definition publish_home :: "home_env \<Rightarrow> home_io \<Rightarrow> home_world \<Rightarrow> home_world" where
  "publish_home hx io w =
     (case hw_status w of
        None \<Rightarrow> w
      | Some s \<Rightarrow>
          let m = hw_module w; v = published_status hx m in
          w\<lparr> hw_status := Some (set_component (hi_wall io) ''home_auto_session'' (hm_state m) (hs_summary v)
                                 (set_home_auto_session (hi_wall io) v s)) \<rparr>)"

text \<open>\<open>publishLocked\<close> followed by \<open>persistLocked\<close>, after the module changed by \<open>f\<close>.\<close>

definition settle :: "home_env \<Rightarrow> home_io \<Rightarrow> nat \<Rightarrow> (home_module \<Rightarrow> home_module) \<Rightarrow> home_world \<Rightarrow> home_world" where
  "settle hx io n f w = persist_home hx io n (publish_home hx io (on_module f w))"

section \<open>Degrading\<close>

definition degraded_module :: "string \<Rightarrow> string \<Rightarrow> home_module \<Rightarrow> home_module" where
  "degraded_module blocked decision m =
     (let reason = or_text blocked ''home auto session control path is blocked'' in
      m\<lparr> hm_blocked := reason, hm_state := ''degraded'',
         hm_control := (if trim_space (hm_control m) = [] \<or> hm_control m = ''ready'' \<or> hm_control m = ''cooldown''
                        then ''degraded'' else hm_control m),
         hm_summary := ''home auto session is degraded'',
         hm_decision := or_text decision ''manual action required to recover control mode'',
         hm_error := (if hm_error m = [] then reason else hm_error m),
         hm_cooldown := None, hm_retry_class := [], hm_source := ''conflict_unresolved'' \<rparr>)"

definition mark_degraded :: "home_env \<Rightarrow> home_io \<Rightarrow> nat \<Rightarrow> string \<Rightarrow> string \<Rightarrow> home_world \<Rightarrow> home_world" where
  "mark_degraded hx io n blocked decision = settle hx io n (degraded_module blocked decision)"

definition mark_startup_inconsistent :: "home_env \<Rightarrow> home_io \<Rightarrow> string \<Rightarrow> home_world \<Rightarrow> home_world" where
  "mark_startup_inconsistent hx io reason w =
     mark_degraded hx io 0 ''local persisted state is inconsistent'' ''manual reset required before control actions''
       (on_module (\<lambda>m. m\<lparr> hm_reconciliation := ''inconsistent_degraded'', hm_control := ''conflict_blocked'',
          hm_source := ''conflict_unresolved'', hm_error := trim_space reason \<rparr>) w)"

section \<open>Starting up\<close>

definition pending_transition :: "pending_action \<Rightarrow> transition" where
  "pending_transition p =
     \<lparr> tc_node = pn_node p, tc_device = pn_device p, tc_at = pn_since p, tc_reason = pn_reason p,
       tc_dedupe = pn_dedupe p \<rparr>"

text \<open>What \<open>reconcileStartupLocked\<close> does with a pending action that is complete.\<close>

definition reconcile_pending :: "pending_action \<Rightarrow> home_module \<Rightarrow> home_module" where
  "reconcile_pending p m =
     (case pn_action p of
        StartAction \<Rightarrow>
          if pn_dedupe p = hm_start_dedupe m
          then m\<lparr> hm_pending := None, hm_reconciliation := ''pending_start_resolved'',
                  hm_source := ''cloud_acknowledged'',
                  hm_decision := ''pending start action already completed before restart'' \<rparr>
          else m\<lparr> hm_start := Some (pending_transition p), hm_stop := None,
                  hm_reconciliation := ''pending_start_recovering'',
                  hm_decision := ''recovering pending start action after restart'' \<rparr>
      | StopAction \<Rightarrow>
          if hm_session m = [] \<or> pn_dedupe p = hm_stop_dedupe m
          then m\<lparr> hm_pending := None, hm_reconciliation := ''pending_stop_resolved'',
                  hm_source := ''cloud_acknowledged'',
                  hm_decision := ''pending stop action already resolved before restart'' \<rparr>
          else m\<lparr> hm_stop := Some (pending_transition p), hm_start := None,
                  hm_reconciliation := ''pending_stop_recovering'',
                  hm_decision := ''recovering pending stop action after restart'' \<rparr>)"

definition reconcile_session :: "home_env \<Rightarrow> home_io \<Rightarrow> home_world \<Rightarrow> home_world" where
  "reconcile_session hx io w =
     (let m = hw_module w in
      if hm_session m \<noteq> []
      then (if trim_space (hm_trigger m) = []
            then mark_startup_inconsistent hx io ''active session state is missing trigger node'' w
            else on_module (\<lambda>m. m\<lparr> hm_reconciliation := ''active_recovered_unverified'',
                   hm_source := ''local_recovered_unverified'',
                   hm_summary := (if hm_summary m = [] then ''recovered active home auto session from local state''
                                  else hm_summary m),
                   hm_state := ''active'' \<rparr>) w)
      else if trim_space (hm_trigger m) \<noteq> []
      then mark_startup_inconsistent hx io ''trigger node persisted without active session'' w
      else on_module (\<lambda>m. m\<lparr> hm_reconciliation := ''clean_idle'', hm_source := ''none'',
             hm_decision := (if hm_decision m = [] then ''startup reconciliation complete'' else hm_decision m) \<rparr>) w)"

definition reconcile_startup :: "home_env \<Rightarrow> home_io \<Rightarrow> home_world \<Rightarrow> home_world" where
  "reconcile_startup hx io w =
     (case hm_pending (hw_module w) of
        None \<Rightarrow> reconcile_session hx io w
      | Some p \<Rightarrow>
          if trim_space (pn_node p) = [] \<or> trim_space (pn_dedupe p) = []
          then mark_startup_inconsistent hx io ''pending action state is incomplete'' w
          else reconcile_session hx io (on_module (reconcile_pending p) w))"

definition loaded_module :: "home_env \<Rightarrow> time \<Rightarrow> home_auto \<Rightarrow> home_module \<Rightarrow> home_module" where
  "loaded_module hx wall v m =
     (let ver = or_text (ha_effective_config_version v) ''local-default'' in
      m\<lparr> hm_fingerprint := hx_fingerprint hx (v\<lparr> ha_last_decision_at := None, ha_updated_at := zero_time \<rparr>),
         hm_session := trim_space (ha_active_session_id v), hm_trigger := trim_space (ha_active_trigger_node v),
         hm_control := or_text (ha_control_state v) ''disabled'',
         hm_source := or_text (ha_active_state_source v) ''none'',
         hm_decision := trim_space (ha_last_decision_reason v),
         hm_start_dedupe := trim_space (ha_last_start_dedupe_key v),
         hm_stop_dedupe := trim_space (ha_last_stop_dedupe_key v),
         hm_action := trim_space (ha_last_action v), hm_result := trim_space (ha_last_action_result v),
         hm_action_at := ha_last_action_at v, hm_good_action := trim_space (ha_last_successful_action v),
         hm_good_at := ha_last_successful_action_at v, hm_error := trim_space (ha_last_error v),
         hm_blocked := trim_space (ha_blocked_reason v), hm_failures := ha_consecutive_failures v,
         hm_cooldown := ha_cooldown_until v, hm_stabilize := ha_decision_cooldown_until v,
         hm_event_at := ha_last_event_at v, hm_dropped := ha_observed_dropped v,
         hm_gps_status := trim_space (ha_gps_status v), hm_gps_reason := trim_space (ha_gps_reason v),
         hm_gps_node := trim_space (ha_gps_node_id v), hm_gps_at := ha_gps_updated_at v,
         hm_gps_distance := ha_gps_distance_m v, hm_reconciliation := trim_space (ha_reconciliation_state v),
         hm_config_source := or_text (ha_effective_config_source v) ''local_fallback'',
         hm_config_version := ver, hm_cloud_present := ha_cloud_config_present v,
         hm_fetched := trim_space (ha_last_fetched_config_ver v),
         hm_applied := or_text (ha_last_applied_config_ver v) ver,
         hm_apply_result := or_text (ha_last_config_apply_result v) ''local_config_applied'',
         hm_apply_error := trim_space (ha_last_config_apply_error v),
         hm_desired_enabled := (case ha_desired_config_enabled v of None \<Rightarrow> hm_desired_enabled m | Some b \<Rightarrow> b),
         hm_desired_mode := or_text (ha_desired_config_mode v) (normalize_mode (hx_unicode hx) (hc_mode (hm_config m))),
         hm_state := (if trim_space (ha_module_state v) \<noteq> [] then trim_space (ha_module_state v) else hm_state m),
         hm_pending :=
           (case normalize_pending (hx_unicode hx) (trim_space (ha_pending_action v)) of
              None \<Rightarrow> hm_pending m
            | Some a \<Rightarrow> Some \<lparr> pn_action = a, pn_node = trim_space (ha_pending_trigger_node v),
                pn_device = trim_space (ha_pending_device_uid v), pn_reason = trim_space (ha_pending_reason v),
                pn_dedupe = trim_space (ha_pending_dedupe_key v),
                pn_since = (case ha_pending_since v of None \<Rightarrow> wall | Some t \<Rightarrow> t) \<rparr>) \<rparr>)"

definition cleared_markers :: "home_module \<Rightarrow> home_module" where
  "cleared_markers m =
     m\<lparr> hm_decision := (if hm_session m \<noteq> [] \<or> hm_pending m \<noteq> None
                        then ''startup reconcile disabled; cleared prior local session markers'' else hm_decision m),
        hm_session := [], hm_trigger := [], hm_pending := None, hm_start := None, hm_stop := None,
        hm_control := ''disabled'', hm_source := ''none'', hm_reconciliation := ''startup_reconcile_disabled'',
        hm_blocked := [] \<rparr>"

definition bootstrap_home :: "home_env \<Rightarrow> home_io \<Rightarrow> home_world \<Rightarrow> home_world" where
  "bootstrap_home hx io w =
     (case hw_store w of
        None \<Rightarrow> on_module (\<lambda>m. if hm_reconciliation m = [] then m\<lparr> hm_reconciliation := ''clean_idle'' \<rparr> else m) w
      | Some s \<Rightarrow>
          let w = on_module (loaded_module hx (hi_wall io)
                    (da_home_auto_session (sv_data s))) w
          in if \<not> hc_reconcile (hm_config (hw_module w)) then on_module cleared_markers w
             else reconcile_startup hx io w)"

definition start_home :: "home_env \<Rightarrow> home_io \<Rightarrow> home_world \<Rightarrow> home_world" where
  "start_home hx io w =
     (if hm_started (hw_module w) then w
      else settle hx io 1 id (bootstrap_home hx io (on_module (\<lambda>m. m\<lparr> hm_started := True \<rparr>) w)))"

section \<open>Positions\<close>

definition set_gps ::
  "time \<Rightarrow> string \<Rightarrow> string \<Rightarrow> string \<Rightarrow> float64 option \<Rightarrow> time \<Rightarrow> home_module \<Rightarrow> home_module" where
  "set_gps wall code reason node distance t m =
     m\<lparr> hm_gps_status := trim_space code, hm_gps_reason := trim_space reason, hm_gps_node := trim_space node,
        hm_gps_at := Some (if is_zero t then wall else t), hm_gps_distance := distance \<rparr>"

text \<open>What \<open>consumePositionLocked\<close> makes of an observation: ignored, seen without a usable position, or
  a position inside or outside.\<close>

datatype sighting =
  Ignored
| NoFix
| BadCoordinates
| TooOld
| NearBoundary float64
| Located bool float64

definition fact_of :: "string \<Rightarrow> home_module \<Rightarrow> node_fact" where
  "fact_of key m = (case hm_facts m key of None \<Rightarrow> no_fact | Some f \<Rightarrow> f)"

definition node_of :: "unicode \<Rightarrow> position_observation \<Rightarrow> string" where
  "node_of u ob = trim_space (observation_key u ob)"

definition is_meshcore_key :: "unicode \<Rightarrow> position_observation \<Rightarrow> bool" where
  "is_meshcore_key u ob \<longleftrightarrow> same_fold u (trim_space (ob_protocol ob)) ''meshcore''
     \<and> same_fold u (trim_space (ob_namespace ob)) ''ed25519''"

definition sight :: "home_env \<Rightarrow> time \<Rightarrow> position_observation \<Rightarrow> home_module \<Rightarrow> sighting" where
  "sight hx wall ob m =
     (let u = hx_unicode hx; c = hm_config m; node = node_of u ob; key = to_lower u node; fc = fact_of key m;
          distance = hx_distance hx (hc_lat c) (hc_lon c) (ob_lat ob) (ob_lon ob)
      in if \<not> hc_enabled c \<or> same_fold u (hc_mode c) ''off'' \<or> node = [] \<or> hm_tracked m key = None
            \<or> is_zero (ob_at ob) then Ignored
         else if is_meshcore_key u ob \<and> \<not> is_zero (nf_seen fc) \<and> \<not> nf_seen fc < ob_at ob then Ignored
         else if \<not> ob_has_position ob then NoFix
         else if \<not> coordinates_valid (ob_lat ob) (ob_lon ob) then BadCoordinates
         else if position_is_stale wall (ob_at ob) (stale_threshold c) then TooOld
         else if f64_le (hx_boundary_gap hx distance (hc_radius c)) (boundary_margin hx (hc_radius c))
         then NearBoundary distance
         else Located (f64_le distance (hc_radius c)) distance)"

text \<open>The sign in UTF-8.\<close>

definition plus_minus :: string where "plus_minus = [char_of (194 :: nat), char_of (177 :: nat)]"

definition left_home :: string where "left_home = ''tracked node moved outside home geofence''"
definition came_home :: string where "came_home = ''tracked node returned inside home geofence''"

definition position_transition ::
  "home_env \<Rightarrow> home_action \<Rightarrow> string \<Rightarrow> position_observation \<Rightarrow> string \<Rightarrow> transition" where
  "position_transition hx a reason ob node =
     \<lparr> tc_node = node, tc_device = trim_space (ob_device ob), tc_at = ob_at ob, tc_reason = reason,
       tc_dedupe = position_dedupe_key hx a ob node (ob_at ob) reason \<rparr>"

text \<open>The transition a located node makes, if it was located before on the other side.\<close>

definition note_transition ::
  "home_env \<Rightarrow> position_observation \<Rightarrow> string \<Rightarrow> bool \<Rightarrow> node_fact \<Rightarrow> home_module \<Rightarrow> home_module" where
  "note_transition hx ob node inside fc m =
     (if \<not> nf_has_position fc \<or> nf_inside fc = inside then m
      else if inside
      then m\<lparr> hm_stop := Some (position_transition hx StopAction came_home ob node), hm_start := None \<rparr>
      else m\<lparr> hm_start := Some (position_transition hx StartAction left_home ob node), hm_stop := None \<rparr>)"

definition located_fact :: "position_observation \<Rightarrow> bool \<Rightarrow> float64 \<Rightarrow> node_fact \<Rightarrow> node_fact" where
  "located_fact ob inside distance fc =
     fc\<lparr> nf_has_position := True, nf_inside := inside, nf_lat := ob_lat ob, nf_lon := ob_lon ob,
           nf_distance := distance,
           nf_transition := (if nf_has_position fc \<and> nf_inside fc \<noteq> inside then ob_at ob else nf_transition fc),
           nf_outside := (if inside then nf_outside fc else ob_at ob) \<rparr>"

definition consume_position :: "home_env \<Rightarrow> time \<Rightarrow> position_observation \<Rightarrow> home_module \<Rightarrow> home_module" where
  "consume_position hx wall ob m =
     (let u = hx_unicode hx; c = hm_config m; node = node_of u ob; key = to_lower u node;
          fc = (fact_of key m)\<lparr> nf_seen := ob_at ob \<rparr>;
          seen = (\<lambda>f st. m\<lparr> hm_event_at := Some (ob_at ob), hm_facts := (hm_facts m)(key \<mapsto> f), hm_node_state := st \<rparr>)
      in case sight hx wall ob m of
           Ignored \<Rightarrow> m
         | NoFix \<Rightarrow> set_gps wall ''missing'' ''waiting for tracked-node position updates'' node None (ob_at ob)
             (seen fc (''node '' @ node @ '' seen without position fix''))
         | BadCoordinates \<Rightarrow> set_gps wall ''invalid'' ''ignored invalid GPS coordinates from tracked node'' node None
             (ob_at ob) (seen fc (''node '' @ node @ '' reported invalid coordinates''))
         | TooOld \<Rightarrow> set_gps wall ''stale''
             (''position sample is stale (older than '' @ hx_seconds_text hx (stale_threshold c) @ '')'') node None wall
             (seen fc (''node '' @ node @ '' position stale''))
         | NearBoundary d \<Rightarrow> set_gps wall ''boundary_uncertain''
             (''position is near boundary ('' @ plus_minus @ hx_margin_text hx (boundary_margin hx (hc_radius c)) @ ''m uncertainty)'')
             node (Some d) (ob_at ob)
             (seen (fc\<lparr> nf_lat := ob_lat ob, nf_lon := ob_lon ob, nf_distance := d \<rparr>)
                (''node '' @ node @ '' near geofence boundary''))
         | Located inside d \<Rightarrow>
             set_gps wall ''valid'' ''tracked node position is valid for geofence decisions'' node (Some d) (ob_at ob)
               (note_transition hx ob node inside fc
                 (seen (located_fact ob inside d fc)
                   (''node '' @ node @ (if inside then '' is inside home geofence'' else '' is outside home geofence'')))))"

definition event_observation :: "time \<Rightarrow> home_event \<Rightarrow> position_observation option" where
  "event_observation wall v =
     map_option (\<lambda>p.
       \<lparr> ob_protocol = ''meshtastic'', ob_namespace = ''meshtastic_node_id'', ob_id = hp_source p, ob_device = [],
         ob_lat = (case hp_position p of None \<Rightarrow> 0 | Some q \<Rightarrow> fst q),
         ob_lon = (case hp_position p of None \<Rightarrow> 0 | Some q \<Rightarrow> snd q),
         ob_at = event_time wall v, ob_evidence = ''legacy_meshtastic'',
         ob_has_position = (hp_position p \<noteq> None) \<rparr>) (hv_packet v)"

definition consume_event :: "home_env \<Rightarrow> time \<Rightarrow> home_event \<Rightarrow> home_module \<Rightarrow> home_module" where
  "consume_event hx wall v m =
     (case event_observation wall v of None \<Rightarrow> m | Some ob \<Rightarrow> consume_position hx wall ob m)"

section \<open>The observation queues\<close>

definition overflow :: "home_env \<Rightarrow> home_io \<Rightarrow> home_world \<Rightarrow> home_world" where
  "overflow hx io w =
     mark_degraded hx io 0 ''event observation queue overflow'' ''manual action required after event queue overflow''
       (on_module (\<lambda>m. m\<lparr> hm_dropped := hm_dropped m + 1,
                           hm_error := ''home auto session observation queue is full'' \<rparr>) w)"

definition observe_event :: "home_env \<Rightarrow> home_io \<Rightarrow> home_event \<Rightarrow> home_world \<Rightarrow> home_world" where
  "observe_event hx io v w =
     (if length (hm_events (hw_module w)) < queue_depth
      then on_module (\<lambda>m. m\<lparr> hm_events := hm_events m @ [v] \<rparr>) w
      else overflow hx io w)"

definition observe_attested :: "home_env \<Rightarrow> home_io \<Rightarrow> position_observation \<Rightarrow> home_world \<Rightarrow> home_world" where
  "observe_attested hx io ob w =
     (let u = hx_unicode hx in
      if trim_space (ob_evidence ob) = [] \<or> observation_key u ob = [] then w
      else if same_fold u (trim_space (ob_protocol ob)) ''meshcore'' \<and> trim_space (ob_device ob) = [] then w
      else if length (hm_positions (hw_module w)) < queue_depth
      then on_module (\<lambda>m. m\<lparr> hm_positions := hm_positions m @ [ob] \<rparr>) w
      else overflow hx io w)"

section \<open>Configuration\<close>

definition apply_config :: "home_env \<Rightarrow> home_io \<Rightarrow> home_config \<Rightarrow> home_world \<Rightarrow> home_world \<times> string option" where
  "apply_config hx io c w =
     (let u = hx_unicode hx; n = normalize_config u c; h = hx_config_hash hx n in
      case validate_config u n of
        Some e \<Rightarrow> (w, Some e)
      | None \<Rightarrow>
          if h = hm_hash (hw_module w) then (w, None)
          else (publish_home hx io (on_module (\<lambda>m. m\<lparr> hm_config := n, hm_hash := h,
                  hm_tracked := map_of (rev (map (\<lambda>i. (to_lower u (trim_space i), i)) (hc_tracked n))),
                  hm_desired_enabled := hc_enabled n, hm_desired_mode := normalize_mode u (hc_mode n) \<rparr>) w), None))"

record config_apply_status =
  as_source :: string
  as_version :: string
  as_present :: bool
  as_fetched :: string
  as_applied :: string
  as_result :: string
  as_error :: string
  as_enabled :: bool
  as_mode :: string

definition set_apply_status :: "unicode \<Rightarrow> config_apply_status \<Rightarrow> home_module \<Rightarrow> home_module" where
  "set_apply_status u a m =
     (let src = trim_space (as_source a);
          src = (if src = ''cloud_managed'' \<or> src = ''local_fallback'' then src else ''local_fallback'');
          ver = (if trim_space (as_version a) = [] \<and> src = ''local_fallback'' then ''local-default''
                 else trim_space (as_version a))
      in m\<lparr> hm_config_source := src, hm_config_version := ver, hm_cloud_present := as_present a,
            hm_fetched := trim_space (as_fetched a), hm_applied := or_text (as_applied a) ver,
            hm_apply_result := or_text (as_result a) ''config_apply_unknown'',
            hm_apply_error := trim_space (as_error a), hm_desired_enabled := as_enabled a,
            hm_desired_mode := normalize_mode u
              (if trim_space (as_mode a) = [] then hc_mode (hm_config m) else trim_space (as_mode a)) \<rparr>)"

text \<open>The fields the code compares to tell whether the status changed.\<close>

definition apply_status_fields :: "home_module \<Rightarrow> string list \<times> bool \<times> bool" where
  "apply_status_fields m =
     ([hm_config_source m, hm_config_version m, hm_fetched m, hm_applied m, hm_apply_result m, hm_apply_error m,
       hm_desired_mode m], hm_cloud_present m, hm_desired_enabled m)"

definition set_config_apply_status ::
  "home_env \<Rightarrow> home_io \<Rightarrow> config_apply_status \<Rightarrow> home_world \<Rightarrow> home_world" where
  "set_config_apply_status hx io a w =
     (if apply_status_fields (set_apply_status (hx_unicode hx) a (hw_module w)) = apply_status_fields (hw_module w) then w
      else settle hx io 0 (set_apply_status (hx_unicode hx) a) w)"

definition reset_degraded :: "home_env \<Rightarrow> home_io \<Rightarrow> home_world \<Rightarrow> home_world" where
  "reset_degraded hx io w =
     on_module (\<lambda>m. m\<lparr> hm_reevaluate := True \<rparr>)
       (publish_home hx io (persist_home hx io 0 (on_module (\<lambda>m.
          m\<lparr> hm_error := [], hm_blocked := [], hm_cooldown := None, hm_stabilize := None, hm_stop := None,
             hm_start := None, hm_pending := None, hm_failures := 0, hm_retry_class := [],
             hm_summary := ''degraded state reset'',
             hm_state := (if hm_state m = ''degraded'' then ''control_ready'' else hm_state m),
             hm_control := (if module_off (hx_unicode hx) (hm_config m) then ''disabled'' else ''ready'') \<rparr>) w)))"

definition blank_module :: "home_env \<Rightarrow> home_config \<Rightarrow> home_module" where
  "blank_module hx c =
     \<lparr> hm_config = \<lparr> hc_enabled = False, hc_mode = [], hc_lat = 0, hc_lon = 0, hc_radius = 0, hc_tracked = [],
         hc_start_debounce = 0, hc_stop_debounce = 0, hc_idle_timeout = 0, hc_reconcile = False,
         hc_name_template = [], hc_notes_template = [], hc_start_endpoint = [], hc_stop_endpoint = [] \<rparr>,
       hm_hash = [], hm_tracked = Map.empty, hm_state = ''disabled'', hm_summary = ''module disabled'',
       hm_control = ''disabled'', hm_source = ''none'', hm_node_state = ''no tracked node data observed yet'',
       hm_reconciliation = ''clean_idle'', hm_blocked = [], hm_config_source = ''local_fallback'',
       hm_config_version = ''local-default'', hm_cloud_present = False, hm_fetched = [],
       hm_applied = ''local-default'', hm_apply_result = ''local_config_applied'', hm_apply_error = [],
       hm_desired_enabled = hc_enabled c, hm_desired_mode = normalize_mode (hx_unicode hx) (hc_mode c),
       hm_session = [], hm_trigger = [], hm_decision = [], hm_error = [], hm_start_dedupe = [], hm_stop_dedupe = [],
       hm_action = [], hm_result = [], hm_action_at = None, hm_good_action = [], hm_good_at = None,
       hm_event_at = None, hm_pending = None, hm_cooldown = None, hm_stabilize = None, hm_failures = 0,
       hm_retry_class = [], hm_dropped = 0, hm_gps_status = ''missing'',
       hm_gps_reason = ''waiting for tracked-node position updates'', hm_gps_node = [], hm_gps_at = None,
       hm_gps_distance = None, hm_start = None, hm_stop = None, hm_facts = Map.empty, hm_events = [],
       hm_positions = [], hm_reevaluate = False, hm_started = False, hm_fingerprint = [] \<rparr>"

definition new_home ::
  "home_env \<Rightarrow> home_io \<Rightarrow> home_config \<Rightarrow> state_store option \<Rightarrow> snapshot option \<Rightarrow> bool \<Rightarrow> home_world" where
  "new_home hx io c store st client =
     (let r = apply_config hx io c \<lparr> hw_module = blank_module hx c, hw_store = store, hw_status = st,
                hw_client = client, hw_calls = [] \<rparr>
      in case snd r of
           None \<Rightarrow> fst r
         | Some e \<Rightarrow> on_module (\<lambda>m. m\<lparr> hm_apply_error := e, hm_apply_result := ''local_config_invalid'' \<rparr>) (fst r))"

end
