(* ===== verification/HomeControl.thy ===== *)
theory HomeControl
  imports HomeModule
begin

text \<open>
  The decisions of the home auto session module: \<open>evaluateLocked\<close>, the start and stop calls with their
  fallback, what a failed call leads to, and the steps of the module. The texts of summaries and
  decisions are those of the code.
\<close>

section \<open>Failed calls\<close>

definition retry_jitter_key :: "home_action \<Rightarrow> home_module \<Rightarrow> string" where
  "retry_jitter_key a m =
     (case hm_pending m of
        Some p \<Rightarrow> if pn_action p = a \<and> trim_space (pn_dedupe p) \<noteq> [] then trim_space (pn_dedupe p)
                  else if a = StopAction \<and> trim_space (hm_session m) \<noteq> [] then trim_space (hm_session m)
                  else or_text (hm_trigger m) (action_text a)
      | None \<Rightarrow> if a = StopAction \<and> trim_space (hm_session m) \<noteq> [] then trim_space (hm_session m)
                else or_text (hm_trigger m) (action_text a))"

definition forget_candidates :: "home_module \<Rightarrow> home_module" where
  "forget_candidates m = m\<lparr> hm_pending := None, hm_start := None, hm_stop := None \<rparr>"

text \<open>The receiver is revoked, disabled or replaced.\<close>

definition lifecycle_blocked :: "string \<Rightarrow> home_module \<Rightarrow> home_module" where
  "lifecycle_blocked lifecycle m =
     (let m = (forget_candidates m)\<lparr> hm_retry_class := [], hm_result := ''rejected_'' @ lifecycle,
                hm_cooldown := None, hm_session := [], hm_trigger := [], hm_source := ''conflict_unresolved'',
                hm_control := ''lifecycle_blocked'' \<rparr>
      in if lifecycle = ''revoked''
         then degraded_module ''receiver credential revoked by cloud''
                ''home auto control blocked: receiver credential revoked''
                (m\<lparr> hm_reconciliation := ''lifecycle_revoked'' \<rparr>)
         else if lifecycle = ''disabled''
         then degraded_module ''receiver disabled by cloud'' ''home auto control blocked: receiver disabled''
                (m\<lparr> hm_reconciliation := ''lifecycle_disabled'' \<rparr>)
         else degraded_module ''receiver replaced by another install'' ''home auto control blocked: receiver replaced''
                (m\<lparr> hm_reconciliation := ''lifecycle_replaced'' \<rparr>))"

text \<open>The cloud knows an active session already; with its id, the module takes it over.\<close>

definition synced_session :: "string \<Rightarrow> home_module \<Rightarrow> home_module" where
  "synced_session session m =
     (let n1 = (case hm_start m of None \<Rightarrow> [] | Some c \<Rightarrow> trim_space (tc_node c));
          n2 = (case hm_pending m of
                  Some p \<Rightarrow> if n1 = [] \<and> pn_action p = StartAction then trim_space (pn_node p) else n1
                | None \<Rightarrow> n1);
          node = (if n2 = [] then trim_space (hm_trigger m) else n2)
      in (forget_candidates m)\<lparr> hm_retry_class := [], hm_result := ''already_active_synced'', hm_cooldown := None,
           hm_blocked := [], hm_error := [], hm_reconciliation := ''conflict_already_active'',
           hm_source := ''cloud_acknowledged'', hm_session := session,
           hm_trigger := (if node \<noteq> [] then node else hm_trigger m), hm_state := ''active'',
           hm_control := ''active'', hm_summary := ''cloud reports an active session; local state synchronized'',
           hm_decision := ''start conflict resolved by syncing active cloud session'' \<rparr>)"

definition active_conflict :: "home_module \<Rightarrow> home_module" where
  "active_conflict m =
     degraded_module ''cloud reports an active session already exists'' ''start blocked: cloud/local state disagreement''
       ((forget_candidates m)\<lparr> hm_retry_class := [], hm_result := ''already_active_conflict'',
          hm_reconciliation := ''conflict_already_active'', hm_source := ''conflict_unresolved'',
          hm_control := ''conflict_blocked'' \<rparr>)"

definition mismatch_conflict :: "home_module \<Rightarrow> home_module" where
  "mismatch_conflict m =
     degraded_module ''cloud rejected stop because local and cloud session state disagree''
       ''stop blocked: cloud/local state disagreement''
       ((forget_candidates m)\<lparr> hm_retry_class := [], hm_result := ''state_mismatch_conflict'',
          hm_reconciliation := ''conflict_state_mismatch'', hm_source := ''conflict_unresolved'',
          hm_control := ''conflict_blocked'' \<rparr>)"

text \<open>The conflict that drops the dedupe key: the fields of the next candidate, from the pending action, else the
  candidate, else what is known of the node.\<close>

definition pending_start :: "home_module \<Rightarrow> pending_action option" where
  "pending_start m = (case hm_pending m of
     Some p \<Rightarrow> if pn_action p = StartAction then Some p else None | None \<Rightarrow> None)"

definition start_field ::
  "(pending_action \<Rightarrow> string) \<Rightarrow> (transition \<Rightarrow> string) \<Rightarrow> home_module \<Rightarrow> string" where
  "start_field pf cf m =
     (let v = (case pending_start m of None \<Rightarrow> [] | Some p \<Rightarrow> trim_space (pf p)) in
      if v = [] then (case hm_start m of None \<Rightarrow> [] | Some c \<Rightarrow> trim_space (cf c)) else v)"

definition missing_id_reason :: "home_module \<Rightarrow> string" where
  "missing_id_reason m =
     (let r = (case pending_start m of None \<Rightarrow> left_home | Some p \<Rightarrow> or_text (pn_reason p) left_home)
      in case hm_start m of None \<Rightarrow> r | Some c \<Rightarrow> or_text (tc_reason c) r)"

definition missing_id_retry :: "home_env \<Rightarrow> time \<Rightarrow> home_module \<Rightarrow> home_module" where
  "missing_id_retry hx now m =
     (let n1 = start_field pn_node tc_node m;
          n2 = (if n1 = [] then trim_space (hm_trigger m) else n1);
          n3 = (if n2 = [] then trim_space (hm_gps_node m) else n2);
          node = (if n3 = [] then ''unknown'' else n3);
          delay = jitter_delay hx (retry_delay_for StartAction ''generic_retryable'' (hm_failures m)) StartAction
                    (hm_failures m) (node @ ''|'' @ start_field pn_dedupe tc_dedupe m);
          at_text = itoa (hm_failures m) @ '', next retry '' @ hx_rfc3339 hx (now + delay) @ '')''
      in m\<lparr> hm_pending := None,
            hm_start := Some \<lparr> tc_node = node, tc_device = start_field pn_device tc_device m, tc_at = now,
                              tc_reason = missing_id_reason m, tc_dedupe = [] \<rparr>,
            hm_stop := None, hm_cooldown := Some (now + delay), hm_blocked := [], hm_state := ''cooldown'',
            hm_control := ''conflict_blocked'', hm_source := ''conflict_unresolved'',
            hm_reconciliation := ''conflict_state_mismatch'',
            hm_retry_class := ''has_start_missing_session_id_conflict'',
            hm_result := ''retry_scheduled_missing_session_id_conflict'',
            hm_summary := ''start pending; cloud start conflict (attempt '' @ at_text,
            hm_decision := ''start retry scheduled after missing-sessionId conflict (attempt '' @ at_text \<rparr>)"

definition retry_after_failure :: "home_env \<Rightarrow> time \<Rightarrow> home_action \<Rightarrow> client_error \<Rightarrow> home_module \<Rightarrow> home_module" where
  "retry_after_failure hx now a err m =
     (let cls = classify_retryable (hx_unicode hx) err;
          delay = jitter_delay hx (retry_delay_for a cls (hm_failures m)) a (hm_failures m) (retry_jitter_key a m);
          eta = now + delay
      in m\<lparr> hm_cooldown := Some eta, hm_blocked := [], hm_state := ''cooldown'', hm_control := ''cooldown'',
            hm_retry_class := cls, hm_result := ''retry_scheduled'',
            hm_summary := (if a = StopAction \<and> cls = ''timeout_network''
                           then stop_retry_summary hx (hm_failures m) eta
                           else ''cloud/session API unavailable, retrying after cooldown''),
            hm_decision := (if a = StopAction \<and> cls = ''timeout_network''
                            then ''stop retry attempt '' @ itoa (hm_failures m) @ '' scheduled in ''
                                   @ hx_seconds_text hx delay @ '' (next retry '' @ hx_rfc3339 hx eta @ '')''
                            else action_text a @ '' action retry scheduled after '' @ hx_seconds_text hx delay) \<rparr>)"

definition failed_module :: "home_env \<Rightarrow> time \<Rightarrow> home_action \<Rightarrow> client_error \<Rightarrow> home_module \<Rightarrow> home_module" where
  "failed_module hx now a err m =
     (let u = hx_unicode hx;
          m = m\<lparr> hm_error := or_text (client_error_text err) ''cloud/session API error'', hm_action := action_text a,
                 hm_action_at := Some now, hm_failures := hm_failures m + 1 \<rparr>
      in case lifecycle_conflict u err of
           Some l \<Rightarrow> lifecycle_blocked l m
         | None \<Rightarrow>
             if a = StartAction \<and> start_already_active u err
             then (if error_session_id err \<noteq> [] then synced_session (error_session_id err) m else active_conflict m)
             else if a = StartAction \<and> start_missing_session_id u err then missing_id_retry hx now m
             else if a = StopAction \<and> stop_state_mismatch u err then mismatch_conflict m
             else if is_retryable err then retry_after_failure hx now a err m
             else degraded_module (blocked_reason_for u a err)
                    (action_text a @ '' action blocked by non-retryable cloud error'')
                    (m\<lparr> hm_retry_class := [], hm_result := ''failed_non_retryable'' \<rparr>))"

definition handle_cloud_error ::
  "home_env \<Rightarrow> home_io \<Rightarrow> time \<Rightarrow> home_action \<Rightarrow> client_error \<Rightarrow> home_world \<Rightarrow> home_world" where
  "handle_cloud_error hx io now a err = settle hx io 1 (failed_module hx now a err)"

section \<open>Calls\<close>

definition default_endpoint :: "home_action \<Rightarrow> string" where
  "default_endpoint a = (case a of StartAction \<Rightarrow> ''/api/receiver/home-auto-session/start''
                                 | StopAction \<Rightarrow> ''/api/receiver/home-auto-session/stop'')"

definition control_auth :: "home_config \<Rightarrow> home_action \<Rightarrow> home_world \<Rightarrow> (string \<times> string) option" where
  "control_auth c a w =
     (case hw_store w of
        None \<Rightarrow> None
      | Some s \<Rightarrow>
          let d = sv_data s; key = trim_space (cs_ingest_api_key (da_cloud d)) in
          if pg_phase (da_pairing d) \<noteq> phase_steady \<or> key = [] then None
          else Some (key, or_text (if a = StopAction then hc_stop_endpoint c else hc_start_endpoint c)
                            (default_endpoint a)))"

definition keyed_transition :: "home_env \<Rightarrow> home_action \<Rightarrow> transition \<Rightarrow> transition" where
  "keyed_transition hx a c =
     (if tc_dedupe c = [] then c\<lparr> tc_dedupe := dedupe_key hx (action_text a) (tc_node c) (tc_at c) (tc_reason c) \<rparr>
      else c)"

definition pending_of :: "home_action \<Rightarrow> transition \<Rightarrow> time \<Rightarrow> pending_action" where
  "pending_of a c now =
     \<lparr> pn_action = a, pn_node = trim_space (tc_node c), pn_device = trim_space (tc_device c),
       pn_reason = trim_space (tc_reason c), pn_dedupe = trim_space (tc_dedupe c),
       pn_since = (if is_zero (tc_at c) \<or> now < tc_at c then now else tc_at c) \<rparr>"

definition suppressed :: "home_action \<Rightarrow> time \<Rightarrow> home_module \<Rightarrow> home_module" where
  "suppressed a now m =
     (case a of StartAction \<Rightarrow> m\<lparr> hm_start := None \<rparr> | StopAction \<Rightarrow> m\<lparr> hm_stop := None \<rparr>)
       \<lparr> hm_pending := None, hm_action := action_text a, hm_action_at := Some now, hm_result := ''dedupe_suppressed'',
         hm_state := ''control_ready'', hm_control := ''ready'',
         hm_summary := ''duplicate '' @ action_text a @ '' decision suppressed'',
         hm_decision := action_text a @ '' dedupe key already executed'' \<rparr>"

definition deferred :: "home_action \<Rightarrow> time \<Rightarrow> home_module \<Rightarrow> home_module" where
  "deferred a now m =
     m\<lparr> hm_action := action_text a, hm_action_at := Some now, hm_result := ''deferred_not_paired'',
        hm_state := ''control_ready'', hm_control := ''ready'',
        hm_summary := ''waiting for paired receiver credentials before control actions'',
        hm_decision := ''control action deferred: receiver not fully paired'' \<rparr>"

definition client_missing :: "home_action \<Rightarrow> time \<Rightarrow> home_module \<Rightarrow> home_module" where
  "client_missing a now m =
     degraded_module ''cloud session client is unavailable'' ''manual action required to recover control mode''
       (m\<lparr> hm_action := action_text a, hm_action_at := Some now, hm_result := ''failed_client_unavailable'',
           hm_error := ''home auto session cloud client is unavailable'' \<rparr>)"

definition attempting :: "home_action \<Rightarrow> transition \<Rightarrow> time \<Rightarrow> home_module \<Rightarrow> home_module" where
  "attempting a c now m =
     m\<lparr> hm_action := action_text a, hm_action_at := Some now, hm_result := ''attempting'',
        hm_pending := Some (pending_of a c now),
        hm_state := (case a of StartAction \<Rightarrow> ''start_pending'' | StopAction \<Rightarrow> ''stop_pending''),
        hm_control := (case a of StartAction \<Rightarrow> ''pending_start'' | StopAction \<Rightarrow> ''pending_stop''),
        hm_summary := ''executing '' @ action_text a @ '' request'',
        hm_decision := (case a of StartAction \<Rightarrow> ''starting session for node ''
                                | StopAction \<Rightarrow> ''stopping session for node '') @ tc_node c \<rparr>"

definition start_request_of :: "home_env \<Rightarrow> home_config \<Rightarrow> transition \<Rightarrow> time \<Rightarrow> start_request" where
  "start_request_of hx c k now =
     \<lparr> ss_device = tc_device k, ss_trigger = tc_node k, ss_dedupe = tc_dedupe k, ss_reason = tc_reason k,
       ss_name = render_template (hc_name_template c) (tc_node k),
       ss_notes = render_template (hc_notes_template c) (tc_node k), ss_started = hx_rfc3339 hx now,
       ss_home = hx_home_json hx (hc_lat c) (hc_lon c) (hc_radius c) \<rparr>"

definition started :: "unicode \<Rightarrow> transition \<Rightarrow> time \<Rightarrow> session_result \<Rightarrow> home_module \<Rightarrow> home_module" where
  "started u k now r m =
     (forget_candidates m)\<lparr> hm_error := [], hm_blocked := [], hm_cooldown := None, hm_failures := 0,
        hm_retry_class := [], hm_start_dedupe := tc_dedupe k, hm_session := trim_space (so_session r),
        hm_trigger := tc_node k, hm_source := ''cloud_acknowledged'',
        hm_reconciliation := (if contains_text (to_lower u (trim_space (hm_reconciliation m))) ''conflict''
                              then ''clean_idle'' else hm_reconciliation m),
        hm_result := ''started'', hm_good_action := ''start'',
        hm_good_at := Some (if is_zero (so_at r) then now else so_at r),
        hm_stabilize := Some (now + stabilize_time (hm_config m)), hm_state := ''active'', hm_control := ''active'',
        hm_summary := ''home auto session started'',
        hm_decision := ''session start executed via trigger '' @ tc_node k \<rparr>"

definition attempt_start :: "home_env \<Rightarrow> home_io \<Rightarrow> time \<Rightarrow> transition \<Rightarrow> home_world \<Rightarrow> home_world" where
  "attempt_start hx io now candidate w =
     (let c = hm_config (hw_module w); k = keyed_transition hx StartAction candidate in
      if trim_space (tc_dedupe k) = trim_space (hm_start_dedupe (hw_module w))
      then settle hx io 0 (suppressed StartAction now) w
      else case control_auth c StartAction w of
        None \<Rightarrow> settle hx io 0 (deferred StartAction now) w
      | Some (key, endpoint) \<Rightarrow>
          if \<not> hw_client w then settle hx io 0 (client_missing StartAction now) w
          else
            let w = settle hx io 0 (attempting StartAction k now) w;
                q = start_request_of hx c k now;
                w = w\<lparr> hw_calls := CallStart now endpoint key q (hw_module w) (hw_store w) # hw_calls w \<rparr>
            in (case hi_start io q of
                  Inl err \<Rightarrow> handle_cloud_error hx io now StartAction err w
                | Inr r \<Rightarrow> settle hx io 1 (started (hx_unicode hx) k now r) w))"

definition stopped :: "unicode \<Rightarrow> transition \<Rightarrow> time \<Rightarrow> session_result \<Rightarrow> home_module \<Rightarrow> home_module" where
  "stopped u k now r m =
     (forget_candidates m)\<lparr> hm_error := [], hm_blocked := [], hm_cooldown := None, hm_failures := 0,
        hm_retry_class := [], hm_stop_dedupe := tc_dedupe k, hm_session := [], hm_trigger := [],
        hm_source := ''none'', hm_action := ''stop'', hm_action_at := Some now,
        hm_result := (if to_lower u (trim_space (so_result r)) \<in> {''already_stopped'', ''already_closed''}
                      then ''already_closed_resolved'' else ''stopped''),
        hm_good_action := ''stop'', hm_good_at := Some (if is_zero (so_at r) then now else so_at r),
        hm_stabilize := Some (now + stabilize_time (hm_config m)), hm_state := ''control_ready'',
        hm_control := ''ready'', hm_summary := ''home auto session stopped'',
        hm_decision := ''session stop executed'' \<rparr>"

definition already_stopped :: "string \<Rightarrow> time \<Rightarrow> session_result" where
  "already_stopped session now =
     \<lparr> so_session = session, so_at = now, so_result = ''already_stopped'', so_status = 0, so_request = [] \<rparr>"

text \<open>The outcome of the stop call and, where the code falls back to it, of the one without a session id.\<close>

definition stop_request_of :: "home_env \<Rightarrow> string \<Rightarrow> transition \<Rightarrow> time \<Rightarrow> stop_request" where
  "stop_request_of hx session k now =
     \<lparr> sp_session = session, sp_trigger = tc_node k, sp_dedupe = tc_dedupe k, sp_reason = tc_reason k,
       sp_stopped = hx_rfc3339 hx now \<rparr>"

definition wants_fallback :: "unicode \<Rightarrow> stop_request \<Rightarrow> client_error \<Rightarrow> bool" where
  "wants_fallback u q err \<longleftrightarrow>
     \<not> stop_already_resolved u err \<and> trim_space (sp_session q) \<noteq> [] \<and> fallback_without_session u err"

definition finish_stop_call ::
  "home_env \<Rightarrow> home_io \<Rightarrow> time \<Rightarrow> transition \<Rightarrow> client_error + session_result \<Rightarrow> home_world \<Rightarrow> home_world" where
  "finish_stop_call hx io now k r w =
     (let u = hx_unicode hx; session = hm_session (hw_module w) in
      case r of
        Inr v \<Rightarrow> settle hx io 1 (stopped u k now v) w
      | Inl err \<Rightarrow>
          if stop_already_resolved u err then settle hx io 1 (stopped u k now (already_stopped session now)) w
          else handle_cloud_error hx io now StopAction err w)"

definition attempt_stop :: "home_env \<Rightarrow> home_io \<Rightarrow> time \<Rightarrow> transition \<Rightarrow> home_world \<Rightarrow> home_world" where
  "attempt_stop hx io now candidate w =
     (let c = hm_config (hw_module w); k = keyed_transition hx StopAction candidate in
      if trim_space (tc_dedupe k) = trim_space (hm_stop_dedupe (hw_module w))
      then settle hx io 0 (suppressed StopAction now) w
      else case control_auth c StopAction w of
        None \<Rightarrow> settle hx io 0 (deferred StopAction now) w
      | Some (key, endpoint) \<Rightarrow>
          if \<not> hw_client w then settle hx io 0 (client_missing StopAction now) w
          else
            let w = settle hx io 0 (attempting StopAction k now) w;
                q = stop_request_of hx (hm_session (hw_module w)) k now;
                w = w\<lparr> hw_calls := CallStop now endpoint key q (hw_module w) (hw_store w) # hw_calls w \<rparr>
            in (case hi_stop io 0 q of
                  Inr r \<Rightarrow> finish_stop_call hx io now k (Inr r) w
                | Inl err \<Rightarrow>
                    if wants_fallback (hx_unicode hx) q err
                    then let q = q\<lparr> sp_session := [] \<rparr>;
                             w = w\<lparr> hw_calls := CallStop now endpoint key q (hw_module w) (hw_store w) # hw_calls w \<rparr>
                         in finish_stop_call hx io now k (hi_stop io 1 q) w
                    else finish_stop_call hx io now k (Inl err) w))"

section \<open>Evaluation\<close>

definition promote_pending :: "home_module \<Rightarrow> home_module" where
  "promote_pending m =
     (case hm_pending m of
        None \<Rightarrow> m
      | Some p \<Rightarrow>
          (case pn_action p of
             StartAction \<Rightarrow> m\<lparr> hm_start := Some (pending_transition p), hm_stop := None \<rparr>
           | StopAction \<Rightarrow> m\<lparr> hm_stop := Some (pending_transition p), hm_start := None \<rparr>))"

definition should_stop_by_idle :: "unicode \<Rightarrow> time \<Rightarrow> home_module \<Rightarrow> bool" where
  "should_stop_by_idle u now m =
     (let timeout = hc_idle_timeout (hm_config m) in
      if hm_trigger m = [] \<or> timeout \<le> 0 then False
      else case hm_facts m (to_lower u (trim_space (hm_trigger m))) of
        None \<Rightarrow> False
      | Some f \<Rightarrow> nf_has_position f \<and> nf_inside f \<and> \<not> is_zero (nf_seen f) \<and> timeout \<le> time_sub now (nf_seen f))"

definition bypasses_cooldown :: "unicode \<Rightarrow> time \<Rightarrow> string \<Rightarrow> home_module \<Rightarrow> bool" where
  "bypasses_cooldown u now trigger m =
     (case (hm_pending m, hm_action_at m) of
        (Some p, Some last_at) \<Rightarrow>
          trigger = ''event'' \<and> pn_action p = StopAction \<and> hm_result m = ''retry_scheduled''
          \<and> hm_retry_class m = ''timeout_network'' \<and> stop_retry_bypass_min \<le> time_sub now last_at
          \<and> (let node = (if trim_space (hm_trigger m) = [] then trim_space (pn_node p) else trim_space (hm_trigger m))
             in node \<noteq> [] \<and>
                (case hm_facts m (to_lower u node) of
                   None \<Rightarrow> False
                 | Some f \<Rightarrow> nf_has_position f \<and> nf_inside f \<and> \<not> is_zero (nf_seen f) \<and> last_at < nf_seen f
                             \<and> time_sub now (nf_seen f) \<le> stop_retry_fresh_inside_max))
      | _ \<Rightarrow> False)"

definition waits :: "time \<Rightarrow> time option \<Rightarrow> bool" where
  "waits now until = (case until of None \<Rightarrow> False | Some t \<Rightarrow> now < t)"

definition cooling_module :: "home_env \<Rightarrow> home_module \<Rightarrow> home_module" where
  "cooling_module hx m =
     (let eta = (case hm_cooldown m of None \<Rightarrow> zero_time | Some t \<Rightarrow> t);
          at_text = itoa (hm_failures m) @ '', next retry '' @ hx_rfc3339 hx eta @ '')'';
          m = m\<lparr> hm_state := ''cooldown'', hm_control := ''cooldown'' \<rparr>
      in if hm_retry_class m = ''has_start_missing_session_id_conflict''
         then m\<lparr> hm_control := ''conflict_blocked'',
                 hm_summary := ''start pending; cloud start conflict (attempt '' @ at_text,
                 hm_decision := ''waiting for start retry after missing-sessionId conflict (attempt '' @ at_text \<rparr>
         else if (case hm_pending m of None \<Rightarrow> False | Some p \<Rightarrow> pn_action p = StopAction)
                 \<and> hm_result m = ''retry_scheduled'' \<and> hm_retry_class m = ''timeout_network''
         then m\<lparr> hm_summary := stop_retry_summary hx (hm_failures m) eta,
                 hm_decision := ''waiting for stop retry cooldown (attempt '' @ at_text \<rparr>
         else m\<lparr> hm_summary := ''cooldown after prior cloud/session error'',
                 hm_decision := ''waiting for cooldown window before retry'' \<rparr>)"

definition idle_transition :: "time \<Rightarrow> home_module \<Rightarrow> transition" where
  "idle_transition now m =
     (let n1 = (if trim_space (hm_trigger m) = [] then hm_gps_node m else hm_trigger m)
      in \<lparr> tc_node = (if trim_space n1 = [] then ''unknown'' else n1), tc_device = [], tc_at = now,
           tc_reason = ''idle stop timeout elapsed without tracked-node updates'', tc_dedupe = [] \<rparr>)"

definition note_idle_stop :: "unicode \<Rightarrow> time \<Rightarrow> home_module \<Rightarrow> home_module" where
  "note_idle_stop u now m =
     (if hm_stop m = None \<and> should_stop_by_idle u now m then m\<lparr> hm_stop := Some (idle_transition now m) \<rparr> else m)"

definition evaluate_active :: "home_env \<Rightarrow> home_io \<Rightarrow> time \<Rightarrow> home_world \<Rightarrow> home_world" where
  "evaluate_active hx io now w =
     (let u = hx_unicode hx; c = hm_config (hw_module w); w = on_module (note_idle_stop u now) w in
      case hm_stop (hw_module w) of
        Some k \<Rightarrow>
          if time_sub now (tc_at k) < hc_stop_debounce c
          then settle hx io 0 (\<lambda>m. m\<lparr> hm_state := ''stop_pending'', hm_control := ''pending_stop'',
                 hm_summary := ''waiting for stop debounce window'',
                 hm_decision := ''stop candidate pending for node '' @ tc_node k \<rparr>) w
          else if normalize_mode u (hc_mode c) = ''observe''
          then settle hx io 0 (\<lambda>m. m\<lparr> hm_state := ''active'', hm_control := ''active'',
                 hm_summary := ''would stop active session now, but observe mode is enabled'',
                 hm_decision := ''observe mode: stop call suppressed'' \<rparr>) w
          else attempt_stop hx io now k w
      | None \<Rightarrow>
          settle hx io 0 (\<lambda>m. m\<lparr> hm_state := ''active'', hm_control := ''active'',
            hm_source := (if trim_space (hm_source m) = [] \<or> hm_source m = ''none'' then ''local_recovered_unverified''
                          else hm_source m),
            hm_summary := ''home auto session is active'' \<rparr>) w)"

definition evaluate_idle :: "home_env \<Rightarrow> home_io \<Rightarrow> time \<Rightarrow> home_world \<Rightarrow> home_world" where
  "evaluate_idle hx io now w =
     (let u = hx_unicode hx; c = hm_config (hw_module w) in
      case hm_start (hw_module w) of
        Some k \<Rightarrow>
          if time_sub now (tc_at k) < hc_start_debounce c
          then settle hx io 0 (\<lambda>m. m\<lparr> hm_state := ''start_pending'', hm_control := ''pending_start'',
                 hm_summary := ''waiting for start debounce window'',
                 hm_decision := ''start candidate pending for node '' @ tc_node k \<rparr>) w
          else if normalize_mode u (hc_mode c) = ''observe''
          then settle hx io 0 (\<lambda>m. m\<lparr> hm_state := ''observe_ready'', hm_control := ''ready'',
                 hm_summary := ''would start session now, but observe mode is enabled'',
                 hm_decision := ''observe mode: start call suppressed'' \<rparr>) w
          else attempt_start hx io now k w
      | None \<Rightarrow>
          settle hx io 0 (\<lambda>m. m\<lparr>
            hm_state := (if normalize_mode u (hc_mode c) = ''control'' then ''control_ready'' else ''observe_ready''),
            hm_control := ''ready'', hm_source := ''none'',
            hm_summary := ready_summary (hm_gps_status m) (hm_gps_reason m) ''waiting for tracked-node geofence transition'',
            hm_decision := (if normalize_mode u (hc_mode c) = ''control'' then ''control mode ready''
                            else ''observe mode ready'') \<rparr>) w)"

definition evaluate_ready :: "home_env \<Rightarrow> home_io \<Rightarrow> time \<Rightarrow> home_world \<Rightarrow> home_world" where
  "evaluate_ready hx io now w =
     (if waits now (hm_stabilize (hw_module w))
      then settle hx io 0 (\<lambda>m. m\<lparr> hm_state := ''cooldown'', hm_control := ''cooldown'',
             hm_summary := ''stabilization cooldown after prior home-auto action'',
             hm_decision := ''waiting for geofence stabilization window'' \<rparr>) w
      else
        let w = on_module promote_pending w in
        if hm_session (hw_module w) \<noteq> [] then evaluate_active hx io now w else evaluate_idle hx io now w)"

definition is_blocked :: "home_module \<Rightarrow> bool" where
  "is_blocked m \<longleftrightarrow> hm_state m = ''degraded'' \<and> trim_space (hm_blocked m) \<noteq> []"

definition evaluate :: "home_env \<Rightarrow> home_io \<Rightarrow> time \<Rightarrow> string \<Rightarrow> home_world \<Rightarrow> home_world" where
  "evaluate hx io now trigger w =
     (let u = hx_unicode hx; m = hw_module w in
      if module_off u (hm_config m)
      then settle hx io 0 (\<lambda>m. m\<lparr> hm_state := ''disabled'', hm_control := ''disabled'', hm_source := ''none'',
             hm_summary := ''home auto session is disabled'', hm_decision := ''module disabled'' \<rparr>) w
      else case validate_config u (hm_config m) of
        Some e \<Rightarrow> settle hx io 0 (\<lambda>m. m\<lparr> hm_state := ''misconfigured'', hm_control := ''misconfigured'',
             hm_source := ''none'', hm_summary := e, hm_decision := ''configuration invalid'' \<rparr>) w
      | None \<Rightarrow>
          if is_blocked m
          then settle hx io 0 (\<lambda>m. m\<lparr> hm_summary := ''home auto session is degraded'',
                 hm_decision := (if hm_decision m = [] then ''manual action required to recover control mode''
                                 else hm_decision m),
                 hm_control := (if hm_control m = [] then ''degraded'' else hm_control m) \<rparr>) w
          else if waits now (hm_cooldown m)
          then (if bypasses_cooldown u now trigger m
                then evaluate_ready hx io now (on_module (\<lambda>m. m\<lparr> hm_cooldown := None,
                       hm_decision := ''fresh inside-geofence update received; retrying stop during cooldown'' \<rparr>) w)
                else settle hx io 0 (cooling_module hx) w)
          else evaluate_ready hx io now w)"

section \<open>Steps\<close>

text \<open>The cases of the goroutine's select, and the calls of the others.\<close>

datatype home_step =
  HomeStart
| HomeTick string
| HomeTakeEvent
| HomeTakePosition
| HomeTakeReevaluate
| HomeObserve home_event
| HomeAttest position_observation
| HomeConfigure home_config
| HomeApplyStatus config_apply_status
| HomeReset
| HomeReevaluate

fun home_do :: "home_env \<Rightarrow> home_io \<Rightarrow> home_step \<Rightarrow> home_world \<Rightarrow> home_world" where
  "home_do hx io HomeStart w = start_home hx io w"
| "home_do hx io (HomeTick trigger) w = evaluate hx io (hi_wall io) trigger w"
| "home_do hx io HomeTakeEvent w =
     (case hm_events (hw_module w) of
        [] \<Rightarrow> w
      | v # vs \<Rightarrow> evaluate hx io (event_time (hi_wall io) v) ''event''
                    (on_module (\<lambda>m. consume_event hx (hi_wall io) v (m\<lparr> hm_events := vs \<rparr>)) w))"
| "home_do hx io HomeTakePosition w =
     (case hm_positions (hw_module w) of
        [] \<Rightarrow> w
      | ob # obs \<Rightarrow> evaluate hx io (ob_at ob) ''attested_position''
                     (on_module (\<lambda>m. consume_position hx (hi_wall io) ob (m\<lparr> hm_positions := obs \<rparr>)) w))"
| "home_do hx io HomeTakeReevaluate w =
     (if hm_reevaluate (hw_module w)
      then evaluate hx io (hi_wall io) ''reevaluate'' (on_module (\<lambda>m. m\<lparr> hm_reevaluate := False \<rparr>) w) else w)"
| "home_do hx io (HomeObserve v) w = observe_event hx io v w"
| "home_do hx io (HomeAttest ob) w = observe_attested hx io ob w"
| "home_do hx io (HomeConfigure c) w = fst (apply_config hx io c w)"
| "home_do hx io (HomeApplyStatus a) w = set_config_apply_status hx io a w"
| "home_do hx io HomeReset w = reset_degraded hx io w"
| "home_do hx io HomeReevaluate w = on_module (\<lambda>m. m\<lparr> hm_reevaluate := True \<rparr>) w"

type_synonym home_history = "(home_io \<times> home_step) list"

fun run_home :: "home_env \<Rightarrow> home_history \<Rightarrow> home_world \<Rightarrow> home_world" where
  "run_home hx [] w = w"
| "run_home hx ((io, s) # ss) w = run_home hx ss (home_do hx io s w)"

end
