(* ===== verification/HomeGuards.thy ===== *)
theory HomeGuards
  imports HomeControl
begin

text \<open>
  When the home auto session module calls the cloud: every call of every step satisfies the guards of
  the code, stated on the module as it was when the call was made.
\<close>

section \<open>What settling keeps\<close>

lemma persist_keeps [simp]:
  "hw_calls (persist_home hx io n w) = hw_calls w" "hw_client (persist_home hx io n w) = hw_client w"
  by (auto simp: persist_home_def Let_def split: option.splits prod.splits sum.splits)

lemma publish_keeps [simp]:
  "hw_calls (publish_home hx io w) = hw_calls w" "hw_client (publish_home hx io w) = hw_client w"
  "hw_module (publish_home hx io w) = hw_module w" "hw_store (publish_home hx io w) = hw_store w"
  by (auto simp: publish_home_def Let_def split: option.splits)

text \<open>Persisting changes only the fingerprint of the module.\<close>

definition fingerprinted :: "home_module \<Rightarrow> home_module \<Rightarrow> bool" where
  "fingerprinted m m' \<longleftrightarrow> (\<exists>f. m' = m\<lparr> hm_fingerprint := f \<rparr>)"

lemma fingerprinted_refl: "fingerprinted m m"
  unfolding fingerprinted_def by (rule exI [of _ "hm_fingerprint m"]) simp

lemma fingerprinted_update: "fingerprinted m (m\<lparr> hm_fingerprint := f \<rparr>)"
  unfolding fingerprinted_def by blast

lemma persist_module: "fingerprinted (hw_module w) (hw_module (persist_home hx io n w))"
  by (simp add: persist_home_def Let_def fingerprinted_refl fingerprinted_update split: option.split prod.split sum.split)

lemma settle_keeps [simp]:
  "hw_calls (settle hx io n f w) = hw_calls w" "hw_client (settle hx io n f w) = hw_client w"
  by (simp_all add: settle_def)

lemma settle_module: "fingerprinted (f (hw_module w)) (hw_module (settle hx io n f w))"
  using persist_module [of "publish_home hx io (on_module f w)" hx io n] by (simp add: settle_def)

text \<open>A predicate on modules that does not look at the fingerprint.\<close>

lemma fingerprinted_simps:
  assumes "fingerprinted m m'"
  shows "hm_config m' = hm_config m" "hm_session m' = hm_session m" "hm_state m' = hm_state m"
    "hm_control m' = hm_control m" "hm_blocked m' = hm_blocked m" "hm_cooldown m' = hm_cooldown m"
    "hm_stabilize m' = hm_stabilize m" "hm_pending m' = hm_pending m" "hm_start m' = hm_start m"
    "hm_stop m' = hm_stop m" "hm_start_dedupe m' = hm_start_dedupe m" "hm_stop_dedupe m' = hm_stop_dedupe m"
    "hm_facts m' = hm_facts m" "hm_started m' = hm_started m" "hm_action_at m' = hm_action_at m"
    "hm_result m' = hm_result m" "hm_retry_class m' = hm_retry_class m" "hm_trigger m' = hm_trigger m"
    "hm_tracked m' = hm_tracked m" "hm_failures m' = hm_failures m" "hm_events m' = hm_events m"
    "hm_positions m' = hm_positions m" "hm_reevaluate m' = hm_reevaluate m" "hm_gps_node m' = hm_gps_node m"
  using assms by (auto simp: fingerprinted_def)

lemmas settle_simps [simp] = fingerprinted_simps [OF settle_module]
lemmas persist_simps [simp] = fingerprinted_simps [OF persist_module]

section \<open>When calls are made\<close>

definition paired_with :: "string \<Rightarrow> state_store option \<Rightarrow> bool" where
  "paired_with key st \<longleftrightarrow>
     (\<exists>s. st = Some s \<and> pg_phase (da_pairing (sv_data s)) = phase_steady
          \<and> key = trim_space (cs_ingest_api_key (da_cloud (sv_data s))) \<and> key \<noteq> [])"

definition may_control :: "unicode \<Rightarrow> time \<Rightarrow> home_module \<Rightarrow> bool" where
  "may_control u now m \<longleftrightarrow>
     hc_enabled (hm_config m) \<and> normalize_mode u (hc_mode (hm_config m)) = ''control''
     \<and> validate_config u (hm_config m) = None \<and> \<not> waits now (hm_stabilize m)"

definition due :: "time \<Rightarrow> duration \<Rightarrow> transition \<Rightarrow> bool" where
  "due now debounce k \<longleftrightarrow> debounce \<le> time_sub now (tc_at k)"

text \<open>What holds of a call, the module being as it was when the call was made.\<close>

fun call_ok :: "home_env \<Rightarrow> home_call \<Rightarrow> bool" where
  "call_ok hx (CallStart now endpoint key q m st) \<longleftrightarrow>
     may_control (hx_unicode hx) now m \<and> \<not> waits now (hm_cooldown m) \<and> hm_session m = []
     \<and> hm_state m = ''start_pending'' \<and> hm_control m = ''pending_start''
     \<and> trim_space (ss_dedupe q) \<noteq> trim_space (hm_start_dedupe m)
     \<and> (\<exists>k. hm_start m = Some k \<and> due now (hc_start_debounce (hm_config m)) k
            \<and> q = start_request_of hx (hm_config m) (keyed_transition hx StartAction k) now
            \<and> hm_pending m = Some (pending_of StartAction (keyed_transition hx StartAction k) now))"
| "call_ok hx (CallStop now endpoint key q m st) \<longleftrightarrow>
     may_control (hx_unicode hx) now m \<and> \<not> waits now (hm_cooldown m) \<and> hm_session m \<noteq> []
     \<and> hm_state m = ''stop_pending'' \<and> hm_control m = ''pending_stop''
     \<and> sp_session q \<in> {hm_session m, []} \<and> trim_space (sp_dedupe q) \<noteq> trim_space (hm_stop_dedupe m)
     \<and> (\<exists>k. hm_stop m = Some k \<and> due now (hc_stop_debounce (hm_config m)) k
            \<and> q = stop_request_of hx (sp_session q) (keyed_transition hx StopAction k) now
            \<and> hm_pending m = Some (pending_of StopAction (keyed_transition hx StopAction k) now))"

fun call_key :: "home_call \<Rightarrow> string" where
  "call_key (CallStart now endpoint key q m st) = key"
| "call_key (CallStop now endpoint key q m st) = key"

fun call_time :: "home_call \<Rightarrow> time" where
  "call_time (CallStart now endpoint key q m st) = now"
| "call_time (CallStop now endpoint key q m st) = now"

fun call_module :: "home_call \<Rightarrow> home_module" where
  "call_module (CallStart now endpoint key q m st) = m"
| "call_module (CallStop now endpoint key q m st) = m"

fun call_store :: "home_call \<Rightarrow> state_store option" where
  "call_store (CallStart now endpoint key q m st) = st"
| "call_store (CallStop now endpoint key q m st) = st"

fun is_start_call :: "home_call \<Rightarrow> bool" where
  "is_start_call (CallStart now endpoint key q m st) = True"
| "is_start_call (CallStop now endpoint key q m st) = False"

text \<open>The record a store holds, apart from the two times a write adds.\<close>

definition untimed :: "home_auto \<Rightarrow> home_auto" where
  "untimed v = v\<lparr> ha_last_decision_at := None, ha_updated_at := zero_time \<rparr>"

lemma untimed_persisted [simp]: "untimed (persisted_state hx m) = persisted_state hx m"
  by (simp add: untimed_def persisted_state_def Let_def)

text \<open>A write that succeeds leaves the module's record in the store.\<close>

lemma persist_saves:
  assumes "hw_store w = Some s"
    "is_ok (fst (update_store (hx_state hx) (hi_write io n) (\<lambda>d. d\<lparr> da_home_auto_session :=
        (persisted_state hx (hw_module w))\<lparr> ha_last_decision_at := Some (hi_wall io),
          ha_updated_at := (if is_zero (hi_wall io) then zero_time else hi_wall io) \<rparr> \<rparr>) s))"
    "hx_fingerprint hx (persisted_state hx (hw_module w)) \<noteq> hm_fingerprint (hw_module w)"
  shows "\<exists>s'. hw_store (persist_home hx io n w) = Some s'
    \<and> untimed (da_home_auto_session (sv_data s')) = persisted_state hx (hw_module w)"
proof -
  let ?next = "(persisted_state hx (hw_module w))\<lparr> ha_last_decision_at := Some (hi_wall io),
      ha_updated_at := (if is_zero (hi_wall io) then zero_time else hi_wall io) \<rparr>"
  obtain s' where u: "update_store (hx_state hx) (hi_write io n) (\<lambda>d. d\<lparr> da_home_auto_session := ?next \<rparr>) s = (Inr (), s')"
    using assms(2) by (cases "update_store (hx_state hx) (hi_write io n) (\<lambda>d. d\<lparr> da_home_auto_session := ?next \<rparr>) s")
      (auto simp: is_ok_def split: sum.splits)
  have "da_home_auto_session (sv_data s') = ?next"
    using u by (auto simp: update_store_def commit_state_def stamp_def normalize_generations_def Let_def
        split: sum.splits prod.splits)
  then have "untimed (da_home_auto_session (sv_data s')) = persisted_state hx (hw_module w)"
    using untimed_persisted [of hx "hw_module w"] by (simp add: untimed_def)
  moreover have "hw_store (persist_home hx io n w) = Some s'"
    using assms(1,3) u by (simp add: persist_home_def Let_def)
  ultimately show ?thesis by blast
qed

text \<open>The state file during the call: it holds the record of the module that makes the call, unless the write
  before the call failed or was left out as nothing had changed.\<close>

definition recorded :: "home_env \<Rightarrow> home_io \<Rightarrow> home_world \<Rightarrow> home_call \<Rightarrow> bool" where
  "recorded hx io w c \<longleftrightarrow> (case hw_store w of None \<Rightarrow> True | Some s \<Rightarrow>
     let v = persisted_state hx (call_module c) in
     \<not> is_ok (fst (update_store (hx_state hx) (hi_write io 0) (\<lambda>d. d\<lparr> da_home_auto_session :=
         v\<lparr> ha_last_decision_at := Some (hi_wall io),
            ha_updated_at := (if is_zero (hi_wall io) then zero_time else hi_wall io) \<rparr> \<rparr>) s))
     \<or> hx_fingerprint hx v = hm_fingerprint (hw_module w)
     \<or> (\<exists>s'. call_store c = Some s' \<and> untimed (da_home_auto_session (sv_data s')) = v))"

lemma persisted_fingerprinted: "fingerprinted m m' \<Longrightarrow> persisted_state hx m' = persisted_state hx m"
  by (auto simp: fingerprinted_def persisted_state_def Let_def)

lemma recorded_settle:
  assumes "hm_fingerprint (f (hw_module w)) = hm_fingerprint (hw_module w)"
    "call_module c = hw_module (settle hx io 0 f w)" "call_store c = hw_store (settle hx io 0 f w)"
  shows "recorded hx io w c"
proof -
  have v: "persisted_state hx (call_module c) = persisted_state hx (f (hw_module w))"
    unfolding assms(2) by (rule persisted_fingerprinted [OF settle_module])
  let ?fields = "\<lambda>d. d\<lparr> da_home_auto_session := (persisted_state hx (f (hw_module w)))\<lparr> ha_last_decision_at :=
      Some (hi_wall io), ha_updated_at := (if is_zero (hi_wall io) then zero_time else hi_wall io) \<rparr> \<rparr>"
  have "\<exists>s'. call_store c = Some s' \<and> untimed (da_home_auto_session (sv_data s')) = persisted_state hx (f (hw_module w))"
    if "hw_store w = Some s" "is_ok (fst (update_store (hx_state hx) (hi_write io 0) ?fields s))"
      "hx_fingerprint hx (persisted_state hx (f (hw_module w))) \<noteq> hm_fingerprint (hw_module w)" for s
    using persist_saves [of "publish_home hx io (on_module f w)" s hx io 0] that assms(1,3) by (simp add: settle_def)
  note stored = this
  show ?thesis
  proof (cases "hw_store w")
    case (Some s)
    show ?thesis unfolding recorded_def v Some option.case Let_def using stored [OF Some] by meson
  qed (simp add: recorded_def)
qed

definition calls_added :: "home_env \<Rightarrow> home_io \<Rightarrow> home_world \<Rightarrow> home_world \<Rightarrow> bool" where
  "calls_added hx io w w' \<longleftrightarrow>
     (\<exists>new. hw_calls w' = new @ hw_calls w
            \<and> (\<forall>c \<in> set new. call_ok hx c \<and> paired_with (call_key c) (hw_store w) \<and> recorded hx io w c))"

lemma calls_added_none: "hw_calls w' = hw_calls w \<Longrightarrow> calls_added hx io w w'"
  by (auto simp: calls_added_def intro: exI [of _ "[]"])

lemma handle_cloud_error_calls [simp]: "hw_calls (handle_cloud_error hx io now a err w) = hw_calls w"
  by (simp add: handle_cloud_error_def)

lemma control_auth_paired: "control_auth c a w = Some (key, endpoint) \<Longrightarrow> paired_with key (hw_store w)"
  by (auto simp: control_auth_def paired_with_def Let_def split: option.splits if_splits)

lemma attempting_simps [simp]:
  "hm_config (attempting a k now m) = hm_config m" "hm_session (attempting a k now m) = hm_session m"
  "hm_cooldown (attempting a k now m) = hm_cooldown m" "hm_stabilize (attempting a k now m) = hm_stabilize m"
  "hm_start (attempting a k now m) = hm_start m" "hm_stop (attempting a k now m) = hm_stop m"
  "hm_start_dedupe (attempting a k now m) = hm_start_dedupe m"
  "hm_stop_dedupe (attempting a k now m) = hm_stop_dedupe m"
  "hm_pending (attempting a k now m) = Some (pending_of a k now)"
  "hm_fingerprint (attempting a k now m) = hm_fingerprint m"
  "hm_state (attempting a k now m) = (case a of StartAction \<Rightarrow> ''start_pending'' | StopAction \<Rightarrow> ''stop_pending'')"
  "hm_control (attempting a k now m) = (case a of StartAction \<Rightarrow> ''pending_start'' | StopAction \<Rightarrow> ''pending_stop'')"
  by (simp_all add: attempting_def)

lemma attempt_start_calls:
  assumes "may_control (hx_unicode hx) now (hw_module w)" "\<not> waits now (hm_cooldown (hw_module w))"
    "hm_session (hw_module w) = []" "hm_start (hw_module w) = Some k"
    "due now (hc_start_debounce (hm_config (hw_module w))) k"
  shows "calls_added hx io w (attempt_start hx io now k w)"
proof (cases "trim_space (tc_dedupe (keyed_transition hx StartAction k)) \<noteq> trim_space (hm_start_dedupe (hw_module w))
    \<and> hw_client w \<and> control_auth (hm_config (hw_module w)) StartAction w \<noteq> None")
  case False
  then show ?thesis
    by (intro calls_added_none) (auto simp: attempt_start_def Let_def split: option.splits)
next
  case True
  then obtain key endpoint where a: "control_auth (hm_config (hw_module w)) StartAction w = Some (key, endpoint)" by auto
  define w1 where "w1 = settle hx io 0 (attempting StartAction (keyed_transition hx StartAction k) now) w"
  let ?q = "start_request_of hx (hm_config (hw_module w)) (keyed_transition hx StartAction k) now"
  have "hw_calls (attempt_start hx io now k w)
      = CallStart now endpoint key ?q (hw_module w1) (hw_store w1) # hw_calls w"
    using True a by (simp add: attempt_start_def Let_def w1_def [symmetric] split: sum.split) (simp add: w1_def)
  moreover have "call_ok hx (CallStart now endpoint key ?q (hw_module w1) (hw_store w1))"
    using True assms by (simp add: w1_def may_control_def start_request_of_def)
  moreover have "recorded hx io w (CallStart now endpoint key ?q (hw_module w1) (hw_store w1))"
    unfolding w1_def by (rule recorded_settle) (rule attempting_simps call_module.simps call_store.simps)+
  ultimately show ?thesis
    using control_auth_paired [OF a] by (auto simp: calls_added_def)
qed

lemma finish_stop_calls [simp]: "hw_calls (finish_stop_call hx io now k r w) = hw_calls w"
  by (auto simp: finish_stop_call_def Let_def split: sum.split)

lemma attempt_stop_calls:
  assumes "may_control (hx_unicode hx) now (hw_module w)" "\<not> waits now (hm_cooldown (hw_module w))"
    "hm_session (hw_module w) \<noteq> []" "hm_stop (hw_module w) = Some k"
    "due now (hc_stop_debounce (hm_config (hw_module w))) k"
  shows "calls_added hx io w (attempt_stop hx io now k w)"
proof (cases "trim_space (tc_dedupe (keyed_transition hx StopAction k)) \<noteq> trim_space (hm_stop_dedupe (hw_module w))
    \<and> hw_client w \<and> control_auth (hm_config (hw_module w)) StopAction w \<noteq> None")
  case False
  then show ?thesis
    by (intro calls_added_none) (auto simp: attempt_stop_def Let_def split: option.splits)
next
  case True
  then obtain key endpoint where a: "control_auth (hm_config (hw_module w)) StopAction w = Some (key, endpoint)" by auto
  define w1 where "w1 = settle hx io 0 (attempting StopAction (keyed_transition hx StopAction k) now) w"
  have s: "hm_session (hw_module w1) = hm_session (hw_module w)" by (simp add: w1_def)
  let ?q = "\<lambda>session. stop_request_of hx session (keyed_transition hx StopAction k) now"
  let ?c = "\<lambda>session. CallStop now endpoint key (?q session) (hw_module w1) (hw_store w1)"
  have "hw_calls (attempt_stop hx io now k w) \<in>
      {?c (hm_session (hw_module w)) # hw_calls w, ?c [] # ?c (hm_session (hw_module w)) # hw_calls w}"
    using True a by (simp add: attempt_stop_def Let_def w1_def [symmetric] s stop_request_of_def split: sum.split)
      (simp add: w1_def)
  moreover have "call_ok hx (?c session)" if "session \<in> {hm_session (hw_module w), []}" for session
    using True assms that by (auto simp: w1_def may_control_def stop_request_of_def)
  moreover have "recorded hx io w (?c session)" for session
    unfolding w1_def by (rule recorded_settle) (rule attempting_simps call_module.simps call_store.simps)+
  ultimately have "\<exists>new. hw_calls (attempt_stop hx io now k w) = new @ hw_calls w
      \<and> set new \<subseteq> {?c (hm_session (hw_module w)), ?c []}
      \<and> call_ok hx (?c (hm_session (hw_module w))) \<and> call_ok hx (?c [])
      \<and> recorded hx io w (?c (hm_session (hw_module w))) \<and> recorded hx io w (?c [])"
    by (elim insertE emptyE)
      (force intro: exI [of _ "[?c (hm_session (hw_module w))]"], force intro: exI [of _ "[?c [], ?c (hm_session (hw_module w))]"])
  then show ?thesis
    using control_auth_paired [OF a] unfolding calls_added_def by fastforce
qed

lemma promote_pending_simps [simp]:
  "hm_config (promote_pending m) = hm_config m" "hm_session (promote_pending m) = hm_session m"
  "hm_cooldown (promote_pending m) = hm_cooldown m" "hm_stabilize (promote_pending m) = hm_stabilize m"
  "hm_pending (promote_pending m) = hm_pending m" "hm_facts (promote_pending m) = hm_facts m"
  "hm_fingerprint (promote_pending m) = hm_fingerprint m"
  "hm_start_dedupe (promote_pending m) = hm_start_dedupe m" "hm_stop_dedupe (promote_pending m) = hm_stop_dedupe m"
  by (simp_all add: promote_pending_def split: option.split home_action.split)

lemma note_idle_simps [simp]:
  "hm_config (note_idle_stop u now m) = hm_config m" "hm_session (note_idle_stop u now m) = hm_session m"
  "hm_cooldown (note_idle_stop u now m) = hm_cooldown m" "hm_stabilize (note_idle_stop u now m) = hm_stabilize m"
  "hm_pending (note_idle_stop u now m) = hm_pending m" "hm_start (note_idle_stop u now m) = hm_start m"
  "hm_facts (note_idle_stop u now m) = hm_facts m" "hm_fingerprint (note_idle_stop u now m) = hm_fingerprint m"
  by (simp_all add: note_idle_stop_def)

lemma calls_added_on_module:
  "calls_added hx io (on_module f w) w' \<Longrightarrow> hm_fingerprint (f (hw_module w)) = hm_fingerprint (hw_module w)
   \<Longrightarrow> calls_added hx io w w'"
  by (simp add: calls_added_def recorded_def Let_def cong: option.case_cong)

definition may_run :: "unicode \<Rightarrow> home_module \<Rightarrow> bool" where
  "may_run u m \<longleftrightarrow> \<not> module_off u (hm_config m) \<and> validate_config u (hm_config m) = None"

lemma mode_cases: "normalize_mode u m \<in> {''observe'', ''control'', ''off''}"
  by (auto simp: normalize_mode_def Let_def)

lemma may_run_control:
  "may_run u m \<Longrightarrow> normalize_mode u (hc_mode (hm_config m)) \<noteq> ''observe'' \<Longrightarrow> \<not> waits now (hm_stabilize m)
   \<Longrightarrow> may_control u now m"
  using mode_cases [of u "hc_mode (hm_config m)"] by (auto simp: may_run_def may_control_def module_off_def)

lemma evaluate_ready_calls:
  assumes "may_run (hx_unicode hx) (hw_module w)" "\<not> waits now (hm_cooldown (hw_module w))"
  shows "calls_added hx io w (evaluate_ready hx io now w)"
proof (cases "waits now (hm_stabilize (hw_module w))")
  case True
  then show ?thesis by (intro calls_added_none) (simp add: evaluate_ready_def)
next
  case False
  let ?u = "hx_unicode hx"
  define w1 where "w1 = on_module promote_pending w"
  define w2 where "w2 = on_module (note_idle_stop ?u now) w1"
  have r: "may_run ?u (hw_module w1)" "\<not> waits now (hm_cooldown (hw_module w1))" "\<not> waits now (hm_stabilize (hw_module w1))"
    "may_run ?u (hw_module w2)" "\<not> waits now (hm_cooldown (hw_module w2))" "\<not> waits now (hm_stabilize (hw_module w2))"
    "hm_config (hw_module w2) = hm_config (hw_module w1)" "hm_session (hw_module w2) = hm_session (hw_module w1)"
    using assms False by (simp_all add: may_run_def w1_def w2_def)
  have active: "calls_added hx io w2 (evaluate_active hx io now w1)" if "hm_session (hw_module w1) \<noteq> []"
  proof (cases "hm_stop (hw_module w2)")
    case None
    then show ?thesis by (intro calls_added_none) (simp add: evaluate_active_def Let_def w2_def)
  next
    case (Some k)
    show ?thesis
    proof (cases "due now (hc_stop_debounce (hm_config (hw_module w2))) k
        \<and> normalize_mode ?u (hc_mode (hm_config (hw_module w2))) \<noteq> ''observe''")
      case True
      then have "evaluate_active hx io now w1 = attempt_stop hx io now k w2"
        using Some r(7) by (simp add: evaluate_active_def Let_def due_def not_less w2_def)
      with True Some that r show ?thesis by (auto intro!: attempt_stop_calls may_run_control)
    next
      case False
      then show ?thesis using Some r(7)
        by (intro calls_added_none) (auto simp add: evaluate_active_def Let_def due_def not_le w2_def)
    qed
  qed
  have idle: "calls_added hx io w1 (evaluate_idle hx io now w1)" if "hm_session (hw_module w1) = []"
  proof (cases "hm_start (hw_module w1)")
    case None
    then show ?thesis by (intro calls_added_none) (simp add: evaluate_idle_def Let_def)
  next
    case (Some k)
    show ?thesis
    proof (cases "due now (hc_start_debounce (hm_config (hw_module w1))) k
        \<and> normalize_mode ?u (hc_mode (hm_config (hw_module w1))) \<noteq> ''observe''")
      case True
      then have "evaluate_idle hx io now w1 = attempt_start hx io now k w1"
        using Some by (simp add: evaluate_idle_def Let_def due_def not_less)
      with True Some that r show ?thesis by (auto intro!: attempt_start_calls may_run_control)
    next
      case False
      then show ?thesis using Some
        by (intro calls_added_none) (auto simp add: evaluate_idle_def Let_def due_def not_le)
    qed
  qed
  have "evaluate_ready hx io now w = (if hm_session (hw_module w1) \<noteq> [] then evaluate_active hx io now w1
      else evaluate_idle hx io now w1)"
    using False by (simp add: evaluate_ready_def Let_def w1_def)
  then show ?thesis
    using active idle calls_added_on_module [of hx io promote_pending w]
      calls_added_on_module [of hx io "note_idle_stop ?u now" w1]
    by (simp add: w1_def w2_def split: if_splits)
qed

lemma evaluate_calls: "calls_added hx io w (evaluate hx io now trigger w)"
proof -
  let ?u = "hx_unicode hx"
  let ?lift = "\<lambda>m :: home_module. m\<lparr> hm_cooldown := None,
    hm_decision := ''fresh inside-geofence update received; retrying stop during cooldown'' \<rparr>"
  consider "\<not> may_run ?u (hw_module w) \<or> is_blocked (hw_module w)
      \<or> waits now (hm_cooldown (hw_module w)) \<and> \<not> bypasses_cooldown ?u now trigger (hw_module w)"
    | "may_run ?u (hw_module w)" "\<not> is_blocked (hw_module w)" "\<not> waits now (hm_cooldown (hw_module w))"
    | "may_run ?u (hw_module w)" "\<not> is_blocked (hw_module w)" "waits now (hm_cooldown (hw_module w))"
      "bypasses_cooldown ?u now trigger (hw_module w)" by blast
  then show ?thesis
  proof cases
    case 1
    then show ?thesis
      by (intro calls_added_none) (auto simp: evaluate_def Let_def may_run_def split: option.split)
  next
    case 2
    then have "evaluate hx io now trigger w = evaluate_ready hx io now w"
      by (simp add: evaluate_def Let_def may_run_def)
    then show ?thesis using evaluate_ready_calls [OF 2(1,3)] by simp
  next
    case 3
    then have "evaluate hx io now trigger w = evaluate_ready hx io now (on_module ?lift w)"
      by (simp add: evaluate_def Let_def may_run_def)
    moreover have "calls_added hx io (on_module ?lift w) (evaluate_ready hx io now (on_module ?lift w))"
      using 3(1) by (intro evaluate_ready_calls) (simp_all add: may_run_def waits_def)
    ultimately show ?thesis using calls_added_on_module [of hx io ?lift w] by simp
  qed
qed

lemma other_steps_calls [simp]:
  "hw_calls (start_home hx io w) = hw_calls w" "hw_calls (observe_event hx io v w) = hw_calls w"
  "hw_calls (observe_attested hx io ob w) = hw_calls w" "hw_calls (fst (apply_config hx io c w)) = hw_calls w"
  "hw_calls (set_config_apply_status hx io a w) = hw_calls w" "hw_calls (reset_degraded hx io w) = hw_calls w"
  by (auto simp: start_home_def bootstrap_home_def reconcile_startup_def reconcile_session_def
      mark_startup_inconsistent_def mark_degraded_def observe_event_def observe_attested_def overflow_def
      apply_config_def set_config_apply_status_def reset_degraded_def Let_def split: option.split)

lemma consume_fingerprint [simp]:
  "hm_fingerprint (consume_position hx wall ob m) = hm_fingerprint m"
  "hm_fingerprint (consume_event hx wall v m) = hm_fingerprint m"
  by (simp_all add: consume_event_def consume_position_def set_gps_def note_transition_def Let_def
      split: option.split sighting.split)

lemma step_calls: "calls_added hx io w (home_do hx io s w)"
proof (cases s)
  case HomeTakeEvent
  show ?thesis
  proof (cases "hm_events (hw_module w)")
    case (Cons v vs)
    show ?thesis
      using calls_added_on_module [OF evaluate_calls,
          where f = "\<lambda>m. consume_event hx (hi_wall io) v (m\<lparr> hm_events := vs \<rparr>)"] by (simp add: HomeTakeEvent Cons)
  qed (simp add: HomeTakeEvent calls_added_none)
next
  case HomeTakePosition
  show ?thesis
  proof (cases "hm_positions (hw_module w)")
    case (Cons v vs)
    show ?thesis
      using calls_added_on_module [OF evaluate_calls,
          where f = "\<lambda>m. consume_position hx (hi_wall io) v (m\<lparr> hm_positions := vs \<rparr>)"]
      by (simp add: HomeTakePosition Cons)
  qed (simp add: HomeTakePosition calls_added_none)
next
  case HomeTakeReevaluate
  then show ?thesis
    using calls_added_on_module [OF evaluate_calls, where f = "\<lambda>m. m\<lparr> hm_reevaluate := False \<rparr>"]
    by (simp add: calls_added_none)
next
  case (HomeTick trigger)
  then show ?thesis using evaluate_calls by simp
qed (simp_all add: calls_added_none)

end
