(* ===== verification/HomeRetries.thy ===== *)
theory HomeRetries
  imports HomeGuards
begin

text \<open>
  What follows a call that failed: a blocked module stays inert, a retry waits within bounds, and a start that
  was interrupted is repeated with its dedupe key.
\<close>

section \<open>A blocked module\<close>

lemma degraded_simps [simp]:
  "hm_state (degraded_module b d m) = ''degraded''" "hm_config (degraded_module b d m) = hm_config m"
  "hm_started (degraded_module b d m) = hm_started m" "hm_pending (degraded_module b d m) = hm_pending m"
  "hm_start (degraded_module b d m) = hm_start m" "hm_stop (degraded_module b d m) = hm_stop m"
  "hm_session (degraded_module b d m) = hm_session m" "hm_facts (degraded_module b d m) = hm_facts m"
  "hm_cooldown (degraded_module b d m) = None" "hm_trigger (degraded_module b d m) = hm_trigger m"
  by (simp_all add: degraded_module_def Let_def)

lemma degraded_default: "trim_space ''home auto session control path is blocked'' \<noteq> []"
  by code_simp

lemma degraded_blocked: "is_blocked (degraded_module b d m)"
  using degraded_default by (simp add: is_blocked_def degraded_module_def or_text_def Let_def)

lemma set_gps_simps [simp]:
  "hm_state (set_gps wall c r n d t m) = hm_state m" "hm_blocked (set_gps wall c r n d t m) = hm_blocked m"
  "hm_config (set_gps wall c r n d t m) = hm_config m" "hm_started (set_gps wall c r n d t m) = hm_started m"
  "hm_control (set_gps wall c r n d t m) = hm_control m" "hm_pending (set_gps wall c r n d t m) = hm_pending m"
  "hm_start (set_gps wall c r n d t m) = hm_start m" "hm_stop (set_gps wall c r n d t m) = hm_stop m"
  "hm_facts (set_gps wall c r n d t m) = hm_facts m" "hm_session (set_gps wall c r n d t m) = hm_session m"
  by (simp_all add: set_gps_def)

lemma note_transition_simps [simp]:
  "hm_state (note_transition hx ob n i f m) = hm_state m" "hm_blocked (note_transition hx ob n i f m) = hm_blocked m"
  "hm_config (note_transition hx ob n i f m) = hm_config m" "hm_started (note_transition hx ob n i f m) = hm_started m"
  "hm_control (note_transition hx ob n i f m) = hm_control m" "hm_pending (note_transition hx ob n i f m) = hm_pending m"
  "hm_facts (note_transition hx ob n i f m) = hm_facts m" "hm_session (note_transition hx ob n i f m) = hm_session m"
  by (simp_all add: note_transition_def)

lemma consume_simps [simp]:
  "hm_state (consume_position hx wall ob m) = hm_state m" "hm_blocked (consume_position hx wall ob m) = hm_blocked m"
  "hm_config (consume_position hx wall ob m) = hm_config m" "hm_started (consume_position hx wall ob m) = hm_started m"
  "hm_control (consume_position hx wall ob m) = hm_control m"
  "hm_pending (consume_position hx wall ob m) = hm_pending m"
  "hm_session (consume_position hx wall ob m) = hm_session m"
  by (simp_all add: consume_position_def Let_def split: sighting.split)

lemma consume_event_simps [simp]:
  "hm_state (consume_event hx wall v m) = hm_state m" "hm_blocked (consume_event hx wall v m) = hm_blocked m"
  "hm_config (consume_event hx wall v m) = hm_config m" "hm_started (consume_event hx wall v m) = hm_started m"
  "hm_control (consume_event hx wall v m) = hm_control m" "hm_pending (consume_event hx wall v m) = hm_pending m"
  "hm_session (consume_event hx wall v m) = hm_session m"
  by (simp_all add: consume_event_def split: option.split)

definition inert :: "unicode \<Rightarrow> home_module \<Rightarrow> bool" where
  "inert u m \<longleftrightarrow> is_blocked m \<and> may_run u m \<and> hm_started m"

lemma inert_same:
  "inert u m \<Longrightarrow> hm_state m' = hm_state m \<Longrightarrow> hm_blocked m' = hm_blocked m \<Longrightarrow> hm_config m' = hm_config m
   \<Longrightarrow> hm_started m' = hm_started m \<Longrightarrow> inert u m'"
  by (simp add: inert_def is_blocked_def may_run_def)

lemma inert_settle: "inert u (f (hw_module w)) \<Longrightarrow> inert u (hw_module (settle hx io n f w))"
  by (erule inert_same) simp_all

lemma inert_evaluate:
  assumes "inert (hx_unicode hx) (hw_module w)"
  shows "inert (hx_unicode hx) (hw_module (evaluate hx io now trigger w))
    \<and> hw_calls (evaluate hx io now trigger w) = hw_calls w"
proof -
  define f :: "home_module \<Rightarrow> home_module" where "f = (\<lambda>m. m\<lparr> hm_summary := ''home auto session is degraded'',
      hm_decision := (if hm_decision m = [] then ''manual action required to recover control mode'' else hm_decision m),
      hm_control := (if hm_control m = [] then ''degraded'' else hm_control m) \<rparr>)"
  have "evaluate hx io now trigger w = settle hx io 0 f w"
    using assms by (simp add: evaluate_def inert_def may_run_def Let_def f_def)
  moreover have "inert (hx_unicode hx) (f (hw_module w))"
    using assms by (rule inert_same) (simp_all add: f_def)
  ultimately show ?thesis by (simp add: inert_settle)
qed

lemma overflow_calls [simp]: "hw_calls (overflow hx io w) = hw_calls w"
  by (simp add: overflow_def mark_degraded_def)

lemma set_apply_status_simps [simp]:
  "hm_state (set_apply_status u a m) = hm_state m" "hm_blocked (set_apply_status u a m) = hm_blocked m"
  "hm_config (set_apply_status u a m) = hm_config m" "hm_started (set_apply_status u a m) = hm_started m"
  "hm_control (set_apply_status u a m) = hm_control m" "hm_pending (set_apply_status u a m) = hm_pending m"
  "hm_start (set_apply_status u a m) = hm_start m" "hm_facts (set_apply_status u a m) = hm_facts m"
  by (simp_all add: set_apply_status_def Let_def)

lemma inert_overflow: "inert u (hw_module w) \<Longrightarrow> inert u (hw_module (overflow hx io w))"
  unfolding overflow_def mark_degraded_def
  by (rule inert_settle) (simp add: inert_def degraded_blocked may_run_def)

fun is_intervention :: "home_step \<Rightarrow> bool" where
  "is_intervention HomeReset = True"
| "is_intervention (HomeConfigure c) = True"
| "is_intervention s = False"

lemma inert_on_module:
  "inert (hx_unicode hx) (hw_module w) \<Longrightarrow> hm_state (f (hw_module w)) = hm_state (hw_module w)
   \<Longrightarrow> hm_blocked (f (hw_module w)) = hm_blocked (hw_module w) \<Longrightarrow> hm_config (f (hw_module w)) = hm_config (hw_module w)
   \<Longrightarrow> hm_started (f (hw_module w)) = hm_started (hw_module w)
   \<Longrightarrow> inert (hx_unicode hx) (hw_module (evaluate hx io now trigger (on_module f w)))
     \<and> hw_calls (evaluate hx io now trigger (on_module f w)) = hw_calls w"
  using inert_evaluate [of hx "on_module f w"] by (simp add: inert_same)

lemma inert_step:
  assumes "inert (hx_unicode hx) (hw_module w)" "\<not> is_intervention s"
  shows "inert (hx_unicode hx) (hw_module (home_do hx io s w)) \<and> hw_calls (home_do hx io s w) = hw_calls w"
proof (cases s)
  case HomeStart
  then show ?thesis using assms by (simp add: start_home_def inert_def)
next
  case (HomeTick trigger)
  then show ?thesis using inert_evaluate [OF assms(1)] by simp
next
  case HomeTakeEvent
  show ?thesis
  proof (cases "hm_events (hw_module w)")
    case (Cons v vs)
    show ?thesis
      using inert_on_module [OF assms(1), of "\<lambda>m. consume_event hx (hi_wall io) v (m\<lparr> hm_events := vs \<rparr>)"]
      by (simp add: HomeTakeEvent Cons)
  qed (use assms in \<open>simp add: HomeTakeEvent\<close>)
next
  case HomeTakePosition
  show ?thesis
  proof (cases "hm_positions (hw_module w)")
    case (Cons ob obs)
    show ?thesis
      using inert_on_module [OF assms(1), of "\<lambda>m. consume_position hx (hi_wall io) ob (m\<lparr> hm_positions := obs \<rparr>)"]
      by (simp add: HomeTakePosition Cons)
  qed (use assms in \<open>simp add: HomeTakePosition\<close>)
next
  case HomeTakeReevaluate
  show ?thesis
    using inert_on_module [OF assms(1), of "\<lambda>m. m\<lparr> hm_reevaluate := False \<rparr>"] assms(1)
    by (simp add: HomeTakeReevaluate)
next
  case (HomeObserve v)
  have "inert (hx_unicode hx) (hw_module (on_module (\<lambda>m. m\<lparr> hm_events := hm_events m @ [v] \<rparr>) w))"
    using assms(1) by (rule inert_same) simp_all
  then show ?thesis using inert_overflow [OF assms(1)] by (simp add: HomeObserve observe_event_def)
next
  case (HomeAttest ob)
  have "inert (hx_unicode hx) (hw_module (on_module (\<lambda>m. m\<lparr> hm_positions := hm_positions m @ [ob] \<rparr>) w))"
    using assms(1) by (rule inert_same) simp_all
  then show ?thesis using inert_overflow [OF assms(1)] assms(1) by (simp add: HomeAttest observe_attested_def Let_def)
next
  case (HomeApplyStatus a)
  have "inert (hx_unicode hx) (hw_module (settle hx io 0 (set_apply_status (hx_unicode hx) a) w))"
    using assms(1) by (rule inert_same) simp_all
  then show ?thesis using assms(1) by (simp add: HomeApplyStatus set_config_apply_status_def)
next
  case HomeReevaluate
  have "inert (hx_unicode hx) (hw_module (on_module (\<lambda>m. m\<lparr> hm_reevaluate := True \<rparr>) w))"
    using assms(1) by (rule inert_same) simp_all
  then show ?thesis by (simp add: HomeReevaluate)
qed (use assms in simp_all)

lemma inert_run:
  "inert (hx_unicode hx) (hw_module w) \<Longrightarrow> \<forall>(io, s) \<in> set hist. \<not> is_intervention s
   \<Longrightarrow> inert (hx_unicode hx) (hw_module (run_home hx hist w)) \<and> hw_calls (run_home hx hist w) = hw_calls w"
  by (induction hx hist w rule: run_home.induct) (use inert_step in auto)

section \<open>Delays\<close>

lemma retry_delay_between: "30 * second \<le> retry_delay_home n" "retry_delay_home n \<le> 240 * second"
proof -
  have "nat (min n 4 - 1) \<in> {0, 1, 2, 3}" by auto
  then show "30 * second \<le> retry_delay_home n" "retry_delay_home n \<le> 240 * second"
    by (auto simp: retry_delay_home_def home_constants minute_def second_def)
qed

lemma retry_delay_for_between: "10 * second \<le> retry_delay_for a cls n" "retry_delay_for a cls n \<le> 240 * second"
  using retry_delay_between [of n] retry_delay_between [of "n - 2"]
  by (auto simp: retry_delay_for_def stop_timeout_delay_def second_def)

lemma jitter_between:
  assumes "10 * second \<le> base"
  shows "9 * second \<le> jitter_delay hx base a n key" "jitter_delay hx base a n key \<le> 240 * second"
proof -
  define offset where "offset = int (of_char (hd (hx_digest hx (action_text a @ ''|'' @ itoa n @ ''|''
    @ to_lower (hx_unicode hx) (trim_space key))))) mod 21 - (10 :: int)"
  have o: "- 10 \<le> offset" unfolding offset_def by (simp add: pos_mod_sign)
  have "- (base * 10) \<le> base * offset"
    using mult_left_mono [OF o, of base] assms by (simp add: second_def)
  moreover have "0 \<le> (base * 10) div 100"
    using assms by (simp add: second_def pos_imp_zdiv_nonneg_iff)
  moreover have "- (base * offset) div 100 \<le> (base * 10) div 100" if "- (base * 10) \<le> base * offset"
    using that by (intro zdiv_mono1) auto
  ultimately have "- ((base * 10) div 100) \<le> truncated_div (base * offset) 100"
    using pos_imp_zdiv_nonneg_iff [of 100 "base * offset"] unfolding truncated_div_def
    by (cases "base * offset < 0") (simp_all add: not_less)
  then have "9 * second \<le> base + truncated_div (base * offset) 100"
    using assms by (simp add: second_def)
  moreover have "jitter_delay hx base a n key
      = min retry_cooldown_max (max second (base + truncated_div (base * offset) 100))"
    using assms by (simp add: jitter_delay_def Let_def offset_def second_def)
  ultimately show "9 * second \<le> jitter_delay hx base a n key" "jitter_delay hx base a n key \<le> 240 * second"
    by (auto simp: retry_cooldown_max_def minute_def second_def)
qed

text \<open>The errors after which the module tries again by itself.\<close>

definition schedules_retry :: "unicode \<Rightarrow> home_action \<Rightarrow> client_error \<Rightarrow> bool" where
  "schedules_retry u a err \<longleftrightarrow>
     lifecycle_conflict u err = None
     \<and> (if a = StartAction then \<not> start_already_active u err \<and> (start_missing_session_id u err \<or> is_retryable err)
        else \<not> stop_state_mismatch u err \<and> is_retryable err)"

lemma retry_cooldown_set:
  assumes "schedules_retry (hx_unicode hx) a err"
  shows "\<exists>d. 9 * second \<le> d \<and> d \<le> 240 * second \<and> hm_cooldown (failed_module hx now a err m) = Some (now + d)
    \<and> hm_action_at (failed_module hx now a err m) = Some now \<and> \<not> is_blocked (failed_module hx now a err m)"
proof -
  have "9 * second \<le> jitter_delay hx (retry_delay_for a cls n) a n key
      \<and> jitter_delay hx (retry_delay_for a cls n) a n key \<le> 240 * second" for cls n key
    using jitter_between [OF retry_delay_for_between(1)] by blast
  then show ?thesis
    using assms by (cases a) (auto simp: schedules_retry_def failed_module_def missing_id_retry_def
        retry_after_failure_def is_blocked_def Let_def split: if_splits)
qed

lemma waits_no_calls:
  assumes "waits t (hm_cooldown (hw_module w))" "\<not> bypasses_cooldown (hx_unicode hx) t trigger (hw_module w)"
  shows "hw_calls (evaluate hx io t trigger w) = hw_calls w"
  using assms by (auto simp: evaluate_def Let_def split: option.split)

end
