(* ===== verification/HomeReplay.thy ===== *)
theory HomeReplay
  imports HomeRetries
begin

text \<open>
  What the home auto session does with a start it could not finish: the record written before
  the call is taken over by the module that starts next, and its first call repeats the pending
  start with the same deduplication key.
\<close>


section \<open>Retries after a restart\<close>

text \<open>A start call made while a start is pending carries the key of the pending action.\<close>

lemma keyed_kept: "tc_dedupe k \<noteq> [] \<Longrightarrow> keyed_transition hx a k = k"
  by (simp add: keyed_transition_def)

lemma attempt_stop_only_stops:
  "\<exists>new. hw_calls (attempt_stop hx io now k w) = new @ hw_calls w
     \<and> (\<forall>c \<in> set new. \<exists>t e y q m st. c = CallStop t e y q m st)"
proof (cases "trim_space (tc_dedupe (keyed_transition hx StopAction k)) \<noteq> trim_space (hm_stop_dedupe (hw_module w))
    \<and> hw_client w \<and> control_auth (hm_config (hw_module w)) StopAction w \<noteq> None")
  case False
  then show ?thesis by (intro exI [of _ "[]"]) (auto simp: attempt_stop_def Let_def split: option.splits)
next
  case True
  then obtain key endpoint where a: "control_auth (hm_config (hw_module w)) StopAction w = Some (key, endpoint)" by auto
  show ?thesis
    using True a by (simp add: attempt_stop_def Let_def split: sum.split)
qed

lemma active_only_stops:
  "\<exists>new. hw_calls (evaluate_active hx io now w) = new @ hw_calls w
     \<and> (\<forall>c \<in> set new. \<exists>t e y q m st. c = CallStop t e y q m st)"
  using attempt_stop_only_stops [of hx io now _ "on_module (note_idle_stop (hx_unicode hx) now) w"]
  by (auto simp: evaluate_active_def Let_def split: option.split)

definition start_keys :: "string \<Rightarrow> home_world \<Rightarrow> home_world \<Rightarrow> bool" where
  "start_keys key w w' \<longleftrightarrow>
     (\<exists>new. hw_calls w' = new @ hw_calls w
        \<and> (\<forall>t e y q m st. CallStart t e y q m st \<in> set new \<longrightarrow> ss_dedupe q = key))"

lemma start_keys_none: "hw_calls w' = hw_calls w \<Longrightarrow> start_keys key w w'"
  by (auto simp: start_keys_def)

lemma evaluate_ready_start_key:
  assumes "hm_pending (hw_module w) = Some p" "pn_action p = StartAction" "pn_dedupe p \<noteq> []"
  shows "start_keys (pn_dedupe p) w (evaluate_ready hx io now w)"
proof (cases "waits now (hm_stabilize (hw_module w))")
  case True
  then show ?thesis by (intro start_keys_none) (simp add: evaluate_ready_def)
next
  case False
  define w1 where "w1 = on_module promote_pending w"
  have k: "hm_start (hw_module w1) = Some (pending_transition p)" "hm_stop (hw_module w1) = None"
    "hw_calls w1 = hw_calls w"
    using assms(1,2) by (simp_all add: w1_def promote_pending_def)
  have "start_keys (pn_dedupe p) w1 (attempt_start hx io now (pending_transition p) w1)"
    using keyed_kept [of "pending_transition p" hx StartAction] assms(3)
    by (auto simp: start_keys_def attempt_start_def pending_transition_def start_request_of_def Let_def
        split: option.split sum.split)
  then have idle: "start_keys (pn_dedupe p) w1 (evaluate_idle hx io now w1)"
    using k(1) by (auto simp: evaluate_idle_def Let_def intro: start_keys_none)
  have active: "start_keys (pn_dedupe p) w1 (evaluate_active hx io now w1)"
    using active_only_stops [of hx io now w1] unfolding start_keys_def by fast
  have "evaluate_ready hx io now w = (if hm_session (hw_module w1) \<noteq> [] then evaluate_active hx io now w1
      else evaluate_idle hx io now w1)"
    using False by (simp add: evaluate_ready_def Let_def w1_def)
  then show ?thesis using idle active k(3) by (simp add: start_keys_def)
qed

lemma evaluate_start_key:
  assumes "hm_pending (hw_module w) = Some p" "pn_action p = StartAction" "pn_dedupe p \<noteq> []"
  shows "start_keys (pn_dedupe p) w (evaluate hx io now trigger w)"
proof -
  have r: "start_keys (pn_dedupe p) w (evaluate_ready hx io now (on_module f w))"
    if "hm_pending (f (hw_module w)) = hm_pending (hw_module w)" for f
    using evaluate_ready_start_key [of "on_module f w" p hx io now] assms that by (simp add: start_keys_def)
  show ?thesis
    using r [of id] r [of "\<lambda>m. m\<lparr> hm_cooldown := None,
        hm_decision := ''fresh inside-geofence update received; retrying stop during cooldown'' \<rparr>"]
    by (auto simp: evaluate_def Let_def intro: start_keys_none split: option.split)
qed

text \<open>Starting over a stored record: what the module takes from it.\<close>

lemma apply_config_simps [simp]:
  "hw_store (fst (apply_config hx io c w)) = hw_store w"
  "hm_started (hw_module (fst (apply_config hx io c w))) = hm_started (hw_module w)"
  "hm_pending (hw_module (fst (apply_config hx io c w))) = hm_pending (hw_module w)"
  "hm_start (hw_module (fst (apply_config hx io c w))) = hm_start (hw_module w)"
  "hm_stop (hw_module (fst (apply_config hx io c w))) = hm_stop (hw_module w)"
  "hm_state (hw_module (fst (apply_config hx io c w))) = hm_state (hw_module w)"
  "hm_control (hw_module (fst (apply_config hx io c w))) = hm_control (hw_module w)"
  "hm_facts (hw_module (fst (apply_config hx io c w))) = hm_facts (hw_module w)"
  "hw_client (fst (apply_config hx io c w)) = hw_client w"
  by (simp_all add: apply_config_def Let_def split: option.split)

lemma new_home_fields:
  "hw_store (new_home hx io c st sn client) = st" "hm_started (hw_module (new_home hx io c st sn client)) = False"
  "hm_pending (hw_module (new_home hx io c st sn client)) = None"
  "hm_start (hw_module (new_home hx io c st sn client)) = None"
  "hm_stop (hw_module (new_home hx io c st sn client)) = None"
  "hm_state (hw_module (new_home hx io c st sn client)) = ''disabled''"
  "hm_control (hw_module (new_home hx io c st sn client)) = ''disabled''"
  "hm_facts (hw_module (new_home hx io c st sn client)) = Map.empty"
  "hw_calls (new_home hx io c st sn client) = []" "hw_client (new_home hx io c st sn client) = client"
  unfolding new_home_def Let_def by (simp_all add: blank_module_def split: option.split)

lemma reconcile_session_pending:
  "hm_pending (hw_module (reconcile_session hx io w)) = hm_pending (hw_module w)"
  by (simp add: reconcile_session_def mark_startup_inconsistent_def mark_degraded_def Let_def)

lemma reconcile_pending_action:
  assumes "hm_pending (hw_module w) = Some p" "pn_action p = StartAction" "pn_dedupe p \<noteq> hm_start_dedupe (hw_module w)"
  shows "hm_pending (hw_module (reconcile_startup hx io w)) = Some p"
  using assms by (simp add: reconcile_startup_def reconcile_session_pending mark_startup_inconsistent_def
      mark_degraded_def reconcile_pending_def)

lemma normalize_start: "normalize_pending u ''start'' = Some StartAction"
  by (simp add: normalize_pending_def trim_space_visible to_lower_def) code_simp

text \<open>A module that has a start pending and has not called the cloud yet.\<close>

definition retrying :: "pending_action \<Rightarrow> home_world \<Rightarrow> bool" where
  "retrying p w \<longleftrightarrow> hw_calls w = [] \<and> hm_pending (hw_module w) = Some p \<and> hm_session (hw_module w) = []
     \<and> trim_space (pn_dedupe p) \<noteq> trim_space (hm_start_dedupe (hw_module w))"

definition repeats :: "pending_action \<Rightarrow> home_call \<Rightarrow> bool" where
  "repeats p c \<longleftrightarrow> (\<exists>t e y q m st. c = CallStart t e y q m st \<and> ss_dedupe q = pn_dedupe p
     \<and> ss_trigger q = pn_node p \<and> ss_device q = pn_device p \<and> ss_reason q = pn_reason p)"

definition retry_result :: "pending_action \<Rightarrow> home_world \<Rightarrow> bool" where
  "retry_result p w \<longleftrightarrow> retrying p w \<or> (\<exists>c. hw_calls w = [c] \<and> repeats p c)"

lemma retrying_same:
  "retrying p w \<Longrightarrow> hw_calls w' = hw_calls w \<Longrightarrow> hm_pending (hw_module w') = hm_pending (hw_module w)
   \<Longrightarrow> hm_session (hw_module w') = hm_session (hw_module w)
   \<Longrightarrow> hm_start_dedupe (hw_module w') = hm_start_dedupe (hw_module w) \<Longrightarrow> retry_result p w'"
  by (simp add: retry_result_def retrying_def)

lemma retrying_settle:
  "retrying p w \<Longrightarrow> hm_pending (f (hw_module w)) = hm_pending (hw_module w)
   \<Longrightarrow> hm_session (f (hw_module w)) = hm_session (hw_module w)
   \<Longrightarrow> hm_start_dedupe (f (hw_module w)) = hm_start_dedupe (hw_module w) \<Longrightarrow> retry_result p (settle hx io n f w)"
  by (erule retrying_same) simp_all

lemma degraded_dedupe [simp]: "hm_start_dedupe (degraded_module b d m) = hm_start_dedupe m"
  by (simp add: degraded_module_def Let_def)

lemma pending_transition_simps [simp]:
  "tc_node (pending_transition p) = pn_node p" "tc_device (pending_transition p) = pn_device p"
  "tc_reason (pending_transition p) = pn_reason p" "tc_dedupe (pending_transition p) = pn_dedupe p"
  by (simp_all add: pending_transition_def)

lemma retry_attempt:
  assumes "retrying p w" "pn_dedupe p \<noteq> []"
  shows "retry_result p (attempt_start hx io now (pending_transition p) w)"
proof -
  have k: "keyed_transition hx StartAction (pending_transition p) = pending_transition p"
    using assms(2) by (simp add: keyed_kept)
  show ?thesis
  proof (cases "hw_client w \<and> control_auth (hm_config (hw_module w)) StartAction w \<noteq> None")
    case False
    then show ?thesis
      using assms(1) by (auto simp: attempt_start_def Let_def k retrying_def deferred_def client_missing_def
          intro!: retrying_settle split: option.splits)
  next
    case True
    then show ?thesis
      using assms(1) by (auto simp: attempt_start_def Let_def k retrying_def retry_result_def repeats_def
          start_request_of_def split: sum.split)
  qed
qed

lemma retry_ready:
  assumes "retrying p w" "pn_action p = StartAction" "pn_dedupe p \<noteq> []"
  shows "retry_result p (evaluate_ready hx io now w)"
proof (cases "waits now (hm_stabilize (hw_module w))")
  case True
  then show ?thesis using assms(1) by (simp add: evaluate_ready_def retrying_settle)
next
  case False
  define w1 where "w1 = on_module promote_pending w"
  have w1: "retrying p w1" "hm_start (hw_module w1) = Some (pending_transition p)"
    using assms by (simp_all add: w1_def retrying_def promote_pending_def)
  have "evaluate_ready hx io now w = evaluate_idle hx io now w1"
    using False w1(1) by (simp add: evaluate_ready_def Let_def retrying_def flip: w1_def)
  then show ?thesis
    using retry_attempt [OF w1(1) assms(3)] w1 by (simp add: evaluate_idle_def Let_def retrying_settle)
qed

lemma retry_evaluate:
  assumes "retrying p w" "pn_action p = StartAction" "pn_dedupe p \<noteq> []"
  shows "retry_result p (evaluate hx io now trigger w)"
proof -
  define w1 where "w1 = on_module (\<lambda>m. m\<lparr> hm_cooldown := None,
      hm_decision := ''fresh inside-geofence update received; retrying stop during cooldown'' \<rparr>) w"
  have "retrying p w1" using assms(1) by (simp add: w1_def retrying_def)
  then show ?thesis
    using retry_ready [OF _ assms(2,3), of _ hx io now] assms(1)
    by (simp add: evaluate_def Let_def retrying_settle cooling_module_def flip: w1_def split: option.split)
qed

lemma consume_keeps_start_dedupe [simp]:
  "hm_start_dedupe (consume_position hx wall ob m) = hm_start_dedupe m"
  "hm_start_dedupe (consume_event hx wall v m) = hm_start_dedupe m"
  by (simp_all add: consume_event_def consume_position_def set_gps_def note_transition_def Let_def
      split: option.split sighting.split)

lemma retry_evaluate_on_module:
  assumes "retrying p w" "pn_action p = StartAction" "pn_dedupe p \<noteq> []"
    "hm_pending (f (hw_module w)) = hm_pending (hw_module w)" "hm_session (f (hw_module w)) = hm_session (hw_module w)"
    "hm_start_dedupe (f (hw_module w)) = hm_start_dedupe (hw_module w)"
  shows "retry_result p (evaluate hx io now trigger (on_module f w))"
  by (rule retry_evaluate) (use assms in \<open>simp_all add: retrying_def\<close>)

lemma apply_config_session [simp]:
  "hm_session (hw_module (fst (apply_config hx io c w))) = hm_session (hw_module w)"
  "hm_start_dedupe (hw_module (fst (apply_config hx io c w))) = hm_start_dedupe (hw_module w)"
  by (simp_all add: apply_config_def Let_def split: option.split)

lemma set_apply_status_session [simp]:
  "hm_session (set_apply_status u a m) = hm_session m" "hm_start_dedupe (set_apply_status u a m) = hm_start_dedupe m"
  by (simp_all add: set_apply_status_def Let_def)

lemma retry_step:
  assumes "retrying p w" "pn_action p = StartAction" "pn_dedupe p \<noteq> []" "s \<noteq> HomeReset" "s \<noteq> HomeStart"
  shows "retry_result p (home_do hx io s w)"
proof (cases s)
  case HomeTakeEvent
  show ?thesis
  proof (cases "hm_events (hw_module w)")
    case (Cons v vs)
    show ?thesis
      using retry_evaluate_on_module [OF assms(1-3), of "\<lambda>m. consume_event hx (hi_wall io) v (m\<lparr> hm_events := vs \<rparr>)"]
      by (simp add: HomeTakeEvent Cons)
  qed (use assms(1) in \<open>simp add: HomeTakeEvent retry_result_def\<close>)
next
  case HomeTakePosition
  show ?thesis
  proof (cases "hm_positions (hw_module w)")
    case (Cons ob obs)
    show ?thesis
      using retry_evaluate_on_module [OF assms(1-3), of "\<lambda>m. consume_position hx (hi_wall io) ob (m\<lparr> hm_positions := obs \<rparr>)"]
      by (simp add: HomeTakePosition Cons)
  qed (use assms(1) in \<open>simp add: HomeTakePosition retry_result_def\<close>)
next
  case HomeTakeReevaluate
  show ?thesis
    using retry_evaluate_on_module [OF assms(1-3), of "\<lambda>m. m\<lparr> hm_reevaluate := False \<rparr>"] assms(1)
    by (simp add: HomeTakeReevaluate retry_result_def)
next
  case (HomeTick trigger)
  then show ?thesis using retry_evaluate [OF assms(1-3)] by simp
next
  case (HomeObserve v)
  show ?thesis
    unfolding HomeObserve home_do.simps using assms(1)
    by (rule retrying_same) (simp_all add: observe_event_def overflow_def mark_degraded_def)
next
  case (HomeAttest ob)
  show ?thesis
    unfolding HomeAttest home_do.simps using assms(1)
    by (rule retrying_same) (simp_all add: observe_attested_def overflow_def mark_degraded_def Let_def)
next
  case (HomeConfigure c)
  show ?thesis
    unfolding HomeConfigure home_do.simps using assms(1) by (rule retrying_same) simp_all
next
  case (HomeApplyStatus a)
  show ?thesis
    unfolding HomeApplyStatus home_do.simps using assms(1)
    by (rule retrying_same) (simp_all add: set_config_apply_status_def)
next
  case HomeReevaluate
  show ?thesis
    unfolding HomeReevaluate home_do.simps using assms(1) by (rule retrying_same) simp_all
qed (use assms(4,5) in simp_all)

lemma reconcile_session_keeps:
  "hm_session (hw_module (reconcile_session hx io w)) = hm_session (hw_module w)"
  "hm_start_dedupe (hw_module (reconcile_session hx io w)) = hm_start_dedupe (hw_module w)"
  "hw_calls (reconcile_session hx io w) = hw_calls w"
  "hm_started (hw_module (reconcile_session hx io w)) = hm_started (hw_module w)"
  by (simp_all add: reconcile_session_def mark_startup_inconsistent_def mark_degraded_def Let_def)

lemma reconcile_startup_keeps:
  "hm_session (hw_module (reconcile_startup hx io w)) = hm_session (hw_module w)"
  "hm_start_dedupe (hw_module (reconcile_startup hx io w)) = hm_start_dedupe (hw_module w)"
  "hw_calls (reconcile_startup hx io w) = hw_calls w"
  "hm_started (hw_module (reconcile_startup hx io w)) = hm_started (hw_module w)"
  by (simp_all add: reconcile_startup_def reconcile_session_keeps mark_startup_inconsistent_def mark_degraded_def
      reconcile_pending_def split: option.split home_action.split)

lemma loaded_simps:
  "hm_session (loaded_module hx wall v m) = trim_space (ha_active_session_id v)"
  "hm_start_dedupe (loaded_module hx wall v m) = trim_space (ha_last_start_dedupe_key v)"
  "hm_started (loaded_module hx wall v m) = hm_started m" "hm_config (loaded_module hx wall v m) = hm_config m"
  "hm_pending (loaded_module hx wall v m) =
     (case normalize_pending (hx_unicode hx) (trim_space (ha_pending_action v)) of
        None \<Rightarrow> hm_pending m
      | Some a \<Rightarrow> Some \<lparr> pn_action = a, pn_node = trim_space (ha_pending_trigger_node v),
          pn_device = trim_space (ha_pending_device_uid v), pn_reason = trim_space (ha_pending_reason v),
          pn_dedupe = trim_space (ha_pending_dedupe_key v),
          pn_since = (case ha_pending_since v of None \<Rightarrow> wall | Some t \<Rightarrow> t) \<rparr>)"
  by (simp_all add: loaded_module_def Let_def)

lemma persisted_simps:
  "ha_active_session_id (persisted_state hx m) = trim_space (hm_session m)"
  "ha_last_start_dedupe_key (persisted_state hx m) = trim_space (hm_start_dedupe m)"
  "hm_pending m = Some p \<Longrightarrow> ha_pending_action (persisted_state hx m) = action_text (pn_action p)"
  "hm_pending m = Some p \<Longrightarrow> ha_pending_trigger_node (persisted_state hx m) = trim_space (pn_node p)"
  "hm_pending m = Some p \<Longrightarrow> ha_pending_device_uid (persisted_state hx m) = trim_space (pn_device p)"
  "hm_pending m = Some p \<Longrightarrow> ha_pending_reason (persisted_state hx m) = trim_space (pn_reason p)"
  "hm_pending m = Some p \<Longrightarrow> ha_pending_dedupe_key (persisted_state hx m) = trim_space (pn_dedupe p)"
  by (simp_all add: persisted_state_def Let_def)

lemma untimed_eq:
  assumes "untimed v = persisted_state hx m"
  shows "ha_active_session_id v = ha_active_session_id (persisted_state hx m)"
    "ha_last_start_dedupe_key v = ha_last_start_dedupe_key (persisted_state hx m)"
    "ha_pending_action v = ha_pending_action (persisted_state hx m)"
    "ha_pending_trigger_node v = ha_pending_trigger_node (persisted_state hx m)"
    "ha_pending_device_uid v = ha_pending_device_uid (persisted_state hx m)"
    "ha_pending_reason v = ha_pending_reason (persisted_state hx m)"
    "ha_pending_dedupe_key v = ha_pending_dedupe_key (persisted_state hx m)"
  unfolding assms [symmetric] by (simp_all add: untimed_def)

lemma trim_start: "trim_space ''start'' = ''start''"
  by code_simp

lemma restart_retries:
  assumes "call_ok hx (CallStart now e y q m (Some s))" "untimed (da_home_auto_session (sv_data s)) = persisted_state hx m"
    "hc_reconcile (hm_config (hw_module (new_home hx io c (Some s) sn client)))"
  shows "\<exists>p. retrying p (start_home hx io' (new_home hx io c (Some s) sn client))
    \<and> pn_action p = StartAction \<and> pn_dedupe p = trim_space (ss_dedupe q) \<and> pn_node p = trim_space (ss_trigger q)
    \<and> pn_device p = trim_space (ss_device q) \<and> pn_reason p = trim_space (ss_reason q)"
proof -
  obtain k where k: "hm_pending m = Some (pending_of StartAction k now)" "hm_session m = []"
    "trim_space (tc_dedupe k) \<noteq> trim_space (hm_start_dedupe m)" "ss_dedupe q = tc_dedupe k" "ss_trigger q = tc_node k"
    "ss_device q = tc_device k" "ss_reason q = tc_reason k"
    using assms(1) by (auto simp: start_request_of_def)
  define v where "v = da_home_auto_session (sv_data s)"
  define p where "p = \<lparr> pn_action = StartAction, pn_node = trim_space (tc_node k), pn_device = trim_space (tc_device k),
    pn_reason = trim_space (tc_reason k), pn_dedupe = trim_space (tc_dedupe k),
    pn_since = (case ha_pending_since v of None \<Rightarrow> hi_wall io' | Some t \<Rightarrow> t) \<rparr>"
  have v: "ha_active_session_id v = []" "ha_last_start_dedupe_key v = trim_space (hm_start_dedupe m)"
    "ha_pending_action v = ''start''" "ha_pending_trigger_node v = trim_space (tc_node k)"
    "ha_pending_device_uid v = trim_space (tc_device k)" "ha_pending_reason v = trim_space (tc_reason k)"
    "ha_pending_dedupe_key v = trim_space (tc_dedupe k)"
    using k untimed_eq [OF assms(2) [folded v_def]] by (simp_all add: persisted_simps pending_of_def)
  let ?n = "on_module (\<lambda>m. m\<lparr> hm_started := True \<rparr>) (new_home hx io c (Some s) sn client)"
  define w where "w = on_module (loaded_module hx (hi_wall io') v) ?n"
  have w: "hm_pending (hw_module w) = Some p" "hm_session (hw_module w) = []" "hw_calls w = []"
    "hm_start_dedupe (hw_module w) = trim_space (hm_start_dedupe m)" "hm_started (hw_module w)"
    using v by (simp_all add: w_def loaded_simps trim_start normalize_start p_def new_home_fields)
  have "start_home hx io' (new_home hx io c (Some s) sn client) = settle hx io' 1 id (reconcile_startup hx io' w)"
    using assms(3) by (simp add: start_home_def bootstrap_home_def new_home_fields Let_def w_def v_def loaded_simps)
  moreover have "hm_pending (hw_module (reconcile_startup hx io' w)) = Some p"
    using w k(3) by (intro reconcile_pending_action) (simp_all add: p_def)
  ultimately have "retrying p (start_home hx io' (new_home hx io c (Some s) sn client))"
    using w k(3) by (simp_all add: retrying_def reconcile_startup_keeps p_def)
  then show ?thesis using k by (intro exI [of _ p]) (simp_all add: p_def)
qed

text \<open>A run from such a world, without a reset: the first call repeats the pending start.\<close>

lemma calls_grow: "\<exists>new. hw_calls (home_do hx io s w) = new @ hw_calls w"
  using step_calls [of hx io w s] by (auto simp: calls_added_def)

lemma calls_grow_run: "\<exists>new. hw_calls (run_home hx hist w) = new @ hw_calls w"
proof (induction hx hist w rule: run_home.induct)
  case (2 hx io s ss w)
  then obtain new where "hw_calls (run_home hx ss (home_do hx io s w)) = new @ hw_calls (home_do hx io s w)" by blast
  with calls_grow [of hx io s w] show ?case by (auto intro: exI [of _ "new @ _"])
qed simp

lemma retry_run:
  "retrying p w \<Longrightarrow> pn_action p = StartAction \<Longrightarrow> pn_dedupe p \<noteq> [] \<Longrightarrow> snd ` set hist \<inter> {HomeStart, HomeReset} = {}
   \<Longrightarrow> hw_calls (run_home hx hist w) = [] \<or> repeats p (last (hw_calls (run_home hx hist w)))"
proof (induction hx hist w rule: run_home.induct)
  case (2 hx io s ss w)
  have "retry_result p (home_do hx io s w)"
    using 2 by (intro retry_step) auto
  then consider "retrying p (home_do hx io s w)" | c where "hw_calls (home_do hx io s w) = [c]" "repeats p c"
    by (auto simp: retry_result_def)
  then show ?case
  proof cases
    case 1
    then show ?thesis using 2 by auto
  next
    case (2 c)
    then show ?thesis using calls_grow_run [of hx ss "home_do hx io s w"] by auto
  qed
qed (simp add: retrying_def)

end
