(* ===== verification/HomeEvidence.thy ===== *)
theory HomeEvidence
  imports HomeReplay
begin

text \<open>
  What a start request rests on: the positions a history was given that counted as a side of the
  geofence, and the fact that every start candidate, pending start and start call of the history is
  for a node that was seen to go from inside to outside.
\<close>

section \<open>Sightings\<close>

text \<open>The positions a history was given that the module took for a side of the geofence, newest first:
  key of the node, node, time and whether it was inside.\<close>

type_synonym sighting_log = "(string \<times> string \<times> time \<times> bool) list"

definition sight_entry :: "home_env \<Rightarrow> time \<Rightarrow> position_observation \<Rightarrow> home_module \<Rightarrow> sighting_log" where
  "sight_entry hx wall ob m =
     (case sight hx wall ob m of
        Located inside d \<Rightarrow> [(to_lower (hx_unicode hx) (node_of (hx_unicode hx) ob), node_of (hx_unicode hx) ob, ob_at ob, inside)]
      | _ \<Rightarrow> [])"

fun sighted :: "home_env \<Rightarrow> home_io \<Rightarrow> home_step \<Rightarrow> home_world \<Rightarrow> sighting_log" where
  "sighted hx io HomeTakeEvent w =
     (case hm_events (hw_module w) of
        [] \<Rightarrow> []
      | v # vs \<Rightarrow> (case event_observation (hi_wall io) v of
           None \<Rightarrow> [] | Some ob \<Rightarrow> sight_entry hx (hi_wall io) ob (hw_module w)))"
| "sighted hx io HomeTakePosition w =
     (case hm_positions (hw_module w) of
        [] \<Rightarrow> [] | ob # obs \<Rightarrow> sight_entry hx (hi_wall io) ob (hw_module w))"
| "sighted hx io s w = []"

fun sightings :: "home_env \<Rightarrow> home_history \<Rightarrow> home_world \<Rightarrow> sighting_log \<Rightarrow> sighting_log" where
  "sightings hx [] w log = log"
| "sightings hx ((io, s) # ss) w log = sightings hx ss (home_do hx io s w) (sighted hx io s w @ log)"

definition latest_side :: "string \<Rightarrow> sighting_log \<Rightarrow> bool option" where
  "latest_side key log = map_option (\<lambda>e. snd (snd (snd e))) (find (\<lambda>e. fst e = key) log)"

text \<open>The node was seen outside, having been inside when it was last seen before.\<close>

definition went_out :: "sighting_log \<Rightarrow> string \<Rightarrow> bool" where
  "went_out log node \<longleftrightarrow> node \<noteq> [] \<and> trim_space node = node
     \<and> (\<exists>newer key t older. log = newer @ (key, node, t, False) # older \<and> latest_side key older = Some True)"

lemma went_out_more: "went_out log node \<Longrightarrow> went_out (new @ log) node"
  unfolding went_out_def by (metis append.assoc)

definition evidence :: "sighting_log \<Rightarrow> home_module \<Rightarrow> bool" where
  "evidence log m \<longleftrightarrow>
     (\<forall>key f. hm_facts m key = Some f \<longrightarrow> nf_has_position f \<longrightarrow> latest_side key log = Some (nf_inside f))
     \<and> (\<forall>k. hm_start m = Some k \<longrightarrow> went_out log (tc_node k))
     \<and> (\<forall>p. hm_pending m = Some p \<longrightarrow> pn_action p = StartAction \<longrightarrow> went_out log (pn_node p))"

lemma evidence_same:
  "evidence log m \<Longrightarrow> hm_facts m' = hm_facts m \<Longrightarrow> hm_start m' \<in> {hm_start m, None}
   \<Longrightarrow> hm_pending m' \<in> {hm_pending m, None} \<Longrightarrow> evidence log m'"
  by (auto simp: evidence_def)

lemma evidence_settle: "evidence log (f (hw_module w)) \<Longrightarrow> evidence log (hw_module (settle hx io n f w))"
  by (erule evidence_same) simp_all

lemma evidence_start:
  "evidence log m \<Longrightarrow> went_out log (tc_node k) \<Longrightarrow> hm_facts m' = hm_facts m \<Longrightarrow> hm_start m' = Some k
   \<Longrightarrow> hm_pending m' \<in> {hm_pending m, None} \<Longrightarrow> evidence log m'"
  by (auto simp: evidence_def)

subsection \<open>Positions\<close>

lemma latest_side_Cons: "latest_side key ((k, n, t, side) # log) = (if k = key then Some side else latest_side key log)"
  by (simp add: latest_side_def)

lemma sight_node: "sight hx wall ob m \<noteq> Ignored \<Longrightarrow> node_of (hx_unicode hx) ob \<noteq> []"
  by (auto simp: sight_def Let_def)

lemma fact_of_evidence:
  "evidence log m \<Longrightarrow> nf_has_position (fact_of key m) \<Longrightarrow> latest_side key log = Some (nf_inside (fact_of key m))"
  by (cases "hm_facts m key") (auto simp: evidence_def fact_of_def no_fact_def)

lemma evidence_fact:
  assumes "evidence log m" "hm_facts m' = (hm_facts m)(key \<mapsto> f)" "nf_has_position f = nf_has_position (fact_of key m)"
    "nf_inside f = nf_inside (fact_of key m)" "hm_start m' = hm_start m" "hm_pending m' = hm_pending m"
  shows "evidence log m'"
proof -
  have "latest_side key log = Some (nf_inside f)" if "nf_has_position f"
    using fact_of_evidence [OF assms(1), of key] that assms(3,4) by simp
  then show ?thesis using assms(1,2,5,6) by (auto simp: evidence_def split: if_splits)
qed

lemma evidence_located:
  assumes "evidence log m" "node \<noteq> []" "trim_space node = node"
    "hm_facts m' = (hm_facts m)(key \<mapsto> f)" "nf_has_position f" "nf_inside f = side" "hm_pending m' = hm_pending m"
    "\<And>k. hm_start m' = Some k \<Longrightarrow> hm_start m = Some k
       \<or> tc_node k = node \<and> \<not> side \<and> nf_has_position (fact_of key m) \<and> nf_inside (fact_of key m)"
  shows "evidence ((key, node, t, side) # log) m'"
proof -
  have more: "went_out log n \<Longrightarrow> went_out ((key, node, t, side) # log) n" for n
    using went_out_more [of log n "[(key, node, t, side)]"] by simp
  have "went_out ((key, node, t, False) # log) node" if "latest_side key log = Some True"
    using that assms(2,3) unfolding went_out_def by blast
  then have "went_out ((key, node, t, side) # log) (tc_node k)" if "hm_start m' = Some k" for k
    using assms(8) [OF that] fact_of_evidence [OF assms(1), of key] assms(1) more by (auto simp: evidence_def)
  then show ?thesis
    using assms(1,4-7) more by (auto simp: evidence_def latest_side_Cons)
qed

lemma node_of_trimmed: "trim_space (node_of u ob) = node_of u ob"
  by (simp add: node_of_def)

lemma evidence_consume:
  assumes "evidence log m"
  shows "evidence (sight_entry hx wall ob m @ log) (consume_position hx wall ob m)"
proof (cases "sight hx wall ob m")
  case (Located inside d)
  let ?u = "hx_unicode hx"
  let ?key = "to_lower ?u (node_of ?u ob)"
  have "evidence ((?key, node_of ?u ob, ob_at ob, inside) # log) (consume_position hx wall ob m)"
    by (rule evidence_located [OF assms sight_node [of hx wall ob m] node_of_trimmed,
          of _ _ "located_fact ob inside d ((fact_of ?key m)\<lparr> nf_seen := ob_at ob \<rparr>)"])
      (auto simp: consume_position_def Located located_fact_def note_transition_def position_transition_def Let_def
        split: if_splits)
  then show ?thesis by (simp add: sight_entry_def Located)
qed (use assms in \<open>auto simp: sight_entry_def consume_position_def Let_def intro!: evidence_fact [OF assms]\<close>)

subsection \<open>Decisions\<close>

definition justified :: "sighting_log \<Rightarrow> home_world \<Rightarrow> bool" where
  "justified log w \<longleftrightarrow> evidence log (hw_module w)
     \<and> (\<forall>t e y q m st. CallStart t e y q m st \<in> set (hw_calls w) \<longrightarrow> went_out log (ss_trigger q))"

lemma justified_evidence: "justified log w \<Longrightarrow> evidence log (hw_module w)"
  by (simp add: justified_def)

lemma justified_settle:
  "justified log w \<Longrightarrow> evidence log (f (hw_module w)) \<Longrightarrow> justified log (settle hx io n f w)"
  by (simp add: justified_def evidence_settle)

lemma justified_settle_same:
  "justified log w \<Longrightarrow> hm_facts (f (hw_module w)) = hm_facts (hw_module w)
   \<Longrightarrow> hm_start (f (hw_module w)) \<in> {hm_start (hw_module w), None}
   \<Longrightarrow> hm_pending (f (hw_module w)) \<in> {hm_pending (hw_module w), None} \<Longrightarrow> justified log (settle hx io n f w)"
  by (rule justified_settle) (auto simp: justified_def elim: evidence_same)

lemma justified_same:
  "justified log w \<Longrightarrow> hw_calls w' = hw_calls w \<Longrightarrow> hm_facts (hw_module w') = hm_facts (hw_module w)
   \<Longrightarrow> hm_start (hw_module w') \<in> {hm_start (hw_module w), None}
   \<Longrightarrow> hm_pending (hw_module w') \<in> {hm_pending (hw_module w), None} \<Longrightarrow> justified log w'"
  by (auto simp: justified_def elim: evidence_same)

definition fewer :: "home_module \<Rightarrow> home_module \<Rightarrow> bool" where
  "fewer m m' \<longleftrightarrow> hm_facts m' = hm_facts m \<and> hm_start m' \<in> {hm_start m, None} \<and> hm_pending m' \<in> {hm_pending m, None}"

lemma degraded_fields:
  "hm_facts (degraded_module b d m) = hm_facts m" "hm_start (degraded_module b d m) = hm_start m"
  "hm_pending (degraded_module b d m) = hm_pending m"
  by (simp_all add: degraded_module_def Let_def)

lemma lifecycle_fields:
  "hm_facts (lifecycle_blocked l m) = hm_facts m" "hm_start (lifecycle_blocked l m) = None"
  "hm_pending (lifecycle_blocked l m) = None"
  by (simp_all add: lifecycle_blocked_def forget_candidates_def degraded_fields Let_def)

lemma conflict_fields:
  "hm_facts (active_conflict m) = hm_facts m" "hm_start (active_conflict m) = None" "hm_pending (active_conflict m) = None"
  "hm_facts (mismatch_conflict m) = hm_facts m" "hm_start (mismatch_conflict m) = None"
  "hm_pending (mismatch_conflict m) = None"
  by (simp_all add: active_conflict_def mismatch_conflict_def forget_candidates_def degraded_fields)

lemma synced_fields:
  "hm_facts (synced_session i m) = hm_facts m" "hm_start (synced_session i m) = None"
  "hm_pending (synced_session i m) = None"
  unfolding synced_session_def Let_def by (simp_all add: forget_candidates_def)

lemma retry_fields:
  "hm_facts (retry_after_failure hx now a err m) = hm_facts m" "hm_start (retry_after_failure hx now a err m) = hm_start m"
  "hm_pending (retry_after_failure hx now a err m) = hm_pending m"
  unfolding retry_after_failure_def Let_def by simp_all

lemmas fewer_updates = fewer_def degraded_fields lifecycle_fields conflict_fields synced_fields retry_fields

lemma missing_id_fields:
  "hm_facts (missing_id_retry hx now m) = hm_facts m" "hm_pending (missing_id_retry hx now m) = None"
  unfolding missing_id_retry_def Let_def by simp_all

lemma failed_evidence:
  assumes "evidence log m" "a = StartAction \<Longrightarrow> \<exists>p. hm_pending m = Some p \<and> pn_action p = StartAction"
  shows "evidence log (failed_module hx now a err m)"
proof (cases "lifecycle_conflict (hx_unicode hx) err = None \<and> a = StartAction
    \<and> \<not> start_already_active (hx_unicode hx) err \<and> start_missing_session_id (hx_unicode hx) err")
  case True
  define m1 where "m1 = m\<lparr> hm_error := or_text (client_error_text err) ''cloud/session API error'',
      hm_action := action_text a, hm_action_at := Some now, hm_failures := hm_failures m + 1 \<rparr>"
  obtain p where p: "hm_pending m = Some p" "pn_action p = StartAction" using assms(2) True by blast
  have w: "went_out log (pn_node p)" using assms(1) p by (auto simp: evidence_def)
  then have ne: "pn_node p \<noteq> []" "trim_space (pn_node p) = pn_node p" unfolding went_out_def by blast+
  then have n: "start_field pn_node tc_node m1 = pn_node p"
    using p by (simp add: start_field_def pending_start_def m1_def Let_def)
  have f: "failed_module hx now a err m = missing_id_retry hx now m1"
    using True by (simp add: failed_module_def Let_def m1_def)
  have "map_option tc_node (hm_start (missing_id_retry hx now m1)) = Some (pn_node p)"
    by (simp only: missing_id_retry_def Let_def n ne(1) if_False) simp
  then obtain k where "hm_start (missing_id_retry hx now m1) = Some k" "tc_node k = pn_node p" by blast
  moreover have "hm_facts (missing_id_retry hx now m1) = hm_facts m" "hm_pending (missing_id_retry hx now m1) = None"
    by (simp_all add: missing_id_fields m1_def)
  ultimately show ?thesis unfolding f using w by (intro evidence_start [OF assms(1), of k]) simp_all
next
  case False
  then have "fewer m (failed_module hx now a err m)"
    by (cases "lifecycle_conflict (hx_unicode hx) err")
      (simp_all add: failed_module_def Let_def fewer_updates, blast?)
  then show ?thesis using assms(1) by (auto simp: fewer_def elim: evidence_same)
qed

lemma keyed_node [simp]: "tc_node (keyed_transition hx a k) = tc_node k"
  by (simp add: keyed_transition_def)

lemma attempting_evidence:
  assumes "evidence log m" "a = StartAction \<Longrightarrow> went_out log (tc_node k)"
  shows "evidence log (attempting a k now m)"
proof -
  have "went_out log (pn_node (pending_of a k now))" if "pn_action (pending_of a k now) = StartAction"
    using assms(2) that by (auto simp: pending_of_def went_out_def)
  then show ?thesis using assms(1) by (simp add: evidence_def attempting_def)
qed

lemma started_fields:
  "hm_facts (started u k now r m) = hm_facts m" "hm_start (started u k now r m) = None"
  "hm_pending (started u k now r m) = None"
  by (simp_all add: started_def forget_candidates_def)

lemma stopped_fields:
  "hm_facts (stopped u k now r m) = hm_facts m" "hm_start (stopped u k now r m) = None"
  "hm_pending (stopped u k now r m) = None"
  by (simp_all add: stopped_def forget_candidates_def)

lemma settled_fields:
  "hm_facts (suppressed a now m) = hm_facts m" "hm_start (suppressed a now m) \<in> {hm_start m, None}"
  "hm_pending (suppressed a now m) = None" "hm_facts (deferred a now m) = hm_facts m"
  "hm_start (deferred a now m) = hm_start m" "hm_pending (deferred a now m) = hm_pending m"
  "hm_facts (client_missing a now m) = hm_facts m" "hm_start (client_missing a now m) = hm_start m"
  "hm_pending (client_missing a now m) = hm_pending m"
  by (simp_all add: suppressed_def deferred_def client_missing_def split: home_action.split)

lemma justified_settled:
  assumes "justified log w"
  shows "justified log (settle hx io 0 (suppressed a now) w)" "justified log (settle hx io 0 (deferred a now) w)"
    "justified log (settle hx io 0 (client_missing a now) w)"
proof -
  show "justified log (settle hx io 0 (suppressed a now) w)"
    using assms settled_fields(2) by (rule_tac justified_settle_same) (auto simp: settled_fields)
  show "justified log (settle hx io 0 (deferred a now) w)" "justified log (settle hx io 0 (client_missing a now) w)"
    using assms by (auto intro!: justified_settle_same simp: settled_fields)
qed

lemma justified_start:
  assumes "justified log w" "hm_start (hw_module w) = Some k"
  shows "justified log (attempt_start hx io now k w)"
proof -
  let ?k = "keyed_transition hx StartAction k"
  define w1 where "w1 = settle hx io 0 (attempting StartAction ?k now) w"
  define q where "q = start_request_of hx (hm_config (hw_module w)) ?k now"
  have out: "went_out log (tc_node k)" using assms by (simp add: justified_def evidence_def)
  have w1: "justified log w1" "hm_pending (hw_module w1) = Some (pending_of StartAction ?k now)"
    unfolding w1_def using assms(1) out
    by (auto intro!: justified_settle attempting_evidence elim: justified_evidence)
  have e: "went_out log (ss_trigger q)" using out by (simp add: q_def start_request_of_def)
  define w2 where "w2 e y = w1\<lparr> hw_calls := CallStart now e y q (hw_module w1) (hw_store w1) # hw_calls w1 \<rparr>" for e y
  have w2: "justified log (w2 e y)" "hm_pending (hw_module (w2 e y)) = hm_pending (hw_module w1)" for e y
    using w1(1) e by (auto simp: justified_def w2_def)
  have "justified log (handle_cloud_error hx io now StartAction err (w2 e y))" for err e y
    unfolding handle_cloud_error_def using w2 [of e y] w1(2)
    by (intro justified_settle failed_evidence) (auto simp: justified_def pending_of_def)
  moreover have "justified log (settle hx io (Suc 0) (started (hx_unicode hx) ?k now r) (w2 e y))" for r e y
    using w2(1) by (rule justified_settle_same) (simp_all add: started_fields)
  moreover note settled = justified_settled [OF assms(1), of hx io StartAction now]
  moreover   moreover have "attempt_start hx io now k w =
     (if trim_space (tc_dedupe ?k) = trim_space (hm_start_dedupe (hw_module w))
      then settle hx io 0 (suppressed StartAction now) w
      else case control_auth (hm_config (hw_module w)) StartAction w of
        None \<Rightarrow> settle hx io 0 (deferred StartAction now) w
      | Some (key, endpoint) \<Rightarrow>
          if \<not> hw_client w then settle hx io 0 (client_missing StartAction now) w
          else (case hi_start io q of
                  Inl err \<Rightarrow> handle_cloud_error hx io now StartAction err (w2 endpoint key)
                | Inr r \<Rightarrow> settle hx io 1 (started (hx_unicode hx) ?k now r) (w2 endpoint key)))"
    by (simp add: attempt_start_def Let_def w1_def w2_def q_def split: option.split sum.split)
  ultimately show ?thesis using settled by (simp split: option.split sum.split)
qed

lemma justified_failed_stop:
  "justified log w \<Longrightarrow> justified log (handle_cloud_error hx io now StopAction err w)"
  unfolding handle_cloud_error_def
  by (rule justified_settle) (auto intro!: failed_evidence elim: justified_evidence)

lemma justified_stopped:
  "justified log w \<Longrightarrow> justified log (settle hx io n (stopped u k now r) w)"
  by (rule justified_settle_same) (simp_all add: stopped_fields)

lemma justified_finish_stop:
  "justified log w \<Longrightarrow> justified log (finish_stop_call hx io now k r w)"
  by (simp add: finish_stop_call_def Let_def justified_failed_stop justified_stopped split: sum.split)

lemma justified_stop:
  assumes "justified log w"
  shows "justified log (attempt_stop hx io now k w)"
proof -
  let ?k = "keyed_transition hx StopAction k"
  have call: "justified log (v\<lparr> hw_calls := CallStop t e y q m st # cs \<rparr>)"
    if "justified log v" "cs = hw_calls v" for v t e y q m st cs
    using that by (simp add: justified_def)
  have call2: "justified log (v\<lparr> hw_calls := CallStop t e y q m st # CallStop t' e' y' q' m' st' # cs \<rparr>)"
    if "justified log v" "cs = hw_calls v" for v t e y q m st t' e' y' q' m' st' cs
    using that by (simp add: justified_def)
  have w1: "justified log (settle hx io 0 (attempting StopAction ?k now) w)"
    using assms by (intro justified_settle attempting_evidence) (auto elim: justified_evidence)
  note settled = justified_settled [OF assms, of hx io StopAction now]
  show ?thesis
    using w1 settled unfolding attempt_stop_def Let_def
    by (auto intro!: justified_finish_stop call call2 split: option.split sum.split)
qed

lemma justified_on_module:
  "justified log w \<Longrightarrow> evidence log (f (hw_module w)) \<Longrightarrow> justified log (on_module f w)"
  by (simp add: justified_def)

lemma evidence_promoted: "evidence log m \<Longrightarrow> evidence log (promote_pending m)"
  by (auto simp: evidence_def promote_pending_def pending_transition_def split: option.split home_action.split)

lemma evidence_note_idle: "evidence log m \<Longrightarrow> evidence log (note_idle_stop u now m)"
  by (erule evidence_same) (simp_all add: note_idle_stop_def)

lemma justified_active: "justified log w \<Longrightarrow> justified log (evaluate_active hx io now w)"
  unfolding evaluate_active_def Let_def
  by (auto intro!: justified_stop justified_settle_same justified_on_module evidence_note_idle justified_evidence
      split: option.split)

lemma justified_idle: "justified log w \<Longrightarrow> justified log (evaluate_idle hx io now w)"
  unfolding evaluate_idle_def Let_def
  by (auto intro!: justified_start justified_settle_same split: option.split)

lemma justified_ready: "justified log w \<Longrightarrow> justified log (evaluate_ready hx io now w)"
  unfolding evaluate_ready_def Let_def
  by (auto intro!: justified_active justified_idle justified_settle_same justified_on_module evidence_promoted
      justified_evidence)

lemma cooling_fields:
  "hm_facts (cooling_module hx m) = hm_facts m" "hm_start (cooling_module hx m) = hm_start m"
  "hm_pending (cooling_module hx m) = hm_pending m"
  by (simp_all add: cooling_module_def Let_def)

lemma evidence_resumed: "evidence log m \<Longrightarrow> evidence log (m\<lparr> hm_cooldown := c, hm_decision := d \<rparr>)"
  by (erule evidence_same) simp_all

lemma justified_evaluate:
  assumes "justified log w"
  shows "justified log (evaluate hx io now trigger w)"
proof -
  have "justified log (evaluate_ready hx io now (on_module (\<lambda>m. m\<lparr> hm_cooldown := None,
      hm_decision := ''fresh inside-geofence update received; retrying stop during cooldown'' \<rparr>) w))"
    using assms by (intro justified_ready justified_on_module evidence_resumed justified_evidence)
  then show ?thesis
    using justified_ready [OF assms, of hx io now] justified_settle_same [OF assms]
    by (simp add: evaluate_def Let_def cooling_fields split: option.split)
qed

text \<open>Every step keeps the evidence; a start of the module does so when it brings no pending start along.\<close>

lemma sighting_more: "justified log w \<Longrightarrow> evidence (new @ log) (f (hw_module w)) \<Longrightarrow> justified (new @ log) (on_module f w)"
  using went_out_more [of log _ new] by (fastforce simp: justified_def)

lemma evidence_queue:
  "evidence log m \<Longrightarrow> evidence log (m\<lparr> hm_positions := obs \<rparr>)" "evidence log m \<Longrightarrow> evidence log (m\<lparr> hm_events := vs \<rparr>)"
  by (erule evidence_same; simp)+

lemma sight_queue:
  "sight_entry hx wall ob (m\<lparr> hm_positions := obs \<rparr>) = sight_entry hx wall ob m"
  "sight_entry hx wall ob (m\<lparr> hm_events := vs \<rparr>) = sight_entry hx wall ob m"
  by (simp_all add: sight_entry_def sight_def fact_of_def Let_def)

lemma justified_neutral:
  "justified log w \<Longrightarrow> hw_calls w' = hw_calls w \<Longrightarrow> fewer (hw_module w) (hw_module w') \<Longrightarrow> justified log w'"
  unfolding fewer_def by (blast intro: justified_same)

lemma justified_event:
  assumes "justified log w" "hm_events (hw_module w) = v # vs"
  shows "justified (sighted hx io HomeTakeEvent w @ log) (home_do hx io HomeTakeEvent w)"
proof -
  let ?m = "(hw_module w)\<lparr> hm_events := vs \<rparr>"
  have m: "evidence log ?m" using assms(1) by (intro evidence_queue justified_evidence)
  have "evidence (sighted hx io HomeTakeEvent w @ log) (consume_event hx (hi_wall io) v ?m)"
    using m evidence_consume [OF m, of hx "hi_wall io"] assms(2)
    by (simp add: consume_event_def sight_queue split: option.split)
  then show ?thesis
    using sighting_more [OF assms(1), of _ "\<lambda>m. consume_event hx (hi_wall io) v (m\<lparr> hm_events := vs \<rparr>)"] assms(2)
    by (simp add: justified_evaluate)
qed

lemma justified_position:
  assumes "justified log w" "hm_positions (hw_module w) = ob # obs"
  shows "justified (sighted hx io HomeTakePosition w @ log) (home_do hx io HomeTakePosition w)"
proof -
  let ?m = "(hw_module w)\<lparr> hm_positions := obs \<rparr>"
  have m: "evidence log ?m" using assms(1) by (intro evidence_queue justified_evidence)
  have "evidence (sighted hx io HomeTakePosition w @ log) (consume_position hx (hi_wall io) ob ?m)"
    using evidence_consume [OF m, of hx "hi_wall io"] assms(2) by (simp add: sight_queue)
  then show ?thesis
    using sighting_more [OF assms(1), of _ "\<lambda>m. consume_position hx (hi_wall io) ob (m\<lparr> hm_positions := obs \<rparr>)"] assms(2)
    by (simp add: justified_evaluate)
qed

lemma justified_step:
  assumes "justified log w" "s \<noteq> HomeStart"
  shows "justified (sighted hx io s w @ log) (home_do hx io s w)"
proof (cases s)
  case HomeTakeEvent
  then show ?thesis using assms(1) justified_event by (cases "hm_events (hw_module w)") fastforce+
next
  case HomeTakePosition
  then show ?thesis using assms(1) justified_position by (cases "hm_positions (hw_module w)") fastforce+
next
  case HomeTakeReevaluate
  have "justified log (on_module (\<lambda>m. m\<lparr> hm_reevaluate := False \<rparr>) w)"
    using assms(1) by (rule justified_same) simp_all
  then show ?thesis using HomeTakeReevaluate assms(1) by (simp add: justified_evaluate)
next
  case (HomeTick trigger)
  then show ?thesis using justified_evaluate [OF assms(1)] by simp
next
  case (HomeObserve v)
  have "justified log (observe_event hx io v w)" using assms(1)
    by (rule justified_neutral) (simp_all add: observe_event_def overflow_def mark_degraded_def fewer_updates)
  then show ?thesis by (simp add: HomeObserve)
next
  case (HomeAttest ob)
  have "justified log (observe_attested hx io ob w)" using assms(1)
    by (rule justified_neutral)
      (simp_all add: observe_attested_def overflow_def mark_degraded_def fewer_updates Let_def)
  then show ?thesis by (simp add: HomeAttest)
next
  case (HomeConfigure c)
  have "justified log (fst (apply_config hx io c w))" using assms(1)
    by (rule justified_neutral) (simp_all add: fewer_def)
  then show ?thesis by (simp add: HomeConfigure)
next
  case (HomeApplyStatus a)
  have "justified log (set_config_apply_status hx io a w)" using assms(1)
    by (rule justified_neutral) (simp_all add: set_config_apply_status_def fewer_def)
  then show ?thesis by (simp add: HomeApplyStatus)
next
  case HomeReset
  have "justified log (reset_degraded hx io w)" using assms(1)
    by (rule justified_neutral) (simp_all add: reset_degraded_def fewer_def)
  then show ?thesis by (simp add: HomeReset)
next
  case HomeReevaluate
  have "justified log (on_module (\<lambda>m. m\<lparr> hm_reevaluate := True \<rparr>) w)" using assms(1)
    by (rule justified_same) simp_all
  then show ?thesis by (simp add: HomeReevaluate)
qed (use assms(2) in simp)

lemma justified_run:
  "justified log w \<Longrightarrow> HomeStart \<notin> snd ` set hist \<Longrightarrow> justified (sightings hx hist w log) (run_home hx hist w)"
  by (induction hx hist w log rule: sightings.induct) (auto intro: justified_step)

text \<open>A module that has just started knows no node yet; what it brings along is the pending action.\<close>

lemma reconcile_session_empty:
  "hm_facts (hw_module (reconcile_session hx io w)) = hm_facts (hw_module w)"
  "hm_start (hw_module (reconcile_session hx io w)) \<in> {hm_start (hw_module w), None}"
  "hm_pending (hw_module (reconcile_session hx io w)) \<in> {hm_pending (hw_module w), None}"
  by (simp_all add: reconcile_session_def mark_startup_inconsistent_def mark_degraded_def fewer_updates Let_def)

lemma start_evidence:
  assumes "\<forall>p. hm_pending (hw_module w) = Some p \<longrightarrow> pn_action p = StopAction" "hm_facts (hw_module w) = Map.empty"
    "hm_start (hw_module w) = None"
  shows "evidence [] (hw_module (reconcile_startup hx io w))"
proof (cases "hm_pending (hw_module w)")
  case None
  then show ?thesis
    using assms reconcile_session_empty [of hx io w] by (auto simp: reconcile_startup_def evidence_def)
next
  case (Some p)
  define w1 where "w1 = on_module (reconcile_pending p) w"
  have stop: "pn_action p = StopAction" using assms(1) Some by blast
  then have w1: "hm_facts (hw_module w1) = Map.empty" "hm_start (hw_module w1) = None"
    "hm_pending (hw_module w1) \<in> {Some p, None}"
    using assms(2,3) Some by (auto simp: w1_def reconcile_pending_def)
  then have "evidence [] (hw_module (reconcile_session hx io w1))"
    using reconcile_session_empty [of hx io w1] stop by (auto simp: evidence_def)
  moreover have "evidence [] (hw_module (mark_startup_inconsistent hx io r w))" for r
    using assms(2,3) Some stop by (simp add: evidence_def mark_startup_inconsistent_def mark_degraded_def degraded_fields)
  ultimately show ?thesis using Some by (simp add: reconcile_startup_def w1_def)
qed

definition no_pending_start :: "home_env \<Rightarrow> state_store option \<Rightarrow> bool" where
  "no_pending_start hx st \<longleftrightarrow>
     (case st of None \<Rightarrow> True
      | Some s \<Rightarrow> normalize_pending (hx_unicode hx)
                   (trim_space (ha_pending_action (da_home_auto_session (sv_data s)))) \<noteq> Some StartAction)"

lemma justified_from_start:
  assumes "no_pending_start hx st"
  shows "justified [] (start_home hx io (new_home hx io' c st sn client))"
proof -
  define w where "w = on_module (\<lambda>m. m\<lparr> hm_started := True \<rparr>) (new_home hx io' c st sn client)"
  have w: "hm_facts (hw_module w) = Map.empty" "hm_start (hw_module w) = None" "hm_pending (hw_module w) = None"
    "hw_calls w = []" "hw_store w = st"
    by (simp_all add: w_def new_home_fields)
  have "evidence [] (hw_module (bootstrap_home hx io w)) \<and> hw_calls (bootstrap_home hx io w) = []"
  proof (cases st)
    case None
    then show ?thesis using w by (simp add: bootstrap_home_def evidence_def)
  next
    case (Some s)
    define v where "v = da_home_auto_session (sv_data s)"
    define w2 where "w2 = on_module (loaded_module hx (hi_wall io) v) w"
    have facts: "hm_facts (hw_module w2) = Map.empty" "hm_start (hw_module w2) = None" "hw_calls w2 = []"
      using w by (simp_all add: w2_def loaded_module_def Let_def)
    have "pn_action p = StopAction" if "hm_pending (hw_module w2) = Some p" for p
      using that assms w(3) Some
      by (cases "pn_action p") (auto simp: w2_def loaded_simps no_pending_start_def v_def split: option.splits)
    then have "evidence [] (hw_module (reconcile_startup hx io w2))" "hw_calls (reconcile_startup hx io w2) = []"
      using facts by (auto intro: start_evidence simp: reconcile_startup_keeps)
    moreover have "evidence [] (cleared_markers (hw_module w2))"
      using facts by (simp add: cleared_markers_def evidence_def)
    ultimately show ?thesis
      using Some w(5) facts by (simp add: bootstrap_home_def Let_def flip: w2_def v_def)
  qed
  then have "justified [] (bootstrap_home hx io w)" by (simp add: justified_def)
  then have "justified [] (settle hx io 1 id (bootstrap_home hx io w))"
    by (rule justified_settle_same) simp_all
  then show ?thesis by (simp add: start_home_def new_home_fields w_def)
qed

lemma justified_history:
  assumes "no_pending_start hx st" "HomeStart \<notin> snd ` set hist"
    "CallStart t e y q m s \<in> set (hw_calls (run_home hx hist (start_home hx io (new_home hx io' c st sn client))))"
  shows "went_out (sightings hx hist (start_home hx io (new_home hx io' c st sn client)) []) (ss_trigger q)"
  using justified_run [OF justified_from_start [OF assms(1)] assms(2)] assms(3) by (fastforce simp: justified_def)

end
