(* ===== verification/HomeDemo.thy ===== *)
theory HomeDemo
  imports HomeEvidence DispatchProps
begin

text \<open>
  A concrete home auto session for the witnesses: one tracked node, a module in control mode over a paired
  store, and an outing of that node in which it is seen inside, then outside, and the module starts a session. Writes
  to the store fail here, so the store stays as it is given.
\<close>

definition demo_home_data :: state_data where
  "demo_home_data = no_state_data\<lparr> da_pairing := (da_pairing no_state_data)\<lparr> pg_phase := phase_steady \<rparr>,
     da_cloud := (da_cloud no_state_data)\<lparr> cs_ingest_api_key := ''k'' \<rparr> \<rparr>"

definition demo_home_env :: home_env where
  "demo_home_env = \<lparr> hx_unicode = demo_unicode,
     hx_state = \<lparr> se_unicode = demo_unicode, se_sha256 = (\<lambda>_. ''d''), se_marshal = (\<lambda>_. None),
       se_indent = (\<lambda>_. None), se_decode = (\<lambda>_ d. (d, False)), se_text = id \<rparr>,
     hx_digest = (\<lambda>_. ''digest''), hx_fingerprint = (\<lambda>_. []), hx_config_hash = (\<lambda>_. ''h''),
     hx_rfc3339 = (\<lambda>_. ''t''), hx_rfc3339_nano = (\<lambda>_. ''n''), hx_seconds_text = (\<lambda>_. ''s''),
     hx_distance = (\<lambda>_ _ lat _. lat), hx_margin_product = (\<lambda>_. 0), hx_boundary_gap = (\<lambda>_ _. margin_cap),
     hx_margin_text = (\<lambda>_. ''m''), hx_home_text = (\<lambda>_ _ _. ''home''), hx_home_json = (\<lambda>_ _ _. Map.empty) \<rparr>"

definition demo_home_config :: home_config where
  "demo_home_config = \<lparr> hc_enabled = True, hc_mode = ''control'', hc_lat = 0, hc_lon = 0,
     hc_radius = 0x4024000000000000, hc_tracked = [''n''], hc_start_debounce = second, hc_stop_debounce = second,
     hc_idle_timeout = minute, hc_reconcile = True, hc_name_template = [], hc_notes_template = [],
     hc_start_endpoint = [], hc_stop_endpoint = [] \<rparr>"

definition demo_home_store :: state_store where
  "demo_home_store = \<lparr> sv_data = demo_home_data, sv_recovered = False, sv_file = None, sv_backup = None \<rparr>"

definition demo_write :: state_io where
  "demo_write = \<lparr> si_now = 1, si_fail = (\<lambda>_. False), si_entropy = None, si_read = True, si_backup = Renamed \<rparr>"

definition demo_home_io :: "time \<Rightarrow> home_io" where
  "demo_home_io t = \<lparr> hi_wall = t, hi_write = (\<lambda>_. demo_write), hi_start = (\<lambda>_. Inl MissingApiKey),
     hi_stop = (\<lambda>_ _. Inl MissingApiKey) \<rparr>"

definition demo_sighting :: "float64 \<Rightarrow> time \<Rightarrow> home_event" where
  "demo_sighting lat t = \<lparr> hv_packet = Some \<lparr> hp_source = ''n'', hp_received = t, hp_position = Some (lat, 0) \<rparr>, hv_received = t \<rparr>"

definition demo_home_new :: home_world where
  "demo_home_new = new_home demo_home_env (demo_home_io second) demo_home_config (Some demo_home_store) None True"

definition demo_home :: home_world where
  "demo_home = start_home demo_home_env (demo_home_io second) demo_home_new"

definition demo_outing :: home_history where
  "demo_outing = [(demo_home_io (2 * second), HomeObserve (demo_sighting 0 (2 * second))), (demo_home_io (2 * second), HomeTakeEvent),
     (demo_home_io (3 * second), HomeObserve (demo_sighting 0x4049000000000000 (3 * second))), (demo_home_io (3 * second), HomeTakeEvent),
     (demo_home_io (5 * second), HomeTick ''tick'')]"



lemma demo_mode: "normalize_mode demo_unicode ''control'' = ''control''"
  by code_simp
lemma demo_n: "to_lower demo_unicode (trim_space ''n'') = ''n''" by code_simp
lemma demo_fold: "same_fold demo_unicode ''control'' ''off'' = False"
  by code_simp
lemma demo_ids: "distinct_ids demo_unicode {} [''n''] = [''n'']"
proof -
  have "trim_space ''n'' = ''n''" by code_simp
  then show ?thesis unfolding distinct_ids.simps Let_def by simp
qed

lemma demo_off: "module_off demo_unicode demo_home_config = False" by code_simp
lemma demo_valid: "validate_config demo_unicode demo_home_config = None" by code_simp
lemma demo_norm: "normalize_config demo_unicode demo_home_config = demo_home_config"
  by (simp add: normalize_config_def demo_home_config_def demo_mode demo_ids del: distinct_ids.simps)

lemma demo_home_env_simps:
  "hx_unicode demo_home_env = demo_unicode" "hx_config_hash demo_home_env c = ''h''"
  "hx_distance demo_home_env a b lat lon = lat" "hx_boundary_gap demo_home_env d r = margin_cap"
  by (simp_all add: demo_home_env_def)

lemma demo_margin: "\<not> f64_le margin_cap (boundary_margin demo_home_env r)"
  by (simp add: boundary_margin_def demo_home_env_def Let_def) code_simp

lemma demo_persist: "hw_store (persist_home demo_home_env io n w) = hw_store w"
  by (simp add: persist_home_def update_store_def clone_data_def demo_home_env_def Let_def split: option.split)

lemma demo_settle: "hw_store (settle demo_home_env io n f w) = hw_store w"
  by (simp add: settle_def demo_persist)

definition demo_steady :: "state_store option \<Rightarrow> bool" where
  "demo_steady st \<longleftrightarrow> (\<exists>s. st = Some s \<and> pg_phase (da_pairing (sv_data s)) = phase_steady
     \<and> cs_ingest_api_key (da_cloud (sv_data s)) = ''k'')"

lemma demo_store_steady: "demo_steady (Some demo_home_store)"
  by (simp add: demo_steady_def demo_home_store_def demo_home_data_def no_state_data_def)

definition demo_calm :: "home_event list \<Rightarrow> transition option \<Rightarrow> (string \<rightharpoonup> node_fact) \<Rightarrow> home_world \<Rightarrow> bool" where
  "demo_calm ev k facts w \<longleftrightarrow> demo_steady (hw_store w) \<and> hw_client w \<and> hw_calls w = [] \<and>
     (let m = hw_module w in hm_config m = demo_home_config \<and> hm_tracked m = [''n'' \<mapsto> ''n''] \<and> hm_facts m = facts \<and>
       hm_start m = k \<and> hm_pending m = None \<and> hm_session m = [] \<and> hm_cooldown m = None \<and> hm_stabilize m = None \<and>
       hm_state m \<noteq> ''degraded'' \<and> hm_start_dedupe m = [] \<and> hm_events m = ev)"


lemma demo_new_fields:
  assumes "w = new_home demo_home_env io demo_home_config st None True"
  shows "hw_store w = st" "hw_client w" "hw_calls w = []" "hm_config (hw_module w) = demo_home_config"
    "hm_tracked (hw_module w) = [''n'' \<mapsto> ''n'']" "hm_started (hw_module w) = False" "hm_pending (hw_module w) = None"
    "hm_start (hw_module w) = None" "hm_facts (hw_module w) = Map.empty" "hm_events (hw_module w) = []"
    "hm_state (hw_module w) = ''disabled''"
proof -
  have t: "hc_tracked demo_home_config = [''n'']" by (simp add: demo_home_config_def)
  have n: "hx_unicode demo_home_env = demo_unicode" "hx_config_hash demo_home_env c = ''h''" for c
    by (simp_all add: demo_home_env_def)
  show "hw_store w = st" "hw_client w" "hw_calls w = []" "hm_config (hw_module w) = demo_home_config"
    "hm_tracked (hw_module w) = [''n'' \<mapsto> ''n'']" "hm_started (hw_module w) = False" "hm_pending (hw_module w) = None"
    "hm_start (hw_module w) = None" "hm_facts (hw_module w) = Map.empty" "hm_events (hw_module w) = []"
    "hm_state (hw_module w) = ''disabled''"
    unfolding assms new_home_def apply_config_def Let_def
    by (simp_all add: demo_norm demo_valid n blank_module_def t demo_n)
qed

lemmas demo_new_simps = demo_new_fields [OF demo_home_new_def]

lemma demo_home_auto: "da_home_auto_session (sv_data demo_home_store) = no_home_auto"
  by (simp add: demo_home_store_def demo_home_data_def no_state_data_def)

lemma demo_loaded:
  "hm_pending (loaded_module hx t no_home_auto m) = hm_pending m" "hm_session (loaded_module hx t no_home_auto m) = []"
  "hm_trigger (loaded_module hx t no_home_auto m) = []" "hm_cooldown (loaded_module hx t no_home_auto m) = None"
  "hm_stabilize (loaded_module hx t no_home_auto m) = None" "hm_state (loaded_module hx t no_home_auto m) = hm_state m"
  "hm_start_dedupe (loaded_module hx t no_home_auto m) = []" "hm_events (loaded_module hx t no_home_auto m) = hm_events m"
  "hm_config (loaded_module hx t no_home_auto m) = hm_config m" "hm_tracked (loaded_module hx t no_home_auto m) = hm_tracked m"
  "hm_facts (loaded_module hx t no_home_auto m) = hm_facts m" "hm_start (loaded_module hx t no_home_auto m) = hm_start m"
  unfolding loaded_module_def Let_def by (simp_all add: no_home_auto_def normalize_pending_def to_lower_def Let_def)

lemma demo_home_calm: "demo_calm [] None Map.empty demo_home"
proof -
  have r: "hc_reconcile demo_home_config" by (simp add: demo_home_config_def)
  show ?thesis
    unfolding demo_home_def start_home_def bootstrap_home_def
    by (simp add: demo_new_simps demo_home_auto demo_calm_def demo_settle r Let_def reconcile_startup_def
        reconcile_session_def demo_loaded demo_store_steady)
qed

text \<open>The steps of the outing.\<close>

lemma demo_calm_simps:
  assumes "demo_calm ev k facts w"
 shows "demo_steady (hw_store w)" "hw_client w" "hw_calls w = []"
    "hm_config (hw_module w) = demo_home_config" "hm_tracked (hw_module w) = [''n'' \<mapsto> ''n'']" "hm_facts (hw_module w) = facts"
    "hm_start (hw_module w) = k" "hm_pending (hw_module w) = None" "hm_session (hw_module w) = []"
    "hm_cooldown (hw_module w) = None" "hm_stabilize (hw_module w) = None" "hm_state (hw_module w) \<noteq> ''degraded''"
    "hm_start_dedupe (hw_module w) = []" "hm_events (hw_module w) = ev"
  using assms by (simp_all add: demo_calm_def Let_def)

lemma demo_observe: "demo_calm [] k facts w \<Longrightarrow> demo_calm [v] k facts (home_do demo_home_env io (HomeObserve v) w)"
  by (simp add: demo_calm_def observe_event_def queue_depth_def Let_def)

lemma demo_waits:
  assumes "demo_calm ev k facts w" "\<forall>c. k = Some c \<longrightarrow> time_sub now (tc_at c) < second"
  shows "demo_calm ev k facts (evaluate demo_home_env io now trigger w)"
proof -
  have c: "hc_mode demo_home_config = ''control''" "hc_start_debounce demo_home_config = second"
    by (simp_all add: demo_home_config_def)
  show ?thesis
    using assms(2)
    by (simp add: demo_calm_def evaluate_def evaluate_ready_def evaluate_idle_def is_blocked_def waits_def
        promote_pending_def Let_def demo_settle demo_calm_simps [OF assms(1)] demo_home_env_simps demo_off demo_valid demo_mode c
        split: option.split)
qed

lemma demo_position:
  assumes "hv_packet v = Some \<lparr> hp_source = ''n'', hp_received = t, hp_position = Some (lat, 0) \<rparr>" "0 < t"
  shows "event_observation wall v = Some \<lparr> ob_protocol = ''meshtastic'', ob_namespace = ''meshtastic_node_id'', ob_id = ''n'',
     ob_device = [], ob_lat = lat, ob_lon = 0, ob_at = t, ob_evidence = ''legacy_meshtastic'', ob_has_position = True \<rparr>"
    "event_time wall v = t"
  using assms by (simp_all add: event_observation_def event_time_def is_zero_def zero_time_def)


lemma demo_f64:
  "f64_le 0 0x4024000000000000" "\<not> f64_le 0x4049000000000000 0x4024000000000000"
  "coordinates_valid 0 0" "coordinates_valid 0x4049000000000000 0"
  by code_simp+

abbreviation demo_seen :: "float64 \<Rightarrow> time \<Rightarrow> position_observation" where
  "demo_seen lat t \<equiv> \<lparr> ob_protocol = ''meshtastic'', ob_namespace = ''meshtastic_node_id'', ob_id = ''n'',
     ob_device = [], ob_lat = lat, ob_lon = 0, ob_at = t, ob_evidence = ''legacy_meshtastic'', ob_has_position = True \<rparr>"

lemma demo_subject: "subject_key demo_unicode ''meshtastic'' ''meshtastic_node_id'' ''n'' = ''n''"
  by (simp add: subject_key_def to_lower_def trim_space_visible ascii_only_def of_char_def Let_def) (code_simp)?

lemma demo_protocol: "same_fold demo_unicode ''meshtastic'' ''meshcore'' = False"
  by code_simp

lemma demo_node: "node_of demo_unicode (demo_seen lat t) = ''n''" "is_meshcore_key demo_unicode (demo_seen lat t) = False"
  by (simp_all add: node_of_def observation_key_def is_meshcore_key_def demo_subject demo_protocol trim_space_visible)

lemma demo_sight:
  assumes "demo_calm ev k facts w" "0 < t" "coordinates_valid lat 0"
  shows "sight demo_home_env t (demo_seen lat t) (hw_module w) = Located (f64_le lat 0x4024000000000000) lat"
proof -
  have c: "hc_mode demo_home_config = ''control''" "hc_enabled demo_home_config" "hc_radius demo_home_config = 0x4024000000000000"
    "\<not> position_is_stale t t (stale_threshold demo_home_config)" "to_lower demo_unicode ''n'' = ''n''"
    using assms(2) demo_n by (simp_all add: demo_home_config_def position_is_stale_def is_zero_def zero_time_def time_sub_def
      stale_threshold_def home_constants second_def minute_def to_lower_def trim_space_visible)
  show ?thesis
    using assms(2,3) demo_calm_simps(4,5) [OF assms(1)]
    by (simp add: sight_def Let_def demo_home_env_simps demo_node c demo_fold demo_margin is_zero_def zero_time_def)
qed


lemma demo_take:
  assumes "demo_calm [demo_sighting lat t] k facts w" "0 < t" "coordinates_valid lat 0"
    "f = located_fact (demo_seen lat t) (f64_le lat 0x4024000000000000) lat (fact_of ''n'' (hw_module w)\<lparr> nf_seen := t \<rparr>)"
    "k' = hm_start (note_transition demo_home_env (demo_seen lat t) ''n'' (f64_le lat 0x4024000000000000)
            (fact_of ''n'' (hw_module w)\<lparr> nf_seen := t \<rparr>) (hw_module w))"
    "\<forall>c. k' = Some c \<longrightarrow> time_sub t (tc_at c) < second"
  shows "demo_calm [] k' (facts(''n'' \<mapsto> f)) (home_do demo_home_env (demo_home_io t) HomeTakeEvent w)"
    and "sighted demo_home_env (demo_home_io t) HomeTakeEvent w = [(''n'', ''n'', t, f64_le lat 0x4024000000000000)]"
proof -
  let ?m = "(hw_module w)\<lparr> hm_events := [] \<rparr>"
  have o: "event_observation t (demo_sighting lat t) = Some (demo_seen lat t)" "event_time t (demo_sighting lat t) = t"
    using demo_position [of "demo_sighting lat t" t lat] assms(2) by (simp_all add: demo_sighting_def)
  have s: "sight demo_home_env t (demo_seen lat t) (hw_module w) = Located (f64_le lat 0x4024000000000000) lat"
    by (rule demo_sight [OF assms(1-3)])
  have n: "to_lower demo_unicode ''n'' = ''n''" using demo_n by (simp add: trim_space_visible)
  have sm: "sight demo_home_env t (demo_seen lat t) ?m = Located (f64_le lat 0x4024000000000000) lat"
    using s by (simp add: sight_def fact_of_def Let_def)
  have "demo_calm [] k' (facts(''n'' \<mapsto> f)) (on_module (consume_event demo_home_env t (demo_sighting lat t)) (w\<lparr> hw_module := ?m \<rparr>))"
    using assms(4,5)
    by (simp add: demo_calm_def consume_event_def o consume_position_def sm demo_calm_simps [OF assms(1)] set_gps_def
        note_transition_def fact_of_def Let_def demo_home_env_simps demo_node n)
  from demo_waits [OF this assms(6), of "demo_home_io t" "''event''"]
  show "demo_calm [] k' (facts(''n'' \<mapsto> f)) (home_do demo_home_env (demo_home_io t) HomeTakeEvent w)"
    by (simp add: demo_calm_simps(14) [OF assms(1)] demo_home_io_def o)
  show "sighted demo_home_env (demo_home_io t) HomeTakeEvent w = [(''n'', ''n'', t, f64_le lat 0x4024000000000000)]"
    by (simp add: demo_calm_simps(14) [OF assms(1)] demo_home_io_def o sight_entry_def s demo_home_env_simps demo_node n)
qed


definition demo_candidate_start :: transition where
  "demo_candidate_start = position_transition demo_home_env StartAction left_home (demo_seen 0x4049000000000000 (3 * second)) ''n''"

lemma demo_paired: "control_auth demo_home_config StartAction w = Some (''k'', ''/api/receiver/home-auto-session/start'')"
  if "demo_steady (hw_store w)"
proof -
  have "trim_space ''k'' = ''k''" by (rule trim_space_visible) simp
  then show ?thesis
    using that by (auto simp: control_auth_def demo_steady_def or_text_def default_endpoint_def demo_home_config_def Let_def)
qed

lemma demo_settle_module: "hw_module (settle demo_home_env io n f w) = f (hw_module w)"
  by (simp add: settle_def persist_home_def update_store_def clone_data_def demo_home_env_def Let_def split: option.split)

lemma demo_calls:
  assumes "demo_calm ev (Some c) facts w" "second \<le> time_sub now (tc_at c)"
    "trim_space (tc_dedupe (keyed_transition demo_home_env StartAction c)) \<noteq> []"
  shows "hw_calls (evaluate demo_home_env io now trigger w) =
    [CallStart now ''/api/receiver/home-auto-session/start'' ''k''
       (start_request_of demo_home_env demo_home_config (keyed_transition demo_home_env StartAction c) now)
       (attempting StartAction (keyed_transition demo_home_env StartAction c) now (hw_module w)) (hw_store w)]"
proof -
  have c: "hc_mode demo_home_config = ''control''" "hc_start_debounce demo_home_config = second"
    by (simp_all add: demo_home_config_def)
  have e: "evaluate demo_home_env io now trigger w = attempt_start demo_home_env io now c w"
    using assms(2)
    by (simp add: evaluate_def evaluate_ready_def evaluate_idle_def is_blocked_def waits_def promote_pending_def Let_def
        demo_calm_simps [OF assms(1)] demo_home_env_simps demo_off demo_valid demo_mode c)
  show ?thesis
    unfolding e attempt_start_def Let_def
    using assms(3)
    by (simp add: demo_calm_simps [OF assms(1)] demo_paired demo_settle demo_settle_module split: sum.split)
qed

lemma demo_candidate_key:
  "tc_dedupe (keyed_transition demo_home_env StartAction demo_candidate_start) = ''start-646967657374''"
  "trim_space (tc_dedupe (keyed_transition demo_home_env StartAction demo_candidate_start)) = ''start-646967657374''"
proof -
  have d: "hx_digest demo_home_env t = ''digest''" for t by (simp add: demo_home_env_def)
  have h: "hex_encode ''digest'' = ''646967657374''" by code_simp
  have p: "trim_space ''meshtastic'' = ''meshtastic''" by (rule trim_space_visible) simp
  show "tc_dedupe (keyed_transition demo_home_env StartAction demo_candidate_start) = ''start-646967657374''"
    by (simp add: keyed_transition_def demo_candidate_start_def position_transition_def position_dedupe_key_def p
        demo_protocol dedupe_key_def d h demo_home_env_simps del: take_Cons_numeral)
  then show "trim_space (tc_dedupe (keyed_transition demo_home_env StartAction demo_candidate_start)) = ''start-646967657374''"
    by (simp add: trim_space_visible)
qed

definition demo_before :: home_world where
  "demo_before = run_home demo_home_env (butlast demo_outing) demo_home"

lemma demo_outing_before:
  "sightings demo_home_env demo_outing demo_home [] = [(''n'', ''n'', 3 * second, False), (''n'', ''n'', 2 * second, True)]"
  "\<exists>facts. demo_calm [] (Some demo_candidate_start) facts demo_before"
proof -
  let ?in = "demo_sighting 0 (2 * second)" and ?out = "demo_sighting 0x4049000000000000 (3 * second)"
  let ?io = demo_home_io
  define w1 where "w1 = home_do demo_home_env (?io (2 * second)) (HomeObserve ?in) demo_home"
  define w2 where "w2 = home_do demo_home_env (?io (2 * second)) HomeTakeEvent w1"
  define w3 where "w3 = home_do demo_home_env (?io (3 * second)) (HomeObserve ?out) w2"
  define w4 where "w4 = home_do demo_home_env (?io (3 * second)) HomeTakeEvent w3"
  have w1: "demo_calm [?in] None Map.empty w1" unfolding w1_def by (rule demo_observe [OF demo_home_calm])
  have f1: "fact_of ''n'' (hw_module w1) = no_fact" by (simp add: fact_of_def demo_calm_simps(6) [OF w1])
  define f2 where "f2 = located_fact (demo_seen 0 (2 * second)) True 0 (no_fact\<lparr> nf_seen := 2 * second \<rparr>)"
  have f2: "nf_has_position f2" "nf_inside f2" by (simp_all add: f2_def located_fact_def)
  have t2: "demo_calm [] None (Map.empty(''n'' \<mapsto> f2)) w2"
    "sighted demo_home_env (?io (2 * second)) HomeTakeEvent w1 = [(''n'', ''n'', 2 * second, True)]"
    unfolding w2_def using demo_take [OF w1, of f2 None]
    by (simp_all add: demo_f64 f1 second_def f2_def note_transition_def no_fact_def demo_calm_simps(7) [OF w1])
  have w3: "demo_calm [?out] None (Map.empty(''n'' \<mapsto> f2)) w3" unfolding w3_def by (rule demo_observe [OF t2(1)])
  have f3: "fact_of ''n'' (hw_module w3) = f2" by (simp add: fact_of_def demo_calm_simps(6) [OF w3])
  define f4 where "f4 = located_fact (demo_seen 0x4049000000000000 (3 * second)) False 0x4049000000000000 (f2\<lparr> nf_seen := 3 * second \<rparr>)"
  have t4: "demo_calm [] (Some demo_candidate_start) (Map.empty(''n'' \<mapsto> f4)) w4"
    "sighted demo_home_env (?io (3 * second)) HomeTakeEvent w3 = [(''n'', ''n'', 3 * second, False)]"
    unfolding w4_def using demo_take [OF w3, of f4 "Some demo_candidate_start"] f2
    by (simp_all add: demo_f64 f3 second_def f4_def note_transition_def demo_candidate_start_def position_transition_def
        time_sub_def)
  show "sightings demo_home_env demo_outing demo_home [] = [(''n'', ''n'', 3 * second, False), (''n'', ''n'', 2 * second, True)]"
    using t2(2) t4(2) by (simp add: demo_outing_def w1_def w2_def w3_def)
  show "\<exists>facts. demo_calm [] (Some demo_candidate_start) facts demo_before"
    using t4(1) by (auto simp: demo_before_def demo_outing_def w1_def w2_def w3_def w4_def)
qed

abbreviation demo_keyed :: transition where
  "demo_keyed \<equiv> keyed_transition demo_home_env StartAction demo_candidate_start"

lemma demo_call:
  assumes "demo_calm [] (Some demo_candidate_start) facts w"
  shows "hw_calls (home_do demo_home_env (demo_home_io (5 * second)) (HomeTick ''tick'') w) =
    [CallStart (5 * second) ''/api/receiver/home-auto-session/start'' ''k''
       (start_request_of demo_home_env demo_home_config demo_keyed (5 * second))
       (attempting StartAction demo_keyed (5 * second) (hw_module w)) (hw_store w)]"
proof -
  have "second \<le> time_sub (5 * second) (tc_at demo_candidate_start)"
    by (simp add: demo_candidate_start_def position_transition_def second_def time_sub_def)
  then show ?thesis
    using demo_calls [OF assms, of "5 * second" "demo_home_io (5 * second)" "''tick''"] demo_candidate_key
    by (simp add: demo_home_io_def)
qed

end
