(* ===== verification/HomeDecisions.thy ===== *)
theory HomeDecisions
  imports HomeReplay
begin

text \<open>
  The decisions of the home auto session: at which time, for which trigger and over which module a step
  decides, and what bars a decision from calling the cloud: a block, and the wait after a failure,
  through a whole history.
\<close>

section \<open>Decisions\<close>

text \<open>When a step decides, with the time and the trigger it decides with, and the module it decides over: an event
  or a position is consumed first, and its own time is the time of the decision.\<close>

definition decision :: "home_env \<Rightarrow> home_io \<Rightarrow> home_step \<Rightarrow> home_world \<Rightarrow> (time \<times> string \<times> home_module) option" where
  "decision hx io s w =
     (let m = hw_module w; wall = hi_wall io in
      case s of
        HomeTick trigger \<Rightarrow> Some (wall, trigger, m)
      | HomeTakeEvent \<Rightarrow> (case hm_events m of [] \<Rightarrow> None
          | v # vs \<Rightarrow> Some (event_time wall v, ''event'', consume_event hx wall v (m\<lparr> hm_events := vs \<rparr>)))
      | HomeTakePosition \<Rightarrow> (case hm_positions m of [] \<Rightarrow> None
          | ob # obs \<Rightarrow> Some (ob_at ob, ''attested_position'', consume_position hx wall ob (m\<lparr> hm_positions := obs \<rparr>)))
      | HomeTakeReevaluate \<Rightarrow>
          (if hm_reevaluate m then Some (wall, ''reevaluate'', m\<lparr> hm_reevaluate := False \<rparr>) else None)
      | _ \<Rightarrow> None)"

lemma decision_evaluates:
  "decision hx io s w = Some (now, trigger, m) \<Longrightarrow> home_do hx io s w = evaluate hx io now trigger (w\<lparr> hw_module := m \<rparr>)"
  by (cases s) (auto simp: decision_def Let_def split: list.splits if_splits)

lemma undecided_calls: "decision hx io s w = None \<Longrightarrow> hw_calls (home_do hx io s w) = hw_calls w"
  by (cases s) (auto simp: decision_def Let_def split: list.splits if_splits)

section \<open>What bars a call\<close>

text \<open>The one way to call during the wait after a failure: a stop that timed out, and a fresh position of
  the node inside the geofence, at least five seconds after the failure.\<close>

definition retries_early :: "unicode \<Rightarrow> time \<Rightarrow> string \<Rightarrow> home_module \<Rightarrow> bool" where
  "retries_early u now trigger m \<longleftrightarrow>
     trigger = ''event'' \<and> hm_result m = ''retry_scheduled'' \<and> hm_retry_class m = ''timeout_network''
     \<and> (\<exists>p failed f. hm_pending m = Some p \<and> pn_action p = StopAction
          \<and> hm_action_at m = Some failed \<and> 5 * second \<le> time_sub now failed
          \<and> hm_facts m (to_lower u (if trim_space (hm_trigger m) = [] then trim_space (pn_node p)
                                     else trim_space (hm_trigger m))) = Some f
          \<and> nf_has_position f \<and> nf_inside f \<and> failed < nf_seen f \<and> time_sub now (nf_seen f) \<le> 45 * second)"

definition unobstructed :: "unicode \<Rightarrow> time \<Rightarrow> string \<Rightarrow> home_module \<Rightarrow> home_call \<Rightarrow> bool" where
  "unobstructed u now trigger m c \<longleftrightarrow>
     \<not> (hm_state m = ''degraded'' \<and> trim_space (hm_blocked m) \<noteq> [])
     \<and> (case hm_cooldown m of None \<Rightarrow> True
          | Some t \<Rightarrow> t \<le> now \<or> \<not> is_start_call c \<and> retries_early u now trigger m)"

lemma bypass_early: "bypasses_cooldown u now trigger m \<Longrightarrow> retries_early u now trigger m"
  by (auto simp: bypasses_cooldown_def retries_early_def stop_retry_bypass_min_def stop_retry_fresh_inside_max_def
      Let_def split: option.splits if_splits)

lemma barred_calls:
  assumes "is_blocked (hw_module w) \<or> waits now (hm_cooldown (hw_module w))
      \<and> \<not> bypasses_cooldown (hx_unicode hx) now trigger (hw_module w)"
  shows "hw_calls (evaluate hx io now trigger w) = hw_calls w"
  using assms by (auto simp: evaluate_def Let_def split: option.split)

text \<open>With a stop pending, an evaluation calls for a stop only.\<close>

lemma ready_stops:
  assumes "hm_pending (hw_module w) = Some p" "pn_action p = StopAction"
  shows "\<exists>new. hw_calls (evaluate_ready hx io now w) = new @ hw_calls w \<and> (\<forall>c \<in> set new. \<not> is_start_call c)"
proof (cases "waits now (hm_stabilize (hw_module w))")
  case False
  define w1 where "w1 = on_module promote_pending w"
  have k: "hm_start (hw_module w1) = None" "hw_calls w1 = hw_calls w"
    using assms by (simp_all add: w1_def promote_pending_def)
  have "\<exists>new. hw_calls (evaluate_active hx io now w1) = new @ hw_calls w1 \<and> (\<forall>c \<in> set new. \<not> is_start_call c)"
    using active_only_stops [of hx io now w1] by (metis is_start_call.simps(2))
  moreover have "hw_calls (evaluate_idle hx io now w1) = hw_calls w1"
    using k(1) by (simp add: evaluate_idle_def Let_def)
  ultimately show ?thesis
    using False k(2) by (simp add: evaluate_ready_def Let_def flip: w1_def)
qed (simp add: evaluate_ready_def)

lemma evaluate_unobstructed:
  assumes "hw_calls (evaluate hx io now trigger w) = new @ hw_calls w" "c \<in> set new"
  shows "unobstructed (hx_unicode hx) now trigger (hw_module w) c"
proof -
  let ?u = "hx_unicode hx"
  have called: "hw_calls (evaluate hx io now trigger w) \<noteq> hw_calls w" using assms by auto
  have free: "\<not> is_blocked (hw_module w)" using called barred_calls by blast
  show ?thesis
  proof (cases "waits now (hm_cooldown (hw_module w))")
    case False
    then show ?thesis using free
      by (auto simp: unobstructed_def is_blocked_def waits_def not_less split: option.splits)
  next
    case True
    then have b: "bypasses_cooldown ?u now trigger (hw_module w)" using called barred_calls by blast
    then obtain p where p: "hm_pending (hw_module w) = Some p" "pn_action p = StopAction"
      by (auto simp: bypasses_cooldown_def split: option.splits)
    let ?w = "on_module (\<lambda>m. m\<lparr> hm_cooldown := None,
      hm_decision := ''fresh inside-geofence update received; retrying stop during cooldown'' \<rparr>) w"
    obtain new' where n: "hw_calls (evaluate_ready hx io now ?w) = new' @ hw_calls ?w" "\<forall>c \<in> set new'. \<not> is_start_call c"
      using ready_stops [of ?w p hx io now] p by auto
    have "evaluate hx io now trigger w = evaluate_ready hx io now ?w \<or> hw_calls (evaluate hx io now trigger w) = hw_calls w"
      using True free b by (simp add: evaluate_def Let_def split: option.split)
    then have "new = new'" using called n(1) assms(1) by auto
    then show ?thesis
      using n(2) assms(2) free bypass_early [OF b]
      by (auto simp: unobstructed_def is_blocked_def split: option.split)
  qed
qed

section \<open>The wait after a failure\<close>

text \<open>Every decision of a history satisfies a condition on its time, its trigger and its module.\<close>

fun all_decisions :: "home_env \<Rightarrow> (time \<Rightarrow> string \<Rightarrow> home_module \<Rightarrow> bool) \<Rightarrow> home_history \<Rightarrow> home_world \<Rightarrow> bool" where
  "all_decisions hx P [] w = True"
| "all_decisions hx P ((io, s) # ss) w =
     ((case decision hx io s w of None \<Rightarrow> True | Some (now, trigger, m) \<Rightarrow> P now trigger m)
      \<and> all_decisions hx P ss (home_do hx io s w))"

text \<open>During the wait: the configuration is the one of the failure, and the module is off, blocked or waiting.\<close>

definition held_back :: "home_config \<Rightarrow> time \<Rightarrow> time \<Rightarrow> unicode \<Rightarrow> home_module \<Rightarrow> bool" where
  "held_back c until failed u m \<longleftrightarrow> hm_config m = c
     \<and> (\<not> may_run u m \<or> is_blocked m \<or> hm_cooldown m = Some until \<and> hm_action_at m = Some failed)"

lemma held_same:
  "held_back c until failed u m \<Longrightarrow> hm_config m' = hm_config m \<Longrightarrow> hm_state m' = hm_state m \<Longrightarrow> hm_blocked m' = hm_blocked m
   \<Longrightarrow> hm_cooldown m' = hm_cooldown m \<Longrightarrow> hm_action_at m' = hm_action_at m \<Longrightarrow> held_back c until failed u m'"
  by (auto simp: held_back_def may_run_def is_blocked_def)

lemma consume_waits [simp]:
  "hm_cooldown (consume_position hx wall ob m) = hm_cooldown m"
  "hm_action_at (consume_position hx wall ob m) = hm_action_at m"
  "hm_cooldown (consume_event hx wall v m) = hm_cooldown m"
  "hm_action_at (consume_event hx wall v m) = hm_action_at m"
  "hm_cooldown (set_apply_status u a m) = hm_cooldown m"
  "hm_action_at (set_apply_status u a m) = hm_action_at m"
  by (simp_all add: consume_event_def consume_position_def set_gps_def note_transition_def set_apply_status_def Let_def
      split: option.split sighting.split)

lemma cooling_waits [simp]:
  "hm_cooldown (cooling_module hx m) = hm_cooldown m" "hm_action_at (cooling_module hx m) = hm_action_at m"
  "hm_config (cooling_module hx m) = hm_config m"
  by (simp_all add: cooling_module_def Let_def)

definition barred :: "time \<Rightarrow> time \<Rightarrow> time \<Rightarrow> string \<Rightarrow> home_module \<Rightarrow> bool" where
  "barred until failed now trigger m \<longleftrightarrow> now < until
     \<and> (trigger = ''event'' \<and> (\<exists>p. hm_pending m = Some p \<and> pn_action p = StopAction) \<longrightarrow> time_sub now failed < 5 * second)"

lemma held_evaluate:
  assumes "held_back c until failed (hx_unicode hx) (hw_module w)" "barred until failed now trigger (hw_module w)"
  shows "held_back c until failed (hx_unicode hx) (hw_module (evaluate hx io now trigger w))
    \<and> hw_calls (evaluate hx io now trigger w) = hw_calls w"
proof -
  let ?u = "hx_unicode hx" and ?m = "hw_module w"
  consider "\<not> may_run ?u ?m" | "may_run ?u ?m" "is_blocked ?m"
    | "may_run ?u ?m" "\<not> is_blocked ?m" "hm_cooldown ?m = Some until" "hm_action_at ?m = Some failed"
    using assms(1) by (auto simp: held_back_def)
  then show ?thesis
  proof cases
    case 1
    then show ?thesis
      using assms(1) by (auto simp: evaluate_def may_run_def held_back_def Let_def split: option.split)
  next
    case 2
    then show ?thesis
      using assms(1) by (simp add: evaluate_def may_run_def held_back_def is_blocked_def Let_def)
  next
    case 3
    then have "waits now (hm_cooldown ?m)" "\<not> bypasses_cooldown ?u now trigger ?m"
      using assms(2) by (auto simp: barred_def waits_def bypasses_cooldown_def stop_retry_bypass_min_def split: option.splits)
    then have "evaluate hx io now trigger w = settle hx io 0 (cooling_module hx) w"
      using 3 by (simp add: evaluate_def may_run_def Let_def)
    then show ?thesis using 3 assms(1) by (simp add: held_back_def)
  qed
qed

lemma held_decision:
  "decision hx io s w = Some (now, trigger, m) \<Longrightarrow> held_back c until failed u (hw_module w) \<Longrightarrow> held_back c until failed u m"
  by (cases s) (auto simp: decision_def Let_def held_back_def may_run_def is_blocked_def split: list.splits if_splits)

lemma held_overflow: "hm_config (hw_module w) = c \<Longrightarrow> held_back c until failed u (hw_module (overflow hx io w))"
  using degraded_blocked [of "''event observation queue overflow''"]
  by (simp add: overflow_def mark_degraded_def held_back_def is_blocked_def)

lemma held_undecided:
  assumes "decision hx io s w = None" "held_back c until failed u (hw_module w)" "\<not> is_intervention s" "s \<noteq> HomeStart"
  shows "held_back c until failed u (hw_module (home_do hx io s w))"
proof -
  have c: "hm_config (hw_module w) = c" using assms(2) by (simp add: held_back_def)
  have same: "held_back c until failed u (hw_module (on_module f w))"
    if "hm_config (f (hw_module w)) = c" "hm_state (f (hw_module w)) = hm_state (hw_module w)"
      "hm_blocked (f (hw_module w)) = hm_blocked (hw_module w)" "hm_cooldown (f (hw_module w)) = hm_cooldown (hw_module w)"
      "hm_action_at (f (hw_module w)) = hm_action_at (hw_module w)" for f
    using assms(2) by (rule held_same) (simp_all add: that c)
  have status: "held_back c until failed u (hw_module (settle hx io 0 (set_apply_status u' a) w))" for u' a
    using assms(2) by (rule held_same) simp_all
  show ?thesis
    using assms same [of "\<lambda>m. m\<lparr> hm_reevaluate := True \<rparr>"] held_overflow [OF c] status
      same [of "\<lambda>m. m\<lparr> hm_events := hm_events m @ [_] \<rparr>"] same [of "\<lambda>m. m\<lparr> hm_positions := hm_positions m @ [_] \<rparr>"]
    by (cases s) (auto simp: decision_def Let_def c observe_event_def observe_attested_def set_config_apply_status_def
        split: list.splits if_splits)
qed

lemma held_run:
  "held_back c until failed (hx_unicode hx) (hw_module w) \<Longrightarrow> \<forall>(io, s) \<in> set hist. \<not> is_intervention s \<and> s \<noteq> HomeStart
   \<Longrightarrow> all_decisions hx (barred until failed) hist w
   \<Longrightarrow> hw_calls (run_home hx hist w) = hw_calls w"
proof (induction hx hist w rule: run_home.induct)
  case (2 hx io s ss w)
  have "held_back c until failed (hx_unicode hx) (hw_module (home_do hx io s w)) \<and> hw_calls (home_do hx io s w) = hw_calls w"
  proof (cases "decision hx io s w")
    case None
    then show ?thesis using 2 undecided_calls [OF None] held_undecided [OF None] by auto
  next
    case (Some d)
    obtain now trigger m where d: "d = (now, trigger, m)" by (cases d) auto
    show ?thesis
      using 2 held_evaluate [of c until failed hx "w\<lparr> hw_module := m \<rparr>" now trigger io]
        held_decision [of hx io s w now trigger m] decision_evaluates [of hx io s w now trigger m]
      by (simp add: Some d)
  qed
  then show ?case using 2 by auto
qed simp

end
