(* ===== verification/HomeStates.thy ===== *)
theory HomeStates
  imports HomeDecisions
begin

text \<open>
  What the states of the home auto session mean: after each decision the state shown agrees with the
  configuration, the session, the candidates and the waits of the module, and the published status shows it.
\<close>

section \<open>The meaning of a state\<close>

definition open_candidate :: "time \<Rightarrow> duration \<Rightarrow> transition option \<Rightarrow> bool" where
  "open_candidate now debounce k = (case k of None \<Rightarrow> False | Some k \<Rightarrow> \<not> due now debounce k)"

text \<open>\<open>active\<close> without a session: the cloud acknowledged a start without naming one. \<open>control_ready\<close> with a session:
  a stop is put off as the receiver is not paired, or left out as its key was used before.\<close>

definition state_fits :: "unicode \<Rightarrow> time \<Rightarrow> home_module \<Rightarrow> bool" where
  "state_fits u now m =
     (let mode = normalize_mode u (hc_mode (hm_config m)); shown = hm_state m; control = hm_control m in
      if shown = ''degraded'' then trim_space (hm_blocked m) \<noteq> [] \<and> control \<noteq> []
      else if shown = ''cooldown''
      then (waits now (hm_cooldown m) \<or> waits now (hm_stabilize m)) \<and> control \<in> {''cooldown'', ''conflict_blocked''}
      else \<not> waits now (hm_cooldown m) \<and>
        (if shown = ''active'' then (hm_session m \<noteq> [] \<or> hm_result m = ''started'') \<and> control = ''active''
         else if shown = ''start_pending''
         then hm_session m = [] \<and> open_candidate now (hc_start_debounce (hm_config m)) (hm_start m)
              \<and> control = ''pending_start''
         else if shown = ''stop_pending''
         then hm_session m \<noteq> [] \<and> open_candidate now (hc_stop_debounce (hm_config m)) (hm_stop m)
              \<and> control = ''pending_stop''
         else if shown = ''observe_ready''
         then mode = ''observe'' \<and> hm_session m = [] \<and> control = ''ready''
              \<and> \<not> open_candidate now (hc_start_debounce (hm_config m)) (hm_start m)
         else shown = ''control_ready'' \<and> mode = ''control'' \<and> control = ''ready''
              \<and> (hm_session m = [] \<and> hm_start m = None \<or> hm_result m \<in> {''deferred_not_paired'', ''dedupe_suppressed''})))"

definition state_means :: "unicode \<Rightarrow> time \<Rightarrow> home_module \<Rightarrow> bool" where
  "state_means u now m =
     (if module_off u (hm_config m) then hm_state m = ''disabled'' \<and> hm_control m = ''disabled''
      else if validate_config u (hm_config m) \<noteq> None
      then hm_state m = ''misconfigured'' \<and> hm_control m = ''misconfigured''
      else state_fits u now m)"

text \<open>What the status shows of the module.\<close>

definition told :: "home_world \<Rightarrow> bool" where
  "told w = (case hw_status w of None \<Rightarrow> True | Some s \<Rightarrow>
     hs_state (sn_home_auto_session s) = trim_space (hm_state (hw_module w))
     \<and> hs_active_session_id (sn_home_auto_session s) = trim_space (hm_session (hw_module w)))"

definition truthful :: "home_env \<Rightarrow> time \<Rightarrow> home_world \<Rightarrow> bool" where
  "truthful hx now w \<longleftrightarrow> state_means (hx_unicode hx) now (hw_module w) \<and> told w"

lemma persist_status [simp]: "hw_status (persist_home hx io n w) = hw_status w"
  by (simp add: persist_home_def Let_def split: option.split prod.split sum.split)

lemma told_settle: "told (settle hx io n f w)"
  by (simp add: told_def settle_def publish_home_def published_status_def set_component_def
      set_home_auto_session_def update_status_def Let_def split: option.split)

lemma means_fingerprinted: "fingerprinted m m' \<Longrightarrow> state_means u now m' = state_means u now m"
  unfolding state_means_def state_fits_def by (simp only: fingerprinted_simps)

lemma truthful_settle: "state_means (hx_unicode hx) now (f (hw_module w)) \<Longrightarrow> truthful hx now (settle hx io n f w)"
  unfolding truthful_def by (simp add: told_settle means_fingerprinted [OF settle_module])

lemma truthful_fits:
  "may_run (hx_unicode hx) (f (hw_module w)) \<Longrightarrow> state_fits (hx_unicode hx) now (f (hw_module w))
   \<Longrightarrow> truthful hx now (settle hx io n f w)"
  by (rule truthful_settle) (simp add: state_means_def may_run_def)

section \<open>The outcomes of an attempt\<close>

definition same_setup :: "home_module \<Rightarrow> home_module \<Rightarrow> bool" where
  "same_setup m m' \<longleftrightarrow> hm_config m' = hm_config m \<and> hm_started m' = hm_started m"

lemma setup_degraded: "same_setup m m' \<Longrightarrow> same_setup m (degraded_module b d m')"
  by (simp add: same_setup_def)

lemma setup_lifecycle: "same_setup m m' \<Longrightarrow> same_setup m (lifecycle_blocked l m')"
  unfolding lifecycle_blocked_def Let_def
  by (simp add: same_setup_def forget_candidates_def)

lemma setup_conflicts:
  "same_setup m m' \<Longrightarrow> same_setup m (active_conflict m')" "same_setup m m' \<Longrightarrow> same_setup m (mismatch_conflict m')"
  by (simp_all add: active_conflict_def mismatch_conflict_def same_setup_def forget_candidates_def)

lemma setup_synced: "same_setup m m' \<Longrightarrow> same_setup m (synced_session i m')"
  unfolding synced_session_def Let_def same_setup_def forget_candidates_def by simp

lemma setup_missing: "same_setup m m' \<Longrightarrow> same_setup m (missing_id_retry hx now m')"
  unfolding missing_id_retry_def Let_def same_setup_def by simp

lemma setup_retry: "same_setup m m' \<Longrightarrow> same_setup m (retry_after_failure hx now a err m')"
  unfolding retry_after_failure_def Let_def same_setup_def by simp

lemma setup_updates:
  "same_setup m (m\<lparr> hm_error := e, hm_action := x, hm_action_at := t, hm_failures := n \<rparr>)"
  "same_setup m (m\<lparr> hm_error := e, hm_action := x, hm_action_at := t, hm_failures := n, hm_retry_class := c, hm_result := r \<rparr>)"
  by (simp_all add: same_setup_def)

lemma setup_failed: "same_setup m (failed_module hx now a err m)"
  unfolding failed_module_def Let_def
  by (simp add: setup_updates setup_degraded setup_lifecycle setup_conflicts setup_synced setup_missing setup_retry
      split: option.split)


lemma fits_degraded: "state_fits u now (degraded_module b d m)"
  using degraded_blocked [of b d m]
  by (auto simp: state_fits_def is_blocked_def degraded_module_def Let_def)

lemma fits_retry:
  "state_fits (hx_unicode hx) now (retry_after_failure hx now a err m)"
  "state_fits (hx_unicode hx) now (missing_id_retry hx now m)"
proof -
  have d: "0 < jitter_delay hx (retry_delay_for b cls n) b n key" for b cls n key
    using jitter_between(1) [OF retry_delay_for_between(1), of hx b cls n b n key] by (simp add: second_def)
  show "state_fits (hx_unicode hx) now (retry_after_failure hx now a err m)"
    "state_fits (hx_unicode hx) now (missing_id_retry hx now m)"
    by (simp_all add: state_fits_def retry_after_failure_def missing_id_retry_def waits_def d Let_def)
qed

lemma fits_synced: "session \<noteq> [] \<Longrightarrow> state_fits u now (synced_session session m)"
  by (simp add: state_fits_def synced_session_def waits_def Let_def)

lemma fits_failed: "state_fits (hx_unicode hx) now (failed_module hx now a err m)"
  by (simp add: failed_module_def Let_def lifecycle_blocked_def active_conflict_def mismatch_conflict_def
      fits_degraded fits_retry fits_synced split: option.split)

lemma may_run_setup: "same_setup m m' \<Longrightarrow> may_run u m' = may_run u m"
  by (simp add: same_setup_def may_run_def)

lemma truthful_failed:
  "may_run (hx_unicode hx) (hw_module w) \<Longrightarrow> truthful hx now (handle_cloud_error hx io now a err w)"
  unfolding handle_cloud_error_def
  by (rule truthful_fits) (simp_all add: fits_failed may_run_setup [OF setup_failed])

definition in_control :: "unicode \<Rightarrow> time \<Rightarrow> home_module \<Rightarrow> bool" where
  "in_control u now m \<longleftrightarrow> may_run u m \<and> normalize_mode u (hc_mode (hm_config m)) = ''control'' \<and> \<not> waits now (hm_cooldown m)"

lemma outcome_fields:
  "hm_config (suppressed a now m) = hm_config m" "hm_config (deferred a now m) = hm_config m"
  "hm_config (client_missing a now m) = hm_config m" "hm_config (started u k now r m) = hm_config m"
  "hm_config (stopped u k now r m) = hm_config m"
  by (simp_all add: suppressed_def deferred_def client_missing_def started_def stopped_def forget_candidates_def
      split: home_action.split)

lemma fits_outcomes:
  "in_control u now m \<Longrightarrow> state_fits u now (suppressed a now m)"
  "in_control u now m \<Longrightarrow> state_fits u now (deferred a now m)"
  "state_fits u now (started u' k now r m)"
  "in_control u now m \<Longrightarrow> state_fits u now (stopped u' k now r m)"
  by (simp_all add: in_control_def state_fits_def suppressed_def deferred_def started_def stopped_def
      forget_candidates_def waits_def Let_def split: home_action.split)

lemma fits_client_missing: "state_fits u now (client_missing a now m)"
  by (simp add: client_missing_def fits_degraded)

lemma truthful_outcomes:
  assumes "in_control (hx_unicode hx) now (hw_module w)"
  shows "truthful hx now (settle hx io n (suppressed a now) w)" "truthful hx now (settle hx io n (deferred a now) w)"
    "truthful hx now (settle hx io n (client_missing a now) w)"
    "truthful hx now (settle hx io n (started u k now r) w)" "truthful hx now (settle hx io n (stopped u k now r) w)"
  using assms by (auto intro!: truthful_fits fits_outcomes fits_client_missing simp: in_control_def may_run_def outcome_fields)

lemma in_control_calls [simp]:
  "in_control u now (hw_module (w\<lparr> hw_calls := cs \<rparr>)) = in_control u now (hw_module w)"
  "in_control u now (hw_module (settle hx io n (attempting a k t) w)) = in_control u now (hw_module w)"
  by (simp_all add: in_control_def may_run_def)

lemma in_control_runs: "in_control u now m \<Longrightarrow> may_run u m"
  by (simp add: in_control_def)

lemma truthful_start:
  "in_control (hx_unicode hx) now (hw_module w) \<Longrightarrow> truthful hx now (attempt_start hx io now k w)"
  by (simp add: attempt_start_def Let_def truthful_outcomes truthful_failed in_control_runs split: option.split sum.split)

lemma truthful_finish_stop:
  "in_control (hx_unicode hx) now (hw_module w) \<Longrightarrow> truthful hx now (finish_stop_call hx io now k r w)"
  by (simp add: finish_stop_call_def Let_def truthful_outcomes truthful_failed in_control_runs split: sum.split)

lemma truthful_stop:
  "in_control (hx_unicode hx) now (hw_module w) \<Longrightarrow> truthful hx now (attempt_stop hx io now k w)"
  by (simp add: attempt_stop_def Let_def truthful_outcomes truthful_finish_stop split: option.split sum.split)

section \<open>Evaluations\<close>

lemma in_control_cases:
  "may_run u m \<Longrightarrow> normalize_mode u (hc_mode (hm_config m)) \<noteq> ''observe'' \<Longrightarrow> \<not> waits now (hm_cooldown m) \<Longrightarrow> in_control u now m"
  using mode_cases [of u "hc_mode (hm_config m)"] by (auto simp: in_control_def may_run_def module_off_def)

lemma truthful_active:
  assumes "may_run (hx_unicode hx) (hw_module w)" "\<not> waits now (hm_cooldown (hw_module w))" "hm_session (hw_module w) \<noteq> []"
  shows "truthful hx now (evaluate_active hx io now w)"
proof -
  let ?u = "hx_unicode hx"
  have fits: "truthful hx now (settle hx io 0 f (on_module (note_idle_stop ?u now) w))"
    if "hm_config (f (note_idle_stop ?u now (hw_module w))) = hm_config (hw_module w)"
      "state_fits ?u now (f (note_idle_stop ?u now (hw_module w)))" for f
    using that assms(1) by (intro truthful_fits) (simp_all add: may_run_def)
  have stop: "normalize_mode ?u (hc_mode (hm_config (hw_module w))) \<noteq> ''observe'' \<Longrightarrow>
      truthful hx now (attempt_stop hx io now k (on_module (note_idle_stop ?u now) w))" for k
    using in_control_cases [of ?u "hw_module w" now] assms(1,2)
    by (intro truthful_stop) (simp add: in_control_def may_run_def)
  show ?thesis
    unfolding evaluate_active_def Let_def
    by (auto intro!: fits stop simp: state_fits_def assms open_candidate_def due_def not_le Let_def split: option.split)
qed

lemma truthful_idle:
  assumes "may_run (hx_unicode hx) (hw_module w)" "\<not> waits now (hm_cooldown (hw_module w))" "hm_session (hw_module w) = []"
  shows "truthful hx now (evaluate_idle hx io now w)"
proof -
  let ?u = "hx_unicode hx"
  have fits: "truthful hx now (settle hx io 0 f w)"
    if "hm_config (f (hw_module w)) = hm_config (hw_module w)" "state_fits ?u now (f (hw_module w))" for f
    using that assms(1) by (intro truthful_fits) (simp_all add: may_run_def)
  have mode: "normalize_mode ?u (hc_mode (hm_config (hw_module w))) \<in> {''observe'', ''control''}"
    using assms(1) mode_cases [of ?u "hc_mode (hm_config (hw_module w))"] by (auto simp: may_run_def module_off_def)
  show ?thesis
    using mode unfolding evaluate_idle_def Let_def
    by (auto intro!: fits truthful_start in_control_cases simp: state_fits_def assms open_candidate_def due_def not_le Let_def
        split: option.split)
qed

lemma truthful_ready:
  assumes "may_run (hx_unicode hx) (hw_module w)" "\<not> waits now (hm_cooldown (hw_module w))"
  shows "truthful hx now (evaluate_ready hx io now w)"
proof (cases "waits now (hm_stabilize (hw_module w))")
  case True
  then show ?thesis
    using assms(1) unfolding evaluate_ready_def
    by simp (rule truthful_fits, simp_all add: may_run_def state_fits_def Let_def)
next
  case False
  then show ?thesis
    using assms truthful_active [of hx "on_module promote_pending w" now io] truthful_idle [of hx "on_module promote_pending w" now io]
    by (simp add: evaluate_ready_def Let_def may_run_def)
qed

lemma truthful_evaluate: "truthful hx now (evaluate hx io now trigger w)"
proof -
  let ?u = "hx_unicode hx" and ?m = "hw_module w"
  consider "\<not> may_run ?u ?m" | "may_run ?u ?m" "is_blocked ?m"
    | "may_run ?u ?m" "\<not> is_blocked ?m" "waits now (hm_cooldown ?m)" "\<not> bypasses_cooldown ?u now trigger ?m"
    | "may_run ?u ?m" "\<not> is_blocked ?m" "waits now (hm_cooldown ?m)" "bypasses_cooldown ?u now trigger ?m"
    | "may_run ?u ?m" "\<not> is_blocked ?m" "\<not> waits now (hm_cooldown ?m)" by blast
  then show ?thesis
  proof cases
    case 1
    then show ?thesis
      by (auto simp: evaluate_def may_run_def state_means_def Let_def intro!: truthful_settle split: option.split)
  next
    case 2
    then show ?thesis
      by (auto simp: evaluate_def may_run_def is_blocked_def state_fits_def Let_def intro!: truthful_fits)
  next
    case 3
    then have "evaluate hx io now trigger w = settle hx io 0 (cooling_module hx) w"
      by (simp add: evaluate_def may_run_def Let_def)
    moreover have "state_fits ?u now (cooling_module hx ?m)"
      using 3 by (simp add: state_fits_def) (simp add: cooling_module_def Let_def)
    ultimately show ?thesis using 3(1) by (simp add: truthful_fits may_run_def)
  next
    case 4
    then show ?thesis by (auto simp: evaluate_def may_run_def waits_def Let_def intro!: truthful_ready)
  next
    case 5
    then show ?thesis by (simp add: evaluate_def may_run_def truthful_ready Let_def)
  qed
qed

text \<open>The module shows the call it is making.\<close>

fun shows_attempt :: "home_call \<Rightarrow> bool" where
  "shows_attempt (CallStart now endpoint key q m st) \<longleftrightarrow> hm_state m = ''start_pending'' \<and> hm_control m = ''pending_start''"
| "shows_attempt (CallStop now endpoint key q m st) \<longleftrightarrow> hm_state m = ''stop_pending'' \<and> hm_control m = ''pending_stop''"

lemma call_shows: "call_ok hx c \<Longrightarrow> shows_attempt c"
  by (cases c) simp_all

end
