(* ===== verification/HomeProps.thy ===== *)
theory HomeProps
  imports HomeDemo HomeStates
begin

text \<open>
  The properties of the home auto session: calls are guarded, starts rest on observed departures, failed calls back
  off or block, an interrupted start is repeated with its key, and the state shown is true of the module.
\<close>

section \<open>Calls\<close>

text \<open>
  C35. Whatever state the module is in, a step calls the cloud only under its guards. The module decides in that step
  and, when it decides, it is not blocked, nor waiting after a failed call, except for a stop that timed out when
  an event shows the node inside again. When it calls, it is enabled, in control mode, validly configured, not
  stabilizing, and shows the pending start or stop; a start needs that no session is active and a start candidate
  that waited out the debounce time, a stop an active session and such a stop candidate; the deduplication key is
  not the one of the last executed action; the action is pending in the module in memory, and in the state file
  too unless the write before the call failed or was left out as unchanged; and the key used is that of a receiver
  in steady state.
\<close>
theorem home_calls_guarded:
  "\<exists>new. hw_calls (home_do hx io s w) = new @ hw_calls w
     \<and> (\<forall>c \<in> set new. call_ok hx c \<and> paired_with (call_key c) (hw_store w) \<and> recorded hx io w c
          \<and> (\<exists>now trigger m. decision hx io s w = Some (now, trigger, m)
               \<and> unobstructed (hx_unicode hx) now trigger m c))"
proof -
  obtain new where new: "hw_calls (home_do hx io s w) = new @ hw_calls w"
    "\<forall>c \<in> set new. call_ok hx c \<and> paired_with (call_key c) (hw_store w) \<and> recorded hx io w c"
    using step_calls [of hx io w s] by (auto simp: calls_added_def)
  have "\<exists>now trigger m. decision hx io s w = Some (now, trigger, m) \<and> unobstructed (hx_unicode hx) now trigger m c"
    if c: "c \<in> set new" for c
  proof (cases "decision hx io s w")
    case None
    then show ?thesis using undecided_calls [OF None] new(1) c by simp
  next
    case (Some d)
    obtain now trigger m where d: "d = (now, trigger, m)" by (cases d) auto
    show ?thesis
      using evaluate_unobstructed [of hx io now trigger "w\<lparr> hw_module := m \<rparr>" new c] new(1) c
        decision_evaluates [OF Some [unfolded d]] by (simp add: Some d)
  qed
  with new show ?thesis by blast
qed

lemma home_calls_guarded_witness:
  "\<exists>c. hw_calls (home_do demo_home_env (demo_home_io (5 * second)) (HomeTick ''tick'') demo_before) = [c]
     \<and> call_ok demo_home_env c \<and> paired_with (call_key c) (hw_store demo_before)"
proof -
  obtain facts where d: "demo_calm [] (Some demo_candidate_start) facts demo_before" using demo_outing_before(2) by blast
  show ?thesis
    using home_calls_guarded [of demo_home_env "demo_home_io (5 * second)" "HomeTick ''tick''" demo_before]
      demo_call [OF d] demo_calm_simps(3) [OF d] by (auto simp del: call_ok.simps home_do.simps)
qed

section \<open>What a start rests on\<close>

text \<open>
  C36. A module that starts over a store without a pending start asks the cloud for a session only for a node it
  saw leave: among the positions given to it that counted (fresh, valid, of a tracked node, and not near the
  boundary) there is one of that node outside the geofence whose predecessor for that node was inside.
\<close>
theorem home_start_evidenced:
  assumes "no_pending_start hx st" "HomeStart \<notin> snd ` set hist"
    "CallStart t e y q m s \<in> set (hw_calls (run_home hx hist (start_home hx io (new_home hx io' c st sn client))))"
  shows "went_out (sightings hx hist (start_home hx io (new_home hx io' c st sn client)) []) (ss_trigger q)"
  using assms by (rule justified_history)

lemma demo_no_pending: "no_pending_start demo_home_env (Some demo_home_store)"
  by (simp add: no_pending_start_def demo_home_auto no_home_auto_def normalize_pending_def to_lower_def Let_def)

lemma home_start_evidenced_witness:
  "went_out [(''n'', ''n'', 3 * second, False), (''n'', ''n'', 2 * second, True)] ''n''"
proof -
  obtain facts where d: "demo_calm [] (Some demo_candidate_start) facts demo_before" using demo_outing_before(2) by blast
  have h: "demo_outing = butlast demo_outing @ [(demo_home_io (5 * second), HomeTick ''tick'')]"
    by (simp add: demo_outing_def)
  have run: "run_home hx (xs @ ys) w = run_home hx ys (run_home hx xs w)" for hx xs ys w
    by (induction hx xs w rule: run_home.induct) simp_all
  have r: "run_home demo_home_env demo_outing demo_home
      = home_do demo_home_env (demo_home_io (5 * second)) (HomeTick ''tick'') demo_before"
    by (subst h, subst run) (simp add: demo_before_def del: home_do.simps)
  have q: "ss_trigger (start_request_of demo_home_env demo_home_config demo_keyed (5 * second)) = ''n''"
    by (simp add: start_request_of_def demo_candidate_start_def position_transition_def)
  have "went_out (sightings demo_home_env demo_outing (start_home demo_home_env (demo_home_io second)
      (new_home demo_home_env (demo_home_io second) demo_home_config (Some demo_home_store) None True)) [])
      (ss_trigger (start_request_of demo_home_env demo_home_config demo_keyed (5 * second)))"
  proof (rule home_start_evidenced [OF demo_no_pending])
    show "HomeStart \<notin> snd ` set demo_outing" by (simp add: demo_outing_def)
    show "CallStart (5 * second) ''/api/receiver/home-auto-session/start'' ''k''
       (start_request_of demo_home_env demo_home_config demo_keyed (5 * second))
       (attempting StartAction demo_keyed (5 * second) (hw_module demo_before)) (hw_store demo_before)
      \<in> set (hw_calls (run_home demo_home_env demo_outing (start_home demo_home_env (demo_home_io second)
          (new_home demo_home_env (demo_home_io second) demo_home_config (Some demo_home_store) None True))))"
      using demo_call [OF d] by (simp add: r flip: demo_home_new_def demo_home_def del: home_do.simps)
  qed
  then show ?thesis using demo_outing_before(1) q by (simp flip: demo_home_new_def demo_home_def)
qed

section \<open>Failed calls\<close>

text \<open>
  C38. After a call that failed but may be repeated, the module waits between nine seconds and four minutes, counted from
  the time it decided with, before it calls the cloud again. Through every history of ticks, events, positions,
  status changes and dropped observations, without a restart, a reset or a new configuration, it makes no call as
  long as each decision is at a time before the end of the wait; only an event at least five seconds after the failure,
  for a stop, is not barred. The time of a decision over an event or a position is the one that it carries, not
  the clock's.
\<close>
theorem home_backs_off:
  assumes "schedules_retry (hx_unicode hx) a err" "\<forall>(io', s) \<in> set hist. \<not> is_intervention s \<and> s \<noteq> HomeStart"
  shows "\<exists>d. 9 * second \<le> d \<and> d \<le> 240 * second
    \<and> hm_cooldown (hw_module (handle_cloud_error hx io now a err w)) = Some (now + d)
    \<and> (all_decisions hx (barred (now + d) now) hist (handle_cloud_error hx io now a err w)
       \<longrightarrow> hw_calls (run_home hx hist (handle_cloud_error hx io now a err w)) = hw_calls w)"
proof -
  let ?w = "handle_cloud_error hx io now a err w"
  obtain d where d: "9 * second \<le> d" "d \<le> 240 * second" "hm_cooldown (hw_module ?w) = Some (now + d)"
    "hm_action_at (hw_module ?w) = Some now"
    using retry_cooldown_set [OF assms(1), of now "hw_module w"] by (auto simp: handle_cloud_error_def)
  then have "held_back (hm_config (hw_module ?w)) (now + d) now (hx_unicode hx) (hw_module ?w)" by (simp add: held_back_def)
  from held_run [OF this assms(2)] d(1-3) show ?thesis by auto
qed

definition demo_unavailable :: client_error where
  "demo_unavailable = ApiFailure \<lparr> ae_status = 503, ae_code = [], ae_message = [], ae_retryable = True,
     ae_retry_after = 0, ae_request_id = [] \<rparr> [] []"

lemma home_backs_off_witness:
  "hw_calls (run_home demo_home_env [(demo_home_io (8 * second), HomeTick ''tick''), (demo_home_io (8 * second), HomeReevaluate),
       (demo_home_io (9 * second), HomeTick ''tick'')]
     (handle_cloud_error demo_home_env (demo_home_io 7) 7 StartAction demo_unavailable demo_home)) = []"
proof -
  have "schedules_retry (hx_unicode demo_home_env) StartAction demo_unavailable"
    unfolding demo_home_env_simps by code_simp
  note result = home_backs_off [OF this, of "[(demo_home_io (8 * second), HomeTick ''tick''),
      (demo_home_io (8 * second), HomeReevaluate), (demo_home_io (9 * second), HomeTick ''tick'')]" "demo_home_io 7" 7 demo_home]
  show ?thesis
    using result demo_calm_simps(3) [OF demo_home_calm]
    by (auto simp: decision_def barred_def demo_home_io_def Let_def simp del: home_do.simps run_home.simps)
qed

text \<open>The errors after which the module blocks itself: all others, except that of a session that is known by its id.\<close>

definition blocks_control :: "unicode \<Rightarrow> home_action \<Rightarrow> client_error \<Rightarrow> bool" where
  "blocks_control u a err \<longleftrightarrow> \<not> schedules_retry u a err
     \<and> \<not> (lifecycle_conflict u err = None \<and> a = StartAction \<and> start_already_active u err \<and> error_session_id err \<noteq> [])"

lemma failed_blocks: "blocks_control (hx_unicode hx) a err \<Longrightarrow> is_blocked (failed_module hx now a err m)"
  by (cases "lifecycle_conflict (hx_unicode hx) err"; cases a)
    (auto simp: blocks_control_def schedules_retry_def failed_module_def lifecycle_blocked_def active_conflict_def
      mismatch_conflict_def degraded_blocked Let_def)

text \<open>
  C39. After a call that failed for good (rejected, in conflict with the cloud's state, or the receiver revoked,
  disabled or replaced) the module makes no call and stays blocked through every history in which nobody resets
  it or gives it a configuration.
\<close>
theorem home_blocked_inert:
  assumes "blocks_control (hx_unicode hx) a err" "may_run (hx_unicode hx) (hw_module w)" "hm_started (hw_module w)"
    "\<forall>(io, s) \<in> set hist. \<not> is_intervention s"
  shows "hw_calls (run_home hx hist (handle_cloud_error hx io now a err w)) = hw_calls w
    \<and> is_blocked (hw_module (run_home hx hist (handle_cloud_error hx io now a err w)))"
proof -
  have "inert (hx_unicode hx) (hw_module (handle_cloud_error hx io now a err w))"
    unfolding handle_cloud_error_def using failed_blocks [OF assms(1)] assms(2,3)
    by (intro inert_settle) (simp add: inert_def may_run_def setup_failed [unfolded same_setup_def])
  from inert_run [OF this assms(4)] show ?thesis by (simp add: inert_def)
qed

definition demo_rejected :: client_error where
  "demo_rejected = ApiFailure \<lparr> ae_status = 400, ae_code = [], ae_message = [], ae_retryable = False,
     ae_retry_after = 0, ae_request_id = [] \<rparr> [] []"

lemma home_blocked_inert_witness:
  "hw_calls (run_home demo_home_env demo_outing
     (handle_cloud_error demo_home_env (demo_home_io second) second StartAction demo_rejected demo_home)) = []"
proof -
  have "blocks_control (hx_unicode demo_home_env) StartAction demo_rejected"
    unfolding demo_home_env_simps by code_simp
  moreover have "may_run (hx_unicode demo_home_env) (hw_module demo_home)"
    using demo_calm_simps(4) [OF demo_home_calm] by (simp add: may_run_def demo_home_env_simps demo_off demo_valid)
  moreover have "hm_started (hw_module demo_home)"
    by (simp add: demo_home_def start_home_def demo_new_simps bootstrap_home_def demo_home_auto reconcile_startup_keeps
        cleared_markers_def loaded_simps Let_def)
  ultimately show ?thesis
    using home_blocked_inert [of demo_home_env StartAction demo_rejected demo_home demo_outing "demo_home_io second" second]
      demo_calm_simps(3) [OF demo_home_calm] by (simp add: demo_outing_def del: home_do.simps run_home.simps)
qed

section \<open>Repeating a start\<close>

lemma retry_run_pending:
  "retrying p w \<Longrightarrow> pn_action p = StartAction \<Longrightarrow> pn_dedupe p \<noteq> [] \<Longrightarrow> snd ` set hist \<inter> {HomeStart, HomeReset} = {}
   \<Longrightarrow> hw_calls (run_home hx hist w) = [] \<Longrightarrow> retrying p (run_home hx hist w)"
proof (induction hx hist w rule: run_home.induct)
  case (2 hx io s ss w)
  obtain new where "hw_calls (run_home hx ss (home_do hx io s w)) = new @ hw_calls (home_do hx io s w)"
    using calls_grow_run by blast
  then have "hw_calls (home_do hx io s w) = []" using 2 by simp
  moreover have "retry_result p (home_do hx io s w)"
    using 2 by (intro retry_step) auto
  ultimately have "retrying p (home_do hx io s w)" by (auto simp: retry_result_def)
  then show ?case using 2 by auto
qed simp

text \<open>
  C37. A start that was cut off is repeated under its deduplication key. If the receiver stops during a start call,
  with the pending action in the store as it was written before the call, then the module that starts over
  this store (startup reconciliation being on) keeps that start pending until it calls the cloud, in every
  history without a reset; and its first call is that start, for the same node and device and with the same key.
\<close>
theorem home_retries_same_key:
  assumes "hw_calls (home_do hx io0 s0 w0) = CallStart now e y q m (Some s) # hw_calls w0"
    "untimed (da_home_auto_session (sv_data s)) = persisted_state hx m"
    "trim_space (ss_dedupe q) \<noteq> []"
    "hc_reconcile (hm_config (hw_module (new_home hx io c (Some s) sn client)))"
    "snd ` set hist \<inter> {HomeStart, HomeReset} = {}"
  shows "(let w = run_home hx hist (start_home hx io' (new_home hx io c (Some s) sn client)) in
     if hw_calls w = []
     then \<exists>p. hm_pending (hw_module w) = Some p \<and> pn_action p = StartAction \<and> pn_dedupe p = trim_space (ss_dedupe q)
     else \<exists>t e' y' q' m' st. last (hw_calls w) = CallStart t e' y' q' m' st \<and> ss_dedupe q' = trim_space (ss_dedupe q)
            \<and> ss_trigger q' = trim_space (ss_trigger q) \<and> ss_device q' = trim_space (ss_device q))"
proof -
  obtain new where "hw_calls (home_do hx io0 s0 w0) = new @ hw_calls w0" "\<forall>x \<in> set new. call_ok hx x"
    using step_calls [of hx io0 w0 s0] by (auto simp: calls_added_def)
  then have ok: "call_ok hx (CallStart now e y q m (Some s))" using assms(1) by (cases new) auto
  obtain p where p: "retrying p (start_home hx io' (new_home hx io c (Some s) sn client))" "pn_action p = StartAction"
    "pn_dedupe p = trim_space (ss_dedupe q)" "pn_node p = trim_space (ss_trigger q)"
    "pn_device p = trim_space (ss_device q)"
    using restart_retries [OF ok assms(2,4)] by metis
  have "hw_calls (run_home hx hist (start_home hx io' (new_home hx io c (Some s) sn client))) = [] \<Longrightarrow>
      retrying p (run_home hx hist (start_home hx io' (new_home hx io c (Some s) sn client)))"
    using retry_run_pending [OF p(1,2) _ assms(5)] p(3) assms(3) by simp
  moreover have "hw_calls (run_home hx hist (start_home hx io' (new_home hx io c (Some s) sn client))) = [] \<or>
      repeats p (last (hw_calls (run_home hx hist (start_home hx io' (new_home hx io c (Some s) sn client)))))"
    using retry_run [OF p(1,2) _ assms(5)] p(3) assms(3) by simp
  ultimately show ?thesis
    using p by (auto simp: Let_def retrying_def repeats_def)
qed

definition demo_cut_store :: state_store where
  "demo_cut_store = demo_home_store\<lparr> sv_data := demo_home_data\<lparr> da_home_auto_session :=
     persisted_state demo_home_env (attempting StartAction demo_keyed (5 * second) (hw_module demo_before)) \<rparr> \<rparr>"

lemma demo_cut_calm:
  assumes "demo_calm ev k facts w" shows "demo_calm ev k facts (w\<lparr> hw_store := Some demo_cut_store \<rparr>)"
  using assms by (simp add: demo_calm_def demo_steady_def demo_cut_store_def demo_home_data_def no_state_data_def)

lemma home_retries_same_key_witness:
  "\<exists>q :: start_request. ss_trigger q = ''n'' \<and> ss_dedupe q = ''start-646967657374'' \<and>
    (let w = run_home demo_home_env [(demo_home_io (6 * second), HomeTick ''startup'')]
       (start_home demo_home_env (demo_home_io (6 * second))
         (new_home demo_home_env (demo_home_io (6 * second)) demo_home_config (Some demo_cut_store) None True)) in
     if hw_calls w = []
     then \<exists>p. hm_pending (hw_module w) = Some p \<and> pn_action p = StartAction \<and> pn_dedupe p = trim_space (ss_dedupe q)
     else \<exists>t e' y' q' m' st. last (hw_calls w) = CallStart t e' y' q' m' st \<and> ss_dedupe q' = trim_space (ss_dedupe q)
            \<and> ss_trigger q' = trim_space (ss_trigger q) \<and> ss_device q' = trim_space (ss_device q))"
proof -
  let ?q = "start_request_of demo_home_env demo_home_config demo_keyed (5 * second)"
  obtain facts where d: "demo_calm [] (Some demo_candidate_start) facts demo_before" using demo_outing_before(2) by blast
  let ?w = "demo_before\<lparr> hw_store := Some demo_cut_store \<rparr>"
  have w: "demo_calm [] (Some demo_candidate_start) facts ?w" by (rule demo_cut_calm [OF d])
  have call: "hw_calls (home_do demo_home_env (demo_home_io (5 * second)) (HomeTick ''tick'') ?w) =
    CallStart (5 * second) ''/api/receiver/home-auto-session/start'' ''k'' ?q
      (attempting StartAction demo_keyed (5 * second) (hw_module demo_before)) (Some demo_cut_store) # hw_calls ?w"
    using demo_call [OF w] demo_calm_simps(3) [OF w] by simp
  have stored: "untimed (da_home_auto_session (sv_data demo_cut_store)) =
    persisted_state demo_home_env (attempting StartAction demo_keyed (5 * second) (hw_module demo_before))"
    by (simp add: demo_cut_store_def)
  have q: "ss_dedupe ?q = ''start-646967657374''" "ss_trigger ?q = ''n''" "trim_space (ss_dedupe ?q) \<noteq> []"
    using demo_candidate_key by (simp_all add: start_request_of_def demo_candidate_start_def position_transition_def)
  have "hc_reconcile (hm_config (hw_module (new_home demo_home_env (demo_home_io (6 * second)) demo_home_config
      (Some demo_cut_store) None True)))"
    by (simp add: demo_new_fields(4) [OF refl]) (simp add: demo_home_config_def)
  note result = home_retries_same_key [OF call stored q(3) this,
    where hist = "[(demo_home_io (6 * second), HomeTick ''startup'')]" and io' = "demo_home_io (6 * second)"]
  show ?thesis
    by (rule exI [of _ ?q], rule conjI [OF q(2) conjI [OF q(1) result]]) simp
qed

section \<open>States\<close>

text \<open>
  C40. The state the module shows after a decision is true of it. It is disabled exactly when it is switched off, and
  misconfigured exactly when the configuration is invalid; else a degraded module has a reason, one in cooldown is in a
  wait, and all others are not in the wait after a failure: an active one has a session (or was just told of a
  start without a session id), one about to start or stop has no session or has one, and a candidate whose debounce
  time runs, and a ready one matches the mode and has no session (or its stop is put off as the receiver is not
  paired, or left out as a duplicate). The control state agrees, the published status shows the state and the
  session of the module, and the module that calls the cloud shows the pending start or stop.
\<close>
theorem home_states_truthful:
  "case decision hx io s w of
     None \<Rightarrow> hw_calls (home_do hx io s w) = hw_calls w
   | Some (now, trigger, m) \<Rightarrow> truthful hx now (home_do hx io s w)
       \<and> (\<exists>new. hw_calls (home_do hx io s w) = new @ hw_calls w \<and> list_all shows_attempt new)"
proof (cases "decision hx io s w")
  case (Some d)
  obtain now trigger m where d: "d = (now, trigger, m)" by (cases d) auto
  obtain new where "hw_calls (home_do hx io s w) = new @ hw_calls w" "\<forall>c \<in> set new. call_ok hx c"
    using step_calls [of hx io w s] by (auto simp: calls_added_def)
  then show ?thesis
    using truthful_evaluate decision_evaluates [OF Some [unfolded d]]
    by (auto simp: Some d list_all_iff intro: call_shows)
qed (simp add: undecided_calls)

lemma home_states_truthful_witness:
  "truthful demo_home_env (5 * second) (home_do demo_home_env (demo_home_io (5 * second)) (HomeTick ''tick'') demo_before)"
  using home_states_truthful [of demo_home_env "demo_home_io (5 * second)" "HomeTick ''tick''" demo_before]
  by (simp add: decision_def demo_home_io_def Let_def del: home_do.simps)

end
