(* ===== verification/Preparing.thy ===== *)
theory Preparing
  imports MeshFrames ClockAttestation
begin

unbundle bit_operations_syntax

text \<open>
  Preparing an event for delivery (\<open>internal/receiverevents/prepare.go\<close>): the identity of a delivery, a UUID of
  version 7, and the canonical bytes that are stored and sent. JSON encoding, JCS, the contract and SHA-256 are
  parameters; an event is a JSON object.
\<close>

section \<open>UUIDs\<close>

datatype prepare_error = NoEvent | BadDeliveryId | OutOfRange | EntropyFailed | EncodeEvent | CopyEvent
  | OtherDelivery | Canonicalize | ContractViolated

definition uuid_text :: "string \<Rightarrow> string" where
  "uuid_text h = take 8 h @ ''-'' @ take 4 (drop 8 h) @ ''-'' @ take 4 (drop 12 h) @ ''-'' @ take 4 (drop 16 h)
     @ ''-'' @ take 12 (drop 20 h)"

text \<open>The two bytes that carry version and variant.\<close>

definition version_byte :: "8 word \<Rightarrow> 8 word" where "version_byte b = (b AND 0x0f) OR 0x70"
definition variant_byte :: "8 word \<Rightarrow> 8 word" where "variant_byte b = (b AND 0x3f) OR 0x80"

definition uuid_bytes :: "nat \<Rightarrow> bytes \<Rightarrow> bytes" where
  "uuid_bytes millis e =
     map (\<lambda>k. word_of_nat (millis div 2 ^ (8 * (5 - k)))) [0 ..< 6]
     @ [version_byte (e ! 6), e ! 7, variant_byte (e ! 8)] @ drop 9 e"

text \<open>The reader gives the 16 bytes or fails; \<open>UnixMilli\<close> rounds down.\<close>

definition new_uuid7 :: "time \<Rightarrow> bytes option \<Rightarrow> prepare_error + string" where
  "new_uuid7 now entropy =
     (let millis = now div millisecond in
      if millis < 0 \<or> 2 ^ 48 - 1 < millis then Inl OutOfRange
      else case entropy of
        None \<Rightarrow> Inl EntropyFailed
      | Some e \<Rightarrow> Inr (uuid_text (hex_bytes (uuid_bytes (nat millis) e))))"

definition is_uuid7 :: "unicode \<Rightarrow> string \<Rightarrow> bool" where
  "is_uuid7 u v \<longleftrightarrow>
     length v = 36 \<and> v = to_lower u v \<and> v ! 8 = CHR ''-'' \<and> v ! 13 = CHR ''-'' \<and> v ! 18 = CHR ''-'' \<and> v ! 23 = CHR ''-''
     \<and> v ! 14 = CHR ''7'' \<and> v ! 19 \<in> {CHR ''8'', CHR ''9'', CHR ''a'', CHR ''b''}
     \<and> (case hex_decode (filter (\<lambda>c. c \<noteq> CHR ''-'') v) of None \<Rightarrow> False | Some bs \<Rightarrow> length bs = 16)"

section \<open>Preparing\<close>

record prepare_env =
  px_unicode :: unicode
  px_copy :: "(string \<rightharpoonup> json) \<Rightarrow> prepare_error + (string \<rightharpoonup> json)"
  px_format :: "(string \<rightharpoonup> json) \<Rightarrow> string option"
  px_valid :: "string \<Rightarrow> bool"
  px_digest :: "string \<Rightarrow> bytes"

record prepared =
  pd_id :: string
  pd_envelope :: string
  pd_sha256 :: string

definition prepare_with_id :: "prepare_env \<Rightarrow> (string \<rightharpoonup> json) option \<Rightarrow> string \<Rightarrow> prepare_error + prepared" where
  "prepare_with_id px event i =
     (case event of
        None \<Rightarrow> Inl NoEvent
      | Some ev \<Rightarrow>
          if \<not> is_uuid7 (px_unicode px) i then Inl BadDeliveryId
          else case px_copy px ev of
            Inl e \<Rightarrow> Inl e
          | Inr copied \<Rightarrow>
              if (case copied ''deliveryId'' of None \<Rightarrow> False | Some x \<Rightarrow> x \<noteq> JString [] \<and> x \<noteq> JString i)
              then Inl OtherDelivery
              else case px_format px (copied(''deliveryId'' \<mapsto> JString i)) of
                None \<Rightarrow> Inl Canonicalize
              | Some raw \<Rightarrow>
                  if \<not> px_valid px raw then Inl ContractViolated
                  else Inr \<lparr> pd_id = i, pd_envelope = raw, pd_sha256 = hex_bytes (px_digest px raw) \<rparr>)"

definition prepare_event ::
  "prepare_env \<Rightarrow> (string \<rightharpoonup> json) option \<Rightarrow> time \<Rightarrow> bytes option \<Rightarrow> prepare_error + prepared" where
  "prepare_event px event now entropy =
     (case new_uuid7 now entropy of Inl e \<Rightarrow> Inl e | Inr i \<Rightarrow> prepare_with_id px event i)"

section \<open>New identities are accepted\<close>

lemma hex_chars:
  "list_all (\<lambda>n. hex_char n \<noteq> CHR ''-'' \<and> lower_char (hex_char n) = hex_char n \<and> (of_char (hex_char n) :: nat) < 128) [0 ..< 16]"
  by code_simp

lemma hex_char_facts:
  assumes "n < 16"
  shows "hex_char n \<noteq> CHR ''-''" "lower_char (hex_char n) = hex_char n" "(of_char (hex_char n) :: nat) < 128"
  using hex_chars assms unfolding list_all_iff set_upt by (metis atLeastLessThan_iff zero_le)+

lemma hex_char_marks:
  "hex_char 7 = CHR ''7''" "hex_char 8 = CHR ''8''" "hex_char 9 = CHR ''9''" "hex_char 10 = CHR ''a''" "hex_char 11 = CHR ''b''"
  by code_simp+

lemma hex_bytes_chars: "c \<in> set (hex_bytes bs) \<Longrightarrow> \<exists>n < 16. c = hex_char n"
proof (induction bs)
  case (Cons b bs)
  have "unat b div 16 < 16" "unat b mod 16 < 16" using unat_byte_less [of b] by (auto simp del: unat_byte_less)
  moreover have "c = hex_char (unat b div 16) \<or> c = hex_char (unat b mod 16) \<or> c \<in> set (hex_bytes bs)"
    using Cons.prems by (simp add: hex_bytes_def)
  ultimately show ?case using Cons.IH by blast
qed (simp add: hex_bytes_def)

lemma hex_bytes_nth: "k < length bs \<Longrightarrow> hex_bytes bs ! (2 * k) = hex_char (unat (bs ! k) div 16)"
proof (induction bs arbitrary: k)
  case (Cons b bs)
  then show ?case by (cases k) (auto simp: hex_bytes_def)
qed simp

lemma uuid_text_length: "length h = 32 \<Longrightarrow> length (uuid_text h) = 36"
  by (simp add: uuid_text_def)

lemma uuid_text_nth:
  assumes "length h = 32"
  shows "uuid_text h ! 8 = CHR ''-''" "uuid_text h ! 13 = CHR ''-''" "uuid_text h ! 18 = CHR ''-''"
    "uuid_text h ! 23 = CHR ''-''" "uuid_text h ! 14 = h ! 12" "uuid_text h ! 19 = h ! 16"
  using assms by (simp_all add: uuid_text_def nth_append)

lemma uuid_text_set: "set (uuid_text h) \<subseteq> insert (CHR ''-'') (set h)"
  by (auto simp: uuid_text_def dest: in_set_takeD in_set_dropD)

lemma uuid_text_pieces:
  assumes "length h = 32"
  shows "take 8 h @ take 4 (drop 8 h) @ take 4 (drop 12 h) @ take 4 (drop 16 h) @ take 12 (drop 20 h) = h"
  using assms take_add [of 8 4 h] take_add [of 12 4 h] take_add [of 16 4 h] take_add [of 20 12 h] by simp

lemma uuid_text_digits:
  assumes "length h = 32" "CHR ''-'' \<notin> set h"
  shows "filter (\<lambda>c. c \<noteq> CHR ''-'') (uuid_text h) = h"
proof -
  have keep: "filter (\<lambda>c. c \<noteq> CHR ''-'') (take m (drop n h)) = take m (drop n h)" for m n
    using assms(2) by (auto simp: filter_id_conv dest: in_set_takeD in_set_dropD)
  show ?thesis
    using keep [of 8 0] keep [of 4 8] keep [of 4 12] keep [of 4 16] keep [of 12 20] uuid_text_pieces [OF assms(1)]
    by (simp add: uuid_text_def)
qed

lemma uuid_bytes_length: "length e = 16 \<Longrightarrow> length (uuid_bytes m e) = 16"
  by (simp add: uuid_bytes_def)

lemma version_byte_high: "unat (version_byte b) div 16 = 7"
proof -
  have "drop_bit 4 (version_byte b) = 7" by (simp add: version_byte_def drop_bit_or drop_bit_and)
  then show ?thesis using unat_drop_bit_eq [of 4 "version_byte b"] by (simp add: drop_bit_eq_div)
qed

lemma variant_byte_high: "unat (variant_byte b) div 16 \<in> {8, 9, 10, 11}"
proof -
  have high: "drop_bit 4 (variant_byte b) = (drop_bit 4 b AND 3) OR 8"
    by (simp add: variant_byte_def drop_bit_or drop_bit_and)
  have low: "x AND 3 \<in> {0, 1, 2, 3}" for x :: "8 word"
  proof -
    have "unat (x AND 3) = unat x mod 4"
    proof -
      have "x AND 3 = take_bit 2 x" by (simp add: take_bit_eq_mask mask_eq_exp_minus_1)
      also have "... = x mod 4" by (simp add: take_bit_eq_mod)
      finally show ?thesis by (simp add: unat_mod)
    qed
    then have "unat (x AND 3) = 0 \<or> unat (x AND 3) = 1 \<or> unat (x AND 3) = 2 \<or> unat (x AND 3) = 3" by linarith
    then show ?thesis by (auto simp: word_unat_eq_iff)
  qed
  have "drop_bit 4 (variant_byte b) \<in> {8, 9, 10, 11}" unfolding high using low [of "drop_bit 4 b"] by auto
  then show ?thesis using unat_drop_bit_eq [of 4 "variant_byte b"] by (auto simp: drop_bit_eq_div)
qed

lemma uuid_bytes_marks:
  assumes "length e = 16"
  shows "uuid_bytes m e ! 6 = version_byte (e ! 6)" "uuid_bytes m e ! 8 = variant_byte (e ! 8)"
  by (simp_all add: uuid_bytes_def nth_append)

lemma new_uuid7_accepted:
  assumes "new_uuid7 now (Some e) = Inr v" "length e = 16"
  shows "is_uuid7 u v"
proof -
  define bs where "bs = uuid_bytes (nat (now div millisecond)) e"
  define h where "h = hex_bytes bs"
  have v: "v = uuid_text h" using assms(1) by (simp add: new_uuid7_def h_def bs_def Let_def split: if_splits)
  have bs: "length bs = 16" using uuid_bytes_length [OF assms(2)] by (simp add: bs_def)
  then have h: "length h = 32" by (simp add: h_def)
  have chars: "\<exists>n < 16. c = hex_char n" if "c \<in> set h" for c using that hex_bytes_chars by (simp add: h_def)
  have dash: "CHR ''-'' \<notin> set h" using chars hex_char_facts(1) by metis
  have ascii: "(of_char c :: nat) < 128 \<and> lower_char c = c" if "c \<in> set v" for c
  proof (cases "c = CHR ''-''")
    case False
    then have "c \<in> set h" using that uuid_text_set v by blast
    then show ?thesis using chars hex_char_facts by metis
  qed (simp add: lower_char_def Let_def)
  then have "to_lower u v = v" by (simp add: to_lower_def ascii_only_def list_all_iff map_idI)
  moreover have "h ! 12 = CHR ''7''"
    using hex_bytes_nth [of 6 bs] uuid_bytes_marks(1) [OF assms(2)] bs version_byte_high
    by (simp add: h_def bs_def hex_char_marks)
  moreover have "h ! 16 \<in> {CHR ''8'', CHR ''9'', CHR ''a'', CHR ''b''}"
    using hex_bytes_nth [of 8 bs] uuid_bytes_marks(2) [OF assms(2)] bs variant_byte_high [of "e ! 8"]
    by (auto simp: h_def bs_def hex_char_marks)
  ultimately show ?thesis
    using h bs by (simp add: is_uuid7_def v uuid_text_length uuid_text_nth uuid_text_digits [OF h dash]) (simp add: h_def)
qed

text \<open>A fresh identity is therefore never refused: preparing fails only in what the parameters decide.\<close>

lemma prepare_never_bad_id:
  "length e = 16 \<Longrightarrow> (\<And>ev. px_copy px ev \<noteq> Inl BadDeliveryId) \<Longrightarrow> prepare_event px event now (Some e) \<noteq> Inl BadDeliveryId"
  using new_uuid7_accepted [of now e]
  by (auto simp: prepare_event_def prepare_with_id_def new_uuid7_def Let_def split: option.split sum.split)

end
