(* ===== verification/Leases.thy ===== *)
theory Leases
  imports GoPrelude
begin

text \<open>
  Leases of serial devices (\<open>internal/protocoladapter/lease.go\<close>) and the reservation of the configured ones
  (\<open>internal/runtime/serial_reservations.go\<close>). The functions of \<open>path/filepath\<close> and the file system are parameters.

  \<open>Acquire\<close> returns a function that gives the lease back; here it is a handle: \<open>None\<close> for the function that does
  nothing, else the number of the grant. The registry remembers which grants were given back.
\<close>

section \<open>Paths\<close>

datatype lstat_outcome = PathPresent | PathAbsent | StatFailed

record path_env =
  pe_clean :: "string \<Rightarrow> string"
  pe_abs :: "string \<Rightarrow> string option"
  pe_lstat :: "string \<Rightarrow> lstat_outcome"
  pe_resolve :: "string \<Rightarrow> string option"
  pe_dir :: "string \<Rightarrow> string"
  pe_base :: "string \<Rightarrow> string"
  pe_join :: "string \<Rightarrow> string \<Rightarrow> string"

text \<open>The loop from a path to its parents, until one exists; a parent is shorter, so the length is fuel enough.\<close>

fun resolve_existing :: "path_env \<Rightarrow> nat \<Rightarrow> string \<Rightarrow> string \<Rightarrow> string list \<Rightarrow> string option" where
  "resolve_existing pe 0 absolute current remaining = None"
| "resolve_existing pe (Suc n) absolute current remaining =
     (case pe_lstat pe current of
        PathPresent \<Rightarrow> Some (case pe_resolve pe current of
            None \<Rightarrow> absolute
          | Some r \<Rightarrow> pe_clean pe (foldl (pe_join pe) r remaining))
      | StatFailed \<Rightarrow> Some absolute
      | PathAbsent \<Rightarrow>
          if pe_dir pe current = current then Some absolute
          else resolve_existing pe n absolute (pe_dir pe current) (pe_base pe current # remaining))"

definition normalize_device_path :: "path_env \<Rightarrow> string \<Rightarrow> string option" where
  "normalize_device_path pe path =
     (let path = trim_space path in
      if path = [] then Some []
      else case pe_abs pe (pe_clean pe path) of
        None \<Rightarrow> Some (pe_clean pe path)
      | Some absolute \<Rightarrow> resolve_existing pe (Suc (length absolute)) absolute absolute [])"

lemma resolve_returns:
  assumes "\<And>p. pe_dir pe p \<noteq> p \<Longrightarrow> length (pe_dir pe p) < length p"
  shows "length current < n \<Longrightarrow> \<exists>r. resolve_existing pe n absolute current remaining = Some r"
proof (induction n arbitrary: current remaining)
  case (Suc n)
  have "length (pe_dir pe current) < n" if "pe_dir pe current \<noteq> current"
    using assms [OF that] Suc.prems by simp
  then show ?case using Suc.IH by (simp split: lstat_outcome.split)
qed simp

lemma normalize_returns:
  assumes "\<And>p. pe_dir pe p \<noteq> p \<Longrightarrow> length (pe_dir pe p) < length p"
  shows "\<exists>r. normalize_device_path pe path = Some r"
  using resolve_returns [OF assms]
  by (simp add: normalize_device_path_def Let_def del: resolve_existing.simps split: option.split)

section \<open>The registry\<close>

record grant =
  gr_path :: string
  gr_owner :: string
  gr_released :: bool

record lease_registry =
  lr_owners :: "string \<rightharpoonup> string"
  lr_grants :: "grant list"

datatype lease_error = PathRequired | AdapterRequired | LeasedBy string

definition new_registry :: lease_registry where
  "new_registry = \<lparr> lr_owners = Map.empty, lr_grants = [] \<rparr>"

text \<open>Reading a Go map gives the empty string for a missing key.\<close>

definition owner_of :: "lease_registry \<Rightarrow> string \<Rightarrow> string" where
  "owner_of r p = (case lr_owners r p of None \<Rightarrow> [] | Some a \<Rightarrow> a)"

definition acquire_lease ::
  "string \<Rightarrow> string \<Rightarrow> lease_registry \<Rightarrow> (lease_error + nat option) \<times> lease_registry" where
  "acquire_lease path adapter r =
     (let a = trim_space adapter in
      if path = [] then (Inl PathRequired, r)
      else if a = [] then (Inl AdapterRequired, r)
      else if owner_of r path \<noteq> []
      then (if owner_of r path = a then (Inr None, r) else (Inl (LeasedBy (owner_of r path)), r))
      else (Inr (Some (length (lr_grants r))),
            r\<lparr> lr_owners := (lr_owners r)(path \<mapsto> a),
               lr_grants := lr_grants r @ [\<lparr> gr_path = path, gr_owner = a, gr_released = False \<rparr>] \<rparr>))"

definition release_lease :: "nat option \<Rightarrow> lease_registry \<Rightarrow> lease_registry" where
  "release_lease h r =
     (case h of
        None \<Rightarrow> r
      | Some n \<Rightarrow>
          if \<not> n < length (lr_grants r) \<or> gr_released (lr_grants r ! n) then r
          else let g = lr_grants r ! n; r' = r\<lparr> lr_grants := (lr_grants r)[n := g\<lparr> gr_released := True \<rparr>] \<rparr>
            in if owner_of r (gr_path g) = gr_owner g
               then r'\<lparr> lr_owners := (lr_owners r)(gr_path g := None) \<rparr> else r')"

fun unleased :: "lease_registry \<Rightarrow> string list \<Rightarrow> string list" where
  "unleased r [] = []"
| "unleased r (p # ps) = (if p = [] \<or> owner_of r p \<noteq> [] then unleased r ps else p # unleased r ps)"

section \<open>Reserving\<close>

text \<open>All or nothing: a conflict gives back what was acquired before it, last first.\<close>

definition release_all :: "nat option list \<Rightarrow> lease_registry \<Rightarrow> lease_registry" where
  "release_all hs r = fold release_lease (rev hs) r"

fun reserve_paths ::
  "(string \<times> string) list \<Rightarrow> nat option list \<Rightarrow> lease_registry \<Rightarrow> (lease_error + nat option list) \<times> lease_registry" where
  "reserve_paths [] hs r = (Inr hs, r)"
| "reserve_paths ((path, owner) # rest) hs r =
     (case acquire_lease path owner r of
        (Inl e, r') \<Rightarrow> (Inl e, release_all hs r')
      | (Inr h, r') \<Rightarrow> reserve_paths rest (hs @ [h]) r')"

text \<open>\<open>strings.EqualFold\<close> is given: only on ASCII is it equality of lower case.\<close>

definition configured_paths ::
  "(string \<Rightarrow> string \<Rightarrow> bool) \<Rightarrow> unicode \<Rightarrow> (string \<Rightarrow> string) \<Rightarrow> string \<Rightarrow> string \<Rightarrow> string \<Rightarrow> string \<Rightarrow> (string \<times> string) list" where
  "configured_paths fold_equal u norm core_transport core_device tastic_transport tastic_device =
     (let t = to_lower u (trim_space tastic_transport) in
      (if fold_equal (trim_space core_transport) ''physical_serial'' then [(norm core_device, ''meshcore'')] else [])
      @ (if (t = ''serial'' \<or> t = ''bridge'') \<and> trim_space tastic_device \<noteq> [] then [(norm tastic_device, ''meshtastic'')] else []))"

definition reserve_configured ::
  "(string \<times> string) list \<Rightarrow> lease_registry \<Rightarrow> (lease_error + nat option list) \<times> lease_registry" where
  "reserve_configured paths r = reserve_paths paths [] r"

section \<open>What the registry guarantees\<close>

text \<open>Grants that were not given back own their path, and a path has one open grant.\<close>

definition registry_ok :: "lease_registry \<Rightarrow> bool" where
  "registry_ok r \<longleftrightarrow>
     (\<forall>n < length (lr_grants r). \<not> gr_released (lr_grants r ! n) \<longrightarrow>
        lr_owners r (gr_path (lr_grants r ! n)) = Some (gr_owner (lr_grants r ! n)) \<and> gr_owner (lr_grants r ! n) \<noteq> [])
     \<and> (\<forall>m < length (lr_grants r). \<forall>n < length (lr_grants r).
        \<not> gr_released (lr_grants r ! m) \<longrightarrow> \<not> gr_released (lr_grants r ! n) \<longrightarrow>
        gr_path (lr_grants r ! m) = gr_path (lr_grants r ! n) \<longrightarrow> m = n)
     \<and> (\<forall>p a. lr_owners r p = Some a \<longrightarrow> a \<noteq> [])"

lemma registry_new: "registry_ok new_registry"
  by (simp add: registry_ok_def new_registry_def)

lemma owner_free: "registry_ok r \<Longrightarrow> owner_of r p = [] \<longleftrightarrow> lr_owners r p = None"
  by (auto simp: registry_ok_def owner_of_def split: option.split)

lemma acquire_cases:
  assumes "acquire_lease path adapter r = (x, r')"
  obtains (refused) e where "x = Inl e" "r' = r"
  | (shared) "x = Inr None" "r' = r"
  | (granted) "x = Inr (Some (length (lr_grants r)))" "owner_of r path = []" "trim_space adapter \<noteq> []"
    "r' = r\<lparr> lr_owners := (lr_owners r)(path \<mapsto> trim_space adapter),
       lr_grants := lr_grants r @ [\<lparr> gr_path = path, gr_owner = trim_space adapter, gr_released = False \<rparr>] \<rparr>"
proof -
  consider "path = []" | "path \<noteq> []" "trim_space adapter = []"
    | "path \<noteq> []" "trim_space adapter \<noteq> []" "owner_of r path \<noteq> []" "owner_of r path = trim_space adapter"
    | "path \<noteq> []" "trim_space adapter \<noteq> []" "owner_of r path \<noteq> []" "owner_of r path \<noteq> trim_space adapter"
    | "path \<noteq> []" "trim_space adapter \<noteq> []" "owner_of r path = []" by blast
  then show thesis
  proof cases
    case 3
    then show thesis using assms by (intro shared) (simp_all add: acquire_lease_def)
  next
    case 5
    then show thesis using assms by (intro granted) (simp_all add: acquire_lease_def Let_def)
  next
    case 1
    then show thesis using assms by (intro refused [of PathRequired]) (simp_all add: acquire_lease_def)
  next
    case 2
    then show thesis using assms by (intro refused [of AdapterRequired]) (simp_all add: acquire_lease_def)
  next
    case 4
    then show thesis using assms by (intro refused [of "LeasedBy (owner_of r path)"]) (auto simp: acquire_lease_def)
  qed
qed

definition open_grant :: "lease_registry \<Rightarrow> nat \<Rightarrow> bool" where
  "open_grant r n \<longleftrightarrow> n < length (lr_grants r) \<and> \<not> gr_released (lr_grants r ! n)"

lemma registry_ok_iff: "registry_ok r \<longleftrightarrow>
   (\<forall>n. open_grant r n \<longrightarrow> lr_owners r (gr_path (lr_grants r ! n)) = Some (gr_owner (lr_grants r ! n)) \<and> gr_owner (lr_grants r ! n) \<noteq> [])
   \<and> (\<forall>m n. open_grant r m \<longrightarrow> open_grant r n \<longrightarrow> gr_path (lr_grants r ! m) = gr_path (lr_grants r ! n) \<longrightarrow> m = n)
   \<and> (\<forall>p a. lr_owners r p = Some a \<longrightarrow> a \<noteq> [])"
  by (auto simp: registry_ok_def open_grant_def)

lemma granted_ok:
  assumes "registry_ok r" "owner_of r path = []" "a \<noteq> []"
    "r' = r\<lparr> lr_owners := (lr_owners r)(path \<mapsto> a),
       lr_grants := lr_grants r @ [\<lparr> gr_path = path, gr_owner = a, gr_released = False \<rparr>] \<rparr>"
  shows "registry_ok r'"
proof -
  have free: "lr_owners r path = None" using assms(1,2) by (simp add: owner_free)
  have grants: "open_grant r' n \<longleftrightarrow> open_grant r n \<or> n = length (lr_grants r)" for n
    by (auto simp: open_grant_def assms(4) nth_append)
  have old: "open_grant r n \<Longrightarrow> lr_grants r' ! n = lr_grants r ! n" for n
    by (simp add: open_grant_def assms(4) nth_append)
  have new: "gr_path (lr_grants r' ! length (lr_grants r)) = path" "gr_owner (lr_grants r' ! length (lr_grants r)) = a"
    by (simp_all add: assms(4))
  have owners: "lr_owners r' = (lr_owners r)(path \<mapsto> a)" by (simp add: assms(4))
  have apart: "open_grant r n \<Longrightarrow> gr_path (lr_grants r ! n) \<noteq> path" for n
    using assms(1) free by (auto simp: registry_ok_iff)
  show ?thesis
    unfolding registry_ok_iff
  proof (intro conjI allI impI)
    fix n assume n: "open_grant r' n"
    show "lr_owners r' (gr_path (lr_grants r' ! n)) = Some (gr_owner (lr_grants r' ! n))"
    proof (cases "open_grant r n")
      case True
      then show ?thesis using assms(1) by (simp add: old apart owners registry_ok_iff)
    next
      case False
      then have "n = length (lr_grants r)" using n by (simp add: grants)
      then show ?thesis by (simp add: new owners)
    qed
    show "gr_owner (lr_grants r' ! n) \<noteq> []"
    proof (cases "open_grant r n")
      case True
      then show ?thesis using assms(1) by (simp add: old registry_ok_iff)
    next
      case False
      then have "n = length (lr_grants r)" using n by (simp add: grants)
      then show ?thesis using assms(3) by (simp add: new)
    qed
  next
    fix m n assume h: "open_grant r' m" "open_grant r' n" "gr_path (lr_grants r' ! m) = gr_path (lr_grants r' ! n)"
    consider "open_grant r m" "open_grant r n" | "open_grant r m" "n = length (lr_grants r)"
      | "m = length (lr_grants r)" "open_grant r n" | "m = n" using h(1,2) unfolding grants by blast
    then show "m = n"
    proof cases
      case 1
      then have "gr_path (lr_grants r ! m) = gr_path (lr_grants r ! n)" using h(3) by (simp add: old)
      then show ?thesis using 1 assms(1) unfolding registry_ok_iff by blast
    next
      case 2
      then show ?thesis using h(3) apart [of m] by (simp add: old new)
    next
      case 3
      then show ?thesis using h(3) apart [of n] by (simp add: old new)
    qed
  next
    fix p b assume "lr_owners r' p = Some b"
    then show "b \<noteq> []" using assms(1,3) unfolding owners registry_ok_iff by (cases "p = path") auto
  qed
qed

lemma acquire_ok:
  assumes "registry_ok r" "acquire_lease path adapter r = (x, r')"
  shows "registry_ok r'"
  using assms(2) by (cases rule: acquire_cases) (use assms(1) granted_ok in \<open>simp_all\<close>)

text \<open>What giving an open grant back does: its owner still holds the path then.\<close>

lemma release_open:
  assumes "registry_ok r"
  shows "release_lease (Some n) r =
    (if open_grant r n
     then r\<lparr> lr_grants := (lr_grants r)[n := (lr_grants r ! n)\<lparr> gr_released := True \<rparr>],
            lr_owners := (lr_owners r)(gr_path (lr_grants r ! n) := None) \<rparr>
     else r)"
  using assms by (auto simp: release_lease_def open_grant_def registry_ok_def owner_of_def Let_def)

lemma release_ok:
  assumes "registry_ok r"
  shows "registry_ok (release_lease h r)"
proof (cases h)
  case (Some n)
  show ?thesis
  proof (cases "open_grant r n")
    case True
    let ?r = "release_lease (Some n) r"
    have r: "?r = r\<lparr> lr_grants := (lr_grants r)[n := (lr_grants r ! n)\<lparr> gr_released := True \<rparr>],
            lr_owners := (lr_owners r)(gr_path (lr_grants r ! n) := None) \<rparr>"
      using True by (simp add: release_open [OF assms])
    have g: "open_grant ?r m \<longleftrightarrow> open_grant r m \<and> m \<noteq> n" "m \<noteq> n \<Longrightarrow> lr_grants ?r ! m = lr_grants r ! m" for m
      using True by (auto simp: r open_grant_def nth_list_update)
    have ow: "lr_owners ?r = (lr_owners r)(gr_path (lr_grants r ! n) := None)" by (simp add: r)
    have apart: "open_grant r m \<Longrightarrow> m \<noteq> n \<Longrightarrow> gr_path (lr_grants r ! m) \<noteq> gr_path (lr_grants r ! n)" for m
      using assms True by (auto simp: registry_ok_iff)
    show ?thesis
      unfolding Some registry_ok_iff g ow using assms apart g(2) by (auto simp: registry_ok_iff)
  qed (use assms in \<open>simp add: Some release_open\<close>)
qed (use assms in \<open>simp add: release_lease_def\<close>)

text \<open>No adapter gets a path that another one holds, and giving a lease back frees at most the path of its grant.\<close>

lemma acquire_excludes:
  assumes "fst (acquire_lease path adapter r) = Inr h" "owner_of r path \<noteq> []"
  shows "owner_of r path = trim_space adapter"
  using assms by (auto simp: acquire_lease_def Let_def split: if_splits)

lemma release_frees_own:
  assumes "registry_ok r" "lr_owners (release_lease (Some n) r) p \<noteq> lr_owners r p"
  shows "n < length (lr_grants r) \<and> \<not> gr_released (lr_grants r ! n) \<and> p = gr_path (lr_grants r ! n)"
  using assms by (auto simp: release_lease_def Let_def split: if_splits)

text \<open>A reservation that fails leaves the owners as they were.\<close>

lemma release_more:
  "n < length (lr_grants r) \<Longrightarrow> release_lease (Some n) (r\<lparr> lr_grants := lr_grants r @ gs \<rparr>)
   = (release_lease (Some n) r)\<lparr> lr_grants := lr_grants (release_lease (Some n) r) @ gs \<rparr>"
  by (simp add: release_lease_def owner_of_def nth_append list_update_append Let_def)

lemma release_grants: "length (lr_grants (release_lease h r)) = length (lr_grants r)"
  by (simp add: release_lease_def Let_def split: option.split)

lemma release_all_more:
  "\<forall>n. Some n \<in> set hs \<longrightarrow> n < length (lr_grants r) \<Longrightarrow>
   lr_owners (fold release_lease hs (r\<lparr> lr_grants := lr_grants r @ gs \<rparr>)) = lr_owners (fold release_lease hs r)"
proof (induction hs arbitrary: r)
  case (Cons h hs)
  show ?case
  proof (cases h)
    case None
    then show ?thesis using Cons by (simp add: release_lease_def)
  next
    case (Some n)
    then show ?thesis
      using Cons.IH [of "release_lease (Some n) r"] Cons.prems by (simp add: release_more release_grants)
  qed
qed simp

lemma reserve_paths_clean:
  "reserve_paths paths hs r = (Inl e, r') \<Longrightarrow> registry_ok r \<Longrightarrow> \<forall>n. Some n \<in> set hs \<longrightarrow> n < length (lr_grants r)
   \<Longrightarrow> lr_owners r' = lr_owners (release_all hs r)"
proof (induction paths hs r rule: reserve_paths.induct)
  case (2 path owner rest hs r)
  obtain x r1 where a: "acquire_lease path owner r = (x, r1)" by fastforce
  then show ?case
  proof (cases rule: acquire_cases)
    case (refused e)
    then show ?thesis using 2 a by simp
  next
    case shared
    then have "lr_owners r' = lr_owners (release_all (hs @ [None]) r)"
      using "2.IH" "2.prems" a by simp
    then show ?thesis by (simp add: release_all_def release_lease_def)
  next
    case granted
    have ok: "registry_ok r1" using granted_ok [OF "2.prems"(2) granted(2-4)] .
    have "lr_owners r' = lr_owners (release_all (hs @ [Some (length (lr_grants r))]) r1)"
      using "2.IH" "2.prems" a granted ok by (simp add: less_SucI)
    also have "release_lease (Some (length (lr_grants r))) r1
        = r\<lparr> lr_grants := lr_grants r @ [\<lparr> gr_path = path, gr_owner = trim_space owner, gr_released = True \<rparr>] \<rparr>"
      using granted(2) owner_free [OF "2.prems"(2), of path]
      by (simp add: release_lease_def granted(3,4) owner_of_def Let_def fun_upd_idem)
    ultimately show ?thesis
      using release_all_more [of "rev hs" r] "2.prems"(3) by (simp add: release_all_def)
  qed
qed simp

lemma reserve_fails_clean:
  "registry_ok r \<Longrightarrow> reserve_configured paths r = (Inl e, r') \<Longrightarrow> lr_owners r' = lr_owners r"
  using reserve_paths_clean [of paths "[]" r e r'] by (simp add: reserve_configured_def release_all_def)

text \<open>
  An adapter that acquires a path it holds gets a handle that does nothing, and giving the first one back frees the
  path for others although the second was never given back.
\<close>

lemma second_lease_lost:
  "(let r1 = snd (acquire_lease ''/d'' ''a'' new_registry); r2 = snd (acquire_lease ''/d'' ''a'' r1);
        r3 = release_lease (Some 0) r2
    in fst (acquire_lease ''/d'' ''a'' new_registry) = Inr (Some 0) \<and> fst (acquire_lease ''/d'' ''a'' r1) = Inr None
       \<and> fst (acquire_lease ''/d'' ''b'' r3) = Inr (Some 1))"
proof -
  have "trim_space ''a'' = ''a''" "trim_space ''b'' = ''b''" by (simp_all add: trim_space_visible)
  then show ?thesis by (simp add: acquire_lease_def release_lease_def new_registry_def owner_of_def Let_def)
qed

end
