(* ===== verification/Updates.thy ===== *)
theory Updates
  imports GoPrelude
begin

text \<open>
  Update checks (\<open>internal/update/semver.go\<close>, \<open>internal/update/checker.go\<close> and the manifest fragment of
  \<open>internal/manifest/fragment.go\<close>): parsing and comparing versions, choosing an artifact, and what a check reports.

  Errors whose text is not looked at are \<open>None\<close>. Parameters are the HTTP client, the two JSON decodings and the
  quoting of \<open>%q\<close>.
\<close>

section \<open>Versions\<close>

record version =
  vn_major :: int
  vn_minor :: int
  vn_patch :: int
  vn_pre :: "string list"

definition parse_version_part :: "string \<Rightarrow> int option" where
  "parse_version_part v = (let v = trim_space v in if v = [] then None else atoi v)"

text \<open>The text up to the first separator, and the one after it.\<close>

definition cut_before :: "char \<Rightarrow> string \<Rightarrow> string" where
  "cut_before c s = takeWhile (\<lambda>x. x \<noteq> c) s"

definition cut_after :: "char \<Rightarrow> string \<Rightarrow> string" where
  "cut_after c s = tl (dropWhile (\<lambda>x. x \<noteq> c) s)"

definition parse_version :: "unicode \<Rightarrow> string \<Rightarrow> version option" where
  "parse_version u raw =
     (let trimmed = trim_space raw; lowered = to_lower u trimmed;
          bare = (case strip_prefix ''v'' lowered of None \<Rightarrow> lowered | Some rest \<Rightarrow> rest)
      in if trimmed = [] \<or> bare = [] then None
         else
           let whole = cut_before (CHR ''+'') bare; core = cut_before (CHR ''-'') whole; pre = cut_after (CHR ''-'') whole;
               parts = split_on (CHR ''.'') core
           in if length parts < 2 \<or> 3 < length parts then None
              else (case (parse_version_part (parts ! 0), parse_version_part (parts ! 1)) of
                (Some major, Some minor) \<Rightarrow>
                  (case if length parts = 3 then parse_version_part (parts ! 2) else Some 0 of
                     None \<Rightarrow> None
                   | Some patch \<Rightarrow> Some \<lparr> vn_major = major, vn_minor = minor, vn_patch = patch,
                       vn_pre = (if pre = [] then [] else split_on (CHR ''.'') pre) \<rparr>)
              | _ \<Rightarrow> None))"

definition compare_int :: "int \<Rightarrow> int \<Rightarrow> int" where
  "compare_int a b = (if a < b then - 1 else if b < a then 1 else 0)"

text \<open>Go compares strings byte by byte.\<close>

fun text_before :: "string \<Rightarrow> string \<Rightarrow> bool" where
  "text_before s [] = False"
| "text_before [] (d # t) = True"
| "text_before (c # s) (d # t) =
     ((of_char c :: nat) < of_char d \<or> c = d \<and> text_before s t)"

definition compare_identifier :: "string \<Rightarrow> string \<Rightarrow> int" where
  "compare_identifier x y =
     (case (atoi x, atoi y) of
        (Some a, Some b) \<Rightarrow> compare_int a b
      | (Some _, None) \<Rightarrow> - 1
      | (None, Some _) \<Rightarrow> 1
      | (None, None) \<Rightarrow> if text_before x y then - 1 else 1)"

text \<open>The loop over the identifiers: the first pair of different texts decides, whatever their comparison is.\<close>

fun compare_pre :: "string list \<Rightarrow> string list \<Rightarrow> int" where
  "compare_pre [] [] = 0"
| "compare_pre [] (y # ys) = - 1"
| "compare_pre (x # xs) [] = 1"
| "compare_pre (x # xs) (y # ys) = (if x = y then compare_pre xs ys else compare_identifier x y)"

definition compare_version :: "version \<Rightarrow> version \<Rightarrow> int" where
  "compare_version a b =
     (if vn_major a \<noteq> vn_major b then compare_int (vn_major a) (vn_major b)
      else if vn_minor a \<noteq> vn_minor b then compare_int (vn_minor a) (vn_minor b)
      else if vn_patch a \<noteq> vn_patch b then compare_int (vn_patch a) (vn_patch b)
      else if vn_pre a = [] \<and> vn_pre b = [] then 0
      else if vn_pre a = [] then 1
      else if vn_pre b = [] then - 1
      else compare_pre (vn_pre a) (vn_pre b))"

definition compare_versions :: "unicode \<Rightarrow> string \<Rightarrow> string \<Rightarrow> int option" where
  "compare_versions u l r =
     (case (parse_version u l, parse_version u r) of
        (Some a, Some b) \<Rightarrow> Some (compare_version a b)
      | _ \<Rightarrow> None)"

section \<open>The manifest\<close>

record artifact =
  af_platform :: string
  af_arch :: string
  af_kind :: string
  af_format :: string
  af_filename :: string
  af_url :: string
  af_sha256 :: string
  af_size :: int
  af_recommended :: bool

record fragment =
  fg_schema :: string
  fg_version :: string
  fg_channel :: string
  fg_artifacts :: "artifact list"

definition parse_fragment :: "(string \<Rightarrow> string + fragment) \<Rightarrow> string \<Rightarrow> string + fragment" where
  "parse_fragment decode payload =
     (case decode payload of
        Inl e \<Rightarrow> Inl e
      | Inr f \<Rightarrow>
          if trim_space (fg_version f) = [] then Inl ''manifest receiverVersion is required''
          else Inr (if trim_space (fg_channel f) = [] then f\<lparr> fg_channel := ''stable'' \<rparr> else f))"

definition artifact_matches :: "unicode \<Rightarrow> string \<Rightarrow> string \<Rightarrow> string \<Rightarrow> artifact \<Rightarrow> bool" where
  "artifact_matches u platform arch kind a \<longleftrightarrow>
     (let norm = (\<lambda>s. to_lower u (trim_space s)) in
      norm (af_platform a) = norm platform \<and> norm (af_arch a) = norm arch
      \<and> (norm kind \<noteq> [] \<longrightarrow> norm (af_kind a) = norm kind))"

definition select_artifact :: "unicode \<Rightarrow> fragment \<Rightarrow> string \<Rightarrow> string \<Rightarrow> string \<Rightarrow> artifact option" where
  "select_artifact u f platform arch kind =
     (case filter (artifact_matches u platform arch kind) (fg_artifacts f) of
        [] \<Rightarrow> None
      | a # rest \<Rightarrow> Some (case find af_recommended rest of None \<Rightarrow> a | Some b \<Rightarrow> b))"

section \<open>Checks\<close>

datatype freshness = UpUnknown | UpDisabled | UpCurrent | UpOutdated | UpChannelMismatch | UpUnsupported | UpAhead

record update_config =
  uc_enabled :: bool
  uc_url :: string
  uc_interval :: duration
  uc_timeout :: duration
  uc_min_supported :: string

record installed =
  in_version :: string
  in_channel :: string
  in_platform :: string
  in_arch :: string
  in_type :: string

record update_result =
  uo_status :: freshness
  uo_summary :: string
  uo_hint :: string
  uo_manifest_version :: string
  uo_manifest_channel :: string
  uo_recommended :: string
  uo_checked_at :: time
  uo_error :: string

definition blank_update :: update_result where
  "blank_update = \<lparr> uo_status = UpUnknown, uo_summary = [], uo_hint = [], uo_manifest_version = [],
     uo_manifest_channel = [], uo_recommended = [], uo_checked_at = zero_time, uo_error = [] \<rparr>"

text \<open>The response to the request for the manifest: its status, and its body as far as it could be read.\<close>

record update_env =
  ue_unicode :: unicode
  ue_quote :: "string \<Rightarrow> string"
  ue_fetch :: "string \<Rightarrow> string + int \<times> string \<times> string option"
  ue_decode :: "string \<Rightarrow> string + fragment"
  ue_object :: "string \<Rightarrow> string option"

definition new_checker :: "update_config \<Rightarrow> update_config" where
  "new_checker c =
     c\<lparr> uc_interval := (if uc_interval c \<le> 0 then 6 * hour else uc_interval c),
        uc_timeout := (if uc_timeout c \<le> 0 then 4 * second else uc_timeout c) \<rparr>"

definition should_check :: "update_config \<Rightarrow> time \<Rightarrow> time option \<Rightarrow> bool" where
  "should_check c now checked =
     (let never = (case checked of None \<Rightarrow> True | Some t \<Rightarrow> is_zero t) in
      if \<not> uc_enabled c \<or> trim_space (uc_url c) = [] then never
      else never \<or> (case checked of None \<Rightarrow> True | Some t \<Rightarrow> \<not> now < t + uc_interval c))"

definition normalize_channel :: "unicode \<Rightarrow> string \<Rightarrow> string" where
  "normalize_channel u channel = (let v = to_lower u (trim_space channel) in if v = [] then ''stable'' else v)"

definition normalize_platform :: "unicode \<Rightarrow> string \<Rightarrow> string" where
  "normalize_platform u platform =
     (let v = to_lower u (trim_space platform) in
      if v = ''darwin'' then ''macos'' else if v = ''raspberrypi'' \<or> v = ''pi'' then ''raspberry_pi'' else v)"

definition normalize_arch :: "unicode \<Rightarrow> string \<Rightarrow> string" where
  "normalize_arch u arch =
     (let v = to_lower u (trim_space arch) in if v = ''arm'' \<or> v = ''armhf'' then ''armv7'' else v)"

definition sanitize_err :: "string \<Rightarrow> string" where
  "sanitize_err e = take 256 (trim_space e)"

definition fetch_manifest :: "update_env \<Rightarrow> string \<Rightarrow> string + fragment" where
  "fetch_manifest ue url =
     (case ue_fetch ue url of
        Inl e \<Rightarrow> Inl e
      | Inr (status, body, failed) \<Rightarrow>
          if status < 200 \<or> 300 \<le> status
          then Inl (''manifest fetch failed status='' @ itoa status @ '' body='' @ trim_space (take 2048 body))
          else case failed of
            Some e \<Rightarrow> Inl e
          | None \<Rightarrow>
              let payload = take (2 * 1024 * 1024) body in
              case parse_fragment (ue_decode ue) payload of
                Inl e \<Rightarrow> Inl e
              | Inr f \<Rightarrow> (case ue_object ue payload of Some e \<Rightarrow> Inl e | None \<Rightarrow> Inr f))"

definition evaluate_update :: "update_env \<Rightarrow> installed \<Rightarrow> fragment \<Rightarrow> string \<Rightarrow> update_result" where
  "evaluate_update ue i f min_supported =
     (let u = ue_unicode ue; v = trim_space (in_version i); ic = normalize_channel u (in_channel i);
          mc = normalize_channel u (fg_channel f);
          r = blank_update\<lparr> uo_manifest_version := trim_space (fg_version f), uo_manifest_channel := mc,
                             uo_recommended := trim_space (fg_version f) \<rparr>;
          report = (\<lambda>st summary hint. r\<lparr> uo_status := st, uo_summary := summary, uo_hint := hint \<rparr>);
          least = trim_space min_supported
      in if v = []
         then report UpUnknown ''Installed receiver version is not available''
                ''Rebuild or reinstall receiver with version metadata.''
         else if least \<noteq> [] \<and> (case compare_versions u v least of None \<Rightarrow> False | Some c \<Rightarrow> c < 0)
         then report UpUnsupported ''Installed receiver version is below minimum supported version''
                ''Upgrade receiver to a supported release before continuing normal operations.''
         else if select_artifact u f (normalize_platform u (in_platform i)) (normalize_arch u (in_arch i)) [] = None
         then report UpUnsupported ''No compatible artifact for this platform/arch in update manifest''
                ''Check receiver channel selection and artifact publication for this install type.''
         else case compare_versions u v (fg_version f) of
           None \<Rightarrow> report UpUnknown ''Installed or recommended version could not be compared''
                     ''Ensure semantic version format is used in build and manifest metadata.''
         | Some c \<Rightarrow>
             if ic \<noteq> [] \<and> mc \<noteq> [] \<and> ic \<noteq> mc
             then report UpChannelMismatch ''Installed receiver channel does not match manifest channel''
                    (''Installed channel '' @ ue_quote ue ic @ '' differs from manifest channel '' @ ue_quote ue mc @ ''.'')
             else if c < 0
             then report UpOutdated ''Receiver is behind recommended release''
                    ''Upgrade receiver using the supported package release path.''
             else if 0 < c
             then report UpAhead ''Receiver is newer than manifest recommendation''
                    ''This is expected for beta/dev testing; confirm intended channel.''
             else report UpCurrent ''Receiver is on the recommended release'' ''No update action required.'')"

definition check_update :: "update_env \<Rightarrow> update_config \<Rightarrow> time \<Rightarrow> installed \<Rightarrow> update_result" where
  "check_update ue c now i =
     (let url = trim_space (uc_url c) in
      if \<not> uc_enabled c
      then blank_update\<lparr> uo_status := UpDisabled, uo_summary := ''Update checks are disabled in config'',
             uo_hint := ''Enable update checks and configure update.manifest_url to evaluate release freshness.'',
             uo_checked_at := now \<rparr>
      else if url = []
      then blank_update\<lparr> uo_status := UpUnknown, uo_summary := ''Update manifest URL is not configured'',
             uo_hint := ''Set update.manifest_url to enable update-status reasoning.'', uo_checked_at := now \<rparr>
      else case fetch_manifest ue url of
        Inl e \<Rightarrow> blank_update\<lparr> uo_status := UpUnknown, uo_summary := ''Update manifest could not be loaded'',
             uo_hint := ''Receiver stays online; retry later or verify manifest URL and network connectivity.'',
             uo_checked_at := now, uo_error := sanitize_err e \<rparr>
      | Inr f \<Rightarrow> (evaluate_update ue i f (uc_min_supported c))\<lparr> uo_checked_at := now \<rparr>)"

section \<open>Comparing versions\<close>

text \<open>Exchanging the versions exchanges the result.\<close>

lemma compare_int_swap: "compare_int b a = - compare_int a b"
  by (simp add: compare_int_def)

lemma text_before_total: "x \<noteq> y \<Longrightarrow> text_before x y \<longleftrightarrow> \<not> text_before y x"
proof (induction x y rule: text_before.induct)
  case (3 c s d t)
  have "(of_char c :: nat) < of_char d \<or> (of_char d :: nat) < of_char c \<or> c = d"
    using of_char_eq_iff [where 'a = nat, of c d] by linarith
  with 3 show ?case by fastforce
next
  case (1 s)
  then show ?case by (cases s) auto
qed simp

lemma compare_identifier_swap: "x \<noteq> y \<Longrightarrow> compare_identifier y x = - compare_identifier x y"
  using text_before_total [of x y] by (simp add: compare_identifier_def compare_int_def split: option.split)

lemma compare_pre_swap: "compare_pre ys xs = - compare_pre xs ys"
proof (induction xs ys rule: compare_pre.induct)
  case (4 x xs y ys)
  then show ?case using compare_identifier_swap [of x y] by simp
qed simp_all

lemma compare_version_swap: "compare_version b a = - compare_version a b"
  using compare_pre_swap [of "vn_pre b" "vn_pre a"] by (simp add: compare_version_def compare_int_def)

lemma compare_versions_swap: "compare_versions u r l = map_option uminus (compare_versions u l r)"
  by (cases "parse_version u l"; cases "parse_version u r")
    (simp_all add: compare_versions_def, rule compare_version_swap)

text \<open>
  Between lists whose numeric identifiers are written in one way only, the comparison tells all different lists
  apart.
\<close>

definition canonical_ids :: "string list \<Rightarrow> string list \<Rightarrow> bool" where
  "canonical_ids xs ys \<longleftrightarrow> (\<forall>x \<in> set xs. \<forall>y \<in> set ys. atoi x = atoi y \<longrightarrow> atoi x \<noteq> None \<longrightarrow> x = y)"

text \<open>Otherwise it does not, and is not transitive: 1.1 is before 1.2, but both count as equal to 01.1.\<close>

lemma compare_pre_not_transitive:
  "compare_pre [''1'', ''1''] [''01'', ''1''] = 0 \<and> compare_pre [''01'', ''1''] [''1'', ''2''] = 0
   \<and> compare_pre [''1'', ''1''] [''1'', ''2''] = - 1"
  by (simp add: compare_identifier_def atoi_def parse_digits_def digit_value_def compare_int_def Let_def)

lemma compare_pre_zero: "canonical_ids xs ys \<Longrightarrow> compare_pre xs ys = 0 \<longleftrightarrow> xs = ys"
proof (induction xs ys rule: compare_pre.induct)
  case (4 x xs y ys)
  then show ?case
    by (auto simp: canonical_ids_def compare_identifier_def compare_int_def split: option.splits if_splits)
qed auto

section \<open>What is reported\<close>

lemma select_artifact_sound:
  assumes "select_artifact u f p a k = Some x"
  shows "x \<in> set (fg_artifacts f)" "artifact_matches u p a k x"
    "\<exists>y \<in> set (fg_artifacts f). artifact_matches u p a k y \<and> af_recommended y \<Longrightarrow> af_recommended x"
proof -
  define ms where "ms = filter (artifact_matches u p a k) (fg_artifacts f)"
  obtain m rest where ms: "ms = m # rest" "x = (case find af_recommended rest of None \<Rightarrow> m | Some b \<Rightarrow> b)"
    using assms by (cases ms) (auto simp: select_artifact_def ms_def)
  have "x \<in> set ms" using ms by (auto simp: find_Some_iff split: option.splits)
  then show "x \<in> set (fg_artifacts f)" "artifact_matches u p a k x" by (auto simp: ms_def)
  assume "\<exists>y \<in> set (fg_artifacts f). artifact_matches u p a k y \<and> af_recommended y"
  then have "\<exists>y \<in> set ms. af_recommended y" by (auto simp: ms_def)
  then show "af_recommended x" using ms by (auto simp: find_None_iff find_Some_iff split: option.splits)
qed

text \<open>A receiver is told that it is current only when its version compares as equal, its channel is the one of the
  manifest, an artifact fits it, and it is not known to be below the minimum.\<close>

lemma current_justified:
  assumes "uo_status (check_update ue c now i) = UpCurrent"
  shows "\<exists>f. fetch_manifest ue (trim_space (uc_url c)) = Inr f
    \<and> compare_versions (ue_unicode ue) (trim_space (in_version i)) (fg_version f) = Some 0
    \<and> normalize_channel (ue_unicode ue) (in_channel i) = normalize_channel (ue_unicode ue) (fg_channel f)
    \<and> select_artifact (ue_unicode ue) f (normalize_platform (ue_unicode ue) (in_platform i))
        (normalize_arch (ue_unicode ue) (in_arch i)) [] \<noteq> None
    \<and> (trim_space (uc_min_supported c) \<noteq> [] \<longrightarrow>
        \<not> (\<exists>n < 0. compare_versions (ue_unicode ue) (trim_space (in_version i)) (trim_space (uc_min_supported c)) = Some n))"
proof -
  obtain f where f: "fetch_manifest ue (trim_space (uc_url c)) = Inr f"
    "uo_status (evaluate_update ue i f (uc_min_supported c)) = UpCurrent"
    using assms by (auto simp: check_update_def blank_update_def Let_def split: if_splits sum.splits)
  have "normalize_channel u s \<noteq> []" for u s by (simp add: normalize_channel_def Let_def)
  with f show ?thesis
    by (intro exI [of _ f]) (auto simp: evaluate_update_def Let_def split: if_splits option.splits)
qed

end
