(* ===== verification/Spec2Isabelle.thy ===== *)
theory Spec2Isabelle
  imports DispatchProps Engine ClockAttestation RotationProps CloudProps PairingProps MeshProps TrackingProps HomeProps
    Preparing Leases Updates
begin

text \<open>
  Verification of the LoRaMapr receiver (Go, \<open>src/\<close>): a daemon that reads LoRa mesh radios (MeshCore and
  Meshtastic), stores what it hears in a durable outbox and delivers it to the LoRaMapr cloud.

  \<^bold>\<open>How the parts work together.\<close> An adapter talks to a radio; what it hears becomes an event that is prepared
  (identity, canonical bytes) and staged at the outbox engine, whose writer goroutine runs every transaction of
  the outbox store. The dispatcher takes the next due delivery, posts it through the cloud client with
  the credentials of the durable state and settles it. Pairing obtains those credentials; a new pairing of a bound
  installation rotates the identity over both stores. The tracking controller polls a MeshCore node through the
  telemetry arbiter of the adapter. The home auto session module watches positions and starts and stops sessions in the
  cloud. The status model shows all of this.

  \<^bold>\<open>Theories and sources\<close> (under \<open>src/internal/\<close>); a record stands for a struct with its fields in order, a datatype
  for an enumeration, a definition for the function of the same name in the manifest's map.
    \<^item> \<open>GoPrelude\<close>, \<open>BigEndian\<close>: results, time and durations, strings, trimming and case, decimal numbers, byte order.
    \<^item> \<open>Bolt\<close>: the interface of a bbolt bucket as a locale, with two implementations (a red-black tree and a write log).
    \<^item> \<open>OutboxTypes\<close>, \<open>OutboxTx\<close>, \<open>OutboxStore\<close> (\<open>outbox/types.go\<close>, \<open>outbox/store.go\<close>): data, transaction bodies, exported
      operations and opening. \<open>OutboxInv\<close>, \<open>OutboxEffects\<close>: well-formedness and the effect of each transaction on the
      maps a database means. \<open>OutboxOrder\<close>, \<open>OutboxRecords\<close>, \<open>OutboxRestart\<close>, \<open>OutboxBinding\<close>: order of delivery, records that
      never change, restarts, bindings, pauses and bounds. \<open>OutboxOrigin\<close>: where live deliveries come from and which calls write the
      rotation journal. \<open>OutboxSystem\<close>, \<open>OutboxProps\<close>: reachable stores and properties.
    \<^item> \<open>Engine\<close> (\<open>outbox/engine.go\<close>): staging and the writer in any interleaving. \<open>Dispatch\<close>, \<open>DispatchProps\<close>
      (\<open>receiverevents/dispatch.go\<close>): one dispatch with the calls of others in between.
    \<^item> \<open>Preparing\<close> (\<open>receiverevents/prepare.go\<close>): delivery identities and canonical bytes.
    \<^item> \<open>ClockAttestation\<close> (\<open>clockattestation/clock.go\<close>).
    \<^item> \<open>StateTypes\<close>, \<open>StateStore\<close>, \<open>StateProps\<close> (\<open>state/state.go\<close>): the state file with migration, generations and each
      failure of a write. \<open>Rotation\<close>, \<open>RotationProps\<close> (\<open>runtime/installation_rotation.go\<close>).
    \<^item> \<open>StatusModel\<close> (\<open>status/model.go\<close>), with the failure log it implements.
    \<^item> \<open>CloudTypes\<close>, \<open>CloudClient\<close>, \<open>CloudProps\<close> (\<open>cloudclient/\<close>), composed with the dispatcher.
    \<^item> \<open>Pairing\<close>, \<open>PairingProps\<close> (\<open>pairing/manager.go\<close>): the manager, its step relation and histories over both stores.
    \<^item> \<open>MeshFrames\<close>, \<open>MeshPacket\<close>, \<open>MeshSession\<close>, \<open>MeshTelemetry\<close>, \<open>MeshArbiter\<close>, \<open>MeshSystem\<close>, \<open>MeshAnswers\<close>, \<open>MeshProps\<close>
      (\<open>meshcore/\<close>): serial frames, packets and adverts, the handshake, telemetry, the arbiter and the reader.
    \<^item> \<open>Tracking\<close>, \<open>TrackingProps\<close> (\<open>meshcore/tracking.go\<close>).
    \<^item> \<open>HomeTypes\<close>, \<open>HomeModule\<close>, \<open>HomeControl\<close> (\<open>homeautosession/module.go\<close>): data and pure functions, state and positions,
      decisions and calls. \<open>HomeGuards\<close>, \<open>HomeRetries\<close>, \<open>HomeReplay\<close>, \<open>HomeDecisions\<close>, \<open>HomeEvidence\<close>, \<open>HomeStates\<close>: guards
      of calls, failed calls, restarts, what bars a decision from calling, what a start rests on, what a state shown
      means. \<open>HomeDemo\<close>, \<open>HomeProps\<close>: a concrete outing and the properties.
    \<^item> \<open>Leases\<close> (\<open>protocoladapter/lease.go\<close>, \<open>runtime/serial_reservations.go\<close>) and \<open>Updates\<close> (\<open>update/\<close>,
      \<open>manifest/fragment.go\<close>).

  \<^bold>\<open>State and effects.\<close> State is a record that operations return changed; an error is a value of a sum, so every early
  return is a branch. A goroutine or a lock's critical section is a step, and the properties quantify over all
  histories of steps. Outcomes of the outside (a write, a network call, entropy, the clock) are given to the step that
  meets them. A call reads the clock once, except where the code compares two readings. Counters are unbounded
  integers; lengths, sequence numbers and bytes of formats keep their width; durations saturate in
  \<open>Time.Sub\<close> and wrap where the code computes with them (\<open>wrap64\<close>).

  \<^bold>\<open>Parameters,\<close> for code that is not in the repository: bbolt (its promises are the assumptions of the locale), JSON
  encoding and decoding with the sizes of texts, JCS, SHA-256, Ed25519, the Unicode case tables, net/url, the network,
  parsing and formatting of times, the file system and its paths, and floating-point distance, speed, product and
  difference (comparisons of floats are modelled on their bits). Hypotheses on parameters state what the
  documentation of that code promises; each is met by a concrete instance in a witness.

  \<^bold>\<open>Fuel and bounds.\<close> Loops are structural recursion or have a measure, except: \<open>replace_from\<close> runs on the length of
  the text, which every step shortens; \<open>resolve_existing\<close> runs on the length of the path, and \<open>resolve_returns\<close> shows it
  is enough where a parent directory is shorter than its child; trimming recurses on the text.

  \<^bold>\<open>What the properties show.\<close> Outbox: no call loses or rewrites a delivery, order, restart, bounds, bindings and pauses.
  Dispatch, engine and client: only own deliveries are posted (but one enqueued between reconciliation and choice), a
  delivery leaves only when the cloud acknowledged exactly it, errors are settled as classified, each with other
  goroutines acting in between. State and rotation: atomic updates, upgrades, generations, recovery from every crash.
  Pairing: refinement of its phases, waits, cleared credentials, a new identity that leaves no old delivery but those enqueued
  meanwhile. MeshCore: exact frames, trust, verified
  adverts, exact telemetry, answers that are given once and rest on frames that name their request. Tracking: pacing in whole
  seconds and justified resets. Home auto session: guarded calls, starts that rest on observed departures, repeated starts
  with the same key, waiting and blocking after failures through whole histories, states that are true of the module.

  \<^bold>\<open>Not modelled.\<close> The service and the commands that wire the parts (\<open>runtime/service.go\<close>, \<open>cmd/\<close>) are goroutines,
  timers and log lines around them. The web portal, diagnostics, configuration file, release tools, logging and
  service installation format and forward. Device access (terminals, BlueZ over D-Bus, the Meshtastic stream with its
  generated protocol buffers) is system calls and third-party decoding; the Meshtastic adapter and the reconnection and
  publishing of the MeshCore adapter supervise them. The normalizers assemble JSON for the cloud. The lock timeout of
  bbolt and log lines are left out of the modelled parts.
\<close>

end
